(* ===== verification/Prelude.thy ===== *)
theory Prelude
  imports Main
begin

text \<open>
  Shared vocabulary of the development: the identifiers and the \<open>Result\<close> type that every
  crate of the workspace uses, the standard-library idioms that the modelled code relies on
  (\<open>Iterator::min_by_key\<close>, insertion-ordered de-duplication through a \<open>HashSet\<close>,
  saturating and wrapping \<open>u64\<close> arithmetic), and two interfaces, \<open>invariant_system\<close> and
  \<open>monotone_system\<close>, through which the components lift one-step facts to runs of operations.
\<close>

section \<open>Fact collections\<close>

named_theorems result_simps \<open>equations about \<open>Ok\<close>/\<open>Err\<close> plumbing\<close>
named_theorems list_idioms \<open>facts about the iterator idioms of the source\<close>
named_theorems wf_intros \<open>introduction rules for well-formedness invariants\<close>

section \<open>Identifiers\<close>

text \<open>
  \<open>uuid::Uuid\<close> values are compared and hashed, and in two places written out as sixteen
  bytes; they are natural numbers here (below \<open>2 ^ 128\<close> where bytes matter). Event ids and
  public keys only ever appear through their lowercase hexadecimal form, so they are strings.
\<close>

type_synonym uuid = nat
type_synonym community_id = nat
type_synonym hex_string = string
type_synonym byte = nat

section \<open>Result\<close>

datatype ('e, 'a) result = Err 'e | Ok 'a

text \<open>The \<open>?\<close> operator: stop at the first error.\<close>

fun bind_result :: "('e, 'a) result \<Rightarrow> ('a \<Rightarrow> ('e, 'b) result) \<Rightarrow> ('e, 'b) result" where
  "bind_result (Err e) f = Err e"
| "bind_result (Ok x) f = f x"

fun is_ok :: "('e, 'a) result \<Rightarrow> bool" where
  "is_ok (Ok _) = True"
| "is_ok (Err _) = False"

lemma bind_result_Ok [result_simps]:
  "bind_result r f = Ok y \<longleftrightarrow> (\<exists>x. r = Ok x \<and> f x = Ok y)"
  by (cases r) auto

lemma bind_result_Err [result_simps]:
  "bind_result r f = Err e \<longleftrightarrow> r = Err e \<or> (\<exists>x. r = Ok x \<and> f x = Err e)"
  by (cases r) auto

lemma is_ok_iff [result_simps]: "is_ok r \<longleftrightarrow> (\<exists>x. r = Ok x)"
  by (cases r) auto

definition ok_or :: "'a option \<Rightarrow> 'e \<Rightarrow> ('e, 'a) result" where
  "ok_or x e = (case x of None \<Rightarrow> Err e | Some y \<Rightarrow> Ok y)"

lemma ok_or_Ok [result_simps]: "ok_or x e = Ok y \<longleftrightarrow> x = Some y"
  by (simp add: ok_or_def split: option.split)

definition map_err :: "('e \<Rightarrow> 'f) \<Rightarrow> ('e, 'a) result \<Rightarrow> ('f, 'a) result" where
  "map_err f r = (case r of Err e \<Rightarrow> Err (f e) | Ok x \<Rightarrow> Ok x)"

lemma map_err_Ok [result_simps]: "map_err f r = Ok x \<longleftrightarrow> r = Ok x"
  by (simp add: map_err_def split: result.split)

lemma if_Err_Ok [result_simps]:
  "(if P then Err e else r) = Ok x \<longleftrightarrow> \<not> P \<and> r = Ok x"
  "(if P then r else Err e) = Ok x \<longleftrightarrow> P \<and> r = Ok x"
  by auto

section \<open>Iterator idioms\<close>

text \<open>\<open>Iterator::min_by_key\<close>: the first element with the least key.\<close>

fun min_by_key :: "('a \<Rightarrow> 'k::linorder) \<Rightarrow> 'a list \<Rightarrow> 'a option" where
  "min_by_key f [] = None"
| "min_by_key f (x # xs) =
     (case min_by_key f xs of
        None \<Rightarrow> Some x
      | Some y \<Rightarrow> if f y < f x then Some y else Some x)"

lemma min_by_key_None [list_idioms, simp]: "min_by_key f xs = None \<longleftrightarrow> xs = []"
  by (cases xs) (auto split: option.splits)

lemma min_by_key_Some [list_idioms]:
  "min_by_key f xs = Some x \<Longrightarrow> x \<in> set xs \<and> (\<forall>y \<in> set xs. f x \<le> f y)"
proof (induction xs arbitrary: x)
  case Nil
  then show ?case by simp
next
  case (Cons a xs)
  show ?case
  proof (cases "min_by_key f xs")
    case None
    with Cons.prems show ?thesis by (auto split: option.splits)
  next
    case (Some y)
    with Cons.IH [of y] Cons.prems show ?thesis
      by (force split: if_splits)
  qed
qed

text \<open>
  \<open>if seen.insert(x.clone()) { out.push(x) }\<close> over a list: the distinct elements, in order of
  their first occurrence.
\<close>

definition push_unseen :: "'a \<Rightarrow> 'a list \<Rightarrow> 'a list" where
  "push_unseen x out = (if x \<in> set out then out else out @ [x])"

definition dedup_first :: "'a list \<Rightarrow> 'a list" where
  "dedup_first xs = fold push_unseen xs []"

lemma set_push_unseen [simp]: "set (push_unseen x out) = insert x (set out)"
  by (auto simp: push_unseen_def)

lemma distinct_push_unseen: "distinct out \<Longrightarrow> distinct (push_unseen x out)"
  by (simp add: push_unseen_def)

lemma set_fold_push_unseen: "set (fold push_unseen xs out) = set out \<union> set xs"
  by (induction xs arbitrary: out) auto

lemma distinct_fold_push_unseen: "distinct out \<Longrightarrow> distinct (fold push_unseen xs out)"
  by (induction xs arbitrary: out) (auto simp: distinct_push_unseen)

lemma set_dedup_first [list_idioms, simp]: "set (dedup_first xs) = set xs"
  by (simp add: dedup_first_def set_fold_push_unseen)

lemma distinct_dedup_first [list_idioms, simp]: "distinct (dedup_first xs)"
  by (simp add: dedup_first_def distinct_fold_push_unseen)

text \<open>\<open>Iterator::position\<close>: the index of the first element that satisfies the predicate.\<close>

fun position :: "('a \<Rightarrow> bool) \<Rightarrow> 'a list \<Rightarrow> nat option" where
  "position p [] = None"
| "position p (x # xs) = (if p x then Some 0 else map_option Suc (position p xs))"

lemma position_None [list_idioms]: "position p xs = None \<longleftrightarrow> (\<forall>x \<in> set xs. \<not> p x)"
  by (induction xs) auto

lemma position_Some [list_idioms]:
  "position p xs = Some i \<Longrightarrow> i < length xs \<and> p (xs ! i)"
  by (induction xs arbitrary: i) (auto split: if_splits)

lemma position_append_new [list_idioms]:
  "\<forall>x \<in> set xs. \<not> p x \<Longrightarrow> p y \<Longrightarrow> position p (xs @ [y]) = Some (length xs)"
  by (induction xs) auto

text \<open>\<open>Vec::remove(pos)\<close> on an index known to be in range.\<close>

definition remove_at :: "nat \<Rightarrow> 'a list \<Rightarrow> 'a list" where
  "remove_at i xs = take i xs @ drop (Suc i) xs"

lemma set_remove_at_subset: "set (remove_at i xs) \<subseteq> set xs"
  by (auto simp: remove_at_def dest: in_set_takeD in_set_dropD)

lemma length_remove_at: "i < length xs \<Longrightarrow> length (remove_at i xs) = length xs - 1"
  by (simp add: remove_at_def)

section \<open>Saturating and wrapping \<open>u64\<close> arithmetic\<close>

definition u64_max :: nat where
  "u64_max = 2 ^ 64 - 1"

definition sat_add64 :: "nat \<Rightarrow> nat \<Rightarrow> nat" where
  "sat_add64 a b = min (a + b) u64_max"

definition wrapping_add64 :: "nat \<Rightarrow> nat \<Rightarrow> nat" where
  "wrapping_add64 a b = (a + b) mod 2 ^ 64"

definition sat_mul64 :: "nat \<Rightarrow> nat \<Rightarrow> nat" where
  "sat_mul64 a b = min (a * b) u64_max"

lemma sat_add64_le: "sat_add64 a b \<le> u64_max"
  by (simp add: sat_add64_def)

lemma wrapping_add64_small: "a + b < 2 ^ 64 \<Longrightarrow> wrapping_add64 a b = a + b"
  by (simp add: wrapping_add64_def)

text \<open>\<open>n as i64\<close> for a \<open>u64\<close> value: two's complement.\<close>

definition as_i64 :: "nat \<Rightarrow> int" where
  "as_i64 n = (if n < 2 ^ 63 then int n else int n - 2 ^ 64)"

lemma as_i64_small: "n < 2 ^ 63 \<Longrightarrow> as_i64 n = int n"
  by (simp add: as_i64_def)

section \<open>Decimal numbers\<close>

text \<open>\<open>str::parse\<close> for the integer types: an optional sign, then at least one digit, and the
  value must fit the type.\<close>

definition is_digit :: "char \<Rightarrow> bool" where
  "is_digit c = (let n = (of_char c :: nat) in 48 \<le> n \<and> n \<le> 57)"

definition digit_value :: "char \<Rightarrow> nat" where
  "digit_value c = of_char c - 48"

definition digits_value :: "string \<Rightarrow> nat" where
  "digits_value s = fold (\<lambda>c n. 10 * n + digit_value c) s 0"

definition parse_digits :: "string \<Rightarrow> nat option" where
  "parse_digits s = (if s \<noteq> [] \<and> list_all is_digit s then Some (digits_value s) else None)"

definition parse_unsigned :: "nat \<Rightarrow> string \<Rightarrow> nat option" where
  "parse_unsigned bound s =
     (case parse_digits (if s \<noteq> [] \<and> hd s = CHR ''+'' then tl s else s) of
        Some n \<Rightarrow> if n \<le> bound then Some n else None
      | None \<Rightarrow> None)"

definition parse_i64 :: "string \<Rightarrow> int option" where
  "parse_i64 s =
     (case s of
        CHR ''-'' # ds \<Rightarrow>
          (case parse_digits ds of
             Some n \<Rightarrow> if n \<le> 2 ^ 63 then Some (- int n) else None
           | None \<Rightarrow> None)
      | _ \<Rightarrow> map_option int (parse_unsigned (2 ^ 63 - 1) s))"

text \<open>\<open>to_string\<close> of an unsigned integer.\<close>

definition digit_char :: "nat \<Rightarrow> char" where
  "digit_char d = char_of (48 + d)"

fun nat_to_string :: "nat \<Rightarrow> string" where
  "nat_to_string n =
     (if n < 10 then [digit_char n] else nat_to_string (n div 10) @ [digit_char (n mod 10)])"

declare nat_to_string.simps [simp del]

lemma is_digit_digit_char: "d < 10 \<Longrightarrow> is_digit (digit_char d)"
  by (simp add: is_digit_def digit_char_def)

lemma digit_value_digit_char: "d < 10 \<Longrightarrow> digit_value (digit_char d) = d"
  by (simp add: digit_value_def digit_char_def)

lemma nat_to_string_digits: "list_all is_digit (nat_to_string n)"
proof (induction n rule: nat_to_string.induct)
  case (1 n)
  then show ?case
    by (subst nat_to_string.simps) (auto simp: is_digit_digit_char)
qed

lemma digits_value_nat_to_string [simp]: "digits_value (nat_to_string n) = n"
proof (induction n rule: nat_to_string.induct)
  case (1 n)
  show ?case
    using 1 by (subst nat_to_string.simps) (auto simp: digits_value_def digit_value_digit_char)
qed

lemma nat_to_string_inject [simp]: "nat_to_string m = nat_to_string n \<longleftrightarrow> m = n"
  by (metis digits_value_nat_to_string)

section \<open>ASCII case\<close>

text \<open>\<open>to_ascii_lowercase\<close> and \<open>eq_ignore_ascii_case\<close> on strings.\<close>

definition ascii_lower_char :: "char \<Rightarrow> char" where
  "ascii_lower_char c =
     (let n = (of_char c :: nat) in if 65 \<le> n \<and> n \<le> 90 then char_of (n + 32) else c)"

definition ascii_lower :: "string \<Rightarrow> string" where
  "ascii_lower s = map ascii_lower_char s"

definition eq_ignore_ascii_case :: "string \<Rightarrow> string \<Rightarrow> bool" where
  "eq_ignore_ascii_case s t = (ascii_lower s = ascii_lower t)"

definition ascii_lowercase :: "string \<Rightarrow> bool" where
  "ascii_lowercase s = (ascii_lower s = s)"

lemma eq_ignore_ascii_case_lowercase:
  "ascii_lowercase s \<Longrightarrow> ascii_lowercase t \<Longrightarrow> eq_ignore_ascii_case s t \<longleftrightarrow> s = t"
  by (simp add: eq_ignore_ascii_case_def ascii_lowercase_def)

text \<open>\<open>is_none_or\<close> and \<open>is_some_and\<close>.\<close>

definition is_none_or :: "('a \<Rightarrow> bool) \<Rightarrow> 'a option \<Rightarrow> bool" where
  "is_none_or p x = (case x of None \<Rightarrow> True | Some y \<Rightarrow> p y)"

definition is_some_and :: "('a \<Rightarrow> bool) \<Rightarrow> 'a option \<Rightarrow> bool" where
  "is_some_and p x = (case x of None \<Rightarrow> False | Some y \<Rightarrow> p y)"

lemma is_none_or_simps [simp]: "is_none_or p None" "is_none_or p (Some y) = p y"
  by (simp_all add: is_none_or_def)

lemma is_some_and_simps [simp]: "\<not> is_some_and p None" "is_some_and p (Some y) = p y"
  by (simp_all add: is_some_and_def)

lemma is_some_and_iff: "is_some_and p x \<longleftrightarrow> (\<exists>y. x = Some y \<and> p y)"
  by (cases x) auto

lemma is_none_or_iff: "is_none_or p x \<longleftrightarrow> (\<forall>y. x = Some y \<longrightarrow> p y)"
  by (cases x) auto

section \<open>Runs of operations\<close>

text \<open>
  A component is a state and a total function that performs one operation on it. What each
  operation keeps, a whole run keeps; what each operation can only increase, a run can only
  increase.
\<close>

locale invariant_system =
  fixes step :: "'op \<Rightarrow> 's \<Rightarrow> 's"
    and inv :: "'s \<Rightarrow> bool"
  assumes step_inv: "inv s \<Longrightarrow> inv (step op s)"
begin

lemma run_inv: "inv s \<Longrightarrow> inv (fold step ops s)"
  by (induction ops arbitrary: s) (auto intro: step_inv)

lemma prefix_inv: "inv s \<Longrightarrow> inv (fold step (take n ops) s)"
  by (rule run_inv)

end

locale monotone_system = invariant_system step inv
  for step :: "'op \<Rightarrow> 's \<Rightarrow> 's" and inv :: "'s \<Rightarrow> bool" +
  fixes level :: "'s \<Rightarrow> 'm::order"
  assumes step_level: "inv s \<Longrightarrow> level s \<le> level (step op s)"
begin

lemma run_level: "inv s \<Longrightarrow> level s \<le> level (fold step ops s)"
proof (induction ops arbitrary: s)
  case Nil
  then show ?case by simp
next
  case (Cons op ops)
  have "level s \<le> level (step op s)" by (rule step_level [OF Cons.prems])
  also have "\<dots> \<le> level (fold step ops (step op s))"
    by (rule Cons.IH) (rule step_inv [OF Cons.prems])
  finally show ?case by simp
qed

end

end
