(* ===== verification/Events.thy ===== *)
theory Events
  imports Strings
begin

text \<open>
  Nostr events as the relay sees them (\<open>nostr::Event\<close> with the relay's own wrapper
  \<open>StoredEvent\<close> of \<open>crates/buzz-core/src/event.rs\<close>). A tag is its raw array of strings
  (\<open>Tag::as_slice\<close>); the source reads the first entry as the tag's kind
  (\<open>tag.kind().to_string()\<close>) and the second as its content (\<open>tag.content()\<close>), which is the
  array layout NIP-01 fixes. Ids and keys are kept in the hexadecimal form the source
  compares; timestamps are seconds.
\<close>

type_synonym kind = nat
type_synonym tag = "string list"

record event =
  ev_id :: hex_string
  ev_pubkey :: hex_string
  ev_created_at :: nat
  ev_kind :: kind
  ev_tags :: "tag list"
  ev_content :: string

record stored_event =
  st_event :: event
  st_received_at :: nat
  st_channel_id :: "uuid option"
  st_verified :: bool

definition stored_event_new :: "nat \<Rightarrow> event \<Rightarrow> uuid option \<Rightarrow> stored_event" where
  "stored_event_new now ev ch =
     \<lparr>st_event = ev, st_received_at = now, st_channel_id = ch, st_verified = False\<rparr>"

definition stored_event_with_received_at ::
    "event \<Rightarrow> nat \<Rightarrow> uuid option \<Rightarrow> bool \<Rightarrow> stored_event" where
  "stored_event_with_received_at ev received ch verified =
     \<lparr>st_event = ev, st_received_at = received, st_channel_id = ch, st_verified = verified\<rparr>"

definition is_verified :: "stored_event \<Rightarrow> bool" where
  "is_verified ev = st_verified ev"

text \<open>The two views of a tag that the source uses.\<close>

definition tag_kind :: "tag \<Rightarrow> string" where
  "tag_kind t = (case t of [] \<Rightarrow> [] | k # _ \<Rightarrow> k)"

definition tag_content :: "tag \<Rightarrow> string option" where
  "tag_content t = (case t of _ # v # _ \<Rightarrow> Some v | _ \<Rightarrow> None)"

lemma tag_kind_Cons [simp]: "tag_kind (k # vs) = k"
  by (simp add: tag_kind_def)

lemma tag_content_Cons [simp]: "tag_content (k # v # vs) = Some v"
  by (simp add: tag_content_def)

lemma tag_content_short [simp]: "tag_content [k] = None" "tag_content [] = None"
  by (simp_all add: tag_content_def)

text \<open>
  \<open>tags.filter(kind).any(|t| t.content() == Some(v))\<close>: some tag of this kind carries the
  value. The filter, the read gate and the subscription index all ask this question.
\<close>

definition has_tag_value :: "event \<Rightarrow> string \<Rightarrow> string \<Rightarrow> bool" where
  "has_tag_value ev k v =
     list_ex (\<lambda>t. tag_content t = Some v) (filter (\<lambda>t. tag_kind t = k) (ev_tags ev))"

lemma has_tag_value_iff:
  "has_tag_value ev k v \<longleftrightarrow> (\<exists>t \<in> set (ev_tags ev). tag_kind t = k \<and> tag_content t = Some v)"
  by (auto simp: has_tag_value_def list_ex_iff)

end
