(* ===== verification/Kinds.thy ===== *)
theory Kinds
  imports Events
begin

text \<open>
  The kind registry, \<open>crates/buzz-core/src/kind.rs\<close>: every kind constant with its value, the
  gated-kind lists, the classification predicates that storage and dispatch switch on, and
  the per-event read gate of shared personas. Kinds are \<open>u32\<close> in the source and are only
  compared, so natural numbers suffice.
\<close>

named_theorems kind_consts \<open>values of the kind constants\<close>

section \<open>Constants\<close>

definition KIND_PROFILE :: kind where KIND_PROFILE_def [kind_consts]: "KIND_PROFILE = 0"
definition KIND_TEXT_NOTE :: kind where KIND_TEXT_NOTE_def [kind_consts]: "KIND_TEXT_NOTE = 1"
definition KIND_CONTACT_LIST :: kind where KIND_CONTACT_LIST_def [kind_consts]: "KIND_CONTACT_LIST = 3"
definition KIND_MUTE_LIST :: kind where KIND_MUTE_LIST_def [kind_consts]: "KIND_MUTE_LIST = 10000"
definition KIND_PIN_LIST :: kind where KIND_PIN_LIST_def [kind_consts]: "KIND_PIN_LIST = 10001"
definition KIND_NIP65_RELAY_LIST_METADATA :: kind where KIND_NIP65_RELAY_LIST_METADATA_def [kind_consts]: "KIND_NIP65_RELAY_LIST_METADATA = 10002"
definition KIND_BOOKMARK_LIST :: kind where KIND_BOOKMARK_LIST_def [kind_consts]: "KIND_BOOKMARK_LIST = 10003"
definition KIND_EMOJI_LIST :: kind where KIND_EMOJI_LIST_def [kind_consts]: "KIND_EMOJI_LIST = 10030"
definition KIND_FOLLOW_SET :: kind where KIND_FOLLOW_SET_def [kind_consts]: "KIND_FOLLOW_SET = 30000"
definition KIND_BOOKMARK_SET :: kind where KIND_BOOKMARK_SET_def [kind_consts]: "KIND_BOOKMARK_SET = 30003"
definition KIND_EMOJI_SET :: kind where KIND_EMOJI_SET_def [kind_consts]: "KIND_EMOJI_SET = 30030"
definition KIND_CHANNEL_METADATA :: kind where KIND_CHANNEL_METADATA_def [kind_consts]: "KIND_CHANNEL_METADATA = 41"
definition KIND_DELETION :: kind where KIND_DELETION_def [kind_consts]: "KIND_DELETION = 5"
definition KIND_REACTION :: kind where KIND_REACTION_def [kind_consts]: "KIND_REACTION = 7"
definition KIND_GIFT_WRAP :: kind where KIND_GIFT_WRAP_def [kind_consts]: "KIND_GIFT_WRAP = 1059"
definition KIND_FILE_METADATA :: kind where KIND_FILE_METADATA_def [kind_consts]: "KIND_FILE_METADATA = 1063"
definition KIND_LONG_FORM :: kind where KIND_LONG_FORM_def [kind_consts]: "KIND_LONG_FORM = 30023"
definition KIND_USER_STATUS :: kind where KIND_USER_STATUS_def [kind_consts]: "KIND_USER_STATUS = 30315"
definition KIND_READ_STATE :: kind where KIND_READ_STATE_def [kind_consts]: "KIND_READ_STATE = 30078"
definition KIND_AUTH :: kind where KIND_AUTH_def [kind_consts]: "KIND_AUTH = 22242"
definition KIND_BLOSSOM_AUTH :: kind where KIND_BLOSSOM_AUTH_def [kind_consts]: "KIND_BLOSSOM_AUTH = 24242"
definition KIND_NOSTR_IDENTITY_BINDING :: kind where KIND_NOSTR_IDENTITY_BINDING_def [kind_consts]: "KIND_NOSTR_IDENTITY_BINDING = 24243"
definition KIND_HTTP_AUTH :: kind where KIND_HTTP_AUTH_def [kind_consts]: "KIND_HTTP_AUTH = 27235"
definition KIND_AGENT_PROFILE :: kind where KIND_AGENT_PROFILE_def [kind_consts]: "KIND_AGENT_PROFILE = 10100"
definition KIND_AGENT_ENGRAM :: kind where KIND_AGENT_ENGRAM_def [kind_consts]: "KIND_AGENT_ENGRAM = 30174"
definition KIND_EVENT_REMINDER :: kind where KIND_EVENT_REMINDER_def [kind_consts]: "KIND_EVENT_REMINDER = 30300"
definition KIND_PUSH_LEASE :: kind where KIND_PUSH_LEASE_def [kind_consts]: "KIND_PUSH_LEASE = 30350"
definition KIND_PERSONA :: kind where KIND_PERSONA_def [kind_consts]: "KIND_PERSONA = 30175"
definition KIND_TEAM :: kind where KIND_TEAM_def [kind_consts]: "KIND_TEAM = 30176"
definition KIND_MANAGED_AGENT :: kind where KIND_MANAGED_AGENT_def [kind_consts]: "KIND_MANAGED_AGENT = 30177"
definition KIND_REPORT :: kind where KIND_REPORT_def [kind_consts]: "KIND_REPORT = 1984"
definition KIND_PRODUCT_FEEDBACK :: kind where KIND_PRODUCT_FEEDBACK_def [kind_consts]: "KIND_PRODUCT_FEEDBACK = 42000"
definition KIND_NIP29_PUT_USER :: kind where KIND_NIP29_PUT_USER_def [kind_consts]: "KIND_NIP29_PUT_USER = 9000"
definition KIND_NIP29_REMOVE_USER :: kind where KIND_NIP29_REMOVE_USER_def [kind_consts]: "KIND_NIP29_REMOVE_USER = 9001"
definition KIND_NIP29_EDIT_METADATA :: kind where KIND_NIP29_EDIT_METADATA_def [kind_consts]: "KIND_NIP29_EDIT_METADATA = 9002"
definition KIND_NIP29_DELETE_EVENT :: kind where KIND_NIP29_DELETE_EVENT_def [kind_consts]: "KIND_NIP29_DELETE_EVENT = 9005"
definition KIND_NIP29_CREATE_GROUP :: kind where KIND_NIP29_CREATE_GROUP_def [kind_consts]: "KIND_NIP29_CREATE_GROUP = 9007"
definition KIND_NIP29_DELETE_GROUP :: kind where KIND_NIP29_DELETE_GROUP_def [kind_consts]: "KIND_NIP29_DELETE_GROUP = 9008"
definition KIND_NIP29_CREATE_INVITE :: kind where KIND_NIP29_CREATE_INVITE_def [kind_consts]: "KIND_NIP29_CREATE_INVITE = 9009"
definition KIND_NIP29_JOIN_REQUEST :: kind where KIND_NIP29_JOIN_REQUEST_def [kind_consts]: "KIND_NIP29_JOIN_REQUEST = 9021"
definition KIND_NIP29_LEAVE_REQUEST :: kind where KIND_NIP29_LEAVE_REQUEST_def [kind_consts]: "KIND_NIP29_LEAVE_REQUEST = 9022"
definition KIND_MODERATION_BAN :: kind where KIND_MODERATION_BAN_def [kind_consts]: "KIND_MODERATION_BAN = 9040"
definition KIND_MODERATION_UNBAN :: kind where KIND_MODERATION_UNBAN_def [kind_consts]: "KIND_MODERATION_UNBAN = 9041"
definition KIND_MODERATION_TIMEOUT :: kind where KIND_MODERATION_TIMEOUT_def [kind_consts]: "KIND_MODERATION_TIMEOUT = 9042"
definition KIND_MODERATION_UNTIMEOUT :: kind where KIND_MODERATION_UNTIMEOUT_def [kind_consts]: "KIND_MODERATION_UNTIMEOUT = 9043"
definition KIND_MODERATION_RESOLVE_REPORT :: kind where KIND_MODERATION_RESOLVE_REPORT_def [kind_consts]: "KIND_MODERATION_RESOLVE_REPORT = 9044"
definition RELAY_ADMIN_ADD_MEMBER :: kind where RELAY_ADMIN_ADD_MEMBER_def [kind_consts]: "RELAY_ADMIN_ADD_MEMBER = 9030"
definition RELAY_ADMIN_REMOVE_MEMBER :: kind where RELAY_ADMIN_REMOVE_MEMBER_def [kind_consts]: "RELAY_ADMIN_REMOVE_MEMBER = 9031"
definition RELAY_ADMIN_CHANGE_ROLE :: kind where RELAY_ADMIN_CHANGE_ROLE_def [kind_consts]: "RELAY_ADMIN_CHANGE_ROLE = 9032"
definition RELAY_ADMIN_SET_WORKSPACE_PROFILE :: kind where RELAY_ADMIN_SET_WORKSPACE_PROFILE_def [kind_consts]: "RELAY_ADMIN_SET_WORKSPACE_PROFILE = 9033"
definition KIND_NIP43_MEMBERSHIP_LIST :: kind where KIND_NIP43_MEMBERSHIP_LIST_def [kind_consts]: "KIND_NIP43_MEMBERSHIP_LIST = 13534"
definition KIND_NIP43_MEMBER_ADDED :: kind where KIND_NIP43_MEMBER_ADDED_def [kind_consts]: "KIND_NIP43_MEMBER_ADDED = 8000"
definition KIND_NIP43_MEMBER_REMOVED :: kind where KIND_NIP43_MEMBER_REMOVED_def [kind_consts]: "KIND_NIP43_MEMBER_REMOVED = 8001"
definition KIND_NIP43_LEAVE_REQUEST :: kind where KIND_NIP43_LEAVE_REQUEST_def [kind_consts]: "KIND_NIP43_LEAVE_REQUEST = 28936"
definition KIND_IA_ARCHIVE_REQUEST :: kind where KIND_IA_ARCHIVE_REQUEST_def [kind_consts]: "KIND_IA_ARCHIVE_REQUEST = 9035"
definition KIND_IA_UNARCHIVE_REQUEST :: kind where KIND_IA_UNARCHIVE_REQUEST_def [kind_consts]: "KIND_IA_UNARCHIVE_REQUEST = 9036"
definition KIND_IA_ARCHIVED :: kind where KIND_IA_ARCHIVED_def [kind_consts]: "KIND_IA_ARCHIVED = 8002"
definition KIND_IA_UNARCHIVED :: kind where KIND_IA_UNARCHIVED_def [kind_consts]: "KIND_IA_UNARCHIVED = 8003"
definition KIND_IA_ARCHIVED_LIST :: kind where KIND_IA_ARCHIVED_LIST_def [kind_consts]: "KIND_IA_ARCHIVED_LIST = 13535"
definition KIND_NIP29_GROUP_METADATA :: kind where KIND_NIP29_GROUP_METADATA_def [kind_consts]: "KIND_NIP29_GROUP_METADATA = 39000"
definition KIND_NIP29_GROUP_ADMINS :: kind where KIND_NIP29_GROUP_ADMINS_def [kind_consts]: "KIND_NIP29_GROUP_ADMINS = 39001"
definition KIND_NIP29_GROUP_MEMBERS :: kind where KIND_NIP29_GROUP_MEMBERS_def [kind_consts]: "KIND_NIP29_GROUP_MEMBERS = 39002"
definition KIND_NIP29_GROUP_ROLES :: kind where KIND_NIP29_GROUP_ROLES_def [kind_consts]: "KIND_NIP29_GROUP_ROLES = 39003"
definition KIND_THREAD_SUMMARY :: kind where KIND_THREAD_SUMMARY_def [kind_consts]: "KIND_THREAD_SUMMARY = 39005"
definition KIND_WINDOW_BOUNDS :: kind where KIND_WINDOW_BOUNDS_def [kind_consts]: "KIND_WINDOW_BOUNDS = 39006"
definition KIND_WORKFLOW_DEF :: kind where KIND_WORKFLOW_DEF_def [kind_consts]: "KIND_WORKFLOW_DEF = 30620"
definition KIND_DM_VISIBILITY :: kind where KIND_DM_VISIBILITY_def [kind_consts]: "KIND_DM_VISIBILITY = 30622"
definition PARAM_REPLACEABLE_KIND_MIN :: kind where PARAM_REPLACEABLE_KIND_MIN_def [kind_consts]: "PARAM_REPLACEABLE_KIND_MIN = 30000"
definition PARAM_REPLACEABLE_KIND_MAX :: kind where PARAM_REPLACEABLE_KIND_MAX_def [kind_consts]: "PARAM_REPLACEABLE_KIND_MAX = 39999"
definition EPHEMERAL_KIND_MIN :: kind where EPHEMERAL_KIND_MIN_def [kind_consts]: "EPHEMERAL_KIND_MIN = 20000"
definition EPHEMERAL_KIND_MAX :: kind where EPHEMERAL_KIND_MAX_def [kind_consts]: "EPHEMERAL_KIND_MAX = 29999"
definition KIND_PRESENCE_UPDATE :: kind where KIND_PRESENCE_UPDATE_def [kind_consts]: "KIND_PRESENCE_UPDATE = 20001"
definition KIND_PAIRING :: kind where KIND_PAIRING_def [kind_consts]: "KIND_PAIRING = 24134"
definition KIND_TYPING_INDICATOR :: kind where KIND_TYPING_INDICATOR_def [kind_consts]: "KIND_TYPING_INDICATOR = 20002"
definition KIND_AGENT_OBSERVER_FRAME :: kind where KIND_AGENT_OBSERVER_FRAME_def [kind_consts]: "KIND_AGENT_OBSERVER_FRAME = 24200"
definition KIND_HUDDLE_REACTION :: kind where KIND_HUDDLE_REACTION_def [kind_consts]: "KIND_HUDDLE_REACTION = 24810"
definition KIND_STREAM_MESSAGE :: kind where KIND_STREAM_MESSAGE_def [kind_consts]: "KIND_STREAM_MESSAGE = 9"
definition KIND_STREAM_MESSAGE_V2 :: kind where KIND_STREAM_MESSAGE_V2_def [kind_consts]: "KIND_STREAM_MESSAGE_V2 = 40002"
definition KIND_STREAM_MESSAGE_EDIT :: kind where KIND_STREAM_MESSAGE_EDIT_def [kind_consts]: "KIND_STREAM_MESSAGE_EDIT = 40003"
definition KIND_STREAM_MESSAGE_PINNED :: kind where KIND_STREAM_MESSAGE_PINNED_def [kind_consts]: "KIND_STREAM_MESSAGE_PINNED = 40004"
definition KIND_STREAM_MESSAGE_BOOKMARKED :: kind where KIND_STREAM_MESSAGE_BOOKMARKED_def [kind_consts]: "KIND_STREAM_MESSAGE_BOOKMARKED = 40005"
definition KIND_STREAM_MESSAGE_SCHEDULED :: kind where KIND_STREAM_MESSAGE_SCHEDULED_def [kind_consts]: "KIND_STREAM_MESSAGE_SCHEDULED = 40006"
definition KIND_STREAM_REMINDER :: kind where KIND_STREAM_REMINDER_def [kind_consts]: "KIND_STREAM_REMINDER = 40007"
definition KIND_STREAM_MESSAGE_DIFF :: kind where KIND_STREAM_MESSAGE_DIFF_def [kind_consts]: "KIND_STREAM_MESSAGE_DIFF = 40008"
definition KIND_CANVAS :: kind where KIND_CANVAS_def [kind_consts]: "KIND_CANVAS = 40100"
definition KIND_SYSTEM_MESSAGE :: kind where KIND_SYSTEM_MESSAGE_def [kind_consts]: "KIND_SYSTEM_MESSAGE = 40099"
definition KIND_CHANNEL_SUMMARY :: kind where KIND_CHANNEL_SUMMARY_def [kind_consts]: "KIND_CHANNEL_SUMMARY = 40901"
definition KIND_PRESENCE_SNAPSHOT :: kind where KIND_PRESENCE_SNAPSHOT_def [kind_consts]: "KIND_PRESENCE_SNAPSHOT = 40902"
definition KIND_DM_OPEN :: kind where KIND_DM_OPEN_def [kind_consts]: "KIND_DM_OPEN = 41010"
definition KIND_DM_ADD_MEMBER :: kind where KIND_DM_ADD_MEMBER_def [kind_consts]: "KIND_DM_ADD_MEMBER = 41011"
definition KIND_DM_HIDE :: kind where KIND_DM_HIDE_def [kind_consts]: "KIND_DM_HIDE = 41012"
definition KIND_DM_CREATED :: kind where KIND_DM_CREATED_def [kind_consts]: "KIND_DM_CREATED = 41001"
definition KIND_JOB_REQUEST :: kind where KIND_JOB_REQUEST_def [kind_consts]: "KIND_JOB_REQUEST = 43001"
definition KIND_JOB_ACCEPTED :: kind where KIND_JOB_ACCEPTED_def [kind_consts]: "KIND_JOB_ACCEPTED = 43002"
definition KIND_JOB_PROGRESS :: kind where KIND_JOB_PROGRESS_def [kind_consts]: "KIND_JOB_PROGRESS = 43003"
definition KIND_JOB_RESULT :: kind where KIND_JOB_RESULT_def [kind_consts]: "KIND_JOB_RESULT = 43004"
definition KIND_JOB_CANCEL :: kind where KIND_JOB_CANCEL_def [kind_consts]: "KIND_JOB_CANCEL = 43005"
definition KIND_JOB_ERROR :: kind where KIND_JOB_ERROR_def [kind_consts]: "KIND_JOB_ERROR = 43006"
definition KIND_MEMBER_ADDED_NOTIFICATION :: kind where KIND_MEMBER_ADDED_NOTIFICATION_def [kind_consts]: "KIND_MEMBER_ADDED_NOTIFICATION = 44100"
definition KIND_MEMBER_REMOVED_NOTIFICATION :: kind where KIND_MEMBER_REMOVED_NOTIFICATION_def [kind_consts]: "KIND_MEMBER_REMOVED_NOTIFICATION = 44101"
definition KIND_AGENT_TURN_METRIC :: kind where KIND_AGENT_TURN_METRIC_def [kind_consts]: "KIND_AGENT_TURN_METRIC = 44200"
definition KIND_FORUM_POST :: kind where KIND_FORUM_POST_def [kind_consts]: "KIND_FORUM_POST = 45001"
definition KIND_FORUM_VOTE :: kind where KIND_FORUM_VOTE_def [kind_consts]: "KIND_FORUM_VOTE = 45002"
definition KIND_FORUM_COMMENT :: kind where KIND_FORUM_COMMENT_def [kind_consts]: "KIND_FORUM_COMMENT = 45003"
definition KIND_WORKFLOW_TRIGGER :: kind where KIND_WORKFLOW_TRIGGER_def [kind_consts]: "KIND_WORKFLOW_TRIGGER = 46020"
definition KIND_APPROVAL_GRANT :: kind where KIND_APPROVAL_GRANT_def [kind_consts]: "KIND_APPROVAL_GRANT = 46030"
definition KIND_APPROVAL_DENY :: kind where KIND_APPROVAL_DENY_def [kind_consts]: "KIND_APPROVAL_DENY = 46031"
definition KIND_APPROVAL_PASS :: kind where KIND_APPROVAL_PASS_def [kind_consts]: "KIND_APPROVAL_PASS = 46032"
definition KIND_WORKFLOW_TRIGGERED :: kind where KIND_WORKFLOW_TRIGGERED_def [kind_consts]: "KIND_WORKFLOW_TRIGGERED = 46001"
definition KIND_WORKFLOW_STEP_STARTED :: kind where KIND_WORKFLOW_STEP_STARTED_def [kind_consts]: "KIND_WORKFLOW_STEP_STARTED = 46002"
definition KIND_WORKFLOW_STEP_COMPLETED :: kind where KIND_WORKFLOW_STEP_COMPLETED_def [kind_consts]: "KIND_WORKFLOW_STEP_COMPLETED = 46003"
definition KIND_WORKFLOW_STEP_FAILED :: kind where KIND_WORKFLOW_STEP_FAILED_def [kind_consts]: "KIND_WORKFLOW_STEP_FAILED = 46004"
definition KIND_WORKFLOW_COMPLETED :: kind where KIND_WORKFLOW_COMPLETED_def [kind_consts]: "KIND_WORKFLOW_COMPLETED = 46005"
definition KIND_WORKFLOW_FAILED :: kind where KIND_WORKFLOW_FAILED_def [kind_consts]: "KIND_WORKFLOW_FAILED = 46006"
definition KIND_WORKFLOW_CANCELLED :: kind where KIND_WORKFLOW_CANCELLED_def [kind_consts]: "KIND_WORKFLOW_CANCELLED = 46007"
definition KIND_WORKFLOW_APPROVAL_REQUESTED :: kind where KIND_WORKFLOW_APPROVAL_REQUESTED_def [kind_consts]: "KIND_WORKFLOW_APPROVAL_REQUESTED = 46010"
definition KIND_WORKFLOW_APPROVAL_GRANTED :: kind where KIND_WORKFLOW_APPROVAL_GRANTED_def [kind_consts]: "KIND_WORKFLOW_APPROVAL_GRANTED = 46011"
definition KIND_WORKFLOW_APPROVAL_DENIED :: kind where KIND_WORKFLOW_APPROVAL_DENIED_def [kind_consts]: "KIND_WORKFLOW_APPROVAL_DENIED = 46012"
definition KIND_WORKFLOW_APPROVAL_DELEGATED :: kind where KIND_WORKFLOW_APPROVAL_DELEGATED_def [kind_consts]: "KIND_WORKFLOW_APPROVAL_DELEGATED = 46013"
definition KIND_AUDIT_ENTRY :: kind where KIND_AUDIT_ENTRY_def [kind_consts]: "KIND_AUDIT_ENTRY = 48001"
definition KIND_HUDDLE_STARTED :: kind where KIND_HUDDLE_STARTED_def [kind_consts]: "KIND_HUDDLE_STARTED = 48100"
definition KIND_HUDDLE_PARTICIPANT_JOINED :: kind where KIND_HUDDLE_PARTICIPANT_JOINED_def [kind_consts]: "KIND_HUDDLE_PARTICIPANT_JOINED = 48101"
definition KIND_HUDDLE_PARTICIPANT_LEFT :: kind where KIND_HUDDLE_PARTICIPANT_LEFT_def [kind_consts]: "KIND_HUDDLE_PARTICIPANT_LEFT = 48102"
definition KIND_HUDDLE_ENDED :: kind where KIND_HUDDLE_ENDED_def [kind_consts]: "KIND_HUDDLE_ENDED = 48103"
definition KIND_HUDDLE_GUIDELINES :: kind where KIND_HUDDLE_GUIDELINES_def [kind_consts]: "KIND_HUDDLE_GUIDELINES = 48106"
definition KIND_MEDIA_UPLOAD :: kind where KIND_MEDIA_UPLOAD_def [kind_consts]: "KIND_MEDIA_UPLOAD = 49001"
definition KIND_GIT_REPO_ANNOUNCEMENT :: kind where KIND_GIT_REPO_ANNOUNCEMENT_def [kind_consts]: "KIND_GIT_REPO_ANNOUNCEMENT = 30617"
definition KIND_GIT_REPO_STATE :: kind where KIND_GIT_REPO_STATE_def [kind_consts]: "KIND_GIT_REPO_STATE = 30618"
definition KIND_GIT_PATCH :: kind where KIND_GIT_PATCH_def [kind_consts]: "KIND_GIT_PATCH = 1617"
definition KIND_GIT_PULL_REQUEST :: kind where KIND_GIT_PULL_REQUEST_def [kind_consts]: "KIND_GIT_PULL_REQUEST = 1618"
definition KIND_GIT_PR_UPDATE :: kind where KIND_GIT_PR_UPDATE_def [kind_consts]: "KIND_GIT_PR_UPDATE = 1619"
definition KIND_GIT_ISSUE :: kind where KIND_GIT_ISSUE_def [kind_consts]: "KIND_GIT_ISSUE = 1621"
definition KIND_GIT_STATUS_OPEN :: kind where KIND_GIT_STATUS_OPEN_def [kind_consts]: "KIND_GIT_STATUS_OPEN = 1630"
definition KIND_GIT_STATUS_MERGED :: kind where KIND_GIT_STATUS_MERGED_def [kind_consts]: "KIND_GIT_STATUS_MERGED = 1631"
definition KIND_GIT_STATUS_CLOSED :: kind where KIND_GIT_STATUS_CLOSED_def [kind_consts]: "KIND_GIT_STATUS_CLOSED = 1632"
definition KIND_GIT_STATUS_DRAFT :: kind where KIND_GIT_STATUS_DRAFT_def [kind_consts]: "KIND_GIT_STATUS_DRAFT = 1633"

definition AUTHOR_ONLY_KINDS :: "kind list" where
  "AUTHOR_ONLY_KINDS = [KIND_EVENT_REMINDER, KIND_PUSH_LEASE]"

definition RESULT_GATED_KINDS :: "kind list" where
  "RESULT_GATED_KINDS = [KIND_DM_VISIBILITY, KIND_AGENT_TURN_METRIC]"

definition P_GATED_KINDS :: "kind list" where
  "P_GATED_KINDS =
     [KIND_AGENT_OBSERVER_FRAME, KIND_MEMBER_ADDED_NOTIFICATION,
      KIND_MEMBER_REMOVED_NOTIFICATION, KIND_GIFT_WRAP, KIND_DM_VISIBILITY,
      KIND_AGENT_TURN_METRIC]"

definition ALL_KINDS :: "kind list" where
  "ALL_KINDS = [
     KIND_PROFILE,
     KIND_TEXT_NOTE,
     KIND_CONTACT_LIST,
     KIND_MUTE_LIST,
     KIND_PIN_LIST,
     KIND_NIP65_RELAY_LIST_METADATA,
     KIND_BOOKMARK_LIST,
     KIND_EMOJI_LIST,
     KIND_FOLLOW_SET,
     KIND_BOOKMARK_SET,
     KIND_EMOJI_SET,
     KIND_CHANNEL_METADATA,
     KIND_DELETION,
     KIND_REACTION,
     KIND_GIFT_WRAP,
     KIND_FILE_METADATA,
     KIND_AGENT_PROFILE,
     KIND_AGENT_ENGRAM,
     KIND_EVENT_REMINDER,
     KIND_PERSONA,
     KIND_TEAM,
     KIND_MANAGED_AGENT,
     KIND_REPORT,
     KIND_PRODUCT_FEEDBACK,
     KIND_NIP29_PUT_USER,
     KIND_NIP29_REMOVE_USER,
     KIND_NIP29_EDIT_METADATA,
     KIND_NIP29_DELETE_EVENT,
     KIND_NIP29_CREATE_GROUP,
     KIND_NIP29_DELETE_GROUP,
     KIND_NIP29_CREATE_INVITE,
     KIND_NIP29_JOIN_REQUEST,
     KIND_NIP29_LEAVE_REQUEST,
     KIND_MODERATION_BAN,
     KIND_MODERATION_UNBAN,
     KIND_MODERATION_TIMEOUT,
     KIND_MODERATION_UNTIMEOUT,
     KIND_MODERATION_RESOLVE_REPORT,
     RELAY_ADMIN_ADD_MEMBER,
     RELAY_ADMIN_REMOVE_MEMBER,
     RELAY_ADMIN_CHANGE_ROLE,
     RELAY_ADMIN_SET_WORKSPACE_PROFILE,
     KIND_NIP43_MEMBERSHIP_LIST,
     KIND_NIP43_MEMBER_ADDED,
     KIND_NIP43_MEMBER_REMOVED,
     KIND_NIP43_LEAVE_REQUEST,
     KIND_IA_ARCHIVE_REQUEST,
     KIND_IA_UNARCHIVE_REQUEST,
     KIND_IA_ARCHIVED,
     KIND_IA_UNARCHIVED,
     KIND_IA_ARCHIVED_LIST,
     KIND_NIP29_GROUP_METADATA,
     KIND_NIP29_GROUP_ADMINS,
     KIND_NIP29_GROUP_MEMBERS,
     KIND_NIP29_GROUP_ROLES,
     KIND_THREAD_SUMMARY,
     KIND_WINDOW_BOUNDS,
     KIND_PRESENCE_UPDATE,
     KIND_TYPING_INDICATOR,
     KIND_HUDDLE_REACTION,
     KIND_BLOSSOM_AUTH,
     KIND_PAIRING,
     KIND_AGENT_OBSERVER_FRAME,
     KIND_HTTP_AUTH,
     KIND_STREAM_MESSAGE,
     KIND_STREAM_MESSAGE_V2,
     KIND_STREAM_MESSAGE_EDIT,
     KIND_STREAM_MESSAGE_PINNED,
     KIND_STREAM_MESSAGE_BOOKMARKED,
     KIND_STREAM_MESSAGE_SCHEDULED,
     KIND_STREAM_REMINDER,
     KIND_STREAM_MESSAGE_DIFF,
     KIND_CANVAS,
     KIND_SYSTEM_MESSAGE,
     KIND_CHANNEL_SUMMARY,
     KIND_PRESENCE_SNAPSHOT,
     KIND_DM_VISIBILITY,
     KIND_DM_OPEN,
     KIND_DM_ADD_MEMBER,
     KIND_DM_HIDE,
     KIND_DM_CREATED,
     KIND_JOB_REQUEST,
     KIND_JOB_ACCEPTED,
     KIND_JOB_PROGRESS,
     KIND_JOB_RESULT,
     KIND_JOB_CANCEL,
     KIND_JOB_ERROR,
     KIND_MEMBER_ADDED_NOTIFICATION,
     KIND_MEMBER_REMOVED_NOTIFICATION,
     KIND_AGENT_TURN_METRIC,
     KIND_WORKFLOW_DEF,
     KIND_LONG_FORM,
     KIND_USER_STATUS,
     KIND_READ_STATE,
     KIND_FORUM_POST,
     KIND_FORUM_VOTE,
     KIND_FORUM_COMMENT,
     KIND_WORKFLOW_TRIGGER,
     KIND_APPROVAL_GRANT,
     KIND_APPROVAL_DENY,
     KIND_APPROVAL_PASS,
     KIND_WORKFLOW_TRIGGERED,
     KIND_WORKFLOW_STEP_STARTED,
     KIND_WORKFLOW_STEP_COMPLETED,
     KIND_WORKFLOW_STEP_FAILED,
     KIND_WORKFLOW_COMPLETED,
     KIND_WORKFLOW_FAILED,
     KIND_WORKFLOW_CANCELLED,
     KIND_WORKFLOW_APPROVAL_REQUESTED,
     KIND_WORKFLOW_APPROVAL_GRANTED,
     KIND_WORKFLOW_APPROVAL_DENIED,
     KIND_WORKFLOW_APPROVAL_DELEGATED,
     KIND_AUDIT_ENTRY,
     KIND_HUDDLE_STARTED,
     KIND_HUDDLE_PARTICIPANT_JOINED,
     KIND_HUDDLE_PARTICIPANT_LEFT,
     KIND_HUDDLE_ENDED,
     KIND_HUDDLE_GUIDELINES,
     KIND_MEDIA_UPLOAD,
     KIND_GIT_REPO_ANNOUNCEMENT,
     KIND_GIT_REPO_STATE,
     KIND_GIT_PATCH,
     KIND_GIT_PULL_REQUEST,
     KIND_GIT_PR_UPDATE,
     KIND_GIT_ISSUE,
     KIND_GIT_STATUS_OPEN,
     KIND_GIT_STATUS_MERGED,
     KIND_GIT_STATUS_CLOSED,
     KIND_GIT_STATUS_DRAFT]"

section \<open>Classification\<close>

definition is_ephemeral :: "kind \<Rightarrow> bool" where
  "is_ephemeral k = (EPHEMERAL_KIND_MIN \<le> k \<and> k \<le> EPHEMERAL_KIND_MAX)"

definition is_replaceable :: "kind \<Rightarrow> bool" where
  "is_replaceable k =
     (k = 0 \<or> k = 3 \<or> k = KIND_CHANNEL_METADATA \<or> (10000 \<le> k \<and> k \<le> 19999))"

definition is_parameterized_replaceable :: "kind \<Rightarrow> bool" where
  "is_parameterized_replaceable k =
     (PARAM_REPLACEABLE_KIND_MIN \<le> k \<and> k \<le> PARAM_REPLACEABLE_KIND_MAX)"

definition is_workflow_execution_kind :: "kind \<Rightarrow> bool" where
  "is_workflow_execution_kind k =
     (KIND_WORKFLOW_TRIGGERED \<le> k \<and> k \<le> KIND_WORKFLOW_APPROVAL_DELEGATED)"

definition is_moderation_command_kind :: "kind \<Rightarrow> bool" where
  "is_moderation_command_kind k =
     (k = KIND_MODERATION_BAN \<or> k = KIND_MODERATION_UNBAN \<or> k = KIND_MODERATION_TIMEOUT
      \<or> k = KIND_MODERATION_UNTIMEOUT \<or> k = KIND_MODERATION_RESOLVE_REPORT)"

definition is_relay_admin_kind :: "kind \<Rightarrow> bool" where
  "is_relay_admin_kind k =
     (k = RELAY_ADMIN_ADD_MEMBER \<or> k = RELAY_ADMIN_REMOVE_MEMBER
      \<or> k = RELAY_ADMIN_CHANGE_ROLE \<or> k = RELAY_ADMIN_SET_WORKSPACE_PROFILE)"

definition is_identity_archive_request_kind :: "kind \<Rightarrow> bool" where
  "is_identity_archive_request_kind k =
     (k = KIND_IA_ARCHIVE_REQUEST \<or> k = KIND_IA_UNARCHIVE_REQUEST)"

definition is_command_kind :: "kind \<Rightarrow> bool" where
  "is_command_kind k =
     (k = KIND_WORKFLOW_DEF \<or> k = KIND_DM_OPEN \<or> k = KIND_DM_ADD_MEMBER \<or> k = KIND_DM_HIDE
      \<or> k = KIND_WORKFLOW_TRIGGER \<or> k = KIND_APPROVAL_GRANT \<or> k = KIND_APPROVAL_DENY
      \<or> k = KIND_APPROVAL_PASS)"

definition is_relay_only_kind :: "kind \<Rightarrow> bool" where
  "is_relay_only_kind k =
     (k = KIND_NIP43_MEMBERSHIP_LIST \<or> k = KIND_CHANNEL_SUMMARY \<or> k = KIND_PRESENCE_SNAPSHOT
      \<or> k = KIND_DM_VISIBILITY \<or> k = KIND_THREAD_SUMMARY \<or> k = KIND_WINDOW_BOUNDS)"

lemmas kind_class_defs =
  is_ephemeral_def is_replaceable_def is_parameterized_replaceable_def
  is_workflow_execution_kind_def is_moderation_command_kind_def is_relay_admin_kind_def
  is_identity_archive_request_kind_def is_command_kind_def is_relay_only_kind_def

section \<open>Shared personas\<close>

definition is_persona_shared_kind :: "kind \<Rightarrow> bool" where
  "is_persona_shared_kind k = (k = KIND_PERSONA)"

text \<open>The loop of \<open>persona_event_is_shared\<close> with its counter.\<close>

fun shared_tag_loop :: "nat \<Rightarrow> tag list \<Rightarrow> bool" where
  "shared_tag_loop count [] = (count = 1)"
| "shared_tag_loop count (parts # ts) =
     (if length parts = 2 \<and> parts ! 0 = ''shared'' then
        (if parts ! 1 \<noteq> ''true'' then False else shared_tag_loop (count + 1) ts)
      else if parts \<noteq> [] \<and> parts ! 0 = ''shared'' then False
      else shared_tag_loop count ts)"

definition persona_event_is_shared :: "event \<Rightarrow> bool" where
  "persona_event_is_shared ev = shared_tag_loop 0 (ev_tags ev)"

definition is_unshared_persona_event :: "event \<Rightarrow> hex_string \<Rightarrow> bool" where
  "is_unshared_persona_event ev requester =
     (if \<not> is_persona_shared_kind (ev_kind ev) then False
      else if ev_pubkey ev = requester then False
      else \<not> persona_event_is_shared ev)"

lemma shared_tag_loop_iff:
  "shared_tag_loop n ts \<longleftrightarrow>
     (\<forall>t \<in> set ts. tag_kind t = ''shared'' \<longrightarrow> t = [''shared'', ''true'']) \<and>
     n + length (filter (\<lambda>t. tag_kind t = ''shared'') ts) = 1"
proof (induction ts arbitrary: n)
  case Nil
  then show ?case by simp
next
  case (Cons t ts)
  consider "t = []" | a where "t = [a]" | a b where "t = [a, b]"
    | a b c r where "t = a # b # c # r"
    by (metis list.exhaust)
  then show ?case
    by cases (auto simp: Cons.IH tag_kind_def)
qed

section \<open>Properties\<close>

text \<open>
  The kind a stored event carries decides how it is stored: no kind number is in two of
  the classes ephemeral, replaceable and parameterized replaceable, for every \<open>u32\<close> and not
  only for the registered kinds. And no kind that a workflow execution emits is a command
  kind, so executing a workflow cannot re-enter the command executor.
\<close>
lemma kind_classes_disjoint:
  "\<not> (is_ephemeral k \<and> is_replaceable k) \<and>
   \<not> (is_ephemeral k \<and> is_parameterized_replaceable k) \<and>
   \<not> (is_replaceable k \<and> is_parameterized_replaceable k) \<and>
   \<not> (is_workflow_execution_kind k \<and> is_command_kind k) \<and>
   \<not> (is_moderation_command_kind k \<and> is_relay_admin_kind k)"
  by (auto simp: kind_class_defs kind_consts)

text \<open>
  The registry lists every kind number once, but it is not complete, although its comment
  calls it the list of all registered kind constants: the authentication event, the push
  lease and the identity binding are missing, so the duplicate check that iterates over it
  does not see them.
\<close>
lemma all_kinds_distinct_but_incomplete:
  "distinct ALL_KINDS \<and> length ALL_KINDS = 129 \<and>
   KIND_AUTH \<notin> set ALL_KINDS \<and> KIND_PUSH_LEASE \<notin> set ALL_KINDS \<and>
   KIND_NOSTR_IDENTITY_BINDING \<notin> set ALL_KINDS \<and>
   set AUTHOR_ONLY_KINDS \<inter> set P_GATED_KINDS = {} \<and>
   set RESULT_GATED_KINDS \<subseteq> set P_GATED_KINDS"
  by (simp add: ALL_KINDS_def AUTHOR_ONLY_KINDS_def P_GATED_KINDS_def RESULT_GATED_KINDS_def
      kind_consts)

text \<open>
  A persona is withheld from a reader exactly when the event is a persona, the reader is
  not its author, and the event's \<open>shared\<close> tags are anything else than one single
  \<open>["shared", "true"]\<close>: duplicates, other values and longer arrays all fail closed.
\<close>
lemma unshared_persona_gate:
  "is_unshared_persona_event ev requester \<longleftrightarrow>
     ev_kind ev = KIND_PERSONA \<and> ev_pubkey ev \<noteq> requester \<and>
     filter (\<lambda>t. tag_kind t = ''shared'') (ev_tags ev) \<noteq> [[''shared'', ''true'']]"
proof -
  have eq: "shared_tag_loop 0 ts \<longleftrightarrow>
      filter (\<lambda>t. tag_kind t = ''shared'') ts = [[''shared'', ''true'']]" for ts
  proof
    let ?f = "filter (\<lambda>t. tag_kind t = ''shared'') ts"
    assume "shared_tag_loop 0 ts"
    then have all: "\<forall>t \<in> set ?f. t = [''shared'', ''true'']" and "length ?f = 1"
      by (auto simp: shared_tag_loop_iff)
    then obtain t where "?f = [t]" by (auto simp: length_Suc_conv)
    with all show "?f = [[''shared'', ''true'']]" by simp
  next
    let ?f = "filter (\<lambda>t. tag_kind t = ''shared'') ts"
    assume f: "?f = [[''shared'', ''true'']]"
    have "t = [''shared'', ''true'']" if "t \<in> set ts" "tag_kind t = ''shared''" for t
    proof -
      from that have "t \<in> set ?f" by simp
      with f show ?thesis by simp
    qed
    with f show "shared_tag_loop 0 ts" by (simp add: shared_tag_loop_iff)
  qed
  show ?thesis
    by (auto simp: is_unshared_persona_event_def is_persona_shared_kind_def
        persona_event_is_shared_def eq)
qed

end
