(* ===== verification/Filter_Match.thy ===== *)
theory Filter_Match
  imports Kinds
begin

text \<open>
  NIP-01 filter matching, \<open>crates/buzz-core/src/filter.rs\<close>: filters are OR-ed, the fields of
  one filter are AND-ed. The sets of a \<open>nostr::Filter\<close> (ids, authors, kinds, tag values) are
  the lists of their elements, its tag map an association list from tag letter to values. The
  same file holds the result-level read gate of events that are private to one viewer.
\<close>

record event_filter =
  f_ids :: "hex_string list option"
  f_authors :: "hex_string list option"
  f_kinds :: "kind list option"
  f_since :: "nat option"
  f_until :: "nat option"
  f_generic_tags :: "(string \<times> string list) list"
  f_limit :: "nat option"
  f_search :: "string option"

text \<open>\<open>Uuid::to_string\<close> belongs to the \<open>uuid\<close> crate: it is the parameter \<open>uuid_str\<close>.\<close>

text \<open>
  One entry of the filter's tag map against the event, with the channel fallback: an event
  without any \<open>h\<close> tag is matched through the channel the relay stored it under, and an event
  with \<open>h\<close> tags only through them.
\<close>

definition tag_entry_matches ::
    "(uuid \<Rightarrow> string) \<Rightarrow> stored_event \<Rightarrow> string \<times> string list \<Rightarrow> bool" where
  "tag_entry_matches uuid_str ev entry =
     (case entry of (key, values) \<Rightarrow>
       let has_match = list_ex (\<lambda>v. has_tag_value (st_event ev) key v) values in
       if \<not> has_match \<and> key = ''h'' then
         (let event_has_h_tags = list_ex (\<lambda>t. tag_kind t = ''h'') (ev_tags (st_event ev)) in
          if \<not> event_has_h_tags then
            (case st_channel_id ev of
               Some ch_id \<Rightarrow> list_ex (\<lambda>v. v = uuid_str ch_id) values
             | None \<Rightarrow> False)
          else False)
       else has_match)"

definition filter_match_one ::
    "(uuid \<Rightarrow> string) \<Rightarrow> event_filter \<Rightarrow> stored_event \<Rightarrow> bool" where
  "filter_match_one uuid_str f ev =
     (if (case f_kinds f of None \<Rightarrow> False | Some ks \<Rightarrow> ev_kind (st_event ev) \<notin> set ks)
      then False
      else if (case f_authors f of None \<Rightarrow> False | Some as \<Rightarrow> ev_pubkey (st_event ev) \<notin> set as)
      then False
      else if (case f_since f of None \<Rightarrow> False | Some t \<Rightarrow> ev_created_at (st_event ev) < t)
      then False
      else if (case f_until f of None \<Rightarrow> False | Some t \<Rightarrow> t < ev_created_at (st_event ev))
      then False
      else if (case f_ids f of None \<Rightarrow> False
               | Some ids \<Rightarrow> \<not> list_ex (\<lambda>i. starts_with (ev_id (st_event ev)) i) ids)
      then False
      else list_all (tag_entry_matches uuid_str ev) (f_generic_tags f))"

definition filters_match ::
    "(uuid \<Rightarrow> string) \<Rightarrow> event_filter list \<Rightarrow> stored_event \<Rightarrow> bool" where
  "filters_match uuid_str fs ev = list_ex (\<lambda>f. filter_match_one uuid_str f ev) fs"

definition reader_authorized_for_event :: "event \<Rightarrow> hex_string \<Rightarrow> bool" where
  "reader_authorized_for_event ev reader =
     (if ev_kind ev \<noteq> KIND_DM_VISIBILITY \<and> ev_kind ev \<noteq> KIND_AGENT_TURN_METRIC then True
      else has_tag_value ev ''p'' reader)"

section \<open>Consequences of a match\<close>

lemma filter_match_one_kind:
  "filter_match_one us f ev \<Longrightarrow> f_kinds f = Some ks \<Longrightarrow> ev_kind (st_event ev) \<in> set ks"
  by (auto simp: filter_match_one_def split: if_splits)

lemma filter_match_one_tag:
  assumes "filter_match_one us f ev" and "map_of (f_generic_tags f) key = Some values"
    and "key \<noteq> ''h''"
  shows "\<exists>v \<in> set values. has_tag_value (st_event ev) key v"
proof -
  have "(key, values) \<in> set (f_generic_tags f)"
    using assms(2) by (rule map_of_SomeD)
  moreover have "list_all (tag_entry_matches us ev) (f_generic_tags f)"
    using assms(1) by (simp add: filter_match_one_def split: if_splits)
  ultimately have "tag_entry_matches us ev (key, values)"
    by (auto simp: list_all_iff)
  with assms(3) show ?thesis
    by (auto simp: tag_entry_matches_def list_ex_iff)
qed

lemma filters_match_iff:
  "filters_match us fs ev \<longleftrightarrow> (\<exists>f \<in> set fs. filter_match_one us f ev)"
  by (auto simp: filters_match_def list_ex_iff)

section \<open>Properties\<close>

text \<open>
  An event that carries its own \<open>h\<close> tags is matched by an \<open>#h\<close> filter only through one of
  those tags: the channel under which the relay happened to store it cannot widen the match.
\<close>
lemma explicit_h_tags_are_authoritative:
  assumes "filters_match uuid_str fs ev"
    and "\<forall>f \<in> set fs. \<exists>vs. map_of (f_generic_tags f) ''h'' = Some vs \<and> set vs \<subseteq> allowed"
    and "\<exists>t \<in> set (ev_tags (st_event ev)). tag_kind t = ''h''"
  shows "\<exists>v \<in> allowed. has_tag_value (st_event ev) ''h'' v"
proof -
  obtain f where f: "f \<in> set fs" "filter_match_one uuid_str f ev"
    using assms(1) by (auto simp: filters_match_iff)
  then obtain vs where vs: "map_of (f_generic_tags f) ''h'' = Some vs" "set vs \<subseteq> allowed"
    using assms(2) by blast
  have "(''h'', vs) \<in> set (f_generic_tags f)"
    using vs(1) by (rule map_of_SomeD)
  then have "tag_entry_matches uuid_str ev (''h'', vs)"
    using f(2) by (auto simp: filter_match_one_def list_all_iff split: if_splits)
  then have "list_ex (has_tag_value (st_event ev) ''h'') vs"
    using assms(3) by (auto simp: tag_entry_matches_def Let_def list_ex_iff split: if_splits)
  with vs(2) show ?thesis by (auto simp: list_ex_iff)
qed

definition sample_h_event :: stored_event where
  "sample_h_event =
     stored_event_new 0
       \<lparr>ev_id = ''aa'', ev_pubkey = ''bb'', ev_created_at = 5, ev_kind = 9,
        ev_tags = [[''h'', ''room'']], ev_content = ''hi''\<rparr> (Some 7)"

definition sample_h_filter :: event_filter where
  "sample_h_filter =
     \<lparr>f_ids = None, f_authors = None, f_kinds = Some [9], f_since = None, f_until = None,
      f_generic_tags = [(''h'', [''room''])], f_limit = None, f_search = None\<rparr>"

lemma explicit_h_tags_are_authoritative_witness:
  "\<exists>v \<in> {''room''}. has_tag_value (st_event sample_h_event) ''h'' v"
proof (rule explicit_h_tags_are_authoritative
    [where uuid_str = "\<lambda>_. ''x''" and fs = "[sample_h_filter]"])
  show "filters_match (\<lambda>_. ''x'') [sample_h_filter] sample_h_event"
    by (simp add: filters_match_def filter_match_one_def tag_entry_matches_def
        has_tag_value_def sample_h_event_def sample_h_filter_def stored_event_new_def)
  show "\<forall>f \<in> set [sample_h_filter]. \<exists>vs. map_of (f_generic_tags f) ''h'' = Some vs
      \<and> set vs \<subseteq> {''room''}"
    by (simp add: sample_h_filter_def)
  show "\<exists>t \<in> set (ev_tags (st_event sample_h_event)). tag_kind t = ''h''"
    by (simp add: sample_h_event_def stored_event_new_def)
qed

text \<open>
  The read gate on single events agrees with the registry's list of result-gated kinds:
  an event of a listed kind is readable exactly by the keys in its \<open>p\<close> tags, every other
  event by everyone. In particular the gate and the list cannot drift apart.
\<close>
lemma reader_gate_iff_result_gated:
  "reader_authorized_for_event ev reader =
     (if ev_kind ev \<in> set RESULT_GATED_KINDS
      then \<exists>t \<in> set (ev_tags ev). tag_kind t = ''p'' \<and> tag_content t = Some reader
      else True)"
  by (auto simp: reader_authorized_for_event_def RESULT_GATED_KINDS_def has_tag_value_iff)

end
