(* ===== verification/Hash_Map.thy ===== *)
theory Hash_Map
  imports Prelude
begin

text \<open>
  \<open>HashMap\<close>, \<open>DashMap\<close> and \<open>BTreeMap\<close> of the source as association lists with distinct keys.
  The position of an entry stands for its place in the iteration order, which the standard
  library leaves unspecified for hash maps; no theorem of the development depends on it. On
  top of them, the multi-maps \<open>HashMap<K, Vec<E>>\<close> that serve as inverted indexes, with the
  interface \<open>posting_index\<close> through which the components use them.
\<close>

section \<open>Maps with distinct keys\<close>

type_synonym ('k, 'v) hmap = "('k \<times> 'v) list"

definition hm_get :: "('k, 'v) hmap \<Rightarrow> 'k \<Rightarrow> 'v option" where
  "hm_get m k = map_of m k"

definition hm_remove :: "'k \<Rightarrow> ('k, 'v) hmap \<Rightarrow> ('k, 'v) hmap" where
  "hm_remove k m = filter (\<lambda>e. fst e \<noteq> k) m"

definition hm_insert :: "'k \<Rightarrow> 'v \<Rightarrow> ('k, 'v) hmap \<Rightarrow> ('k, 'v) hmap" where
  "hm_insert k v m = (k, v) # hm_remove k m"

definition hm_contains :: "('k, 'v) hmap \<Rightarrow> 'k \<Rightarrow> bool" where
  "hm_contains m k = (k \<in> set (map fst m))"

definition hm_wf :: "('k, 'v) hmap \<Rightarrow> bool" where
  "hm_wf m = distinct (map fst m)"

text \<open>\<open>retain(|k, v| p)\<close>.\<close>

definition hm_retain :: "('k \<Rightarrow> 'v \<Rightarrow> bool) \<Rightarrow> ('k, 'v) hmap \<Rightarrow> ('k, 'v) hmap" where
  "hm_retain p m = filter (\<lambda>e. p (fst e) (snd e)) m"

text \<open>\<open>get(k).unwrap_or_default()\<close>.\<close>

definition hm_get_or :: "'v \<Rightarrow> ('k, 'v) hmap \<Rightarrow> 'k \<Rightarrow> 'v" where
  "hm_get_or d m k = (case hm_get m k of None \<Rightarrow> d | Some v \<Rightarrow> v)"

lemma hm_get_Nil [simp]: "hm_get [] k = None"
  by (simp add: hm_get_def)

lemma hm_get_remove [simp]: "hm_get (hm_remove k m) k' = (if k' = k then None else hm_get m k')"
  by (induction m) (auto simp: hm_get_def hm_remove_def)

lemma hm_get_insert [simp]: "hm_get (hm_insert k v m) k' = (if k' = k then Some v else hm_get m k')"
  using hm_get_remove [of k m k'] by (auto simp: hm_get_def hm_insert_def)

lemma hm_contains_iff: "hm_contains m k \<longleftrightarrow> (\<exists>v. hm_get m k = Some v)"
  by (metis hm_contains_def hm_get_def map_of_eq_None_iff not_None_eq set_map)

lemma hm_get_None_iff: "hm_get m k = None \<longleftrightarrow> k \<notin> fst ` set m"
  by (simp add: hm_get_def map_of_eq_None_iff)

lemma hm_contains_get: "hm_contains m k \<longleftrightarrow> hm_get m k \<noteq> None"
  by (simp add: hm_contains_iff)

lemma hm_wf_Nil [simp]: "hm_wf []"
  by (simp add: hm_wf_def)

lemma distinct_map_fst_filter: "distinct (map fst m) \<Longrightarrow> distinct (map fst (filter p m))"
  by (induction m) auto

lemma hm_wf_remove [wf_intros, simp]: "hm_wf m \<Longrightarrow> hm_wf (hm_remove k m)"
  by (simp add: hm_wf_def hm_remove_def distinct_map_fst_filter)

lemma hm_wf_insert [wf_intros, simp]: "hm_wf m \<Longrightarrow> hm_wf (hm_insert k v m)"
  using hm_wf_remove [of m k] by (auto simp: hm_wf_def hm_insert_def hm_remove_def)

lemma hm_wf_retain [wf_intros, simp]: "hm_wf m \<Longrightarrow> hm_wf (hm_retain p m)"
  by (simp add: hm_wf_def hm_retain_def distinct_map_fst_filter)

lemma hm_get_in_set: "hm_wf m \<Longrightarrow> hm_get m k = Some v \<longleftrightarrow> (k, v) \<in> set m"
  by (simp add: hm_wf_def hm_get_def)

lemma hm_get_retain:
  "hm_wf m \<Longrightarrow> hm_get (hm_retain p m) k
     = (case hm_get m k of None \<Rightarrow> None | Some v \<Rightarrow> if p k v then Some v else None)"
proof (induction m)
  case Nil
  then show ?case by (simp add: hm_retain_def)
next
  case (Cons e m)
  obtain k' v' where e: "e = (k', v')" by (cases e)
  from Cons.prems have wf: "hm_wf m" and new: "k' \<notin> fst ` set m"
    by (auto simp: hm_wf_def e)
  from new have gone: "map_of (filter (\<lambda>x. p (fst x) (snd x)) m) k' = None" "map_of m k' = None"
    by (auto simp: map_of_eq_None_iff)
  from Cons.IH [OF wf] show ?case
    using gone by (auto simp: hm_get_def hm_retain_def e split: option.splits)
qed

lemma hm_get_or_Nil [simp]: "hm_get_or d [] k = d"
  by (simp add: hm_get_or_def)

lemma hm_get_or_insert [simp]:
  "hm_get_or d (hm_insert k v m) k' = (if k' = k then v else hm_get_or d m k')"
  by (simp add: hm_get_or_def)

lemma hm_get_or_remove [simp]:
  "hm_get_or d (hm_remove k m) k' = (if k' = k then d else hm_get_or d m k')"
  by (simp add: hm_get_or_def)

lemmas hm_eval = hm_get_def hm_remove_def hm_insert_def hm_contains_def hm_wf_def hm_retain_def
  hm_get_or_def

section \<open>Inverted indexes\<close>

text \<open>
  \<open>index.entry(k).or_default().push(e)\<close>, and the removal idiom \<open>get_mut(k)\<close>, \<open>retain\<close>,
  \<open>remove(k)\<close> when nothing is left.
\<close>

definition idx_get :: "('k, 'e list) hmap \<Rightarrow> 'k \<Rightarrow> 'e list" where
  "idx_get m k = hm_get_or [] m k"

definition idx_push :: "'k \<Rightarrow> 'e \<Rightarrow> ('k, 'e list) hmap \<Rightarrow> ('k, 'e list) hmap" where
  "idx_push k e m = hm_insert k (hm_get_or [] m k @ [e]) m"

definition idx_retain :: "'k \<Rightarrow> 'e \<Rightarrow> ('k, 'e list) hmap \<Rightarrow> ('k, 'e list) hmap" where
  "idx_retain k e m =
     (case hm_get m k of
        None \<Rightarrow> m
      | Some entries \<Rightarrow>
          let rest = filter (\<lambda>x. x \<noteq> e) entries
          in if rest = [] then hm_remove k m else hm_insert k rest m)"

text \<open>
  An index maps keys to lists of entries; adding appends under one key, deleting removes one
  entry everywhere under one key. Everything else a component needs follows.
\<close>

locale posting_index =
  fixes add :: "'k \<Rightarrow> 'e \<Rightarrow> 'i \<Rightarrow> 'i"
    and del :: "'k \<Rightarrow> 'e \<Rightarrow> 'i \<Rightarrow> 'i"
    and get :: "'i \<Rightarrow> 'k \<Rightarrow> 'e list"
  assumes get_add: "get (add k e i) k' = (if k' = k then get i k @ [e] else get i k')"
    and get_del: "get (del k e i) k' = (if k' = k then filter (\<lambda>x. x \<noteq> e) (get i k) else get i k')"
begin

lemma set_get_adds:
  "set (get (fold (\<lambda>k. add k e) ks i) k') = set (get i k') \<union> (if k' \<in> set ks then {e} else {})"
  by (induction ks arbitrary: i) (auto simp: get_add)

lemma set_get_dels:
  "set (get (fold (\<lambda>k. del k e) ks i) k') = set (get i k') - (if k' \<in> set ks then {e} else {})"
  by (induction ks arbitrary: i) (auto simp: get_del)

text \<open>
  An index is exact for a table of entries when an entry is listed under a key if and only
  if the table holds it and assigns it that key.
\<close>

lemma exact_insert:
  assumes exact: "\<And>k e. e \<in> set (get i k) \<longleftrightarrow> (\<exists>v. look e = Some v \<and> k \<in> set (keys v))"
    and fresh: "look e0 = None"
  shows "e \<in> set (get (fold (\<lambda>k. add k e0) (keys v0) i) k)
    \<longleftrightarrow> (\<exists>v. (look(e0 \<mapsto> v0)) e = Some v \<and> k \<in> set (keys v))"
  using fresh by (auto simp: set_get_adds exact)

lemma exact_delete:
  assumes exact: "\<And>k e. e \<in> set (get i k) \<longleftrightarrow> (\<exists>v. look e = Some v \<and> k \<in> set (keys v))"
    and present: "look e0 = Some v0"
  shows "e \<in> set (get (fold (\<lambda>k. del k e0) (keys v0) i) k)
    \<longleftrightarrow> (\<exists>v. (look(e0 := None)) e = Some v \<and> k \<in> set (keys v))"
  using present by (auto simp: set_get_dels exact)

end

lemma idx_get_push: "idx_get (idx_push k e m) k' = (if k' = k then idx_get m k @ [e] else idx_get m k')"
  by (simp add: idx_get_def idx_push_def)

lemma idx_get_retain:
  "idx_get (idx_retain k e m) k'
     = (if k' = k then filter (\<lambda>x. x \<noteq> e) (idx_get m k) else idx_get m k')"
proof (cases "hm_get m k")
  case None
  then show ?thesis by (simp add: idx_get_def idx_retain_def hm_get_or_def)
next
  case (Some es)
  then show ?thesis
    by (simp add: idx_get_def idx_retain_def hm_get_or_def Let_def)
qed

interpretation idx: posting_index idx_push idx_retain idx_get
  by unfold_locales (auto simp: idx_get_push idx_get_retain)

lemma hm_wf_idx_push [wf_intros, simp]: "hm_wf m \<Longrightarrow> hm_wf (idx_push k e m)"
  by (simp add: idx_push_def)

lemma hm_wf_idx_retain [wf_intros, simp]: "hm_wf m \<Longrightarrow> hm_wf (idx_retain k e m)"
  by (auto simp: idx_retain_def Let_def split: option.splits)

end
