(* ===== verification/Subscription.thy ===== *)
theory Subscription
  imports Filter_Match Hash_Map
begin

text \<open>
  The subscription registry of the relay, \<open>crates/buzz-relay/src/subscription.rs\<close>: the table
  of active subscriptions, the five inverted indexes that make fan-out sub-linear, and the
  fan-out itself. Each public method is one definition; \<open>reg_step\<close> runs them as operations.
  Metrics are left out. The methods lock one map at a time; here each runs to completion,
  except in the section on the removal race.
\<close>

section \<open>State\<close>

type_synonym conn_id = uuid
type_synonym sub_id = string
type_synonym sub_entry = "event_filter list \<times> community_id \<times> uuid option"
type_synonym sub_key = "conn_id \<times> sub_id"

record index_key =
  ik_channel_id :: uuid
  ik_kind :: kind

record global_p_key =
  gk_community_id :: community_id
  gk_kind :: kind
  gk_p :: string

record removed_subscription =
  rm_community_id :: community_id
  rm_channel_id :: "uuid option"

record registry =
  subs :: "(conn_id, (sub_id, sub_entry) hmap) hmap"
  channel_kind_index :: "(community_id \<times> index_key, sub_key list) hmap"
  channel_wildcard_index :: "(community_id \<times> uuid, sub_key list) hmap"
  global_kind_index :: "(community_id \<times> kind, sub_key list) hmap"
  global_p_kind_index :: "(global_p_key, sub_key list) hmap"
  global_wildcard_index :: "(community_id, sub_key list) hmap"

definition registry_new :: registry where
  "registry_new =
     \<lparr>subs = [], channel_kind_index = [], channel_wildcard_index = [], global_kind_index = [],
      global_p_kind_index = [], global_wildcard_index = []\<rparr>"

section \<open>What the filters of a subscription ask for\<close>

text \<open>
  \<open>extract_kinds_from_filters\<close>: the union of the kinds, or nothing if some filter has no kind
  constraint.
\<close>

fun extract_kinds_loop :: "kind list \<Rightarrow> event_filter list \<Rightarrow> kind list option" where
  "extract_kinds_loop kinds [] = Some kinds"
| "extract_kinds_loop kinds (f # fs) =
     (case f_kinds f of
        Some filter_kinds \<Rightarrow> extract_kinds_loop (fold push_unseen filter_kinds kinds) fs
      | None \<Rightarrow> None)"

definition extract_kinds_from_filters :: "event_filter list \<Rightarrow> kind list option" where
  "extract_kinds_from_filters fs = extract_kinds_loop [] fs"

text \<open>
  \<open>extract_global_p_kind_index_keys\<close>: the (kind, recipient) pairs, or nothing if some filter
  that can match at all leaves the kind or the recipient open.
\<close>

fun global_p_keys_loop ::
    "community_id \<Rightarrow> global_p_key list \<Rightarrow> event_filter list \<Rightarrow> global_p_key list option" where
  "global_p_keys_loop c keys [] = Some keys"
| "global_p_keys_loop c keys (f # fs) =
     (case f_kinds f of
        None \<Rightarrow> None
      | Some kinds \<Rightarrow>
          if kinds = [] then global_p_keys_loop c keys fs
          else
            (case map_of (f_generic_tags f) ''p'' of
               None \<Rightarrow> None
             | Some p_values \<Rightarrow>
                 if p_values = [] then None
                 else global_p_keys_loop c
                   (fold push_unseen
                     (concat (map (\<lambda>kind. map (\<lambda>p. \<lparr>gk_community_id = c, gk_kind = kind, gk_p = p\<rparr>)
                       p_values) kinds)) keys) fs))"

definition extract_global_p_kind_index_keys ::
    "community_id \<Rightarrow> event_filter list \<Rightarrow> global_p_key list option" where
  "extract_global_p_kind_index_keys c fs = global_p_keys_loop c [] fs"

definition event_p_tag_values :: "stored_event \<Rightarrow> string list" where
  "event_p_tag_values ev =
     dedup_first (List.map_filter (\<lambda>t. if tag_kind t \<noteq> ''p'' then None else tag_content t)
       (ev_tags (st_event ev)))"

section \<open>Registration and removal\<close>

definition lookup_sub :: "registry \<Rightarrow> sub_key \<Rightarrow> sub_entry option" where
  "lookup_sub r e =
     (case hm_get (subs r) (fst e) of None \<Rightarrow> None | Some conn_subs \<Rightarrow> hm_get conn_subs (snd e))"

definition remove_from_index ::
    "conn_id \<Rightarrow> sub_id \<Rightarrow> event_filter list \<Rightarrow> community_id \<Rightarrow> uuid option \<Rightarrow> registry \<Rightarrow> registry"
  where
  "remove_from_index conn sid filters c ch r =
     (case ch of
        Some ch_id \<Rightarrow>
          (case extract_kinds_from_filters filters of
             None \<Rightarrow> r\<lparr>channel_wildcard_index :=
               idx_retain (c, ch_id) (conn, sid) (channel_wildcard_index r)\<rparr>
           | Some kinds \<Rightarrow>
               if kinds = [] then r
               else r\<lparr>channel_kind_index :=
                 fold (\<lambda>kind. idx_retain (c, \<lparr>ik_channel_id = ch_id, ik_kind = kind\<rparr>) (conn, sid))
                   kinds (channel_kind_index r)\<rparr>)
      | None \<Rightarrow>
          (case extract_global_p_kind_index_keys c filters of
             Some keys \<Rightarrow> r\<lparr>global_p_kind_index :=
               fold (\<lambda>key. idx_retain key (conn, sid)) keys (global_p_kind_index r)\<rparr>
           | None \<Rightarrow>
               (case extract_kinds_from_filters filters of
                  None \<Rightarrow> r\<lparr>global_wildcard_index :=
                    idx_retain c (conn, sid) (global_wildcard_index r)\<rparr>
                | Some kinds \<Rightarrow>
                    if kinds = [] then r
                    else r\<lparr>global_kind_index :=
                      fold (\<lambda>kind. idx_retain (c, kind) (conn, sid)) kinds
                        (global_kind_index r)\<rparr>)))"

definition remove_subscription ::
    "conn_id \<Rightarrow> sub_id \<Rightarrow> registry \<Rightarrow> removed_subscription option \<times> registry" where
  "remove_subscription conn sid r =
     (case hm_get (subs r) conn of
        None \<Rightarrow> (None, r)
      | Some conn_subs \<Rightarrow>
          (case hm_get conn_subs sid of
             None \<Rightarrow> (None, r)
           | Some (filters, c, ch) \<Rightarrow>
               (Some \<lparr>rm_community_id = c, rm_channel_id = ch\<rparr>,
                remove_from_index conn sid filters c ch
                  (r\<lparr>subs := hm_insert conn (hm_remove sid conn_subs) (subs r)\<rparr>))))"

text \<open>The indexing half of \<open>register_scoped\<close>.\<close>

definition index_subscription ::
    "conn_id \<Rightarrow> sub_id \<Rightarrow> event_filter list \<Rightarrow> community_id \<Rightarrow> uuid option \<Rightarrow> registry \<Rightarrow> registry"
  where
  "index_subscription conn sid filters c ch r =
     (case ch of
        Some ch_id \<Rightarrow>
          (case extract_kinds_from_filters filters of
             None \<Rightarrow> r\<lparr>channel_wildcard_index :=
               idx_push (c, ch_id) (conn, sid) (channel_wildcard_index r)\<rparr>
           | Some kinds \<Rightarrow>
               if kinds = [] then r
               else r\<lparr>channel_kind_index :=
                 fold (\<lambda>kind. idx_push (c, \<lparr>ik_channel_id = ch_id, ik_kind = kind\<rparr>) (conn, sid))
                   kinds (channel_kind_index r)\<rparr>)
      | None \<Rightarrow>
          (case extract_global_p_kind_index_keys c filters of
             Some keys \<Rightarrow> r\<lparr>global_p_kind_index :=
               fold (\<lambda>key. idx_push key (conn, sid)) keys (global_p_kind_index r)\<rparr>
           | None \<Rightarrow>
               (case extract_kinds_from_filters filters of
                  None \<Rightarrow> r\<lparr>global_wildcard_index :=
                    idx_push c (conn, sid) (global_wildcard_index r)\<rparr>
                | Some kinds \<Rightarrow>
                    if kinds = [] then r
                    else r\<lparr>global_kind_index :=
                      fold (\<lambda>kind. idx_push (c, kind) (conn, sid)) kinds
                        (global_kind_index r)\<rparr>)))"

definition register_scoped ::
    "community_id \<Rightarrow> conn_id \<Rightarrow> sub_id \<Rightarrow> event_filter list \<Rightarrow> uuid option \<Rightarrow> registry
     \<Rightarrow> removed_subscription option \<times> registry" where
  "register_scoped c conn sid filters ch r =
     (let (removed, r1) = remove_subscription conn sid r;
          conn_subs = hm_get_or [] (subs r1) conn;
          r2 = r1\<lparr>subs := hm_insert conn (hm_insert sid (filters, c, ch) conn_subs) (subs r1)\<rparr>
      in (removed, index_subscription conn sid filters c ch r2))"

text \<open>\<open>remove_connection\<close>: the loop over the removed connection's subscriptions.\<close>

fun remove_conn_loop ::
    "conn_id \<Rightarrow> (sub_id \<times> sub_entry) list \<Rightarrow> registry \<Rightarrow> removed_subscription list \<times> registry" where
  "remove_conn_loop conn [] r = ([], r)"
| "remove_conn_loop conn ((sid, (filters, c, ch)) # rest) r =
     (let (removed, r') = remove_conn_loop conn rest (remove_from_index conn sid filters c ch r)
      in (\<lparr>rm_community_id = c, rm_channel_id = ch\<rparr> # removed, r'))"

definition remove_connection :: "conn_id \<Rightarrow> registry \<Rightarrow> removed_subscription list \<times> registry" where
  "remove_connection conn r =
     (case hm_get (subs r) conn of
        None \<Rightarrow> ([], r)
      | Some conn_subs \<Rightarrow> remove_conn_loop conn conn_subs (r\<lparr>subs := hm_remove conn (subs r)\<rparr>))"

fun remove_sub_ids ::
    "conn_id \<Rightarrow> sub_id list \<Rightarrow> registry \<Rightarrow> (sub_id \<times> removed_subscription) list \<times> registry" where
  "remove_sub_ids conn [] r = ([], r)"
| "remove_sub_ids conn (sid # rest) r =
     (let (removed, r1) = remove_subscription conn sid r;
          (out, r2) = remove_sub_ids conn rest r1
      in ((case removed of None \<Rightarrow> out | Some x \<Rightarrow> (sid, x) # out), r2))"

definition remove_channel_subscriptions_scoped ::
    "community_id \<Rightarrow> conn_id \<Rightarrow> uuid \<Rightarrow> registry
     \<Rightarrow> (sub_id \<times> removed_subscription) list \<times> registry" where
  "remove_channel_subscriptions_scoped c conn ch r =
     (let sub_ids =
        (case hm_get (subs r) conn of
           None \<Rightarrow> []
         | Some conn_subs \<Rightarrow>
             map fst (filter (\<lambda>(sid, _, sub_c, sub_ch). sub_c = c \<and> sub_ch = Some ch) conn_subs))
      in remove_sub_ids conn sub_ids r)"

section \<open>Queries\<close>

definition channel_subscriber_conns_scoped :: "community_id \<Rightarrow> uuid \<Rightarrow> registry \<Rightarrow> conn_id list" where
  "channel_subscriber_conns_scoped c ch r =
     dedup_first
       (concat (map (\<lambda>(key, entries).
          if fst key = c \<and> ik_channel_id (snd key) = ch then map fst entries else [])
          (channel_kind_index r))
        @ map fst (idx_get (channel_wildcard_index r) (c, ch)))"

definition get_filters :: "registry \<Rightarrow> conn_id \<Rightarrow> sub_id \<Rightarrow> event_filter list option" where
  "get_filters r conn sid = map_option fst (lookup_sub r (conn, sid))"

definition total_subscriptions :: "registry \<Rightarrow> nat" where
  "total_subscriptions r = sum_list (map (\<lambda>e. length (snd e)) (subs r))"

definition total_connections :: "registry \<Rightarrow> nat" where
  "total_connections r = length (subs r)"

fun count_entries :: "(sub_id \<times> sub_entry) list \<Rightarrow> (community_id, nat) hmap \<Rightarrow> (community_id, nat) hmap"
  where
  "count_entries [] counts = counts"
| "count_entries ((_, _, c, _) # rest) counts =
     count_entries rest (hm_insert c (hm_get_or 0 counts c + 1) counts)"

definition per_community_subscriptions :: "registry \<Rightarrow> (community_id, nat) hmap" where
  "per_community_subscriptions r = fold (\<lambda>e. count_entries (snd e)) (subs r) []"

text \<open>
  \<open>push_match\<close> re-reads the subscription before it accepts a candidate. The \<open>seen\<close> set of the
  source always holds exactly the pushed results, so the results play both parts.
\<close>

definition push_match ::
    "(uuid \<Rightarrow> string) \<Rightarrow> registry \<Rightarrow> community_id \<Rightarrow> stored_event \<Rightarrow> sub_key
     \<Rightarrow> sub_key list \<Rightarrow> sub_key list" where
  "push_match us r c ev e results =
     (case lookup_sub r e of
        None \<Rightarrow> results
      | Some (filters, sub_c, sub_ch) \<Rightarrow>
          if sub_c = c \<and> sub_ch = st_channel_id ev \<and> filters_match us filters ev
          then push_unseen e results
          else results)"

definition fan_out_candidates :: "registry \<Rightarrow> community_id \<Rightarrow> stored_event \<Rightarrow> sub_key list" where
  "fan_out_candidates r c ev =
     (let kind = ev_kind (st_event ev) in
      case st_channel_id ev of
        Some ch \<Rightarrow>
          idx_get (channel_kind_index r) (c, \<lparr>ik_channel_id = ch, ik_kind = kind\<rparr>)
          @ idx_get (channel_wildcard_index r) (c, ch)
      | None \<Rightarrow>
          concat (map (\<lambda>p. idx_get (global_p_kind_index r)
              \<lparr>gk_community_id = c, gk_kind = kind, gk_p = p\<rparr>) (event_p_tag_values ev))
          @ idx_get (global_kind_index r) (c, kind)
          @ idx_get (global_wildcard_index r) c)"

definition fan_out_scoped ::
    "(uuid \<Rightarrow> string) \<Rightarrow> registry \<Rightarrow> community_id \<Rightarrow> stored_event \<Rightarrow> sub_key list" where
  "fan_out_scoped us r c ev = fold (push_match us r c ev) (fan_out_candidates r c ev) []"

end
