(* ===== verification/Registry_Laws.thy ===== *)
theory Registry_Laws
  imports Subscription
begin

text \<open>
  The subscription registry is correct: its five indexes always list exactly the
  subscriptions of its table, so fan-out through the indexes delivers to exactly the
  subscriptions that a scan of the whole table would select. The table itself refines a plain
  map from (connection, subscription id) to entries.
\<close>

section \<open>The keys an entry is indexed under\<close>

definition channel_kind_keys :: "sub_entry \<Rightarrow> (community_id \<times> index_key) list" where
  "channel_kind_keys en =
     (case en of (fs, c, Some ch) \<Rightarrow>
        (case extract_kinds_from_filters fs of
           None \<Rightarrow> [] | Some ks \<Rightarrow> map (\<lambda>k. (c, \<lparr>ik_channel_id = ch, ik_kind = k\<rparr>)) ks)
      | (fs, c, None) \<Rightarrow> [])"

definition channel_wildcard_keys :: "sub_entry \<Rightarrow> (community_id \<times> uuid) list" where
  "channel_wildcard_keys en =
     (case en of (fs, c, Some ch) \<Rightarrow>
        (if extract_kinds_from_filters fs = None then [(c, ch)] else [])
      | (fs, c, None) \<Rightarrow> [])"

definition global_p_keys :: "sub_entry \<Rightarrow> global_p_key list" where
  "global_p_keys en =
     (case en of (fs, c, None) \<Rightarrow>
        (case extract_global_p_kind_index_keys c fs of None \<Rightarrow> [] | Some keys \<Rightarrow> keys)
      | (fs, c, Some ch) \<Rightarrow> [])"

definition global_kind_keys :: "sub_entry \<Rightarrow> (community_id \<times> kind) list" where
  "global_kind_keys en =
     (case en of (fs, c, None) \<Rightarrow>
        (if extract_global_p_kind_index_keys c fs = None then
           (case extract_kinds_from_filters fs of None \<Rightarrow> [] | Some ks \<Rightarrow> map (Pair c) ks)
         else [])
      | (fs, c, Some ch) \<Rightarrow> [])"

definition global_wildcard_keys :: "sub_entry \<Rightarrow> community_id list" where
  "global_wildcard_keys en =
     (case en of (fs, c, None) \<Rightarrow>
        (if extract_global_p_kind_index_keys c fs = None \<and> extract_kinds_from_filters fs = None
         then [c] else [])
      | (fs, c, Some ch) \<Rightarrow> [])"

lemmas key_defs = channel_kind_keys_def channel_wildcard_keys_def global_p_keys_def
  global_kind_keys_def global_wildcard_keys_def

text \<open>Registration and removal, written through these keys.\<close>

lemma index_subscription_keys:
  "index_subscription conn sid fs c ch r =
     r\<lparr>channel_kind_index :=
          fold (\<lambda>k. idx_push k (conn, sid)) (channel_kind_keys (fs, c, ch)) (channel_kind_index r),
       channel_wildcard_index :=
          fold (\<lambda>k. idx_push k (conn, sid)) (channel_wildcard_keys (fs, c, ch))
            (channel_wildcard_index r),
       global_kind_index :=
          fold (\<lambda>k. idx_push k (conn, sid)) (global_kind_keys (fs, c, ch)) (global_kind_index r),
       global_p_kind_index :=
          fold (\<lambda>k. idx_push k (conn, sid)) (global_p_keys (fs, c, ch)) (global_p_kind_index r),
       global_wildcard_index :=
          fold (\<lambda>k. idx_push k (conn, sid)) (global_wildcard_keys (fs, c, ch))
            (global_wildcard_index r)\<rparr>"
  by (cases r; cases ch; cases "extract_kinds_from_filters fs";
      cases "extract_global_p_kind_index_keys c fs")
    (simp_all add: index_subscription_def key_defs fold_map comp_def)

lemma remove_from_index_keys:
  "remove_from_index conn sid fs c ch r =
     r\<lparr>channel_kind_index :=
          fold (\<lambda>k. idx_retain k (conn, sid)) (channel_kind_keys (fs, c, ch)) (channel_kind_index r),
       channel_wildcard_index :=
          fold (\<lambda>k. idx_retain k (conn, sid)) (channel_wildcard_keys (fs, c, ch))
            (channel_wildcard_index r),
       global_kind_index :=
          fold (\<lambda>k. idx_retain k (conn, sid)) (global_kind_keys (fs, c, ch)) (global_kind_index r),
       global_p_kind_index :=
          fold (\<lambda>k. idx_retain k (conn, sid)) (global_p_keys (fs, c, ch)) (global_p_kind_index r),
       global_wildcard_index :=
          fold (\<lambda>k. idx_retain k (conn, sid)) (global_wildcard_keys (fs, c, ch))
            (global_wildcard_index r)\<rparr>"
  by (cases r; cases ch; cases "extract_kinds_from_filters fs";
      cases "extract_global_p_kind_index_keys c fs")
    (simp_all add: remove_from_index_def key_defs fold_map comp_def)

section \<open>The index invariant\<close>

definition index_exact ::
    "('k, sub_key list) hmap \<Rightarrow> (sub_entry \<Rightarrow> 'k list) \<Rightarrow> (sub_key \<Rightarrow> sub_entry option) \<Rightarrow> bool" where
  "index_exact i keys look =
     (\<forall>k e. e \<in> set (idx_get i k) \<longleftrightarrow> (\<exists>v. look e = Some v \<and> k \<in> set (keys v)))"

definition indexes_exact :: "registry \<Rightarrow> (sub_key \<Rightarrow> sub_entry option) \<Rightarrow> bool" where
  "indexes_exact r look \<longleftrightarrow>
     index_exact (channel_kind_index r) channel_kind_keys look \<and>
     index_exact (channel_wildcard_index r) channel_wildcard_keys look \<and>
     index_exact (global_kind_index r) global_kind_keys look \<and>
     index_exact (global_p_kind_index r) global_p_keys look \<and>
     index_exact (global_wildcard_index r) global_wildcard_keys look"

lemma index_exact_insert:
  assumes "index_exact i keys look" and "look e0 = None"
  shows "index_exact (fold (\<lambda>k. idx_push k e0) (keys v) i) keys (look(e0 \<mapsto> v))"
proof -
  have "\<And>k e. e \<in> set (idx_get i k) \<longleftrightarrow> (\<exists>v. look e = Some v \<and> k \<in> set (keys v))"
    using assms(1) unfolding index_exact_def by blast
  from idx.exact_insert [OF this assms(2)] show ?thesis
    unfolding index_exact_def by blast
qed

lemma index_exact_delete:
  assumes "index_exact i keys look" and "look e0 = Some v"
  shows "index_exact (fold (\<lambda>k. idx_retain k e0) (keys v) i) keys (look(e0 := None))"
proof -
  have "\<And>k e. e \<in> set (idx_get i k) \<longleftrightarrow> (\<exists>v. look e = Some v \<and> k \<in> set (keys v))"
    using assms(1) unfolding index_exact_def by blast
  from idx.exact_delete [OF this assms(2)] show ?thesis
    unfolding index_exact_def by blast
qed

lemma indexes_exact_index_subscription:
  assumes "indexes_exact r look" and "look (conn, sid) = None"
  shows "indexes_exact (index_subscription conn sid fs c ch r) (look((conn, sid) \<mapsto> (fs, c, ch)))"
  using assms by (simp add: indexes_exact_def index_subscription_keys index_exact_insert)

lemma indexes_exact_remove_from_index:
  assumes "indexes_exact r look" and "look (conn, sid) = Some (fs, c, ch)"
  shows "indexes_exact (remove_from_index conn sid fs c ch r) (look((conn, sid) := None))"
  using assms by (simp add: indexes_exact_def remove_from_index_keys index_exact_delete)

lemma subs_index_subscription [simp]: "subs (index_subscription conn sid fs c ch r) = subs r"
  by (simp add: index_subscription_keys)

lemma subs_remove_from_index [simp]: "subs (remove_from_index conn sid fs c ch r) = subs r"
  by (simp add: remove_from_index_keys)

lemma indexes_exact_subs_update [simp]: "indexes_exact (r\<lparr>subs := t\<rparr>) look = indexes_exact r look"
  by (simp add: indexes_exact_def)

definition subs_wf :: "registry \<Rightarrow> bool" where
  "subs_wf r \<longleftrightarrow> hm_wf (subs r) \<and> (\<forall>(conn, m) \<in> set (subs r). hm_wf m)"

definition registry_wf :: "registry \<Rightarrow> bool" where
  "registry_wf r \<longleftrightarrow> subs_wf r \<and> indexes_exact r (lookup_sub r)"

lemma registry_wf_new: "registry_wf registry_new"
  by (simp add: registry_wf_def subs_wf_def registry_new_def indexes_exact_def index_exact_def
      idx_get_def lookup_sub_def)

section \<open>Each operation on the table\<close>

lemma lookup_sub_put:
  "lookup_sub (r\<lparr>subs := hm_insert conn m (subs r)\<rparr>) e
     = (if fst e = conn then hm_get m (snd e) else lookup_sub r e)"
  by (simp add: lookup_sub_def)

lemma lookup_sub_index_subscription [simp]:
  "lookup_sub (index_subscription conn sid fs c ch r) = lookup_sub r"
  by (simp add: fun_eq_iff lookup_sub_def)

lemma lookup_sub_remove_from_index [simp]:
  "lookup_sub (remove_from_index conn sid fs c ch r) = lookup_sub r"
  by (simp add: fun_eq_iff lookup_sub_def)

lemma subs_wf_get: "subs_wf r \<Longrightarrow> hm_get (subs r) conn = Some m \<Longrightarrow> hm_wf m"
  by (force simp: subs_wf_def hm_get_in_set)

lemma subs_wf_put: "subs_wf r \<Longrightarrow> hm_wf m \<Longrightarrow> subs_wf (r\<lparr>subs := hm_insert conn m (subs r)\<rparr>)"
  by (auto simp: subs_wf_def hm_insert_def hm_remove_def)
    (metis hm_insert_def hm_remove_def hm_wf_insert)

lemma subs_wf_drop: "subs_wf r \<Longrightarrow> subs_wf (r\<lparr>subs := hm_remove conn (subs r)\<rparr>)"
  by (auto simp: subs_wf_def) (auto simp: hm_remove_def)

lemma subs_wf_index_subscription [simp]:
  "subs_wf (index_subscription conn sid fs c ch r) = subs_wf r"
  by (simp add: subs_wf_def)

lemma subs_wf_remove_from_index [simp]: "subs_wf (remove_from_index conn sid fs c ch r) = subs_wf r"
  by (simp add: subs_wf_def)

lemma get_or_lookup [simp]:
  "hm_get (hm_get_or [] (subs r) conn) sid = lookup_sub r (conn, sid)"
  by (simp add: lookup_sub_def hm_get_or_def split: option.split)

lemma lookup_remove_subscription:
  "lookup_sub (snd (remove_subscription conn sid r)) = (lookup_sub r)((conn, sid) := None)"
proof (cases "hm_get (subs r) conn")
  case None
  then show ?thesis
    by (auto simp: remove_subscription_def fun_eq_iff lookup_sub_def)
next
  case (Some m)
  then show ?thesis
    by (cases "hm_get m sid")
      (auto simp: remove_subscription_def fun_eq_iff lookup_sub_def split: prod.splits)
qed

lemma remove_subscription_fst:
  "fst (remove_subscription conn sid r) =
     map_option (\<lambda>(fs, c, ch). \<lparr>rm_community_id = c, rm_channel_id = ch\<rparr>)
       (lookup_sub r (conn, sid))"
  by (simp add: remove_subscription_def lookup_sub_def split: option.splits prod.splits)

lemma remove_subscription_wf:
  assumes "registry_wf r"
  shows "registry_wf (snd (remove_subscription conn sid r))"
proof (cases "lookup_sub r (conn, sid)")
  case None
  then have "snd (remove_subscription conn sid r) = r"
    by (auto simp: remove_subscription_def lookup_sub_def split: option.splits)
  with assms show ?thesis by simp
next
  case (Some en)
  obtain fs c ch where en: "en = (fs, c, ch)" by (cases en)
  from Some obtain m where m: "hm_get (subs r) conn = Some m" "hm_get m sid = Some en"
    by (auto simp: lookup_sub_def split: option.splits)
  let ?r1 = "r\<lparr>subs := hm_insert conn (hm_remove sid m) (subs r)\<rparr>"
  have eq: "snd (remove_subscription conn sid r) = remove_from_index conn sid fs c ch ?r1"
    using m en by (simp add: remove_subscription_def)
  have "indexes_exact (remove_from_index conn sid fs c ch ?r1) ((lookup_sub r)((conn, sid) := None))"
    using assms Some en by (intro indexes_exact_remove_from_index) (auto simp: registry_wf_def)
  moreover have "subs_wf (remove_from_index conn sid fs c ch ?r1)"
    using assms m by (auto simp: registry_wf_def intro: subs_wf_put hm_wf_remove subs_wf_get)
  ultimately show ?thesis
    using lookup_remove_subscription [of conn sid r] by (simp add: registry_wf_def eq)
qed

lemma lookup_register_scoped:
  "lookup_sub (snd (register_scoped c conn sid fs ch r)) = (lookup_sub r)((conn, sid) \<mapsto> (fs, c, ch))"
  using lookup_remove_subscription [of conn sid r]
  by (auto simp: register_scoped_def Let_def split_def lookup_sub_put fun_eq_iff)

lemma register_scoped_wf:
  assumes "registry_wf r"
  shows "registry_wf (snd (register_scoped c conn sid fs ch r))"
proof -
  define r1 where "r1 = snd (remove_subscription conn sid r)"
  define m where "m = hm_insert sid (fs, c, ch) (hm_get_or [] (subs r1) conn)"
  define r2 where "r2 = r1\<lparr>subs := hm_insert conn m (subs r1)\<rparr>"
  have eq: "snd (register_scoped c conn sid fs ch r) = index_subscription conn sid fs c ch r2"
    by (simp add: register_scoped_def Let_def split_def r1_def m_def r2_def)
  have wf1: "registry_wf r1"
    unfolding r1_def by (rule remove_subscription_wf [OF assms])
  have none: "lookup_sub r1 (conn, sid) = None"
    by (simp add: r1_def lookup_remove_subscription)
  have wfm: "hm_wf m"
    using wf1 by (auto simp: m_def hm_get_or_def registry_wf_def subs_wf_get split: option.split)
  have "subs_wf r2"
    using wf1 wfm by (simp add: r2_def subs_wf_put registry_wf_def)
  then have "subs_wf (index_subscription conn sid fs c ch r2)" by simp
  moreover have "indexes_exact (index_subscription conn sid fs c ch r2)
      ((lookup_sub r1)((conn, sid) \<mapsto> (fs, c, ch)))"
    using wf1 none by (intro indexes_exact_index_subscription) (auto simp: registry_wf_def r2_def)
  moreover have "lookup_sub r2 = (lookup_sub r1)((conn, sid) \<mapsto> (fs, c, ch))"
    by (auto simp: r2_def lookup_sub_put fun_eq_iff m_def)
  ultimately show ?thesis by (simp add: registry_wf_def eq)
qed

text \<open>The loop of \<open>remove_connection\<close> un-indexes one remaining entry at a time.\<close>

lemma remove_conn_loop_subs [simp]: "subs (snd (remove_conn_loop conn es r)) = subs r"
  by (induction conn es r rule: remove_conn_loop.induct) (auto simp: split_def Let_def)

lemma subs_wf_remove_conn_loop [simp]: "subs_wf (snd (remove_conn_loop conn es r)) = subs_wf r"
  by (simp add: subs_wf_def)

lemma remove_conn_loop_exact:
  assumes "indexes_exact r look" and "distinct (map fst es)"
    and "\<forall>x \<in> set es. look (conn, fst x) = Some (snd x)"
  shows "indexes_exact (snd (remove_conn_loop conn es r))
    (\<lambda>e. if fst e = conn \<and> snd e \<in> fst ` set es then None else look e)"
  using assms
proof (induction es arbitrary: r look)
  case Nil
  then show ?case by simp
next
  case (Cons x es)
  obtain sid fs c ch where x: "x = (sid, fs, c, ch)" by (cases x)
  let ?look = "look((conn, sid) := None)"
  let ?r = "remove_from_index conn sid fs c ch r"
  have "indexes_exact ?r ?look"
    using Cons.prems x by (intro indexes_exact_remove_from_index) auto
  moreover have "distinct (map fst es)"
    and "\<forall>y \<in> set es. ?look (conn, fst y) = Some (snd y)"
    using Cons.prems x by auto
  ultimately have "indexes_exact (snd (remove_conn_loop conn es ?r))
      (\<lambda>e. if fst e = conn \<and> snd e \<in> fst ` set es then None else ?look e)"
    by (rule Cons.IH)
  moreover have "(\<lambda>e. if fst e = conn \<and> snd e \<in> fst ` set es then None else ?look e)
      = (\<lambda>e. if fst e = conn \<and> snd e \<in> fst ` set (x # es) then None else look e)"
    by (auto simp: x)
  ultimately show ?case by (simp add: x split_def Let_def)
qed

lemma lookup_remove_connection:
  "lookup_sub (snd (remove_connection conn r)) = (\<lambda>e. if fst e = conn then None else lookup_sub r e)"
  by (auto simp: remove_connection_def lookup_sub_def fun_eq_iff split: option.splits)

lemma remove_connection_wf:
  assumes wf: "registry_wf r"
  shows "registry_wf (snd (remove_connection conn r))"
proof (cases "hm_get (subs r) conn")
  case None
  with wf show ?thesis by (simp add: remove_connection_def)
next
  case (Some es)
  let ?r1 = "r\<lparr>subs := hm_remove conn (subs r)\<rparr>"
  have es: "hm_wf es" using wf Some by (auto simp: registry_wf_def intro: subs_wf_get)
  have "\<forall>x \<in> set es. lookup_sub r (conn, fst x) = Some (snd x)"
    using Some hm_get_in_set [OF es] by (simp add: lookup_sub_def)
  then have "indexes_exact (snd (remove_conn_loop conn es ?r1))
      (\<lambda>e. if fst e = conn \<and> snd e \<in> fst ` set es then None else lookup_sub r e)"
    using wf es by (intro remove_conn_loop_exact) (auto simp: registry_wf_def hm_wf_def)
  moreover have "lookup_sub r (conn, sid) = None" if "sid \<notin> fst ` set es" for sid
    using Some that by (simp add: lookup_sub_def hm_get_None_iff)
  then have "(\<lambda>e. if fst e = conn \<and> snd e \<in> fst ` set es then None else lookup_sub r e)
      = (\<lambda>e. if fst e = conn then None else lookup_sub r e)"
    by (auto simp: fun_eq_iff)
  moreover have "subs_wf (snd (remove_conn_loop conn es ?r1))"
    using wf by (auto simp: registry_wf_def intro: subs_wf_drop)
  ultimately show ?thesis
    using Some lookup_remove_connection [of conn r]
    by (simp add: registry_wf_def remove_connection_def)
qed

lemma remove_sub_ids_Cons:
  "snd (remove_sub_ids conn (sid # rest) r)
     = snd (remove_sub_ids conn rest (snd (remove_subscription conn sid r)))"
  by (simp add: split_def Let_def)

lemma remove_sub_ids_wf: "registry_wf r \<Longrightarrow> registry_wf (snd (remove_sub_ids conn sids r))"
  by (induction sids arbitrary: r)
    (simp, simp only: remove_sub_ids_Cons, simp add: remove_subscription_wf)

lemma lookup_remove_sub_ids:
  "lookup_sub (snd (remove_sub_ids conn sids r))
     = (\<lambda>e. if fst e = conn \<and> snd e \<in> set sids then None else lookup_sub r e)"
proof (induction sids arbitrary: r)
  case Nil
  then show ?case by simp
next
  case (Cons sid rest)
  then show ?case
    unfolding remove_sub_ids_Cons by (auto simp: fun_eq_iff lookup_remove_subscription)
qed

lemma lookup_remove_channel_subscriptions:
  assumes wf: "registry_wf r"
  shows "lookup_sub (snd (remove_channel_subscriptions_scoped c conn ch r)) =
    (\<lambda>e. case lookup_sub r e of
        Some (fs, c', ch') \<Rightarrow> if fst e = conn \<and> c' = c \<and> ch' = Some ch then None
                            else Some (fs, c', ch')
      | None \<Rightarrow> None)"
proof (cases "hm_get (subs r) conn")
  case None
  then show ?thesis
    by (auto simp: remove_channel_subscriptions_scoped_def fun_eq_iff lookup_sub_def
        split: option.splits)
next
  case (Some m)
  have m: "hm_wf m" using wf Some by (auto simp: registry_wf_def intro: subs_wf_get)
  have mem: "sid \<in> set (map fst (filter (\<lambda>(sid, _, sub_c, sub_ch). sub_c = c \<and> sub_ch = Some ch) m))
      \<longleftrightarrow> (\<exists>fs. hm_get m sid = Some (fs, c, Some ch))" for sid
    using hm_get_in_set [OF m] by force
  have look: "lookup_sub r (conn, sid) = hm_get m sid" for sid
    using Some by (simp add: lookup_sub_def)
  show ?thesis
    unfolding remove_channel_subscriptions_scoped_def Let_def lookup_remove_sub_ids Some option.case mem
    by (auto simp: fun_eq_iff look split: option.splits)
qed

section \<open>Runs of operations and the abstract table\<close>

datatype reg_op =
    Register community_id conn_id sub_id "event_filter list" "uuid option"
  | RemoveSubscription conn_id sub_id
  | RemoveConnection conn_id
  | RemoveChannelSubscriptions community_id conn_id uuid

fun reg_step :: "reg_op \<Rightarrow> registry \<Rightarrow> registry" where
  "reg_step (Register c conn sid fs ch) r = snd (register_scoped c conn sid fs ch r)"
| "reg_step (RemoveSubscription conn sid) r = snd (remove_subscription conn sid r)"
| "reg_step (RemoveConnection conn) r = snd (remove_connection conn r)"
| "reg_step (RemoveChannelSubscriptions c conn ch) r =
     snd (remove_channel_subscriptions_scoped c conn ch r)"

text \<open>What the operations mean: updates of a map from subscription keys to entries.\<close>

type_synonym sub_table = "sub_key \<Rightarrow> sub_entry option"

fun table_step :: "reg_op \<Rightarrow> sub_table \<Rightarrow> sub_table" where
  "table_step (Register c conn sid fs ch) t = t((conn, sid) \<mapsto> (fs, c, ch))"
| "table_step (RemoveSubscription conn sid) t = t((conn, sid) := None)"
| "table_step (RemoveConnection conn) t = (\<lambda>e. if fst e = conn then None else t e)"
| "table_step (RemoveChannelSubscriptions c conn ch) t =
     (\<lambda>e. case t e of
        Some (fs, c', ch') \<Rightarrow> if fst e = conn \<and> c' = c \<and> ch' = Some ch then None
                            else Some (fs, c', ch')
      | None \<Rightarrow> None)"

lemma remove_channel_subscriptions_wf:
  "registry_wf r \<Longrightarrow> registry_wf (snd (remove_channel_subscriptions_scoped c conn ch r))"
  by (simp add: remove_channel_subscriptions_scoped_def Let_def remove_sub_ids_wf)

lemma reg_step_wf: "registry_wf r \<Longrightarrow> registry_wf (reg_step op r)"
  by (cases op) (simp_all add: register_scoped_wf remove_subscription_wf remove_connection_wf
      remove_channel_subscriptions_wf)

interpretation reg: invariant_system reg_step registry_wf
  by unfold_locales (rule reg_step_wf)

lemma lookup_reg_step: "registry_wf r \<Longrightarrow> lookup_sub (reg_step op r) = table_step op (lookup_sub r)"
  by (cases op) (simp_all add: lookup_register_scoped lookup_remove_subscription
      lookup_remove_connection lookup_remove_channel_subscriptions)

lemma lookup_reg_run:
  "registry_wf r \<Longrightarrow> lookup_sub (fold reg_step ops r) = fold table_step ops (lookup_sub r)"
  by (induction ops arbitrary: r) (simp_all add: lookup_reg_step reg_step_wf)

lemma reg_run_wf: "registry_wf (fold reg_step ops registry_new)"
  by (rule reg.run_inv [OF registry_wf_new])

lemma lookup_reg_run_new:
  "lookup_sub (fold reg_step ops registry_new) = fold table_step ops (\<lambda>_. None)"
proof -
  have "lookup_sub registry_new = (\<lambda>_. None)"
    by (simp add: fun_eq_iff lookup_sub_def registry_new_def)
  then show ?thesis using lookup_reg_run [OF registry_wf_new, of ops] by simp
qed

end
