(* ===== verification/Fanout.thy ===== *)
theory Fanout
  imports Registry_Laws
begin

text \<open>
  What the registry promises to its callers, over every sequence of operations: the table is the
  plain map that the operations describe, and fan-out through the five indexes selects exactly
  the subscriptions that a scan of that map would. The last section leaves the atomic reading of
  the methods and shows what the unlocked gap between emptying an index bucket and removing it
  can do.
\<close>

section \<open>A matching subscription is a candidate\<close>

lemma extract_kinds_loop_covers:
  "extract_kinds_loop kinds fs = Some out \<Longrightarrow>
     set kinds \<subseteq> set out \<and> (\<forall>f \<in> set fs. \<exists>ks. f_kinds f = Some ks \<and> set ks \<subseteq> set out)"
proof (induction fs arbitrary: kinds)
  case Nil
  then show ?case by simp
next
  case (Cons f fs)
  then obtain ks where ks: "f_kinds f = Some ks"
    and rest: "extract_kinds_loop (fold push_unseen ks kinds) fs = Some out"
    by (auto split: option.splits)
  from Cons.IH [OF rest] ks show ?case
    by (auto simp: set_fold_push_unseen)
qed

lemma extract_kinds_covers:
  assumes "extract_kinds_from_filters fs = Some out" and "f \<in> set fs" and "f_kinds f = Some ks"
    and "k \<in> set ks"
  shows "k \<in> set out"
  using extract_kinds_loop_covers [of "[]" fs out] assms
  by (fastforce simp: extract_kinds_from_filters_def)

lemma extract_kinds_constrained:
  assumes "extract_kinds_from_filters fs = Some out" and "f \<in> set fs"
  shows "f_kinds f \<noteq> None"
  using extract_kinds_loop_covers [of "[]" fs out] assms
  by (auto simp: extract_kinds_from_filters_def)

lemma global_p_keys_loop_covers:
  "global_p_keys_loop c keys fs = Some out \<Longrightarrow>
     set keys \<subseteq> set out \<and>
     (\<forall>f \<in> set fs. \<exists>ks. f_kinds f = Some ks \<and>
        (ks = [] \<or> (\<exists>ps. map_of (f_generic_tags f) ''p'' = Some ps \<and>
           (\<forall>k \<in> set ks. \<forall>p \<in> set ps. \<lparr>gk_community_id = c, gk_kind = k, gk_p = p\<rparr> \<in> set out))))"
proof (induction fs arbitrary: keys)
  case Nil
  then show ?case by simp
next
  case (Cons f fs)
  from Cons.prems obtain ks where ks: "f_kinds f = Some ks" by (auto split: option.splits)
  show ?case
  proof (cases "ks = []")
    case True
    with Cons.prems ks have "global_p_keys_loop c keys fs = Some out" by simp
    from Cons.IH [OF this] ks True show ?thesis by simp
  next
    case False
    with Cons.prems ks obtain ps where ps: "map_of (f_generic_tags f) ''p'' = Some ps"
      by (auto split: option.splits if_splits)
    let ?new = "concat (map (\<lambda>kind. map (\<lambda>p. \<lparr>gk_community_id = c, gk_kind = kind, gk_p = p\<rparr>) ps) ks)"
    from Cons.prems ks ps False have "global_p_keys_loop c (fold push_unseen ?new keys) fs = Some out"
      by (auto split: if_splits)
    from Cons.IH [OF this] ks ps show ?thesis
      by (auto simp: set_fold_push_unseen)
  qed
qed

lemma event_p_tag_values_complete: "has_tag_value (st_event ev) ''p'' v \<Longrightarrow> v \<in> set (event_p_tag_values ev)"
  by (force simp: has_tag_value_iff event_p_tag_values_def List.map_filter_def)

text \<open>The channel half and the global half of completeness.\<close>

lemma channel_match_is_candidate:
  assumes wf: "registry_wf r" and look: "lookup_sub r e = Some (fs, c, Some ch)"
    and ev: "st_channel_id ev = Some ch" and m: "filters_match us fs ev"
  shows "e \<in> set (fan_out_candidates r c ev)"
proof -
  obtain f where f: "f \<in> set fs" "filter_match_one us f ev"
    using m by (auto simp: filters_match_iff)
  have ex1: "index_exact (channel_kind_index r) channel_kind_keys (lookup_sub r)"
    and ex2: "index_exact (channel_wildcard_index r) channel_wildcard_keys (lookup_sub r)"
    using wf by (auto simp: registry_wf_def indexes_exact_def)
  show ?thesis
  proof (cases "extract_kinds_from_filters fs")
    case None
    then have "(c, ch) \<in> set (channel_wildcard_keys (fs, c, Some ch))"
      by (simp add: channel_wildcard_keys_def)
    then have "e \<in> set (idx_get (channel_wildcard_index r) (c, ch))"
      using ex2 look unfolding index_exact_def by blast
    with ev show ?thesis by (simp add: fan_out_candidates_def)
  next
    case (Some out)
    then obtain ks where ks: "f_kinds f = Some ks" using extract_kinds_constrained f(1) by blast
    with f have "ev_kind (st_event ev) \<in> set ks" by (blast intro: filter_match_one_kind)
    then have "ev_kind (st_event ev) \<in> set out" by (rule extract_kinds_covers [OF Some f(1) ks])
    with Some have "(c, \<lparr>ik_channel_id = ch, ik_kind = ev_kind (st_event ev)\<rparr>)
        \<in> set (channel_kind_keys (fs, c, Some ch))"
      by (auto simp: channel_kind_keys_def)
    then have "e \<in> set (idx_get (channel_kind_index r)
        (c, \<lparr>ik_channel_id = ch, ik_kind = ev_kind (st_event ev)\<rparr>))"
      using ex1 look unfolding index_exact_def by blast
    with ev show ?thesis by (simp add: fan_out_candidates_def Let_def)
  qed
qed

lemma global_match_is_candidate:
  assumes wf: "registry_wf r" and look: "lookup_sub r e = Some (fs, c, None)"
    and ev: "st_channel_id ev = None" and m: "filters_match us fs ev"
  shows "e \<in> set (fan_out_candidates r c ev)"
proof -
  let ?k = "ev_kind (st_event ev)"
  obtain f where f: "f \<in> set fs" "filter_match_one us f ev"
    using m by (auto simp: filters_match_iff)
  have ex1: "index_exact (global_p_kind_index r) global_p_keys (lookup_sub r)"
    and ex2: "index_exact (global_kind_index r) global_kind_keys (lookup_sub r)"
    and ex3: "index_exact (global_wildcard_index r) global_wildcard_keys (lookup_sub r)"
    using wf by (auto simp: registry_wf_def indexes_exact_def)
  show ?thesis
  proof (cases "extract_global_p_kind_index_keys c fs")
    case (Some out)
    then obtain ks where ks: "f_kinds f = Some ks"
      and cov: "ks = [] \<or> (\<exists>ps. map_of (f_generic_tags f) ''p'' = Some ps \<and>
           (\<forall>k \<in> set ks. \<forall>p \<in> set ps. \<lparr>gk_community_id = c, gk_kind = k, gk_p = p\<rparr> \<in> set out))"
      using global_p_keys_loop_covers [of c "[]" fs out] f(1)
      by (auto simp: extract_global_p_kind_index_keys_def)
    have k: "?k \<in> set ks" using f(2) ks by (rule filter_match_one_kind)
    with cov obtain ps where ps: "map_of (f_generic_tags f) ''p'' = Some ps"
      and out: "\<forall>p \<in> set ps. \<lparr>gk_community_id = c, gk_kind = ?k, gk_p = p\<rparr> \<in> set out" by auto
    obtain p where p: "p \<in> set ps" "has_tag_value (st_event ev) ''p'' p"
      using filter_match_one_tag [OF f(2) ps] by auto
    then have "\<lparr>gk_community_id = c, gk_kind = ?k, gk_p = p\<rparr> \<in> set (global_p_keys (fs, c, None))"
      using out Some by (simp add: global_p_keys_def)
    then have "e \<in> set (idx_get (global_p_kind_index r) \<lparr>gk_community_id = c, gk_kind = ?k, gk_p = p\<rparr>)"
      using ex1 look unfolding index_exact_def by blast
    with ev p(2) show ?thesis
      by (auto simp: fan_out_candidates_def Let_def intro: event_p_tag_values_complete)
  next
    case p_none: None
    show ?thesis
    proof (cases "extract_kinds_from_filters fs")
      case None
      with p_none have "c \<in> set (global_wildcard_keys (fs, c, None))"
        by (simp add: global_wildcard_keys_def)
      then have "e \<in> set (idx_get (global_wildcard_index r) c)"
        using ex3 look unfolding index_exact_def by blast
      with ev show ?thesis by (simp add: fan_out_candidates_def Let_def)
    next
      case (Some out)
      then obtain ks where ks: "f_kinds f = Some ks" using extract_kinds_constrained f(1) by blast
      with f have "?k \<in> set ks" by (blast intro: filter_match_one_kind)
      then have "?k \<in> set out" by (rule extract_kinds_covers [OF Some f(1) ks])
      with Some p_none have "(c, ?k) \<in> set (global_kind_keys (fs, c, None))"
        by (auto simp: global_kind_keys_def)
      then have "e \<in> set (idx_get (global_kind_index r) (c, ?k))"
        using ex2 look unfolding index_exact_def by blast
      with ev show ?thesis by (simp add: fan_out_candidates_def Let_def)
    qed
  qed
qed

section \<open>The candidate loop\<close>

definition sub_accepts ::
    "(uuid \<Rightarrow> string) \<Rightarrow> community_id \<Rightarrow> stored_event \<Rightarrow> sub_entry \<Rightarrow> bool" where
  "sub_accepts us c ev en \<longleftrightarrow>
     (case en of (fs, c', ch') \<Rightarrow> c' = c \<and> ch' = st_channel_id ev \<and> filters_match us fs ev)"

lemma push_match_eq:
  "push_match us r c ev e results =
     (case lookup_sub r e of
        Some en \<Rightarrow> if sub_accepts us c ev en then push_unseen e results else results
      | None \<Rightarrow> results)"
  by (auto simp: push_match_def sub_accepts_def split: option.split prod.split)

lemma set_fold_push_match:
  "set (fold (push_match us r c ev) es results) =
     set results \<union> {e \<in> set es. \<exists>en. lookup_sub r e = Some en \<and> sub_accepts us c ev en}"
  by (induction es arbitrary: results) (auto simp: push_match_eq split: option.splits)

lemma distinct_fold_push_match:
  "distinct results \<Longrightarrow> distinct (fold (push_match us r c ev) es results)"
  by (induction es arbitrary: results)
    (auto simp: push_match_eq distinct_push_unseen split: option.splits)

lemma fan_out_scoped_set:
  assumes wf: "registry_wf r"
  shows "set (fan_out_scoped us r c ev) =
    {e. \<exists>en. lookup_sub r e = Some en \<and> sub_accepts us c ev en}"
proof -
  have "e \<in> set (fan_out_candidates r c ev)"
    if look: "lookup_sub r e = Some en" and acc: "sub_accepts us c ev en" for e en
  proof -
    obtain fs where en: "en = (fs, c, st_channel_id ev)" and m: "filters_match us fs ev"
      using acc by (cases en) (auto simp: sub_accepts_def)
    show ?thesis
    proof (cases "st_channel_id ev")
      case None
      with look en m show ?thesis by (intro global_match_is_candidate [OF wf]) auto
    next
      case (Some ch)
      with look en m show ?thesis by (intro channel_match_is_candidate [OF wf]) auto
    qed
  qed
  then show ?thesis
    by (auto simp: fan_out_scoped_def set_fold_push_match)
qed

section \<open>Properties\<close>

text \<open>
  C1. Fan-out is exact. After any sequence of registrations, replacements and removals, the
  result for an event lists, without duplicates, precisely the subscriptions that the plain
  map of the operations holds under the event's community and channel and whose filters match.
\<close>
theorem fan_out_exact:
  "set (fan_out_scoped us (fold reg_step ops registry_new) c ev) =
     {e. \<exists>fs. fold table_step ops (\<lambda>_. None) e = Some (fs, c, st_channel_id ev) \<and>
          filters_match us fs ev}
   \<and> distinct (fan_out_scoped us (fold reg_step ops registry_new) c ev)"
proof
  let ?r = "fold reg_step ops registry_new"
  show "set (fan_out_scoped us ?r c ev) =
     {e. \<exists>fs. fold table_step ops (\<lambda>_. None) e = Some (fs, c, st_channel_id ev) \<and>
          filters_match us fs ev}"
    by (auto simp: fan_out_scoped_set [OF reg_run_wf] sub_accepts_def lookup_reg_run_new)
  show "distinct (fan_out_scoped us ?r c ev)"
    by (simp add: fan_out_scoped_def distinct_fold_push_match)
qed

text \<open>
  C30. The registry's indexes never drift: after any sequence of operations every index bucket
  lists exactly the live subscriptions whose own filters put them there, nothing stale and
  nothing missing.
\<close>
theorem registry_indexes_never_drift:
  "indexes_exact (fold reg_step ops registry_new) (fold table_step ops (\<lambda>_. None))
   \<and> lookup_sub (fold reg_step ops registry_new) = fold table_step ops (\<lambda>_. None)"
  using reg_run_wf [of ops] by (simp add: registry_wf_def lookup_reg_run_new)

text \<open>
  Stale candidates are harmless: whatever snapshot of an index the loop runs over, a
  subscription is delivered to only if it is registered now, for the event's community and
  channel, with a filter that matches.
\<close>
lemma stale_candidates_are_rechecked:
  "e \<in> set (fold (push_match us r c ev) snapshot []) \<longleftrightarrow>
     e \<in> set snapshot \<and>
     (\<exists>fs. lookup_sub r e = Some (fs, c, st_channel_id ev) \<and> filters_match us fs ev)"
  by (auto simp: set_fold_push_match sub_accepts_def)


section \<open>The removal race\<close>

text \<open>
  In \<open>remove_from_index\<close> the guard on the bucket is released between emptying it and removing
  it (\<open>drop(entries); index.remove(&key)\<close>), and \<open>register_scoped\<close> may run in the gap. These
  are the two halves for the wildcard bucket of a channel.
\<close>

definition retain_wildcard_bucket ::
    "community_id \<Rightarrow> uuid \<Rightarrow> sub_key \<Rightarrow> registry \<Rightarrow> bool \<times> registry" where
  "retain_wildcard_bucket c ch e r =
     (case hm_get (channel_wildcard_index r) (c, ch) of
        None \<Rightarrow> (False, r)
      | Some entries \<Rightarrow>
          (let kept = filter (\<lambda>x. x \<noteq> e) entries in
           (kept = [],
            r\<lparr>channel_wildcard_index := hm_insert (c, ch) kept (channel_wildcard_index r)\<rparr>)))"

definition drop_wildcard_bucket :: "community_id \<Rightarrow> uuid \<Rightarrow> bool \<times> registry \<Rightarrow> registry" where
  "drop_wildcard_bucket c ch half =
     (if fst half
      then (snd half)\<lparr>channel_wildcard_index :=
             hm_remove (c, ch) (channel_wildcard_index (snd half))\<rparr>
      else snd half)"

lemma wildcard_halves_compose:
  "idx_get (channel_wildcard_index (drop_wildcard_bucket c ch (retain_wildcard_bucket c ch e r))) k
   = idx_get (idx_retain (c, ch) e (channel_wildcard_index r)) k"
  by (auto simp: drop_wildcard_bucket_def retain_wildcard_bucket_def idx_get_def idx_retain_def
      hm_get_or_def Let_def split: option.split)

text \<open>
  The schedule: connection \<open>a\<close> closes its only kindless subscription on the channel; while its
  bucket is empty but not yet removed, connection \<open>b\<close> registers one; then the bucket goes.
\<close>

definition race_registry :: "community_id \<Rightarrow> uuid \<Rightarrow> sub_key \<Rightarrow> event_filter list \<Rightarrow> registry" where
  "race_registry c ch b fs =
     (let r0 = snd (register_scoped c 1 ''a'' fs (Some ch) registry_new);
          r1 = r0\<lparr>subs := hm_insert 1 [] (subs r0)\<rparr>;
          half = retain_wildcard_bucket c ch (1, ''a'') r1;
          r2 = snd (register_scoped c (fst b) (snd b) fs (Some ch) (snd half))
      in drop_wildcard_bucket c ch (fst half, r2))"

lemmas registry_eval = register_scoped_def remove_subscription_def index_subscription_def
  idx_push_def idx_get_def registry_new_def lookup_sub_def hm_get_or_def
  retain_wildcard_bucket_def drop_wildcard_bucket_def

text \<open>
  The gap loses a live subscription. Under that schedule, for every connection other than
  the first, the second subscription is in the table, yet fan-out reaches nobody on that
  channel: events that match it are not delivered.
\<close>
lemma removal_race_loses_subscription:
  assumes "fst b \<noteq> 1" and "extract_kinds_from_filters fs = None"
  shows "lookup_sub (race_registry c ch b fs) b = Some (fs, c, Some ch)
    \<and> (\<forall>us ev. st_channel_id ev = Some ch
         \<longrightarrow> fan_out_scoped us (race_registry c ch b fs) c ev = [])"
proof -
  have table: "lookup_sub (race_registry c ch b fs) b = Some (fs, c, Some ch)"
    using assms by (cases b) (simp add: race_registry_def registry_eval Let_def)
  have wild: "idx_get (channel_wildcard_index (race_registry c ch b fs)) (c, ch) = []"
    using assms by (cases b) (simp add: race_registry_def registry_eval Let_def)
  have kinds: "idx_get (channel_kind_index (race_registry c ch b fs)) k = []" for k
    using assms by (cases b) (simp add: race_registry_def registry_eval Let_def)
  show ?thesis
    using table by (simp add: fan_out_scoped_def fan_out_candidates_def Let_def wild kinds)
qed

definition kindless_filter :: event_filter where
  "kindless_filter =
     \<lparr>f_ids = None, f_authors = None, f_kinds = None, f_since = None, f_until = None,
      f_generic_tags = [], f_limit = None, f_search = None\<rparr>"

lemma removal_race_loses_subscription_witness:
  "lookup_sub (race_registry 4 7 (2, ''b'') [kindless_filter]) (2, ''b'')
     = Some ([kindless_filter], 4, Some 7)"
  using removal_race_loses_subscription [of "(2, ''b'')" "[kindless_filter]" 4 7]
  by (simp add: extract_kinds_from_filters_def kindless_filter_def)

end
