(* ===== verification/Scopes.thy ===== *)
theory Scopes
  imports Prelude
begin

text \<open>
  Authorization scopes and the authentication context of a connection,
  \<open>crates/buzz-auth/src/scope.rs\<close> and \<open>lib.rs\<close>, and the connection's authentication state,
  \<open>crates/buzz-relay/src/connection.rs\<close>.
\<close>

datatype scope =
    MessagesRead
  | MessagesWrite
  | ChannelsRead
  | ChannelsWrite
  | AdminChannels
  | UsersRead
  | UsersWrite
  | AdminUsers
  | JobsRead
  | JobsWrite
  | SubscriptionsRead
  | SubscriptionsWrite
  | FilesRead
  | FilesWrite
  | ReposRead
  | ReposWrite
  | Unknown string

definition scope_all_known :: "scope list" where
  "scope_all_known =
     [MessagesRead, MessagesWrite, ChannelsRead, ChannelsWrite,
      AdminChannels, UsersRead, UsersWrite, AdminUsers,
      JobsRead, JobsWrite, SubscriptionsRead, SubscriptionsWrite,
      FilesRead, FilesWrite, ReposRead, ReposWrite]"

definition scope_all_non_admin :: "scope list" where
  "scope_all_non_admin =
     [MessagesRead, MessagesWrite, ChannelsRead, ChannelsWrite,
      UsersRead, UsersWrite, JobsRead, JobsWrite,
      SubscriptionsRead, SubscriptionsWrite, FilesRead, FilesWrite,
      ReposRead, ReposWrite]"

fun scope_as_str :: "scope \<Rightarrow> string" where
  "scope_as_str MessagesRead = ''messages:read''"
| "scope_as_str MessagesWrite = ''messages:write''"
| "scope_as_str ChannelsRead = ''channels:read''"
| "scope_as_str ChannelsWrite = ''channels:write''"
| "scope_as_str AdminChannels = ''admin:channels''"
| "scope_as_str UsersRead = ''users:read''"
| "scope_as_str UsersWrite = ''users:write''"
| "scope_as_str AdminUsers = ''admin:users''"
| "scope_as_str JobsRead = ''jobs:read''"
| "scope_as_str JobsWrite = ''jobs:write''"
| "scope_as_str SubscriptionsRead = ''subscriptions:read''"
| "scope_as_str SubscriptionsWrite = ''subscriptions:write''"
| "scope_as_str FilesRead = ''files:read''"
| "scope_as_str FilesWrite = ''files:write''"
| "scope_as_str ReposRead = ''repos:read''"
| "scope_as_str ReposWrite = ''repos:write''"
| "scope_as_str (Unknown s) = s"

definition scope_from_str :: "string \<Rightarrow> scope" where
  "scope_from_str s =
     (if s = ''messages:read'' then MessagesRead
      else if s = ''messages:write'' then MessagesWrite
      else if s = ''channels:read'' then ChannelsRead
      else if s = ''channels:write'' then ChannelsWrite
      else if s = ''admin:channels'' then AdminChannels
      else if s = ''users:read'' then UsersRead
      else if s = ''users:write'' then UsersWrite
      else if s = ''admin:users'' then AdminUsers
      else if s = ''jobs:read'' then JobsRead
      else if s = ''jobs:write'' then JobsWrite
      else if s = ''subscriptions:read'' then SubscriptionsRead
      else if s = ''subscriptions:write'' then SubscriptionsWrite
      else if s = ''files:read'' then FilesRead
      else if s = ''files:write'' then FilesWrite
      else if s = ''repos:read'' then ReposRead
      else if s = ''repos:write'' then ReposWrite
      else Unknown s)"

definition parse_scopes :: "string list \<Rightarrow> scope list" where
  "parse_scopes raw = map scope_from_str raw"

datatype auth_method = Nip42 | Nip98

record auth_context =
  ax_pubkey :: hex_string
  ax_scopes :: "scope list"
  ax_channel_ids :: "uuid list option"
  ax_auth_method :: auth_method
  ax_agent_owner_pubkey :: "hex_string option"

definition has_scope :: "auth_context \<Rightarrow> scope \<Rightarrow> bool" where
  "has_scope ctx s = (s \<in> set (ax_scopes ctx))"

datatype auth_state = Pending string | Authenticated auth_context | Failed

text \<open>A scope that no string of the wire format denotes: \<open>Unknown\<close> with a known name.\<close>

definition scope_canonical :: "scope \<Rightarrow> bool" where
  "scope_canonical s = (case s of Unknown n \<Rightarrow> n \<notin> set (map scope_as_str scope_all_known) | _ \<Rightarrow> True)"

lemma scope_from_as_str: "scope_canonical s \<Longrightarrow> scope_from_str (scope_as_str s) = s"
  by (cases s) (simp_all add: scope_from_str_def scope_canonical_def scope_all_known_def)

lemma scope_as_from_str [simp]: "scope_as_str (scope_from_str s) = s"
  by (simp add: scope_from_str_def)

lemma scope_from_str_canonical [simp]: "scope_canonical (scope_from_str s)"
  by (simp add: scope_from_str_def scope_canonical_def scope_all_known_def)

text \<open>
  Scopes survive the database. Any list of scope strings parses to a list of scopes that
  prints back to the same strings, unknown names included; the scopes that parsing can produce
  are exactly the canonical ones, so no second \<open>Unknown\<close> spelling of a known scope can arise;
  and the non-admin set is the known set without the two admin scopes.
\<close>
lemma scope_roundtrip:
  "map scope_as_str (parse_scopes raw) = raw
   \<and> (scope_canonical s \<longleftrightarrow> scope_from_str (scope_as_str s) = s)
   \<and> scope_all_non_admin = filter (\<lambda>x. x \<noteq> AdminChannels \<and> x \<noteq> AdminUsers) scope_all_known"
proof -
  have "scope_canonical s \<longleftrightarrow> scope_from_str (scope_as_str s) = s"
    using scope_from_as_str scope_from_str_canonical [of "scope_as_str s"] by metis
  then show ?thesis
    by (simp add: parse_scopes_def comp_def scope_all_non_admin_def scope_all_known_def)
qed

end
