(* ===== verification/Read_Gates.thy ===== *)
theory Read_Gates
  imports Fanout Scopes
begin

text \<open>
  The read gates of the relay, \<open>crates/buzz-relay/src/handlers/req.rs\<close>: which channel a
  subscription is bound to, which filters a reader may send for the sensitive kinds, and which
  single events a reader may see. Public keys are compared in their lowercase hexadecimal form
  here; the source compares them partly as bytes. \<open>str::parse::<Uuid>\<close> belongs to the \<open>uuid\<close>
  crate and is the parameter \<open>parse_uuid\<close>.
\<close>

section \<open>Which channel a filter names\<close>

text \<open>
  \<open>extract_channel_id_from_filters\<close>: the two nested loops over the tag entries and their
  values carry \<open>found_id\<close> and \<open>filter_has_channel\<close>; \<open>None\<close> as the outcome is the early return.
\<close>

fun h_value_loop ::
    "(string \<Rightarrow> uuid option) \<Rightarrow> string list \<Rightarrow> bool \<times> uuid option \<Rightarrow> (bool \<times> uuid option) option" where
  "h_value_loop parse_uuid [] st = Some st"
| "h_value_loop parse_uuid (val # vals) (has_channel, found) =
     (case parse_uuid val of
        None \<Rightarrow> h_value_loop parse_uuid vals (has_channel, found)
      | Some i \<Rightarrow>
          (case found of
             Some existing \<Rightarrow>
               if existing \<noteq> i then None else h_value_loop parse_uuid vals (True, Some i)
           | None \<Rightarrow> h_value_loop parse_uuid vals (True, Some i)))"

fun tag_entry_loop ::
    "(string \<Rightarrow> uuid option) \<Rightarrow> (string \<times> string list) list \<Rightarrow> bool \<times> uuid option
     \<Rightarrow> (bool \<times> uuid option) option" where
  "tag_entry_loop parse_uuid [] st = Some st"
| "tag_entry_loop parse_uuid ((key, vals) # rest) st =
     (if key = ''h'' then
        (case h_value_loop parse_uuid vals st of
           None \<Rightarrow> None
         | Some st' \<Rightarrow> tag_entry_loop parse_uuid rest st')
      else tag_entry_loop parse_uuid rest st)"

fun channel_filter_loop ::
    "(string \<Rightarrow> uuid option) \<Rightarrow> uuid option \<Rightarrow> event_filter list \<Rightarrow> uuid option" where
  "channel_filter_loop parse_uuid found [] = found"
| "channel_filter_loop parse_uuid found (f # fs) =
     (case tag_entry_loop parse_uuid (f_generic_tags f) (False, found) of
        None \<Rightarrow> None
      | Some (has_channel, found') \<Rightarrow>
          if has_channel then channel_filter_loop parse_uuid found' fs else None)"

definition extract_channel_id_from_filters ::
    "(string \<Rightarrow> uuid option) \<Rightarrow> event_filter list \<Rightarrow> uuid option" where
  "extract_channel_id_from_filters parse_uuid fs = channel_filter_loop parse_uuid None fs"

text \<open>\<open>extract_channel_id_from_filter\<close>: the first parsable \<open>#h\<close> value of one filter.\<close>

definition h_channels :: "(string \<Rightarrow> uuid option) \<Rightarrow> event_filter \<Rightarrow> uuid list" where
  "h_channels parse_uuid f =
     List.map_filter parse_uuid
       (concat (map snd (filter (\<lambda>(key, _). key = ''h'') (f_generic_tags f))))"

definition extract_channel_id_from_filter ::
    "(string \<Rightarrow> uuid option) \<Rightarrow> event_filter \<Rightarrow> uuid option" where
  "extract_channel_id_from_filter parse_uuid f =
     (case h_channels parse_uuid f of [] \<Rightarrow> None | i # _ \<Rightarrow> Some i)"

text \<open>The COUNT handler's variant: only a single \<open>#h\<close> value counts.\<close>

definition extract_channel_from_filter ::
    "(string \<Rightarrow> uuid option) \<Rightarrow> event_filter \<Rightarrow> uuid option" where
  "extract_channel_from_filter parse_uuid f =
     (case map_of (f_generic_tags f) ''h'' of
        Some [v] \<Rightarrow> parse_uuid v
      | _ \<Rightarrow> None)"

section \<open>Gates on filters\<close>

definition p_values_are_self :: "event_filter \<Rightarrow> hex_string \<Rightarrow> bool" where
  "p_values_are_self f authed =
     is_some_and (\<lambda>values. values \<noteq> [] \<and> list_all (\<lambda>v. v = authed) values)
       (map_of (f_generic_tags f) ''p'')"

definition authors_are_self :: "event_filter \<Rightarrow> hex_string \<Rightarrow> bool" where
  "authors_are_self f authed =
     is_some_and (\<lambda>authors. authors \<noteq> [] \<and> list_all (\<lambda>a. eq_ignore_ascii_case a authed) authors)
       (f_authors f)"

definition p_gated_filter_authorized :: "hex_string \<Rightarrow> event_filter \<Rightarrow> bool" where
  "p_gated_filter_authorized authed f =
     (let can_match_p_gated =
        is_none_or (\<lambda>ks. list_ex (\<lambda>k. k \<in> set P_GATED_KINDS) ks) (f_kinds f) in
      if \<not> can_match_p_gated then True
      else
        (let explicitly_no_ids_exemption =
           is_some_and
             (\<lambda>ks. list_ex (\<lambda>k. k = KIND_DM_VISIBILITY \<or> k = KIND_AGENT_TURN_METRIC) ks)
             (f_kinds f) in
         if \<not> explicitly_no_ids_exemption \<and> is_some_and (\<lambda>ids. ids \<noteq> []) (f_ids f) then True
         else p_values_are_self f authed))"

definition p_gated_filters_authorized :: "event_filter list \<Rightarrow> hex_string \<Rightarrow> bool" where
  "p_gated_filters_authorized fs authed = list_all (p_gated_filter_authorized authed) fs"

definition engram_filters_authorized :: "event_filter list \<Rightarrow> hex_string \<Rightarrow> bool" where
  "engram_filters_authorized fs authed =
     list_all (\<lambda>f.
       if is_some_and (\<lambda>ids. ids \<noteq> []) (f_ids f) then True
       else if \<not> is_none_or (\<lambda>ks. list_ex (\<lambda>k. k = KIND_AGENT_ENGRAM) ks) (f_kinds f) then True
       else if authors_are_self f authed then True
       else p_values_are_self f authed) fs"

definition author_only_filters_authorized :: "event_filter list \<Rightarrow> hex_string \<Rightarrow> bool" where
  "author_only_filters_authorized fs authed =
     list_all (\<lambda>f.
       let targets_only_author_only =
         is_some_and (\<lambda>ks. ks \<noteq> [] \<and> list_all (\<lambda>k. k \<in> set AUTHOR_ONLY_KINDS) ks) (f_kinds f) in
       if \<not> targets_only_author_only then True else authors_are_self f authed) fs"

definition filter_can_match_author_only_kinds :: "event_filter \<Rightarrow> bool" where
  "filter_can_match_author_only_kinds f =
     is_none_or (\<lambda>ks. list_ex (\<lambda>k. k \<in> set AUTHOR_ONLY_KINDS) ks) (f_kinds f)"

definition filter_can_match_persona_shared_kinds :: "event_filter \<Rightarrow> bool" where
  "filter_can_match_persona_shared_kinds f =
     is_none_or (\<lambda>ks. list_ex (\<lambda>k. k = KIND_PERSONA) ks) (f_kinds f)"

definition filter_can_match_result_gated_kinds :: "event_filter \<Rightarrow> bool" where
  "filter_can_match_result_gated_kinds f =
     is_none_or (\<lambda>ks. list_ex (\<lambda>k. k \<in> set RESULT_GATED_KINDS) ks) (f_kinds f)"

definition result_gated_count_safe_for_pushdown :: "event_filter \<Rightarrow> hex_string \<Rightarrow> bool" where
  "result_gated_count_safe_for_pushdown f authed = p_values_are_self f authed"

definition filters_are_nip43_membership_only :: "event_filter list \<Rightarrow> bool" where
  "filters_are_nip43_membership_only fs =
     (fs \<noteq> [] \<and>
      list_all (\<lambda>f. is_some_and
        (\<lambda>ks. ks \<noteq> [] \<and> list_all (\<lambda>k. k = KIND_NIP43_MEMBERSHIP_LIST) ks) (f_kinds f)) fs)"

section \<open>The gate on single events\<close>

definition is_author_only_event :: "event \<Rightarrow> hex_string \<Rightarrow> bool" where
  "is_author_only_event ev requester =
     (ev_kind ev \<in> set AUTHOR_ONLY_KINDS \<and> ev_pubkey ev \<noteq> requester)"

definition event_visible_to_reader :: "event \<Rightarrow> hex_string \<Rightarrow> bool" where
  "event_visible_to_reader ev requester =
     (if is_author_only_event ev requester then False
      else if is_unshared_persona_event ev requester then False
      else if \<not> reader_authorized_for_event ev requester then False
      else True)"

section \<open>Request-local channel access\<close>

definition resolve_request_local_access ::
    "uuid list \<Rightarrow> uuid \<Rightarrow> bool \<Rightarrow> bool option \<Rightarrow> bool \<times> uuid list" where
  "resolve_request_local_access accessible ch token_allows db_is_member =
     (if \<not> token_allows then (False, accessible)
      else if ch \<in> set accessible then (True, accessible)
      else (case db_is_member of
              Some True \<Rightarrow> (True, accessible @ [ch])
            | _ \<Rightarrow> (False, accessible)))"

datatype channel_scope =
    Channels "uuid list"
  | ChannelsOrChannelLess "uuid list"
  | ChannelLessOnly

definition build_search_channel_scope_filter :: "uuid list \<Rightarrow> bool \<Rightarrow> channel_scope option" where
  "build_search_channel_scope_filter accessible include_global =
     (if accessible = [] then (if include_global then Some ChannelLessOnly else None)
      else Some (if include_global then ChannelsOrChannelLess accessible else Channels accessible))"

section \<open>The channel loop\<close>

text \<open>What the loops compute: all parsable \<open>#h\<close> values agree with what was found before.\<close>

lemma h_value_loop_Some:
  "h_value_loop pu vals (b, found) = Some (b', found') \<longleftrightarrow>
     (let is = List.map_filter pu vals in
      (b' \<longleftrightarrow> b \<or> is \<noteq> []) \<and>
      (\<forall>i \<in> set is. found' = Some i) \<and> (found \<noteq> None \<longrightarrow> found' = found) \<and>
      (is = [] \<longrightarrow> found' = found))"
proof (induction vals arbitrary: b found)
  case Nil
  then show ?case by (auto simp: List.map_filter_def Let_def)
next
  case (Cons v vals)
  show ?case
  proof (cases "pu v")
    case None
    then show ?thesis using Cons by (simp add: List.map_filter_def)
  next
    case (Some i)
    then show ?thesis
      by (cases found) (auto simp: Cons Let_def List.map_filter_def)
  qed
qed

lemma h_value_loop_append:
  "h_value_loop pu (xs @ ys) st = Option.bind (h_value_loop pu xs st) (h_value_loop pu ys)"
proof (induction xs arbitrary: st)
  case Nil
  then show ?case by simp
next
  case (Cons x xs)
  then show ?case by (cases st) (auto split: option.split)
qed

lemma tag_entry_loop_flat:
  "tag_entry_loop pu tags st =
     h_value_loop pu (concat (map snd (filter (\<lambda>(key, _). key = ''h'') tags))) st"
proof (induction tags arbitrary: st)
  case Nil
  then show ?case by simp
next
  case (Cons e rest)
  then show ?case
    by (cases e; cases "h_value_loop pu (snd e) st") (simp_all add: h_value_loop_append)
qed

lemma tag_entry_loop_channels:
  "tag_entry_loop pu (f_generic_tags f) (False, found) = Some (b', found') \<longleftrightarrow>
     (b' \<longleftrightarrow> h_channels pu f \<noteq> []) \<and>
     (\<forall>i \<in> set (h_channels pu f). found' = Some i) \<and> (found \<noteq> None \<longrightarrow> found' = found) \<and>
     (h_channels pu f = [] \<longrightarrow> found' = found)"
  by (simp add: tag_entry_loop_flat h_value_loop_Some h_channels_def Let_def)

text \<open>A filter names exactly one channel: it has parsable \<open>#h\<close> values and they all agree.\<close>

definition names_only_channel :: "(string \<Rightarrow> uuid option) \<Rightarrow> uuid \<Rightarrow> event_filter \<Rightarrow> bool" where
  "names_only_channel pu ch f \<longleftrightarrow> set (h_channels pu f) = {ch}"

lemma set_eq_singleton_list: "set xs = {x} \<longleftrightarrow> xs \<noteq> [] \<and> (\<forall>y \<in> set xs. y = x)"
  by (cases xs) auto

lemma channel_filter_loop_Some:
  "channel_filter_loop pu found fs = Some ch \<longleftrightarrow>
     (\<forall>f \<in> set fs. names_only_channel pu ch f) \<and>
     (found = Some ch \<or> found = None \<and> fs \<noteq> [])"
proof (induction fs arbitrary: found)
  case Nil
  then show ?case by simp
next
  case (Cons f fs)
  have one: "tag_entry_loop pu (f_generic_tags f) (False, found) = Some (True, Some ch) \<longleftrightarrow>
      names_only_channel pu ch f \<and> (found = None \<or> found = Some ch)"
    by (auto simp: tag_entry_loop_channels names_only_channel_def set_eq_singleton_list)
  show ?case
  proof (cases "tag_entry_loop pu (f_generic_tags f) (False, found)")
    case None
    with one show ?thesis by auto
  next
    case (Some st)
    obtain b' found' where st: "st = (b', found')" by (cases st)
    have "b' \<Longrightarrow> \<exists>i. found' = Some i"
      using Some unfolding st tag_entry_loop_channels by (cases "h_channels pu f") auto
    then show ?thesis
      using Some one by (cases b') (auto simp: st Cons)
  qed
qed

section \<open>What passing the gates implies\<close>

lemma authors_are_self_author:
  assumes "authors_are_self f authed" and "filter_match_one us f ev"
    and "ascii_lowercase authed" and "\<forall>as \<in> set_option (f_authors f). list_all ascii_lowercase as"
  shows "ev_pubkey (st_event ev) = authed"
proof -
  obtain as where as: "f_authors f = Some as" "list_all (\<lambda>a. eq_ignore_ascii_case a authed) as"
    using assms(1) by (auto simp: authors_are_self_def is_some_and_iff)
  moreover have "ev_pubkey (st_event ev) \<in> set as"
    using assms(2) as(1) by (auto simp: filter_match_one_def split: if_splits)
  ultimately show ?thesis
    using assms(3,4) by (auto simp: list_all_iff eq_ignore_ascii_case_lowercase)
qed

lemma p_values_are_self_tag:
  assumes "p_values_are_self f authed" and "filter_match_one us f ev"
  shows "has_tag_value (st_event ev) ''p'' authed"
proof -
  obtain vs where vs: "map_of (f_generic_tags f) ''p'' = Some vs" "list_all (\<lambda>v. v = authed) vs"
    using assms(1) by (auto simp: p_values_are_self_def is_some_and_iff)
  from filter_match_one_tag [OF assms(2) vs(1)] vs(2) show ?thesis
    by (auto simp: list_all_iff)
qed

lemma can_match_kinds:
  "filter_match_one us f ev \<Longrightarrow> ev_kind (st_event ev) \<in> S \<Longrightarrow>
   is_none_or (\<lambda>ks. list_ex (\<lambda>k. k \<in> S) ks) (f_kinds f)"
  by (auto simp: is_none_or_iff list_ex_iff dest: filter_match_one_kind)

section \<open>Properties\<close>

text \<open>
  A subscription is bound to a channel exactly when it has filters and every one of them
  names that channel and no other; in every other case it is a global subscription.
\<close>
lemma subscription_channel_iff:
  "extract_channel_id_from_filters parse_uuid fs = Some ch \<longleftrightarrow>
     fs \<noteq> [] \<and> (\<forall>f \<in> set fs. names_only_channel parse_uuid ch f)"
  by (auto simp: extract_channel_id_from_filters_def channel_filter_loop_Some)

text \<open>
  A subscription whose filters name two different channels never receives a live event of
  any channel, although its filters match those events and the comment on
  \<open>extract_channel_id_from_filters\<close> promises a slower fan-out: it is filed as a global
  subscription, and global subscriptions are not candidates for channel events.
\<close>
lemma multi_channel_subscription_is_deaf:
  assumes "f1 \<in> set fs" and "f2 \<in> set fs" and "a \<in> set (h_channels parse_uuid f1)"
    and "b \<in> set (h_channels parse_uuid f2)" and "a \<noteq> b"
    and "st_channel_id ev = Some ch"
  shows "(conn, sid) \<notin> set (fan_out_scoped us
    (fold reg_step
      (ops @ [Register c conn sid fs (extract_channel_id_from_filters parse_uuid fs)])
      registry_new) c' ev)"
proof -
  have "extract_channel_id_from_filters parse_uuid fs \<noteq> Some i" for i
  proof
    assume "extract_channel_id_from_filters parse_uuid fs = Some i"
    then have "set (h_channels parse_uuid f1) = {i}" "set (h_channels parse_uuid f2) = {i}"
      using assms(1,2) by (auto simp: extract_channel_id_from_filters_def
          channel_filter_loop_Some names_only_channel_def)
    with assms(3-5) show False by simp
  qed
  then have none: "extract_channel_id_from_filters parse_uuid fs = None"
    by (cases "extract_channel_id_from_filters parse_uuid fs") auto
  let ?r = "fold reg_step ops registry_new"
  have "lookup_sub (snd (register_scoped c conn sid fs None ?r)) (conn, sid) = Some (fs, c, None)"
    by (simp add: lookup_register_scoped)
  moreover have "registry_wf (snd (register_scoped c conn sid fs None ?r))"
    by (rule register_scoped_wf [OF reg_run_wf])
  ultimately show ?thesis
    using assms(6) by (auto simp: none fan_out_scoped_set sub_accepts_def)
qed

definition h_filter :: "string \<Rightarrow> event_filter" where
  "h_filter v =
     \<lparr>f_ids = None, f_authors = None, f_kinds = Some [9], f_since = None, f_until = None,
      f_generic_tags = [(''h'', [v])], f_limit = None, f_search = None\<rparr>"

definition parse_ab :: "string \<Rightarrow> uuid option" where
  "parse_ab s = (if s = ''A'' then Some 1 else if s = ''B'' then Some 2 else None)"

lemma subscription_channel_iff_witness:
  "extract_channel_id_from_filters parse_ab [h_filter ''A'', h_filter ''A''] = Some 1"
  by (subst subscription_channel_iff)
    (simp add: names_only_channel_def h_filter_def h_channels_def parse_ab_def List.map_filter_def)

lemma multi_channel_subscription_is_deaf_witness:
  "(3, ''s'') \<notin> set (fan_out_scoped (\<lambda>_. ''A'')
     (fold reg_step ([] @ [Register 4 3 ''s'' [h_filter ''A'', h_filter ''B'']
        (extract_channel_id_from_filters parse_ab [h_filter ''A'', h_filter ''B''])])
      registry_new) 4 (sample_h_event\<lparr>st_channel_id := Some 1\<rparr>))"
  by (rule multi_channel_subscription_is_deaf [of "h_filter ''A''" _ "h_filter ''B''" 1 _ 2])
    (simp_all add: h_filter_def h_channels_def parse_ab_def List.map_filter_def)

text \<open>
  The combined read gate is the conjunction of its three policies: author-only kinds to
  their author, personas to their author unless shared by exactly one well-formed tag, and
  viewer-private kinds to the keys of their \<open>p\<close> tags; everything else is visible to all.
\<close>
lemma event_visible_iff:
  "event_visible_to_reader ev reader \<longleftrightarrow>
     (ev_kind ev \<in> set AUTHOR_ONLY_KINDS \<longrightarrow> ev_pubkey ev = reader) \<and>
     (ev_kind ev = KIND_PERSONA \<and> ev_pubkey ev \<noteq> reader \<longrightarrow> persona_event_is_shared ev) \<and>
     (ev_kind ev \<in> set RESULT_GATED_KINDS \<longrightarrow> has_tag_value ev ''p'' reader)"
  by (auto simp: event_visible_to_reader_def is_author_only_event_def
      is_unshared_persona_event_def is_persona_shared_kind_def reader_authorized_for_event_def
      RESULT_GATED_KINDS_def)

lemma event_visible_iff_witness:
  "\<not> event_visible_to_reader
     \<lparr>ev_id = ''01'', ev_pubkey = ''aa'', ev_created_at = 1, ev_kind = KIND_DM_VISIBILITY,
      ev_tags = [[''p'', ''cc'']], ev_content = []\<rparr> ''bb''"
  by (subst event_visible_iff)
    (simp add: RESULT_GATED_KINDS_def AUTHOR_ONLY_KINDS_def has_tag_value_def kind_consts)

text \<open>
  What the filter gate on p-gated kinds guarantees: if a reader's filters pass, an event
  of a p-gated kind can only match one of them when the reader is in its \<open>p\<close> tags, unless
  that filter names event ids; and naming ids does not help once it names one of the two
  viewer-private kinds.
\<close>
lemma p_gate_implies_recipient:
  assumes "p_gated_filters_authorized fs reader" and "f \<in> set fs" and "filter_match_one us f ev"
    and "ev_kind (st_event ev) \<in> set P_GATED_KINDS"
    and "f_ids f \<in> {None, Some []} \<or>
      (\<exists>ks. f_kinds f = Some ks \<and> (KIND_DM_VISIBILITY \<in> set ks \<or> KIND_AGENT_TURN_METRIC \<in> set ks))"
  shows "has_tag_value (st_event ev) ''p'' reader"
proof -
  have "p_gated_filter_authorized reader f"
    using assms(1,2) by (simp add: p_gated_filters_authorized_def list_all_iff)
  moreover have "is_none_or (\<lambda>ks. list_ex (\<lambda>k. k \<in> set P_GATED_KINDS) ks) (f_kinds f)"
    by (rule can_match_kinds [OF assms(3,4)])
  moreover have "\<not> (\<not> is_some_and
      (\<lambda>ks. list_ex (\<lambda>k. k = KIND_DM_VISIBILITY \<or> k = KIND_AGENT_TURN_METRIC) ks) (f_kinds f)
      \<and> is_some_and (\<lambda>ids. ids \<noteq> []) (f_ids f))"
    using assms(5) by (auto simp: list_ex_iff)
  ultimately have "p_values_are_self f reader"
    unfolding p_gated_filter_authorized_def Let_def by (simp split: if_splits)
  then show ?thesis using assms(3) by (rule p_values_are_self_tag)
qed

definition dm_filter :: event_filter where
  "dm_filter =
     \<lparr>f_ids = None, f_authors = None, f_kinds = Some [KIND_DM_VISIBILITY], f_since = None,
      f_until = None, f_generic_tags = [(''p'', [''bb''])], f_limit = None, f_search = None\<rparr>"

definition dm_event :: "hex_string \<Rightarrow> stored_event" where
  "dm_event owner = stored_event_new 0
     \<lparr>ev_id = ''01'', ev_pubkey = ''aa'', ev_created_at = 1, ev_kind = KIND_DM_VISIBILITY,
      ev_tags = [[''p'', owner]], ev_content = []\<rparr> None"

lemma p_gate_implies_recipient_witness:
  "has_tag_value (st_event (dm_event ''bb'')) ''p'' ''bb''"
  by (rule p_gate_implies_recipient [of "[dm_filter]" _ dm_filter "\<lambda>_. []"])
    (simp_all add: p_gated_filters_authorized_def p_gated_filter_authorized_def
      p_values_are_self_def dm_filter_def dm_event_def stored_event_new_def Let_def
      filter_match_one_def tag_entry_matches_def has_tag_value_def P_GATED_KINDS_def kind_consts)

end
