(* ===== verification/Event_Store.thy ===== *)
theory Event_Store
  imports Read_Gates "HOL-Library.Product_Lexorder" "HOL-Library.List_Lexorder" "HOL-Library.Char_ord"
begin

text \<open>
  The event table of the database crate, \<open>crates/buzz-db/src/event.rs\<close> and the mention index of
  \<open>crates/buzz-db/src/lib.rs\<close>. The SQL that the source assembles is read as a predicate on rows,
  a sort and a slice; the columns that the modelled queries never touch are left out. Raw ids
  and keys stand in their lowercase hexadecimal form, which sorts like the bytes.
  \<open>chrono::DateTime::from_timestamp\<close> is the parameter \<open>from_ts\<close>.
\<close>

section \<open>Rows\<close>

datatype db_error =
    Sqlx
  | Migrate
  | AuthEventRejected
  | EphemeralEventRejected kind
  | ChannelNotFound uuid
  | MemberNotFound uuid
  | NotFound string
  | AccessDenied string
  | Serde
  | InvalidData string
  | InvalidTimestamp int

record event_row =
  row_community :: community_id
  row_event :: event
  row_received_at :: nat
  row_channel :: "uuid option"
  row_deleted :: bool
  row_d_tag :: "string option"
  row_not_before :: "int option"

type_synonym mention = "community_id \<times> string \<times> hex_string"

record event_db =
  db_events :: "event_row list"
  db_mentions :: "mention list"

text \<open>\<open>extract_d_tag\<close> and \<open>extract_not_before\<close> compute the two derived columns.\<close>

fun find_map :: "('a \<Rightarrow> 'b option) \<Rightarrow> 'a list \<Rightarrow> 'b option" where
  "find_map f [] = None"
| "find_map f (x # xs) = (case f x of Some y \<Rightarrow> Some y | None \<Rightarrow> find_map f xs)"

definition tag_second :: "string \<Rightarrow> tag \<Rightarrow> string option" where
  "tag_second key t = (if 2 \<le> length t \<and> t ! 0 = key then Some (t ! 1) else None)"

definition extract_d_tag :: "event \<Rightarrow> string option" where
  "extract_d_tag ev =
     (if \<not> is_parameterized_replaceable (ev_kind ev) then None
      else Some (case find_map (tag_second ''d'') (ev_tags ev) of Some v \<Rightarrow> v | None \<Rightarrow> []))"

definition extract_not_before :: "event \<Rightarrow> int option" where
  "extract_not_before ev =
     (if ev_kind ev \<noteq> KIND_EVENT_REMINDER then None
      else find_map (\<lambda>t. Option.bind (tag_second ''not_before'' t) parse_i64) (ev_tags ev))"

section \<open>Writes\<close>

text \<open>
  \<open>insert_event\<close>: the primary key of the table is (community, created_at, id), and a conflict
  does nothing.
\<close>

definition same_row_key :: "community_id \<Rightarrow> event \<Rightarrow> event_row \<Rightarrow> bool" where
  "same_row_key c ev r \<longleftrightarrow>
     row_community r = c \<and> ev_created_at (row_event r) = ev_created_at ev \<and>
     ev_id (row_event r) = ev_id ev"

definition insert_event ::
    "(int \<Rightarrow> int option) \<Rightarrow> nat \<Rightarrow> community_id \<Rightarrow> event \<Rightarrow> uuid option \<Rightarrow> event_db
     \<Rightarrow> (db_error, (stored_event \<times> bool) \<times> event_db) result" where
  "insert_event from_ts now c ev ch db =
     (if ev_kind ev = KIND_AUTH then Err AuthEventRejected
      else if is_ephemeral (ev_kind ev) then Err (EphemeralEventRejected (ev_kind ev))
      else
        (case from_ts (as_i64 (ev_created_at ev)) of
           None \<Rightarrow> Err (InvalidTimestamp (as_i64 (ev_created_at ev)))
         | Some _ \<Rightarrow>
             (let was_inserted = \<not> list_ex (same_row_key c ev) (db_events db);
                  row = \<lparr>row_community = c, row_event = ev, row_received_at = now,
                         row_channel = ch, row_deleted = False, row_d_tag = extract_d_tag ev,
                         row_not_before = extract_not_before ev\<rparr>
              in Ok ((stored_event_with_received_at ev now ch True, was_inserted),
                     if was_inserted then db\<lparr>db_events := db_events db @ [row]\<rparr> else db))))"

definition valid_pubkey_hex :: "string \<Rightarrow> bool" where
  "valid_pubkey_hex pk = (length pk = 64 \<and> list_all is_hex_char pk)"

definition insert_mentions ::
    "(int \<Rightarrow> int option) \<Rightarrow> community_id \<Rightarrow> event \<Rightarrow> event_db \<Rightarrow> (db_error, event_db) result" where
  "insert_mentions from_ts c ev db =
     (let p_tags = List.map_filter (tag_second ''p'') (ev_tags ev) in
      if p_tags = [] then Ok db
      else
        (case from_ts (as_i64 (ev_created_at ev)) of
           None \<Rightarrow> Err (InvalidTimestamp (as_i64 (ev_created_at ev)))
         | Some _ \<Rightarrow>
             (let valid_pubkeys = map ascii_lower (filter valid_pubkey_hex p_tags) in
              if valid_pubkeys = [] then Ok db
              else Ok (db\<lparr>db_mentions :=
                     fold push_unseen (map (\<lambda>pk. (c, pk, ev_id ev)) valid_pubkeys)
                       (db_mentions db)\<rparr>))))"

definition soft_delete_event ::
    "community_id \<Rightarrow> hex_string \<Rightarrow> event_db \<Rightarrow> bool \<times> event_db" where
  "soft_delete_event c i db =
     (let hit = (\<lambda>r. row_community r = c \<and> ev_id (row_event r) = i \<and> \<not> row_deleted r) in
      (list_ex hit (db_events db),
       db\<lparr>db_events := map (\<lambda>r. if hit r then r\<lparr>row_deleted := True\<rparr> else r) (db_events db)\<rparr>))"

section \<open>Queries\<close>

record event_query =
  q_community_id :: community_id
  q_channel_id :: "uuid option"
  q_kinds :: "kind list option"
  q_pubkey :: "hex_string option"
  q_since :: "int option"
  q_until :: "int option"
  q_limit :: "int option"
  q_offset :: "int option"
  q_p_tag_hex :: "string option"
  q_d_tag :: "string option"
  q_d_tags :: "string list option"
  q_before_id :: "hex_string option"
  q_global_only :: bool
  q_authors :: "hex_string list option"
  q_ids :: "hex_string list option"
  q_e_tags :: "string list option"
  q_channel_ids :: "uuid list option"
  q_max_limit :: "int option"
  q_persona_reader :: "hex_string option"

definition for_community :: "community_id \<Rightarrow> event_query" where
  "for_community c =
     \<lparr>q_community_id = c, q_channel_id = None, q_kinds = None, q_pubkey = None, q_since = None,
      q_until = None, q_limit = None, q_offset = None, q_p_tag_hex = None, q_d_tag = None,
      q_d_tags = None, q_before_id = None, q_global_only = False, q_authors = None,
      q_ids = None, q_e_tags = None, q_channel_ids = None, q_max_limit = None,
      q_persona_reader = None\<rparr>"

text \<open>JSONB containment \<open>tags @> [[a, b]]\<close>: some tag contains both strings, at any position.\<close>

definition tags_contain_pair :: "event \<Rightarrow> string \<Rightarrow> string \<Rightarrow> bool" where
  "tags_contain_pair ev a b = list_ex (\<lambda>t. a \<in> set t \<and> b \<in> set t) (ev_tags ev)"

definition created_i64 :: "event_row \<Rightarrow> int" where
  "created_i64 r = as_i64 (ev_created_at (row_event r))"

text \<open>The \<open>FROM\<close> clause with its join, and the scope clauses.\<close>

definition sql_from :: "event_db \<Rightarrow> event_query \<Rightarrow> event_row \<Rightarrow> bool" where
  "sql_from db q r \<longleftrightarrow>
     row_community r = q_community_id q \<and> \<not> row_deleted r \<and>
     is_none_or (\<lambda>p_hex. (q_community_id q, ascii_lower p_hex, ev_id (row_event r))
       \<in> set (db_mentions db)) (q_p_tag_hex q)"

definition sql_scope :: "event_query \<Rightarrow> event_row \<Rightarrow> bool" where
  "sql_scope q r \<longleftrightarrow>
     (case q_channel_id q of
        Some ch \<Rightarrow> row_channel r = Some ch
      | None \<Rightarrow> q_global_only q \<longrightarrow> row_channel r = None) \<and>
     is_none_or (\<lambda>chs. row_channel r = None \<or> (\<exists>ch \<in> set chs. row_channel r = Some ch))
       (q_channel_ids q)"

definition sql_identity :: "event_query \<Rightarrow> event_row \<Rightarrow> bool" where
  "sql_identity q r \<longleftrightarrow>
     is_none_or (\<lambda>ks. ks \<noteq> [] \<longrightarrow> ev_kind (row_event r) \<in> set ks) (q_kinds q) \<and>
     is_none_or (\<lambda>pk. ev_pubkey (row_event r) = pk) (q_pubkey q) \<and>
     is_none_or (\<lambda>as. as \<noteq> [] \<longrightarrow> ev_pubkey (row_event r) \<in> set as) (q_authors q) \<and>
     is_none_or (\<lambda>ids. ids \<noteq> [] \<longrightarrow> ev_id (row_event r) \<in> set ids) (q_ids q)"

definition sql_tags :: "event_query \<Rightarrow> event_row \<Rightarrow> bool" where
  "sql_tags q r \<longleftrightarrow>
     is_none_or (\<lambda>es. es \<noteq> [] \<longrightarrow> list_ex (tags_contain_pair (row_event r) ''e'') es)
       (q_e_tags q) \<and>
     (case q_d_tag q of
        Some d \<Rightarrow> row_d_tag r = Some d
      | None \<Rightarrow> is_none_or (\<lambda>ds. ds \<noteq> [] \<longrightarrow> (\<exists>d \<in> set ds. row_d_tag r = Some d)) (q_d_tags q))"

definition sql_window :: "event_query \<Rightarrow> event_row \<Rightarrow> bool" where
  "sql_window q r \<longleftrightarrow>
     is_none_or (\<lambda>s. s \<le> created_i64 r) (q_since q) \<and>
     is_none_or (\<lambda>u.
       (case q_before_id q of
          Some bid \<Rightarrow> created_i64 r < u \<or> (created_i64 r = u \<and> bid < ev_id (row_event r))
        | None \<Rightarrow> created_i64 r \<le> u)) (q_until q)"

definition sql_persona :: "event_query \<Rightarrow> event_row \<Rightarrow> bool" where
  "sql_persona q r \<longleftrightarrow>
     is_none_or (\<lambda>reader. ev_kind (row_event r) \<noteq> 30175 \<or> ev_pubkey (row_event r) = reader \<or>
       tags_contain_pair (row_event r) ''shared'' ''true'') (q_persona_reader q)"

definition sql_where :: "event_db \<Rightarrow> event_query \<Rightarrow> event_row \<Rightarrow> bool" where
  "sql_where db q r \<longleftrightarrow>
     sql_from db q r \<and> sql_scope q r \<and> sql_identity q r \<and> sql_tags q r \<and> sql_window q r \<and>
     sql_persona q r"

lemmas sql_where_defs = sql_where_def sql_from_def sql_scope_def sql_identity_def sql_tags_def
  sql_window_def sql_persona_def

definition matches_nothing :: "event_query \<Rightarrow> bool" where
  "matches_nothing q \<longleftrightarrow>
     q_kinds q = Some [] \<or> q_authors q = Some [] \<or> q_ids q = Some [] \<or> q_e_tags q = Some []"

definition row_to_stored_event :: "event_row \<Rightarrow> (db_error, stored_event) result" where
  "row_to_stored_event r =
     (if 65535 < ev_kind (row_event r) then Err (InvalidData ''kind out of u16 range'')
      else Ok (stored_event_with_received_at (row_event r) (row_received_at r) (row_channel r) True))"

fun rows_to_stored_events :: "event_row list \<Rightarrow> (db_error, stored_event list) result" where
  "rows_to_stored_events [] = Ok []"
| "rows_to_stored_events (r # rs) =
     bind_result (row_to_stored_event r)
       (\<lambda>ev. bind_result (rows_to_stored_events rs) (\<lambda>evs. Ok (ev # evs)))"

definition newest_first :: "event_row list \<Rightarrow> event_row list" where
  "newest_first rows = sort_key (\<lambda>r. (- created_i64 r, ev_id (row_event r))) rows"

definition unwrap_or :: "'a \<Rightarrow> 'a option \<Rightarrow> 'a" where
  "unwrap_or d x = (case x of None \<Rightarrow> d | Some y \<Rightarrow> y)"

definition query_events :: "event_db \<Rightarrow> event_query \<Rightarrow> (db_error, stored_event list) result" where
  "query_events db q =
     (if q_before_id q \<noteq> None \<and> q_until q = None
      then Err (InvalidData ''before_id requires until to be set'')
      else if q_global_only q \<and> q_channel_id q \<noteq> None
      then Err (InvalidData ''global_only and channel_id are mutually exclusive'')
      else if matches_nothing q then Ok []
      else
        (let clamp = unwrap_or 1000 (q_max_limit q);
             limit_val = min (unwrap_or 100 (q_limit q)) clamp;
             offset_val = unwrap_or 0 (q_offset q)
         in if limit_val < 0 \<or> offset_val < 0 then Err Sqlx
            else rows_to_stored_events
              (take (nat limit_val) (drop (nat offset_val)
                (newest_first (filter (sql_where db q) (db_events db)))))))"

text \<open>
  \<open>count_events\<close> builds its own statement: the same clauses without the keyset cursor, the
  persona clause and the limit.
\<close>

definition count_where :: "event_db \<Rightarrow> event_query \<Rightarrow> event_row \<Rightarrow> bool" where
  "count_where db q r \<longleftrightarrow>
     sql_from db q r \<and> sql_scope q r \<and> sql_identity q r \<and> sql_tags q r \<and>
     is_none_or (\<lambda>s. s \<le> created_i64 r) (q_since q) \<and>
     is_none_or (\<lambda>u. created_i64 r \<le> u) (q_until q)"

definition count_events :: "event_db \<Rightarrow> event_query \<Rightarrow> nat" where
  "count_events db q =
     (if matches_nothing q then 0 else length (filter (count_where db q) (db_events db)))"

definition get_events_by_ids ::
    "event_db \<Rightarrow> community_id \<Rightarrow> hex_string list \<Rightarrow> (db_error, stored_event list) result" where
  "get_events_by_ids db c ids =
     (if ids = [] then Ok []
      else rows_to_stored_events
        (filter (\<lambda>r. row_community r = c \<and> \<not> row_deleted r \<and> ev_id (row_event r) \<in> set ids)
          (db_events db)))"

section \<open>Reading rows back\<close>

lemma rows_to_stored_events_Ok:
  "rows_to_stored_events rs = Ok evs \<Longrightarrow>
     evs = map (\<lambda>r. stored_event_with_received_at (row_event r) (row_received_at r) (row_channel r) True) rs"
  by (induction rs arbitrary: evs)
    (auto simp: result_simps row_to_stored_event_def split: if_splits)

lemma rows_to_stored_events_total:
  "\<forall>r \<in> set rs. ev_kind (row_event r) \<le> 65535 \<Longrightarrow>
     rows_to_stored_events rs =
       Ok (map (\<lambda>r. stored_event_with_received_at (row_event r) (row_received_at r) (row_channel r) True) rs)"
  by (induction rs) (auto simp: row_to_stored_event_def)

lemma set_newest_first [simp]: "set (newest_first rs) = set rs"
  by (simp add: newest_first_def)

lemma query_events_sound:
  assumes "query_events db q = Ok evs" and "ev \<in> set evs"
  shows "\<exists>r \<in> set (db_events db). sql_where db q r \<and> \<not> matches_nothing q \<and>
    ev = stored_event_with_received_at (row_event r) (row_received_at r) (row_channel r) True"
proof -
  from assms have nm: "\<not> matches_nothing q"
    by (auto simp: query_events_def split: if_splits)
  with assms obtain l k where "rows_to_stored_events
      (take l (drop k (newest_first (filter (sql_where db q) (db_events db))))) = Ok evs"
    by (auto simp: query_events_def Let_def split: if_splits)
  from rows_to_stored_events_Ok [OF this] assms(2) obtain r
    where r: "r \<in> set (take l (drop k (newest_first (filter (sql_where db q) (db_events db)))))"
      and ev: "ev = stored_event_with_received_at (row_event r) (row_received_at r) (row_channel r) True"
    by auto
  from r have "r \<in> set (newest_first (filter (sql_where db q) (db_events db)))"
    by (meson in_set_dropD in_set_takeD)
  with ev nm show ?thesis by auto
qed

end
