(* ===== verification/Historical.thy ===== *)
theory Historical
  imports Event_Store
begin

text \<open>
  The REQ handler, \<open>crates/buzz-relay/src/handlers/req.rs\<close>: admission of the request, the
  sensitive-kind gates, registration, and the delivery of stored events, by query for ordinary
  filters and by full-text search for search filters. One request runs against one state of the
  database. The search engine, the caches of the access data and the outgoing socket are an
  environment record; the log lines and the conformance traces are left out.
\<close>

section \<open>Environment and connection\<close>

datatype relay_msg =
    ClosedMsg sub_id string
  | NoticeMsg string
  | EventMsg sub_id event
  | EoseMsg sub_id
  | CountMsg sub_id nat

record search_query =
  sq_community :: community_id
  sq_q :: string
  sq_channel_scope :: channel_scope
  sq_kinds :: "kind list option"
  sq_authors :: "hex_string list option"
  sq_since :: "int option"
  sq_until :: "int option"
  sq_page :: nat
  sq_per_page :: nat

record req_env =
  env_parse_uuid :: "string \<Rightarrow> uuid option"
  env_uuid_str :: "uuid \<Rightarrow> string"
  env_from_ts :: "int \<Rightarrow> int option"
  env_accessible :: "community_id \<Rightarrow> hex_string \<Rightarrow> uuid list option"
  env_is_member :: "community_id \<Rightarrow> uuid \<Rightarrow> hex_string \<Rightarrow> bool option"
  env_search :: "search_query \<Rightarrow> hex_string list option"
  env_send_ok :: "relay_msg list \<Rightarrow> bool"

record conn_state =
  cn_id :: conn_id
  cn_community :: community_id
  cn_auth :: auth_state
  cn_subscriptions :: "(sub_id, event_filter list) hmap"
  cn_out :: "relay_msg list"

definition conn_send :: "req_env \<Rightarrow> relay_msg \<Rightarrow> conn_state \<Rightarrow> bool \<times> conn_state" where
  "conn_send env m conn =
     (if env_send_ok env (cn_out conn) then (True, conn\<lparr>cn_out := cn_out conn @ [m]\<rparr>)
      else (False, conn))"

definition conn_say :: "req_env \<Rightarrow> relay_msg \<Rightarrow> conn_state \<Rightarrow> conn_state" where
  "conn_say env m conn = snd (conn_send env m conn)"

definition MAX_HISTORICAL_LIMIT :: int where
  "MAX_HISTORICAL_LIMIT = 2000"

definition MAX_SUBSCRIPTIONS :: nat where
  "MAX_SUBSCRIPTIONS = 1024"

section \<open>From a filter to a query\<close>

definition filter_is_nip33_only :: "kind list option \<Rightarrow> bool" where
  "filter_is_nip33_only kinds =
     is_some_and (\<lambda>ks. ks \<noteq> [] \<and> list_all is_parameterized_replaceable ks) kinds"

definition non_empty :: "'a list \<Rightarrow> 'a list option" where
  "non_empty xs = (if xs = [] then None else Some xs)"

definition split_authors :: "hex_string list option \<Rightarrow> hex_string option \<times> hex_string list option" where
  "split_authors authors =
     (case authors of
        Some a \<Rightarrow> if length a = 1 then (Some (hd a), None)
                  else if a \<noteq> [] then (None, Some a)
                  else (None, None)
      | None \<Rightarrow> (None, None))"

definition split_d_tags :: "event_filter \<Rightarrow> string option \<times> string list option" where
  "split_d_tags f =
     (if filter_is_nip33_only (f_kinds f) then
        (case map_of (f_generic_tags f) ''d'' of
           Some vs \<Rightarrow> if length vs = 1 then (Some (hd vs), None)
                      else if 1 < length vs then (None, Some vs)
                      else (None, None)
         | None \<Rightarrow> (None, None))
      else (None, None))"

definition filter_to_query_params ::
    "(int \<Rightarrow> int option) \<Rightarrow> event_filter \<Rightarrow> uuid option \<Rightarrow> community_id \<Rightarrow> event_query" where
  "filter_to_query_params from_ts f ch c =
     (for_community c)
       \<lparr>q_channel_id := ch,
        q_kinds := f_kinds f,
        q_pubkey := fst (split_authors (f_authors f)),
        q_since := Option.bind (f_since f) (\<lambda>s. from_ts (as_i64 s)),
        q_until := Option.bind (f_until f) (\<lambda>u. from_ts (as_i64 u)),
        q_limit := Some (case f_limit f of
                           Some l \<Rightarrow> min (as_i64 l) MAX_HISTORICAL_LIMIT
                         | None \<Rightarrow> MAX_HISTORICAL_LIMIT),
        q_p_tag_hex := (case map_of (f_generic_tags f) ''p'' of
                          Some values \<Rightarrow> if length values = 1 then Some (hd values) else None
                        | None \<Rightarrow> None),
        q_d_tag := fst (split_d_tags f),
        q_d_tags := snd (split_d_tags f),
        q_authors := snd (split_authors (f_authors f)),
        q_ids := Option.bind (f_ids f) non_empty,
        q_e_tags := Option.bind (map_of (f_generic_tags f) ''e'') non_empty\<rparr>"

definition build_event_query_from_filter :: "req_env \<Rightarrow> event_filter \<Rightarrow> community_id \<Rightarrow> event_query" where
  "build_event_query_from_filter env f c =
     filter_to_query_params (env_from_ts env) f
       (extract_channel_id_from_filter (env_parse_uuid env) f) c"

definition apply_access_scope_to_query :: "uuid option \<Rightarrow> uuid list \<Rightarrow> event_query \<Rightarrow> event_query" where
  "apply_access_scope_to_query ch accessible q =
     (if ch = None then q\<lparr>q_channel_ids := Some accessible\<rparr> else q)"

section \<open>Admission\<close>

definition req_auth ::
    "conn_state \<Rightarrow> sub_id \<Rightarrow> (relay_msg list, hex_string \<times> uuid list option) result" where
  "req_auth conn sid =
     (case cn_auth conn of
        Authenticated ctx \<Rightarrow>
          if ax_scopes ctx \<noteq> [] \<and> MessagesRead \<notin> set (ax_scopes ctx)
          then Err [NoticeMsg ''restricted: insufficient scope'',
                    ClosedMsg sid ''restricted: insufficient scope'']
          else if \<not> hm_contains (cn_subscriptions conn) sid
                  \<and> MAX_SUBSCRIPTIONS \<le> length (cn_subscriptions conn)
          then Err [ClosedMsg sid ''error: too many subscriptions'']
          else Ok (ax_pubkey ctx, ax_channel_ids ctx)
      | _ \<Rightarrow> Err [NoticeMsg ''auth-required: authenticate before subscribing'',
                  ClosedMsg sid ''auth-required: not authenticated''])"

definition token_allows_channel :: "uuid list option \<Rightarrow> uuid \<Rightarrow> bool" where
  "token_allows_channel token ch = is_none_or (\<lambda>allowed. ch \<in> set allowed) token"

definition req_accessible ::
    "req_env \<Rightarrow> conn_state \<Rightarrow> sub_id \<Rightarrow> event_filter list \<Rightarrow> hex_string \<Rightarrow> uuid list option
     \<Rightarrow> (relay_msg list, uuid list) result" where
  "req_accessible env conn sid fs pubkey token =
     bind_result
       (if filters_are_nip43_membership_only fs then Ok []
        else ok_or (env_accessible env (cn_community conn) pubkey)
               [ClosedMsg sid ''error: database error''])
       (\<lambda>accessible. Ok (filter (token_allows_channel token) accessible))"

definition req_channel_access ::
    "req_env \<Rightarrow> conn_state \<Rightarrow> sub_id \<Rightarrow> hex_string \<Rightarrow> uuid list option \<Rightarrow> uuid option \<Rightarrow> uuid list
     \<Rightarrow> (relay_msg list, uuid list) result" where
  "req_channel_access env conn sid pubkey token channel accessible =
     (case channel of
        None \<Rightarrow> Ok accessible
      | Some ch \<Rightarrow>
          (let token_allows = token_allows_channel token ch in
           bind_result
             (if \<not> token_allows \<or> ch \<in> set accessible then Ok None
              else (case env_is_member env (cn_community conn) ch pubkey of
                      Some m \<Rightarrow> Ok (Some m)
                    | None \<Rightarrow> Err [ClosedMsg sid ''error: database error'']))
             (\<lambda>db_is_member.
                let (ok, accessible') =
                  resolve_request_local_access accessible ch token_allows db_is_member
                in if ok then Ok accessible'
                   else Err [ClosedMsg sid ''restricted: not a channel member''])))"

definition req_gates ::
    "sub_id \<Rightarrow> event_filter list \<Rightarrow> hex_string \<Rightarrow> uuid option \<Rightarrow> (relay_msg list, unit) result" where
  "req_gates sid fs pubkey channel =
     (if channel \<noteq> None then Ok ()
      else if \<not> p_gated_filters_authorized fs pubkey
      then Err [ClosedMsg sid ''restricted: p-gated events require #p matching your pubkey'']
      else if \<not> engram_filters_authorized fs pubkey
      then Err [ClosedMsg sid ''restricted: agent-engram reads require authors=[self] or #p=[self]'']
      else if \<not> author_only_filters_authorized fs pubkey
      then Err [ClosedMsg sid ''restricted: author-only kinds require authors=[self]'']
      else Ok ())"

section \<open>Delivery of stored events\<close>

text \<open>The acceptance test that both delivery loops apply to a stored event, without the dedup.\<close>

definition deliverable ::
    "req_env \<Rightarrow> event_filter \<Rightarrow> uuid list \<Rightarrow> hex_string \<Rightarrow> stored_event \<Rightarrow> bool" where
  "deliverable env f accessible reader stored =
     (if \<not> filters_match (env_uuid_str env) [f] stored then False
      else if (case st_channel_id stored of Some ch \<Rightarrow> ch \<notin> set accessible | None \<Rightarrow> False) then False
      else event_visible_to_reader (st_event stored) reader)"

text \<open>Outcome of a loop: whether to go on, the ids seen so far and the connection.\<close>

type_synonym delivery = "bool \<times> hex_string list \<times> conn_state"

fun deliver_events ::
    "req_env \<Rightarrow> sub_id \<Rightarrow> event_filter \<Rightarrow> uuid list \<Rightarrow> hex_string \<Rightarrow> stored_event list
     \<Rightarrow> hex_string list \<Rightarrow> conn_state \<Rightarrow> delivery" where
  "deliver_events env sid f accessible reader [] seen conn = (True, seen, conn)"
| "deliver_events env sid f accessible reader (stored # rest) seen conn =
     (if \<not> deliverable env f accessible reader stored
      then deliver_events env sid f accessible reader rest seen conn
      else if ev_id (st_event stored) \<in> set seen
      then deliver_events env sid f accessible reader rest seen conn
      else
        (case conn_send env (EventMsg sid (st_event stored)) conn of
           (True, conn') \<Rightarrow> deliver_events env sid f accessible reader rest
                              (ev_id (st_event stored) # seen) conn'
         | (False, conn') \<Rightarrow> (False, ev_id (st_event stored) # seen, conn')))"

definition per_filter_channel :: "req_env \<Rightarrow> uuid option \<Rightarrow> event_filter \<Rightarrow> uuid option" where
  "per_filter_channel env channel f =
     (case extract_channel_from_filter (env_parse_uuid env) f of
        Some ch \<Rightarrow> Some ch
      | None \<Rightarrow> channel)"

definition history_query ::
    "req_env \<Rightarrow> community_id \<Rightarrow> uuid option \<Rightarrow> uuid list \<Rightarrow> hex_string \<Rightarrow> event_filter \<Rightarrow> event_query" where
  "history_query env c channel accessible reader f =
     (let ch = per_filter_channel env channel f;
          q = apply_access_scope_to_query ch accessible
                (filter_to_query_params (env_from_ts env) f ch c)
      in if filter_can_match_persona_shared_kinds f then q\<lparr>q_persona_reader := Some reader\<rparr> else q)"

fun deliver_filters ::
    "req_env \<Rightarrow> event_db \<Rightarrow> sub_id \<Rightarrow> uuid option \<Rightarrow> uuid list \<Rightarrow> hex_string \<Rightarrow> event_filter list
     \<Rightarrow> hex_string list \<Rightarrow> conn_state \<Rightarrow> conn_state" where
  "deliver_filters env db sid channel accessible reader [] seen conn =
     conn_say env (EoseMsg sid) conn"
| "deliver_filters env db sid channel accessible reader (f # fs) seen conn =
     (case query_events db (history_query env (cn_community conn) channel accessible reader f) of
        Err _ \<Rightarrow> conn_say env (EoseMsg sid) conn
      | Ok events \<Rightarrow>
          (case deliver_events env sid f accessible reader events seen conn of
             (True, seen', conn') \<Rightarrow>
               deliver_filters env db sid channel accessible reader fs seen' conn'
           | (False, _, conn') \<Rightarrow> conn'))"

section \<open>Full-text search\<close>

definition MAX_SEARCH_PAGES :: nat where
  "MAX_SEARCH_PAGES = 10"

definition search_limit :: "event_filter \<Rightarrow> nat" where
  "search_limit f =
     (case f_limit f of
        Some l \<Rightarrow> min (l mod 2 ^ 32) (nat MAX_HISTORICAL_LIMIT)
      | None \<Rightarrow> nat MAX_HISTORICAL_LIMIT)"

definition search_scope :: "req_env \<Rightarrow> uuid list \<Rightarrow> channel_scope \<Rightarrow> event_filter \<Rightarrow> channel_scope option" where
  "search_scope env accessible all_channels f =
     (case map_of (f_generic_tags f) ''h'' of
        Some (v # vs) \<Rightarrow>
          (let valid = filter (\<lambda>i. i \<in> set accessible)
                 (List.map_filter (env_parse_uuid env) (v # vs))
           in if valid = [] then None else Some (Channels valid))
      | _ \<Rightarrow> Some all_channels)"

text \<open>The loop over one page of hits; the extra counter is \<open>emitted\<close>.\<close>

fun deliver_hits ::
    "req_env \<Rightarrow> sub_id \<Rightarrow> event_filter \<Rightarrow> uuid list \<Rightarrow> hex_string \<Rightarrow> nat \<Rightarrow> (hex_string \<Rightarrow> stored_event option)
     \<Rightarrow> hex_string list \<Rightarrow> nat \<Rightarrow> hex_string list \<Rightarrow> conn_state \<Rightarrow> nat \<times> delivery" where
  "deliver_hits env sid f accessible reader limit event_map [] emitted seen conn =
     (emitted, True, seen, conn)"
| "deliver_hits env sid f accessible reader limit event_map (h # hits) emitted seen conn =
     (if limit \<le> emitted then (emitted, True, seen, conn)
      else
        (case event_map h of
           None \<Rightarrow> deliver_hits env sid f accessible reader limit event_map hits emitted seen conn
         | Some stored \<Rightarrow>
             if \<not> deliverable env f accessible reader stored
                \<or> ev_id (st_event stored) \<in> set seen
             then deliver_hits env sid f accessible reader limit event_map hits emitted seen conn
             else
               (case conn_send env (EventMsg sid (st_event stored)) conn of
                  (True, conn') \<Rightarrow>
                    deliver_hits env sid f accessible reader limit event_map hits (emitted + 1)
                      (ev_id (st_event stored) # seen) conn'
                | (False, conn') \<Rightarrow> (emitted, False, ev_id (st_event stored) # seen, conn'))))"

text \<open>The page loop: \<open>fuel\<close> is the number of pages left, at most \<open>MAX_SEARCH_PAGES\<close>.\<close>

fun search_pages ::
    "req_env \<Rightarrow> event_db \<Rightarrow> sub_id \<Rightarrow> event_filter \<Rightarrow> uuid list \<Rightarrow> hex_string \<Rightarrow> nat \<Rightarrow> search_query
     \<Rightarrow> nat \<Rightarrow> nat \<Rightarrow> hex_string list \<Rightarrow> conn_state \<Rightarrow> delivery" where
  "search_pages env db sid f accessible reader limit base 0 emitted seen conn = (True, seen, conn)"
| "search_pages env db sid f accessible reader limit base (Suc pages) emitted seen conn =
     (if limit \<le> emitted then (True, seen, conn)
      else
        (case env_search env (base\<lparr>sq_page := MAX_SEARCH_PAGES - pages\<rparr>) of
           None \<Rightarrow> (True, seen, conn)
         | Some hits \<Rightarrow>
             (let last = hits = [] \<or> length hits < sq_per_page base in
              case get_events_by_ids db (cn_community conn) hits of
                Err _ \<Rightarrow> (True, seen, conn)
              | Ok events \<Rightarrow>
                  (case deliver_hits env sid f accessible reader limit
                          (map_of (rev (map (\<lambda>ev. (ev_id (st_event ev), ev)) events)))
                          hits emitted seen conn of
                     (emitted', True, seen', conn') \<Rightarrow>
                       if last then (True, seen', conn')
                       else search_pages env db sid f accessible reader limit base pages
                              emitted' seen' conn'
                   | (_, False, seen', conn') \<Rightarrow> (False, seen', conn')))))"

definition search_base :: "conn_state \<Rightarrow> string \<Rightarrow> channel_scope \<Rightarrow> event_filter \<Rightarrow> search_query" where
  "search_base conn q scope f =
     \<lparr>sq_community = cn_community conn, sq_q = q, sq_channel_scope = scope,
      sq_kinds = Option.bind (f_kinds f) non_empty,
      sq_authors = Option.bind (f_authors f) non_empty,
      sq_since = map_option as_i64 (f_since f), sq_until = map_option as_i64 (f_until f),
      sq_page = 1, sq_per_page = 100\<rparr>"

fun search_filters ::
    "req_env \<Rightarrow> event_db \<Rightarrow> sub_id \<Rightarrow> channel_scope \<Rightarrow> uuid list \<Rightarrow> hex_string \<Rightarrow> event_filter list
     \<Rightarrow> hex_string list \<Rightarrow> conn_state \<Rightarrow> conn_state" where
  "search_filters env db sid all_channels accessible reader [] seen conn =
     conn_say env (EoseMsg sid) conn"
| "search_filters env db sid all_channels accessible reader (f # fs) seen conn =
     (case f_search f of
        Some (ch # q) \<Rightarrow>
          if search_limit f = 0
          then search_filters env db sid all_channels accessible reader fs seen conn
          else
            (case search_scope env accessible all_channels f of
               None \<Rightarrow> search_filters env db sid all_channels accessible reader fs seen conn
             | Some scope \<Rightarrow>
                 (case search_pages env db sid f accessible reader (search_limit f)
                         (search_base conn (ch # q) scope f) MAX_SEARCH_PAGES 0 seen conn of
                    (True, seen', conn') \<Rightarrow>
                      search_filters env db sid all_channels accessible reader fs seen' conn'
                  | (False, _, conn') \<Rightarrow> conn'))
      | _ \<Rightarrow> search_filters env db sid all_channels accessible reader fs seen conn)"

definition handle_search_req ::
    "req_env \<Rightarrow> event_db \<Rightarrow> sub_id \<Rightarrow> event_filter list \<Rightarrow> uuid list \<Rightarrow> bool \<Rightarrow> hex_string
     \<Rightarrow> conn_state \<Rightarrow> conn_state" where
  "handle_search_req env db sid fs accessible include_global reader conn =
     (case build_search_channel_scope_filter accessible include_global of
        None \<Rightarrow> conn_say env (EoseMsg sid) conn
      | Some scope \<Rightarrow> search_filters env db sid scope accessible reader fs [] conn)"

section \<open>The handler\<close>

datatype event_topic = ChannelTopic uuid | GlobalTopic
datatype topic_effect = RetainTopic event_topic | ReleaseTopic event_topic

definition topic_for_subscription :: "uuid option \<Rightarrow> event_topic" where
  "topic_for_subscription ch = (case ch of Some i \<Rightarrow> ChannelTopic i | None \<Rightarrow> GlobalTopic)"

record req_state =
  rq_conn :: conn_state
  rq_registry :: registry
  rq_topics :: "topic_effect list"

definition reply_all :: "req_env \<Rightarrow> relay_msg list \<Rightarrow> req_state \<Rightarrow> req_state" where
  "reply_all env ms s = s\<lparr>rq_conn := fold (conn_say env) ms (rq_conn s)\<rparr>"

text \<open>What the handler has established when it reaches the search branch.\<close>

definition req_admit ::
    "req_env \<Rightarrow> conn_state \<Rightarrow> sub_id \<Rightarrow> event_filter list
     \<Rightarrow> (relay_msg list, hex_string \<times> uuid list option \<times> uuid option \<times> uuid list) result" where
  "req_admit env conn sid fs =
     bind_result (req_auth conn sid) (\<lambda>(pubkey, token).
     bind_result (req_accessible env conn sid fs pubkey token) (\<lambda>accessible.
       let channel = extract_channel_id_from_filters (env_parse_uuid env) fs in
       bind_result (req_channel_access env conn sid pubkey token channel accessible)
         (\<lambda>accessible'.
            bind_result (req_gates sid fs pubkey channel)
              (\<lambda>_. Ok (pubkey, token, channel, accessible')))))"

definition register_request :: "sub_id \<Rightarrow> event_filter list \<Rightarrow> uuid option \<Rightarrow> req_state \<Rightarrow> req_state" where
  "register_request sid fs channel s =
     (let conn = rq_conn s;
          (replaced, registry') =
            register_scoped (cn_community conn) (cn_id conn) sid fs channel (rq_registry s)
      in \<lparr>rq_conn = conn\<lparr>cn_subscriptions := hm_insert sid fs (cn_subscriptions conn)\<rparr>,
          rq_registry = registry',
          rq_topics = rq_topics s
            @ (case replaced of
                 Some rm \<Rightarrow> [ReleaseTopic (topic_for_subscription (rm_channel_id rm))]
               | None \<Rightarrow> [])
            @ [RetainTopic (topic_for_subscription channel)]\<rparr>)"

definition handle_req ::
    "req_env \<Rightarrow> event_db \<Rightarrow> sub_id \<Rightarrow> event_filter list \<Rightarrow> req_state \<Rightarrow> req_state" where
  "handle_req env db sid fs s =
     (case req_admit env (rq_conn s) sid fs of
        Err ms \<Rightarrow> reply_all env ms s
      | Ok (pubkey, token, channel, accessible) \<Rightarrow>
          if list_ex (\<lambda>f. f_search f \<noteq> None) fs then
            if list_ex (\<lambda>f. f_search f = None) fs
            then reply_all env
                   [ClosedMsg sid ''error: mixed search and non-search filters not supported''] s
            else s\<lparr>rq_conn := handle_search_req env db sid fs accessible (token = None) pubkey (rq_conn s)\<rparr>
          else
            (let s' = register_request sid fs channel s in
             s'\<lparr>rq_conn := deliver_filters env db sid channel accessible pubkey fs [] (rq_conn s')\<rparr>))"

end
