(* ===== verification/Delivery.thy ===== *)
theory Delivery
  imports Historical
begin

text \<open>
  Live delivery, \<open>crates/buzz-relay/src/handlers/event.rs\<close>: the access gate that every fan-out
  passes, and the three paths to it: local delivery, delivery of an event that another pod
  published, and the post-commit dispatch of an event this pod stored. The frames are left out,
  a path is described by its list of recipients; the connection table, the two access caches and
  the Redis publisher are an environment record. Serialising an event is taken not to fail.
\<close>

section \<open>Environment\<close>

record delivery_env =
  dv_uuid_str :: "uuid \<Rightarrow> string"
  dv_community_for_conn :: "conn_id \<Rightarrow> community_id option"
  dv_pubkey_for_conn :: "conn_id \<Rightarrow> hex_string option"
  dv_channel_visibility :: "community_id \<Rightarrow> uuid \<Rightarrow> string option"
  dv_is_member :: "community_id \<Rightarrow> uuid \<Rightarrow> hex_string \<Rightarrow> bool option"
  dv_publish_ok :: bool
  dv_relay_pubkey :: hex_string

record threaded_visibility =
  tv_community_id :: community_id
  tv_channel_id :: uuid
  tv_visibility :: string

section \<open>The access gate\<close>

definition community_gate :: "delivery_env \<Rightarrow> community_id \<Rightarrow> sub_key list \<Rightarrow> sub_key list" where
  "community_gate de c matches =
     filter (\<lambda>(conn, _). dv_community_for_conn de conn = Some c) matches"

definition author_only_gate :: "delivery_env \<Rightarrow> event \<Rightarrow> sub_key list \<Rightarrow> sub_key list" where
  "author_only_gate de ev matches =
     (if ev_kind ev \<in> set AUTHOR_ONLY_KINDS
      then filter (\<lambda>(conn, _). is_some_and (\<lambda>pk. pk = ev_pubkey ev) (dv_pubkey_for_conn de conn)) matches
      else matches)"

definition persona_gate :: "delivery_env \<Rightarrow> event \<Rightarrow> sub_key list \<Rightarrow> sub_key list" where
  "persona_gate de ev matches =
     (if is_persona_shared_kind (ev_kind ev)
      then filter (\<lambda>(conn, _).
             case dv_pubkey_for_conn de conn of
               None \<Rightarrow> False
             | Some pk \<Rightarrow> if pk = ev_pubkey ev then True else \<not> is_unshared_persona_event ev pk)
           matches
      else matches)"

definition resolved_visibility ::
    "delivery_env \<Rightarrow> community_id \<Rightarrow> uuid \<Rightarrow> threaded_visibility option \<Rightarrow> string option" where
  "resolved_visibility de c ch threaded =
     (case threaded of
        Some t \<Rightarrow> if tv_community_id t = c \<and> tv_channel_id t = ch then Some (tv_visibility t)
                  else dv_channel_visibility de c ch
      | None \<Rightarrow> dv_channel_visibility de c ch)"

definition member_gate :: "delivery_env \<Rightarrow> community_id \<Rightarrow> uuid \<Rightarrow> sub_key list \<Rightarrow> sub_key list" where
  "member_gate de c ch matches =
     filter (\<lambda>(conn, _).
       case dv_pubkey_for_conn de conn of
         None \<Rightarrow> False
       | Some pk \<Rightarrow> dv_is_member de c ch pk = Some True) matches"

definition filter_fanout_by_access ::
    "delivery_env \<Rightarrow> community_id \<Rightarrow> stored_event \<Rightarrow> sub_key list \<Rightarrow> threaded_visibility option
     \<Rightarrow> sub_key list" where
  "filter_fanout_by_access de c stored matches threaded =
     (let ms = persona_gate de (st_event stored)
                 (author_only_gate de (st_event stored) (community_gate de c matches)) in
      case st_channel_id stored of
        None \<Rightarrow> ms
      | Some ch \<Rightarrow>
          (case resolved_visibility de c ch threaded of
             None \<Rightarrow> []
           | Some v \<Rightarrow> if v \<noteq> ''private'' then ms else member_gate de c ch ms))"

section \<open>The three delivery paths\<close>

type_synonym echo_set = "(community_id \<times> hex_string) list"

definition fan_out_event_to_local_subscribers ::
    "delivery_env \<Rightarrow> registry \<Rightarrow> community_id \<Rightarrow> stored_event \<Rightarrow> sub_key list" where
  "fan_out_event_to_local_subscribers de r c stored =
     filter_fanout_by_access de c stored (fan_out_scoped (dv_uuid_str de) r c stored) None"

record channel_event =
  ce_community_id :: community_id
  ce_topic :: event_topic
  ce_event :: event

definition topic_channel :: "event_topic \<Rightarrow> uuid option" where
  "topic_channel t = (case t of ChannelTopic i \<Rightarrow> Some i | GlobalTopic \<Rightarrow> None)"

definition fan_out_pubsub_event ::
    "delivery_env \<Rightarrow> registry \<Rightarrow> nat \<Rightarrow> channel_event \<Rightarrow> echo_set \<Rightarrow> sub_key list \<times> echo_set" where
  "fan_out_pubsub_event de r now ce local_ids =
     (let stored = stored_event_new now (ce_event ce) (topic_channel (ce_topic ce));
          c = ce_community_id ce;
          echo_key = (c, ev_id (ce_event ce))
      in if echo_key \<in> set local_ids then ([], filter (\<lambda>k. k \<noteq> echo_key) local_ids)
         else (filter_fanout_by_access de c stored (fan_out_scoped (dv_uuid_str de) r c stored) None,
               local_ids))"

definition mark_local_event :: "community_id \<Rightarrow> hex_string \<Rightarrow> echo_set \<Rightarrow> echo_set" where
  "mark_local_event c i local_ids = push_unseen (c, i) local_ids"

definition private_event_owner :: "event \<Rightarrow> hex_string option" where
  "private_event_owner ev =
     (if ev_kind ev = KIND_DM_VISIBILITY \<or> ev_kind ev = KIND_AGENT_TURN_METRIC
      then find_map tag_content (filter (\<lambda>t. tag_kind t = ''p'') (ev_tags ev))
      else None)"

definition owner_gate :: "delivery_env \<Rightarrow> event \<Rightarrow> sub_key list \<Rightarrow> sub_key list" where
  "owner_gate de ev matches =
     (case private_event_owner ev of
        None \<Rightarrow> matches
      | Some owner \<Rightarrow>
          filter (\<lambda>(conn, _). is_some_and (\<lambda>pk. pk = owner) (dv_pubkey_for_conn de conn)) matches)"

definition triggers_workflow :: "delivery_env \<Rightarrow> event \<Rightarrow> bool" where
  "triggers_workflow de ev =
     (let is_relay_workflow_msg =
        ev_pubkey ev = dv_relay_pubkey de \<and>
        list_ex (\<lambda>t. t \<noteq> [] \<and> hd t = ''buzz:workflow'') (ev_tags ev)
      in \<not> is_workflow_execution_kind (ev_kind ev) \<and> \<not> is_command_kind (ev_kind ev)
         \<and> \<not> is_relay_workflow_msg \<and> ev_kind ev \<noteq> KIND_GIFT_WRAP)"

record dispatch_result =
  dr_published :: bool
  dr_recipients :: "sub_key list"
  dr_match_count :: nat
  dr_workflow :: bool
  dr_local_ids :: echo_set

definition dispatch_persistent_event_inner ::
    "delivery_env \<Rightarrow> registry \<Rightarrow> community_id \<Rightarrow> stored_event \<Rightarrow> threaded_visibility option
     \<Rightarrow> echo_set \<Rightarrow> dispatch_result" where
  "dispatch_persistent_event_inner de r c stored threaded local_ids =
     (let ev = st_event stored;
          marked = mark_local_event c (ev_id ev) local_ids;
          ids = (if dv_publish_ok de then marked else filter (\<lambda>k. k \<noteq> (c, ev_id ev)) marked);
          matches = filter_fanout_by_access de c stored
            (fan_out_scoped (dv_uuid_str de) r c stored) threaded
      in \<lparr>dr_published = dv_publish_ok de, dr_recipients = owner_gate de ev matches,
          dr_match_count = length matches, dr_workflow = triggers_workflow de ev,
          dr_local_ids = ids\<rparr>)"

section \<open>What the gate lets through\<close>

definition conn_may_receive ::
    "delivery_env \<Rightarrow> community_id \<Rightarrow> stored_event \<Rightarrow> threaded_visibility option \<Rightarrow> conn_id \<Rightarrow> bool" where
  "conn_may_receive de c stored threaded conn \<longleftrightarrow>
     (let ev = st_event stored; pk = dv_pubkey_for_conn de conn in
      dv_community_for_conn de conn = Some c \<and>
      (ev_kind ev \<in> set AUTHOR_ONLY_KINDS \<longrightarrow> pk = Some (ev_pubkey ev)) \<and>
      (ev_kind ev = KIND_PERSONA \<longrightarrow>
         pk \<noteq> None \<and> (pk = Some (ev_pubkey ev) \<or> persona_event_is_shared ev)) \<and>
      (case st_channel_id stored of
         None \<Rightarrow> True
       | Some ch \<Rightarrow>
           (case resolved_visibility de c ch threaded of
              None \<Rightarrow> False
            | Some v \<Rightarrow> v = ''private'' \<longrightarrow>
                (case pk of None \<Rightarrow> False | Some k \<Rightarrow> dv_is_member de c ch k = Some True))))"

lemma filter_fanout_by_access_eq:
  "filter_fanout_by_access de c stored matches threaded =
     filter (\<lambda>e. conn_may_receive de c stored threaded (fst e)) matches"
proof -
  have gates: "persona_gate de ev (author_only_gate de ev (community_gate de c matches)) =
      filter (\<lambda>e. dv_community_for_conn de (fst e) = Some c \<and>
        (ev_kind ev \<in> set AUTHOR_ONLY_KINDS \<longrightarrow> dv_pubkey_for_conn de (fst e) = Some (ev_pubkey ev)) \<and>
        (ev_kind ev = KIND_PERSONA \<longrightarrow> dv_pubkey_for_conn de (fst e) \<noteq> None \<and>
           (dv_pubkey_for_conn de (fst e) = Some (ev_pubkey ev) \<or> persona_event_is_shared ev))) matches"
    for ev
    by (auto simp: persona_gate_def author_only_gate_def community_gate_def split_def
        is_persona_shared_kind_def is_unshared_persona_event_def is_some_and_iff
        intro!: filter_cong split: option.splits)
  show ?thesis
    unfolding filter_fanout_by_access_def gates Let_def
    by (auto simp: conn_may_receive_def Let_def member_gate_def split_def
        intro!: filter_cong split: option.splits)
qed

lemma owner_gate_eq:
  "owner_gate de ev matches =
     filter (\<lambda>e. \<forall>owner. private_event_owner ev = Some owner \<longrightarrow>
       dv_pubkey_for_conn de (fst e) = Some owner) matches"
  by (auto simp: owner_gate_def is_some_and_iff split_def intro!: filter_cong split: option.split)

lemma find_map_Some: "find_map f xs = Some y \<Longrightarrow> \<exists>x \<in> set xs. f x = Some y"
  by (induction xs) (auto split: option.splits)

lemma find_map_None: "find_map f xs = None \<longleftrightarrow> (\<forall>x \<in> set xs. f x = None)"
  by (induction xs) (auto split: option.splits)

lemma private_owner_is_recipient:
  "private_event_owner ev = Some owner \<Longrightarrow> has_tag_value ev ''p'' owner"
  by (auto simp: private_event_owner_def has_tag_value_iff dest!: find_map_Some split: if_splits)

section \<open>Properties\<close>

text \<open>
  C16. A dispatched event reaches exactly the subscriptions that are registered for its community
  and channel, match it, and whose connection may receive it: bound to that community, the author
  for author-only kinds, the author or a known key for a shared persona, a current member for a
  private channel (an unknown visibility counts as no access), and the owner for the two
  viewer-private kinds when their \<open>p\<close> tag names one.
\<close>
theorem dispatch_reaches_exactly_the_entitled:
  "set (dr_recipients (dispatch_persistent_event_inner de (fold reg_step ops registry_new) c stored
      threaded local_ids)) =
   {e. \<exists>fs. fold table_step ops (\<lambda>_. None) e = Some (fs, c, st_channel_id stored)
       \<and> filters_match (dv_uuid_str de) fs stored
       \<and> conn_may_receive de c stored threaded (fst e)
       \<and> (case private_event_owner (st_event stored) of
              None \<Rightarrow> True | Some owner \<Rightarrow> dv_pubkey_for_conn de (fst e) = Some owner)}"
  by (auto simp: dispatch_persistent_event_inner_def Let_def owner_gate_eq
      filter_fanout_by_access_eq fan_out_scoped_set [OF reg_run_wf] sub_accepts_def
      lookup_reg_run_new split: option.splits)

text \<open>
  An event that this pod published is delivered once: when it comes back from Redis the echo
  is swallowed and its mark removed, so a second arrival of the same event is delivered again;
  the same event id in another community is never suppressed by that mark.
\<close>
lemma echo_is_suppressed_once:
  assumes "dv_publish_ok de" and "topic_channel topic = st_channel_id stored"
    and "(c', ev_id (st_event stored)) \<notin> set local_ids" and "c' \<noteq> c"
  shows "let d = dispatch_persistent_event_inner de r c stored threaded local_ids;
             ce = \<lparr>ce_community_id = c, ce_topic = topic, ce_event = st_event stored\<rparr>;
             (first, ids) = fan_out_pubsub_event de r now ce (dr_local_ids d);
             (other, _) = fan_out_pubsub_event de r now (ce\<lparr>ce_community_id := c'\<rparr>) (dr_local_ids d)
         in first = [] \<and> (c, ev_id (st_event stored)) \<notin> set ids
            \<and> other = fan_out_event_to_local_subscribers de r c'
                (stored_event_new now (st_event stored) (st_channel_id stored))"
  using assms
  by (simp add: dispatch_persistent_event_inner_def fan_out_pubsub_event_def Let_def
      mark_local_event_def fan_out_event_to_local_subscribers_def)

definition quiet_env :: "hex_string \<Rightarrow> delivery_env" where
  "quiet_env pk =
     \<lparr>dv_uuid_str = (\<lambda>_. []), dv_community_for_conn = (\<lambda>_. Some 4),
      dv_pubkey_for_conn = (\<lambda>_. Some pk), dv_channel_visibility = (\<lambda>_ _. Some ''open''),
      dv_is_member = (\<lambda>_ _ _. Some False), dv_publish_ok = True, dv_relay_pubkey = ''ff''\<rparr>"

lemma echo_is_suppressed_once_witness:
  "fst (fan_out_pubsub_event (quiet_env ''bb'') registry_new 1
      \<lparr>ce_community_id = 4, ce_topic = GlobalTopic, ce_event = st_event (dm_event ''bb'')\<rparr>
      (dr_local_ids (dispatch_persistent_event_inner (quiet_env ''bb'') registry_new 4
         (dm_event ''bb'') None []))) = []"
  using echo_is_suppressed_once [of "quiet_env ''bb''" GlobalTopic "dm_event ''bb''" 5 "[]" 4
      registry_new None 1]
  by (simp add: quiet_env_def topic_channel_def dm_event_def stored_event_new_def Let_def split_def)

text \<open>
  C27. The delivery path between pods has no owner gate. A reader who knows an event id may
  subscribe to it with a filter that names only that id, and the filter gate accepts it; when
  another pod publishes a viewer-private event of somebody else under that id, this pod delivers
  it to the reader, although the read gate, which the documentation calls the guard of every
  delivery surface, says that the reader may not see it.
\<close>
theorem pubsub_leaks_private_events:
  assumes "ev_kind ev = KIND_DM_VISIBILITY" and "\<not> has_tag_value ev ''p'' reader"
    and "dv_community_for_conn de conn = Some c" and "dv_pubkey_for_conn de conn = Some reader"
    and "(c, ev_id ev) \<notin> set local_ids"
  shows "let fs = [\<lparr>f_ids = Some [ev_id ev], f_authors = None, f_kinds = None, f_since = None,
                   f_until = None, f_generic_tags = [], f_limit = None, f_search = None\<rparr>];
             r = snd (register_scoped c conn sid fs (extract_channel_id_from_filters pu fs)
                   (fold reg_step ops registry_new))
         in req_gates sid fs reader (extract_channel_id_from_filters pu fs) = Ok () \<and>
            \<not> event_visible_to_reader ev reader \<and>
            (conn, sid) \<in> set (fst (fan_out_pubsub_event de r now
               \<lparr>ce_community_id = c, ce_topic = GlobalTopic, ce_event = ev\<rparr> local_ids))"
proof -
  define fs where "fs = [\<lparr>f_ids = Some [ev_id ev], f_authors = None, f_kinds = None, f_since = None,
    f_until = None, f_generic_tags = [], f_limit = None, f_search = None\<rparr> :: event_filter]"
  define r where "r = snd (register_scoped c conn sid fs None (fold reg_step ops registry_new))"
  have none: "extract_channel_id_from_filters pu fs = None"
    by (simp add: extract_channel_id_from_filters_def fs_def)
  have gates: "req_gates sid fs reader None = Ok ()"
    by (simp add: req_gates_def fs_def p_gated_filters_authorized_def p_gated_filter_authorized_def
        engram_filters_authorized_def author_only_filters_authorized_def)
  have hidden: "\<not> event_visible_to_reader ev reader"
    using assms(1,2) by (simp add: event_visible_to_reader_def reader_authorized_for_event_def)
  have wf: "registry_wf r" unfolding r_def by (rule register_scoped_wf [OF reg_run_wf])
  have look: "lookup_sub r (conn, sid) = Some (fs, c, None)"
    unfolding r_def by (simp add: lookup_register_scoped)
  let ?stored = "stored_event_new now ev None"
  have ev: "st_event ?stored = ev" "st_channel_id ?stored = None"
    by (simp_all add: stored_event_new_def)
  have match: "filters_match us fs ?stored" for us
    by (simp add: filters_match_def filter_match_one_def fs_def ev starts_with_def)
  have in_fan: "(conn, sid) \<in> set (fan_out_scoped (dv_uuid_str de) r c ?stored)"
    using look match ev by (simp add: fan_out_scoped_set [OF wf] sub_accepts_def)
  have may: "conn_may_receive de c ?stored None conn"
    using assms(1,3) by (simp add: conn_may_receive_def ev AUTHOR_ONLY_KINDS_def kind_consts)
  have "(conn, sid) \<in> set (fst (fan_out_pubsub_event de r now
      \<lparr>ce_community_id = c, ce_topic = GlobalTopic, ce_event = ev\<rparr> local_ids))"
    using in_fan may assms(5)
    by (simp add: fan_out_pubsub_event_def Let_def topic_channel_def filter_fanout_by_access_eq)
  with gates hidden none show ?thesis by (simp add: fs_def [symmetric] r_def Let_def)
qed

lemma pubsub_leaks_private_events_witness:
  "\<not> event_visible_to_reader (st_event (dm_event ''bb'')) ''cc''"
  using pubsub_leaks_private_events [of "st_event (dm_event ''bb'')" "''cc''" "quiet_env ''cc''" 3 4
      "[]" "''s''" "\<lambda>_. None" "[]" 1]
  by (simp add: dm_event_def stored_event_new_def has_tag_value_def quiet_env_def Let_def)

end
