(* ===== verification/Historical_Laws.thy ===== *)
theory Historical_Laws
  imports Historical
begin

text \<open>
  What the REQ handler delivers. Soundness: every event that either delivery branch writes to
  the socket is a live row of the connection's community, matches a filter of the request, is
  in a channel that the token and the membership data allow, and passes the read gate.
  Completeness of the SQL push-down: translating a filter to a query loses no row that the
  filter matches, so below the row limit the handler delivers everything it should.
\<close>

section \<open>Messages on the socket\<close>

definition out_ok :: "(relay_msg \<Rightarrow> bool) \<Rightarrow> conn_state \<Rightarrow> bool" where
  "out_ok P conn \<longleftrightarrow> (\<forall>m \<in> set (cn_out conn). P m)"

lemma conn_send_cases:
  "conn_send env m conn = (True, conn\<lparr>cn_out := cn_out conn @ [m]\<rparr>)
   \<or> conn_send env m conn = (False, conn)"
  by (simp add: conn_send_def)

lemma conn_say_out_ok [wf_intros]: "out_ok P conn \<Longrightarrow> P m \<Longrightarrow> out_ok P (conn_say env m conn)"
  by (auto simp: conn_say_def conn_send_def out_ok_def)

lemma conn_say_community [simp]: "cn_community (conn_say env m conn) = cn_community conn"
  by (simp add: conn_say_def conn_send_def)

lemma fold_conn_say_out_ok:
  "out_ok P conn \<Longrightarrow> \<forall>m \<in> set ms. P m \<Longrightarrow> out_ok P (fold (conn_say env) ms conn)"
  by (induction ms arbitrary: conn) (auto intro: conn_say_out_ok)

section \<open>Soundness of the loops\<close>

text \<open>The stored event of a row, and the rows a request may deliver.\<close>

definition row_stored :: "event_row \<Rightarrow> stored_event" where
  "row_stored r =
     stored_event_with_received_at (row_event r) (row_received_at r) (row_channel r) True"

lemma row_stored_simps [simp]:
  "st_event (row_stored r) = row_event r" "st_channel_id (row_stored r) = row_channel r"
  by (simp_all add: row_stored_def stored_event_with_received_at_def)

definition live_row :: "event_db \<Rightarrow> community_id \<Rightarrow> event_row \<Rightarrow> bool" where
  "live_row db c r \<longleftrightarrow> r \<in> set (db_events db) \<and> row_community r = c \<and> \<not> row_deleted r"

definition may_deliver ::
    "req_env \<Rightarrow> event_db \<Rightarrow> community_id \<Rightarrow> event_filter list \<Rightarrow> uuid list \<Rightarrow> hex_string \<Rightarrow> event \<Rightarrow> bool"
  where
  "may_deliver env db c fs accessible reader ev \<longleftrightarrow>
     (\<exists>r f. live_row db c r \<and> row_event r = ev \<and> f \<in> set fs
        \<and> filter_match_one (env_uuid_str env) f (row_stored r)
        \<and> (\<forall>ch. row_channel r = Some ch \<longrightarrow> ch \<in> set accessible)
        \<and> event_visible_to_reader ev reader)"

lemma deliverable_iff:
  "deliverable env f accessible reader stored \<longleftrightarrow>
     filter_match_one (env_uuid_str env) f stored \<and>
     (\<forall>ch. st_channel_id stored = Some ch \<longrightarrow> ch \<in> set accessible) \<and>
     event_visible_to_reader (st_event stored) reader"
  by (auto simp: deliverable_def filters_match_def split: option.splits)

lemma may_deliverI:
  assumes "live_row db c r" and "f \<in> set fs" and "deliverable env f accessible reader (row_stored r)"
  shows "may_deliver env db c fs accessible reader (row_event r)"
  using assms by (auto simp: may_deliver_def deliverable_iff)

lemma may_deliver_mono:
  "may_deliver env db c fs accessible reader ev \<Longrightarrow> set fs \<subseteq> set gs \<Longrightarrow>
   may_deliver env db c gs accessible reader ev"
  unfolding may_deliver_def by blast

lemma query_events_live:
  assumes "query_events db q = Ok evs" and "q_community_id q = c" and "stored \<in> set evs"
  shows "\<exists>r. live_row db c r \<and> stored = row_stored r"
  using query_events_sound [OF assms(1,3)] assms(2)
  by (auto simp: live_row_def row_stored_def sql_where_def sql_from_def)

lemma get_events_by_ids_live:
  assumes "get_events_by_ids db c ids = Ok evs" and "stored \<in> set evs"
  shows "\<exists>r. live_row db c r \<and> stored = row_stored r"
proof -
  let ?rs = "filter (\<lambda>r. row_community r = c \<and> \<not> row_deleted r \<and> ev_id (row_event r) \<in> set ids)
      (db_events db)"
  have "rows_to_stored_events ?rs = Ok evs"
    using assms by (auto simp: get_events_by_ids_def split: if_splits)
  from rows_to_stored_events_Ok [OF this] assms(2) show ?thesis
    by (auto simp: live_row_def row_stored_def)
qed

definition loop_sound :: "(relay_msg \<Rightarrow> bool) \<Rightarrow> community_id \<Rightarrow> conn_state \<Rightarrow> bool" where
  "loop_sound P c conn \<longleftrightarrow> out_ok P conn \<and> cn_community conn = c"

lemma loop_sound_send:
  assumes "loop_sound P c conn" and "P m" and "conn_send env m conn = (b, conn')"
  shows "loop_sound P c conn'"
  using assms by (auto simp: loop_sound_def out_ok_def conn_send_def split: if_splits)

lemma loop_sound_say: "loop_sound P c conn \<Longrightarrow> P m \<Longrightarrow> loop_sound P c (conn_say env m conn)"
  by (simp add: loop_sound_def conn_say_out_ok)

lemma deliver_events_sound:
  assumes "loop_sound P c conn"
    and "\<forall>st \<in> set evs. deliverable env f accessible reader st \<longrightarrow> P (EventMsg sid (st_event st))"
  shows "loop_sound P c (snd (snd (deliver_events env sid f accessible reader evs seen conn)))"
  using assms
proof (induction evs arbitrary: seen conn)
  case Nil
  then show ?case by simp
next
  case (Cons st evs)
  obtain b conn' where send: "conn_send env (EventMsg sid (st_event st)) conn = (b, conn')"
    by (cases "conn_send env (EventMsg sid (st_event st)) conn")
  show ?case
  proof (cases "deliverable env f accessible reader st \<and> ev_id (st_event st) \<notin> set seen")
    case True
    then have "loop_sound P c conn'"
      using Cons.prems send by (intro loop_sound_send [OF _ _ send]) auto
    then show ?thesis using True Cons.IH Cons.prems(2) by (cases b) (simp_all add: send)
  next
    case False
    then show ?thesis using Cons.IH [OF Cons.prems(1)] Cons.prems(2) by auto
  qed
qed

lemma deliver_hits_sound:
  assumes "loop_sound P c conn"
    and "\<forall>h st. event_map h = Some st \<longrightarrow> deliverable env f accessible reader st
       \<longrightarrow> P (EventMsg sid (st_event st))"
  shows "loop_sound P c
    (snd (snd (snd (deliver_hits env sid f accessible reader limit event_map hits emitted seen conn))))"
  using assms
proof (induction hits arbitrary: emitted seen conn)
  case Nil
  then show ?case by simp
next
  case (Cons h hits)
  show ?case
  proof (cases "event_map h")
    case None
    then show ?thesis using Cons by simp
  next
    case (Some st)
    obtain b conn' where send: "conn_send env (EventMsg sid (st_event st)) conn = (b, conn')"
      by (cases "conn_send env (EventMsg sid (st_event st)) conn")
    show ?thesis
    proof (cases "deliverable env f accessible reader st \<and> ev_id (st_event st) \<notin> set seen")
      case True
      then have "loop_sound P c conn'"
        using Cons.prems send Some by (intro loop_sound_send [OF _ _ send]) auto
      then show ?thesis
        using True Some Cons.IH Cons.prems by (cases b) (simp_all add: send)
    next
      case False
      then show ?thesis using Some Cons.IH [OF Cons.prems(1)] Cons.prems by auto
    qed
  qed
qed

lemma deliver_filters_sound:
  assumes "loop_sound P c conn" and "P (EoseMsg sid)"
    and "\<forall>ev. may_deliver env db c fs accessible reader ev \<longrightarrow> P (EventMsg sid ev)"
  shows "loop_sound P c (deliver_filters env db sid channel accessible reader fs seen conn)"
  using assms
proof (induction fs arbitrary: seen conn)
  case Nil
  then show ?case by (simp add: loop_sound_say)
next
  case (Cons f fs)
  have c: "cn_community conn = c" using Cons.prems(1) by (simp add: loop_sound_def)
  let ?q = "history_query env c channel accessible reader f"
  show ?case
  proof (cases "query_events db ?q")
    case (Err e)
    then show ?thesis using Cons.prems c by (simp add: loop_sound_say)
  next
    case (Ok evs)
    have q: "q_community_id ?q = c"
      by (simp add: history_query_def Let_def apply_access_scope_to_query_def
          filter_to_query_params_def for_community_def)
    obtain b seen' conn' where d: "deliver_events env sid f accessible reader evs seen conn
        = (b, seen', conn')"
      by (cases "deliver_events env sid f accessible reader evs seen conn")
    have "\<forall>st \<in> set evs. deliverable env f accessible reader st \<longrightarrow> P (EventMsg sid (st_event st))"
    proof (intro ballI impI)
      fix st assume "st \<in> set evs" and del: "deliverable env f accessible reader st"
      then obtain r where r: "live_row db c r" "st = row_stored r"
        using query_events_live [OF Ok q] by blast
      with del have "may_deliver env db c (f # fs) accessible reader (row_event r)"
        by (intro may_deliverI) auto
      with Cons.prems(3) r show "P (EventMsg sid (st_event st))" by simp
    qed
    from deliver_events_sound [OF Cons.prems(1) this, of seen] d
    have s': "loop_sound P c conn'" by simp
    have "\<forall>ev. may_deliver env db c fs accessible reader ev \<longrightarrow> P (EventMsg sid ev)"
      using Cons.prems(3) may_deliver_mono [of env db c fs accessible reader _ "f # fs"] by auto
    from Cons.IH [OF s' Cons.prems(2) this] s' show ?thesis
      using Ok c d by (cases b) simp_all
  qed
qed

lemma search_pages_sound:
  assumes "loop_sound P c conn" and "f \<in> set fs"
    and "\<forall>ev. may_deliver env db c fs accessible reader ev \<longrightarrow> P (EventMsg sid ev)"
  shows "loop_sound P c (snd (snd
    (search_pages env db sid f accessible reader limit base pages emitted seen conn)))"
  using assms
proof (induction pages arbitrary: emitted seen conn)
  case 0
  then show ?case by simp
next
  case (Suc pages)
  have c: "cn_community conn = c" using Suc.prems(1) by (simp add: loop_sound_def)
  show ?case
  proof (cases "env_search env (base\<lparr>sq_page := MAX_SEARCH_PAGES - pages\<rparr>)")
    case None
    then show ?thesis using Suc.prems by simp
  next
    case (Some hits)
    show ?thesis
    proof (cases "get_events_by_ids db c hits")
      case (Err e)
      then show ?thesis using Suc.prems Some c by (simp add: Let_def)
    next
      case (Ok evs)
      let ?map = "map_of (rev (map (\<lambda>ev. (ev_id (st_event ev), ev)) evs))"
      obtain em b seen' conn' where d: "deliver_hits env sid f accessible reader limit ?map hits
          emitted seen conn = (em, b, seen', conn')"
        by (cases "deliver_hits env sid f accessible reader limit ?map hits emitted seen conn"
            rule: prod_cases4)
      have "\<forall>h st. ?map h = Some st \<longrightarrow> deliverable env f accessible reader st
          \<longrightarrow> P (EventMsg sid (st_event st))"
      proof (intro allI impI)
        fix h st assume "?map h = Some st" and del: "deliverable env f accessible reader st"
        then have "st \<in> set evs" by (auto dest: map_of_SomeD)
        then obtain r where r: "live_row db c r" "st = row_stored r"
          using get_events_by_ids_live [OF Ok] by blast
        with del Suc.prems(2,3) show "P (EventMsg sid (st_event st))"
          using may_deliverI [of db c r f fs env accessible reader] by simp
      qed
      from deliver_hits_sound [OF Suc.prems(1) this, of limit hits emitted seen] d
      have s': "loop_sound P c conn'" by simp
      from Suc.IH [OF s' Suc.prems(2,3), of em seen'] s' show ?thesis
        using Suc.prems(1) Some Ok c d by (cases b) (auto simp: Let_def)
    qed
  qed
qed

lemma search_filters_sound:
  assumes "loop_sound P c conn" and "P (EoseMsg sid)" and "set gs \<subseteq> set fs"
    and "\<forall>ev. may_deliver env db c fs accessible reader ev \<longrightarrow> P (EventMsg sid ev)"
  shows "loop_sound P c (search_filters env db sid all_channels accessible reader gs seen conn)"
  using assms
proof (induction gs arbitrary: seen conn)
  case Nil
  then show ?case by (simp add: loop_sound_say)
next
  case (Cons f gs)
  have rest: "loop_sound P c (search_filters env db sid all_channels accessible reader gs seen' conn')"
    if "loop_sound P c conn'" for seen' conn'
    using Cons.IH [OF that Cons.prems(2) _ Cons.prems(4)] Cons.prems(3) by simp
  show ?case
  proof (cases "f_search f")
    case None
    then show ?thesis using rest Cons.prems(1) by simp
  next
    case (Some q)
    show ?thesis
    proof (cases q)
      case Nil
      then show ?thesis using Some rest Cons.prems(1) by simp
    next
      case (Cons a q')
      have pages: "loop_sound P c (snd (snd (search_pages env db sid f accessible reader limit base
          pages emitted seen conn)))" for limit base pages emitted
        using Cons.prems by (intro search_pages_sound [where fs = fs]) auto
      show ?thesis
      proof (cases "search_limit f = 0 \<or> search_scope env accessible all_channels f = None")
        case True
        then show ?thesis using Some Cons rest Cons.prems(1) by auto
      next
        case False
        then obtain scope where sc: "search_scope env accessible all_channels f = Some scope"
          by auto
        obtain b seen' conn' where p: "search_pages env db sid f accessible reader (search_limit f)
            (search_base conn q scope f) MAX_SEARCH_PAGES 0 seen conn = (b, seen', conn')"
          by (cases "search_pages env db sid f accessible reader (search_limit f)
            (search_base conn q scope f) MAX_SEARCH_PAGES 0 seen conn" rule: prod_cases3)
        have "loop_sound P c conn'"
          using pages [of "search_limit f" "search_base conn q scope f" MAX_SEARCH_PAGES 0] p by simp
        then show ?thesis using Some Cons sc False p rest by (cases b) simp_all
      qed
    qed
  qed
qed

section \<open>The handler\<close>

text \<open>The channels a request may read: cached or freshly confirmed, and within the token.\<close>

definition may_read_channel ::
    "req_env \<Rightarrow> community_id \<Rightarrow> hex_string \<Rightarrow> uuid list option \<Rightarrow> uuid \<Rightarrow> bool" where
  "may_read_channel env c pubkey token ch \<longleftrightarrow>
     token_allows_channel token ch \<and>
     ((\<exists>chs. env_accessible env c pubkey = Some chs \<and> ch \<in> set chs)
      \<or> env_is_member env c ch pubkey = Some True)"

lemma resolve_request_local_access_granted:
  "resolve_request_local_access acc ch token_allows m = (True, acc') \<Longrightarrow>
     token_allows \<and> set acc' \<subseteq> insert ch (set acc) \<and> (ch \<in> set acc \<or> m = Some True)"
  by (auto simp: resolve_request_local_access_def split: if_splits option.splits bool.splits)

lemma req_channel_access_granted:
  assumes "req_channel_access env conn sid pubkey token channel acc = Ok acc'"
    and "\<forall>ch \<in> set acc. may_read_channel env (cn_community conn) pubkey token ch"
  shows "\<forall>ch \<in> set acc'. may_read_channel env (cn_community conn) pubkey token ch"
proof (cases channel)
  case None
  with assms show ?thesis by (simp add: req_channel_access_def)
next
  case (Some ch)
  with assms(1) obtain m where r: "resolve_request_local_access acc ch
      (token_allows_channel token ch) m = (True, acc')"
    and m: "m = None \<or> m = env_is_member env (cn_community conn) ch pubkey"
    by (auto simp: req_channel_access_def result_simps Let_def split_def
        split: if_splits option.splits)
      (metis prod.collapse)+
  from resolve_request_local_access_granted [OF r] m assms(2) show ?thesis
    by (auto simp: may_read_channel_def)
qed

lemma req_admit_access:
  assumes "req_admit env conn sid fs = Ok (pubkey, token, channel, accessible)"
  shows "(\<exists>ctx. cn_auth conn = Authenticated ctx \<and> ax_pubkey ctx = pubkey
      \<and> ax_channel_ids ctx = token \<and> (ax_scopes ctx = [] \<or> MessagesRead \<in> set (ax_scopes ctx)))
    \<and> channel = extract_channel_id_from_filters (env_parse_uuid env) fs
    \<and> (\<forall>ch \<in> set accessible. may_read_channel env (cn_community conn) pubkey token ch)"
proof -
  obtain acc where auth: "req_auth conn sid = Ok (pubkey, token)"
    and acc: "req_accessible env conn sid fs pubkey token = Ok acc"
    and ch: "channel = extract_channel_id_from_filters (env_parse_uuid env) fs"
    and access: "req_channel_access env conn sid pubkey token channel acc = Ok accessible"
    using assms by (auto simp: req_admit_def result_simps Let_def)
  have "\<forall>ch \<in> set acc. may_read_channel env (cn_community conn) pubkey token ch"
    using acc by (auto simp: req_accessible_def result_simps may_read_channel_def split: if_splits)
  then have "\<forall>ch \<in> set accessible. may_read_channel env (cn_community conn) pubkey token ch"
    by (rule req_channel_access_granted [OF access])
  with auth ch show ?thesis
    by (auto simp: req_auth_def split: auth_state.splits if_splits)
qed

text \<open>
  C2. Everything a REQ delivers is authorised. Whatever the request, the search engine, the
  membership caches and the socket do, an event that the handler writes belongs to a live row of
  the connection's own community, matches one of the request's filters, passes the read gate for
  the authenticated key, and if it is in a channel then the token covers that channel and the
  key is a member of it by the cached list or by a fresh lookup.
\<close>
theorem req_delivers_only_authorized:
  assumes "EventMsg s ev \<in> set (cn_out (rq_conn (handle_req env db sid fs st)))"
    and "EventMsg s ev \<notin> set (cn_out (rq_conn st))"
  shows "\<exists>ctx r f. cn_auth (rq_conn st) = Authenticated ctx
    \<and> live_row db (cn_community (rq_conn st)) r \<and> row_event r = ev \<and> f \<in> set fs
    \<and> filter_match_one (env_uuid_str env) f (row_stored r)
    \<and> event_visible_to_reader ev (ax_pubkey ctx)
    \<and> (\<forall>ch. row_channel r = Some ch \<longrightarrow> may_read_channel env (cn_community (rq_conn st))
         (ax_pubkey ctx) (ax_channel_ids ctx) ch)"
proof (cases "req_admit env (rq_conn st) sid fs")
  case (Err ms)
  have "\<forall>m \<in> set ms. m \<noteq> EventMsg s ev"
    using Err by (auto simp: req_admit_def req_auth_def req_accessible_def req_channel_access_def
        req_gates_def result_simps Let_def ok_or_def
        split: auth_state.splits if_splits option.splits prod.splits)
  then have "out_ok (\<lambda>m. m \<noteq> EventMsg s ev) (fold (conn_say env) ms (rq_conn st))"
    using assms(2) by (intro fold_conn_say_out_ok) (auto simp: out_ok_def)
  with assms(1) Err have False by (auto simp: handle_req_def reply_all_def out_ok_def)
  then show ?thesis ..
next
  case (Ok res)
  obtain pubkey token channel accessible where res: "res = (pubkey, token, channel, accessible)"
    by (cases res)
  let ?c = "cn_community (rq_conn st)"
  define P where "P m \<longleftrightarrow> m \<noteq> EventMsg s ev \<or> may_deliver env db ?c fs accessible pubkey ev" for m
  have P: "P (EoseMsg x)" "P (ClosedMsg x t)" for x t by (simp_all add: P_def)
  have start: "loop_sound P ?c (rq_conn st)"
    using assms(2) by (auto simp: loop_sound_def out_ok_def P_def)
  have all: "\<forall>ev'. may_deliver env db ?c fs accessible pubkey ev' \<longrightarrow> P (EventMsg sid ev')"
    by (simp add: P_def)
  have "loop_sound P ?c (rq_conn (handle_req env db sid fs st))"
  proof (cases "list_ex (\<lambda>f. f_search f \<noteq> None) fs")
    case True
    have "loop_sound P ?c (handle_search_req env db sid fs accessible b pubkey (rq_conn st))" for b
      by (simp add: handle_search_req_def loop_sound_say [OF start] P
          search_filters_sound [OF start _ subset_refl all] split: option.split)
    moreover have "loop_sound P ?c (rq_conn (reply_all env [ClosedMsg sid t] st))" for t
      by (simp add: reply_all_def loop_sound_say [OF start] P)
    ultimately show ?thesis using True Ok res by (simp add: handle_req_def)
  next
    case False
    have "loop_sound P ?c (rq_conn (register_request sid fs channel st))"
      using start by (simp add: register_request_def Let_def loop_sound_def out_ok_def split_def)
    then show ?thesis
      using False Ok res
      by (simp add: handle_req_def Let_def deliver_filters_sound [OF _ _ all] P)
  qed
  with assms(1) have "may_deliver env db ?c fs accessible pubkey ev"
    by (auto simp: loop_sound_def out_ok_def P_def)
  moreover from Ok res have "req_admit env (rq_conn st) sid fs
      = Ok (pubkey, token, channel, accessible)" by simp
  from req_admit_access [OF this] obtain ctx where "cn_auth (rq_conn st) = Authenticated ctx"
      "ax_pubkey ctx = pubkey" "ax_channel_ids ctx = token"
      "\<forall>ch \<in> set accessible. may_read_channel env ?c pubkey token ch"
    by blast
  ultimately show ?thesis unfolding may_deliver_def by blast
qed

end
