(* ===== verification/Pushdown.thy ===== *)
theory Pushdown
  imports Historical_Laws
begin

text \<open>
  The SQL push-down of a filter loses nothing: a row that the in-memory filter matches, in a
  channel the reader may read, satisfies the \<open>WHERE\<close> clause that the REQ handler builds for that
  filter. Together with the soundness of the handler this makes historical delivery complete
  below the row limit.
\<close>

section \<open>Rows and filters the relay produces\<close>

text \<open>
  What ingest guarantees of a stored row: the derived columns and the mention index follow the
  event, its \<open>h\<close> tags name the channel it was stored in, and it has at most one \<open>d\<close> value.
\<close>

definition row_consistent :: "req_env \<Rightarrow> event_db \<Rightarrow> event_row \<Rightarrow> bool" where
  "row_consistent env db r \<longleftrightarrow>
     row_d_tag r = extract_d_tag (row_event r) \<and>
     (\<forall>v. has_tag_value (row_event r) ''d'' v \<longrightarrow> is_parameterized_replaceable (ev_kind (row_event r))
        \<longrightarrow> extract_d_tag (row_event r) = Some v) \<and>
     (\<forall>v. has_tag_value (row_event r) ''p'' v \<longrightarrow> valid_pubkey_hex v \<longrightarrow>
        (row_community r, ascii_lower v, ev_id (row_event r)) \<in> set (db_mentions db)) \<and>
     (\<forall>v. has_tag_value (row_event r) ''h'' v \<longrightarrow> env_parse_uuid env v = row_channel r) \<and>
     ev_created_at (row_event r) < 2 ^ 63 \<and> ev_kind (row_event r) \<le> 65535 \<and>
     length (ev_id (row_event r)) = 64"

text \<open>
  What a well-formed filter satisfies: full ids, times in range, valid keys in \<open>#p\<close> and valid
  channel ids in \<open>#h\<close>.
\<close>

definition filter_wf :: "req_env \<Rightarrow> event_filter \<Rightarrow> bool" where
  "filter_wf env f \<longleftrightarrow>
     (\<forall>ids \<in> set_option (f_ids f). \<forall>i \<in> set ids. length i = 64) \<and>
     (\<forall>t \<in> set_option (f_since f). t < 2 ^ 63) \<and> (\<forall>t \<in> set_option (f_until f). t < 2 ^ 63) \<and>
     (\<forall>(key, vs) \<in> set (f_generic_tags f). \<forall>v \<in> set vs.
        (key = ''p'' \<longrightarrow> valid_pubkey_hex v) \<and> (key = ''h'' \<longrightarrow> env_parse_uuid env v \<noteq> None))"

text \<open>What the handler relies on from the \<open>uuid\<close> and \<open>chrono\<close> crates.\<close>

definition env_lawful :: "req_env \<Rightarrow> bool" where
  "env_lawful env \<longleftrightarrow>
     (\<forall>i. env_parse_uuid env (env_uuid_str env i) = Some i) \<and>
     (\<forall>n m. env_from_ts env n = Some m \<longrightarrow> m = n)"

section \<open>One clause at a time\<close>

lemma tag_value_contains_pair:
  "has_tag_value ev k v \<Longrightarrow> tags_contain_pair ev k v"
proof -
  assume "has_tag_value ev k v"
  then obtain t where t: "t \<in> set (ev_tags ev)" "tag_kind t = k" "tag_content t = Some v"
    by (auto simp: has_tag_value_iff)
  then have "k \<in> set t \<and> v \<in> set t"
    by (auto simp: tag_kind_def tag_content_def split: list.splits)
  with t(1) show ?thesis by (auto simp: tags_contain_pair_def list_ex_iff)
qed

lemma match_h_value:
  assumes m: "filter_match_one (env_uuid_str env) f (row_stored r)"
    and e: "(''h'', vs) \<in> set (f_generic_tags f)"
    and cons: "row_consistent env db r" and law: "env_lawful env"
  shows "\<exists>v \<in> set vs. env_parse_uuid env v = row_channel r"
proof -
  have "tag_entry_matches (env_uuid_str env) (row_stored r) (''h'', vs)"
    using m e by (auto simp: filter_match_one_def list_all_iff split: if_splits)
  then consider v where "v \<in> set vs" "has_tag_value (row_event r) ''h'' v"
    | ch where "row_channel r = Some ch" "env_uuid_str env ch \<in> set vs"
    by (auto simp: tag_entry_matches_def Let_def list_ex_iff split: if_splits option.splits)
  then show ?thesis
  proof cases
    case 1
    with cons show ?thesis by (auto simp: row_consistent_def)
  next
    case 2
    with law show ?thesis by (auto simp: env_lawful_def)
  qed
qed

text \<open>The channel of the query is the row's channel, whenever the query names one.\<close>

lemma per_filter_channel_row:
  assumes m: "filter_match_one (env_uuid_str env) f (row_stored r)"
    and cons: "row_consistent env db r" and law: "env_lawful env" and wf: "filter_wf env f"
    and f: "f \<in> set fs" and ch: "per_filter_channel env
      (extract_channel_id_from_filters (env_parse_uuid env) fs) f = Some ch"
  shows "row_channel r = Some ch"
proof (cases "extract_channel_from_filter (env_parse_uuid env) f")
  case (Some ch')
  then obtain v where v: "map_of (f_generic_tags f) ''h'' = Some [v]" "env_parse_uuid env v = Some ch'"
    by (auto simp: extract_channel_from_filter_def split: option.splits list.splits)
  with Some ch have "ch' = ch" by (simp add: per_filter_channel_def)
  moreover have "(''h'', [v]) \<in> set (f_generic_tags f)" using v(1) by (rule map_of_SomeD)
  from match_h_value [OF m this cons law] v(2) have "row_channel r = Some ch'" by simp
  ultimately show ?thesis by simp
next
  case None
  with ch have "extract_channel_id_from_filters (env_parse_uuid env) fs = Some ch"
    by (simp add: per_filter_channel_def)
  then have only: "set (h_channels (env_parse_uuid env) f) = {ch}"
    using f by (auto simp: extract_channel_id_from_filters_def channel_filter_loop_Some
        names_only_channel_def)
  then have "h_channels (env_parse_uuid env) f \<noteq> []" by auto
  then obtain vs where vs: "(''h'', vs) \<in> set (f_generic_tags f)"
    by (auto simp: h_channels_def List.map_filter_def filter_empty_conv)
  from match_h_value [OF m vs cons law] obtain v
    where v: "v \<in> set vs" "env_parse_uuid env v = row_channel r" by blast
  with wf vs obtain i where i: "env_parse_uuid env v = Some i"
    by (fastforce simp: filter_wf_def)
  then have "i \<in> set (h_channels (env_parse_uuid env) f)"
    using v(1) vs by (force simp: h_channels_def List.map_filter_def)
  with only i v(2) show ?thesis by simp
qed

lemma query_params_fields:
  "q_d_tag (filter_to_query_params from_ts f ch c) = fst (split_d_tags f)"
  "q_d_tags (filter_to_query_params from_ts f ch c) = snd (split_d_tags f)"
  "q_e_tags (filter_to_query_params from_ts f ch c)
     = Option.bind (map_of (f_generic_tags f) ''e'') non_empty"
  "q_kinds (filter_to_query_params from_ts f ch c) = f_kinds f"
  "q_ids (filter_to_query_params from_ts f ch c) = Option.bind (f_ids f) non_empty"
  "q_authors (filter_to_query_params from_ts f ch c) = snd (split_authors (f_authors f))"
  "q_channel_id (filter_to_query_params from_ts f ch c) = ch"
  "q_channel_ids (filter_to_query_params from_ts f ch c) = None"
  "q_global_only (filter_to_query_params from_ts f ch c) = False"
  "q_before_id (filter_to_query_params from_ts f ch c) = None"
  "q_offset (filter_to_query_params from_ts f ch c) = None"
  "q_max_limit (filter_to_query_params from_ts f ch c) = None"
  "q_persona_reader (filter_to_query_params from_ts f ch c) = None"
  "q_limit (filter_to_query_params from_ts f ch c) = Some (case f_limit f of
     Some l \<Rightarrow> min (as_i64 l) MAX_HISTORICAL_LIMIT | None \<Rightarrow> MAX_HISTORICAL_LIMIT)"
  by (simp_all add: filter_to_query_params_def for_community_def)

lemma bind_non_empty [simp]: "Option.bind x non_empty = Some y \<longleftrightarrow> x = Some y \<and> y \<noteq> []"
  by (cases x) (auto simp: non_empty_def)

lemma match_identity:
  assumes m: "filter_match_one us f (row_stored r)" and wf: "filter_wf env f"
    and len: "length (ev_id (row_event r)) = 64"
  shows "sql_identity (filter_to_query_params from_ts f ch c) r"
proof -
  let ?ev = "row_event r"
  have kinds: "\<forall>ks. f_kinds f = Some ks \<longrightarrow> ev_kind ?ev \<in> set ks"
    using m by (auto dest: filter_match_one_kind)
  have authors: "\<forall>as. f_authors f = Some as \<longrightarrow> ev_pubkey ?ev \<in> set as"
    using m by (auto simp: filter_match_one_def split: if_splits)
  have "\<forall>ids. f_ids f = Some ids \<longrightarrow> (\<exists>i \<in> set ids. starts_with (ev_id ?ev) i)"
    using m by (auto simp: filter_match_one_def list_ex_iff split: if_splits)
  then have ids: "\<forall>ids. f_ids f = Some ids \<longrightarrow> ev_id ?ev \<in> set ids"
    using wf len by (auto simp: filter_wf_def starts_with_def)
  show ?thesis
    using kinds authors ids
    by (auto simp: sql_identity_def filter_to_query_params_def split_authors_def is_none_or_iff
        for_community_def length_Suc_conv
        split: option.splits if_splits)
qed

lemma d_tag_pushed:
  assumes m: "filter_match_one us f (row_stored r)" and cons: "row_consistent env db r"
    and only: "filter_is_nip33_only (f_kinds f)" and vs: "map_of (f_generic_tags f) ''d'' = Some vs"
  shows "\<exists>d \<in> set vs. row_d_tag r = Some d"
proof -
  obtain ks where "f_kinds f = Some ks" "list_all is_parameterized_replaceable ks"
    using only by (auto simp: filter_is_nip33_only_def is_some_and_iff)
  then have "is_parameterized_replaceable (ev_kind (row_event r))"
    using filter_match_one_kind [OF m] by (auto simp: list_all_iff)
  moreover obtain v where "v \<in> set vs" "has_tag_value (row_event r) ''d'' v"
    using filter_match_one_tag [OF m vs] by auto
  ultimately show ?thesis using cons by (auto simp: row_consistent_def)
qed

lemma match_tags:
  assumes m: "filter_match_one us f (row_stored r)" and cons: "row_consistent env db r"
  shows "sql_tags (filter_to_query_params from_ts f ch c) r"
proof -
  have e: "list_ex (tags_contain_pair (row_event r) ''e'') vs"
    if "map_of (f_generic_tags f) ''e'' = Some vs" for vs
    using filter_match_one_tag [OF m that] by (auto simp: list_ex_iff intro: tag_value_contains_pair)
  have d: "\<exists>d \<in> set vs. row_d_tag r = Some d"
    if "filter_is_nip33_only (f_kinds f)" "map_of (f_generic_tags f) ''d'' = Some vs" for vs
    by (rule d_tag_pushed [OF m cons that])
  have "is_none_or (\<lambda>es. es \<noteq> [] \<longrightarrow> list_ex (tags_contain_pair (row_event r) ''e'') es)
      (Option.bind (map_of (f_generic_tags f) ''e'') non_empty)"
    using e by (simp add: is_none_or_iff)
  moreover have "(case fst (split_d_tags f) of
        Some d \<Rightarrow> row_d_tag r = Some d
      | None \<Rightarrow> is_none_or (\<lambda>ds. ds \<noteq> [] \<longrightarrow> (\<exists>d \<in> set ds. row_d_tag r = Some d))
          (snd (split_d_tags f)))"
  proof (cases "filter_is_nip33_only (f_kinds f) \<and> map_of (f_generic_tags f) ''d'' \<noteq> None")
    case False
    then show ?thesis by (auto simp: split_d_tags_def split: option.split)
  next
    case True
    then obtain vs where vs: "map_of (f_generic_tags f) ''d'' = Some vs" by auto
    with True d have "\<exists>d \<in> set vs. row_d_tag r = Some d" by blast
    with True vs show ?thesis by (cases vs) (auto simp: split_d_tags_def)
  qed
  ultimately show ?thesis
    by (simp add: sql_tags_def query_params_fields cong: option.case_cong)
qed

lemma match_window:
  assumes m: "filter_match_one us f (row_stored r)" and wf: "filter_wf env f"
    and law: "env_lawful env" and cons: "row_consistent env db r"
  shows "sql_window (filter_to_query_params (env_from_ts env) f ch c) r"
proof -
  let ?t = "ev_created_at (row_event r)"
  have t: "created_i64 r = int ?t"
    using cons by (simp add: created_i64_def row_consistent_def as_i64_small)
  have since: "s \<le> ?t" if "f_since f = Some s" for s
    using m that by (auto simp: filter_match_one_def split: if_splits)
  have until: "?t \<le> u" if "f_until f = Some u" for u
    using m that by (auto simp: filter_match_one_def split: if_splits)
  have small: "\<forall>s. f_since f = Some s \<longrightarrow> as_i64 s = int s" "\<forall>u. f_until f = Some u \<longrightarrow> as_i64 u = int u"
    using wf by (auto simp: filter_wf_def as_i64_small)
  have law': "env_from_ts env n = Some m \<Longrightarrow> m = n" for n m using law by (simp add: env_lawful_def)
  show ?thesis
    using since until small
    by (auto simp: sql_window_def filter_to_query_params_def for_community_def is_none_or_iff t
        dest!: law' split: Option.bind_splits)
qed

lemma match_from:
  assumes m: "filter_match_one us f (row_stored r)" and wf: "filter_wf env f"
    and cons: "row_consistent env db r" and live: "live_row db c r"
  shows "sql_from db (filter_to_query_params from_ts f ch c) r"
proof -
  have "(c, ascii_lower v, ev_id (row_event r)) \<in> set (db_mentions db)"
    if vs: "map_of (f_generic_tags f) ''p'' = Some vs" and v: "length vs = 1" "v = hd vs" for vs v
  proof -
    from v have "vs = [v]" by (cases vs) auto
    then have "has_tag_value (row_event r) ''p'' v"
      using filter_match_one_tag [OF m vs] by auto
    moreover have "valid_pubkey_hex v"
      using wf map_of_SomeD [OF vs] \<open>vs = [v]\<close> by (fastforce simp: filter_wf_def)
    ultimately show ?thesis using cons live by (auto simp: row_consistent_def live_row_def)
  qed
  then show ?thesis
    using live by (auto simp: sql_from_def filter_to_query_params_def for_community_def
        live_row_def is_none_or_iff split: option.splits if_splits)
qed

lemma visible_persona_clause:
  assumes "event_visible_to_reader (row_event r) reader"
  shows "sql_persona (q\<lparr>q_persona_reader := Some reader\<rparr>) r"
proof -
  have "tags_contain_pair ev ''shared'' ''true''" if "persona_event_is_shared ev" for ev
  proof -
    have "filter (\<lambda>t. tag_kind t = ''shared'') (ev_tags ev) \<noteq> []"
      using that by (auto simp: persona_event_is_shared_def shared_tag_loop_iff)
    then obtain t where "t \<in> set (ev_tags ev)" "tag_kind t = ''shared''"
      by (auto simp: filter_empty_conv)
    moreover from this that have "t = [''shared'', ''true'']"
      by (simp add: persona_event_is_shared_def shared_tag_loop_iff)
    ultimately show ?thesis by (auto simp: tags_contain_pair_def list_ex_iff intro: bexI [of _ t])
  qed
  with assms show ?thesis
    by (auto simp: sql_persona_def event_visible_to_reader_def is_unshared_persona_event_def
        is_persona_shared_kind_def KIND_PERSONA_def split: if_splits)
qed

section \<open>The whole clause\<close>

lemma sql_clauses_update [simp]:
  "sql_from db (q\<lparr>q_persona_reader := p\<rparr>) r = sql_from db q r"
  "sql_scope (q\<lparr>q_persona_reader := p\<rparr>) r = sql_scope q r"
  "sql_identity (q\<lparr>q_persona_reader := p\<rparr>) r = sql_identity q r"
  "sql_tags (q\<lparr>q_persona_reader := p\<rparr>) r = sql_tags q r"
  "sql_window (q\<lparr>q_persona_reader := p\<rparr>) r = sql_window q r"
  "sql_from db (q\<lparr>q_channel_ids := cs\<rparr>) r = sql_from db q r"
  "sql_identity (q\<lparr>q_channel_ids := cs\<rparr>) r = sql_identity q r"
  "sql_tags (q\<lparr>q_channel_ids := cs\<rparr>) r = sql_tags q r"
  "sql_window (q\<lparr>q_channel_ids := cs\<rparr>) r = sql_window q r"
  "sql_persona (q\<lparr>q_channel_ids := cs\<rparr>) r = sql_persona q r"
  by (simp_all add: sql_where_defs cong: option.case_cong)

lemma history_query_complete:
  assumes m: "filter_match_one (env_uuid_str env) f (row_stored r)" and wf: "filter_wf env f"
    and cons: "row_consistent env db r" and live: "live_row db c r" and law: "env_lawful env"
    and f: "f \<in> set fs"
    and acc: "\<forall>ch. row_channel r = Some ch \<longrightarrow> ch \<in> set accessible"
    and vis: "event_visible_to_reader (row_event r) reader"
  shows "sql_where db (history_query env c
    (extract_channel_id_from_filters (env_parse_uuid env) fs) accessible reader f) r"
proof -
  let ?ch = "per_filter_channel env (extract_channel_id_from_filters (env_parse_uuid env) fs) f"
  let ?q = "filter_to_query_params (env_from_ts env) f ?ch c"
  let ?q' = "apply_access_scope_to_query ?ch accessible ?q"
  have scope: "sql_scope ?q' r"
    using per_filter_channel_row [OF m cons law wf f] acc
    by (cases ?ch; cases "row_channel r")
      (simp_all add: sql_scope_def apply_access_scope_to_query_def query_params_fields)
  have clauses: "sql_from db ?q' r" "sql_identity ?q' r" "sql_tags ?q' r" "sql_window ?q' r"
    using match_from [OF m wf cons live] match_identity [OF m wf] match_tags [OF m cons]
      match_window [OF m wf law cons] cons
    by (simp_all add: apply_access_scope_to_query_def row_consistent_def)
  have none: "sql_persona ?q' r"
    by (simp add: apply_access_scope_to_query_def sql_persona_def query_params_fields)
  show ?thesis
    using scope clauses none visible_persona_clause [OF vis, of ?q']
    by (simp add: history_query_def Let_def sql_where_def)
qed

lemma history_query_nonempty:
  assumes "filter_match_one us f (row_stored r)"
  shows "\<not> matches_nothing (history_query env c channel accessible reader f)"
proof -
  have "f_kinds f \<noteq> Some []" "f_authors f \<noteq> Some []"
    using assms by (auto simp: filter_match_one_def split: if_splits)
  then show ?thesis
    by (auto simp: matches_nothing_def history_query_def Let_def apply_access_scope_to_query_def
        query_params_fields split_authors_def split: option.splits)
qed

section \<open>Completeness of delivery\<close>

definition history_rows ::
    "req_env \<Rightarrow> event_db \<Rightarrow> community_id \<Rightarrow> uuid option \<Rightarrow> uuid list \<Rightarrow> hex_string \<Rightarrow> event_filter \<Rightarrow> nat"
  where
  "history_rows env db c channel accessible reader f =
     length (filter (sql_where db (history_query env c channel accessible reader f)) (db_events db))"

definition below_limit ::
    "req_env \<Rightarrow> event_db \<Rightarrow> community_id \<Rightarrow> uuid option \<Rightarrow> uuid list \<Rightarrow> hex_string \<Rightarrow> event_filter \<Rightarrow> bool"
  where
  "below_limit env db c channel accessible reader f \<longleftrightarrow>
     int (history_rows env db c channel accessible reader f) \<le>
       min (case f_limit f of Some l \<Rightarrow> min (as_i64 l) MAX_HISTORICAL_LIMIT
            | None \<Rightarrow> MAX_HISTORICAL_LIMIT) 1000"

lemma history_query_paging:
  "q_before_id (history_query env c channel accessible reader f) = None"
  "q_global_only (history_query env c channel accessible reader f) = False"
  "q_offset (history_query env c channel accessible reader f) = None"
  "q_max_limit (history_query env c channel accessible reader f) = None"
  "q_limit (history_query env c channel accessible reader f) = Some (case f_limit f of
     Some l \<Rightarrow> min (as_i64 l) MAX_HISTORICAL_LIMIT | None \<Rightarrow> MAX_HISTORICAL_LIMIT)"
  by (simp_all add: history_query_def Let_def apply_access_scope_to_query_def query_params_fields)

lemma query_events_below_limit:
  assumes below: "below_limit env db c channel accessible reader f"
    and kinds: "\<forall>r \<in> set (db_events db). ev_kind (row_event r) \<le> 65535"
    and q: "q = history_query env c channel accessible reader f"
    and nm: "\<not> matches_nothing q"
  shows "query_events db q = Ok (map row_stored (newest_first (filter (sql_where db q) (db_events db))))"
proof -
  let ?rows = "newest_first (filter (sql_where db q) (db_events db))"
  define limit where "limit = min (unwrap_or 100 (q_limit q)) (unwrap_or 1000 (q_max_limit q))"
  have len: "int (length ?rows) \<le> limit"
    using below unfolding below_limit_def history_rows_def
    by (simp add: limit_def unwrap_or_def q history_query_paging newest_first_def)
  then have "take (nat limit) (drop (nat 0) ?rows) = ?rows" by simp
  moreover have "0 \<le> limit" using len by linarith
  moreover have "rows_to_stored_events ?rows = Ok (map row_stored ?rows)"
    using kinds rows_to_stored_events_total [of ?rows] by (simp add: row_stored_def)
  ultimately show ?thesis
    using nm history_query_paging(1-4) [of env c channel accessible reader f]
    by (simp add: query_events_def Let_def limit_def unwrap_or_def q)
qed

text \<open>Ids that were seen have been written; nothing written is lost.\<close>

definition seen_written :: "sub_id \<Rightarrow> hex_string list \<Rightarrow> conn_state \<Rightarrow> bool" where
  "seen_written sid seen conn \<longleftrightarrow>
     (\<forall>i \<in> set seen. \<exists>ev. ev_id ev = i \<and> EventMsg sid ev \<in> set (cn_out conn))"

lemma deliver_events_complete:
  assumes "\<forall>out. env_send_ok env out" and "seen_written sid seen conn"
  shows "\<exists>seen' conn'. deliver_events env sid f accessible reader evs seen conn = (True, seen', conn')
    \<and> seen_written sid seen' conn' \<and> set seen \<subseteq> set seen' \<and> cn_community conn' = cn_community conn
    \<and> (\<forall>st \<in> set evs. deliverable env f accessible reader st \<longrightarrow> ev_id (st_event st) \<in> set seen')"
  using assms(2)
proof (induction evs arbitrary: seen conn)
  case Nil
  then show ?case by simp
next
  case (Cons st evs)
  let ?i = "ev_id (st_event st)" and ?conn = "conn\<lparr>cn_out := cn_out conn @ [EventMsg sid (st_event st)]\<rparr>"
  show ?case
  proof (cases "deliverable env f accessible reader st \<and> ?i \<notin> set seen")
    case True
    have "seen_written sid (?i # seen) ?conn"
      using Cons.prems by (auto simp: seen_written_def)
    from Cons.IH [OF this] True assms(1) show ?thesis
      by (auto simp: conn_send_def)
  next
    case False
    then show ?thesis using Cons.IH [OF Cons.prems] by auto
  qed
qed

lemma conn_say_seen: "seen_written sid seen conn \<Longrightarrow> seen_written sid seen (conn_say env m conn)"
  by (auto simp: seen_written_def conn_say_def conn_send_def)

lemma deliver_filters_complete:
  assumes ok: "\<forall>out. env_send_ok env out"
    and kinds: "\<forall>r \<in> set (db_events db). ev_kind (row_event r) \<le> 65535"
    and below: "\<forall>f \<in> set gs. below_limit env db c channel accessible reader f"
    and c: "cn_community conn = c" and seen: "seen_written sid seen conn"
  shows "\<exists>seen'. seen_written sid seen'
      (deliver_filters env db sid channel accessible reader gs seen conn) \<and> set seen \<subseteq> set seen' \<and>
    (\<forall>f \<in> set gs. \<forall>r \<in> set (db_events db).
       sql_where db (history_query env c channel accessible reader f) r \<longrightarrow>
       deliverable env f accessible reader (row_stored r) \<longrightarrow> ev_id (row_event r) \<in> set seen')"
  using below c seen
proof (induction gs arbitrary: seen conn)
  case Nil
  then show ?case by (auto intro!: exI [of _ seen] conn_say_seen)
next
  case (Cons f gs)
  let ?q = "history_query env c channel accessible reader f"
  obtain evs where evs: "query_events db ?q = Ok evs"
    and hit: "\<forall>r \<in> set (db_events db). sql_where db ?q r \<longrightarrow> \<not> matches_nothing ?q \<longrightarrow> row_stored r \<in> set evs"
  proof (cases "matches_nothing ?q")
    case True
    then have "query_events db ?q = Ok []"
      using history_query_paging [of env c channel accessible reader f]
      by (simp add: query_events_def)
    with True that show ?thesis by blast
  next
    case False
    with query_events_below_limit [OF _ kinds refl False] Cons.prems(1) that show ?thesis
      by auto
  qed
  obtain seen1 conn1 where d: "deliver_events env sid f accessible reader evs seen conn
      = (True, seen1, conn1)" and s1: "seen_written sid seen1 conn1" "set seen \<subseteq> set seen1"
    and c1: "cn_community conn1 = c"
    and all: "\<forall>st \<in> set evs. deliverable env f accessible reader st \<longrightarrow> ev_id (st_event st) \<in> set seen1"
    using deliver_events_complete [OF ok Cons.prems(3), of f accessible reader evs] Cons.prems(2)
    by auto
  from Cons.IH [OF _ c1 s1(1)] Cons.prems(1) obtain seen2 where s2:
    "seen_written sid seen2 (deliver_filters env db sid channel accessible reader gs seen1 conn1)"
    "set seen1 \<subseteq> set seen2"
    "\<forall>f \<in> set gs. \<forall>r \<in> set (db_events db).
       sql_where db (history_query env c channel accessible reader f) r \<longrightarrow>
       deliverable env f accessible reader (row_stored r) \<longrightarrow> ev_id (row_event r) \<in> set seen2"
    by auto
  have "ev_id (row_event r) \<in> set seen2"
    if "r \<in> set (db_events db)" "sql_where db ?q r" "deliverable env f accessible reader (row_stored r)"
    for r
  proof -
    have "\<not> matches_nothing ?q"
      using that(3) history_query_nonempty [of "env_uuid_str env" f r]
      by (simp add: deliverable_iff)
    with hit that(1,2) have "row_stored r \<in> set evs" by blast
    with all that(3) s2(2) show ?thesis by force
  qed
  with s1 s2 show ?case
    using evs d Cons.prems(2) by (auto intro!: exI [of _ seen2])
qed


section \<open>A concrete request\<close>

definition sample_env :: req_env where
  "sample_env =
     \<lparr>env_parse_uuid = (\<lambda>s. Some (length s)), env_uuid_str = (\<lambda>i. replicate i CHR ''x''),
      env_from_ts = Some, env_accessible = (\<lambda>c pk. Some [2]), env_is_member = (\<lambda>c ch pk. None),
      env_search = (\<lambda>q. None), env_send_ok = (\<lambda>out. True)\<rparr>"

definition sample_event :: event where
  "sample_event =
     \<lparr>ev_id = replicate 64 CHR ''a'', ev_pubkey = ''bb'', ev_created_at = 5, ev_kind = 9,
      ev_tags = [[''h'', ''xx'']], ev_content = ''hi''\<rparr>"

definition sample_row :: event_row where
  "sample_row =
     \<lparr>row_community = 4, row_event = sample_event, row_received_at = 6, row_channel = Some 2,
      row_deleted = False, row_d_tag = None, row_not_before = None\<rparr>"

definition sample_db :: event_db where
  "sample_db = \<lparr>db_events = [sample_row], db_mentions = []\<rparr>"

definition sample_conn :: conn_state where
  "sample_conn =
     \<lparr>cn_id = 3, cn_community = 4,
      cn_auth = Authenticated \<lparr>ax_pubkey = ''cc'', ax_scopes = [], ax_channel_ids = None,
        ax_auth_method = Nip42, ax_agent_owner_pubkey = None\<rparr>,
      cn_subscriptions = [], cn_out = []\<rparr>"

definition kind9_filter :: event_filter where
  "kind9_filter =
     \<lparr>f_ids = None, f_authors = None, f_kinds = Some [9], f_since = None, f_until = None,
      f_generic_tags = [], f_limit = None, f_search = None\<rparr>"

lemmas sample_defs = sample_env_def sample_event_def sample_row_def sample_db_def sample_conn_def
  kind9_filter_def

lemma sample_match: "filter_match_one (env_uuid_str sample_env) kind9_filter (row_stored sample_row)"
  by (simp add: filter_match_one_def sample_defs)

lemma sample_visible: "event_visible_to_reader sample_event ''cc''"
  by (simp add: sample_defs event_visible_to_reader_def is_author_only_event_def
      is_unshared_persona_event_def is_persona_shared_kind_def reader_authorized_for_event_def
      AUTHOR_ONLY_KINDS_def kind_consts)

lemma sample_row_consistent: "row_consistent sample_env sample_db sample_row"
  by (simp add: row_consistent_def sample_defs has_tag_value_def extract_d_tag_def
      is_parameterized_replaceable_def kind_consts)

lemma sample_below: "below_limit sample_env sample_db 4 None [2] ''cc'' kind9_filter"
proof -
  have "history_rows sample_env sample_db 4 None [2] ''cc'' kind9_filter \<le> length (db_events sample_db)"
    by (simp add: history_rows_def)
  then show ?thesis
    by (simp add: below_limit_def sample_db_def kind9_filter_def MAX_HISTORICAL_LIMIT_def)
qed

lemma sample_may_deliver:
  "may_deliver sample_env sample_db 4 [kind9_filter] [2] ''cc'' sample_event"
  using sample_match sample_visible
  by (auto simp: may_deliver_def live_row_def sample_db_def sample_row_def
      intro!: exI [of _ sample_row])


definition sample_state :: req_state where
  "sample_state = \<lparr>rq_conn = sample_conn, rq_registry = registry_new, rq_topics = []\<rparr>"


lemma sample_admit:
  "req_admit sample_env sample_conn ''s'' [kind9_filter] = Ok (''cc'', None, None, [2])"
  by (simp add: req_admit_def req_auth_def req_accessible_def req_channel_access_def req_gates_def
      filters_are_nip43_membership_only_def extract_channel_id_from_filters_def ok_or_def
      token_allows_channel_def p_gated_filters_authorized_def p_gated_filter_authorized_def
      engram_filters_authorized_def author_only_filters_authorized_def sample_env_def
      sample_conn_def kind9_filter_def P_GATED_KINDS_def AUTHOR_ONLY_KINDS_def kind_consts
      hm_contains_def MAX_SUBSCRIPTIONS_def)

lemma sample_query:
  "query_events sample_db (history_query sample_env 4 None [2] ''cc'' kind9_filter)
     = Ok [row_stored sample_row]"
proof -
  let ?q = "history_query sample_env 4 None [2] ''cc'' kind9_filter"
  have nm: "\<not> matches_nothing ?q" by (rule history_query_nonempty [OF sample_match])
  have "sql_where sample_db (history_query sample_env 4
      (extract_channel_id_from_filters (env_parse_uuid sample_env) [kind9_filter]) [2] ''cc''
      kind9_filter) sample_row"
    using sample_visible
    by (intro history_query_complete sample_match sample_row_consistent)
      (simp_all add: filter_wf_def kind9_filter_def live_row_def sample_db_def sample_row_def
        env_lawful_def sample_env_def)
  moreover have "extract_channel_id_from_filters (env_parse_uuid sample_env) [kind9_filter] = None"
    by (simp add: extract_channel_id_from_filters_def kind9_filter_def)
  ultimately have rows: "filter (sql_where sample_db ?q) (db_events sample_db) = [sample_row]"
    by (simp add: sample_db_def)
  have "\<forall>r \<in> set (db_events sample_db). ev_kind (row_event r) \<le> 65535"
    by (simp add: sample_db_def sample_row_def sample_event_def)
  from query_events_below_limit [OF sample_below this refl nm] show ?thesis
    unfolding rows by (simp add: newest_first_def)
qed

lemma req_delivers_only_authorized_witness:
  "\<exists>ctx r f. cn_auth sample_conn = Authenticated ctx
    \<and> live_row sample_db 4 r \<and> row_event r = sample_event \<and> f \<in> set [kind9_filter]
    \<and> filter_match_one (env_uuid_str sample_env) f (row_stored r)
    \<and> event_visible_to_reader sample_event (ax_pubkey ctx)
    \<and> (\<forall>ch. row_channel r = Some ch \<longrightarrow> may_read_channel sample_env 4
         (ax_pubkey ctx) (ax_channel_ids ctx) ch)"
proof -
  have c: "cn_community sample_conn = 4" "cn_out sample_conn = []" "rq_conn sample_state = sample_conn"
    by (simp_all add: sample_conn_def sample_state_def)
  have del: "deliverable sample_env kind9_filter [2] ''cc'' (row_stored sample_row)"
    using sample_match sample_visible by (simp add: deliverable_iff) (simp add: sample_row_def)
  have ev: "row_event sample_row = sample_event" by (simp add: sample_row_def)
  have nosearch: "\<not> list_ex (\<lambda>f. f_search f \<noteq> None) [kind9_filter]"
    by (simp add: kind9_filter_def)
  have send: "\<forall>out. env_send_ok sample_env out" by (simp add: sample_env_def)
  have "EventMsg ''s'' sample_event \<in>
      set (cn_out (rq_conn (handle_req sample_env sample_db ''s'' [kind9_filter] sample_state)))"
    using nosearch send del
    by (simp add: handle_req_def sample_admit c register_request_def Let_def split_def sample_query
        conn_send_def conn_say_def ev)
  moreover have "EventMsg ''s'' sample_event \<notin> set (cn_out (rq_conn sample_state))"
    by (simp add: c)
  ultimately show ?thesis
    using req_delivers_only_authorized [of "''s''" sample_event sample_env sample_db "''s''"
        "[kind9_filter]" sample_state]
    unfolding c by blast
qed

end
