(* ===== verification/Count.thy ===== *)
theory Count
  imports Pushdown
begin

text \<open>
  The COUNT handler, \<open>crates/buzz-relay/src/handlers/count.rs\<close>, with the push-down test and the
  candidate budget of \<open>handlers/req.rs\<close>. A filter is counted by one SQL aggregate when that is
  exact and leaks nothing, and otherwise by fetching a bounded candidate page and filtering it.
\<close>

section \<open>Push-down test and candidate budget\<close>

definition tag_entry_pushable :: "bool \<Rightarrow> string \<times> string list \<Rightarrow> bool" where
  "tag_entry_pushable is_nip33_only entry =
     (case entry of (key, values) \<Rightarrow>
        if key = ''h'' then \<not> 1 < length values
        else if key = ''p'' then \<not> 1 < length values
        else if key = ''d'' then \<not> (values \<noteq> [] \<and> \<not> is_nip33_only)
        else if key = ''e'' then True
        else values = [])"

definition filter_fully_pushable :: "event_filter \<Rightarrow> bool" where
  "filter_fully_pushable f =
     (if \<not> list_all (tag_entry_pushable (filter_is_nip33_only (f_kinds f))) (f_generic_tags f)
      then False
      else if f_search f \<noteq> None then False
      else True)"

definition COUNT_FALLBACK_CANDIDATE_LIMIT :: nat where
  "COUNT_FALLBACK_CANDIDATE_LIMIT = 5000"

definition apply_count_fallback_limit :: "event_query \<Rightarrow> event_query" where
  "apply_count_fallback_limit q =
     (let fetch_limit = int COUNT_FALLBACK_CANDIDATE_LIMIT + 1
      in q\<lparr>q_limit := Some fetch_limit, q_max_limit := Some fetch_limit\<rparr>)"

definition count_fallback_exceeded :: "nat \<Rightarrow> bool" where
  "count_fallback_exceeded n = (COUNT_FALLBACK_CANDIDATE_LIMIT < n)"

section \<open>One filter\<close>

definition count_fast_path :: "event_filter \<Rightarrow> hex_string \<Rightarrow> bool" where
  "count_fast_path f authed =
     (let needs_author_only_filtering = filter_can_match_author_only_kinds f;
          needs_persona_filtering = filter_can_match_persona_shared_kinds f;
          needs_result_gated_filtering =
            filter_can_match_result_gated_kinds f \<and> \<not> result_gated_count_safe_for_pushdown f authed;
          author_is_self = authors_are_self f authed
      in filter_fully_pushable f \<and> (\<not> needs_author_only_filtering \<or> author_is_self)
         \<and> \<not> needs_result_gated_filtering \<and> \<not> needs_persona_filtering)"

definition count_post_filter ::
    "req_env \<Rightarrow> event_filter \<Rightarrow> hex_string \<Rightarrow> stored_event list \<Rightarrow> nat" where
  "count_post_filter env f authed stored =
     length (filter (\<lambda>se. filters_match (env_uuid_str env) [f] se
       \<and> event_visible_to_reader (st_event se) authed) stored)"

definition count_query ::
    "req_env \<Rightarrow> event_db \<Rightarrow> sub_id \<Rightarrow> event_filter \<Rightarrow> hex_string \<Rightarrow> event_query
     \<Rightarrow> (relay_msg list, nat) result" where
  "count_query env db sid f authed q =
     (if count_fast_path f authed then Ok (count_events db q)
      else
        (case query_events db (apply_count_fallback_limit q) of
           Err _ \<Rightarrow> Err [ClosedMsg sid ''error'']
         | Ok stored \<Rightarrow>
             if count_fallback_exceeded (length stored)
             then Err [ClosedMsg sid ''restricted: count filter requires narrower constraints'']
             else Ok (count_post_filter env f authed stored)))"

definition count_persona :: "event_filter \<Rightarrow> hex_string \<Rightarrow> event_query \<Rightarrow> event_query" where
  "count_persona f authed q =
     (if filter_can_match_persona_shared_kinds f then q\<lparr>q_persona_reader := Some authed\<rparr> else q)"

text \<open>The body of the loop: what this filter adds, and the repaired access vector.\<close>

definition count_filter ::
    "req_env \<Rightarrow> event_db \<Rightarrow> community_id \<Rightarrow> sub_id \<Rightarrow> hex_string \<Rightarrow> uuid list option \<Rightarrow> event_filter
     \<Rightarrow> uuid list \<Rightarrow> (relay_msg list, nat \<times> uuid list) result" where
  "count_filter env db c sid authed token f accessible =
     (let q = build_event_query_from_filter env f c in
      case extract_channel_from_filter (env_parse_uuid env) f of
        Some ch \<Rightarrow>
          bind_result
            (if ch \<in> set accessible then Ok None
             else (case env_is_member env c ch authed of
                     Some m \<Rightarrow> Ok (Some m)
                   | None \<Rightarrow> Err [ClosedMsg sid ''error: database error'']))
            (\<lambda>db_is_member.
               let (ok, accessible') =
                 resolve_request_local_access accessible ch (token_allows_channel token ch) db_is_member
               in if \<not> ok then Ok (0, accessible')
                  else bind_result (count_query env db sid f authed (count_persona f authed q))
                         (\<lambda>n. Ok (n, accessible')))
      | None \<Rightarrow>
          bind_result (count_query env db sid f authed
              (count_persona f authed (q\<lparr>q_channel_ids := Some accessible\<rparr>)))
            (\<lambda>n. Ok (n, accessible)))"

fun count_filters ::
    "req_env \<Rightarrow> event_db \<Rightarrow> community_id \<Rightarrow> sub_id \<Rightarrow> hex_string \<Rightarrow> uuid list option
     \<Rightarrow> event_filter list \<Rightarrow> uuid list \<Rightarrow> nat \<Rightarrow> (relay_msg list, nat) result" where
  "count_filters env db c sid authed token [] accessible acc = Ok acc"
| "count_filters env db c sid authed token (f # fs) accessible acc =
     bind_result (count_filter env db c sid authed token f accessible)
       (\<lambda>(n, accessible'). count_filters env db c sid authed token fs accessible' (acc + n))"

definition count_admit ::
    "req_env \<Rightarrow> conn_state \<Rightarrow> sub_id \<Rightarrow> event_filter list
     \<Rightarrow> (relay_msg list, hex_string \<times> uuid list option \<times> uuid list) result" where
  "count_admit env conn sid fs =
     (case cn_auth conn of
        Authenticated ctx \<Rightarrow>
          (let authed = ax_pubkey ctx; token = ax_channel_ids ctx in
           if \<not> p_gated_filters_authorized fs authed
           then Err [ClosedMsg sid ''restricted: p-gated kinds require #p tag matching your pubkey'']
           else if \<not> engram_filters_authorized fs authed
           then Err [ClosedMsg sid ''restricted: agent-engram reads require authors=[self] or #p=[self]'']
           else if \<not> author_only_filters_authorized fs authed
           then Err [ClosedMsg sid ''restricted: author-only kinds require authors=[self]'']
           else (case env_accessible env (cn_community conn) authed of
                   None \<Rightarrow> Err [ClosedMsg sid ''error: database error'']
                 | Some ids \<Rightarrow> Ok (authed, token, filter (token_allows_channel token) ids)))
      | _ \<Rightarrow> Err [ClosedMsg sid ''auth-required: not authenticated''])"

definition handle_count ::
    "req_env \<Rightarrow> event_db \<Rightarrow> sub_id \<Rightarrow> event_filter list \<Rightarrow> conn_state \<Rightarrow> conn_state" where
  "handle_count env db sid fs conn =
     (case bind_result (count_admit env conn sid fs)
             (\<lambda>(authed, token, accessible).
                count_filters env db (cn_community conn) sid authed token fs accessible 0) of
        Err ms \<Rightarrow> fold (conn_say env) ms conn
      | Ok n \<Rightarrow> conn_say env (CountMsg sid n) conn)"

section \<open>The fast path leaks nothing\<close>

text \<open>What ingest guarantees of the mention index: an entry stands for a \<open>p\<close> tag.\<close>

definition mentions_sound :: "event_db \<Rightarrow> bool" where
  "mentions_sound db \<longleftrightarrow>
     (\<forall>r \<in> set (db_events db). \<forall>x. (row_community r, x, ev_id (row_event r)) \<in> set (db_mentions db)
        \<longrightarrow> has_tag_value (row_event r) ''p'' x)"

definition authors_lowercase :: "event_filter \<Rightarrow> bool" where
  "authors_lowercase f \<longleftrightarrow> (\<forall>as \<in> set_option (f_authors f). list_all ascii_lowercase as)"

lemma count_fast_path_visible:
  assumes fast: "count_fast_path f reader" and lower: "ascii_lowercase reader" "authors_lowercase f"
    and sound: "mentions_sound db" and live: "live_row db c r"
    and q: "sql_from db q r" "sql_identity q r" and qc: "q_community_id q = c"
    and pub: "q_pubkey q = fst (split_authors (f_authors f))"
    and auth: "q_authors q = snd (split_authors (f_authors f))"
    and kinds: "q_kinds q = f_kinds f" and nonempty: "f_kinds f \<noteq> Some []"
    and p: "q_p_tag_hex q = (case map_of (f_generic_tags f) ''p'' of
              Some values \<Rightarrow> if length values = 1 then Some (hd values) else None | None \<Rightarrow> None)"
  shows "event_visible_to_reader (row_event r) reader"
proof -
  let ?ev = "row_event r"
  obtain ks where ks: "f_kinds f = Some ks"
    using fast by (cases "f_kinds f")
      (auto simp: count_fast_path_def filter_can_match_persona_shared_kinds_def)
  have kind: "ev_kind ?ev \<in> set ks"
    using q(2) kinds nonempty ks by (simp add: sql_identity_def)
  have persona: "ev_kind ?ev \<noteq> KIND_PERSONA"
    using fast ks kind
    by (auto simp: count_fast_path_def Let_def filter_can_match_persona_shared_kinds_def list_ex_iff)
  have "ev_pubkey ?ev = reader" if "ev_kind ?ev \<in> set AUTHOR_ONLY_KINDS"
  proof -
    have "filter_can_match_author_only_kinds f"
      using ks kind that by (auto simp: filter_can_match_author_only_kinds_def list_ex_iff)
    with fast obtain as where as: "f_authors f = Some as" "as \<noteq> []"
        "list_all (\<lambda>a. eq_ignore_ascii_case a reader) as"
      by (auto simp: count_fast_path_def Let_def authors_are_self_def is_some_and_iff)
    then have all: "\<forall>a \<in> set as. a = reader"
      using lower by (auto simp: list_all_iff authors_lowercase_def eq_ignore_ascii_case_lowercase)
    have "ev_pubkey ?ev \<in> set as"
      using q(2) pub auth as(1,2)
      by (cases "length as = 1")
        (auto simp: sql_identity_def split_authors_def length_Suc_conv)
    with all show ?thesis by blast
  qed
  moreover have "has_tag_value ?ev ''p'' reader" if "ev_kind ?ev \<in> set RESULT_GATED_KINDS"
  proof -
    have "filter_can_match_result_gated_kinds f"
      using ks kind that by (auto simp: filter_can_match_result_gated_kinds_def list_ex_iff)
    with fast obtain vs where vs: "map_of (f_generic_tags f) ''p'' = Some vs" "vs \<noteq> []"
        "\<forall>v \<in> set vs. v = reader"
      by (auto simp: count_fast_path_def Let_def result_gated_count_safe_for_pushdown_def
          p_values_are_self_def is_some_and_iff list_all_iff)
    have "tag_entry_pushable (filter_is_nip33_only (f_kinds f)) (''p'', vs)"
      using fast map_of_SomeD [OF vs(1)]
      by (auto simp: count_fast_path_def Let_def filter_fully_pushable_def list_all_iff
          split: if_splits)
    then have "vs = [reader]"
      using vs(2,3) by (cases vs; cases "tl vs") (auto simp: tag_entry_pushable_def)
    then have "(c, ascii_lower reader, ev_id ?ev) \<in> set (db_mentions db)"
      using q(1) qc p vs(1) by (simp add: sql_from_def)
    then show ?thesis
      using sound live lower(1)
      by (auto simp: mentions_sound_def live_row_def ascii_lowercase_def)
  qed
  ultimately show ?thesis
    using persona by (auto simp: event_visible_to_reader_def is_author_only_event_def
        is_unshared_persona_event_def is_persona_shared_kind_def reader_authorized_for_event_def
        RESULT_GATED_KINDS_def)
qed

section \<open>Counts are bounded by what the reader may see\<close>

definition countable_rows ::
    "event_db \<Rightarrow> community_id \<Rightarrow> hex_string \<Rightarrow> (uuid \<Rightarrow> bool) \<Rightarrow> event_row list" where
  "countable_rows db c reader may_read =
     filter (\<lambda>r. live_row db c r \<and> event_visible_to_reader (row_event r) reader \<and>
       (\<forall>ch. row_channel r = Some ch \<longrightarrow> may_read ch)) (db_events db)"

lemma length_filter_mono:
  "\<forall>x \<in> set xs. p x \<longrightarrow> p' x \<Longrightarrow> length (filter p xs) \<le> length (filter p' xs)"
  by (induction xs) auto

lemma length_filter_sort [simp]: "length (newest_first rs) = length rs"
  by (simp add: newest_first_def)

definition count_ready ::
    "req_env \<Rightarrow> event_db \<Rightarrow> community_id \<Rightarrow> hex_string \<Rightarrow> (uuid \<Rightarrow> bool) \<Rightarrow> event_filter \<Rightarrow> event_query \<Rightarrow> bool"
  where
  "count_ready env db c reader may_read f q \<longleftrightarrow>
     (\<exists>ch. q = count_persona f reader (build_event_query_from_filter env f c) \<and>
        extract_channel_id_from_filter (env_parse_uuid env) f = Some ch \<and> may_read ch) \<or>
     (\<exists>chs. q = count_persona f reader
          ((build_event_query_from_filter env f c)\<lparr>q_channel_ids := Some chs\<rparr>) \<and>
        (\<forall>ch \<in> set chs. may_read ch))"

lemma count_persona_fields [simp]:
  "q_community_id (count_persona f reader q) = q_community_id q"
  "q_pubkey (count_persona f reader q) = q_pubkey q"
  "q_authors (count_persona f reader q) = q_authors q"
  "q_kinds (count_persona f reader q) = q_kinds q"
  "q_p_tag_hex (count_persona f reader q) = q_p_tag_hex q"
  "q_channel_id (count_persona f reader q) = q_channel_id q"
  "q_channel_ids (count_persona f reader q) = q_channel_ids q"
  "sql_scope (count_persona f reader q) r = sql_scope q r"
  by (simp_all add: count_persona_def)

lemma build_query_fields [simp]:
  "q_community_id (build_event_query_from_filter env f c) = c"
  "q_pubkey (build_event_query_from_filter env f c) = fst (split_authors (f_authors f))"
  "q_authors (build_event_query_from_filter env f c) = snd (split_authors (f_authors f))"
  "q_kinds (build_event_query_from_filter env f c) = f_kinds f"
  "q_p_tag_hex (build_event_query_from_filter env f c) = (case map_of (f_generic_tags f) ''p'' of
     Some values \<Rightarrow> if length values = 1 then Some (hd values) else None | None \<Rightarrow> None)"
  "q_channel_id (build_event_query_from_filter env f c)
     = extract_channel_id_from_filter (env_parse_uuid env) f"
  by (simp_all add: build_event_query_from_filter_def filter_to_query_params_def for_community_def)

lemma count_ready_scope:
  assumes "count_ready env db c reader may_read f q" and "sql_scope q r"
    and "row_channel r = Some ch"
  shows "may_read ch"
  using assms by (auto simp: count_ready_def sql_scope_def simp del: count_persona_fields(8))

lemma count_ready_community: "count_ready env db c reader may_read f q \<Longrightarrow> q_community_id q = c"
  by (auto simp: count_ready_def)

lemma count_query_bound:
  assumes ready: "count_ready env db c reader may_read f q"
    and lower: "ascii_lowercase reader" "authors_lowercase f" and sound: "mentions_sound db"
    and res: "count_query env db sid f reader q = Ok n"
  shows "n \<le> length (countable_rows db c reader may_read)"
proof (cases "count_fast_path f reader")
  case True
  with res have n: "n = count_events db q" by (simp add: count_query_def)
  show ?thesis
  proof (cases "matches_nothing q")
    case True
    with n show ?thesis by (simp add: count_events_def)
  next
    case False
    have fields: "q_community_id q = c" "q_pubkey q = fst (split_authors (f_authors f))"
      "q_authors q = snd (split_authors (f_authors f))" "q_kinds q = f_kinds f"
      "q_p_tag_hex q = (case map_of (f_generic_tags f) ''p'' of
         Some values \<Rightarrow> if length values = 1 then Some (hd values) else None | None \<Rightarrow> None)"
      using ready by (auto simp: count_ready_def)
    have "\<forall>r \<in> set (db_events db). count_where db q r \<longrightarrow>
        live_row db c r \<and> event_visible_to_reader (row_event r) reader \<and>
        (\<forall>ch. row_channel r = Some ch \<longrightarrow> may_read ch)"
    proof (intro ballI impI)
      fix r assume r: "r \<in> set (db_events db)" and w: "count_where db q r"
      have live: "live_row db c r"
        using r w fields(1) by (simp add: live_row_def count_where_def sql_from_def)
      have "f_kinds f \<noteq> Some []" using False fields(4) by (simp add: matches_nothing_def)
      then have "event_visible_to_reader (row_event r) reader"
        using w fields by (intro count_fast_path_visible [OF True lower sound live])
          (simp_all add: count_where_def)
      moreover have "\<forall>ch. row_channel r = Some ch \<longrightarrow> may_read ch"
        using count_ready_scope [OF ready] w by (auto simp: count_where_def)
      ultimately show "live_row db c r \<and> event_visible_to_reader (row_event r) reader \<and>
        (\<forall>ch. row_channel r = Some ch \<longrightarrow> may_read ch)" using live by blast
    qed
    from length_filter_mono [OF this] n False show ?thesis
      by (simp add: count_events_def countable_rows_def)
  qed
next
  case False
  let ?q = "apply_count_fallback_limit q"
  have scope: "sql_scope ?q r = sql_scope q r" "sql_from db ?q r = sql_from db q r"
    "q_community_id ?q = q_community_id q" for r
    by (simp_all add: apply_count_fallback_limit_def Let_def sql_scope_def sql_from_def
        cong: option.case_cong)
  from False res obtain stored where st: "query_events db ?q = Ok stored"
    and n: "n = count_post_filter env f reader stored"
    by (auto simp: count_query_def split: result.splits if_splits)
  show ?thesis
  proof (cases "matches_nothing ?q")
    case True
    with st have "stored = []" by (auto simp: query_events_def split: if_splits)
    with n show ?thesis by (simp add: count_post_filter_def)
  next
    case False
    with st obtain l k where rows: "rows_to_stored_events
        (take l (drop k (newest_first (filter (sql_where db ?q) (db_events db))))) = Ok stored"
      by (auto simp: query_events_def Let_def split: if_splits)
    let ?rs = "newest_first (filter (sql_where db ?q) (db_events db))"
    let ?p = "\<lambda>r. event_visible_to_reader (row_event r) reader"
    have "stored = map row_stored (take l (drop k ?rs))"
      using rows_to_stored_events_Ok [OF rows] by (simp add: row_stored_def)
    then have "n \<le> length (filter ?p (take l (drop k ?rs)))"
      unfolding n count_post_filter_def
      by (auto simp: filter_map comp_def intro!: length_filter_mono)
    also have "\<dots> \<le> length (filter ?p ?rs)"
      by (metis append_take_drop_id filter_append le_add1 le_add2 le_trans length_append)
    also have "\<dots> = length (filter ?p (filter (sql_where db ?q) (db_events db)))"
      by (metis length_filter_sort newest_first_def filter_sort)
    also have "\<dots> \<le> length (countable_rows db c reader may_read)"
      using count_ready_scope [OF ready] count_ready_community [OF ready]
      by (auto simp: countable_rows_def filter_filter live_row_def sql_where_def scope sql_from_def
          intro!: length_filter_mono)
    finally show ?thesis .
  qed
qed

lemma single_h_is_first:
  "extract_channel_from_filter pu f = Some ch \<Longrightarrow> extract_channel_id_from_filter pu f = Some ch"
proof -
  have first: "map_of tags ''h'' = Some vs \<Longrightarrow>
      \<exists>rest. concat (map snd (filter (\<lambda>(key, _). key = ''h'') tags)) = vs @ rest"
    for tags :: "(string \<times> string list) list" and vs
    by (induction tags) (auto split: if_splits)
  assume "extract_channel_from_filter pu f = Some ch"
  then obtain v where "map_of (f_generic_tags f) ''h'' = Some [v]" "pu v = Some ch"
    by (auto simp: extract_channel_from_filter_def split: option.splits list.splits)
  with first [of "f_generic_tags f" "[v]"] show ?thesis
    by (auto simp: extract_channel_id_from_filter_def h_channels_def List.map_filter_simps)
qed

lemma count_filter_bound:
  assumes acc: "\<forall>ch \<in> set accessible. may_read_channel env c reader token ch"
    and lower: "ascii_lowercase reader" "authors_lowercase f" and sound: "mentions_sound db"
    and res: "count_filter env db c sid reader token f accessible = Ok (n, accessible')"
  shows "n \<le> length (countable_rows db c reader (may_read_channel env c reader token))
    \<and> (\<forall>ch \<in> set accessible'. may_read_channel env c reader token ch)"
proof (cases "extract_channel_from_filter (env_parse_uuid env) f")
  case None
  let ?q = "count_persona f reader ((build_event_query_from_filter env f c)\<lparr>q_channel_ids := Some accessible\<rparr>)"
  from None res have "count_query env db sid f reader ?q = Ok n" "accessible' = accessible"
    by (auto simp: count_filter_def Let_def result_simps)
  moreover have "count_ready env db c reader (may_read_channel env c reader token) f ?q"
    using acc by (auto simp: count_ready_def)
  ultimately show ?thesis
    using acc count_query_bound [OF _ lower sound] by blast
next
  case (Some ch)
  let ?q = "count_persona f reader (build_event_query_from_filter env f c)"
  from res Some obtain m b acc' where r: "resolve_request_local_access accessible ch
        (token_allows_channel token ch) m = (b, acc')"
    and m: "m = None \<or> m = env_is_member env c ch reader"
    and rest: "if \<not> b then n = 0 \<and> accessible' = acc'
      else count_query env db sid f reader ?q = Ok n \<and> accessible' = acc'"
    by (cases "resolve_request_local_access accessible ch (token_allows_channel token ch)
          (if ch \<in> set accessible then None else env_is_member env c ch reader)")
      (auto simp: count_filter_def Let_def result_simps split: if_splits option.splits)
  show ?thesis
  proof (cases b)
    case False
    with r have "acc' = accessible"
      by (auto simp: resolve_request_local_access_def split: if_splits option.splits bool.splits)
    with rest False acc show ?thesis by simp
  next
    case True
    with resolve_request_local_access_granted [of accessible ch "token_allows_channel token ch" m acc'] r
    have "token_allows_channel token ch" "set acc' \<subseteq> insert ch (set accessible)"
      "ch \<in> set accessible \<or> m = Some True" by auto
    with m acc have ch: "may_read_channel env c reader token ch"
      and acc': "\<forall>ch \<in> set acc'. may_read_channel env c reader token ch"
      by (auto simp: may_read_channel_def)
    have "count_ready env db c reader (may_read_channel env c reader token) f ?q"
      using ch single_h_is_first [OF Some] by (auto simp: count_ready_def)
    with rest True acc' show ?thesis
      using count_query_bound [OF _ lower sound] by auto
  qed
qed

lemma count_filters_bound:
  assumes "\<forall>ch \<in> set accessible. may_read_channel env c reader token ch"
    and "ascii_lowercase reader" and "mentions_sound db" and "\<forall>f \<in> set fs. authors_lowercase f"
    and "count_filters env db c sid reader token fs accessible acc = Ok n"
  shows "n \<le> acc + length fs * length (countable_rows db c reader (may_read_channel env c reader token))"
  using assms(1,4,5)
proof (induction fs arbitrary: accessible acc)
  case Nil
  then show ?case by simp
next
  case (Cons f fs)
  then obtain k accessible' where k: "count_filter env db c sid reader token f accessible = Ok (k, accessible')"
    and rest: "count_filters env db c sid reader token fs accessible' (acc + k) = Ok n"
    by (auto simp: result_simps)
  from count_filter_bound [OF Cons.prems(1) assms(2) _ assms(3) k] Cons.prems(2)
  have b: "k \<le> length (countable_rows db c reader (may_read_channel env c reader token))"
    and "\<forall>ch \<in> set accessible'. may_read_channel env c reader token ch" by auto
  from Cons.IH [OF this(2) _ rest] Cons.prems(2) b show ?case by simp
qed

section \<open>Properties\<close>


lemma sample_fast: "count_fast_path kind9_filter ''cc''"
  by (simp add: count_fast_path_def kind9_filter_def filter_fully_pushable_def
      filter_can_match_author_only_kinds_def filter_can_match_persona_shared_kinds_def
      filter_can_match_result_gated_kinds_def AUTHOR_ONLY_KINDS_def RESULT_GATED_KINDS_def kind_consts)

lemma sample_count_filter:
  "count_filter sample_env sample_db 4 ''s'' ''cc'' None kind9_filter [2] = Ok (1, [2])"
  using sample_fast
  by (simp add: count_filter_def extract_channel_from_filter_def Let_def count_query_def
      count_events_def matches_nothing_def count_persona_def
      filter_can_match_persona_shared_kinds_def build_event_query_from_filter_def
      filter_to_query_params_def for_community_def extract_channel_id_from_filter_def
      h_channels_def List.map_filter_simps split_authors_def split_d_tags_def count_where_def
      sql_where_defs sample_defs kind_consts)

lemma sample_count:
  "handle_count sample_env sample_db ''s'' [kind9_filter] sample_conn
     = conn_say sample_env (CountMsg ''s'' 1) sample_conn"
proof -
  have "count_admit sample_env sample_conn ''s'' [kind9_filter] = Ok (''cc'', None, [2])"
    by (simp add: count_admit_def p_gated_filters_authorized_def p_gated_filter_authorized_def
        engram_filters_authorized_def author_only_filters_authorized_def sample_env_def
        token_allows_channel_def sample_conn_def kind9_filter_def P_GATED_KINDS_def
        AUTHOR_ONLY_KINDS_def kind_consts)
  moreover have "cn_community sample_conn = 4" by (simp add: sample_conn_def)
  ultimately show ?thesis by (simp add: handle_count_def sample_count_filter)
qed


text \<open>
  COUNT and REQ disagree on an explicitly empty id list: no event matches such a filter, so
  a REQ delivers nothing for it, yet the push-down drops the constraint and the count is that of
  the same filter without ids. The same filter listed twice is also counted twice, although REQ
  delivers every event once.
\<close>
lemma count_ignores_empty_ids:
  assumes "count_fast_path f authed" and "count_filter env db c sid authed token f acc = Ok (n, acc)"
    and "f_ids f = None"
  shows "(\<forall>us ev. \<not> filter_match_one us (f\<lparr>f_ids := Some []\<rparr>) ev)
    \<and> count_filter env db c sid authed token (f\<lparr>f_ids := Some []\<rparr>) acc = Ok (n, acc)
    \<and> count_filters env db c sid authed token [f, f] acc 0 = Ok (2 * n)"
proof -
  let ?f = "f\<lparr>f_ids := Some []\<rparr>"
  have fast: "count_fast_path ?f a = count_fast_path f a" for a
    by (simp add: count_fast_path_def filter_fully_pushable_def authors_are_self_def
        filter_can_match_author_only_kinds_def filter_can_match_persona_shared_kinds_def
        filter_can_match_result_gated_kinds_def result_gated_count_safe_for_pushdown_def
        p_values_are_self_def)
  have query: "build_event_query_from_filter env ?f c = build_event_query_from_filter env f c"
    using assms(3) by (simp add: build_event_query_from_filter_def filter_to_query_params_def
        extract_channel_id_from_filter_def h_channels_def split_d_tags_def non_empty_def)
  have rest: "extract_channel_from_filter pu ?f = extract_channel_from_filter pu f"
    "count_persona ?f a q = count_persona f a q" for pu a q
    by (simp_all add: extract_channel_from_filter_def count_persona_def
        filter_can_match_persona_shared_kinds_def)
  have "count_query env db sid ?f authed q = count_query env db sid f authed q" for q
    using assms(1) by (simp add: count_query_def fast)
  then have "count_filter env db c sid authed token ?f acc = count_filter env db c sid authed token f acc"
    by (simp add: count_filter_def query rest Let_def cong: option.case_cong if_cong)
  moreover have "\<not> filter_match_one us ?f ev" for us ev
    by (simp add: filter_match_one_def)
  ultimately show ?thesis using assms(2) by simp
qed

lemma count_ignores_empty_ids_witness:
  "count_filter sample_env sample_db 4 ''s'' ''cc'' None (kind9_filter\<lparr>f_ids := Some []\<rparr>) [2]
     = Ok (1, [2])"
proof -
  have "f_ids kind9_filter = None" by (simp add: kind9_filter_def)
  from count_ignores_empty_ids [OF sample_fast sample_count_filter this] show ?thesis by simp
qed

end
