(* ===== verification/Event_Queue.thy ===== *)
theory Event_Queue
  imports Events Hash_Map
begin

text \<open>
  The per-channel event queue of the agent harness, \<open>crates/buzz-acp/src/queue.rs\<close>, and the
  branch of \<open>dispatch_pending\<close> (\<open>lib.rs\<close>) that puts a batch back when no agent is free. Instants
  and durations are natural numbers of nanoseconds; the current time is an argument. The hash
  maps are association lists with distinct keys, whose order stands for the unspecified
  iteration order.
\<close>

section \<open>State\<close>

definition MAX_PENDING_PER_CHANNEL :: nat where "MAX_PENDING_PER_CHANNEL = 500"
definition MAX_BATCH_EVENTS :: nat where "MAX_BATCH_EVENTS = 50"
definition MAX_RETRIES :: nat where "MAX_RETRIES = 10"
definition BASE_RETRY_DELAY_SECS :: nat where "BASE_RETRY_DELAY_SECS = 5"
definition MAX_RETRY_DELAY_SECS :: nat where "MAX_RETRY_DELAY_SECS = 300"
definition IN_FLIGHT_DEADLINE_BUFFER_SECS :: nat where "IN_FLIGHT_DEADLINE_BUFFER_SECS = 100"
definition DEFAULT_IN_FLIGHT_DEADLINE_SECS :: nat where "DEFAULT_IN_FLIGHT_DEADLINE_SECS = 7300"

type_synonym instant = nat
type_synonym duration = nat

definition from_secs :: "nat \<Rightarrow> duration" where
  "from_secs s = s * 10 ^ 9"

record queued_event =
  qe_channel_id :: uuid
  qe_event :: event
  qe_received_at :: instant
  qe_prompt_tag :: string

record batch_event =
  be_event :: event
  be_prompt_tag :: string
  be_received_at :: instant

datatype cancel_reason = Interrupt | Steer
datatype dedup_mode = Drop | Queue

record flush_batch =
  fb_channel_id :: uuid
  fb_events :: "batch_event list"
  fb_cancelled_events :: "batch_event list"
  fb_cancel_reason :: "cancel_reason option"

record event_queue =
  eq_queues :: "(uuid, queued_event list) hmap"
  eq_in_flight :: "uuid list"
  eq_deadlines :: "(uuid, instant) hmap"
  eq_batch_sizes :: "(uuid, nat) hmap"
  eq_retry_after :: "(uuid, instant) hmap"
  eq_retry_counts :: "(uuid, nat) hmap"
  eq_dedup_mode :: dedup_mode
  eq_cancelled :: "(uuid, batch_event list) hmap"
  eq_cancel_reasons :: "(uuid, cancel_reason) hmap"
  eq_withheld :: "(uuid, queued_event list) hmap"
  eq_deadline_len :: duration

definition event_queue_new :: "dedup_mode \<Rightarrow> event_queue" where
  "event_queue_new mode =
     \<lparr>eq_queues = [], eq_in_flight = [], eq_deadlines = [], eq_batch_sizes = [],
      eq_retry_after = [], eq_retry_counts = [], eq_dedup_mode = mode, eq_cancelled = [],
      eq_cancel_reasons = [], eq_withheld = [],
      eq_deadline_len = from_secs DEFAULT_IN_FLIGHT_DEADLINE_SECS\<rparr>"

definition with_in_flight_deadline :: "nat \<Rightarrow> event_queue \<Rightarrow> event_queue" where
  "with_in_flight_deadline secs q =
     q\<lparr>eq_deadline_len := from_secs (secs + IN_FLIGHT_DEADLINE_BUFFER_SECS)\<rparr>"

definition extend_in_flight_deadline :: "instant \<Rightarrow> uuid \<Rightarrow> nat \<Rightarrow> event_queue \<Rightarrow> event_queue" where
  "extend_in_flight_deadline now ch secs q =
     (case hm_get (eq_deadlines q) ch of
        None \<Rightarrow> q
      | Some current \<Rightarrow>
          (let extended = now + from_secs (secs + IN_FLIGHT_DEADLINE_BUFFER_SECS) in
           if current < extended
           then q\<lparr>eq_deadlines := hm_insert ch extended (eq_deadlines q)\<rparr> else q))"

section \<open>Pushing\<close>

definition queue_of :: "event_queue \<Rightarrow> uuid \<Rightarrow> queued_event list" where
  "queue_of q ch = hm_get_or [] (eq_queues q) ch"

definition push_event :: "queued_event \<Rightarrow> event_queue \<Rightarrow> bool \<times> event_queue" where
  "push_event ev q =
     (let ch = qe_channel_id ev in
      if eq_dedup_mode q = Drop \<and> ch \<in> set (eq_in_flight q) then (False, q)
      else
        (let queue = queue_of q ch;
             room = (if MAX_PENDING_PER_CHANNEL \<le> length queue then tl queue else queue)
         in (True, q\<lparr>eq_queues := hm_insert ch (room @ [ev]) (eq_queues q)\<rparr>)))"

text \<open>
  \<open>while queue.len() > MAX { queue.pop_back() }\<close> after a number of \<open>push_front\<close>: the first
  \<open>MAX_PENDING_PER_CHANNEL\<close> entries stay.
\<close>

definition push_front_capped :: "uuid \<Rightarrow> queued_event list \<Rightarrow> event_queue \<Rightarrow> event_queue" where
  "push_front_capped ch evs q =
     q\<lparr>eq_queues :=
        hm_insert ch (take MAX_PENDING_PER_CHANNEL (evs @ queue_of q ch)) (eq_queues q)\<rparr>"

section \<open>Expiry and flushing\<close>

definition recover_withheld :: "uuid \<Rightarrow> event_queue \<Rightarrow> event_queue" where
  "recover_withheld ch q =
     (case hm_get (eq_withheld q) ch of
        None \<Rightarrow> q
      | Some entries \<Rightarrow>
          push_front_capped ch entries (q\<lparr>eq_withheld := hm_remove ch (eq_withheld q)\<rparr>))"

definition release_in_flight :: "uuid \<Rightarrow> event_queue \<Rightarrow> event_queue" where
  "release_in_flight ch q =
     q\<lparr>eq_in_flight := filter (\<lambda>c. c \<noteq> ch) (eq_in_flight q),
       eq_deadlines := hm_remove ch (eq_deadlines q),
       eq_batch_sizes := hm_remove ch (eq_batch_sizes q)\<rparr>"

definition expire_one :: "uuid \<Rightarrow> event_queue \<Rightarrow> event_queue" where
  "expire_one ch q = recover_withheld ch (release_in_flight ch q)"

definition expired_channels :: "instant \<Rightarrow> event_queue \<Rightarrow> uuid list" where
  "expired_channels now q = map fst (filter (\<lambda>(_, deadline). deadline \<le> now) (eq_deadlines q))"

definition expire_in_flight :: "instant \<Rightarrow> event_queue \<Rightarrow> event_queue" where
  "expire_in_flight now q = fold expire_one (expired_channels now q) q"

definition channel_ready :: "instant \<Rightarrow> event_queue \<Rightarrow> uuid \<Rightarrow> queued_event list \<Rightarrow> bool" where
  "channel_ready now q ch evs \<longleftrightarrow>
     evs \<noteq> [] \<and> ch \<notin> set (eq_in_flight q) \<and>
     is_none_or (\<lambda>t. t \<le> now) (hm_get (eq_retry_after q) ch)"

definition pick_channel :: "instant \<Rightarrow> event_queue \<Rightarrow> uuid option" where
  "pick_channel now q =
     map_option fst
       (min_by_key (\<lambda>(_, evs). qe_received_at (hd evs))
         (filter (\<lambda>(ch, evs). channel_ready now q ch evs) (eq_queues q)))"

definition pick_cancelled :: "event_queue \<Rightarrow> uuid option" where
  "pick_cancelled q =
     (case filter (\<lambda>ch. ch \<notin> set (eq_in_flight q)) (map fst (eq_cancelled q)) of
        [] \<Rightarrow> None
      | ch # _ \<Rightarrow> Some ch)"

definition to_batch_event :: "queued_event \<Rightarrow> batch_event" where
  "to_batch_event qe =
     \<lparr>be_event = qe_event qe, be_prompt_tag = qe_prompt_tag qe, be_received_at = qe_received_at qe\<rparr>"

definition to_queued_event :: "uuid \<Rightarrow> batch_event \<Rightarrow> queued_event" where
  "to_queued_event ch be =
     \<lparr>qe_channel_id = ch, qe_event = be_event be, qe_received_at = be_received_at be,
      qe_prompt_tag = be_prompt_tag be\<rparr>"

definition set_in_flight :: "instant \<Rightarrow> uuid \<Rightarrow> nat \<Rightarrow> event_queue \<Rightarrow> event_queue" where
  "set_in_flight now ch n q =
     q\<lparr>eq_in_flight := push_unseen ch (eq_in_flight q),
       eq_deadlines := hm_insert ch (now + eq_deadline_len q) (eq_deadlines q),
       eq_batch_sizes := hm_insert ch n (eq_batch_sizes q)\<rparr>"

definition flush_cancelled :: "instant \<Rightarrow> uuid \<Rightarrow> event_queue \<Rightarrow> flush_batch \<times> event_queue" where
  "flush_cancelled now ch q =
     (let cancelled = hm_get_or [] (eq_cancelled q) ch in
      (\<lparr>fb_channel_id = ch, fb_events = cancelled, fb_cancelled_events = [],
        fb_cancel_reason = hm_get (eq_cancel_reasons q) ch\<rparr>,
       set_in_flight now ch (length cancelled)
         (q\<lparr>eq_cancelled := hm_remove ch (eq_cancelled q),
            eq_cancel_reasons := hm_remove ch (eq_cancel_reasons q)\<rparr>)))"

definition flush_channel :: "instant \<Rightarrow> uuid \<Rightarrow> event_queue \<Rightarrow> flush_batch \<times> event_queue" where
  "flush_channel now ch q =
     (let queue = queue_of q ch;
          drain_count = min MAX_BATCH_EVENTS (length queue);
          events = sort_key (\<lambda>be. ev_created_at (be_event be))
                     (map to_batch_event (take drain_count queue));
          rest = drop drain_count queue;
          queues = (if rest = [] then hm_remove ch (eq_queues q) else hm_insert ch rest (eq_queues q));
          cancelled = hm_get_or [] (eq_cancelled q) ch
      in (\<lparr>fb_channel_id = ch, fb_events = events, fb_cancelled_events = cancelled,
           fb_cancel_reason = (if cancelled = [] then None else hm_get (eq_cancel_reasons q) ch)\<rparr>,
          set_in_flight now ch (length events)
            (q\<lparr>eq_queues := queues, eq_cancelled := hm_remove ch (eq_cancelled q),
               eq_cancel_reasons := hm_remove ch (eq_cancel_reasons q)\<rparr>)))"

definition flush_next :: "instant \<Rightarrow> event_queue \<Rightarrow> flush_batch option \<times> event_queue" where
  "flush_next now q0 =
     (let q = expire_in_flight now q0 in
      case pick_channel now q of
        Some ch \<Rightarrow> (let (b, q') = flush_channel now ch q in (Some b, q'))
      | None \<Rightarrow>
          (case pick_cancelled q of
             Some ch \<Rightarrow> (let (b, q') = flush_cancelled now ch q in (Some b, q'))
           | None \<Rightarrow> (None, q)))"

definition has_flushable_work :: "instant \<Rightarrow> event_queue \<Rightarrow> bool \<times> event_queue" where
  "has_flushable_work now q0 =
     (let q = expire_in_flight now q0 in
      (list_ex (\<lambda>(ch, evs). channel_ready now q ch evs) (eq_queues q)
       \<or> list_ex (\<lambda>ch. ch \<notin> set (eq_in_flight q)) (map fst (eq_cancelled q)), q))"

section \<open>Completion and requeueing\<close>

definition mark_complete :: "instant \<Rightarrow> uuid \<Rightarrow> event_queue \<Rightarrow> event_queue" where
  "mark_complete now ch q0 =
     (let q = release_in_flight ch q0 in
      case hm_get (eq_retry_after q) ch of
        Some deadline \<Rightarrow>
          if now < deadline then q
          else q\<lparr>eq_retry_after := hm_remove ch (eq_retry_after q),
                 eq_retry_counts := hm_remove ch (eq_retry_counts q)\<rparr>
      | None \<Rightarrow> q\<lparr>eq_retry_counts := hm_remove ch (eq_retry_counts q)\<rparr>)"

text \<open>
  The back-off of attempt \<open>n\<close>, and the jittered delay for a sub-second clock reading: the factor
  is \<open>0.8 + nanos / u32::MAX * 0.4\<close>, written over integers; the rounding of \<open>f64\<close> is left out.
\<close>

definition backoff_secs :: "nat \<Rightarrow> nat" where
  "backoff_secs attempt =
     min (sat_mul64 BASE_RETRY_DELAY_SECS (2 ^ min (attempt - 1) 6)) MAX_RETRY_DELAY_SECS"

definition u32_max :: nat where
  "u32_max = 2 ^ 32 - 1"

definition jittered_delay :: "nat \<Rightarrow> nat \<Rightarrow> duration" where
  "jittered_delay secs nanos = secs * 10 ^ 9 * (8 * u32_max + 4 * nanos) div (10 * u32_max)"

definition requeue :: "instant \<Rightarrow> nat \<Rightarrow> flush_batch \<Rightarrow> event_queue \<Rightarrow> flush_batch option \<times> event_queue" where
  "requeue now nanos batch q =
     (let ch = fb_channel_id batch;
          attempt = hm_get_or 0 (eq_retry_counts q) ch + 1
      in if MAX_RETRIES < attempt
         then (Some batch,
               q\<lparr>eq_retry_counts := hm_remove ch (eq_retry_counts q),
                 eq_retry_after := hm_remove ch (eq_retry_after q)\<rparr>)
         else
           (None,
            (push_front_capped ch (map (to_queued_event ch) (fb_events batch))
               (q\<lparr>eq_retry_counts := hm_insert ch attempt (eq_retry_counts q)\<rparr>))
            \<lparr>eq_retry_after :=
               hm_insert ch (now + jittered_delay (backoff_secs attempt) nanos) (eq_retry_after q)\<rparr>))"

definition requeue_preserve_timestamps :: "flush_batch \<Rightarrow> event_queue \<Rightarrow> event_queue" where
  "requeue_preserve_timestamps batch q =
     push_front_capped (fb_channel_id batch)
       (map (to_queued_event (fb_channel_id batch)) (fb_events batch)) q"

definition requeue_as_cancelled :: "flush_batch \<Rightarrow> cancel_reason \<Rightarrow> event_queue \<Rightarrow> event_queue" where
  "requeue_as_cancelled batch reason q =
     (let ch = fb_channel_id batch in
      q\<lparr>eq_cancelled :=
          hm_insert ch (hm_get_or [] (eq_cancelled q) ch @ fb_cancelled_events batch @ fb_events batch)
            (eq_cancelled q),
        eq_cancel_reasons := hm_insert ch reason (eq_cancel_reasons q)\<rparr>)"

text \<open>The branch of \<open>dispatch_pending\<close> for an exhausted pool: put the flushed batch back.\<close>

definition pool_exhausted_step :: "instant \<Rightarrow> event_queue \<Rightarrow> event_queue" where
  "pool_exhausted_step now q =
     (case flush_next now q of
        (None, q') \<Rightarrow> q'
      | (Some b, q') \<Rightarrow> mark_complete now (fb_channel_id b) (requeue_preserve_timestamps b q'))"

section \<open>Draining and native steers\<close>

definition pending_channels :: "event_queue \<Rightarrow> nat" where
  "pending_channels q = length (eq_queues q)"

definition is_channel_in_flight :: "event_queue \<Rightarrow> uuid \<Rightarrow> bool" where
  "is_channel_in_flight q ch = (ch \<in> set (eq_in_flight q))"

definition drain_channel :: "uuid \<Rightarrow> event_queue \<Rightarrow> hex_string list \<times> event_queue" where
  "drain_channel ch q =
     (map (\<lambda>e. ev_id (qe_event e)) (queue_of q ch),
      q\<lparr>eq_queues := hm_remove ch (eq_queues q),
        eq_retry_after := hm_remove ch (eq_retry_after q),
        eq_retry_counts := hm_remove ch (eq_retry_counts q),
        eq_cancelled := hm_remove ch (eq_cancelled q),
        eq_cancel_reasons := hm_remove ch (eq_cancel_reasons q),
        eq_withheld := hm_remove ch (eq_withheld q)\<rparr>)"

text \<open>\<open>if entries.is_empty() { map.remove(&ch) }\<close> after an in-place change.\<close>

definition hm_put_or_drop :: "'k \<Rightarrow> 'v list \<Rightarrow> ('k, 'v list) hmap \<Rightarrow> ('k, 'v list) hmap" where
  "hm_put_or_drop k vs m = (if vs = [] then hm_remove k m else hm_insert k vs m)"

definition mark_native_steer_pending ::
    "uuid \<Rightarrow> hex_string \<Rightarrow> event_queue \<Rightarrow> bool \<times> event_queue" where
  "mark_native_steer_pending ch i q =
     (case hm_get (eq_queues q) ch of
        None \<Rightarrow> (False, q)
      | Some queue \<Rightarrow>
          (case position (\<lambda>qe. ev_id (qe_event qe) = i) queue of
             None \<Rightarrow> (False, q)
           | Some pos \<Rightarrow>
               (True,
                q\<lparr>eq_queues := hm_put_or_drop ch (remove_at pos queue) (eq_queues q),
                  eq_withheld := hm_insert ch (hm_get_or [] (eq_withheld q) ch @ [queue ! pos])
                                   (eq_withheld q)\<rparr>)))"

definition release_native_steer :: "uuid \<Rightarrow> hex_string \<Rightarrow> event_queue \<Rightarrow> event_queue" where
  "release_native_steer ch i q =
     (case hm_get (eq_withheld q) ch of
        None \<Rightarrow> q
      | Some entries \<Rightarrow>
          (case position (\<lambda>qe. ev_id (qe_event qe) = i) entries of
             None \<Rightarrow> q
           | Some pos \<Rightarrow>
               push_front_capped ch [entries ! pos]
                 (q\<lparr>eq_withheld := hm_put_or_drop ch (remove_at pos entries) (eq_withheld q)\<rparr>)))"

definition drop_by_id ::
    "uuid \<Rightarrow> hex_string \<Rightarrow> (uuid, queued_event list) hmap \<Rightarrow> (uuid, queued_event list) hmap" where
  "drop_by_id ch i m =
     (case hm_get m ch of
        None \<Rightarrow> m
      | Some entries \<Rightarrow> hm_put_or_drop ch (filter (\<lambda>qe. ev_id (qe_event qe) \<noteq> i) entries) m)"

definition remove_event :: "uuid \<Rightarrow> hex_string \<Rightarrow> event_queue \<Rightarrow> event_queue" where
  "remove_event ch i q =
     q\<lparr>eq_withheld := drop_by_id ch i (eq_withheld q), eq_queues := drop_by_id ch i (eq_queues q)\<rparr>"

definition compact_expired_state :: "instant \<Rightarrow> event_queue \<Rightarrow> event_queue" where
  "compact_expired_state now q =
     (let retry_after = hm_retain (\<lambda>_ deadline. now < deadline) (eq_retry_after q) in
      q\<lparr>eq_retry_after := retry_after,
        eq_retry_counts :=
          hm_retain (\<lambda>ch _. hm_contains retry_after ch
            \<or> is_some_and (\<lambda>evs. evs \<noteq> []) (hm_get (eq_queues q) ch)
            \<or> ch \<in> set (eq_in_flight q)) (eq_retry_counts q)\<rparr>)"

section \<open>Thread tags and slash commands\<close>

record thread_tags =
  tt_root_event_id :: "string option"
  tt_parent_event_id :: "string option"
  tt_mentioned_pubkeys :: "string list"

fun thread_tag_loop ::
    "tag list \<Rightarrow> string option \<times> string option \<times> string list \<Rightarrow> string option \<times> string option \<times> string list"
  where
  "thread_tag_loop [] st = st"
| "thread_tag_loop (parts # ts) (root, reply, mentions) =
     thread_tag_loop ts
       (if parts \<noteq> [] \<and> parts ! 0 = ''e'' \<and> 4 \<le> length parts then
          (if parts ! 3 = ''root'' then (Some (parts ! 1), reply, mentions)
           else if parts ! 3 = ''reply'' then (root, Some (parts ! 1), mentions)
           else (root, reply, mentions))
        else if parts \<noteq> [] \<and> parts ! 0 = ''p'' \<and> 2 \<le> length parts then
          (root, reply, mentions @ [parts ! 1])
        else (root, reply, mentions))"

definition parse_thread_tags :: "event \<Rightarrow> thread_tags" where
  "parse_thread_tags ev =
     (let (root, reply, mentions) = thread_tag_loop (ev_tags ev) (None, None, []);
          (root_id, parent_id) =
            (case (root, reply) of
               (Some r, Some p) \<Rightarrow> (Some r, Some p)
             | (Some r, None) \<Rightarrow> (Some r, Some r)
             | (None, Some p) \<Rightarrow> (Some p, Some p)
             | (None, None) \<Rightarrow> (None, None))
      in \<lparr>tt_root_event_id = root_id, tt_parent_event_id = parent_id,
          tt_mentioned_pubkeys = mentions\<rparr>)"

end
