(* ===== verification/Event_Queue_Laws.thy ===== *)
theory Event_Queue_Laws
  imports Event_Queue "HOL-Library.Multiset"
begin

text \<open>
  The event queue is correct: its bookkeeping stays consistent over every sequence of
  operations, flushing is exclusive, fair and loses nothing, the back-off is bounded and ends in
  the dead letter, a withheld event comes back to the front of its queue. Two theorems record
  what the code loses: the cancelled half of a batch that is put back.
\<close>

section \<open>The invariant\<close>

definition queue_entries_wf :: "nat \<Rightarrow> (uuid, queued_event list) hmap \<Rightarrow> bool" where
  "queue_entries_wf cap m \<longleftrightarrow>
     (\<forall>ch evs. hm_get m ch = Some evs \<longrightarrow> length evs \<le> cap \<and> (\<forall>e \<in> set evs. qe_channel_id e = ch))"

definition withheld_wf :: "(uuid, queued_event list) hmap \<Rightarrow> bool" where
  "withheld_wf m \<longleftrightarrow>
     (\<forall>ch evs. hm_get m ch = Some evs \<longrightarrow> evs \<noteq> [] \<and> (\<forall>e \<in> set evs. qe_channel_id e = ch))"

definition in_flight_wf :: "uuid list \<Rightarrow> (uuid, instant) hmap \<Rightarrow> (uuid, nat) hmap \<Rightarrow> bool" where
  "in_flight_wf fl deadlines sizes \<longleftrightarrow>
     distinct fl \<and> hm_wf deadlines \<and> set fl = {ch. hm_get deadlines ch \<noteq> None} \<and>
     set fl = {ch. hm_get sizes ch \<noteq> None}"

definition retry_wf :: "(uuid, instant) hmap \<Rightarrow> (uuid, nat) hmap \<Rightarrow> bool" where
  "retry_wf after counts \<longleftrightarrow> hm_wf after \<and> hm_wf counts \<and>
     (\<forall>ch n. hm_get counts ch = Some n \<longrightarrow> 1 \<le> n \<and> n \<le> MAX_RETRIES)"

definition cancelled_wf :: "(uuid, batch_event list) hmap \<Rightarrow> (uuid, cancel_reason) hmap \<Rightarrow> bool" where
  "cancelled_wf cancelled reasons \<longleftrightarrow> hm_wf cancelled \<and>
     {ch. hm_get cancelled ch \<noteq> None} = {ch. hm_get reasons ch \<noteq> None}"

definition queue_wf :: "event_queue \<Rightarrow> bool" where
  "queue_wf q \<longleftrightarrow>
     hm_wf (eq_queues q) \<and> queue_entries_wf MAX_PENDING_PER_CHANNEL (eq_queues q) \<and>
     hm_wf (eq_withheld q) \<and> withheld_wf (eq_withheld q) \<and>
     in_flight_wf (eq_in_flight q) (eq_deadlines q) (eq_batch_sizes q) \<and>
     retry_wf (eq_retry_after q) (eq_retry_counts q) \<and>
     cancelled_wf (eq_cancelled q) (eq_cancel_reasons q)"

lemma in_flight_wf_release:
  "in_flight_wf fl dl bs \<Longrightarrow>
   in_flight_wf (filter (\<lambda>c. c \<noteq> ch) fl) (hm_remove ch dl) (hm_remove ch bs)"
  unfolding in_flight_wf_def by auto

lemma in_flight_wf_set:
  "in_flight_wf fl dl bs \<Longrightarrow>
   in_flight_wf (push_unseen ch fl) (hm_insert ch t dl) (hm_insert ch n bs)"
  unfolding in_flight_wf_def by (auto simp: distinct_push_unseen)

lemma in_flight_wf_extend:
  "in_flight_wf fl dl bs \<Longrightarrow> hm_get dl ch = Some t \<Longrightarrow> in_flight_wf fl (hm_insert ch t' dl) bs"
  unfolding in_flight_wf_def by auto

lemma retry_wf_changes:
  "retry_wf ra rc \<Longrightarrow> retry_wf (hm_remove ch ra) rc"
  "retry_wf ra rc \<Longrightarrow> retry_wf ra (hm_remove ch rc)"
  "retry_wf ra rc \<Longrightarrow> retry_wf (hm_insert ch t ra) rc"
  "retry_wf ra rc \<Longrightarrow> 1 \<le> n \<Longrightarrow> n \<le> MAX_RETRIES \<Longrightarrow> retry_wf ra (hm_insert ch n rc)"
  by (simp_all add: retry_wf_def)

lemma retry_wf_retain:
  "retry_wf ra rc \<Longrightarrow> retry_wf (hm_retain p ra) (hm_retain p' rc)"
  by (auto simp: retry_wf_def hm_get_retain split: option.splits if_splits)

lemma cancelled_wf_changes:
  "cancelled_wf c r \<Longrightarrow> cancelled_wf (hm_remove ch c) (hm_remove ch r)"
  "cancelled_wf c r \<Longrightarrow> cancelled_wf (hm_insert ch bs c) (hm_insert ch reason r)"
  by (auto simp: cancelled_wf_def)

lemmas queue_wf_parts = in_flight_wf_release in_flight_wf_set retry_wf_changes retry_wf_retain
  cancelled_wf_changes

lemma queue_wf_new: "queue_wf (event_queue_new mode)"
  by (simp add: queue_wf_def event_queue_new_def queue_entries_wf_def withheld_wf_def
      in_flight_wf_def retry_wf_def cancelled_wf_def)

lemma queue_of_wf:
  "queue_entries_wf cap (eq_queues q) \<Longrightarrow>
     length (queue_of q ch) \<le> cap \<and> (\<forall>e \<in> set (queue_of q ch). qe_channel_id e = ch)"
  by (auto simp: queue_entries_wf_def queue_of_def hm_get_or_def split: option.split)

lemma queue_entries_wf_insert:
  "queue_entries_wf cap m \<Longrightarrow> length evs \<le> cap \<Longrightarrow> \<forall>e \<in> set evs. qe_channel_id e = ch \<Longrightarrow>
   queue_entries_wf cap (hm_insert ch evs m)"
  by (simp add: queue_entries_wf_def)

lemma queue_entries_wf_remove: "queue_entries_wf cap m \<Longrightarrow> queue_entries_wf cap (hm_remove ch m)"
  by (simp add: queue_entries_wf_def)

lemma withheld_wf_remove: "withheld_wf m \<Longrightarrow> withheld_wf (hm_remove ch m)"
  by (simp add: withheld_wf_def)

lemma withheld_wf_insert:
  "withheld_wf m \<Longrightarrow> evs \<noteq> [] \<Longrightarrow> \<forall>e \<in> set evs. qe_channel_id e = ch \<Longrightarrow>
   withheld_wf (hm_insert ch evs m)"
  by (simp add: withheld_wf_def)

lemma withheld_get_or:
  "withheld_wf m \<Longrightarrow> e \<in> set (hm_get_or [] m ch) \<Longrightarrow> qe_channel_id e = ch"
  by (cases "hm_get m ch") (auto simp: withheld_wf_def hm_get_or_def)

lemma push_front_capped_fields [simp]:
  "eq_retry_after (push_front_capped ch evs q) = eq_retry_after q"
  "eq_retry_counts (push_front_capped ch evs q) = eq_retry_counts q"
  "eq_in_flight (push_front_capped ch evs q) = eq_in_flight q"
  "eq_deadlines (push_front_capped ch evs q) = eq_deadlines q"
  "eq_batch_sizes (push_front_capped ch evs q) = eq_batch_sizes q"
  "eq_cancelled (push_front_capped ch evs q) = eq_cancelled q"
  "eq_cancel_reasons (push_front_capped ch evs q) = eq_cancel_reasons q"
  "eq_withheld (push_front_capped ch evs q) = eq_withheld q"
  by (simp_all add: push_front_capped_def)

section \<open>Every operation preserves it\<close>

lemma push_event_wf:
  assumes wf: "queue_wf q"
  shows "queue_wf (snd (push_event ev q))"
proof -
  let ?ch = "qe_channel_id ev"
  have q: "length (queue_of q ?ch) \<le> MAX_PENDING_PER_CHANNEL"
    "\<forall>e \<in> set (queue_of q ?ch). qe_channel_id e = ?ch"
    using queue_of_wf wf by (auto simp: queue_wf_def)
  have tl: "set (tl xs) \<subseteq> set xs" for xs :: "queued_event list"
    by (cases xs) auto
  have "queue_entries_wf MAX_PENDING_PER_CHANNEL (hm_insert ?ch
      ((if MAX_PENDING_PER_CHANNEL \<le> length (queue_of q ?ch) then tl (queue_of q ?ch)
        else queue_of q ?ch) @ [ev]) (eq_queues q))"
    using wf q tl [of "queue_of q ?ch"]
    by (intro queue_entries_wf_insert) (auto simp: queue_wf_def MAX_PENDING_PER_CHANNEL_def)
  with wf show ?thesis
    by (simp add: push_event_def Let_def queue_wf_def queue_wf_parts)
qed

lemma push_front_capped_wf:
  assumes "queue_wf q" and "\<forall>e \<in> set evs. qe_channel_id e = ch"
  shows "queue_wf (push_front_capped ch evs q)"
proof -
  have "queue_entries_wf MAX_PENDING_PER_CHANNEL
      (hm_insert ch (take MAX_PENDING_PER_CHANNEL (evs @ queue_of q ch)) (eq_queues q))"
    using assms queue_of_wf [of MAX_PENDING_PER_CHANNEL q ch]
    by (intro queue_entries_wf_insert) (auto simp: queue_wf_def dest: in_set_takeD)
  with assms(1) show ?thesis
    by (simp add: push_front_capped_def queue_wf_def queue_wf_parts)
qed

lemma recover_withheld_wf:
  assumes wf: "queue_wf q"
  shows "queue_wf (recover_withheld ch q)"
proof (cases "hm_get (eq_withheld q) ch")
  case None
  with wf show ?thesis by (simp add: recover_withheld_def)
next
  case (Some entries)
  have "queue_wf (q\<lparr>eq_withheld := hm_remove ch (eq_withheld q)\<rparr>)"
    using wf by (simp add: queue_wf_def queue_wf_parts withheld_wf_remove)
  moreover have "\<forall>e \<in> set entries. qe_channel_id e = ch"
    using wf Some by (auto simp: queue_wf_def withheld_wf_def)
  ultimately show ?thesis
    using Some by (simp add: recover_withheld_def push_front_capped_wf)
qed

lemma release_in_flight_wf: "queue_wf q \<Longrightarrow> queue_wf (release_in_flight ch q)"
  by (simp add: queue_wf_def queue_wf_parts release_in_flight_def)

lemma expire_in_flight_wf: "queue_wf q \<Longrightarrow> queue_wf (expire_in_flight now q)"
proof -
  have "queue_wf q \<Longrightarrow> queue_wf (fold expire_one chs q)" for chs
    by (induction chs arbitrary: q)
      (auto simp: expire_one_def intro: recover_withheld_wf release_in_flight_wf)
  then show "queue_wf q \<Longrightarrow> queue_wf (expire_in_flight now q)"
    by (simp add: expire_in_flight_def)
qed

lemma set_in_flight_wf: "queue_wf q \<Longrightarrow> queue_wf (set_in_flight now ch n q)"
  by (simp add: queue_wf_def queue_wf_parts set_in_flight_def)

lemma forget_cancelled_wf:
  "queue_wf q \<Longrightarrow> queue_wf (q\<lparr>eq_cancelled := hm_remove ch (eq_cancelled q),
     eq_cancel_reasons := hm_remove ch (eq_cancel_reasons q)\<rparr>)"
  by (simp add: queue_wf_def queue_wf_parts)

lemma flush_cancelled_wf: "queue_wf q \<Longrightarrow> queue_wf (snd (flush_cancelled now ch q))"
  by (simp add: flush_cancelled_def Let_def set_in_flight_wf forget_cancelled_wf)

lemma flush_channel_wf:
  assumes wf: "queue_wf q"
  shows "queue_wf (snd (flush_channel now ch q))"
proof -
  let ?n = "min MAX_BATCH_EVENTS (length (queue_of q ch))"
  let ?rest = "drop ?n (queue_of q ch)"
  have "queue_entries_wf MAX_PENDING_PER_CHANNEL
      (if ?rest = [] then hm_remove ch (eq_queues q) else hm_insert ch ?rest (eq_queues q))"
    using wf queue_of_wf [of MAX_PENDING_PER_CHANNEL q ch]
    by (auto simp: queue_wf_def intro!: queue_entries_wf_remove queue_entries_wf_insert
        dest: in_set_dropD)
  then have "queue_wf (q\<lparr>eq_queues :=
      (if ?rest = [] then hm_remove ch (eq_queues q) else hm_insert ch ?rest (eq_queues q))\<rparr>)"
    using wf by (simp add: queue_wf_def queue_wf_parts)
  from forget_cancelled_wf [OF this, of ch] show ?thesis
    by (simp add: flush_channel_def Let_def set_in_flight_wf del: drop_eq_Nil)
qed

lemma flush_next_wf: "queue_wf q \<Longrightarrow> queue_wf (snd (flush_next now q))"
  using expire_in_flight_wf [of q now] flush_channel_wf [of "expire_in_flight now q" now]
    flush_cancelled_wf [of "expire_in_flight now q" now]
  by (auto simp: flush_next_def Let_def split_def split: option.split)

lemma mark_complete_wf:
  assumes "queue_wf q"
  shows "queue_wf (mark_complete now ch q)"
  using release_in_flight_wf [OF assms, of ch]
  by (auto simp: mark_complete_def Let_def queue_wf_def queue_wf_parts split: option.split)

lemma to_queued_channel [simp]: "qe_channel_id (to_queued_event ch be) = ch"
  by (simp add: to_queued_event_def)

lemma requeue_wf:
  assumes wf: "queue_wf q"
  shows "queue_wf (snd (requeue now nanos batch q))"
proof -
  let ?ch = "fb_channel_id batch"
  let ?n = "hm_get_or 0 (eq_retry_counts q) ?ch + 1"
  have drop: "queue_wf (q\<lparr>eq_retry_counts := hm_remove ?ch (eq_retry_counts q),
      eq_retry_after := hm_remove ?ch (eq_retry_after q)\<rparr>)"
    using wf by (simp add: queue_wf_def queue_wf_parts)
  have "queue_wf (q\<lparr>eq_retry_counts := hm_insert ?ch ?n (eq_retry_counts q)\<rparr>)" if "?n \<le> MAX_RETRIES"
    using wf that by (simp add: queue_wf_def queue_wf_parts)
  then have "queue_wf (push_front_capped ?ch (map (to_queued_event ?ch) (fb_events batch))
      (q\<lparr>eq_retry_counts := hm_insert ?ch ?n (eq_retry_counts q)\<rparr>))" if "?n \<le> MAX_RETRIES"
    using that by (intro push_front_capped_wf) auto
  then have "queue_wf ((push_front_capped ?ch (map (to_queued_event ?ch) (fb_events batch))
      (q\<lparr>eq_retry_counts := hm_insert ?ch ?n (eq_retry_counts q)\<rparr>))
      \<lparr>eq_retry_after := hm_insert ?ch t (eq_retry_after q)\<rparr>)" if "?n \<le> MAX_RETRIES" for t
    using that by (simp add: queue_wf_def retry_wf_changes(3))
  with drop show ?thesis by (simp add: requeue_def Let_def)
qed

lemma requeue_preserve_wf: "queue_wf q \<Longrightarrow> queue_wf (requeue_preserve_timestamps batch q)"
  by (simp add: requeue_preserve_timestamps_def push_front_capped_wf)

lemma requeue_as_cancelled_wf: "queue_wf q \<Longrightarrow> queue_wf (requeue_as_cancelled batch reason q)"
  by (simp add: requeue_as_cancelled_def Let_def queue_wf_def queue_wf_parts)

lemma drain_channel_wf: "queue_wf q \<Longrightarrow> queue_wf (snd (drain_channel ch q))"
  by (simp add: drain_channel_def queue_wf_def queue_wf_parts queue_entries_wf_remove withheld_wf_remove)

lemma hm_get_put_or_drop:
  "hm_get (hm_put_or_drop k vs m) k' = (if k' = k then (if vs = [] then None else Some vs) else hm_get m k')"
  by (simp add: hm_put_or_drop_def)

lemma hm_wf_put_or_drop [simp]: "hm_wf m \<Longrightarrow> hm_wf (hm_put_or_drop k vs m)"
  by (simp add: hm_put_or_drop_def)

lemma queue_entries_put_or_drop:
  "queue_entries_wf cap m \<Longrightarrow> length vs \<le> cap \<Longrightarrow> \<forall>e \<in> set vs. qe_channel_id e = ch \<Longrightarrow>
   queue_entries_wf cap (hm_put_or_drop ch vs m)"
  by (simp add: hm_put_or_drop_def queue_entries_wf_insert queue_entries_wf_remove)

lemma withheld_put_or_drop:
  "withheld_wf m \<Longrightarrow> \<forall>e \<in> set vs. qe_channel_id e = ch \<Longrightarrow> withheld_wf (hm_put_or_drop ch vs m)"
  by (simp add: hm_put_or_drop_def withheld_wf_insert withheld_wf_remove)

lemma mark_native_steer_pending_wf:
  assumes wf: "queue_wf q"
  shows "queue_wf (snd (mark_native_steer_pending ch i q))"
proof (cases "hm_get (eq_queues q) ch")
  case None
  with wf show ?thesis by (simp add: mark_native_steer_pending_def)
next
  case (Some queue)
  show ?thesis
  proof (cases "position (\<lambda>qe. ev_id (qe_event qe) = i) queue")
    case None
    with wf Some show ?thesis by (simp add: mark_native_steer_pending_def)
  next
    case pos: (Some pos)
    have lt: "pos < length queue" using position_Some [OF pos] by simp
    have q: "length queue \<le> MAX_PENDING_PER_CHANNEL" "\<forall>e \<in> set queue. qe_channel_id e = ch"
      using wf Some by (auto simp: queue_wf_def queue_entries_wf_def)
    have "queue_entries_wf MAX_PENDING_PER_CHANNEL (hm_put_or_drop ch (remove_at pos queue) (eq_queues q))"
      using wf q set_remove_at_subset [of pos queue] length_remove_at [OF lt]
      by (intro queue_entries_put_or_drop) (auto simp: queue_wf_def)
    moreover have "withheld_wf (hm_insert ch (hm_get_or [] (eq_withheld q) ch @ [queue ! pos]) (eq_withheld q))"
      using wf q lt
      by (intro withheld_wf_insert)
        (auto simp: queue_wf_def dest: withheld_get_or)
    ultimately show ?thesis
      using wf Some pos by (simp add: mark_native_steer_pending_def queue_wf_def queue_wf_parts)
  qed
qed

lemma release_native_steer_wf:
  assumes wf: "queue_wf q"
  shows "queue_wf (release_native_steer ch i q)"
proof (cases "hm_get (eq_withheld q) ch")
  case None
  with wf show ?thesis by (simp add: release_native_steer_def)
next
  case (Some entries)
  show ?thesis
  proof (cases "position (\<lambda>qe. ev_id (qe_event qe) = i) entries")
    case None
    with wf Some show ?thesis by (simp add: release_native_steer_def)
  next
    case pos: (Some pos)
    have e: "\<forall>e \<in> set entries. qe_channel_id e = ch"
      using wf Some by (auto simp: queue_wf_def withheld_wf_def)
    have "queue_wf (q\<lparr>eq_withheld := hm_put_or_drop ch (remove_at pos entries) (eq_withheld q)\<rparr>)"
      using wf e set_remove_at_subset [of pos entries]
      by (auto simp: queue_wf_def queue_wf_parts intro!: withheld_put_or_drop)
    moreover have "qe_channel_id (entries ! pos) = ch"
      using e position_Some [OF pos] by simp
    ultimately show ?thesis
      using Some pos by (simp add: release_native_steer_def push_front_capped_wf)
  qed
qed

lemma drop_by_id_wf:
  "hm_wf m \<Longrightarrow> hm_wf (drop_by_id ch i m)"
  "queue_entries_wf cap m \<Longrightarrow> queue_entries_wf cap (drop_by_id ch i m)"
  "withheld_wf m \<Longrightarrow> withheld_wf (drop_by_id ch i m)"
proof -
  show "hm_wf m \<Longrightarrow> hm_wf (drop_by_id ch i m)"
    by (simp add: drop_by_id_def split: option.split)
  show "queue_entries_wf cap m \<Longrightarrow> queue_entries_wf cap (drop_by_id ch i m)"
    by (auto simp: drop_by_id_def queue_entries_wf_def hm_get_put_or_drop
        intro: le_trans [OF length_filter_le] split: option.split if_splits)
  show "withheld_wf m \<Longrightarrow> withheld_wf (drop_by_id ch i m)"
    by (auto simp: drop_by_id_def withheld_wf_def hm_get_put_or_drop split: option.split if_splits)
qed

lemma remove_event_wf: "queue_wf q \<Longrightarrow> queue_wf (remove_event ch i q)"
  by (simp add: remove_event_def queue_wf_def queue_wf_parts drop_by_id_wf)

lemma compact_expired_state_wf: "queue_wf q \<Longrightarrow> queue_wf (compact_expired_state now q)"
  by (simp add: compact_expired_state_def Let_def queue_wf_def queue_wf_parts)

lemma extend_in_flight_deadline_wf: "queue_wf q \<Longrightarrow> queue_wf (extend_in_flight_deadline now ch secs q)"
  by (auto simp: extend_in_flight_deadline_def Let_def queue_wf_def in_flight_wf_extend split: option.split)

section \<open>Runs\<close>

datatype queue_op =
    PushOp queued_event
  | FlushOp instant
  | HasWorkOp instant
  | CompleteOp instant uuid
  | RequeueOp instant nat flush_batch
  | RequeuePreserveOp flush_batch
  | RequeueCancelledOp flush_batch cancel_reason
  | PoolExhaustedOp instant
  | DrainOp uuid
  | MarkSteerOp uuid hex_string
  | ReleaseSteerOp uuid hex_string
  | RemoveEventOp uuid hex_string
  | CompactOp instant
  | ExtendOp instant uuid nat

fun queue_step :: "queue_op \<Rightarrow> event_queue \<Rightarrow> event_queue" where
  "queue_step (PushOp ev) q = snd (push_event ev q)"
| "queue_step (FlushOp now) q = snd (flush_next now q)"
| "queue_step (HasWorkOp now) q = snd (has_flushable_work now q)"
| "queue_step (CompleteOp now ch) q = mark_complete now ch q"
| "queue_step (RequeueOp now nanos b) q = snd (requeue now nanos b q)"
| "queue_step (RequeuePreserveOp b) q = requeue_preserve_timestamps b q"
| "queue_step (RequeueCancelledOp b reason) q = requeue_as_cancelled b reason q"
| "queue_step (PoolExhaustedOp now) q = pool_exhausted_step now q"
| "queue_step (DrainOp ch) q = snd (drain_channel ch q)"
| "queue_step (MarkSteerOp ch i) q = snd (mark_native_steer_pending ch i q)"
| "queue_step (ReleaseSteerOp ch i) q = release_native_steer ch i q"
| "queue_step (RemoveEventOp ch i) q = remove_event ch i q"
| "queue_step (CompactOp now) q = compact_expired_state now q"
| "queue_step (ExtendOp now ch secs) q = extend_in_flight_deadline now ch secs q"

lemma pool_exhausted_step_wf:
  assumes wf: "queue_wf q"
  shows "queue_wf (pool_exhausted_step now q)"
  using flush_next_wf [OF wf, of now]
  by (auto simp: pool_exhausted_step_def mark_complete_wf requeue_preserve_wf
      split: prod.split option.split)

lemma queue_step_wf: "queue_wf q \<Longrightarrow> queue_wf (queue_step op q)"
  by (cases op)
    (simp_all add: push_event_wf flush_next_wf mark_complete_wf requeue_wf requeue_preserve_wf
      requeue_as_cancelled_wf pool_exhausted_step_wf drain_channel_wf mark_native_steer_pending_wf
      release_native_steer_wf remove_event_wf compact_expired_state_wf
      extend_in_flight_deadline_wf has_flushable_work_def Let_def expire_in_flight_wf)

interpretation evq: invariant_system queue_step queue_wf
  by unfold_locales (rule queue_step_wf)

section \<open>What is pending\<close>

text \<open>Everything the queue still owes the agent: queued, withheld and cancelled events.\<close>

definition hm_total :: "('v \<Rightarrow> 'a multiset) \<Rightarrow> ('k, 'v) hmap \<Rightarrow> 'a multiset" where
  "hm_total f m = sum_list (map (\<lambda>e. f (snd e)) m)"

definition batch_mset :: "queued_event list \<Rightarrow> batch_event multiset" where
  "batch_mset evs = mset (map to_batch_event evs)"

definition pending_total :: "event_queue \<Rightarrow> batch_event multiset" where
  "pending_total q =
     hm_total batch_mset (eq_queues q) + hm_total batch_mset (eq_withheld q)
     + hm_total mset (eq_cancelled q)"

lemma hm_total_remove:
  "hm_wf m \<Longrightarrow> hm_total f m = (case hm_get m k of None \<Rightarrow> {#} | Some v \<Rightarrow> f v) + hm_total f (hm_remove k m)"
proof (induction m)
  case Nil
  then show ?case by (simp add: hm_total_def hm_remove_def)
next
  case (Cons e m)
  obtain k' v where e: "e = (k', v)" by (cases e)
  from Cons.prems have wf: "hm_wf m" and new: "k' \<notin> fst ` set m"
    by (auto simp: hm_wf_def e)
  show ?case
  proof (cases "k' = k")
    case True
    then have "hm_remove k m = m"
      using new by (force simp: hm_remove_def filter_id_conv)
    with True show ?thesis by (simp add: hm_total_def hm_remove_def hm_get_def e)
  next
    case False
    then show ?thesis
      using Cons.IH [OF wf]
      by (simp add: hm_total_def hm_remove_def hm_get_def e ac_simps)
  qed
qed

lemma hm_total_insert [simp]: "hm_total f (hm_insert k v m) = f v + hm_total f (hm_remove k m)"
  by (simp add: hm_total_def hm_insert_def)

lemma hm_total_get_or:
  "hm_wf m \<Longrightarrow> f [] = {#} \<Longrightarrow> hm_total f m = f (hm_get_or [] m k) + hm_total f (hm_remove k m)"
  using hm_total_remove [of m f k] by (simp add: hm_get_or_def split: option.split)

lemma hm_total_put_or_drop:
  "f [] = {#} \<Longrightarrow> hm_total f (hm_put_or_drop k vs m) = f vs + hm_total f (hm_remove k m)"
  by (simp add: hm_put_or_drop_def)

lemma batch_mset_simps [simp]:
  "batch_mset [] = {#}" "batch_mset (x # xs) = {#to_batch_event x#} + batch_mset xs"
  "batch_mset (xs @ ys) = batch_mset xs + batch_mset ys"
  by (simp_all add: batch_mset_def)

lemma to_batch_to_queued [simp]: "to_batch_event (to_queued_event ch be) = be"
  by (simp add: to_batch_event_def to_queued_event_def)

lemma batch_mset_requeued [simp]: "batch_mset (map (to_queued_event ch) bs) = mset bs"
  by (simp add: batch_mset_def comp_def)

lemma queue_total:
  "hm_wf (eq_queues q) \<Longrightarrow>
   hm_total batch_mset (eq_queues q) = batch_mset (queue_of q ch) + hm_total batch_mset (hm_remove ch (eq_queues q))"
  by (simp add: queue_of_def hm_total_get_or)

lemma pending_total_set_in_flight [simp]: "pending_total (set_in_flight now ch n q) = pending_total q"
  by (simp add: pending_total_def set_in_flight_def)

lemma flush_channel_pending:
  assumes wf: "queue_wf q" and fl: "flush_channel now ch q = (b, q')"
  shows "pending_total q = pending_total q' + mset (fb_events b) + mset (fb_cancelled_events b)"
proof -
  let ?n = "min MAX_BATCH_EVENTS (length (queue_of q ch))"
  have "batch_mset (queue_of q ch) = batch_mset (take ?n (queue_of q ch)) + batch_mset (drop ?n (queue_of q ch))"
    by (metis append_take_drop_id batch_mset_simps(3))
  moreover have "batch_mset (take ?n (queue_of q ch)) = mset (fb_events b)"
    using fl by (auto simp: flush_channel_def Let_def batch_mset_def)
  moreover have "hm_total batch_mset (eq_queues q')
      = batch_mset (drop ?n (queue_of q ch)) + hm_total batch_mset (hm_remove ch (eq_queues q))"
    using fl by (auto simp: flush_channel_def Let_def set_in_flight_def)
  moreover have "eq_withheld q' = eq_withheld q"
    and "eq_cancelled q' = hm_remove ch (eq_cancelled q)"
    and "fb_cancelled_events b = hm_get_or [] (eq_cancelled q) ch"
    using fl by (auto simp: flush_channel_def Let_def set_in_flight_def)
  ultimately show ?thesis
    using wf queue_total [of q ch] hm_total_get_or [of "eq_cancelled q" mset ch]
    by (simp add: pending_total_def queue_wf_def cancelled_wf_def ac_simps)
qed

lemma flush_cancelled_pending:
  assumes wf: "queue_wf q" and fl: "flush_cancelled now ch q = (b, q')"
  shows "pending_total q = pending_total q' + mset (fb_events b) + mset (fb_cancelled_events b)"
proof -
  have "eq_queues q' = eq_queues q" "eq_withheld q' = eq_withheld q"
    "eq_cancelled q' = hm_remove ch (eq_cancelled q)"
    "fb_events b = hm_get_or [] (eq_cancelled q) ch" "fb_cancelled_events b = []"
    using fl by (auto simp: flush_cancelled_def Let_def set_in_flight_def)
  then show ?thesis
    using wf hm_total_get_or [of "eq_cancelled q" mset ch]
    by (simp add: pending_total_def queue_wf_def cancelled_wf_def)
qed

lemma flush_next_cases:
  assumes "flush_next now q = (Some b, q')"
  obtains (channel) ch where "pick_channel now (expire_in_flight now q) = Some ch"
      "flush_channel now ch (expire_in_flight now q) = (b, q')"
    | (cancelled) ch where "pick_channel now (expire_in_flight now q) = None"
      "pick_cancelled (expire_in_flight now q) = Some ch"
      "flush_cancelled now ch (expire_in_flight now q) = (b, q')"
  using assms by (auto simp: flush_next_def Let_def split_def split: option.splits)

lemma flush_next_pending:
  assumes wf: "queue_wf q" and fl: "flush_next now q = (Some b, q')"
  shows "pending_total (expire_in_flight now q)
    = pending_total q' + mset (fb_events b) + mset (fb_cancelled_events b)"
  using fl expire_in_flight_wf [OF wf]
  by (cases rule: flush_next_cases) (auto intro: flush_channel_pending flush_cancelled_pending)

section \<open>Which channel is picked\<close>

lemma pick_channel_Some:
  assumes wf: "hm_wf (eq_queues q)" and pick: "pick_channel now q = Some ch"
  shows "channel_ready now q ch (queue_of q ch) \<and>
    (\<forall>(c, evs) \<in> set (eq_queues q). channel_ready now q c evs \<longrightarrow>
       qe_received_at (hd (queue_of q ch)) \<le> qe_received_at (hd evs))"
proof -
  let ?ready = "filter (\<lambda>(ch, evs). channel_ready now q ch evs) (eq_queues q)"
  obtain evs where min: "min_by_key (\<lambda>(_, evs). qe_received_at (hd evs)) ?ready = Some (ch, evs)"
    using pick by (auto simp: pick_channel_def)
  from min_by_key_Some [OF min] have in_q: "(ch, evs) \<in> set (eq_queues q)"
    and ready: "channel_ready now q ch evs"
    and least: "\<forall>(c, es) \<in> set ?ready. qe_received_at (hd evs) \<le> qe_received_at (hd es)"
    by auto
  have "hm_get (eq_queues q) ch = Some evs" using in_q hm_get_in_set [OF wf] by blast
  then have "queue_of q ch = evs" by (simp add: queue_of_def hm_get_or_def)
  with ready least show ?thesis by auto
qed

lemma pick_channel_None:
  "pick_channel now q = None \<longleftrightarrow> (\<forall>(c, evs) \<in> set (eq_queues q). \<not> channel_ready now q c evs)"
  by (auto simp: pick_channel_def filter_empty_conv)

lemma pick_cancelled_Some: "pick_cancelled q = Some ch \<Longrightarrow> ch \<notin> set (eq_in_flight q)"
  by (auto simp: pick_cancelled_def filter_eq_Cons_iff split: list.splits)

lemma pick_cancelled_None:
  "pick_cancelled q = None \<longleftrightarrow> (\<forall>ch \<in> fst ` set (eq_cancelled q). ch \<in> set (eq_in_flight q))"
proof -
  have "pick_cancelled q = None \<longleftrightarrow>
      filter (\<lambda>ch. ch \<notin> set (eq_in_flight q)) (map fst (eq_cancelled q)) = []"
    by (simp add: pick_cancelled_def split: list.split)
  then show ?thesis by (simp add: filter_empty_conv)
qed

lemma expire_deadline_len [simp]: "eq_deadline_len (expire_in_flight now q) = eq_deadline_len q"
proof -
  have "eq_deadline_len (fold expire_one chs q) = eq_deadline_len q" for chs
    by (induction chs arbitrary: q)
      (auto simp: expire_one_def recover_withheld_def release_in_flight_def push_front_capped_def
        split: option.split)
  then show ?thesis by (simp add: expire_in_flight_def)
qed

section \<open>Properties\<close>

text \<open>
  The bookkeeping of the queue is consistent after every sequence of operations: no channel
  holds more than the cap or an event of another channel, a channel is in flight exactly while
  it has a deadline and a batch size, retry counters stay within the retry budget, and withheld
  and cancelled entries are well formed.
\<close>
lemma queue_bookkeeping_consistent:
  "let q = fold queue_step ops (event_queue_new mode) in
     queue_wf q \<and> length (queue_of q ch) \<le> MAX_PENDING_PER_CHANNEL
     \<and> (is_channel_in_flight q ch \<longleftrightarrow> hm_get (eq_deadlines q) ch \<noteq> None)
     \<and> hm_get_or 0 (eq_retry_counts q) ch \<le> MAX_RETRIES"
proof -
  have wf: "queue_wf (fold queue_step ops (event_queue_new mode))"
    by (rule evq.run_inv [OF queue_wf_new])
  then show ?thesis
    using queue_of_wf [of MAX_PENDING_PER_CHANNEL "fold queue_step ops (event_queue_new mode)" ch]
    by (auto simp: Let_def queue_wf_def in_flight_wf_def retry_wf_def is_channel_in_flight_def
        hm_get_or_def split: option.split)
qed

text \<open>
  Flushing is exclusive and fair. A batch is only ever taken from a channel that is not in
  flight once expired turns are released, it marks the channel in flight with a fresh deadline,
  and among all ready channels it takes the one whose head event has waited longest.
\<close>
lemma flush_is_exclusive_and_fair:
  assumes "queue_wf q" and "flush_next now q = (Some b, q')"
  shows "let p = expire_in_flight now q; ch = fb_channel_id b in
    \<not> is_channel_in_flight p ch \<and> is_channel_in_flight q' ch
    \<and> hm_get (eq_deadlines q') ch = Some (now + eq_deadline_len q)
    \<and> (\<forall>(c, evs) \<in> set (eq_queues p). channel_ready now p c evs \<longrightarrow>
         queue_of p ch \<noteq> [] \<and> qe_received_at (hd (queue_of p ch)) \<le> qe_received_at (hd evs))"
  using assms(2)
proof (cases rule: flush_next_cases)
  case (channel ch)
  have "hm_wf (eq_queues (expire_in_flight now q))"
    using expire_in_flight_wf [OF assms(1), of now] by (simp add: queue_wf_def)
  from pick_channel_Some [OF this channel(1)] channel(2) show ?thesis
    by (auto simp: Let_def flush_channel_def set_in_flight_def is_channel_in_flight_def
        channel_ready_def)
next
  case (cancelled ch)
  then show ?thesis
    using pick_cancelled_Some [OF cancelled(2)]
    by (auto simp: Let_def flush_cancelled_def set_in_flight_def is_channel_in_flight_def
        pick_channel_None)
qed


text \<open>
  The wake-up test is exact: \<open>has_flushable_work\<close> says yes precisely when \<open>flush_next\<close> at
  the same instant would return a batch.
\<close>
lemma flushable_iff_flush:
  "fst (has_flushable_work now q) \<longleftrightarrow> fst (flush_next now q) \<noteq> None"
proof -
  let ?p = "expire_in_flight now q"
  have "fst (flush_next now q) \<noteq> None \<longleftrightarrow> pick_channel now ?p \<noteq> None \<or> pick_cancelled ?p \<noteq> None"
    by (auto simp: flush_next_def Let_def split_def split: option.split)
  also have "\<dots> \<longleftrightarrow> fst (has_flushable_work now q)"
    unfolding has_flushable_work_def Let_def fst_conv
    by (auto simp: pick_channel_None pick_cancelled_None list_ex_iff)
  finally show ?thesis ..
qed


text \<open>
  Putting a batch back when no agent is free loses the interrupted request. The flush has
  taken the cancelled events of the channel out of the state and into the second half of the
  batch, and the requeue reads only the first half: exactly the cancelled events are gone, for
  good, and the channel no longer knows that a turn was cancelled.
\<close>
lemma pool_exhaustion_loses_cancelled:
  assumes "queue_wf q" and "flush_next now q = (Some b, q')"
    and "length (fb_events b) + length (queue_of q' (fb_channel_id b)) \<le> MAX_PENDING_PER_CHANNEL"
  shows "pending_total (expire_in_flight now q)
      = pending_total (pool_exhausted_step now q) + mset (fb_cancelled_events b)
    \<and> hm_get (eq_cancelled (pool_exhausted_step now q)) (fb_channel_id b) = None"
proof -
  let ?ch = "fb_channel_id b"
  let ?r = "requeue_preserve_timestamps b q'"
  have step: "pool_exhausted_step now q = mark_complete now ?ch ?r"
    using assms(2) by (simp add: pool_exhausted_step_def)
  have fields: "eq_queues (mark_complete now ?ch s) = eq_queues s"
    "eq_withheld (mark_complete now ?ch s) = eq_withheld s"
    "eq_cancelled (mark_complete now ?ch s) = eq_cancelled s" for s
    by (auto simp: mark_complete_def release_in_flight_def Let_def split: option.split)
  have wf': "hm_wf (eq_queues q')"
    using flush_next_wf [OF assms(1), of now] assms(2) by (simp add: queue_wf_def)
  have "pending_total ?r = pending_total q' + mset (fb_events b)"
    using assms(3) queue_total [OF wf', of ?ch]
    by (simp add: requeue_preserve_timestamps_def push_front_capped_def pending_total_def ac_simps)
  moreover have "hm_get (eq_cancelled q') ?ch = None"
    using assms(2) by (cases rule: flush_next_cases)
      (auto simp: flush_channel_def flush_cancelled_def Let_def set_in_flight_def)
  ultimately show ?thesis
    using flush_next_pending [OF assms(1,2)]
    by (simp add: step fields pending_total_def requeue_preserve_timestamps_def ac_simps)
qed

text \<open>
  Withholding an event for a native steer and releasing it is safe: the event leaves its
  queue, so no flush can deliver it, without leaving the pending events, and the release puts it
  back at the head of its queue; consuming it instead removes it from both stores.
\<close>
lemma steer_withhold_release:
  assumes "queue_wf q" and "mark_native_steer_pending ch i q = (True, q1)"
    and "\<forall>e \<in> set (hm_get_or [] (eq_withheld q) ch). ev_id (qe_event e) \<noteq> i"
  shows "\<exists>e. ev_id (qe_event e) = i \<and> mset (queue_of q ch) = {#e#} + mset (queue_of q1 ch)
    \<and> pending_total q1 = pending_total q
    \<and> queue_of (release_native_steer ch i q1) ch = e # queue_of q1 ch
    \<and> (\<forall>x \<in> set (queue_of (remove_event ch i q1) ch). ev_id (qe_event x) \<noteq> i)"
proof -
  obtain queue pos where q: "hm_get (eq_queues q) ch = Some queue"
    and pos: "position (\<lambda>qe. ev_id (qe_event qe) = i) queue = Some pos"
    and q1: "q1 = q\<lparr>eq_queues := hm_put_or_drop ch (remove_at pos queue) (eq_queues q),
      eq_withheld := hm_insert ch (hm_get_or [] (eq_withheld q) ch @ [queue ! pos]) (eq_withheld q)\<rparr>"
    using assms(2) by (auto simp: mark_native_steer_pending_def split: option.splits)
  have lt: "pos < length queue" and id: "ev_id (qe_event (queue ! pos)) = i"
    using position_Some [OF pos] by auto
  have queue: "queue_of q ch = queue" by (simp add: queue_of_def hm_get_or_def q)
  have rest: "queue_of q1 ch = remove_at pos queue"
    by (simp add: q1 queue_of_def hm_get_or_def hm_get_put_or_drop)
  have split: "mset queue = {#queue ! pos#} + mset (remove_at pos queue)"
    by (subst id_take_nth_drop [OF lt]) (simp add: remove_at_def)
  then have bsplit: "batch_mset queue = {#to_batch_event (queue ! pos)#} + batch_mset (remove_at pos queue)"
    by (simp add: batch_mset_def)
  have len: "length queue \<le> MAX_PENDING_PER_CHANNEL"
    using queue_of_wf [of MAX_PENDING_PER_CHANNEL q ch] assms(1) by (simp add: queue queue_wf_def)
  have "pending_total q1 = pending_total q"
    using assms(1) bsplit queue_total [of q ch] hm_total_get_or [of "eq_withheld q" batch_mset ch]
    by (simp add: q1 pending_total_def hm_total_put_or_drop queue queue_wf_def ac_simps)
  moreover have "queue_of (release_native_steer ch i q1) ch = queue ! pos # remove_at pos queue"
  proof -
    let ?w = "hm_get_or [] (eq_withheld q) ch @ [queue ! pos]"
    have at: "position (\<lambda>qe. ev_id (qe_event qe) = i) ?w = Some (length ?w - 1)"
      using position_append_new [of "hm_get_or [] (eq_withheld q) ch"] assms(3) id by simp
    then show ?thesis
      using rest len length_remove_at [OF lt] lt
      by (simp add: release_native_steer_def q1 push_front_capped_def queue_of_def hm_get_or_def
          hm_get_put_or_drop nth_append)
  qed
  moreover have "\<forall>x \<in> set (queue_of (remove_event ch i q1) ch). ev_id (qe_event x) \<noteq> i"
    by (auto simp: remove_event_def queue_of_def drop_by_id_def hm_get_or_def hm_get_put_or_drop
        split: option.splits if_splits)
  ultimately show ?thesis
    using id split by (intro exI [of _ "queue ! pos"]) (simp add: queue rest)
qed

section \<open>A concrete queue\<close>

text \<open>One pending event and one cancelled event on channel 1.\<close>

definition sample_msg :: "hex_string \<Rightarrow> event" where
  "sample_msg i =
     \<lparr>ev_id = i, ev_pubkey = ''bb'', ev_created_at = 3, ev_kind = 9, ev_tags = [], ev_content = []\<rparr>"

definition sample_qe :: queued_event where
  "sample_qe = \<lparr>qe_channel_id = 1, qe_event = sample_msg ''e1'', qe_received_at = 5, qe_prompt_tag = []\<rparr>"

definition sample_be :: batch_event where
  "sample_be = \<lparr>be_event = sample_msg ''e0'', be_prompt_tag = [], be_received_at = 2\<rparr>"

definition sample_cancelled_batch :: flush_batch where
  "sample_cancelled_batch =
     \<lparr>fb_channel_id = 1, fb_events = [sample_be], fb_cancelled_events = [], fb_cancel_reason = None\<rparr>"

definition sample_queue :: event_queue where
  "sample_queue =
     requeue_as_cancelled sample_cancelled_batch Interrupt
       (snd (push_event sample_qe (event_queue_new Queue)))"

lemma sample_queue_eq:
  "sample_queue = (event_queue_new Queue)\<lparr>eq_queues := [(1, [sample_qe])],
     eq_cancelled := [(1, [sample_be])], eq_cancel_reasons := [(1, Interrupt)]\<rparr>"
  by (simp add: sample_queue_def requeue_as_cancelled_def push_event_def event_queue_new_def
      queue_of_def sample_cancelled_batch_def sample_qe_def MAX_PENDING_PER_CHANNEL_def
      hm_eval Let_def)

lemma sample_queue_wf: "queue_wf sample_queue"
  unfolding sample_queue_def by (intro requeue_as_cancelled_wf push_event_wf queue_wf_new)

definition sample_batch :: flush_batch where
  "sample_batch =
     \<lparr>fb_channel_id = 1, fb_events = [to_batch_event sample_qe], fb_cancelled_events = [sample_be],
      fb_cancel_reason = Some Interrupt\<rparr>"

lemma sample_expire: "expire_in_flight 10 sample_queue = sample_queue"
  by (simp add: sample_queue_eq expire_in_flight_def expired_channels_def event_queue_new_def)

definition sample_flushed :: event_queue where
  "sample_flushed = snd (flush_next 10 sample_queue)"

lemma sample_pick: "pick_channel 10 sample_queue = Some 1"
  by (simp add: sample_queue_eq pick_channel_def channel_ready_def event_queue_new_def)

lemma sample_flushed_eq: "sample_flushed = snd (flush_channel 10 1 sample_queue)"
  using sample_pick by (simp add: sample_flushed_def flush_next_def sample_expire Let_def split_def)

lemma sample_flush: "flush_next 10 sample_queue = (Some sample_batch, sample_flushed)"
proof -
  have "fst (flush_channel 10 1 sample_queue) = sample_batch"
    by (simp add: sample_queue_eq flush_channel_def event_queue_new_def queue_of_def hm_eval
        MAX_BATCH_EVENTS_def sample_batch_def Let_def)
  then show ?thesis
    using sample_pick
    by (simp add: flush_next_def sample_expire sample_flushed_eq Let_def split_def)
qed

lemma sample_flushed_fields:
  "hm_get_or 0 (eq_retry_counts sample_flushed) (fb_channel_id sample_batch) = 0"
  "queue_of sample_flushed (fb_channel_id sample_batch) = []"
  by (simp_all add: sample_flushed_eq sample_queue_eq event_queue_new_def flush_channel_def
      set_in_flight_def Let_def sample_batch_def queue_of_def MAX_BATCH_EVENTS_def hm_eval)

lemma flush_is_exclusive_and_fair_witness:
  "is_channel_in_flight sample_flushed 1"
  using flush_is_exclusive_and_fair [OF sample_queue_wf sample_flush]
  by (simp add: Let_def sample_batch_def)



lemma pool_exhaustion_loses_cancelled_witness:
  "pending_total sample_queue = pending_total (pool_exhausted_step 10 sample_queue) + {#sample_be#}"
proof -
  have "length (fb_events sample_batch) + length (queue_of sample_flushed (fb_channel_id sample_batch))
      \<le> MAX_PENDING_PER_CHANNEL"
    by (simp add: sample_flushed_fields(2)) (simp add: sample_batch_def MAX_PENDING_PER_CHANNEL_def)
  from pool_exhaustion_loses_cancelled [OF sample_queue_wf sample_flush this]
  show ?thesis by (simp add: sample_batch_def sample_expire)
qed

lemma steer_withhold_release_witness:
  "\<exists>e. ev_id (qe_event e) = ''e1'' \<and>
     queue_of (release_native_steer 1 ''e1'' (snd (mark_native_steer_pending 1 ''e1'' sample_queue))) 1
       = e # queue_of (snd (mark_native_steer_pending 1 ''e1'' sample_queue)) 1"
proof -
  have "mark_native_steer_pending 1 ''e1'' sample_queue
      = (True, snd (mark_native_steer_pending 1 ''e1'' sample_queue))"
    by (simp add: mark_native_steer_pending_def sample_queue_eq event_queue_new_def hm_get_def
        sample_qe_def sample_msg_def)
  moreover have "\<forall>e \<in> set (hm_get_or [] (eq_withheld sample_queue) 1). ev_id (qe_event e) \<noteq> ''e1''"
    by (simp add: sample_queue_eq event_queue_new_def)
  ultimately show ?thesis
    using steer_withhold_release [OF sample_queue_wf] by blast
qed

end
