(* ===== verification/Roles.thy ===== *)
theory Roles
  imports Strings
begin

text \<open>
  The enumerations of \<open>crates/buzz-core/src/channel.rs\<close>: channel visibility, channel type and
  member role with their text forms, the permission levels, and the canonical channel name.
  The error text of the parsers quotes the rejected word; the model returns the word. Strings
  are byte strings, so of the white space that \<open>char::is_whitespace\<close> knows only the ASCII
  part is recognised.
\<close>

section \<open>Channel names\<close>

definition canonical_channel_name :: "string \<Rightarrow> string" where
  "canonical_channel_name name =
     trim_end (trim_start_matches (\<lambda>c. c = CHR ''#'' \<or> is_space c) name)"

section \<open>Visibility and type\<close>

datatype channel_visibility = Open | Private

definition visibility_as_str :: "channel_visibility \<Rightarrow> string" where
  "visibility_as_str v = (case v of Open \<Rightarrow> ''open'' | Private \<Rightarrow> ''private'')"

definition visibility_from_str :: "string \<Rightarrow> (string, channel_visibility) result" where
  "visibility_from_str s =
     (if s = ''open'' then Ok Open else if s = ''private'' then Ok Private else Err s)"

datatype channel_type = Stream | Forum | Dm | Workflow

definition channel_type_as_str :: "channel_type \<Rightarrow> string" where
  "channel_type_as_str t =
     (case t of Stream \<Rightarrow> ''stream'' | Forum \<Rightarrow> ''forum'' | Dm \<Rightarrow> ''dm'' | Workflow \<Rightarrow> ''workflow'')"

definition channel_type_from_str :: "string \<Rightarrow> (string, channel_type) result" where
  "channel_type_from_str s =
     (if s = ''stream'' then Ok Stream else if s = ''forum'' then Ok Forum
      else if s = ''dm'' then Ok Dm else if s = ''workflow'' then Ok Workflow else Err s)"

section \<open>Member roles\<close>

datatype member_role = Owner | Admin | Member | Guest | Bot

definition role_as_str :: "member_role \<Rightarrow> string" where
  "role_as_str r =
     (case r of Owner \<Rightarrow> ''owner'' | Admin \<Rightarrow> ''admin'' | Member \<Rightarrow> ''member''
      | Guest \<Rightarrow> ''guest'' | Bot \<Rightarrow> ''bot'')"

definition role_from_str :: "string \<Rightarrow> (string, member_role) result" where
  "role_from_str s =
     (if s = ''owner'' then Ok Owner else if s = ''admin'' then Ok Admin
      else if s = ''member'' then Ok Member else if s = ''guest'' then Ok Guest
      else if s = ''bot'' then Ok Bot else Err s)"

definition is_elevated :: "member_role \<Rightarrow> bool" where
  "is_elevated r = (r = Owner \<or> r = Admin)"

definition permission_level :: "member_role \<Rightarrow> nat" where
  "permission_level r = (case r of Owner \<Rightarrow> 4 | Admin \<Rightarrow> 3 | Member \<Rightarrow> 2 | Guest \<Rightarrow> 1 | Bot \<Rightarrow> 0)"

definition has_at_least :: "member_role \<Rightarrow> member_role \<Rightarrow> bool" where
  "has_at_least r required = (permission_level required \<le> permission_level r)"

text \<open>
  The permission level is injective, so it makes the roles a linear order, and
  \<open>has_at_least\<close> is its \<open>\<ge>\<close>.
\<close>

lemma permission_level_inject: "permission_level r = permission_level s \<Longrightarrow> r = s"
  by (cases r; cases s) (simp_all add: permission_level_def)

instantiation member_role :: linorder
begin

definition less_eq_member_role :: "member_role \<Rightarrow> member_role \<Rightarrow> bool" where
  "less_eq_member_role r s = (permission_level r \<le> permission_level s)"

definition less_member_role :: "member_role \<Rightarrow> member_role \<Rightarrow> bool" where
  "less_member_role r s = (permission_level r < permission_level s)"

instance
  by standard
    (auto simp: less_eq_member_role_def less_member_role_def dest: permission_level_inject)

end

lemma has_at_least_iff: "has_at_least r s \<longleftrightarrow> s \<le> r"
  by (simp add: has_at_least_def less_eq_member_role_def)

lemma level_less_iff: "permission_level r < permission_level s \<longleftrightarrow> r < s"
  by (simp add: less_member_role_def)

lemma level_le_iff: "permission_level r \<le> permission_level s \<longleftrightarrow> r \<le> s"
  by (simp add: less_eq_member_role_def)

lemma is_elevated_iff: "is_elevated r \<longleftrightarrow> Admin \<le> r"
  by (cases r) (simp_all add: is_elevated_def less_eq_member_role_def permission_level_def)

lemma role_from_as_str [simp]: "role_from_str (role_as_str r) = Ok r"
  by (cases r) (simp_all add: role_from_str_def role_as_str_def)

lemma role_as_str_inject [simp]: "role_as_str r = role_as_str s \<longleftrightarrow> r = s"
  by (cases r; cases s) (simp_all add: role_as_str_def)

lemma role_as_str_owner [simp]: "role_as_str r = ''owner'' \<longleftrightarrow> r = Owner"
  by (cases r) (simp_all add: role_as_str_def)

lemma role_as_str_admin [simp]: "role_as_str r = ''admin'' \<longleftrightarrow> r = Admin"
  by (cases r) (simp_all add: role_as_str_def)

lemma visibility_from_as_str [simp]: "visibility_from_str (visibility_as_str v) = Ok v"
  by (cases v) (simp_all add: visibility_from_str_def visibility_as_str_def)

lemma channel_type_from_as_str [simp]: "channel_type_from_str (channel_type_as_str t) = Ok t"
  by (cases t) (simp_all add: channel_type_from_str_def channel_type_as_str_def)

lemma visibility_as_str_private [simp]: "visibility_as_str v = ''private'' \<longleftrightarrow> v = Private"
  by (cases v) (simp_all add: visibility_as_str_def)

lemma visibility_as_str_open [simp]: "visibility_as_str v = ''open'' \<longleftrightarrow> v = Open"
  by (cases v) (simp_all add: visibility_as_str_def)

end
