(* ===== verification/Channels.thy ===== *)
theory Channels
  imports Roles Event_Store
begin

text \<open>
  The channel tables of the database layer, \<open>crates/buzz-db/src/channel.rs\<close> and the agent
  ownership column of \<open>user.rs\<close>: rows, creation, metadata, archival, expiry and the read
  queries. A \<open>SELECT\<close> is a filter or a lookup by primary key over the rows, an \<open>UPDATE\<close> a map
  over the rows that its \<open>WHERE\<close> selects. Instants are integers of seconds; \<open>NOW()\<close> is an
  argument. Text columns that PostgreSQL types as an enumeration hold the enumeration; the
  text that a query returns is its text form. Driver errors and column length limits are not
  modelled.
\<close>

section \<open>Rows\<close>

record channel_row =
  cr_community :: community_id
  cr_id :: uuid
  cr_name :: string
  cr_type :: channel_type
  cr_visibility :: channel_visibility
  cr_description :: "string option"
  cr_canvas :: "string option"
  cr_created_by :: hex_string
  cr_created_at :: int
  cr_updated_at :: int
  cr_archived_at :: "int option"
  cr_deleted_at :: "int option"
  cr_nip29_group_id :: "string option"
  cr_topic_required :: bool
  cr_max_members :: "int option"
  cr_topic :: "string option"
  cr_topic_set_by :: "hex_string option"
  cr_topic_set_at :: "int option"
  cr_purpose :: "string option"
  cr_purpose_set_by :: "hex_string option"
  cr_purpose_set_at :: "int option"
  cr_ttl_seconds :: "int option"
  cr_ttl_deadline :: "int option"

record member_row =
  mr_community :: community_id
  mr_channel :: uuid
  mr_pubkey :: hex_string
  mr_role :: member_role
  mr_joined_at :: int
  mr_invited_by :: "hex_string option"
  mr_removed_at :: "int option"
  mr_removed_by :: "hex_string option"

record user_row =
  us_community :: community_id
  us_pubkey :: hex_string
  us_agent_owner :: "hex_string option"
  us_display_name :: "string option"
  us_avatar_url :: "string option"
  us_about :: "string option"
  us_nip05_handle :: "string option"
  us_channel_add_policy :: string

record channel_db =
  cdb_channels :: "channel_row list"
  cdb_members :: "member_row list"
  cdb_users :: "user_row list"

definition channel_at :: "community_id \<Rightarrow> uuid \<Rightarrow> channel_row \<Rightarrow> bool" where
  "channel_at c ch r \<longleftrightarrow> cr_community r = c \<and> cr_id r = ch"

definition live_channel_at :: "community_id \<Rightarrow> uuid \<Rightarrow> channel_row \<Rightarrow> bool" where
  "live_channel_at c ch r \<longleftrightarrow> channel_at c ch r \<and> cr_deleted_at r = None"

definition member_at :: "community_id \<Rightarrow> uuid \<Rightarrow> hex_string \<Rightarrow> member_row \<Rightarrow> bool" where
  "member_at c ch pk r \<longleftrightarrow> mr_community r = c \<and> mr_channel r = ch \<and> mr_pubkey r = pk"

text \<open>\<open>UPDATE channels SET ... WHERE ...\<close>: the new table and \<open>rows_affected() > 0\<close>.\<close>

definition update_channels ::
    "(channel_row \<Rightarrow> bool) \<Rightarrow> (channel_row \<Rightarrow> channel_row) \<Rightarrow> channel_db \<Rightarrow> bool \<times> channel_db" where
  "update_channels p f db =
     (list_ex p (cdb_channels db),
      db\<lparr>cdb_channels := map (\<lambda>r. if p r then f r else r) (cdb_channels db)\<rparr>)"

text \<open>Most writers turn an update of no row into \<open>ChannelNotFound\<close>.\<close>

definition update_or_not_found ::
    "uuid \<Rightarrow> (channel_row \<Rightarrow> bool) \<Rightarrow> (channel_row \<Rightarrow> channel_row) \<Rightarrow> channel_db
     \<Rightarrow> (db_error, channel_db) result" where
  "update_or_not_found ch p f db =
     (let (hit, db') = update_channels p f db in if hit then Ok db' else Err (ChannelNotFound ch))"

section \<open>Creation\<close>

definition invalid_pubkey :: "hex_string \<Rightarrow> bool" where
  "invalid_pubkey pk = (length pk \<noteq> 64)"

definition invalid_pubkey_error :: "hex_string \<Rightarrow> db_error" where
  "invalid_pubkey_error pk =
     InvalidData (''pubkey must be 32 bytes, got '' @ nat_to_string (length pk div 2))"

definition new_channel_row ::
    "int \<Rightarrow> community_id \<Rightarrow> uuid \<Rightarrow> string \<Rightarrow> channel_type \<Rightarrow> channel_visibility
     \<Rightarrow> string option \<Rightarrow> hex_string \<Rightarrow> int option \<Rightarrow> channel_row" where
  "new_channel_row now c ch name ty vis descr creator ttl =
     \<lparr>cr_community = c, cr_id = ch, cr_name = name, cr_type = ty, cr_visibility = vis,
      cr_description = descr, cr_canvas = None, cr_created_by = creator, cr_created_at = now,
      cr_updated_at = now, cr_archived_at = None, cr_deleted_at = None, cr_nip29_group_id = None,
      cr_topic_required = False, cr_max_members = None, cr_topic = None, cr_topic_set_by = None,
      cr_topic_set_at = None, cr_purpose = None, cr_purpose_set_by = None,
      cr_purpose_set_at = None, cr_ttl_seconds = ttl,
      cr_ttl_deadline = map_option (\<lambda>s. now + s) ttl\<rparr>"

text \<open>
  \<open>INSERT INTO channel_members ... ON CONFLICT DO UPDATE\<close>: a conflicting row becomes active
  with the new role and keeps its join time and inviter.
\<close>

definition upsert_member ::
    "int \<Rightarrow> community_id \<Rightarrow> uuid \<Rightarrow> hex_string \<Rightarrow> member_role \<Rightarrow> hex_string option
     \<Rightarrow> channel_db \<Rightarrow> channel_db" where
  "upsert_member now c ch pk role inviter db =
     (if list_ex (member_at c ch pk) (cdb_members db)
      then db\<lparr>cdb_members := map (\<lambda>r. if member_at c ch pk r
              then r\<lparr>mr_removed_at := None, mr_removed_by := None, mr_role := role\<rparr> else r)
            (cdb_members db)\<rparr>
      else db\<lparr>cdb_members := cdb_members db @
            [\<lparr>mr_community = c, mr_channel = ch, mr_pubkey = pk, mr_role = role,
              mr_joined_at = now, mr_invited_by = inviter, mr_removed_at = None,
              mr_removed_by = None\<rparr>]\<rparr>)"

definition create_channel ::
    "uuid \<Rightarrow> int \<Rightarrow> community_id \<Rightarrow> string \<Rightarrow> channel_type \<Rightarrow> channel_visibility \<Rightarrow> string option
     \<Rightarrow> hex_string \<Rightarrow> int option \<Rightarrow> channel_db \<Rightarrow> (db_error, channel_row \<times> channel_db) result" where
  "create_channel fresh_id now c name ty vis descr creator ttl db =
     (if invalid_pubkey creator then Err (invalid_pubkey_error creator)
      else
        (let name' = canonical_channel_name name in
         if trim name' = [] then Err (InvalidData ''channel name is required'')
         else if list_ex (channel_at c fresh_id) (cdb_channels db) then Err Sqlx
         else
           (let row = new_channel_row now c fresh_id name' ty vis descr creator ttl in
            Ok (row, upsert_member now c fresh_id creator Owner (Some creator)
                       (db\<lparr>cdb_channels := cdb_channels db @ [row]\<rparr>)))))"

definition create_channel_with_id ::
    "int \<Rightarrow> community_id \<Rightarrow> uuid \<Rightarrow> string \<Rightarrow> channel_type \<Rightarrow> channel_visibility \<Rightarrow> string option
     \<Rightarrow> hex_string \<Rightarrow> int option \<Rightarrow> channel_db
     \<Rightarrow> (db_error, (channel_row \<times> bool) \<times> channel_db) result" where
  "create_channel_with_id now c ch name ty vis descr creator ttl db =
     (if invalid_pubkey creator then Err (invalid_pubkey_error creator)
      else if ch = 0 then
        Err (InvalidData ''channel_id must not be nil (reserved for global fan-out)'')
      else
        (let name' = canonical_channel_name name in
         if trim name' = [] then Err (InvalidData ''channel name is required'')
         else
           (case find (channel_at c ch) (cdb_channels db) of
              Some row \<Rightarrow> Ok ((row, False), db)
            | None \<Rightarrow>
                (let row = new_channel_row now c ch name' ty vis descr creator ttl in
                 Ok ((row, True), upsert_member now c ch creator Owner (Some creator)
                                    (db\<lparr>cdb_channels := cdb_channels db @ [row]\<rparr>))))))"

section \<open>Reading and changing a channel\<close>

definition get_channel :: "channel_db \<Rightarrow> community_id \<Rightarrow> uuid \<Rightarrow> (db_error, channel_row) result" where
  "get_channel db c ch = ok_or (find (live_channel_at c ch) (cdb_channels db)) (ChannelNotFound ch)"

definition get_canvas :: "channel_db \<Rightarrow> community_id \<Rightarrow> uuid \<Rightarrow> (db_error, string option) result" where
  "get_canvas db c ch = bind_result (get_channel db c ch) (\<lambda>r. Ok (cr_canvas r))"

definition set_canvas ::
    "community_id \<Rightarrow> uuid \<Rightarrow> string option \<Rightarrow> channel_db \<Rightarrow> (db_error, channel_db) result" where
  "set_canvas c ch canvas db =
     update_or_not_found ch (live_channel_at c ch) (\<lambda>r. r\<lparr>cr_canvas := canvas\<rparr>) db"

record channel_update =
  up_name :: "string option"
  up_description :: "string option"
  up_visibility :: "string option"
  up_ttl_seconds :: "int option option"

definition apply_update :: "int \<Rightarrow> channel_update \<Rightarrow> channel_row \<Rightarrow> channel_row" where
  "apply_update now u r =
     (let r1 = (case up_name u of None \<Rightarrow> r | Some n \<Rightarrow> r\<lparr>cr_name := n\<rparr>);
          r2 = (case up_description u of None \<Rightarrow> r1 | Some d \<Rightarrow> r1\<lparr>cr_description := Some d\<rparr>);
          r3 = (case up_visibility u of
                  None \<Rightarrow> r2
                | Some v \<Rightarrow> (case visibility_from_str v of Ok vis \<Rightarrow> r2\<lparr>cr_visibility := vis\<rparr> | Err _ \<Rightarrow> r2));
          r4 = (case up_ttl_seconds u of
                  None \<Rightarrow> r3
                | Some ttl \<Rightarrow> r3\<lparr>cr_ttl_seconds := ttl, cr_ttl_deadline := map_option (\<lambda>s. now + s) ttl\<rparr>)
      in r4\<lparr>cr_updated_at := now\<rparr>)"

definition update_channel ::
    "int \<Rightarrow> community_id \<Rightarrow> uuid \<Rightarrow> channel_update \<Rightarrow> channel_db
     \<Rightarrow> (db_error, channel_row \<times> channel_db) result" where
  "update_channel now c ch u db =
     (if up_name u = None \<and> up_description u = None \<and> up_visibility u = None \<and> up_ttl_seconds u = None
      then Err (InvalidData ''at least one field must be provided for update'')
      else
        (let u' = u\<lparr>up_name := map_option canonical_channel_name (up_name u)\<rparr> in
         if up_name u' = Some [] then Err (InvalidData ''channel name is required'')
         else if is_some_and (\<lambda>v. \<not> is_ok (visibility_from_str v)) (up_visibility u') then Err Sqlx
         else
           bind_result (update_or_not_found ch (live_channel_at c ch) (apply_update now u') db)
             (\<lambda>db'. bind_result (get_channel db' c ch) (\<lambda>r. Ok (r, db')))))"

definition set_topic ::
    "int \<Rightarrow> community_id \<Rightarrow> uuid \<Rightarrow> string \<Rightarrow> hex_string \<Rightarrow> channel_db \<Rightarrow> (db_error, channel_db) result" where
  "set_topic now c ch topic by_pk db =
     update_or_not_found ch (live_channel_at c ch)
       (\<lambda>r. r\<lparr>cr_topic := Some topic, cr_topic_set_by := Some by_pk, cr_topic_set_at := Some now\<rparr>) db"

definition set_purpose ::
    "int \<Rightarrow> community_id \<Rightarrow> uuid \<Rightarrow> string \<Rightarrow> hex_string \<Rightarrow> channel_db \<Rightarrow> (db_error, channel_db) result" where
  "set_purpose now c ch purpose by_pk db =
     update_or_not_found ch (live_channel_at c ch)
       (\<lambda>r. r\<lparr>cr_purpose := Some purpose, cr_purpose_set_by := Some by_pk,
              cr_purpose_set_at := Some now\<rparr>) db"

definition archive_channel ::
    "int \<Rightarrow> community_id \<Rightarrow> uuid \<Rightarrow> channel_db \<Rightarrow> (db_error, channel_db) result" where
  "archive_channel now c ch db =
     (case find (live_channel_at c ch) (cdb_channels db) of
        None \<Rightarrow> Err (ChannelNotFound ch)
      | Some r \<Rightarrow>
          if cr_archived_at r \<noteq> None then Err (AccessDenied ''channel is already archived'')
          else Ok (snd (update_channels (\<lambda>x. live_channel_at c ch x \<and> cr_archived_at x = None)
                          (\<lambda>x. x\<lparr>cr_archived_at := Some now\<rparr>) db)))"

definition unarchive_channel ::
    "int \<Rightarrow> community_id \<Rightarrow> uuid \<Rightarrow> channel_db \<Rightarrow> (db_error, channel_db) result" where
  "unarchive_channel now c ch db =
     (case find (live_channel_at c ch) (cdb_channels db) of
        None \<Rightarrow> Err (ChannelNotFound ch)
      | Some r \<Rightarrow>
          if cr_archived_at r = None then Err (AccessDenied ''channel is not archived'')
          else Ok (snd (update_channels (\<lambda>x. live_channel_at c ch x \<and> cr_archived_at x \<noteq> None)
                          (\<lambda>x. x\<lparr>cr_archived_at := None,
                                  cr_ttl_deadline :=
                                    (case cr_ttl_seconds x of
                                       Some s \<Rightarrow> Some (now + s)
                                     | None \<Rightarrow> cr_ttl_deadline x)\<rparr>) db)))"

definition soft_delete_channel :: "int \<Rightarrow> community_id \<Rightarrow> uuid \<Rightarrow> channel_db \<Rightarrow> bool \<times> channel_db" where
  "soft_delete_channel now c ch db =
     update_channels (live_channel_at c ch) (\<lambda>r. r\<lparr>cr_deleted_at := Some now\<rparr>) db"

text \<open>
  The expiry sweep. The join with \<open>communities\<close> keeps the communities that are not archived;
  the set of those is an argument. The host names of the returned list are left out.
\<close>

definition ttl_expired :: "(community_id \<Rightarrow> bool) \<Rightarrow> int \<Rightarrow> channel_row \<Rightarrow> bool" where
  "ttl_expired live now r \<longleftrightarrow>
     cr_ttl_seconds r \<noteq> None \<and> is_some_and (\<lambda>d. d < now) (cr_ttl_deadline r) \<and>
     cr_archived_at r = None \<and> cr_deleted_at r = None \<and> live (cr_community r)"

definition reap_expired_ephemeral_channels ::
    "(community_id \<Rightarrow> bool) \<Rightarrow> int \<Rightarrow> channel_db \<Rightarrow> (community_id \<times> uuid) list \<times> channel_db" where
  "reap_expired_ephemeral_channels live now db =
     (map (\<lambda>r. (cr_community r, cr_id r)) (filter (ttl_expired live now) (cdb_channels db)),
      snd (update_channels (ttl_expired live now) (\<lambda>r. r\<lparr>cr_archived_at := Some now\<rparr>) db))"

definition list_channels :: "channel_db \<Rightarrow> community_id \<Rightarrow> string option \<Rightarrow> channel_row list" where
  "list_channels db c vis =
     take 1000 (sort_key (\<lambda>r. - cr_created_at r)
       (filter (\<lambda>r. cr_community r = c \<and> cr_deleted_at r = None \<and>
                  is_none_or (\<lambda>v. visibility_as_str (cr_visibility r) = v) vis)
         (cdb_channels db)))"

end
