(* ===== verification/Membership.thy ===== *)
theory Membership
  imports Channels
begin

text \<open>
  Membership of channels, \<open>crates/buzz-db/src/channel.rs\<close>: who may add, promote, demote and
  remove whom, and which channels a key can read. A database function is one transaction; its
  first statement takes the channel's membership lock, so it runs alone among the membership
  writers of that channel. Roles cross the database boundary as text, as in the source.
\<close>

section \<open>Queries\<close>

definition active_member :: "community_id \<Rightarrow> uuid \<Rightarrow> hex_string \<Rightarrow> member_row \<Rightarrow> bool" where
  "active_member c ch pk r \<longleftrightarrow> member_at c ch pk r \<and> mr_removed_at r = None"

definition get_active_role ::
    "channel_db \<Rightarrow> community_id \<Rightarrow> uuid \<Rightarrow> hex_string \<Rightarrow> string option" where
  "get_active_role db c ch pk =
     map_option (\<lambda>r. role_as_str (mr_role r)) (find (active_member c ch pk) (cdb_members db))"

definition live_channel :: "channel_db \<Rightarrow> community_id \<Rightarrow> uuid \<Rightarrow> bool" where
  "live_channel db c ch = list_ex (live_channel_at c ch) (cdb_channels db)"

definition get_member_role ::
    "channel_db \<Rightarrow> community_id \<Rightarrow> uuid \<Rightarrow> hex_string \<Rightarrow> string option" where
  "get_member_role db c ch pk = (if live_channel db c ch then get_active_role db c ch pk else None)"

definition is_member :: "channel_db \<Rightarrow> community_id \<Rightarrow> uuid \<Rightarrow> hex_string \<Rightarrow> bool" where
  "is_member db c ch pk \<longleftrightarrow>
     0 < length (filter (\<lambda>r. active_member c ch pk r \<and> live_channel db c ch) (cdb_members db))"

definition membership_pairs ::
    "channel_db \<Rightarrow> community_id \<Rightarrow> uuid list \<Rightarrow> hex_string list \<Rightarrow> (uuid \<times> hex_string) list" where
  "membership_pairs db c chs pks =
     (if chs = [] \<or> pks = [] then []
      else map (\<lambda>r. (mr_channel r, mr_pubkey r))
        (filter (\<lambda>r. mr_community r = c \<and> mr_channel r \<in> set chs \<and> mr_pubkey r \<in> set pks
            \<and> mr_removed_at r = None \<and> live_channel db c (mr_channel r)) (cdb_members db)))"

definition get_members :: "channel_db \<Rightarrow> community_id \<Rightarrow> uuid \<Rightarrow> member_row list" where
  "get_members db c ch =
     take 1000 (sort_key mr_joined_at
       (filter (\<lambda>r. mr_community r = c \<and> mr_channel r = ch \<and> mr_removed_at r = None
            \<and> live_channel db c ch) (cdb_members db)))"

definition get_members_bulk :: "channel_db \<Rightarrow> community_id \<Rightarrow> uuid list \<Rightarrow> member_row list" where
  "get_members_bulk db c chs =
     (if chs = [] then []
      else sort_key mr_joined_at
       (filter (\<lambda>r. mr_community r = c \<and> mr_channel r \<in> set chs \<and> mr_removed_at r = None
            \<and> live_channel db c (mr_channel r)) (cdb_members db)))"

definition get_member_count :: "channel_db \<Rightarrow> community_id \<Rightarrow> uuid \<Rightarrow> nat" where
  "get_member_count db c ch =
     length (filter (\<lambda>r. mr_community r = c \<and> mr_channel r = ch \<and> mr_removed_at r = None)
       (cdb_members db))"

text \<open>\<open>GROUP BY channel_id\<close> over the requested channels: channels without members are left out.\<close>

definition get_member_counts_bulk :: "channel_db \<Rightarrow> community_id \<Rightarrow> uuid list \<Rightarrow> (uuid \<times> nat) list" where
  "get_member_counts_bulk db c chs =
     filter (\<lambda>(_, n). 0 < n) (map (\<lambda>ch. (ch, get_member_count db c ch)) (dedup_first chs))"

definition get_accessible_channel_ids :: "channel_db \<Rightarrow> community_id \<Rightarrow> hex_string \<Rightarrow> uuid list" where
  "get_accessible_channel_ids db c pk =
     dedup_first
       (map mr_channel
          (filter (\<lambda>r. mr_community r = c \<and> mr_pubkey r = pk \<and> mr_removed_at r = None
             \<and> live_channel db c (mr_channel r)) (cdb_members db))
        @ map cr_id
          (filter (\<lambda>r. cr_community r = c \<and> cr_visibility r = Open \<and> cr_deleted_at r = None)
            (cdb_channels db)))"

section \<open>Agent owners\<close>

definition user_at :: "community_id \<Rightarrow> hex_string \<Rightarrow> user_row \<Rightarrow> bool" where
  "user_at c pk u \<longleftrightarrow> us_community u = c \<and> us_pubkey u = pk"

definition is_agent_owner :: "channel_db \<Rightarrow> community_id \<Rightarrow> hex_string \<Rightarrow> hex_string \<Rightarrow> bool" where
  "is_agent_owner db c target actor =
     (case find (\<lambda>u. user_at c target u \<and> us_agent_owner u \<noteq> None) (cdb_users db) of
        None \<Rightarrow> False
      | Some u \<Rightarrow> us_agent_owner u = Some actor)"

definition set_agent_owner ::
    "community_id \<Rightarrow> hex_string \<Rightarrow> hex_string \<Rightarrow> channel_db \<Rightarrow> (db_error, bool \<times> channel_db) result" where
  "set_agent_owner c agent owner_pk db =
     (let hit = (\<lambda>u. user_at c agent u \<and> us_agent_owner u = None) in
      if \<not> list_ex hit (cdb_users db)
      then (if \<not> list_ex (user_at c agent) (cdb_users db)
            then Err (NotFound ''agent pubkey not found in users table'')
            else Ok (False, db))
      else Ok (True, db\<lparr>cdb_users :=
             map (\<lambda>u. if hit u then u\<lparr>us_agent_owner := Some owner_pk\<rparr> else u) (cdb_users db)\<rparr>))"

section \<open>Adding a member\<close>

definition owner_count :: "channel_db \<Rightarrow> community_id \<Rightarrow> uuid \<Rightarrow> nat" where
  "owner_count db c ch =
     length (filter (\<lambda>r. mr_community r = c \<and> mr_channel r = ch \<and> mr_role r = Owner
       \<and> mr_removed_at r = None) (cdb_members db))"

definition parse_db_role :: "string \<Rightarrow> (db_error, member_role) result" where
  "parse_db_role s =
     (case role_from_str s of
        Ok r \<Rightarrow> Ok r
      | Err _ \<Rightarrow> Err (InvalidData (''invalid role in database: '' @ s)))"

definition creator_bootstrap :: "channel_row \<Rightarrow> hex_string \<Rightarrow> hex_string \<Rightarrow> bool" where
  "creator_bootstrap channel pk inviter \<longleftrightarrow> inviter = pk \<and> inviter = cr_created_by channel"

text \<open>The role the caller may be given: the first block of \<open>add_member\<close>.\<close>

definition effective_role ::
    "channel_db \<Rightarrow> community_id \<Rightarrow> uuid \<Rightarrow> channel_row \<Rightarrow> hex_string \<Rightarrow> member_role \<Rightarrow> hex_string option
     \<Rightarrow> (db_error, member_role) result" where
  "effective_role db c ch channel pk role invited_by =
     (if visibility_as_str (cr_visibility channel) = ''private'' then
        (case invited_by of
           None \<Rightarrow> Err (AccessDenied ''private channel requires an invite'')
         | Some inviter \<Rightarrow>
             if creator_bootstrap channel pk inviter then Ok role
             else
               (case get_active_role db c ch inviter of
                  None \<Rightarrow> Err (AccessDenied ''inviter is not an active member'')
                | Some s \<Rightarrow>
                    bind_result (parse_db_role s)
                      (\<lambda>inviter_role.
                         if is_elevated role \<and> \<not> is_elevated inviter_role
                         then Err (AccessDenied ''only owners/admins may grant elevated roles'')
                         else Ok role)))
      else if is_elevated role then
        (case Option.bind invited_by (get_active_role db c ch) of
           Some s \<Rightarrow>
             if s = ''owner'' \<or> s = ''admin'' then Ok role
             else Err (AccessDenied ''only owners/admins may grant elevated roles'')
         | None \<Rightarrow> Err (AccessDenied ''only owners/admins may grant elevated roles''))
      else Ok role)"

text \<open>
  The second block: changing the role of an active member is privileged in both directions, and
  the last owner cannot be demoted.
\<close>

definition elevated_text :: "string \<Rightarrow> bool" where
  "elevated_text s = (case role_from_str s of Ok r \<Rightarrow> is_elevated r | Err _ \<Rightarrow> False)"

definition role_change_guard ::
    "channel_db \<Rightarrow> community_id \<Rightarrow> uuid \<Rightarrow> hex_string \<Rightarrow> member_role \<Rightarrow> hex_string option
     \<Rightarrow> (db_error, unit) result" where
  "role_change_guard db c ch pk role invited_by =
     (case get_active_role db c ch pk of
        None \<Rightarrow> Ok ()
      | Some current \<Rightarrow>
          if current = role_as_str role then Ok ()
          else if \<not> is_some_and elevated_text (Option.bind invited_by (get_active_role db c ch))
          then Err (AccessDenied ''only owners/admins may change an active member's role'')
          else if current = ''owner'' \<and> role \<noteq> Owner \<and> owner_count db c ch \<le> 1
          then Err (AccessDenied ''cannot demote the last owner - transfer ownership first'')
          else Ok ())"

text \<open>
  The read-only part of the transaction, which decides the role to write, and the whole
  transaction.
\<close>

definition add_decision ::
    "channel_db \<Rightarrow> community_id \<Rightarrow> uuid \<Rightarrow> hex_string \<Rightarrow> member_role \<Rightarrow> hex_string option
     \<Rightarrow> (db_error, member_role) result" where
  "add_decision db c ch pk role invited_by =
     (if invalid_pubkey pk then Err (invalid_pubkey_error pk)
      else
        bind_result (get_channel db c ch)
          (\<lambda>channel. bind_result (effective_role db c ch channel pk role invited_by)
            (\<lambda>eff. bind_result (role_change_guard db c ch pk eff invited_by) (\<lambda>_. Ok eff))))"

definition add_member ::
    "int \<Rightarrow> community_id \<Rightarrow> uuid \<Rightarrow> hex_string \<Rightarrow> member_role \<Rightarrow> hex_string option
     \<Rightarrow> channel_db \<Rightarrow> (db_error, channel_db) result" where
  "add_member now c ch pk role invited_by db =
     bind_result (add_decision db c ch pk role invited_by)
       (\<lambda>eff. Ok (upsert_member now c ch pk eff invited_by db))"

section \<open>Removing a member\<close>

definition remove_decision ::
    "channel_db \<Rightarrow> community_id \<Rightarrow> uuid \<Rightarrow> hex_string \<Rightarrow> hex_string \<Rightarrow> (db_error, unit) result" where
  "remove_decision db c ch pk actor =
     (let is_self_remove = (pk = actor);
          actor_is_agent_owner = (if is_self_remove then False else is_agent_owner db c pk actor) in
      bind_result
        (if is_self_remove then Ok ()
         else
           (case get_active_role db c ch actor of
              None \<Rightarrow> Err (AccessDenied ''actor is not an active member'')
            | Some s \<Rightarrow>
                bind_result (parse_db_role s)
                  (\<lambda>actor_role.
                     if \<not> is_elevated actor_role \<and> \<not> actor_is_agent_owner
                     then Err (AccessDenied
                       ''only owners/admins or the agent's owner may remove other members'')
                     else Ok ())))
        (\<lambda>_. if get_active_role db c ch pk = Some ''owner'' \<and> owner_count db c ch \<le> 1
             then Err (AccessDenied ''cannot remove the last owner - transfer ownership first'')
             else if get_active_role db c ch pk = None then Err (MemberNotFound ch)
             else Ok ()))"

definition mark_removed ::
    "int \<Rightarrow> community_id \<Rightarrow> uuid \<Rightarrow> hex_string \<Rightarrow> hex_string \<Rightarrow> channel_db \<Rightarrow> channel_db" where
  "mark_removed now c ch pk actor db =
     db\<lparr>cdb_members := map (\<lambda>r. if active_member c ch pk r
          then r\<lparr>mr_removed_at := Some now, mr_removed_by := Some actor\<rparr> else r) (cdb_members db)\<rparr>"

definition remove_member ::
    "int \<Rightarrow> community_id \<Rightarrow> uuid \<Rightarrow> hex_string \<Rightarrow> hex_string \<Rightarrow> channel_db \<Rightarrow> (db_error, channel_db) result" where
  "remove_member now c ch pk actor db =
     bind_result (remove_decision db c ch pk actor) (\<lambda>_. Ok (mark_removed now c ch pk actor db))"

section \<open>The NIP-29 handlers\<close>

text \<open>
  The membership effects of \<open>handle_join_request\<close>, \<open>handle_put_user\<close>, \<open>handle_remove_user\<close> and
  \<open>handle_leave_request\<close> (\<open>side_effects.rs\<close>), with their guards. The system messages, caches
  and notifications that follow are left out; the cached membership test reads the table. The
  channel is the event's \<open>h\<close> tag and the target its \<open>p\<close> tag.
\<close>

datatype handler_error = Anyhow string | Db db_error

definition lift_db :: "(db_error, 'a) result \<Rightarrow> (handler_error, 'a) result" where
  "lift_db r = (case r of Ok x \<Rightarrow> Ok x | Err e \<Rightarrow> Err (Db e))"

definition handle_join_request ::
    "int \<Rightarrow> community_id \<Rightarrow> uuid option \<Rightarrow> hex_string \<Rightarrow> channel_db \<Rightarrow> (handler_error, channel_db) result" where
  "handle_join_request now c h_tag actor db =
     (case h_tag of
        None \<Rightarrow> Err (Anyhow ''missing h tag'')
      | Some ch \<Rightarrow>
          (case get_channel db c ch of
             Err _ \<Rightarrow> Err (Anyhow ''channel not found'')
           | Ok channel \<Rightarrow>
               if visibility_as_str (cr_visibility channel) \<noteq> ''open''
               then Err (Anyhow ''channel is private - request an invitation'')
               else if is_member db c ch actor then Ok db
               else lift_db (add_member now c ch actor Member None db)))"

definition requested_role ::
    "channel_db \<Rightarrow> community_id \<Rightarrow> uuid \<Rightarrow> hex_string \<Rightarrow> string option \<Rightarrow> (handler_error, member_role) result" where
  "requested_role db c ch target role_tag =
     (case role_tag of
        Some s \<Rightarrow>
          (case role_from_str s of Ok r \<Rightarrow> Ok r | Err _ \<Rightarrow> Err (Anyhow (''invalid role: '' @ s)))
      | None \<Rightarrow>
          (case Option.bind (find (\<lambda>m. mr_pubkey m = target) (get_members db c ch))
                  (\<lambda>m. case role_from_str (role_as_str (mr_role m)) of Ok r \<Rightarrow> Some r | Err _ \<Rightarrow> None) of
             Some r \<Rightarrow> Ok r
           | None \<Rightarrow> Ok Member))"

definition handle_put_user ::
    "int \<Rightarrow> community_id \<Rightarrow> uuid option \<Rightarrow> hex_string option \<Rightarrow> string option \<Rightarrow> hex_string
     \<Rightarrow> channel_db \<Rightarrow> (handler_error, channel_db) result" where
  "handle_put_user now c h_tag p_tag role_tag actor db =
     (case h_tag of
        None \<Rightarrow> Err (Anyhow ''missing h tag'')
      | Some ch \<Rightarrow>
          (case p_tag of
             None \<Rightarrow> Err (Anyhow ''missing p tag'')
           | Some target \<Rightarrow>
               bind_result (requested_role db c ch target role_tag)
                 (\<lambda>role. lift_db (add_member now c ch target role (Some actor) db))))"

definition leaves_last_owner :: "channel_db \<Rightarrow> community_id \<Rightarrow> uuid \<Rightarrow> hex_string \<Rightarrow> bool" where
  "leaves_last_owner db c ch actor \<longleftrightarrow>
     (let members = get_members db c ch in
      list_ex (\<lambda>m. mr_pubkey m = actor \<and> role_as_str (mr_role m) = ''owner'') members \<and>
      length (filter (\<lambda>m. role_as_str (mr_role m) = ''owner'') members) \<le> 1)"

definition handle_remove_user ::
    "int \<Rightarrow> community_id \<Rightarrow> uuid option \<Rightarrow> hex_string option \<Rightarrow> hex_string
     \<Rightarrow> channel_db \<Rightarrow> (handler_error, channel_db) result" where
  "handle_remove_user now c h_tag p_tag actor db =
     (case h_tag of
        None \<Rightarrow> Err (Anyhow ''missing h tag'')
      | Some ch \<Rightarrow>
          (case p_tag of
             None \<Rightarrow> Err (Anyhow ''missing p tag'')
           | Some target \<Rightarrow>
               if target = actor \<and> leaves_last_owner db c ch actor
               then Err (Anyhow ''cannot remove the last owner - transfer ownership first'')
               else lift_db (remove_member now c ch target actor db)))"

definition handle_leave_request ::
    "int \<Rightarrow> community_id \<Rightarrow> uuid option \<Rightarrow> hex_string \<Rightarrow> channel_db \<Rightarrow> (handler_error, channel_db) result" where
  "handle_leave_request now c h_tag actor db =
     (case h_tag of
        None \<Rightarrow> Err (Anyhow ''missing h tag'')
      | Some ch \<Rightarrow>
          if leaves_last_owner db c ch actor
          then Err (Anyhow ''cannot remove the last owner - transfer ownership first'')
          else lift_db (remove_member now c ch actor actor db))"

end
