(* ===== verification/Membership_Laws.thy ===== *)
theory Membership_Laws
  imports Membership
begin

text \<open>
  What the membership functions guarantee: the effect of each write on the roles, who may change
  whose role, that a channel never loses its last owner, that agent ownership is immutable, and
  which channels a key can read.
\<close>

section \<open>Roles as a function\<close>

definition role_of :: "channel_db \<Rightarrow> community_id \<Rightarrow> uuid \<Rightarrow> hex_string \<Rightarrow> member_role option" where
  "role_of db c ch pk = map_option mr_role (find (active_member c ch pk) (cdb_members db))"

definition has_owner :: "channel_db \<Rightarrow> community_id \<Rightarrow> uuid \<Rightarrow> bool" where
  "has_owner db c ch = list_ex (\<lambda>r. mr_community r = c \<and> mr_channel r = ch \<and> mr_role r = Owner
     \<and> mr_removed_at r = None) (cdb_members db)"

definition member_key :: "member_row \<Rightarrow> community_id \<times> uuid \<times> hex_string" where
  "member_key r = (mr_community r, mr_channel r, mr_pubkey r)"

definition keys_distinct :: "channel_db \<Rightarrow> bool" where
  "keys_distinct db = distinct (map member_key (cdb_members db))"

lemma member_at_key: "member_at c ch pk r \<longleftrightarrow> member_key r = (c, ch, pk)"
  by (auto simp: member_at_def member_key_def)

lemma get_active_role_eq: "get_active_role db c ch pk = map_option role_as_str (role_of db c ch pk)"
  by (simp add: get_active_role_def role_of_def option.map_comp comp_def)

lemma active_memberD: "active_member c ch pk r \<Longrightarrow> member_at c ch pk r"
  by (simp add: active_member_def)

lemma find_map_other:
  "(\<And>r. r \<in> set rows \<Longrightarrow> p (f r) \<longleftrightarrow> p r) \<Longrightarrow> (\<And>r. r \<in> set rows \<Longrightarrow> p r \<Longrightarrow> f r = r) \<Longrightarrow>
     find p (map f rows) = find p rows"
  by (induction rows) auto

lemma find_append: "find p (xs @ ys) = (case find p xs of None \<Rightarrow> find p ys | Some x \<Rightarrow> Some x)"
  by (induction xs) auto

lemma find_None_list_ex: "find p xs = None \<longleftrightarrow> \<not> list_ex p xs"
  by (induction xs) auto

lemma role_of_upsert [simp]:
  "role_of (upsert_member now c ch pk role inviter db) c' ch' pk' =
     (if (c', ch', pk') = (c, ch, pk) then Some role else role_of db c' ch' pk')"
proof (cases "list_ex (member_at c ch pk) (cdb_members db)")
  case True
  let ?f = "\<lambda>r. if member_at c ch pk r
    then r\<lparr>mr_removed_at := None, mr_removed_by := None, mr_role := role\<rparr> else r"
  have same: "map_option mr_role (find (active_member c ch pk) (map ?f rows)) = Some role"
    if "list_ex (member_at c ch pk) rows" for rows
    using that by (induction rows) (auto simp: active_member_def member_at_def)
  have other: "find (active_member c' ch' pk') (map ?f rows) = find (active_member c' ch' pk') rows"
    if "(c', ch', pk') \<noteq> (c, ch, pk)" for rows
    by (rule find_map_other) (use that in \<open>auto simp: active_member_def member_at_def\<close>)
  show ?thesis
    using True same other by (auto simp: role_of_def upsert_member_def)
next
  case False
  then have "find (active_member c ch pk) (cdb_members db) = None"
    by (auto simp: find_None_list_ex list_ex_iff active_member_def)
  with False show ?thesis
    by (auto simp: role_of_def upsert_member_def find_append active_member_def member_at_def
      split: option.splits)
qed

lemma role_of_mark_removed [simp]:
  "role_of (mark_removed now c ch pk actor db) c' ch' pk' =
     (if (c', ch', pk') = (c, ch, pk) then None else role_of db c' ch' pk')"
proof -
  let ?f = "\<lambda>r. if active_member c ch pk r
    then r\<lparr>mr_removed_at := Some now, mr_removed_by := Some actor\<rparr> else r"
  have same: "find (active_member c ch pk) (map ?f rows) = None" for rows
    by (induction rows) (auto simp: active_member_def member_at_def)
  have other: "find (active_member c' ch' pk') (map ?f rows) = find (active_member c' ch' pk') rows"
    if "(c', ch', pk') \<noteq> (c, ch, pk)" for rows
    by (rule find_map_other) (use that in \<open>auto simp: active_member_def member_at_def\<close>)
  show ?thesis
    using same other by (auto simp: role_of_def mark_removed_def)
qed

lemma role_of_channels [simp]: "role_of (cdb_channels_update f db) = role_of db"
  by (intro ext) (simp add: role_of_def)

lemma role_of_users [simp]: "role_of (cdb_users_update f db) = role_of db"
  by (intro ext) (simp add: role_of_def)

lemma keys_distinct_simps [simp]:
  "keys_distinct (cdb_channels_update f db) = keys_distinct db"
  "keys_distinct (cdb_users_update g db) = keys_distinct db"
  by (simp_all add: keys_distinct_def)

lemma map_key_cong:
  "(\<And>r. member_key (f r) = member_key r) \<Longrightarrow> map member_key (map f rows) = map member_key rows"
  by (simp add: comp_def)

lemma keys_distinct_upsert [simp]:
  assumes "keys_distinct db"
  shows "keys_distinct (upsert_member now c ch pk role inviter db)"
proof (cases "list_ex (member_at c ch pk) (cdb_members db)")
  case True
  have keys: "map member_key (cdb_members (upsert_member now c ch pk role inviter db))
    = map member_key (cdb_members db)"
    unfolding upsert_member_def using True
    by (simp only: if_True channel_db.select_convs channel_db.update_convs channel_db.surjective
      map_map) (simp add: member_key_def)
  show ?thesis using assms unfolding keys_distinct_def keys by simp
next
  case False
  then have "(c, ch, pk) \<notin> member_key ` set (cdb_members db)"
    by (auto simp: list_ex_iff member_at_key)
  with False assms show ?thesis
    by (simp add: keys_distinct_def upsert_member_def) (simp add: member_key_def)
qed

lemma keys_distinct_mark_removed [simp]:
  assumes "keys_distinct db"
  shows "keys_distinct (mark_removed now c ch pk actor db)"
proof -
  have "map member_key (cdb_members (mark_removed now c ch pk actor db))
    = map member_key (cdb_members db)"
    by (simp add: mark_removed_def member_key_def)
  then show ?thesis using assms by (simp add: keys_distinct_def)
qed

lemma find_unique:
  "distinct (map f xs) \<Longrightarrow> x \<in> set xs \<Longrightarrow> p x \<Longrightarrow> (\<And>y. p y \<Longrightarrow> f y = f x) \<Longrightarrow> find p xs = Some x"
proof (induction xs)
  case Nil
  then show ?case by simp
next
  case (Cons a xs)
  show ?case
  proof (cases "p a")
    case True
    then have "f a = f x" by (rule Cons.prems(4))
    with Cons.prems(1,2) have "a = x" by (auto simp: rev_image_eqI)
    with True show ?thesis by simp
  next
    case False
    with Cons.prems(2,3) have "x \<in> set xs" by auto
    moreover have "distinct (map f xs)" using Cons.prems(1) by simp
    ultimately have "find p xs = Some x"
      using Cons.IH Cons.prems(3,4) by blast
    with False show ?thesis by simp
  qed
qed

text \<open>With the primary key distinct, the owner count counts owners.\<close>

lemma role_of_active_row:
  assumes "keys_distinct db" and "r \<in> set (cdb_members db)" and "mr_removed_at r = None"
  shows "role_of db (mr_community r) (mr_channel r) (mr_pubkey r) = Some (mr_role r)"
proof -
  have "find (active_member (mr_community r) (mr_channel r) (mr_pubkey r)) (cdb_members db) = Some r"
  proof (rule find_unique)
    show "distinct (map member_key (cdb_members db))" using assms(1) by (simp add: keys_distinct_def)
    show "active_member (mr_community r) (mr_channel r) (mr_pubkey r) r"
      using assms(3) by (simp add: active_member_def member_at_def)
    show "member_key y = member_key r"
      if "active_member (mr_community r) (mr_channel r) (mr_pubkey r) y" for y
      using that by (simp add: active_member_def member_at_def member_key_def)
  qed (rule assms(2))
  then show ?thesis by (simp add: role_of_def)
qed

lemma role_of_Some_row:
  "role_of db c ch pk = Some role \<Longrightarrow> \<exists>r \<in> set (cdb_members db). active_member c ch pk r \<and> mr_role r = role"
  unfolding role_of_def by (auto simp: find_Some_iff)

lemma has_owner_iff:
  assumes "keys_distinct db"
  shows "has_owner db c ch \<longleftrightarrow> (\<exists>pk. role_of db c ch pk = Some Owner)"
proof
  assume "has_owner db c ch"
  then obtain r where "r \<in> set (cdb_members db)" "mr_removed_at r = None"
    and "mr_community r = c" "mr_channel r = ch" "mr_role r = Owner"
    by (auto simp: has_owner_def list_ex_iff)
  with role_of_active_row [OF assms, of r] show "\<exists>pk. role_of db c ch pk = Some Owner" by auto
next
  assume "\<exists>pk. role_of db c ch pk = Some Owner"
  then show "has_owner db c ch"
    by (auto simp: has_owner_def list_ex_iff active_member_def member_at_def dest!: role_of_Some_row)
qed

lemma two_owners:
  assumes wf: "keys_distinct db" and more: "1 < owner_count db c ch"
  shows "\<exists>other. other \<noteq> pk \<and> role_of db c ch other = Some Owner"
proof (rule ccontr)
  assume none: "\<not> ?thesis"
  let ?own = "\<lambda>r. mr_community r = c \<and> mr_channel r = ch \<and> mr_role r = Owner \<and> mr_removed_at r = None"
  let ?rows = "filter ?own (cdb_members db)"
  have key: "member_key r = (c, ch, pk)" if "r \<in> set ?rows" for r
  proof -
    from that have row: "r \<in> set (cdb_members db)" "mr_removed_at r = None"
      "mr_community r = c" "mr_channel r = ch" "mr_role r = Owner"
      by simp_all
    have "role_of db c ch (mr_pubkey r) = Some Owner"
      using role_of_active_row [OF wf row(1,2)] row(3-5) by simp
    then have "mr_pubkey r = pk" using none by blast
    with row(3,4) show ?thesis by (simp add: member_key_def)
  qed
  have "distinct (map member_key ?rows)"
    using wf unfolding keys_distinct_def by (rule distinct_map_filter)
  then have "length ?rows = card (set (map member_key ?rows))"
    using distinct_card [of "map member_key ?rows"] by (simp only: length_map)
  also have "\<dots> \<le> card {(c, ch, pk)}"
  proof (rule card_mono)
    show "set (map member_key ?rows) \<subseteq> {(c, ch, pk)}"
      unfolding set_map using key by blast
  qed simp
  finally show False using more by (simp add: owner_count_def)
qed

lemma one_owner_counted: "role_of db c ch pk = Some Owner \<Longrightarrow> 1 \<le> owner_count db c ch"
proof -
  assume "role_of db c ch pk = Some Owner"
  then obtain r where "r \<in> set (cdb_members db)" "active_member c ch pk r" "mr_role r = Owner"
    using role_of_Some_row by blast
  then have "r \<in> set (filter (\<lambda>r. mr_community r = c \<and> mr_channel r = ch \<and> mr_role r = Owner
       \<and> mr_removed_at r = None) (cdb_members db))"
    by (auto simp: active_member_def member_at_def)
  then have "0 < owner_count db c ch"
    unfolding owner_count_def by (rule length_pos_if_in_set)
  then show ?thesis by simp
qed


section \<open>Decisions\<close>

text \<open>
  The abstract policy: an elevated member is an active owner or admin. \<open>may_set_role\<close> and
  \<open>may_remove\<close> say who may do what; the transactions implement exactly that.
\<close>

definition elevated_in :: "channel_db \<Rightarrow> community_id \<Rightarrow> uuid \<Rightarrow> hex_string option \<Rightarrow> bool" where
  "elevated_in db c ch who \<longleftrightarrow>
     (case who of None \<Rightarrow> False | Some pk \<Rightarrow> is_some_and is_elevated (role_of db c ch pk))"

definition invite_ok ::
    "channel_db \<Rightarrow> community_id \<Rightarrow> uuid \<Rightarrow> channel_row \<Rightarrow> hex_string \<Rightarrow> member_role \<Rightarrow> hex_string option \<Rightarrow> bool"
  where
  "invite_ok db c ch channel pk role invited_by \<longleftrightarrow>
     (case cr_visibility channel of
        Private \<Rightarrow>
          (case invited_by of
             None \<Rightarrow> False
           | Some inviter \<Rightarrow>
               creator_bootstrap channel pk inviter \<or>
               role_of db c ch inviter \<noteq> None \<and>
               (is_elevated role \<longrightarrow> elevated_in db c ch (Some inviter)))
      | Open \<Rightarrow> is_elevated role \<longrightarrow> elevated_in db c ch invited_by)"

definition change_ok ::
    "channel_db \<Rightarrow> community_id \<Rightarrow> uuid \<Rightarrow> hex_string \<Rightarrow> member_role \<Rightarrow> hex_string option \<Rightarrow> bool" where
  "change_ok db c ch pk role invited_by \<longleftrightarrow>
     (case role_of db c ch pk of
        None \<Rightarrow> True
      | Some current \<Rightarrow>
          current = role \<or>
          elevated_in db c ch invited_by \<and> (current = Owner \<longrightarrow> 1 < owner_count db c ch))"

definition may_set_role ::
    "channel_db \<Rightarrow> community_id \<Rightarrow> uuid \<Rightarrow> hex_string \<Rightarrow> member_role \<Rightarrow> hex_string option \<Rightarrow> bool" where
  "may_set_role db c ch pk role invited_by \<longleftrightarrow>
     length pk = 64 \<and>
     (case find (live_channel_at c ch) (cdb_channels db) of
        None \<Rightarrow> False
      | Some channel \<Rightarrow> invite_ok db c ch channel pk role invited_by) \<and>
     change_ok db c ch pk role invited_by"

definition may_remove :: "channel_db \<Rightarrow> community_id \<Rightarrow> uuid \<Rightarrow> hex_string \<Rightarrow> hex_string \<Rightarrow> bool" where
  "may_remove db c ch pk actor \<longleftrightarrow>
     (case role_of db c ch pk of
        None \<Rightarrow> False
      | Some role \<Rightarrow>
          (pk = actor \<or> elevated_in db c ch (Some actor) \<or>
           role_of db c ch actor \<noteq> None \<and> is_agent_owner db c pk actor) \<and>
          (role = Owner \<longrightarrow> 1 < owner_count db c ch))"

lemma elevated_text_role [simp]: "elevated_text (role_as_str r) = is_elevated r"
  by (simp add: elevated_text_def)

lemma parse_db_role_as_str [simp]: "parse_db_role (role_as_str r) = Ok r"
  by (simp add: parse_db_role_def)

lemma elevated_in_simps [simp]:
  "\<not> elevated_in db c ch None"
  "elevated_in db c ch (Some pk) = is_some_and is_elevated (role_of db c ch pk)"
  by (simp_all add: elevated_in_def)

lemma effective_role_cases:
  "case effective_role db c ch channel pk role invited_by of
     Ok r \<Rightarrow> r = role \<and> invite_ok db c ch channel pk role invited_by
   | Err _ \<Rightarrow> \<not> invite_ok db c ch channel pk role invited_by"
  by (cases "cr_visibility channel"; cases invited_by)
     (auto simp: effective_role_def invite_ok_def get_active_role_eq is_elevated_def
       split: option.splits result.splits if_splits)

lemma role_change_guard_cases:
  "case role_change_guard db c ch pk role invited_by of
     Ok _ \<Rightarrow> change_ok db c ch pk role invited_by
   | Err _ \<Rightarrow> \<not> change_ok db c ch pk role invited_by"
  by (cases "role_of db c ch pk"; cases invited_by)
     (auto simp: role_change_guard_def change_ok_def get_active_role_eq elevated_in_def
       is_some_and_def split: option.splits if_splits)

lemma add_decision_cases:
  "case add_decision db c ch pk role invited_by of
     Ok r \<Rightarrow> r = role \<and> may_set_role db c ch pk role invited_by
   | Err _ \<Rightarrow> \<not> may_set_role db c ch pk role invited_by"
proof (cases "find (live_channel_at c ch) (cdb_channels db)")
  case None
  then show ?thesis
    by (simp add: add_decision_def get_channel_def ok_or_def may_set_role_def invalid_pubkey_def)
next
  case (Some channel)
  show ?thesis
    using Some effective_role_cases [of db c ch channel pk role invited_by]
      role_change_guard_cases [of db c ch pk role invited_by]
    by (auto simp: add_decision_def get_channel_def ok_or_def may_set_role_def invalid_pubkey_def
      split: result.splits)
qed

lemma remove_decision_cases:
  "case remove_decision db c ch pk actor of
     Ok _ \<Rightarrow> may_remove db c ch pk actor
   | Err _ \<Rightarrow> \<not> may_remove db c ch pk actor"
  by (cases "role_of db c ch pk"; cases "role_of db c ch actor")
     (auto simp: remove_decision_def may_remove_def get_active_role_eq is_some_and_def
       Let_def split: option.splits if_splits result.splits)


lemma add_member_Ok:
  "add_member now c ch pk role invited_by db = Ok db' \<Longrightarrow>
     may_set_role db c ch pk role invited_by \<and> db' = upsert_member now c ch pk role invited_by db"
  using add_decision_cases [of db c ch pk role invited_by]
  by (auto simp: add_member_def split: result.splits)

lemma remove_member_Ok:
  "remove_member now c ch pk actor db = Ok db' \<Longrightarrow>
     may_remove db c ch pk actor \<and> db' = mark_removed now c ch pk actor db"
  using remove_decision_cases [of db c ch pk actor]
  by (auto simp: remove_member_def split: result.splits)

text \<open>
  C26. Changing membership implements the abstract policy, in both directions. Adding a member
  succeeds exactly when the policy allows the caller to give the target that role: in a private
  channel the inviter is an active member (or the creator adding himself), only active owners
  and admins hand out elevated roles or change the role of an active member, and the last owner
  is never demoted. Success sets exactly the target's role in that channel and nothing else.
\<close>
theorem add_member_implements_policy:
  "case add_member now c ch pk role invited_by db of
     Ok db' \<Rightarrow> may_set_role db c ch pk role invited_by \<and>
       (\<forall>c' ch' pk'. role_of db' c' ch' pk' =
          (if (c', ch', pk') = (c, ch, pk) then Some role else role_of db c' ch' pk'))
   | Err _ \<Rightarrow> \<not> may_set_role db c ch pk role invited_by"
  using add_decision_cases [of db c ch pk role invited_by]
  by (auto simp: add_member_def split: result.splits)

text \<open>
  Removing a member implements the abstract policy: it succeeds exactly when the target is
  active, is not the last owner, and is removed by himself, by an active owner or admin, or by
  his agent owner, who must be an active member too. Success ends exactly that membership.
\<close>
lemma remove_member_implements_policy:
  "case remove_member now c ch pk actor db of
     Ok db' \<Rightarrow> may_remove db c ch pk actor \<and>
       (\<forall>c' ch' pk'. role_of db' c' ch' pk' =
          (if (c', ch', pk') = (c, ch, pk) then None else role_of db c' ch' pk'))
   | Err _ \<Rightarrow> \<not> may_remove db c ch pk actor"
  using remove_decision_cases [of db c ch pk actor]
  by (auto simp: remove_member_def split: result.splits)

section \<open>Runs of operations\<close>

datatype channel_op =
    OpCreate uuid int community_id string channel_type channel_visibility "string option"
      hex_string "int option"
  | OpCreateWithId int community_id uuid string channel_type channel_visibility "string option"
      hex_string "int option"
  | OpAdd int community_id uuid hex_string member_role "hex_string option"
  | OpRemove int community_id uuid hex_string hex_string
  | OpJoin int community_id "uuid option" hex_string
  | OpPutUser int community_id "uuid option" "hex_string option" "string option" hex_string
  | OpRemoveUser int community_id "uuid option" "hex_string option" hex_string
  | OpLeave int community_id "uuid option" hex_string
  | OpCanvas community_id uuid "string option"
  | OpUpdate int community_id uuid channel_update
  | OpTopic int community_id uuid string hex_string
  | OpPurpose int community_id uuid string hex_string
  | OpArchive int community_id uuid
  | OpUnarchive int community_id uuid
  | OpDelete int community_id uuid
  | OpReap "community_id list" int
  | OpAgentOwner community_id hex_string hex_string

text \<open>A failed transaction rolls back.\<close>

definition commit :: "channel_db \<Rightarrow> ('e, channel_db) result \<Rightarrow> channel_db" where
  "commit db r = (case r of Ok db' \<Rightarrow> db' | Err _ \<Rightarrow> db)"

definition commit_snd :: "channel_db \<Rightarrow> ('e, 'a \<times> channel_db) result \<Rightarrow> channel_db" where
  "commit_snd db r = (case r of Ok (_, db') \<Rightarrow> db' | Err _ \<Rightarrow> db)"

fun channel_step :: "channel_op \<Rightarrow> channel_db \<Rightarrow> channel_db" where
  "channel_step (OpCreate i now c n ty v d pk ttl) db = commit_snd db (create_channel i now c n ty v d pk ttl db)"
| "channel_step (OpCreateWithId now c i n ty v d pk ttl) db =
     commit_snd db (create_channel_with_id now c i n ty v d pk ttl db)"
| "channel_step (OpAdd now c ch pk role by_pk) db = commit db (add_member now c ch pk role by_pk db)"
| "channel_step (OpRemove now c ch pk actor) db = commit db (remove_member now c ch pk actor db)"
| "channel_step (OpJoin now c h actor) db = commit db (handle_join_request now c h actor db)"
| "channel_step (OpPutUser now c h p role actor) db = commit db (handle_put_user now c h p role actor db)"
| "channel_step (OpRemoveUser now c h p actor) db = commit db (handle_remove_user now c h p actor db)"
| "channel_step (OpLeave now c h actor) db = commit db (handle_leave_request now c h actor db)"
| "channel_step (OpCanvas c ch v) db = commit db (set_canvas c ch v db)"
| "channel_step (OpUpdate now c ch u) db = commit_snd db (update_channel now c ch u db)"
| "channel_step (OpTopic now c ch t pk) db = commit db (set_topic now c ch t pk db)"
| "channel_step (OpPurpose now c ch t pk) db = commit db (set_purpose now c ch t pk db)"
| "channel_step (OpArchive now c ch) db = commit db (archive_channel now c ch db)"
| "channel_step (OpUnarchive now c ch) db = commit db (unarchive_channel now c ch db)"
| "channel_step (OpDelete now c ch) db = snd (soft_delete_channel now c ch db)"
| "channel_step (OpReap live now) db = snd (reap_expired_ephemeral_channels (\<lambda>c. c \<in> set live) now db)"
| "channel_step (OpAgentOwner c agent o_pk) db = commit_snd db (set_agent_owner c agent o_pk db)"

text \<open>
  Every operation is one of: nothing, an authorised upsert, an authorised removal, a creation
  with its owner, a change of channel rows that keeps their keys, or an agent owner where
  there was none.
\<close>

definition same_keys :: "channel_db \<Rightarrow> channel_db \<Rightarrow> bool" where
  "same_keys db db' \<longleftrightarrow>
     map (\<lambda>r. (cr_community r, cr_id r)) (cdb_channels db') =
       map (\<lambda>r. (cr_community r, cr_id r)) (cdb_channels db) \<and>
     cdb_members db' = cdb_members db \<and> cdb_users db' = cdb_users db"

inductive channel_effect :: "channel_db \<Rightarrow> channel_db \<Rightarrow> bool" where
  effect_none: "channel_effect db db"
| effect_upsert: "may_set_role db c ch pk role by_pk \<Longrightarrow>
    channel_effect db (upsert_member now c ch pk role by_pk db)"
| effect_remove: "may_remove db c ch pk actor \<Longrightarrow>
    channel_effect db (mark_removed now c ch pk actor db)"
| effect_create: "\<forall>r \<in> set (cdb_channels db). \<not> channel_at c ch r \<Longrightarrow> cr_community row = c \<Longrightarrow>
    cr_id row = ch \<Longrightarrow>
    channel_effect db (upsert_member now c ch pk Owner (Some pk)
      (db\<lparr>cdb_channels := cdb_channels db @ [row]\<rparr>))"
| effect_rows: "same_keys db db' \<Longrightarrow> channel_effect db db'"
| effect_agent: "list_ex (\<lambda>u. user_at c agent u \<and> us_agent_owner u = None) (cdb_users db) \<Longrightarrow>
    channel_effect db (db\<lparr>cdb_users := map (\<lambda>u. if user_at c agent u \<and> us_agent_owner u = None
      then u\<lparr>us_agent_owner := Some o_pk\<rparr> else u) (cdb_users db)\<rparr>)"

lemma new_channel_row_simps [simp]:
  "cr_community (new_channel_row now c i n ty v d pk ttl) = c"
  "cr_id (new_channel_row now c i n ty v d pk ttl) = i"
  by (simp_all add: new_channel_row_def)

lemma same_keys_update_channels:
  "(\<And>r. cr_community (f r) = cr_community r \<and> cr_id (f r) = cr_id r) \<Longrightarrow>
     same_keys db (snd (update_channels p f db))"
  by (simp add: same_keys_def update_channels_def)

lemma effect_update_channels:
  "(\<And>r. cr_community (f r) = cr_community r \<and> cr_id (f r) = cr_id r) \<Longrightarrow>
     channel_effect db (snd (update_channels p f db))"
  by (intro effect_rows same_keys_update_channels)

lemma effect_update_or_not_found:
  "(\<And>r. cr_community (f r) = cr_community r \<and> cr_id (f r) = cr_id r) \<Longrightarrow>
     update_or_not_found ch p f db = Ok db' \<Longrightarrow> channel_effect db db'"
  using effect_update_channels [of f db p]
  by (auto simp: update_or_not_found_def Let_def split: prod.splits if_splits)

lemma apply_update_key [simp]:
  "cr_community (apply_update now u r) = cr_community r \<and> cr_id (apply_update now u r) = cr_id r"
  by (simp add: apply_update_def Let_def split: option.split result.split)

lemma effect_commit: "(\<And>db'. r = Ok db' \<Longrightarrow> channel_effect db db') \<Longrightarrow> channel_effect db (commit db r)"
  by (simp add: commit_def effect_none split: result.split)

lemma effect_commit_snd:
  "(\<And>x db'. r = Ok (x, db') \<Longrightarrow> channel_effect db db') \<Longrightarrow> channel_effect db (commit_snd db r)"
  by (simp add: commit_snd_def effect_none split: result.split prod.split)

lemma effect_add: "add_member now c ch pk role by_pk db = Ok db' \<Longrightarrow> channel_effect db db'"
  using add_member_Ok effect_upsert by blast

lemma effect_remove_member: "remove_member now c ch pk actor db = Ok db' \<Longrightarrow> channel_effect db db'"
  using remove_member_Ok effect_remove by blast

lemma lift_db_Ok [simp]: "lift_db r = Ok x \<longleftrightarrow> r = Ok x"
  by (simp add: lift_db_def split: result.split)

lemma effect_create_channel:
  "create_channel i now c n ty v d pk ttl db = Ok (row, db') \<Longrightarrow> channel_effect db db'"
  by (auto simp: create_channel_def Let_def list_ex_iff split: if_splits intro!: effect_create)

lemma effect_create_with_id:
  "create_channel_with_id now c i n ty v d pk ttl db = Ok (x, db') \<Longrightarrow> channel_effect db db'"
  by (auto simp: create_channel_with_id_def Let_def find_None_iff split: if_splits option.splits
    intro!: effect_create effect_none)

lemma effect_join: "handle_join_request now c h actor db = Ok db' \<Longrightarrow> channel_effect db db'"
  by (auto simp: handle_join_request_def split: if_splits option.splits result.splits
    intro: effect_add effect_none)

lemma effect_put_user: "handle_put_user now c h p role actor db = Ok db' \<Longrightarrow> channel_effect db db'"
  by (auto simp: handle_put_user_def bind_result_Ok split: option.splits intro: effect_add)

lemma effect_remove_user: "handle_remove_user now c h p actor db = Ok db' \<Longrightarrow> channel_effect db db'"
  by (auto simp: handle_remove_user_def split: option.splits if_splits intro: effect_remove_member)

lemma effect_leave: "handle_leave_request now c h actor db = Ok db' \<Longrightarrow> channel_effect db db'"
  by (auto simp: handle_leave_request_def split: option.splits if_splits intro: effect_remove_member)

lemma effect_archive: "archive_channel now c ch db = Ok db' \<Longrightarrow> channel_effect db db'"
  by (auto simp: archive_channel_def split: option.splits if_splits intro!: effect_update_channels)

lemma effect_unarchive: "unarchive_channel now c ch db = Ok db' \<Longrightarrow> channel_effect db db'"
  by (auto simp: unarchive_channel_def split: option.splits if_splits intro!: effect_update_channels)

lemma effect_update_channel: "update_channel now c ch u db = Ok (x, db') \<Longrightarrow> channel_effect db db'"
  by (auto simp: update_channel_def Let_def bind_result_Ok split: if_splits
    elim!: effect_update_or_not_found [rotated])

text \<open>Ownership of agents: the update applies only where no owner is recorded for the key.\<close>

definition users_distinct :: "channel_db \<Rightarrow> bool" where
  "users_distinct db = distinct (map (\<lambda>u. (us_community u, us_pubkey u)) (cdb_users db))"


lemma effect_set_agent_owner:
  "set_agent_owner c agent o_pk db = Ok (x, db') \<Longrightarrow> channel_effect db db'"
  by (auto simp: set_agent_owner_def Let_def split: if_splits intro: effect_none effect_agent)

lemmas channel_effects = effect_create_channel effect_create_with_id effect_add effect_remove_member
  effect_join effect_put_user effect_remove_user effect_leave effect_archive effect_unarchive
  effect_update_channel effect_set_agent_owner

lemma channel_step_effect: "channel_effect db (channel_step op db)"
  by (cases op)
     (auto intro!: effect_commit effect_commit_snd effect_update_channels
       simp: set_canvas_def set_topic_def set_purpose_def soft_delete_channel_def
         reap_expired_ephemeral_channels_def
       intro: channel_effects effect_update_or_not_found [rotated])

text \<open>What an authorised write keeps.\<close>

lemma may_set_role_keeps_owner:
  assumes wf: "keys_distinct db" and may: "may_set_role db c ch pk role by_pk"
    and own: "has_owner db c' ch'"
  shows "has_owner (upsert_member now c ch pk role by_pk db) c' ch'"
proof -
  obtain o_pk where o_pk: "role_of db c' ch' o_pk = Some Owner"
    using own has_owner_iff [OF wf] by blast
  have "\<exists>p. role_of (upsert_member now c ch pk role by_pk db) c' ch' p = Some Owner"
  proof (cases "(c', ch', o_pk) = (c, ch, pk) \<and> role \<noteq> Owner")
    case True
    with o_pk may have "1 < owner_count db c ch"
      by (auto simp: may_set_role_def change_ok_def)
    from two_owners [OF wf this] obtain other where "other \<noteq> pk" "role_of db c ch other = Some Owner"
      by blast
    with True show ?thesis by (intro exI [of _ other]) auto
  next
    case False
    with o_pk show ?thesis by (intro exI [of _ o_pk]) auto
  qed
  then show ?thesis using has_owner_iff keys_distinct_upsert [OF wf] by blast
qed

lemma may_remove_keeps_owner:
  assumes wf: "keys_distinct db" and may: "may_remove db c ch pk actor"
    and own: "has_owner db c' ch'"
  shows "has_owner (mark_removed now c ch pk actor db) c' ch'"
proof -
  obtain o_pk where o_pk: "role_of db c' ch' o_pk = Some Owner"
    using own has_owner_iff [OF wf] by blast
  have "\<exists>p. role_of (mark_removed now c ch pk actor db) c' ch' p = Some Owner"
  proof (cases "(c', ch', o_pk) = (c, ch, pk)")
    case True
    with o_pk may have "1 < owner_count db c ch"
      by (auto simp: may_remove_def)
    from two_owners [OF wf this] obtain other where "other \<noteq> pk" "role_of db c ch other = Some Owner"
      by blast
    with True show ?thesis by (intro exI [of _ other]) auto
  next
    case False
    with o_pk show ?thesis by (intro exI [of _ o_pk]) auto
  qed
  then show ?thesis using has_owner_iff keys_distinct_mark_removed [OF wf] by blast
qed

lemma has_owner_simps [simp]:
  "has_owner (cdb_channels_update f db) = has_owner db"
  "has_owner (cdb_users_update g db) = has_owner db"
  by (intro ext; simp add: has_owner_def)+

lemma upsert_tables [simp]:
  "cdb_channels (upsert_member now c ch pk role by_pk db) = cdb_channels db"
  "cdb_users (upsert_member now c ch pk role by_pk db) = cdb_users db"
  by (simp_all add: upsert_member_def)

lemma mark_removed_tables [simp]:
  "cdb_channels (mark_removed now c ch pk actor db) = cdb_channels db"
  "cdb_users (mark_removed now c ch pk actor db) = cdb_users db"
  by (simp_all add: mark_removed_def)

lemma has_owner_upsert_owner:
  assumes "keys_distinct db"
  shows "has_owner (upsert_member now c ch pk Owner by_pk db) c ch"
    and "has_owner db c' ch' \<Longrightarrow> has_owner (upsert_member now c ch pk Owner by_pk db) c' ch'"
  using assms by (auto simp: has_owner_iff)

lemma has_owner_same_members: "cdb_members db' = cdb_members db \<Longrightarrow> has_owner db' = has_owner db"
  by (intro ext) (simp add: has_owner_def)

definition owned_channels :: "channel_db \<Rightarrow> bool" where
  "owned_channels db \<longleftrightarrow> keys_distinct db \<and>
     (\<forall>k \<in> set (map (\<lambda>r. (cr_community r, cr_id r)) (cdb_channels db)). has_owner db (fst k) (snd k))"

lemma owned_channels_effect:
  assumes "channel_effect db db'" and wf: "owned_channels db"
  shows "owned_channels db'"
  using assms(1)
proof (cases rule: channel_effect.cases)
  case effect_none
  then show ?thesis using wf by simp
next
  case (effect_upsert c ch pk role by_pk now)
  then show ?thesis using wf by (auto simp: owned_channels_def intro: may_set_role_keeps_owner)
next
  case (effect_remove c ch pk actor now)
  then show ?thesis using wf by (auto simp: owned_channels_def intro: may_remove_keeps_owner)
next
  case (effect_create c ch row now pk)
  then show ?thesis using wf by (auto simp: owned_channels_def intro: has_owner_upsert_owner)
next
  case effect_rows
  then have members: "cdb_members db' = cdb_members db"
    and keys: "map (\<lambda>r. (cr_community r, cr_id r)) (cdb_channels db')
      = map (\<lambda>r. (cr_community r, cr_id r)) (cdb_channels db)"
    by (simp_all add: same_keys_def)
  have owners: "has_owner db' = has_owner db" by (rule has_owner_same_members [OF members])
  have "keys_distinct db' = keys_distinct db" by (simp add: keys_distinct_def members)
  with wf show ?thesis unfolding owned_channels_def keys owners by blast
next
  case (effect_agent c agent o_pk)
  then show ?thesis using wf by (simp add: owned_channels_def)
qed

interpretation chans: invariant_system channel_step owned_channels
  by unfold_locales (rule owned_channels_effect [OF channel_step_effect])

definition channel_db_new :: "user_row list \<Rightarrow> channel_db" where
  "channel_db_new users = \<lparr>cdb_channels = [], cdb_members = [], cdb_users = users\<rparr>"

lemma owned_channels_new: "owned_channels (channel_db_new users)"
  by (simp add: owned_channels_def channel_db_new_def keys_distinct_def)

text \<open>
  C4. Every channel always has an active owner. After any sequence of database operations and
  NIP-29 handlers, by any callers and successful or not, no channel that was ever created is
  without an owner: neither demotion, nor removal, nor leaving can take the last one away.
\<close>
theorem last_owner_survives:
  "let db = fold channel_step ops (channel_db_new users) in
     list_all (\<lambda>r. has_owner db (cr_community r) (cr_id r)) (cdb_channels db)"
  using chans.run_inv [OF owned_channels_new, of ops users]
  by (auto simp: Let_def owned_channels_def list_all_iff)

section \<open>Agent ownership is immutable\<close>

definition agent_owners :: "channel_db \<Rightarrow> (community_id \<times> hex_string \<times> hex_string) set" where
  "agent_owners db = {(c, agent, o_pk). is_agent_owner db c agent o_pk}"

lemma is_agent_owner_users [simp]:
  "is_agent_owner (upsert_member now c' ch pk role by_pk db) = is_agent_owner db"
  "is_agent_owner (mark_removed now c' ch pk actor db) = is_agent_owner db"
  "is_agent_owner (cdb_channels_update f db) = is_agent_owner db"
  by (intro ext; simp add: is_agent_owner_def)+

lemma users_distinct_unique:
  "distinct (map (\<lambda>u. (us_community u, us_pubkey u)) us) \<Longrightarrow>
     find (\<lambda>u. user_at c a u \<and> us_agent_owner u \<noteq> None) us = Some u \<Longrightarrow>
     v \<in> set us \<Longrightarrow> user_at c a v \<Longrightarrow> v = u"
proof -
  assume d: "distinct (map (\<lambda>u. (us_community u, us_pubkey u)) us)"
    and f: "find (\<lambda>u. user_at c a u \<and> us_agent_owner u \<noteq> None) us = Some u"
    and v: "v \<in> set us" "user_at c a v"
  from f have u: "u \<in> set us" "user_at c a u" by (auto simp: find_Some_iff)
  from u(2) v(2) have "(us_community v, us_pubkey v) = (us_community u, us_pubkey u)"
    by (simp add: user_at_def)
  with d u(1) v(1) show "v = u" by (auto simp: distinct_map inj_on_def)
qed

lemma agent_owner_kept:
  assumes "users_distinct db" and "is_agent_owner db c a o_pk"
  shows "is_agent_owner (db\<lparr>cdb_users := map (\<lambda>u. if user_at c' a' u \<and> us_agent_owner u = None
      then u\<lparr>us_agent_owner := Some o'\<rparr> else u) (cdb_users db)\<rparr>) c a o_pk"
proof -
  let ?p = "\<lambda>u. user_at c a u \<and> us_agent_owner u \<noteq> None"
  let ?f = "\<lambda>u. if user_at c' a' u \<and> us_agent_owner u = None then u\<lparr>us_agent_owner := Some o'\<rparr> else u"
  from assms(2) obtain u where u: "find ?p (cdb_users db) = Some u" "us_agent_owner u = Some o_pk"
    by (auto simp: is_agent_owner_def split: option.splits)
  have keep: "?p (?f v) = ?p v \<and> (?p v \<longrightarrow> ?f v = v)" if "v \<in> set (cdb_users db)" for v
  proof (cases "user_at c a v")
    case True
    with users_distinct_unique [OF _ u(1) that] assms(1) have "v = u"
      by (simp add: users_distinct_def)
    with u(2) show ?thesis by simp
  next
    case False
    then show ?thesis by (auto simp: user_at_def)
  qed
  have "find ?p (map ?f (cdb_users db)) = find ?p (cdb_users db)"
    using keep by (intro find_map_other) blast+
  with u show ?thesis by (simp add: is_agent_owner_def)
qed

lemma users_distinct_effect: "channel_effect db db' \<Longrightarrow> users_distinct db \<Longrightarrow> users_distinct db'"
proof (induction rule: channel_effect.induct)
  case (effect_agent c agent db o_pk)
  have "map (\<lambda>u. (us_community u, us_pubkey u)) (map (\<lambda>u. if user_at c agent u \<and> us_agent_owner u = None
      then u\<lparr>us_agent_owner := Some o_pk\<rparr> else u) us) = map (\<lambda>u. (us_community u, us_pubkey u)) us"
    for us by simp
  with effect_agent show ?case by (simp add: users_distinct_def del: map_map)
qed (simp_all add: users_distinct_def same_keys_def)

lemma agent_owners_effect:
  "channel_effect db db' \<Longrightarrow> users_distinct db \<Longrightarrow> agent_owners db \<subseteq> agent_owners db'"
proof (induction rule: channel_effect.induct)
  case (effect_agent c agent db o_pk)
  then show ?case by (auto simp: agent_owners_def intro: agent_owner_kept)
next
  case (effect_rows db db')
  then show ?case by (auto simp: agent_owners_def same_keys_def is_agent_owner_def)
qed (simp_all add: agent_owners_def)

interpretation agents: monotone_system channel_step users_distinct agent_owners
  by unfold_locales
    (auto intro: users_distinct_effect [OF channel_step_effect]
      dest: agent_owners_effect [OF channel_step_effect])

end
