(* ===== verification/Membership_Security.thy ===== *)
theory Membership_Security
  imports Membership_Laws
begin

text \<open>
  Security of channel membership over whole runs: unprivileged callers cannot change who is
  privileged, the one gap the policy leaves (the creator of a private channel), agent ownership,
  the channels a key can read, and why the membership lock is needed.
\<close>

section \<open>Unprivileged callers\<close>

text \<open>
  An operation is carried out by a group of callers when its actor belongs to the group; adding
  without an inviter is open to everybody.
\<close>

definition carried_out_by :: "hex_string set \<Rightarrow> channel_op \<Rightarrow> bool" where
  "carried_out_by A op \<longleftrightarrow>
     (case op of
        OpAdd _ _ _ _ _ by_pk \<Rightarrow> (case by_pk of None \<Rightarrow> True | Some a \<Rightarrow> a \<in> A)
      | OpRemove _ _ _ _ actor \<Rightarrow> actor \<in> A
      | OpJoin _ _ _ actor \<Rightarrow> actor \<in> A
      | OpPutUser _ _ _ _ _ actor \<Rightarrow> actor \<in> A
      | OpRemoveUser _ _ _ _ actor \<Rightarrow> actor \<in> A
      | OpLeave _ _ _ actor \<Rightarrow> actor \<in> A
      | OpCreate _ _ _ _ _ _ _ creator _ \<Rightarrow> creator \<in> A
      | OpCreateWithId _ _ _ _ _ _ _ creator _ \<Rightarrow> creator \<in> A
      | _ \<Rightarrow> False)"

definition privileged :: "channel_db \<Rightarrow> community_id \<Rightarrow> uuid \<Rightarrow> hex_string \<Rightarrow> member_role option" where
  "privileged db c ch pk =
     (case role_of db c ch pk of
        None \<Rightarrow> None
      | Some r \<Rightarrow> if is_elevated r then Some r else None)"

definition unprivileged_group :: "hex_string set \<Rightarrow> channel_db \<Rightarrow> community_id \<Rightarrow> uuid \<Rightarrow> bool" where
  "unprivileged_group A db c ch \<longleftrightarrow>
     (\<forall>a. a \<in> A \<longrightarrow> privileged db c ch a = None) \<and>
     (\<forall>r. find (channel_at c ch) (cdb_channels db) = Some r \<longrightarrow> cr_created_by r \<notin> A) \<and>
     (\<forall>a pk. a \<in> A \<longrightarrow> \<not> is_agent_owner db c pk a) \<and>
     list_ex (channel_at c ch) (cdb_channels db)"

text \<open>What an operation of the group can do to the tables.\<close>

inductive group_effect :: "hex_string set \<Rightarrow> channel_db \<Rightarrow> channel_db \<Rightarrow> bool" for A where
  group_none: "group_effect A db db"
| group_upsert: "may_set_role db c ch pk role by_pk \<Longrightarrow> (\<And>a. by_pk = Some a \<Longrightarrow> a \<in> A) \<Longrightarrow>
    group_effect A db (upsert_member now c ch pk role by_pk db)"
| group_remove: "may_remove db c ch pk actor \<Longrightarrow> actor \<in> A \<Longrightarrow>
    group_effect A db (mark_removed now c ch pk actor db)"
| group_create: "\<forall>r \<in> set (cdb_channels db). \<not> channel_at c ch r \<Longrightarrow> cr_community row = c \<Longrightarrow>
    cr_id row = ch \<Longrightarrow>
    group_effect A db (upsert_member now c ch pk Owner (Some pk)
      (db\<lparr>cdb_channels := cdb_channels db @ [row]\<rparr>))"

lemma group_add:
  "add_member now c ch pk role by_pk db = Ok db' \<Longrightarrow> (\<And>a. by_pk = Some a \<Longrightarrow> a \<in> A) \<Longrightarrow>
     group_effect A db db'"
  using add_member_Ok group_upsert by blast

lemma group_remove_member:
  "remove_member now c ch pk actor db = Ok db' \<Longrightarrow> actor \<in> A \<Longrightarrow> group_effect A db db'"
  using remove_member_Ok group_remove by blast

lemma group_commit: "(\<And>db'. r = Ok db' \<Longrightarrow> group_effect A db db') \<Longrightarrow> group_effect A db (commit db r)"
  by (simp add: commit_def group_none split: result.split)

lemma group_commit_snd:
  "(\<And>x db'. r = Ok (x, db') \<Longrightarrow> group_effect A db db') \<Longrightarrow> group_effect A db (commit_snd db r)"
  by (simp add: commit_snd_def group_none split: result.split prod.split)

lemma group_create_channel:
  "create_channel i now c n ty v d pk ttl db = Ok (row, db') \<Longrightarrow> group_effect A db db'"
  by (auto simp: create_channel_def Let_def list_ex_iff split: if_splits intro!: group_create)

lemma group_create_with_id:
  "create_channel_with_id now c i n ty v d pk ttl db = Ok (x, db') \<Longrightarrow> group_effect A db db'"
  by (auto simp: create_channel_with_id_def Let_def find_None_iff split: if_splits option.splits
    intro!: group_create group_none)

lemma group_join:
  "handle_join_request now c h actor db = Ok db' \<Longrightarrow> group_effect A db db'"
  by (auto simp: handle_join_request_def split: if_splits option.splits result.splits
    intro: group_add group_none)

lemma group_put_user:
  "handle_put_user now c h p role actor db = Ok db' \<Longrightarrow> actor \<in> A \<Longrightarrow> group_effect A db db'"
  by (auto simp: handle_put_user_def bind_result_Ok split: option.splits intro: group_add)

lemma group_remove_user:
  "handle_remove_user now c h p actor db = Ok db' \<Longrightarrow> actor \<in> A \<Longrightarrow> group_effect A db db'"
  by (auto simp: handle_remove_user_def split: option.splits if_splits intro: group_remove_member)

lemma group_leave:
  "handle_leave_request now c h actor db = Ok db' \<Longrightarrow> actor \<in> A \<Longrightarrow> group_effect A db db'"
  by (auto simp: handle_leave_request_def split: option.splits if_splits intro: group_remove_member)

lemma group_step:
  "carried_out_by A op \<Longrightarrow> group_effect A db (channel_step op db)"
  by (cases op)
     (auto simp: carried_out_by_def split: option.splits
       intro!: group_commit group_commit_snd
       intro: group_add group_remove_member group_create_channel group_create_with_id group_join
         group_put_user group_remove_user group_leave)

lemma privileged_iff: "privileged db c ch pk = Some r \<longleftrightarrow> role_of db c ch pk = Some r \<and> is_elevated r"
  by (auto simp: privileged_def split: option.splits if_splits)

lemma privileged_None_iff:
  "privileged db c ch pk = None \<longleftrightarrow> (\<forall>r. role_of db c ch pk = Some r \<longrightarrow> \<not> is_elevated r)"
  by (auto simp: privileged_def split: option.splits)

lemma not_elevated_group:
  "unprivileged_group A db c ch \<Longrightarrow> (\<And>a. by_pk = Some a \<Longrightarrow> a \<in> A) \<Longrightarrow> \<not> elevated_in db c ch by_pk"
  by (cases by_pk) (auto simp: unprivileged_group_def privileged_None_iff is_some_and_iff)

lemma find_SomeD: "find p xs = Some x \<Longrightarrow> x \<in> set xs \<and> p x"
  by (induction xs) (auto split: if_splits)

lemma find_live_channel:
  assumes found: "find (live_channel_at c ch) rows = Some r"
    and keys: "distinct (map (\<lambda>r. (cr_community r, cr_id r)) rows)"
  shows "find (channel_at c ch) rows = Some r"
proof (rule find_unique [OF keys])
  from find_SomeD [OF found] show "r \<in> set rows" and here: "channel_at c ch r"
    by (simp_all add: live_channel_at_def)
  show "(cr_community y, cr_id y) = (cr_community r, cr_id r)" if "channel_at c ch y" for y
    using that here by (simp add: channel_at_def)
qed

lemma group_upsert_privileged:
  assumes group: "unprivileged_group A db c ch" and by_group: "\<And>a. by_pk = Some a \<Longrightarrow> a \<in> A"
    and keys: "distinct (map (\<lambda>r. (cr_community r, cr_id r)) (cdb_channels db))"
    and may: "may_set_role db c ch pk role by_pk"
  shows "\<not> is_elevated role \<or> role_of db c ch pk = Some role"
    and "privileged db c ch pk = None \<or> role_of db c ch pk = Some role"
proof -
  have low: "\<not> elevated_in db c ch by_pk"
    by (rule not_elevated_group [OF group by_group])
  from may obtain channel where channel: "find (live_channel_at c ch) (cdb_channels db) = Some channel"
    and invite: "invite_ok db c ch channel pk role by_pk" and change: "change_ok db c ch pk role by_pk"
    by (auto simp: may_set_role_def split: option.splits)
  have "\<not> creator_bootstrap channel pk a" if "by_pk = Some a" for a
    using group by_group [OF that] find_live_channel [OF channel keys]
    by (auto simp: creator_bootstrap_def unprivileged_group_def)
  with invite low show "\<not> is_elevated role \<or> role_of db c ch pk = Some role"
    by (auto simp: invite_ok_def split: channel_visibility.splits option.splits)
  from change low show "privileged db c ch pk = None \<or> role_of db c ch pk = Some role"
    by (auto simp: change_ok_def privileged_def split: option.splits)
qed


definition channel_keys_distinct :: "channel_db \<Rightarrow> bool" where
  "channel_keys_distinct db = distinct (map (\<lambda>r. (cr_community r, cr_id r)) (cdb_channels db))"

lemma privileged_upsert:
  "privileged (upsert_member now c' ch' pk role by_pk db) c ch p =
     (if (c, ch, p) = (c', ch', pk) then if is_elevated role then Some role else None
      else privileged db c ch p)"
  by (simp add: privileged_def)

lemma privileged_channels: "privileged (cdb_channels_update f db) c ch p = privileged db c ch p"
  by (simp add: privileged_def)

lemma privileged_mark_removed:
  "privileged (mark_removed now c' ch' pk actor db) c ch p =
     (if (c, ch, p) = (c', ch', pk) then None else privileged db c ch p)"
  by (simp add: privileged_def)

lemma group_effect_privileged:
  assumes "group_effect A db db'" and group: "unprivileged_group A db c ch"
    and keys: "channel_keys_distinct db"
  shows "privileged db' c ch = privileged db c ch"
  using assms(1)
proof (cases rule: group_effect.cases)
  case group_none
  then show ?thesis by simp
next
  case (group_upsert c' ch' pk role by_pk now)
  show ?thesis
  proof (cases "(c', ch') = (c, ch)")
    case True
    with group_upsert have "may_set_role db c ch pk role by_pk" by simp
    from group_upsert_privileged [OF group group_upsert(3) keys [unfolded channel_keys_distinct_def] this]
    show ?thesis
      using True group_upsert(1) by (auto simp: fun_eq_iff privileged_upsert privileged_def)
  next
    case False
    then show ?thesis using group_upsert(1) by (auto simp: fun_eq_iff privileged_upsert)
  qed
next
  case (group_remove c' ch' pk actor now)
  show ?thesis
  proof (cases "(c', ch') = (c, ch)")
    case True
    from not_elevated_group [OF group, of "Some actor"] group_remove(3)
    have "\<not> elevated_in db c ch (Some actor)" by simp
    moreover have "\<not> is_agent_owner db c pk actor"
      using group group_remove(3) by (simp add: unprivileged_group_def)
    ultimately have "pk = actor"
      using group_remove(2) True by (auto simp: may_remove_def split: option.splits)
    then have "privileged db c ch pk = None"
      using group group_remove(3) by (simp add: unprivileged_group_def)
    then show ?thesis
      using True group_remove(1) by (auto simp: fun_eq_iff privileged_mark_removed)
  next
    case False
    then show ?thesis using group_remove(1) by (auto simp: fun_eq_iff privileged_mark_removed)
  qed
next
  case (group_create c' ch' row now pk)
  have "list_ex (channel_at c ch) (cdb_channels db)"
    using group by (simp add: unprivileged_group_def)
  with group_create(2) have "(c', ch') \<noteq> (c, ch)" by (auto simp: list_ex_iff)
  then show ?thesis
    using group_create(1) by (auto simp: fun_eq_iff privileged_upsert privileged_channels)
qed

lemma group_effect_channels:
  assumes "group_effect A db db'" and keys: "channel_keys_distinct db"
    and here: "list_ex (channel_at c ch) (cdb_channels db)"
  shows "channel_keys_distinct db' \<and> cdb_users db' = cdb_users db
    \<and> list_ex (channel_at c ch) (cdb_channels db')
    \<and> find (channel_at c ch) (cdb_channels db') = find (channel_at c ch) (cdb_channels db)"
  using assms(1)
proof (cases rule: group_effect.cases)
  case (group_create c' ch' row now pk)
  from here have "find (channel_at c ch) (cdb_channels db) \<noteq> None"
    by (simp add: find_None_list_ex)
  then have "find (channel_at c ch) (cdb_channels db @ [row]) = find (channel_at c ch) (cdb_channels db)"
    by (auto simp: find_append)
  with group_create keys here show ?thesis
    by (auto simp: channel_keys_distinct_def channel_at_def)
qed (use keys here in \<open>simp_all add: channel_keys_distinct_def\<close>)

lemma group_effect_group:
  assumes "group_effect A db db'" and "unprivileged_group A db c ch" and "channel_keys_distinct db"
  shows "unprivileged_group A db' c ch \<and> channel_keys_distinct db'
    \<and> privileged db' c ch = privileged db c ch"
proof -
  have "list_ex (channel_at c ch) (cdb_channels db)"
    using assms(2) by (simp add: unprivileged_group_def)
  from group_effect_channels [OF assms(1,3) this] group_effect_privileged [OF assms] assms(2)
  show ?thesis by (simp add: unprivileged_group_def is_agent_owner_def)
qed

text \<open>
  C3. Unprivileged callers cannot escalate. Take a channel and a group of keys none of which is
  an active owner or admin of it, its creator, or the owner of an agent. Whatever sequence of
  membership operations and handlers the members of the group (or anybody, without an inviter)
  carry out, in this channel and in all others, the owners and admins of the channel stay
  exactly the same.
\<close>
theorem unprivileged_cannot_escalate:
  assumes "unprivileged_group A db c ch" and "channel_keys_distinct db"
    and "list_all (carried_out_by A) ops"
  shows "privileged (fold channel_step ops db) c ch = privileged db c ch"
  using assms
proof (induction ops arbitrary: db)
  case Nil
  then show ?case by simp
next
  case (Cons op ops)
  then have "group_effect A db (channel_step op db)"
    using group_step by simp
  from group_effect_group [OF this Cons.prems(1,2)] Cons show ?case by simp
qed

section \<open>A sample channel\<close>

text \<open>
  Alice creates a channel and makes Bob a second owner; Mallory is nobody in particular.
\<close>

definition alice :: hex_string where "alice = replicate 64 (CHR ''a'')"
definition bob :: hex_string where "bob = replicate 64 (CHR ''b'')"
definition mallory :: hex_string where "mallory = replicate 64 (CHR ''c'')"

definition sample_ops :: "channel_visibility \<Rightarrow> channel_op list" where
  "sample_ops v =
     [OpCreateWithId 0 1 7 ''general'' Stream v None alice None,
      OpAdd 1 1 7 bob Owner (Some alice)]"

definition sample_db :: "channel_visibility \<Rightarrow> channel_db" where
  "sample_db v = fold channel_step (sample_ops v) (channel_db_new [])"

lemma keys_neq [simp]:
  "alice \<noteq> bob" "bob \<noteq> alice" "alice \<noteq> mallory" "mallory \<noteq> alice" "bob \<noteq> mallory" "mallory \<noteq> bob"
  by (simp_all add: alice_def bob_def mallory_def)

lemma keys_length [simp]: "length alice = 64" "length bob = 64" "length mallory = 64"
  by (simp_all add: alice_def bob_def mallory_def)

definition sample_member :: "hex_string \<Rightarrow> int \<Rightarrow> member_row" where
  "sample_member pk joined =
     \<lparr>mr_community = 1, mr_channel = 7, mr_pubkey = pk, mr_role = Owner, mr_joined_at = joined,
      mr_invited_by = Some alice, mr_removed_at = None, mr_removed_by = None\<rparr>"

lemma general_name: "canonical_channel_name ''general'' = ''general''" "trim ''general'' = ''general''"
  by code_simp+

lemma sample_db_eq:
  "sample_db v =
     \<lparr>cdb_channels = [new_channel_row 0 1 7 ''general'' Stream v None alice None],
      cdb_members = [sample_member alice 0, sample_member bob 1], cdb_users = []\<rparr>"
proof -
  let ?row = "new_channel_row 0 1 7 ''general'' Stream v None alice None"
  let ?db = "\<lparr>cdb_channels = [?row], cdb_members = [sample_member alice 0], cdb_users = []\<rparr>"
  have first: "channel_step (OpCreateWithId 0 1 7 ''general'' Stream v None alice None) (channel_db_new [])
    = ?db"
    by (simp add: create_channel_with_id_def invalid_pubkey_def general_name channel_db_new_def
      commit_snd_def upsert_member_def sample_member_def Let_def)
  have may: "may_set_role ?db 1 7 bob Owner (Some alice)"
    by (cases v) (simp_all add: may_set_role_def live_channel_at_def channel_at_def invite_ok_def
      change_ok_def role_of_def active_member_def member_at_def sample_member_def is_elevated_def new_channel_row_def)
  have "add_member 1 1 7 bob Owner (Some alice) ?db = Ok (upsert_member 1 1 7 bob Owner (Some alice) ?db)"
    using may add_decision_cases [of ?db 1 7 bob Owner "Some alice"]
    by (auto simp: add_member_def split: result.splits)
  then have "channel_step (OpAdd 1 1 7 bob Owner (Some alice)) ?db
    = upsert_member 1 1 7 bob Owner (Some alice) ?db"
    by (simp add: commit_def)
  with first show ?thesis
    by (simp add: sample_db_def sample_ops_def upsert_member_def member_at_def sample_member_def
      list_ex_iff)
qed

lemma unprivileged_cannot_escalate_witness:
  "privileged (fold channel_step [OpPutUser 5 1 (Some 7) (Some bob) (Some ''member'') mallory]
     (sample_db Open)) 1 7 = privileged (sample_db Open) 1 7"
  by (rule unprivileged_cannot_escalate [where A = "{mallory}"])
     (simp_all add: unprivileged_group_def sample_db_eq privileged_def role_of_def active_member_def
       member_at_def sample_member_def is_agent_owner_def channel_at_def new_channel_row_def
       channel_keys_distinct_def carried_out_by_def)


section \<open>The creator of a private channel\<close>

text \<open>
  A removed creator takes a private channel back. The bootstrap exception of \<open>add_member\<close>
  compares the caller with the creator column but never asks whether the channel is still
  empty: in a private channel the creator, removed by another owner, makes himself an active
  owner again with one call that names himself as inviter. The comment of the function rules
  exactly this out (removed ownership must not be a resurrection token).
\<close>
lemma creator_regains_ownership:
  assumes "find (live_channel_at c ch) (cdb_channels db) = Some channel"
    and "cr_visibility channel = Private" and "cr_created_by channel = pk" and "length pk = 64"
    and "role_of db c ch pk = None"
  shows "\<exists>db'. add_member now c ch pk Owner (Some pk) db = Ok db' \<and> role_of db' c ch pk = Some Owner"
proof -
  have "may_set_role db c ch pk Owner (Some pk)"
    using assms by (simp add: may_set_role_def invite_ok_def change_ok_def creator_bootstrap_def)
  then show ?thesis
    using add_decision_cases [of db c ch pk Owner "Some pk"]
    by (auto simp: add_member_def split: result.splits)
qed

text \<open>Bob removes Alice, who created the private channel, and she takes ownership back.\<close>

definition alice_removed :: channel_db where
  "alice_removed = mark_removed 2 1 7 alice bob (sample_db Private)"

lemma creator_regains_ownership_witness:
  "remove_member 2 1 7 alice bob (sample_db Private) = Ok alice_removed \<and>
   (\<exists>db'. add_member 3 1 7 alice Owner (Some alice) alice_removed = Ok db' \<and>
     role_of db' 1 7 alice = Some Owner)"
proof
  have "may_remove (sample_db Private) 1 7 alice bob"
    by (simp add: may_remove_def sample_db_eq role_of_def active_member_def member_at_def
      sample_member_def owner_count_def is_elevated_def)
  then show "remove_member 2 1 7 alice bob (sample_db Private) = Ok alice_removed"
    using remove_decision_cases [of "sample_db Private" 1 7 alice bob]
    by (auto simp: remove_member_def alice_removed_def split: result.splits)
  show "\<exists>db'. add_member 3 1 7 alice Owner (Some alice) alice_removed = Ok db' \<and>
     role_of db' 1 7 alice = Some Owner"
    by (rule creator_regains_ownership
      [where channel = "new_channel_row 0 1 7 ''general'' Stream Private None alice None"])
      (simp_all add: alice_removed_def sample_db_eq live_channel_at_def channel_at_def
        new_channel_row_def)
qed

section \<open>Agent ownership\<close>

text \<open>
  Agent ownership is immutable: once a key is recorded as the owner of an agent, no later
  operation of anybody changes it. \<open>remove_member\<close> relies on this when it looks the owner up
  before its transaction begins.
\<close>
lemma agent_owner_immutable:
  assumes "users_distinct db" and "is_agent_owner db c agent o_pk"
  shows "is_agent_owner (fold channel_step ops db) c agent o_pk"
  using agents.run_level [OF assms(1), of ops] assms(2) by (auto simp: agent_owners_def)

lemma agent_owner_immutable_witness:
  "is_agent_owner (fold channel_step [OpAgentOwner 1 bob mallory]
     (channel_db_new [\<lparr>us_community = 1, us_pubkey = bob, us_agent_owner = Some alice, us_display_name = None,
      us_avatar_url = None, us_about = None, us_nip05_handle = None, us_channel_add_policy = ''anyone''\<rparr>])) 1 bob alice"
  by (rule agent_owner_immutable)
    (simp_all add: users_distinct_def channel_db_new_def is_agent_owner_def user_at_def)

section \<open>What a key can read\<close>

lemma role_of_None_iff:
  "role_of db c ch pk = None \<longleftrightarrow> \<not> list_ex (active_member c ch pk) (cdb_members db)"
  by (simp add: role_of_def find_None_list_ex)

lemma is_member_iff: "is_member db c ch pk \<longleftrightarrow> live_channel db c ch \<and> role_of db c ch pk \<noteq> None"
  by (auto simp: is_member_def role_of_None_iff list_ex_iff filter_empty_conv)

definition open_channel :: "channel_db \<Rightarrow> community_id \<Rightarrow> uuid \<Rightarrow> bool" where
  "open_channel db c ch =
     list_ex (\<lambda>r. live_channel_at c ch r \<and> cr_visibility r = Open) (cdb_channels db)"

text \<open>
  The access queries agree. The accessible channels of a key are exactly the live channels
  that are open or of which it is an active member; the membership test, the role query and the
  pairwise query give the same answer; a soft-deleted channel is in none of them, and a key that
  was removed from a private channel cannot read it.
\<close>
lemma access_queries_agree:
  "(ch \<in> set (get_accessible_channel_ids db c pk) \<longleftrightarrow> open_channel db c ch \<or> is_member db c ch pk)
   \<and> (is_member db c ch pk \<longleftrightarrow> get_member_role db c ch pk \<noteq> None)
   \<and> ((ch, pk) \<in> set (membership_pairs db c [ch] [pk]) \<longleftrightarrow> is_member db c ch pk)
   \<and> get_member_role db c ch pk
      = (if live_channel db c ch then map_option role_as_str (role_of db c ch pk) else None)
   \<and> \<not> is_member (mark_removed now c ch pk actor db) c ch pk
   \<and> \<not> is_member (snd (soft_delete_channel now c ch db)) c ch pk"
proof -
  have "ch \<in> mr_channel ` {r \<in> set (cdb_members db). mr_community r = c \<and> mr_pubkey r = pk
      \<and> mr_removed_at r = None \<and> live_channel db c (mr_channel r)} \<longleftrightarrow> is_member db c ch pk"
    by (auto simp: is_member_iff role_of_None_iff list_ex_iff active_member_def member_at_def)
  moreover have "ch \<in> cr_id ` {r \<in> set (cdb_channels db). cr_community r = c
      \<and> cr_visibility r = Open \<and> cr_deleted_at r = None} \<longleftrightarrow> open_channel db c ch"
    by (auto simp: open_channel_def list_ex_iff live_channel_at_def channel_at_def)
  ultimately have "ch \<in> set (get_accessible_channel_ids db c pk)
      \<longleftrightarrow> open_channel db c ch \<or> is_member db c ch pk"
    by (simp add: get_accessible_channel_ids_def) blast
  moreover have "is_member db c ch pk \<longleftrightarrow> get_member_role db c ch pk \<noteq> None"
    by (auto simp: is_member_iff get_member_role_def get_active_role_eq)
  moreover have "(ch, pk) \<in> set (membership_pairs db c [ch] [pk]) \<longleftrightarrow> is_member db c ch pk"
    by (auto simp: membership_pairs_def is_member_iff role_of_None_iff list_ex_iff active_member_def
      member_at_def)
  moreover have "\<not> live_channel (snd (soft_delete_channel now c ch db)) c ch"
    by (simp add: live_channel_def soft_delete_channel_def update_channels_def list_ex_iff)
      (auto simp: live_channel_at_def channel_at_def)
  ultimately show ?thesis
    by (simp add: is_member_iff get_member_role_def get_active_role_eq)
qed

end
