(* ===== verification/Membership_Race.thy ===== *)
theory Membership_Race
  imports Membership_Security
begin

text \<open>
  The membership writers as concurrent transactions. PostgreSQL runs them under
  \<open>READ COMMITTED\<close>: the owner count that a transaction reads is a snapshot, and its write touches
  another row. A transaction takes the advisory lock of its channel
  (\<open>acquire_channel_membership_lock\<close>), reads and decides, and writes and commits; the
  transactions of a group interleave in any order. The flag \<open>locking\<close> tells whether the first
  statement is there.
\<close>

datatype membership_tx =
    TxAdd int community_id uuid hex_string member_role "hex_string option"
  | TxRemove int community_id uuid hex_string hex_string

datatype tx_write = WriteRole member_role | WriteRemoved

datatype tx_phase = Waiting | Holding | Decided tx_write | Finished

fun tx_key :: "membership_tx \<Rightarrow> community_id \<times> uuid" where
  "tx_key (TxAdd _ c ch _ _ _) = (c, ch)"
| "tx_key (TxRemove _ c ch _ _) = (c, ch)"

fun tx_decide :: "membership_tx \<Rightarrow> channel_db \<Rightarrow> tx_write option" where
  "tx_decide (TxAdd _ c ch pk role by_pk) db =
     (case add_decision db c ch pk role by_pk of Ok r \<Rightarrow> Some (WriteRole r) | Err _ \<Rightarrow> None)"
| "tx_decide (TxRemove _ c ch pk actor) db =
     (case remove_decision db c ch pk actor of Ok _ \<Rightarrow> Some WriteRemoved | Err _ \<Rightarrow> None)"

fun tx_apply :: "membership_tx \<Rightarrow> tx_write \<Rightarrow> channel_db \<Rightarrow> channel_db" where
  "tx_apply (TxAdd now c ch pk _ by_pk) (WriteRole r) db = upsert_member now c ch pk r by_pk db"
| "tx_apply (TxRemove now c ch pk actor) WriteRemoved db = mark_removed now c ch pk actor db"
| "tx_apply _ _ db = db"

record race =
  rc_db :: channel_db
  rc_locks :: "((community_id \<times> uuid) \<times> nat) list"
  rc_phases :: "tx_phase list"

definition unlock :: "nat \<Rightarrow> race \<Rightarrow> race" where
  "unlock i s = s\<lparr>rc_locks := filter (\<lambda>l. snd l \<noteq> i) (rc_locks s), rc_phases := (rc_phases s)[i := Finished]\<rparr>"

inductive race_step :: "bool \<Rightarrow> membership_tx list \<Rightarrow> race \<Rightarrow> race \<Rightarrow> bool" for locking txs where
  step_acquire: "i < length txs \<Longrightarrow> rc_phases s ! i = Waiting \<Longrightarrow>
    locking \<longrightarrow> tx_key (txs ! i) \<notin> fst ` set (rc_locks s) \<Longrightarrow>
    race_step locking txs s
      (s\<lparr>rc_locks := (tx_key (txs ! i), i) # rc_locks s, rc_phases := (rc_phases s)[i := Holding]\<rparr>)"
| step_decide: "i < length txs \<Longrightarrow> rc_phases s ! i = Holding \<Longrightarrow>
    tx_decide (txs ! i) (rc_db s) = Some w \<Longrightarrow>
    race_step locking txs s (s\<lparr>rc_phases := (rc_phases s)[i := Decided w]\<rparr>)"
| step_deny: "i < length txs \<Longrightarrow> rc_phases s ! i = Holding \<Longrightarrow>
    tx_decide (txs ! i) (rc_db s) = None \<Longrightarrow> race_step locking txs s (unlock i s)"
| step_commit: "i < length txs \<Longrightarrow> rc_phases s ! i = Decided w \<Longrightarrow>
    race_step locking txs s (unlock i (s\<lparr>rc_db := tx_apply (txs ! i) w (rc_db s)\<rparr>))"

definition race_start :: "channel_db \<Rightarrow> membership_tx list \<Rightarrow> race" where
  "race_start db txs = \<lparr>rc_db = db, rc_locks = [], rc_phases = map (\<lambda>_. Waiting) txs\<rparr>"

inductive race_reachable :: "bool \<Rightarrow> membership_tx list \<Rightarrow> channel_db \<Rightarrow> race \<Rightarrow> bool"
  for locking txs db where
  race_init: "race_reachable locking txs db (race_start db txs)"
| race_next: "race_reachable locking txs db s \<Longrightarrow> race_step locking txs s s' \<Longrightarrow>
    race_reachable locking txs db s'"

section \<open>Decisions do not depend on other channels\<close>

lemma owner_count_upsert_other:
  "(c', ch') \<noteq> (c, ch) \<Longrightarrow> owner_count (upsert_member now c ch pk role by_pk db) c' ch' = owner_count db c' ch'"
proof -
  assume other: "(c', ch') \<noteq> (c, ch)"
  let ?f = "\<lambda>r. if member_at c ch pk r
    then r\<lparr>mr_removed_at := None, mr_removed_by := None, mr_role := role\<rparr> else r"
  let ?p = "\<lambda>r. mr_community r = c' \<and> mr_channel r = ch' \<and> mr_role r = Owner \<and> mr_removed_at r = None"
  have "filter ?p (map ?f rows) = filter ?p rows" for rows
    using other by (induction rows) (auto simp: member_at_def)
  with other show ?thesis by (auto simp: owner_count_def upsert_member_def)
qed

lemma owner_count_mark_removed_other:
  "(c', ch') \<noteq> (c, ch) \<Longrightarrow> owner_count (mark_removed now c ch pk actor db) c' ch' = owner_count db c' ch'"
proof -
  assume other: "(c', ch') \<noteq> (c, ch)"
  let ?f = "\<lambda>r. if active_member c ch pk r
    then r\<lparr>mr_removed_at := Some now, mr_removed_by := Some actor\<rparr> else r"
  let ?p = "\<lambda>r. mr_community r = c' \<and> mr_channel r = ch' \<and> mr_role r = Owner \<and> mr_removed_at r = None"
  have "filter ?p (map ?f rows) = filter ?p rows" for rows
    using other by (induction rows) (auto simp: active_member_def member_at_def)
  then show ?thesis by (simp add: owner_count_def mark_removed_def)
qed

lemma elevated_in_cong:
  "role_of db' c ch = role_of db c ch \<Longrightarrow> elevated_in db' c ch who = elevated_in db c ch who"
  by (cases who) simp_all

lemma may_set_role_cong:
  assumes "cdb_channels db' = cdb_channels db" and "role_of db' c ch = role_of db c ch"
    and "owner_count db' c ch = owner_count db c ch"
  shows "may_set_role db' c ch pk role by_pk = may_set_role db c ch pk role by_pk"
  unfolding may_set_role_def invite_ok_def change_ok_def elevated_in_cong [OF assms(2)] assms ..

lemma may_remove_cong:
  assumes "cdb_users db' = cdb_users db" and "role_of db' c ch = role_of db c ch"
    and "owner_count db' c ch = owner_count db c ch"
  shows "may_remove db' c ch pk actor = may_remove db c ch pk actor"
proof -
  have owners: "is_agent_owner db' = is_agent_owner db"
    by (intro ext) (simp add: is_agent_owner_def assms(1))
  show ?thesis
    unfolding may_remove_def elevated_in_cong [OF assms(2)] assms(2,3) owners ..
qed

lemma tx_decide_eq:
  "tx_decide (TxAdd now c ch pk role by_pk) db =
     (if may_set_role db c ch pk role by_pk then Some (WriteRole role) else None)"
  "tx_decide (TxRemove now c ch pk actor) db =
     (if may_remove db c ch pk actor then Some WriteRemoved else None)"
  using add_decision_cases [of db c ch pk role by_pk] remove_decision_cases [of db c ch pk actor]
  by (auto split: result.splits)

lemma tx_apply_tables:
  "cdb_channels (tx_apply tx w db) = cdb_channels db \<and> cdb_users (tx_apply tx w db) = cdb_users db"
  by (cases "(tx, w, db)" rule: tx_apply.cases) auto

lemma tx_apply_other:
  assumes "tx_key tx \<noteq> (c, ch)"
  shows "role_of (tx_apply tx w db) c ch = role_of db c ch
    \<and> owner_count (tx_apply tx w db) c ch = owner_count db c ch"
  using assms
  by (cases "(tx, w, db)" rule: tx_apply.cases)
    (auto simp: fun_eq_iff owner_count_upsert_other owner_count_mark_removed_other)

lemma tx_decide_other:
  assumes "tx_key tx \<noteq> tx_key tx'"
  shows "tx_decide tx' (tx_apply tx w db) = tx_decide tx' db"
proof (cases tx')
  case (TxAdd now c ch pk role by_pk)
  with assms have "tx_key tx \<noteq> (c, ch)" by simp
  from tx_apply_other [OF this, of w db] tx_apply_tables [of tx w db] show ?thesis
    unfolding TxAdd tx_decide_eq by (subst may_set_role_cong [where db = db]) auto
next
  case (TxRemove now c ch pk actor)
  with assms have "tx_key tx \<noteq> (c, ch)" by simp
  from tx_apply_other [OF this, of w db] tx_apply_tables [of tx w db] show ?thesis
    unfolding TxRemove tx_decide_eq by (subst may_remove_cong [where db = db]) auto
qed

lemma tx_commit_keeps_owner:
  assumes "tx_decide tx db = Some w" and "keys_distinct db" and "has_owner db c ch"
  shows "keys_distinct (tx_apply tx w db) \<and> has_owner (tx_apply tx w db) c ch"
  using assms
  by (cases tx) (auto simp: tx_decide_eq simp del: tx_decide.simps split: if_splits
    intro: may_set_role_keeps_owner may_remove_keeps_owner)


section \<open>Locked transactions\<close>

text \<open>
  A transaction that is past its first statement holds the lock of its channel, nobody else
  does, and what it has decided is still what it would decide now.
\<close>

definition busy :: "tx_phase \<Rightarrow> bool" where
  "busy p \<longleftrightarrow> (case p of Holding \<Rightarrow> True | Decided _ \<Rightarrow> True | _ \<Rightarrow> False)"

definition race_inv :: "membership_tx list \<Rightarrow> race \<Rightarrow> bool" where
  "race_inv txs s \<longleftrightarrow>
     length (rc_phases s) = length txs \<and> distinct (map fst (rc_locks s)) \<and>
     (\<forall>i < length txs. busy (rc_phases s ! i) \<longrightarrow> (tx_key (txs ! i), i) \<in> set (rc_locks s)) \<and>
     (\<forall>i < length txs. \<forall>w. rc_phases s ! i = Decided w \<longrightarrow> tx_decide (txs ! i) (rc_db s) = Some w)"

lemma busy_simps [simp]: "busy Holding" "busy (Decided w)" "\<not> busy Waiting" "\<not> busy Finished"
  by (simp_all add: busy_def)

lemma race_inv_keys:
  assumes "race_inv txs s" and "i < length txs" "j < length txs" and "i \<noteq> j"
    and "busy (rc_phases s ! i)" and "busy (rc_phases s ! j)"
  shows "tx_key (txs ! i) \<noteq> tx_key (txs ! j)"
proof
  assume same: "tx_key (txs ! i) = tx_key (txs ! j)"
  have "(tx_key (txs ! i), i) \<in> set (rc_locks s)" "(tx_key (txs ! j), j) \<in> set (rc_locks s)"
    using assms by (simp_all add: race_inv_def)
  moreover have "distinct (map fst (rc_locks s))" using assms(1) by (simp add: race_inv_def)
  ultimately have "(tx_key (txs ! i), i) = (tx_key (txs ! j), j)"
    using same unfolding distinct_map inj_on_def by fastforce
  then have "i = j" by simp
  with assms(4) show False by simp
qed

lemma race_inv_unlock:
  assumes "race_inv txs s" and "i < length txs"
  shows "race_inv txs (unlock i s)"
  using assms
  by (auto simp: race_inv_def unlock_def nth_list_update distinct_map_filter)

lemma race_inv_db:
  assumes "race_inv txs s" and "\<And>j. j < length txs \<Longrightarrow> tx_decide (txs ! j) db = tx_decide (txs ! j) (rc_db s)
    \<or> \<not> busy (rc_phases s ! j)"
  shows "race_inv txs (s\<lparr>rc_db := db\<rparr>)"
proof -
  have "tx_decide (txs ! j) db = Some w" if "j < length txs" "rc_phases s ! j = Decided w" for j w
    using assms(2) [OF that(1)] assms(1) that by (simp add: race_inv_def)
  with assms(1) show ?thesis by (simp add: race_inv_def)
qed

lemma race_inv_commit:
  assumes inv: "race_inv txs s" and i: "i < length txs" and phase: "rc_phases s ! i = Decided w"
  shows "race_inv txs (unlock i (s\<lparr>rc_db := tx_apply (txs ! i) w (rc_db s)\<rparr>))"
proof -
  let ?db = "tx_apply (txs ! i) w (rc_db s)"
  have "race_inv txs (unlock i s)" by (rule race_inv_unlock [OF inv i])
  then have "race_inv txs ((unlock i s)\<lparr>rc_db := ?db\<rparr>)"
  proof (rule race_inv_db)
    fix j assume j: "j < length txs"
    show "tx_decide (txs ! j) ?db = tx_decide (txs ! j) (rc_db (unlock i s))
      \<or> \<not> busy (rc_phases (unlock i s) ! j)"
    proof (cases "j = i")
      case True
      then show ?thesis using inv i by (simp add: unlock_def race_inv_def)
    next
      case False
      show ?thesis
      proof (cases "busy (rc_phases s ! j)")
        case True
        with race_inv_keys [OF inv i j _ _ True] False phase
        have "tx_key (txs ! i) \<noteq> tx_key (txs ! j)" by auto
        then show ?thesis by (simp add: unlock_def tx_decide_other)
      next
        case idle: False
        then show ?thesis using False by (simp add: unlock_def)
      qed
    qed
  qed
  moreover have "(unlock i s)\<lparr>rc_db := ?db\<rparr> = unlock i (s\<lparr>rc_db := ?db\<rparr>)"
    by (cases s) (simp add: unlock_def)
  ultimately show ?thesis by simp
qed

lemma race_inv_step:
  assumes "race_step True txs s s'" and inv: "race_inv txs s"
  shows "race_inv txs s'"
  using assms(1)
proof (cases rule: race_step.cases)
  case (step_acquire i)
  then show ?thesis
    using inv by (auto simp: race_inv_def nth_list_update)
next
  case (step_decide i w)
  then show ?thesis
    using inv by (auto simp: race_inv_def nth_list_update split: if_splits)
next
  case (step_deny i)
  then show ?thesis using inv by (simp add: race_inv_unlock)
next
  case (step_commit i w)
  then show ?thesis using inv by (simp add: race_inv_commit)
qed

lemma race_owner_step:
  assumes "race_step True txs s s'" and inv: "race_inv txs s"
    and "keys_distinct (rc_db s)" and "has_owner (rc_db s) c ch"
  shows "keys_distinct (rc_db s') \<and> has_owner (rc_db s') c ch"
  using assms(1)
proof (cases rule: race_step.cases)
  case (step_commit i w)
  with inv have "tx_decide (txs ! i) (rc_db s) = Some w" by (simp add: race_inv_def)
  from tx_commit_keeps_owner [OF this assms(3,4)] step_commit show ?thesis
    by (simp add: unlock_def)
qed (use assms in \<open>simp_all add: unlock_def\<close>)

lemma race_reachable_inv:
  assumes "race_reachable True txs db s" and "keys_distinct db" and "has_owner db c ch"
  shows "race_inv txs s \<and> keys_distinct (rc_db s) \<and> has_owner (rc_db s) c ch"
  using assms(1)
proof (induction rule: race_reachable.induct)
  case race_init
  then show ?case using assms(2,3) by (simp add: race_start_def race_inv_def)
next
  case (race_next s s')
  then show ?case using race_inv_step race_owner_step by blast
qed

section \<open>Without the lock\<close>

text \<open>Two owners remove each other: both count two owners, both pass, nobody is left.\<close>

definition mutual_removal :: "membership_tx list" where
  "mutual_removal = [TxRemove 2 1 7 alice bob, TxRemove 3 1 7 bob alice]"

lemma sample_removals:
  "tx_decide (TxRemove 2 1 7 alice bob) (sample_db v) = Some WriteRemoved"
  "tx_decide (TxRemove 3 1 7 bob alice) (sample_db v) = Some WriteRemoved"
  unfolding tx_decide_eq
  by (simp_all add: may_remove_def sample_db_eq role_of_def active_member_def member_at_def
    sample_member_def owner_count_def is_elevated_def)

lemma nobody_left:
  "\<not> has_owner (mark_removed 3 1 7 bob alice (mark_removed 2 1 7 alice bob (sample_db v))) 1 7"
  by (simp add: has_owner_def mark_removed_def sample_db_eq active_member_def member_at_def
    sample_member_def)

lemma mutual_removal_reachable:
  "\<exists>s. race_reachable False mutual_removal (sample_db v) s \<and>
     rc_db s = mark_removed 3 1 7 bob alice (mark_removed 2 1 7 alice bob (sample_db v))"
proof -
  let ?db = "sample_db v" and ?txs = mutual_removal
  let ?db1 = "mark_removed 2 1 7 alice bob ?db"
  let ?s = "\<lambda>db l p. \<lparr>rc_db = db, rc_locks = l, rc_phases = p\<rparr>"
  have r0: "race_reachable False ?txs ?db (?s ?db [] [Waiting, Waiting])"
    using race_init [of False ?txs ?db] by (simp add: race_start_def mutual_removal_def)
  have r1: "race_reachable False ?txs ?db (?s ?db [((1, 7), 0)] [Holding, Waiting])"
    using race_next [OF r0 step_acquire [of 0]] by (simp add: mutual_removal_def)
  have r2: "race_reachable False ?txs ?db (?s ?db [((1, 7), 1), ((1, 7), 0)] [Holding, Holding])"
    using race_next [OF r1 step_acquire [of 1]] by (simp add: mutual_removal_def)
  have r3: "race_reachable False ?txs ?db
      (?s ?db [((1, 7), 1), ((1, 7), 0)] [Decided WriteRemoved, Holding])"
    using race_next [OF r2 step_decide [of 0 _ _ WriteRemoved]] sample_removals(1) [of v]
    by (simp add: mutual_removal_def del: tx_decide.simps)
  have r4: "race_reachable False ?txs ?db
      (?s ?db [((1, 7), 1), ((1, 7), 0)] [Decided WriteRemoved, Decided WriteRemoved])"
    using race_next [OF r3 step_decide [of 1 _ _ WriteRemoved]] sample_removals(2) [of v]
    by (simp add: mutual_removal_def del: tx_decide.simps)
  have r5: "race_reachable False ?txs ?db (?s ?db1 [((1, 7), 1)] [Finished, Decided WriteRemoved])"
    using race_next [OF r4 step_commit [of 0 _ _ WriteRemoved]]
    by (simp add: mutual_removal_def unlock_def)
  have r6: "race_reachable False ?txs ?db
      (?s (mark_removed 3 1 7 bob alice ?db1) [] [Finished, Finished])"
    using race_next [OF r5 step_commit [of 1 _ _ WriteRemoved]]
    by (simp add: mutual_removal_def unlock_def)
  then show ?thesis by (intro exI conjI) (assumption, simp)
qed

text \<open>
  C20. The membership lock is what keeps the last owner. However many membership transactions
  interleave, statement by statement, a channel that has an owner keeps one in every reachable
  state when each transaction takes the lock of its channel first; without the lock two owners
  who remove each other leave the channel without any.
\<close>
theorem membership_lock_keeps_owner:
  assumes "race_reachable True txs db s" and "keys_distinct db" and "has_owner db c ch"
  shows "has_owner (rc_db s) c ch \<and>
    (\<exists>bad. race_reachable False mutual_removal (sample_db Open) bad \<and> \<not> has_owner (rc_db bad) 1 7)"
  using race_reachable_inv [OF assms] mutual_removal_reachable [of Open] nobody_left [of Open]
  by metis

lemma membership_lock_keeps_owner_witness:
  "has_owner (rc_db (race_start (sample_db Open) mutual_removal)) 1 7"
  using membership_lock_keeps_owner [OF race_init [of True mutual_removal "sample_db Open"], of 1 7]
  by (simp add: keys_distinct_def has_owner_def sample_db_eq sample_member_def member_key_def)

end
