(* ===== verification/Git_Perms.thy ===== *)
theory Git_Perms
  imports Roles
begin

text \<open>
  Git push permissions, \<open>crates/buzz-core/src/git_perms.rs\<close>: reference patterns, update kinds,
  protection rules parsed from \<open>buzz-protect\<close> tags, and the evaluation of a push. Strings are
  byte strings; \<open>len()\<close> is their length.
\<close>

section \<open>Patterns\<close>

definition MAX_PROTECTION_RULES :: nat where "MAX_PROTECTION_RULES = 50"
definition MAX_PATTERN_LENGTH :: nat where "MAX_PATTERN_LENGTH = 256"
definition MAX_WILDCARDS_PER_PATTERN :: nat where "MAX_WILDCARDS_PER_PATTERN = 3"

datatype pattern_segment = Literal string | Wildcard | RecursiveWildcard

datatype pattern_error =
    Empty
  | TooLong
  | MissingRefsPrefix
  | InvalidSegment string
  | TooManyWildcards

record ref_pattern =
  rp_raw :: string
  rp_segments :: "pattern_segment list"

definition is_ref_char :: "char \<Rightarrow> bool" where
  "is_ref_char c =
     (let n = (of_char c :: nat) in
      (48 \<le> n \<and> n \<le> 57) \<or> (65 \<le> n \<and> n \<le> 90) \<or> (97 \<le> n \<and> n \<le> 122) \<or>
      c = CHR ''.'' \<or> c = CHR ''_'' \<or> c = CHR ''-'')"

text \<open>The loop over the parts; \<open>n\<close> is the running wildcard count.\<close>

fun parse_parts ::
    "nat \<Rightarrow> string list \<Rightarrow> pattern_segment list \<Rightarrow> (pattern_error, pattern_segment list) result" where
  "parse_parts n [] segs = Ok segs"
| "parse_parts n (part # rest) segs =
     (if part = ''**'' then
        (if rest \<noteq> [] then Err (InvalidSegment ''** must be the last segment'')
         else if MAX_WILDCARDS_PER_PATTERN < n + 1 then Err TooManyWildcards
         else parse_parts (n + 1) rest (segs @ [RecursiveWildcard]))
      else if part = ''*'' then
        (if MAX_WILDCARDS_PER_PATTERN < n + 1 then Err TooManyWildcards
         else parse_parts (n + 1) rest (segs @ [Wildcard]))
      else if part = [] then Err (InvalidSegment [])
      else if CHR ''*'' \<in> set part \<or> CHR ''?'' \<in> set part \<or> CHR ''['' \<in> set part \<or> CHR '']'' \<in> set part
        then Err (InvalidSegment part)
      else if \<not> list_all is_ref_char part then Err (InvalidSegment part)
      else parse_parts n rest (segs @ [Literal part]))"

definition ref_pattern_parse :: "string \<Rightarrow> (pattern_error, ref_pattern) result" where
  "ref_pattern_parse pattern =
     (if pattern = [] then Err Empty
      else if MAX_PATTERN_LENGTH < length pattern then Err TooLong
      else if \<not> starts_with pattern ''refs/'' then Err MissingRefsPrefix
      else
        bind_result (parse_parts 0 (split_on (CHR ''/'') pattern) [])
          (\<lambda>segs. Ok \<lparr>rp_raw = pattern, rp_segments = segs\<rparr>))"

text \<open>
  One segment against one path part. The \<open>unreachable!\<close> arm of the source is the last equation;
  parsed patterns never reach it.
\<close>

fun segment_matches :: "pattern_segment \<Rightarrow> string \<Rightarrow> bool" where
  "segment_matches Wildcard seg = True"
| "segment_matches (Literal lit) seg = (lit = seg)"
| "segment_matches RecursiveWildcard seg = False"

definition pattern_matches :: "ref_pattern \<Rightarrow> string \<Rightarrow> bool" where
  "pattern_matches p ref_name =
     (let ref_segments = split_on (CHR ''/'') ref_name;
          segs = rp_segments p
      in if segs \<noteq> [] \<and> last segs = RecursiveWildcard then
           (let prefix_len = length segs - 1 in
            if length ref_segments \<le> prefix_len then False
            else list_all (\<lambda>(pat, seg). segment_matches pat seg)
                   (zip (take prefix_len segs) (take prefix_len ref_segments)))
         else if length ref_segments \<noteq> length segs then False
         else list_all (\<lambda>(pat, seg). segment_matches pat seg) (zip segs ref_segments))"

definition pattern_as_str :: "ref_pattern \<Rightarrow> string" where
  "pattern_as_str p = rp_raw p"

section \<open>Updates\<close>

datatype update_kind = Create | FastForward | NonFastForward | Delete

definition ZERO_OID :: string where "ZERO_OID = replicate 40 (CHR ''0'')"

definition classify :: "string \<Rightarrow> string \<Rightarrow> bool \<Rightarrow> update_kind" where
  "classify old_oid new_oid is_ancestor =
     (if old_oid = ZERO_OID then Create
      else if new_oid = ZERO_OID then Delete
      else if is_ancestor then FastForward
      else NonFastForward)"

record ref_update =
  ru_ref_name :: string
  ru_kind :: update_kind
  ru_old_oid :: string
  ru_new_oid :: string

section \<open>Protection rules\<close>

record protection_rule =
  pr_pattern :: ref_pattern
  pr_push_role :: "member_role option"
  pr_no_force_push :: bool
  pr_no_delete :: bool
  pr_require_patch :: bool

datatype rule_parse_error =
    TooFewValues
  | TooManyRules
  | InvalidPattern pattern_error
  | UnknownRule string
  | InvalidRole string

text \<open>The strictest of an optional role so far and a new one.\<close>

definition stricter :: "member_role option \<Rightarrow> member_role \<Rightarrow> member_role" where
  "stricter so_far role =
     (case so_far of
        None \<Rightarrow> role
      | Some existing \<Rightarrow>
          if permission_level existing < permission_level role then role else existing)"

text \<open>The loop over the rule words of one tag.\<close>

fun parse_rule_words ::
    "string list \<Rightarrow> protection_rule \<times> string list \<Rightarrow> (rule_parse_error, protection_rule \<times> string list) result"
  where
  "parse_rule_words [] st = Ok st"
| "parse_rule_words (w # ws) (r, unknown) =
     (case strip_prefix w ''push:'' of
        Some role_str \<Rightarrow>
          (case role_from_str role_str of
             Err _ \<Rightarrow> Err (InvalidRole role_str)
           | Ok role \<Rightarrow>
               if role = Bot \<or> role = Guest then Err (InvalidRole role_str)
               else parse_rule_words ws
                      (r\<lparr>pr_push_role := Some (stricter (pr_push_role r) role)\<rparr>, unknown))
      | None \<Rightarrow>
          if w = ''no-force-push'' then parse_rule_words ws (r\<lparr>pr_no_force_push := True\<rparr>, unknown)
          else if w = ''no-delete'' then parse_rule_words ws (r\<lparr>pr_no_delete := True\<rparr>, unknown)
          else if w = ''require-patch'' then parse_rule_words ws (r\<lparr>pr_require_patch := True\<rparr>, unknown)
          else parse_rule_words ws (r, unknown @ [w]))"

definition parse_protection_tag_with_warnings ::
    "string list \<Rightarrow> (rule_parse_error, protection_rule \<times> string list) result" where
  "parse_protection_tag_with_warnings values =
     (case values of
        pattern # word # rest \<Rightarrow>
          (case ref_pattern_parse pattern of
             Err e \<Rightarrow> Err (InvalidPattern e)
           | Ok p \<Rightarrow>
               parse_rule_words (word # rest)
                 (\<lparr>pr_pattern = p, pr_push_role = None, pr_no_force_push = False,
                   pr_no_delete = False, pr_require_patch = False\<rparr>, []))
      | _ \<Rightarrow> Err TooFewValues)"

definition parse_protection_tag :: "string list \<Rightarrow> (rule_parse_error, protection_rule) result" where
  "parse_protection_tag values =
     bind_result (parse_protection_tag_with_warnings values) (\<lambda>(rule, _). Ok rule)"

fun parse_tags_loop ::
    "string list list \<Rightarrow> protection_rule list \<times> string list
     \<Rightarrow> (rule_parse_error, protection_rule list \<times> string list) result" where
  "parse_tags_loop [] st = Ok st"
| "parse_tags_loop (tag # tags) (rules, unknown) =
     (if (case tag of [] \<Rightarrow> True | name # _ \<Rightarrow> name \<noteq> ''buzz-protect'')
      then parse_tags_loop tags (rules, unknown)
      else if MAX_PROTECTION_RULES \<le> length rules then Err TooManyRules
      else
        (case parse_protection_tag_with_warnings (tl tag) of
           Err e \<Rightarrow> Err e
         | Ok (rule, unknowns) \<Rightarrow> parse_tags_loop tags (rules @ [rule], unknown @ unknowns)))"

record parsed_protection =
  pp_rules :: "protection_rule list"
  pp_unknown_rules :: "string list"

definition parse_protection_tags :: "string list list \<Rightarrow> (rule_parse_error, parsed_protection) result" where
  "parse_protection_tags tags =
     bind_result (parse_tags_loop tags ([], []))
       (\<lambda>(rules, unknown). Ok \<lparr>pp_rules = rules, pp_unknown_rules = unknown\<rparr>)"

section \<open>Evaluation\<close>

definition default_min_role :: "string \<Rightarrow> update_kind \<Rightarrow> member_role" where
  "default_min_role ref_name kind =
     (let is_branch = starts_with ref_name ''refs/heads/'';
          is_tag = starts_with ref_name ''refs/tags/''
      in case kind of
           Create \<Rightarrow> if is_branch \<or> is_tag then Member else Admin
         | FastForward \<Rightarrow> if is_branch then Member else Admin
         | NonFastForward \<Rightarrow> Admin
         | Delete \<Rightarrow> Admin)"

record effective_rules =
  er_push_role :: "member_role option"
  er_no_force_push :: bool
  er_no_delete :: bool
  er_require_patch :: bool
  er_has_explicit_match :: bool

definition apply_rule :: "string \<Rightarrow> protection_rule \<Rightarrow> effective_rules \<Rightarrow> effective_rules" where
  "apply_rule ref_name rule e =
     (if \<not> pattern_matches (pr_pattern rule) ref_name then e
      else
        \<lparr>er_push_role =
           (case pr_push_role rule of
              None \<Rightarrow> er_push_role e
            | Some role \<Rightarrow> Some (stricter (er_push_role e) role)),
         er_no_force_push = (er_no_force_push e \<or> pr_no_force_push rule),
         er_no_delete = (er_no_delete e \<or> pr_no_delete rule),
         er_require_patch = (er_require_patch e \<or> pr_require_patch rule),
         er_has_explicit_match = True\<rparr>)"

definition for_ref :: "string \<Rightarrow> protection_rule list \<Rightarrow> effective_rules" where
  "for_ref ref_name rules =
     fold (apply_rule ref_name) rules
       \<lparr>er_push_role = None, er_no_force_push = False, er_no_delete = False,
        er_require_patch = False, er_has_explicit_match = False\<rparr>"

record denial =
  dn_ref_name :: string
  dn_reason :: string

definition required_role :: "effective_rules \<Rightarrow> string \<Rightarrow> update_kind \<Rightarrow> member_role" where
  "required_role e ref_name kind =
     (let default_role = default_min_role ref_name kind in
      case er_push_role e of
        Some explicit \<Rightarrow>
          if permission_level default_role \<le> permission_level explicit then explicit else default_role
      | None \<Rightarrow> default_role)"

definition deny :: "ref_update \<Rightarrow> string \<Rightarrow> (denial, unit) result" where
  "deny u reason = Err \<lparr>dn_ref_name = ru_ref_name u, dn_reason = reason\<rparr>"

definition evaluate_ref_update ::
    "ref_update \<Rightarrow> member_role \<Rightarrow> protection_rule list \<Rightarrow> (denial, unit) result" where
  "evaluate_ref_update u role rules =
     (let e = for_ref (ru_ref_name u) rules in
      if \<not> er_has_explicit_match e then
        (let min_role = default_min_role (ru_ref_name u) (ru_kind u) in
         if \<not> has_at_least role min_role
         then deny u (''requires '' @ role_as_str min_role @ '' role (you have '' @ role_as_str role
                      @ ''), using built-in defaults'')
         else Ok ())
      else if er_require_patch e
      then deny u ''direct push denied: require-patch is set, submit a NIP-34 patch''
      else
        (let min_role = required_role e (ru_ref_name u) (ru_kind u) in
         if \<not> has_at_least role min_role
         then deny u (''requires '' @ role_as_str min_role @ '' role (you have '' @ role_as_str role @ '')'')
         else if er_no_force_push e \<and> ru_kind u = NonFastForward
         then deny u ''non-fast-forward update denied: no-force-push is set''
         else if er_no_delete e \<and> ru_kind u = Delete
         then deny u ''ref deletion denied: no-delete is set''
         else Ok ()))"

definition evaluate_push ::
    "ref_update list \<Rightarrow> member_role \<Rightarrow> protection_rule list \<Rightarrow> (denial list, unit) result" where
  "evaluate_push updates role rules =
     (let denials = List.map_filter
        (\<lambda>u. case evaluate_ref_update u role rules of Err d \<Rightarrow> Some d | Ok _ \<Rightarrow> None) updates in
      if denials = [] then Ok () else Err denials)"

end
