(* ===== verification/Git_Perms_Laws.thy ===== *)
theory Git_Perms_Laws
  imports Git_Perms
begin

text \<open>
  What the push rules mean: the effective rules of a reference as a union over the matching
  rules, the exact condition for an update to be allowed, and its consequences - rules only
  restrict, their order and repetition do not matter, more privilege never hurts - and the
  grammar and the meaning of patterns.
\<close>

section \<open>The effective rules are a union\<close>

lemma stricter_eq: "stricter so_far role = (case so_far of None \<Rightarrow> role | Some r \<Rightarrow> max r role)"
  by (auto simp: stricter_def level_less_iff max_def split: option.split)

definition matching :: "string \<Rightarrow> protection_rule list \<Rightarrow> protection_rule list" where
  "matching ref_name rules = filter (\<lambda>r. pattern_matches (pr_pattern r) ref_name) rules"

text \<open>The roles that the matching rules demand, on top of the built-in default.\<close>

definition demanded :: "string \<Rightarrow> update_kind \<Rightarrow> protection_rule list \<Rightarrow> member_role set" where
  "demanded ref_name kind rules =
     insert (default_min_role ref_name kind)
       (set (List.map_filter pr_push_role (matching ref_name rules)))"

definition role_union :: "member_role option \<Rightarrow> member_role list \<Rightarrow> member_role option" where
  "role_union start roles = fold (\<lambda>role so_far. Some (stricter so_far role)) roles start"

lemma fold_apply_rule:
  "fold (apply_rule ref_name) rules e =
     \<lparr>er_push_role = role_union (er_push_role e) (List.map_filter pr_push_role (matching ref_name rules)),
      er_no_force_push = (er_no_force_push e \<or> list_ex pr_no_force_push (matching ref_name rules)),
      er_no_delete = (er_no_delete e \<or> list_ex pr_no_delete (matching ref_name rules)),
      er_require_patch = (er_require_patch e \<or> list_ex pr_require_patch (matching ref_name rules)),
      er_has_explicit_match = (er_has_explicit_match e \<or> matching ref_name rules \<noteq> [])\<rparr>"
proof (induction rules arbitrary: e)
  case Nil
  then show ?case by (simp add: matching_def role_union_def)
next
  case (Cons r rules)
  show ?case
    unfolding fold_simps comp_apply Cons.IH
    by (auto simp: apply_rule_def matching_def role_union_def map_filter_simps split: option.split)
qed

lemma role_union_le:
  "(case role_union start roles of None \<Rightarrow> True | Some m \<Rightarrow> m \<le> r) \<longleftrightarrow>
     (case start of None \<Rightarrow> True | Some s \<Rightarrow> s \<le> r) \<and> (\<forall>role \<in> set roles. role \<le> r)"
  by (induction roles arbitrary: start)
    (auto simp: role_union_def stricter_eq split: option.split)

lemma for_ref_eq:
  "for_ref ref_name rules =
     \<lparr>er_push_role = role_union None (List.map_filter pr_push_role (matching ref_name rules)),
      er_no_force_push = list_ex pr_no_force_push (matching ref_name rules),
      er_no_delete = list_ex pr_no_delete (matching ref_name rules),
      er_require_patch = list_ex pr_require_patch (matching ref_name rules),
      er_has_explicit_match = (matching ref_name rules \<noteq> [])\<rparr>"
  by (simp add: for_ref_def fold_apply_rule)

lemma required_role_le:
  "required_role (for_ref ref_name rules) ref_name kind \<le> r \<longleftrightarrow>
     (\<forall>d \<in> demanded ref_name kind rules. d \<le> r)"
proof -
  let ?m = "role_union None (List.map_filter pr_push_role (matching ref_name rules))"
  let ?d = "default_min_role ref_name kind"
  have "required_role (for_ref ref_name rules) ref_name kind
      = (case ?m of None \<Rightarrow> ?d | Some m \<Rightarrow> max ?d m)"
    by (simp add: required_role_def for_ref_eq level_le_iff max_def Let_def split: option.split)
  then have "required_role (for_ref ref_name rules) ref_name kind \<le> r
      \<longleftrightarrow> ?d \<le> r \<and> (case ?m of None \<Rightarrow> True | Some m \<Rightarrow> m \<le> r)"
    by (simp split: option.split)
  then show ?thesis
    unfolding role_union_le demanded_def by simp
qed

section \<open>The policy\<close>

text \<open>The reference definition: what a single update needs.\<close>

definition update_allowed :: "ref_update \<Rightarrow> member_role \<Rightarrow> protection_rule list \<Rightarrow> bool" where
  "update_allowed u role rules \<longleftrightarrow>
     (\<forall>d \<in> demanded (ru_ref_name u) (ru_kind u) rules. d \<le> role) \<and>
     (\<forall>r \<in> set (matching (ru_ref_name u) rules).
        \<not> pr_require_patch r \<and>
        (pr_no_force_push r \<longrightarrow> ru_kind u \<noteq> NonFastForward) \<and>
        (pr_no_delete r \<longrightarrow> ru_kind u \<noteq> Delete))"

lemma evaluate_ref_update_Ok:
  "is_ok (evaluate_ref_update u role rules) \<longleftrightarrow> update_allowed u role rules"
proof (cases "matching (ru_ref_name u) rules = []")
  case True
  then show ?thesis
    by (simp add: evaluate_ref_update_def for_ref_eq Let_def deny_def has_at_least_iff
      update_allowed_def demanded_def map_filter_simps)
next
  case False
  show ?thesis
    using False required_role_le [of "ru_ref_name u" rules "ru_kind u" role]
    by (auto simp: evaluate_ref_update_def Let_def deny_def has_at_least_iff update_allowed_def
      for_ref_eq list_ex_iff)
qed

lemma evaluate_push_Ok:
  "is_ok (evaluate_push updates role rules) \<longleftrightarrow> (\<forall>u \<in> set updates. update_allowed u role rules)"
proof -
  have "List.map_filter (\<lambda>u. case evaluate_ref_update u role rules of Err d \<Rightarrow> Some d | Ok _ \<Rightarrow> None) us = []
      \<longleftrightarrow> (\<forall>u \<in> set us. is_ok (evaluate_ref_update u role rules))" for us
    by (induction us) (auto simp: map_filter_simps split: result.split)
  then show ?thesis
    by (simp add: evaluate_push_def Let_def evaluate_ref_update_Ok)
qed

text \<open>
  Push evaluation implements its specification: a push is accepted exactly when the pusher's
  role reaches the built-in default and every role that a matching rule demands, for every
  updated reference, and no matching rule requires patches, forbids the forced update or forbids
  the deletion. A rejected push lists exactly the rejected references, in order; nothing of it
  is applied.
\<close>
lemma push_policy_exact:
  "case evaluate_push updates role rules of
     Ok _ \<Rightarrow> list_all (\<lambda>u. update_allowed u role rules) updates
   | Err denials \<Rightarrow> denials \<noteq> [] \<and>
       map dn_ref_name denials
         = map ru_ref_name (filter (\<lambda>u. \<not> update_allowed u role rules) updates)"
proof -
  have names: "map dn_ref_name (List.map_filter
      (\<lambda>u. case evaluate_ref_update u role rules of Err d \<Rightarrow> Some d | Ok _ \<Rightarrow> None) us)
    = map ru_ref_name (filter (\<lambda>u. \<not> update_allowed u role rules) us)" for us
  proof (induction us)
    case Nil
    then show ?case by (simp add: map_filter_simps)
  next
    case (Cons u us)
    have "dn_ref_name d = ru_ref_name u" if "evaluate_ref_update u role rules = Err d" for d
      using that by (auto simp: evaluate_ref_update_def Let_def deny_def split: if_splits)
    with Cons evaluate_ref_update_Ok [of u role rules] show ?case
      by (cases "evaluate_ref_update u role rules") (auto simp: map_filter_simps)
  qed
  show ?thesis
    using evaluate_push_Ok [of updates role rules] names [of updates]
    by (auto simp: evaluate_push_def Let_def list_all_iff split: if_splits)
qed


lemma demanded_mono: "set rules \<subseteq> set rules' \<Longrightarrow> demanded r k rules \<subseteq> demanded r k rules'"
  by (auto simp: demanded_def matching_def List.map_filter_def)

lemma update_allowed_mono:
  "set rules \<subseteq> set rules' \<Longrightarrow> role' \<le> role \<Longrightarrow> update_allowed u role' rules' \<Longrightarrow>
     update_allowed u role rules"
  using demanded_mono [of rules rules' "ru_ref_name u" "ru_kind u"]
  unfolding update_allowed_def by (auto simp: matching_def intro: order_trans)

text \<open>
  Rules only restrict. If a push is accepted, then so is every part of it, by anyone with at
  least the same role, under any selection of the same rules: adding a protection rule can never
  open up a push, the order and repetition of rules are irrelevant, and more privilege never
  hurts. Whatever the rules, forced updates and deletions take an admin and nobody below member
  pushes anything.
\<close>
lemma push_policy_monotone:
  assumes "is_ok (evaluate_push updates' role' rules')"
    and "set rules \<subseteq> set rules'" and "set updates \<subseteq> set updates'" and "role' \<le> role"
  shows "is_ok (evaluate_push updates role rules)
    \<and> (\<forall>u \<in> set updates'. Member \<le> role'
        \<and> (ru_kind u = NonFastForward \<or> ru_kind u = Delete \<longrightarrow> Admin \<le> role'))"
proof -
  from assms(1) have all: "\<forall>u \<in> set updates'. update_allowed u role' rules'"
    by (simp add: evaluate_push_Ok)
  then have "is_ok (evaluate_push updates role rules)"
    using assms(2-4) by (auto simp: evaluate_push_Ok intro: update_allowed_mono)
  moreover have "Member \<le> role' \<and> (ru_kind u = NonFastForward \<or> ru_kind u = Delete \<longrightarrow> Admin \<le> role')"
    if "u \<in> set updates'" for u
  proof -
    have "default_min_role (ru_ref_name u) (ru_kind u) \<le> role'"
      using all that by (auto simp: update_allowed_def demanded_def)
    moreover have "Member \<le> default_min_role (ru_ref_name u) (ru_kind u)"
      by (auto simp: default_min_role_def Let_def less_eq_member_role_def permission_level_def
        split: update_kind.split)
    ultimately show ?thesis by (auto simp: default_min_role_def)
  qed
  ultimately show ?thesis by blast
qed

definition sample_rule :: protection_rule where
  "sample_rule =
     \<lparr>pr_pattern = \<lparr>rp_raw = ''refs/heads/main'',
                    rp_segments = [Literal ''refs'', Literal ''heads'', Literal ''main'']\<rparr>,
      pr_push_role = Some Admin, pr_no_force_push = True, pr_no_delete = True,
      pr_require_patch = False\<rparr>"

definition sample_update :: ref_update where
  "sample_update =
     \<lparr>ru_ref_name = ''refs/heads/main'', ru_kind = FastForward, ru_old_oid = [], ru_new_oid = []\<rparr>"

lemma sample_accepted: "is_ok (evaluate_push [sample_update] Admin [sample_rule])"
  by code_simp

lemma push_policy_monotone_witness: "is_ok (evaluate_push [sample_update] Owner [])"
  using push_policy_monotone [OF sample_accepted, of "[]" "[sample_update]" Owner]
  by (simp add: less_eq_member_role_def permission_level_def)

section \<open>Patterns\<close>

fun segments_match :: "pattern_segment list \<Rightarrow> string list \<Rightarrow> bool" where
  "segments_match [] parts = (parts = [])"
| "segments_match [RecursiveWildcard] parts = (parts \<noteq> [])"
| "segments_match (seg # segs) [] = False"
| "segments_match (seg # segs) (part # parts) = (segment_matches seg part \<and> segments_match segs parts)"

fun segment_text :: "pattern_segment \<Rightarrow> string" where
  "segment_text (Literal lit) = lit"
| "segment_text Wildcard = ''*''"
| "segment_text RecursiveWildcard = ''**''"

fun join_path :: "string list \<Rightarrow> string" where
  "join_path [] = []"
| "join_path [p] = p"
| "join_path (p # ps) = p @ CHR ''/'' # join_path ps"

lemma split_on_nonempty [simp]: "split_on d s \<noteq> []"
  by (cases s) (auto split: list.split)

lemma join_split: "join_path (split_on (CHR ''/'') s) = s"
proof (induction s)
  case Nil
  then show ?case by simp
next
  case (Cons x s)
  obtain p ps where parts: "split_on (CHR ''/'') s = p # ps"
    using split_on_nonempty by (cases "split_on (CHR ''/'') s") auto
  with Cons show ?case by (cases ps) auto
qed

definition wildcards :: "pattern_segment list \<Rightarrow> nat" where
  "wildcards segs = length (filter (\<lambda>s. s = Wildcard \<or> s = RecursiveWildcard) segs)"

lemma wildcards_simps [simp]:
  "wildcards [] = 0"
  "wildcards (xs @ ys) = wildcards xs + wildcards ys"
  "wildcards (Literal l # xs) = wildcards xs"
  "wildcards (Wildcard # xs) = Suc (wildcards xs)"
  "wildcards (RecursiveWildcard # xs) = Suc (wildcards xs)"
  by (simp_all add: wildcards_def)

lemma parse_parts_Ok:
  assumes "parse_parts n parts segs = Ok out"
  shows "\<exists>added. out = segs @ added \<and> map segment_text added = parts
    \<and> n + wildcards added \<le> max n MAX_WILDCARDS_PER_PATTERN
    \<and> RecursiveWildcard \<notin> set (butlast added)"
  using assms
proof (induction parts arbitrary: n segs out)
  case Nil
  then show ?case by simp
next
  case (Cons part rest)
  consider (rec) "part = ''**''" | (wild) "part = ''*''"
    | (lit) "part \<noteq> ''**''" "part \<noteq> ''*''" by blast
  then show ?case
  proof cases
    case rec
    with Cons.prems have "rest = []" "n + 1 \<le> MAX_WILDCARDS_PER_PATTERN" "out = segs @ [RecursiveWildcard]"
      by (auto split: if_splits)
    with rec show ?thesis by (intro exI [of _ "[RecursiveWildcard]"]) simp
  next
    case wild
    with Cons.prems have step: "parse_parts (n + 1) rest (segs @ [Wildcard]) = Ok out"
      and bound: "n + 1 \<le> MAX_WILDCARDS_PER_PATTERN"
      by (auto split: if_splits)
    from Cons.IH [OF step] obtain added where "out = (segs @ [Wildcard]) @ added"
      "map segment_text added = rest"
      "n + 1 + wildcards added \<le> max (n + 1) MAX_WILDCARDS_PER_PATTERN"
      "RecursiveWildcard \<notin> set (butlast added)"
      by blast
    with wild bound show ?thesis by (intro exI [of _ "Wildcard # added"]) auto
  next
    case lit
    with Cons.prems have step: "parse_parts n rest (segs @ [Literal part]) = Ok out"
      by (auto split: if_splits)
    from Cons.IH [OF step] obtain added where "out = (segs @ [Literal part]) @ added"
      "map segment_text added = rest" "n + wildcards added \<le> max n MAX_WILDCARDS_PER_PATTERN"
      "RecursiveWildcard \<notin> set (butlast added)"
      by blast
    then show ?thesis by (intro exI [of _ "Literal part # added"]) auto
  qed
qed

lemma segments_match_Cons:
  "seg \<noteq> RecursiveWildcard \<Longrightarrow>
     segments_match (seg # segs) (part # parts) = (segment_matches seg part \<and> segments_match segs parts)"
  by (cases seg; cases segs) auto

lemma list_all_zip_match:
  "length segs = length parts \<Longrightarrow> RecursiveWildcard \<notin> set segs \<Longrightarrow>
     list_all (\<lambda>(pat, seg). segment_matches pat seg) (zip segs parts) = segments_match segs parts"
  by (induction segs parts rule: list_induct2) (auto simp: segments_match_Cons)


lemma segments_match_snoc:
  "RecursiveWildcard \<notin> set segs \<Longrightarrow>
     segments_match (segs @ [RecursiveWildcard]) parts \<longleftrightarrow>
       length segs < length parts \<and> segments_match segs (take (length segs) parts)"
proof (induction segs arbitrary: parts)
  case Nil
  then show ?case by (cases parts) auto
next
  case (Cons seg segs)
  then show ?case by (cases parts) (auto simp: segments_match_Cons, (cases seg; simp)+)
qed

lemma segments_match_length:
  "RecursiveWildcard \<notin> set segs \<Longrightarrow> segments_match segs parts \<Longrightarrow> length parts = length segs"
proof (induction segs arbitrary: parts)
  case Nil
  then show ?case by simp
next
  case (Cons seg segs)
  then show ?case by (cases parts) (auto simp: segments_match_Cons, (cases seg; cases segs; simp)+)
qed

lemma pattern_matches_eq:
  assumes "RecursiveWildcard \<notin> set (butlast (rp_segments p))" and "rp_segments p \<noteq> []"
  shows "pattern_matches p r \<longleftrightarrow> segments_match (rp_segments p) (split_on (CHR ''/'') r)"
proof (cases "last (rp_segments p) = RecursiveWildcard")
  case True
  let ?init = "butlast (rp_segments p)" and ?parts = "split_on (CHR ''/'') r"
  have segs: "rp_segments p = ?init @ [RecursiveWildcard]"
    using True assms(2) by (metis append_butlast_last_id)
  have take: "take (length (rp_segments p) - 1) (rp_segments p) = ?init"
    by (simp add: butlast_conv_take)
  have "pattern_matches p r \<longleftrightarrow> length ?init < length ?parts \<and>
      list_all (\<lambda>(pat, seg). segment_matches pat seg) (zip ?init (take (length ?init) ?parts))"
    using True assms(2) unfolding pattern_matches_def Let_def take by (simp add: not_le)
  also have "\<dots> \<longleftrightarrow> length ?init < length ?parts \<and> segments_match ?init (take (length ?init) ?parts)"
    using assms(1) by (auto simp: list_all_zip_match)
  also have "\<dots> \<longleftrightarrow> segments_match (?init @ [RecursiveWildcard]) ?parts"
    using assms(1) by (simp add: segments_match_snoc)
  finally show ?thesis using segs by simp
next
  case False
  have none: "RecursiveWildcard \<notin> set (rp_segments p)"
  proof
    assume "RecursiveWildcard \<in> set (rp_segments p)"
    then have "RecursiveWildcard \<in> set (butlast (rp_segments p) @ [last (rp_segments p)])"
      using assms(2) by simp
    with assms(1) False show False by auto
  qed
  show ?thesis
    using False segments_match_length [OF none, of "split_on (CHR ''/'') r"]
    by (auto simp: pattern_matches_def Let_def list_all_zip_match none)
qed

lemma segments_match_literals:
  "wildcards segs = 0 \<Longrightarrow> segments_match segs parts \<longleftrightarrow> parts = map segment_text segs"
proof (induction segs arbitrary: parts)
  case Nil
  then show ?case by simp
next
  case (Cons seg segs)
  then obtain lit where "seg = Literal lit" by (cases seg) auto
  with Cons show ?case by (cases parts) (auto simp: segments_match_Cons)
qed

lemma split_on_inject: "split_on (CHR ''/'') s = split_on (CHR ''/'') t \<longleftrightarrow> s = t"
  by (metis join_split)

text \<open>
  A parsed pattern means what its grammar says. It prints back as the text it was parsed
  from, has at most three wildcards, and a recursive wildcard only at the end; a reference
  matches exactly when its path parts match the segments one by one, the final recursive
  wildcard standing for one or more parts; and a pattern without wildcards matches only itself.
\<close>
lemma pattern_semantics:
  assumes "ref_pattern_parse pattern = Ok p"
  shows "pattern_as_str p = pattern \<and> join_path (map segment_text (rp_segments p)) = pattern
    \<and> wildcards (rp_segments p) \<le> 3 \<and> RecursiveWildcard \<notin> set (butlast (rp_segments p))
    \<and> (pattern_matches p r \<longleftrightarrow> segments_match (rp_segments p) (split_on (CHR ''/'') r))
    \<and> (wildcards (rp_segments p) = 0 \<longrightarrow> (pattern_matches p r \<longleftrightarrow> r = pattern))"
proof -
  from assms obtain segs where parts: "parse_parts 0 (split_on (CHR ''/'') pattern) [] = Ok segs"
    and p: "p = \<lparr>rp_raw = pattern, rp_segments = segs\<rparr>"
    by (auto simp: ref_pattern_parse_def bind_result_Ok split: if_splits)
  from parse_parts_Ok [OF parts] have texts: "map segment_text segs = split_on (CHR ''/'') pattern"
    and few: "wildcards segs \<le> 3" and rec: "RecursiveWildcard \<notin> set (butlast segs)"
    by (auto simp: MAX_WILDCARDS_PER_PATTERN_def)
  from texts have "segs \<noteq> []" using split_on_nonempty [of _ pattern] by (metis list.map_disc_iff)
  with rec p have exact: "pattern_matches p r \<longleftrightarrow> segments_match segs (split_on (CHR ''/'') r)"
    by (simp add: pattern_matches_eq)
  have "wildcards segs = 0 \<longrightarrow> (pattern_matches p r \<longleftrightarrow> r = pattern)"
    by (simp add: exact segments_match_literals texts split_on_inject)
  with exact texts few rec p show ?thesis
    by (simp add: pattern_as_str_def join_split)
qed

definition release_pattern :: ref_pattern where
  "release_pattern =
     \<lparr>rp_raw = ''refs/heads/*/**'',
      rp_segments = [Literal ''refs'', Literal ''heads'', Wildcard, RecursiveWildcard]\<rparr>"

lemma release_pattern_parsed: "ref_pattern_parse ''refs/heads/*/**'' = Ok release_pattern"
  by code_simp

lemma pattern_semantics_witness:
  "pattern_matches release_pattern ''refs/heads/a/b/c'' \<longleftrightarrow>
     segments_match (rp_segments release_pattern) (split_on (CHR ''/'') ''refs/heads/a/b/c'')"
  using pattern_semantics [OF release_pattern_parsed, of "''refs/heads/a/b/c''"] by blast

section \<open>Protection tags\<close>

definition protect_tags :: "string list list \<Rightarrow> string list list" where
  "protect_tags tags = filter (\<lambda>t. case t of [] \<Rightarrow> False | name # _ \<Rightarrow> name = ''buzz-protect'') tags"

lemma parse_tags_loop_ok:
  "is_ok (parse_tags_loop tags (rules, unknown)) \<longleftrightarrow>
     (\<forall>t \<in> set (protect_tags tags). is_ok (parse_protection_tag_with_warnings (tl t))) \<and>
     (protect_tags tags = [] \<or> length rules + length (protect_tags tags) \<le> MAX_PROTECTION_RULES)"
proof (induction tags arbitrary: rules unknown)
  case Nil
  then show ?case by (simp add: protect_tags_def)
next
  case (Cons t tags)
  show ?case
  proof (cases "case t of [] \<Rightarrow> True | name # _ \<Rightarrow> name \<noteq> ''buzz-protect''")
    case True
    then show ?thesis using Cons.IH by (auto simp: protect_tags_def split: list.splits)
  next
    case False
    then have tags: "protect_tags (t # tags) = t # protect_tags tags"
      by (auto simp: protect_tags_def split: list.splits)
    show ?thesis
      using False Cons.IH unfolding tags
      by (auto split: result.splits simp: MAX_PROTECTION_RULES_def)
  qed
qed

lemma parse_rule_words_roles:
  "parse_rule_words ws (rule, unknown) = Ok (rule', unknown') \<Longrightarrow>
     pr_push_role rule \<noteq> Some Bot \<and> pr_push_role rule \<noteq> Some Guest \<Longrightarrow>
     pr_push_role rule' \<noteq> Some Bot \<and> pr_push_role rule' \<noteq> Some Guest \<and>
     pr_pattern rule' = pr_pattern rule"
proof (induction ws arbitrary: rule unknown)
  case Nil
  then show ?case by simp
next
  case (Cons w ws)
  then show ?case
    by (auto simp: stricter_def split: option.splits result.splits if_splits)
qed

lemma parse_tags_loop_rules:
  "parse_tags_loop tags (rules, unknown) = Ok (rules', unknown') \<Longrightarrow>
     length rules' = length rules + length (protect_tags tags) \<and>
     (list_all (\<lambda>r. pr_push_role r \<noteq> Some Bot \<and> pr_push_role r \<noteq> Some Guest) rules \<longrightarrow>
      list_all (\<lambda>r. pr_push_role r \<noteq> Some Bot \<and> pr_push_role r \<noteq> Some Guest) rules')"
proof (induction tags arbitrary: rules unknown)
  case Nil
  then show ?case by (simp add: protect_tags_def)
next
  case (Cons t tags)
  show ?case
  proof (cases "case t of [] \<Rightarrow> True | name # _ \<Rightarrow> name \<noteq> ''buzz-protect''")
    case True
    then show ?thesis using Cons by (auto simp: protect_tags_def split: list.splits)
  next
    case False
    then have tags: "protect_tags (t # tags) = t # protect_tags tags"
      by (auto simp: protect_tags_def split: list.splits)
    from Cons.prems False obtain rule words where
      rule: "parse_protection_tag_with_warnings (tl t) = Ok (rule, words)"
      and rest: "parse_tags_loop tags (rules @ [rule], unknown @ words) = Ok (rules', unknown')"
      by (auto split: if_splits result.splits)
    have "pr_push_role rule \<noteq> Some Bot \<and> pr_push_role rule \<noteq> Some Guest"
      using rule unfolding parse_protection_tag_with_warnings_def
      by (auto split: list.splits result.splits simp del: parse_rule_words.simps
        dest!: parse_rule_words_roles)
    with Cons.IH [OF rest] show ?thesis by (simp add: tags)
  qed
qed

text \<open>
  Protection tags fail closed. The tags of an announcement parse exactly when there are at
  most fifty protection tags and every one of them is well formed, so one malformed rule blocks
  the repository instead of being dropped; on success there is one rule for each tag and no rule
  asks for the bot or guest role.
\<close>
lemma protection_tags_fail_closed:
  "case parse_protection_tags tags of
     Ok parsed \<Rightarrow>
       list_all (\<lambda>t. is_ok (parse_protection_tag (tl t))) (protect_tags tags)
       \<and> length (pp_rules parsed) = length (protect_tags tags) \<and> length (pp_rules parsed) \<le> 50
       \<and> list_all (\<lambda>r. pr_push_role r \<noteq> Some Bot \<and> pr_push_role r \<noteq> Some Guest) (pp_rules parsed)
   | Err _ \<Rightarrow>
       50 < length (protect_tags tags)
       \<or> list_ex (\<lambda>t. case parse_protection_tag (tl t) of Err _ \<Rightarrow> True | Ok _ \<Rightarrow> False) (protect_tags tags)"
proof -
  have simple: "is_ok (parse_protection_tag v) = is_ok (parse_protection_tag_with_warnings v)"
    and err: "(case parse_protection_tag v of Err _ \<Rightarrow> True | Ok _ \<Rightarrow> False)
      = (\<not> is_ok (parse_protection_tag_with_warnings v))" for v
    by (auto simp: parse_protection_tag_def is_ok_iff split: result.splits prod.splits)
      (cases "parse_protection_tag_with_warnings v"; auto)+
  show ?thesis
  proof (cases "parse_tags_loop tags ([], [])")
    case (Err e)
    then have "\<not> is_ok (parse_tags_loop tags ([], []))" by simp
    then show ?thesis
      using Err unfolding parse_tags_loop_ok
      by (auto simp: parse_protection_tags_def err list_ex_iff MAX_PROTECTION_RULES_def)
  next
    case (Ok out)
    obtain rules unknown where out: "out = (rules, unknown)" by (cases out)
    from Ok have "is_ok (parse_tags_loop tags ([], []))" by simp
    then show ?thesis
      using Ok parse_tags_loop_rules [OF Ok [unfolded out]] unfolding parse_tags_loop_ok
      by (auto simp: parse_protection_tags_def out simple list_all_iff MAX_PROTECTION_RULES_def)
  qed
qed

end
