(* ===== verification/Git_Policy.thy ===== *)
theory Git_Policy
  imports Git_Perms_Laws Membership_Laws
begin

text \<open>
  The push policy endpoint, \<open>crates/buzz-relay/src/api/git/policy.rs\<close>, and the resolution of a
  repository's channel, \<open>api/git/binding.rs\<close>. HMAC-SHA256 and the UUID parser are third-party
  code: the environment supplies them, the MAC in lowercase hexadecimal. A public key is its
  hexadecimal text; decoding it is the identity on the 64 lowercase digits that the handler has
  checked. Logging is left out.
\<close>

section \<open>Requests\<close>

definition MAX_CALLBACK_AGE_SECS :: nat where "MAX_CALLBACK_AGE_SECS = 30"

record hook_ref_update =
  hu_old_oid :: string
  hu_new_oid :: string
  hu_ref_name :: string
  hu_is_ancestor :: bool

record hook_request =
  hr_repo_id :: string
  hr_repo_owner :: string
  hr_community_id :: string
  hr_pusher_pubkey :: string
  hr_ref_updates :: "hook_ref_update list"
  hr_timestamp :: nat
  hr_signature :: string

record git_env =
  ge_events :: event_db
  ge_channels :: channel_db
  ge_secret :: string
  ge_now :: nat
  ge_hmac :: "string \<Rightarrow> string \<Rightarrow> hex_string"
  ge_parse_uuid :: "string \<Rightarrow> uuid option"

datatype hook_response = Forbidden string | Allowed | Denied "denial list"

section \<open>The signed payload\<close>

definition encode_ref :: "hook_ref_update \<Rightarrow> string" where
  "encode_ref r =
     hu_old_oid r @ hu_new_oid r @ nat_to_string (length (hu_ref_name r)) @ '':'' @ hu_ref_name r
     @ (if hu_is_ancestor r then ''1'' else ''0'')"

definition sorted_refs :: "hook_request \<Rightarrow> hook_ref_update list" where
  "sorted_refs req = sort_key hu_ref_name (hr_ref_updates req)"

definition hmac_payload :: "hook_request \<Rightarrow> string" where
  "hmac_payload req =
     nat_to_string (length (hr_repo_id req)) @ '':'' @ hr_repo_id req @ ''|''
     @ hr_repo_owner req @ ''|'' @ hr_community_id req @ ''|'' @ hr_pusher_pubkey req @ ''|''
     @ concat (map encode_ref (sorted_refs req)) @ ''|'' @ nat_to_string (hr_timestamp req)"

definition compute_hmac :: "git_env \<Rightarrow> hook_request \<Rightarrow> hex_string" where
  "compute_hmac env req = ge_hmac env (ge_secret env) (hmac_payload req)"

text \<open>\<open>hex::decode\<close> of the signature: an even number of hexadecimal digits of either case.\<close>

definition hex_decodes :: "string \<Rightarrow> bool" where
  "hex_decodes s \<longleftrightarrow> even (length s) \<and> list_all is_hex_char s"

definition verify_hmac :: "git_env \<Rightarrow> hook_request \<Rightarrow> bool" where
  "verify_hmac env req \<longleftrightarrow>
     hex_decodes (hr_signature req) \<and> compute_hmac env req = ascii_lower (hr_signature req)"

section \<open>Structural checks\<close>

definition is_ascii_uppercase :: "char \<Rightarrow> bool" where
  "is_ascii_uppercase c = (let n = (of_char c :: nat) in 65 \<le> n \<and> n \<le> 90)"

definition lower_hex_key :: "string \<Rightarrow> bool" where
  "lower_hex_key s \<longleftrightarrow> length s = 64 \<and> list_all (\<lambda>c. is_hex_char c \<and> \<not> is_ascii_uppercase c) s"

definition valid_oid :: "string \<Rightarrow> bool" where
  "valid_oid s \<longleftrightarrow> length s = 40 \<and> list_all is_hex_char s"

definition control_byte :: "char \<Rightarrow> bool" where
  "control_byte c = (let n = (of_char c :: nat) in n \<le> 32 \<or> n = 127)"

fun check_refs :: "hook_ref_update list \<Rightarrow> (string, unit) result" where
  "check_refs [] = Ok ()"
| "check_refs (r # rs) =
     (if \<not> valid_oid (hu_old_oid r) then Err ''invalid old_oid''
      else if \<not> valid_oid (hu_new_oid r) then Err ''invalid new_oid''
      else if hu_ref_name r = [] \<or> 256 < length (hu_ref_name r)
        \<or> \<not> starts_with (hu_ref_name r) ''refs/'' \<or> contains_str ''..'' (hu_ref_name r)
        \<or> list_ex control_byte (hu_ref_name r)
      then Err ''invalid ref_name''
      else check_refs rs)"

definition check_request :: "git_env \<Rightarrow> hook_request \<Rightarrow> (string, community_id) result" where
  "check_request env req =
     (if hr_repo_id req = [] \<or> 64 < length (hr_repo_id req) then Err ''invalid repo_id''
      else if \<not> lower_hex_key (hr_repo_owner req) then Err ''invalid repo_owner''
      else if \<not> lower_hex_key (hr_pusher_pubkey req) then Err ''invalid pusher_pubkey''
      else
        (case ge_parse_uuid env (hr_community_id req) of
           None \<Rightarrow> Err ''invalid community_id''
         | Some community \<Rightarrow>
             if hr_ref_updates req = [] \<or> 500 < length (hr_ref_updates req)
             then Err ''invalid ref_updates count''
             else bind_result (check_refs (hr_ref_updates req)) (\<lambda>_. Ok community)))"

definition check_signature :: "git_env \<Rightarrow> hook_request \<Rightarrow> (string, unit) result" where
  "check_signature env req =
     (if \<not> verify_hmac env req then Err ''signature verification failed''
      else if MAX_CALLBACK_AGE_SECS < ge_now env - hr_timestamp req then Err ''callback expired''
      else if 5 < hr_timestamp req - ge_now env then Err ''callback timestamp invalid''
      else Ok ())"

section \<open>Repository, channel and role\<close>

datatype repo_binding = NotBound | Bound uuid | Broken

definition resolve_repo_binding :: "git_env \<Rightarrow> event \<Rightarrow> repo_binding" where
  "resolve_repo_binding env ev =
     (case find (\<lambda>t. t \<noteq> [] \<and> hd t = ''buzz-channel'') (ev_tags ev) of
        None \<Rightarrow> NotBound
      | Some t \<Rightarrow>
          (case (if 1 < length t then ge_parse_uuid env (t ! 1) else None) of
             Some ch \<Rightarrow> Bound ch
           | None \<Rightarrow> Broken))"

definition repo_query :: "community_id \<Rightarrow> hook_request \<Rightarrow> event_query" where
  "repo_query community req =
     (for_community community)\<lparr>q_kinds := Some [30617], q_pubkey := Some (hr_repo_owner req),
       q_d_tag := Some (hr_repo_id req), q_global_only := True, q_limit := Some 1\<rparr>"

definition find_repo :: "git_env \<Rightarrow> community_id \<Rightarrow> hook_request \<Rightarrow> (string, event) result" where
  "find_repo env community req =
     (case query_events (ge_events env) (repo_query community req) of
        Err _ \<Rightarrow> Err ''internal error''
      | Ok events \<Rightarrow>
          if events = [] then Err ''repository not found'' else Ok (st_event (last events)))"

definition find_rules :: "event \<Rightarrow> (string, protection_rule list) result" where
  "find_rules repo =
     (case parse_protection_tags (ev_tags repo) of
        Ok parsed \<Rightarrow> Ok (pp_rules parsed)
      | Err _ \<Rightarrow> Err ''malformed protection rules'')"

definition GIT_NO_CHANNEL_BINDING_BODY :: string where
  "GIT_NO_CHANNEL_BINDING_BODY = ''no_channel_binding: repository has no channel binding''"

definition find_channel ::
    "git_env \<Rightarrow> community_id \<Rightarrow> event \<Rightarrow> (string, uuid option) result" where
  "find_channel env community repo =
     (case resolve_repo_binding env repo of
        Broken \<Rightarrow> Err ''invalid channel binding''
      | NotBound \<Rightarrow> Ok None
      | Bound ch \<Rightarrow>
          (case get_channel (ge_channels env) community ch of
             Err _ \<Rightarrow> Err ''internal error''
           | Ok row \<Rightarrow>
               if cr_archived_at row \<noteq> None then Err ''channel is archived (read-only)''
               else Ok (Some ch)))"

definition find_role ::
    "git_env \<Rightarrow> community_id \<Rightarrow> hook_request \<Rightarrow> event \<Rightarrow> uuid option \<Rightarrow> (string, member_role) result" where
  "find_role env community req repo channel_id =
     (let is_repo_owner = (hr_pusher_pubkey req = ev_pubkey repo);
          is_managed_agent_owner =
            (if is_repo_owner then False
             else is_agent_owner (ge_channels env) community (hr_repo_owner req) (hr_pusher_pubkey req))
      in if is_repo_owner \<or> is_managed_agent_owner then Ok Owner
         else
           (case channel_id of
              None \<Rightarrow> Err GIT_NO_CHANNEL_BINDING_BODY
            | Some ch \<Rightarrow>
                (case get_member_role (ge_channels env) community ch (hr_pusher_pubkey req) of
                   None \<Rightarrow> Err ''not a channel member''
                 | Some s \<Rightarrow>
                     (case role_from_str s of Ok r \<Rightarrow> Ok r | Err _ \<Rightarrow> Err ''internal error''))))"

definition git_role :: "member_role \<Rightarrow> member_role" where
  "git_role role = (if role = Bot then Member else role)"

definition to_ref_update :: "hook_ref_update \<Rightarrow> ref_update" where
  "to_ref_update r =
     \<lparr>ru_ref_name = hu_ref_name r,
      ru_kind = classify (hu_old_oid r) (hu_new_oid r) (hu_is_ancestor r),
      ru_old_oid = hu_old_oid r, ru_new_oid = hu_new_oid r\<rparr>"

section \<open>The handler\<close>

definition hook_policy_check :: "git_env \<Rightarrow> hook_request \<Rightarrow> hook_response" where
  "hook_policy_check env req =
     (case bind_result (check_request env req)
        (\<lambda>community. bind_result (check_signature env req)
          (\<lambda>_. bind_result (find_repo env community req)
            (\<lambda>repo. bind_result (find_rules repo)
              (\<lambda>rules. bind_result (find_channel env community repo)
                (\<lambda>channel_id. bind_result (find_role env community req repo channel_id)
                  (\<lambda>role. Ok (evaluate_push (map to_ref_update (hr_ref_updates req))
                                (git_role role) rules))))))) of
        Err body \<Rightarrow> Forbidden body
      | Ok (Ok _) \<Rightarrow> Allowed
      | Ok (Err denials) \<Rightarrow> Denied denials)"

definition generate_hook_hmac ::
    "git_env \<Rightarrow> string \<Rightarrow> string \<Rightarrow> string \<Rightarrow> string \<Rightarrow> hook_ref_update list \<Rightarrow> nat \<Rightarrow> string" where
  "generate_hook_hmac env repo_id repo_owner community_id pusher refs timestamp =
     compute_hmac env
       \<lparr>hr_repo_id = repo_id, hr_repo_owner = repo_owner, hr_community_id = community_id,
        hr_pusher_pubkey = pusher, hr_ref_updates = refs, hr_timestamp = timestamp,
        hr_signature = []\<rparr>"

end
