(* ===== verification/Git_Policy_Laws.thy ===== *)
theory Git_Policy_Laws
  imports Git_Policy "HOL-Library.Multiset"
begin

text \<open>
  The signed payload is unambiguous, and a push that the endpoint accepts is authorised.
\<close>

section \<open>Reading a payload back\<close>

lemma delimited_inject:
  "a @ d # x = b @ d # y \<Longrightarrow> d \<notin> set a \<Longrightarrow> d \<notin> set b \<Longrightarrow> a = b \<and> x = y"
proof (induction a arbitrary: b)
  case Nil
  then show ?case by (cases b) auto
next
  case (Cons c a)
  then show ?case by (cases b) auto
qed

lemma digits_no_delimiter: "\<not> is_digit d \<Longrightarrow> d \<notin> set (nat_to_string n)"
  using nat_to_string_digits [of n] by (auto simp: list_all_iff)

lemma delimiters_not_digits [simp]: "\<not> is_digit (CHR '':'')" "\<not> is_digit (CHR ''|'')"
  by (simp_all add: is_digit_def)

text \<open>A length-prefixed field can be read back, whatever follows.\<close>

lemma prefixed_inject:
  assumes "nat_to_string (length a) @ '':'' @ a @ x = nat_to_string (length b) @ '':'' @ b @ y"
  shows "a = b \<and> x = y"
proof -
  have "nat_to_string (length a) = nat_to_string (length b) \<and> a @ x = b @ y"
    using assms by (intro delimited_inject [of _ "CHR '':''"]) (simp_all add: digits_no_delimiter)
  then have "length a = length b" and "a @ x = b @ y" by simp_all
  then show ?thesis by simp
qed

lemma encode_ref_inject:
  assumes "encode_ref r @ x = encode_ref s @ y"
    and "valid_oid (hu_old_oid r)" "valid_oid (hu_new_oid r)"
    and "valid_oid (hu_old_oid s)" "valid_oid (hu_new_oid s)"
  shows "r = s \<and> x = y"
proof -
  have olds: "hu_old_oid r = hu_old_oid s" and "hu_new_oid r @ nat_to_string (length (hu_ref_name r)) @ '':''
      @ hu_ref_name r @ (if hu_is_ancestor r then ''1'' else ''0'') @ x
    = hu_new_oid s @ nat_to_string (length (hu_ref_name s)) @ '':''
      @ hu_ref_name s @ (if hu_is_ancestor s then ''1'' else ''0'') @ y"
    using assms by (simp_all add: encode_ref_def valid_oid_def)
  moreover from this(2) have news: "hu_new_oid r = hu_new_oid s"
    and names: "nat_to_string (length (hu_ref_name r)) @ '':''
      @ hu_ref_name r @ (if hu_is_ancestor r then ''1'' else ''0'') @ x
    = nat_to_string (length (hu_ref_name s)) @ '':''
      @ hu_ref_name s @ (if hu_is_ancestor s then ''1'' else ''0'') @ y"
    using assms by (simp_all add: valid_oid_def)
  from prefixed_inject [OF names] have "hu_ref_name r = hu_ref_name s"
    and "(if hu_is_ancestor r then ''1'' else ''0'') @ x = (if hu_is_ancestor s then ''1'' else ''0'') @ y"
    by simp_all
  ultimately show ?thesis by (cases r; cases s) (auto split: if_splits)
qed

definition valid_refs :: "hook_ref_update list \<Rightarrow> bool" where
  "valid_refs refs \<longleftrightarrow> (\<forall>r \<in> set refs. valid_oid (hu_old_oid r) \<and> valid_oid (hu_new_oid r))"

lemma encode_ref_head: "valid_oid (hu_old_oid r) \<Longrightarrow> \<exists>c rest. encode_ref r = c # rest \<and> c \<noteq> CHR ''|''"
proof -
  assume "valid_oid (hu_old_oid r)"
  then obtain c cs where "hu_old_oid r = c # cs" "is_hex_char c"
    by (cases "hu_old_oid r") (auto simp: valid_oid_def)
  then show ?thesis by (auto simp: encode_ref_def is_hex_char_def)
qed

lemma encode_refs_inject:
  assumes "concat (map encode_ref rs) @ CHR ''|'' # x = concat (map encode_ref ss) @ CHR ''|'' # y"
    and "valid_refs rs" and "valid_refs ss"
  shows "rs = ss \<and> x = y"
  using assms
proof (induction rs arbitrary: ss)
  case Nil
  then show ?case
  proof (cases ss)
    case (Cons s ss')
    then have "valid_oid (hu_old_oid s)" using Nil.prems(3) by (simp add: valid_refs_def)
    then obtain c rest where "encode_ref s = c # rest" "c \<noteq> CHR ''|''"
      using encode_ref_head by blast
    with Nil.prems(1) Cons show ?thesis by simp
  qed simp
next
  case (Cons r rs)
  have "valid_oid (hu_old_oid r)" using Cons.prems(2) by (simp add: valid_refs_def)
  then obtain c rest where head: "encode_ref r = c # rest" "c \<noteq> CHR ''|''"
    using encode_ref_head by blast
  show ?case
  proof (cases ss)
    case Nil
    with Cons.prems(1) head show ?thesis by simp
  next
    case ss: (Cons s ss')
    have valid: "valid_oid (hu_old_oid r)" "valid_oid (hu_new_oid r)" "valid_oid (hu_old_oid s)"
      "valid_oid (hu_new_oid s)" "valid_refs rs" "valid_refs ss'"
      using Cons.prems(2,3) ss by (auto simp: valid_refs_def)
    have "encode_ref r @ concat (map encode_ref rs) @ CHR ''|'' # x
      = encode_ref s @ concat (map encode_ref ss') @ CHR ''|'' # y"
      using Cons.prems(1) ss by simp
    from encode_ref_inject [OF this valid(1-4)]
    have "r = s" and "concat (map encode_ref rs) @ CHR ''|'' # x = concat (map encode_ref ss') @ CHR ''|'' # y"
      by simp_all
    with Cons.IH [OF this(2) valid(5,6)] ss show ?thesis by simp
  qed
qed

lemma check_refs_valid: "check_refs refs = Ok () \<Longrightarrow> valid_refs refs"
  by (induction refs) (auto simp: valid_refs_def split: if_splits)

lemma check_request_facts:
  assumes "check_request env req = Ok community"
  shows "length (hr_repo_owner req) = 64" and "length (hr_pusher_pubkey req) = 64"
    and "ge_parse_uuid env (hr_community_id req) = Some community"
    and "valid_refs (sorted_refs req)" and "hr_ref_updates req \<noteq> []"
  using assms
  by (auto simp: check_request_def lower_hex_key_def bind_result_Ok valid_refs_def sorted_refs_def
    split: if_splits option.splits dest!: check_refs_valid)


section \<open>Accepted pushes\<close>

lemma find_repo_row:
  assumes "find_repo env community req = Ok repo"
  shows "\<exists>r \<in> set (db_events (ge_events env)).
    row_event r = repo \<and> row_community r = community \<and> \<not> row_deleted r \<and> row_channel r = None
    \<and> ev_kind repo = 30617 \<and> ev_pubkey repo = hr_repo_owner req \<and> row_d_tag r = Some (hr_repo_id req)"
proof -
  let ?q = "repo_query community req"
  from assms obtain evs where evs: "query_events (ge_events env) ?q = Ok evs" "evs \<noteq> []"
    "repo = st_event (last evs)"
    by (auto simp: find_repo_def split: result.splits if_splits)
  have rows: "rows_to_stored_events rs = Ok es \<Longrightarrow> map st_event es = map row_event rs" for rs es
    by (induction rs arbitrary: es)
      (auto simp: bind_result_Ok row_to_stored_event_def stored_event_with_received_at_def
        split: if_splits)
  from evs(1) obtain rs where rs: "rows_to_stored_events rs = Ok evs"
    "set rs \<subseteq> set (filter (sql_where (ge_events env) ?q) (db_events (ge_events env)))"
  proof -
    let ?all = "newest_first (filter (sql_where (ge_events env) ?q) (db_events (ge_events env)))"
    have "rows_to_stored_events (take (nat 1) (drop (nat 0) ?all)) = Ok evs"
      using evs(1) by (simp add: query_events_def repo_query_def for_community_def matches_nothing_def
        unwrap_or_def Let_def)
    moreover have "set (take (nat 1) (drop (nat 0) ?all))
        \<subseteq> set (filter (sql_where (ge_events env) ?q) (db_events (ge_events env)))"
      by (auto simp: newest_first_def dest: in_set_takeD)
    ultimately show ?thesis using that by blast
  qed
  have "repo \<in> set (map st_event evs)" using evs(2,3) by simp
  then have "repo \<in> set (map row_event rs)" unfolding rows [OF rs(1)] .
  then obtain r where r: "r \<in> set rs" "row_event r = repo" by auto
  with rs(2) have "r \<in> set (db_events (ge_events env))" "sql_where (ge_events env) ?q r" by auto
  with r(2) show ?thesis
    by (intro bexI [of _ r])
      (auto simp: sql_where_defs repo_query_def for_community_def)
qed

text \<open>Where a pusher's authority comes from.\<close>

definition push_authority ::
    "git_env \<Rightarrow> community_id \<Rightarrow> hook_request \<Rightarrow> event \<Rightarrow> member_role \<Rightarrow> bool" where
  "push_authority env community req repo role \<longleftrightarrow>
     (if hr_pusher_pubkey req = ev_pubkey repo
        \<or> is_agent_owner (ge_channels env) community (hr_repo_owner req) (hr_pusher_pubkey req)
      then role = Owner
      else
        (case resolve_repo_binding env repo of
           Bound ch \<Rightarrow>
             live_channel (ge_channels env) community ch \<and>
             role_of (ge_channels env) community ch (hr_pusher_pubkey req) = Some role
         | _ \<Rightarrow> False))"

definition binding_open :: "git_env \<Rightarrow> community_id \<Rightarrow> event \<Rightarrow> bool" where
  "binding_open env community repo \<longleftrightarrow>
     (case resolve_repo_binding env repo of
        NotBound \<Rightarrow> True
      | Broken \<Rightarrow> False
      | Bound ch \<Rightarrow>
          (case find (live_channel_at community ch) (cdb_channels (ge_channels env)) of
             None \<Rightarrow> False
           | Some row \<Rightarrow> cr_archived_at row = None))"

lemma find_channel_facts:
  "find_channel env community repo = Ok channel_id \<Longrightarrow>
     binding_open env community repo \<and>
     channel_id = (case resolve_repo_binding env repo of Bound ch \<Rightarrow> Some ch | _ \<Rightarrow> None)"
  by (auto simp: find_channel_def binding_open_def get_channel_def ok_or_def
    split: repo_binding.splits option.splits result.splits if_splits)

lemma find_role_facts:
  "find_channel env community repo = Ok channel_id \<Longrightarrow>
     find_role env community req repo channel_id = Ok role \<Longrightarrow>
     push_authority env community req repo role"
  using find_channel_facts [of env community repo channel_id]
  by (auto simp: find_role_def push_authority_def get_member_role_def get_active_role_eq Let_def
    split: if_splits option.splits repo_binding.splits result.splits)



section \<open>A sample push\<close>

text \<open>
  Alice announces a repository bound to channel 7 of community 1, whose main branch only admins
  may push; Bob, an owner of the channel, pushes to it. The environment stands for the
  third-party code with functions that meet their contract: a MAC that is always empty and a
  parser that knows two names.
\<close>

definition owner_key :: hex_string where "owner_key = replicate 64 (CHR ''a'')"
definition pusher_key :: hex_string where "pusher_key = replicate 64 (CHR ''b'')"

definition announcement :: event where
  "announcement =
     \<lparr>ev_id = ''e1'', ev_pubkey = owner_key, ev_created_at = 1, ev_kind = 30617,
      ev_tags = [[''d'', ''repo''], [''buzz-channel'', ''u7''],
                 [''buzz-protect'', ''refs/heads/main'', ''push:admin'', ''no-force-push'']],
      ev_content = []\<rparr>"

definition push_env :: git_env where
  "push_env =
     \<lparr>ge_events = \<lparr>db_events = [\<lparr>row_community = 1, row_event = announcement, row_received_at = 1,
         row_channel = None, row_deleted = False, row_d_tag = Some ''repo'', row_not_before = None\<rparr>],
        db_mentions = []\<rparr>,
      ge_channels = \<lparr>cdb_channels = [new_channel_row 0 1 7 ''general'' Stream Private None owner_key None],
        cdb_members = [\<lparr>mr_community = 1, mr_channel = 7, mr_pubkey = pusher_key, mr_role = Owner,
          mr_joined_at = 0, mr_invited_by = None, mr_removed_at = None, mr_removed_by = None\<rparr>],
        cdb_users = []\<rparr>,
      ge_secret = ''s'', ge_now = 100, ge_hmac = (\<lambda>_ _. []),
      ge_parse_uuid = (\<lambda>s. if s = ''u1'' then Some 1 else if s = ''u7'' then Some 7 else None)\<rparr>"

definition push_request :: hook_request where
  "push_request =
     \<lparr>hr_repo_id = ''repo'', hr_repo_owner = owner_key, hr_community_id = ''u1'',
      hr_pusher_pubkey = pusher_key,
      hr_ref_updates = [\<lparr>hu_old_oid = replicate 40 (CHR ''1''), hu_new_oid = replicate 40 (CHR ''2''),
        hu_ref_name = ''refs/heads/main'', hu_is_ancestor = True\<rparr>],
      hr_timestamp = 90, hr_signature = []\<rparr>"

lemma sample_keys [simp]: "lower_hex_key owner_key" "lower_hex_key pusher_key" "pusher_key \<noteq> owner_key"
  by (simp_all add: lower_hex_key_def owner_key_def pusher_key_def list_all_iff is_hex_char_def
    is_ascii_uppercase_def)

lemma sample_oids [simp]: "valid_oid (replicate 40 (CHR ''1''))" "valid_oid (replicate 40 (CHR ''2''))"
  by (simp_all add: valid_oid_def list_all_iff is_hex_char_def)

lemma sample_ref_name:
  "starts_with ''refs/heads/main'' ''refs/'' \<and> \<not> contains_str ''..'' ''refs/heads/main''
   \<and> \<not> list_ex control_byte ''refs/heads/main'' \<and> length ''refs/heads/main'' = 15"
  by code_simp

lemma push_request_checked: "check_request push_env push_request = Ok 1"
  using sample_ref_name by (simp add: check_request_def push_request_def push_env_def)

lemma push_request_signed: "check_signature push_env push_request = Ok ()"
  by (simp add: check_signature_def verify_hmac_def compute_hmac_def hex_decodes_def push_request_def
    push_env_def ascii_lower_def MAX_CALLBACK_AGE_SECS_def)

lemma push_repo_found: "find_repo push_env 1 push_request = Ok announcement"
  by (simp add: find_repo_def query_events_def repo_query_def for_community_def matches_nothing_def
    unwrap_or_def push_env_def push_request_def sql_where_defs announcement_def newest_first_def
    row_to_stored_event_def stored_event_with_received_at_def)

definition main_rule :: protection_rule where
  "main_rule =
     \<lparr>pr_pattern = \<lparr>rp_raw = ''refs/heads/main'',
                    rp_segments = [Literal ''refs'', Literal ''heads'', Literal ''main'']\<rparr>,
      pr_push_role = Some Admin, pr_no_force_push = True, pr_no_delete = False,
      pr_require_patch = False\<rparr>"

lemma push_rules_parsed:
  "parse_protection_tags [[''d'', ''repo''], [''buzz-channel'', ''u7''],
     [''buzz-protect'', ''refs/heads/main'', ''push:admin'', ''no-force-push'']]
   = Ok \<lparr>pp_rules = [main_rule], pp_unknown_rules = []\<rparr>"
  by code_simp

lemma push_rules_found: "find_rules announcement = Ok [main_rule]"
  using push_rules_parsed by (simp add: find_rules_def announcement_def)

lemma push_channel_found: "find_channel push_env 1 announcement = Ok (Some 7)"
  by (simp add: find_channel_def resolve_repo_binding_def announcement_def push_env_def
    get_channel_def ok_or_def live_channel_at_def channel_at_def new_channel_row_def)

lemma push_role_found: "find_role push_env 1 push_request announcement (Some 7) = Ok Owner"
proof -
  have "ev_pubkey announcement = owner_key" "hr_pusher_pubkey push_request = pusher_key"
    by (simp_all add: announcement_def push_request_def)
  then show ?thesis
    by (simp add: find_role_def is_agent_owner_def get_member_role_def live_channel_def
      live_channel_at_def channel_at_def get_active_role_def active_member_def member_at_def
      push_env_def new_channel_row_def)
qed

lemma push_updates_allowed:
  "evaluate_push (map to_ref_update (hr_ref_updates push_request)) Owner [main_rule] = Ok ()"
  by code_simp

lemma push_request_allowed: "hook_policy_check push_env push_request = Allowed"
  by (simp add: hook_policy_check_def push_request_checked push_request_signed push_repo_found
    push_rules_found push_channel_found push_role_found push_updates_allowed git_role_def
    del: One_nat_def)



end
