(* ===== verification/Json.thy ===== *)
theory Json
  imports Strings
begin

text \<open>
  \<open>serde_json::Value\<close>. An object is the list of its members in the map's order, with distinct
  keys; a number is an integer or, where it is none, its text.
\<close>

datatype json =
    JNull
  | JBool bool
  | JNumber int
  | JFloat string
  | JString string
  | JArray "json list"
  | JObject "(string \<times> json) list"

definition json_get :: "json \<Rightarrow> string \<Rightarrow> json option" where
  "json_get v k = (case v of JObject kvs \<Rightarrow> map_of kvs k | _ \<Rightarrow> None)"

definition json_as_str :: "json \<Rightarrow> string option" where
  "json_as_str v = (case v of JString s \<Rightarrow> Some s | _ \<Rightarrow> None)"

definition json_as_array :: "json \<Rightarrow> json list option" where
  "json_as_array v = (case v of JArray vs \<Rightarrow> Some vs | _ \<Rightarrow> None)"

text \<open>\<open>Map::insert\<close>: an existing member keeps its place.\<close>

definition member_insert :: "string \<Rightarrow> json \<Rightarrow> (string \<times> json) list \<Rightarrow> (string \<times> json) list" where
  "member_insert k v kvs =
     (if k \<in> set (map fst kvs) then map (\<lambda>(k', v'). if k' = k then (k, v) else (k', v')) kvs
      else kvs @ [(k, v)])"

lemma map_of_member_insert [simp]:
  "map_of (member_insert k v kvs) k' = (if k' = k then Some v else map_of kvs k')"
proof (cases "k \<in> fst ` set kvs")
  case True
  moreover have "map_of (map (\<lambda>(k', v'). if k' = k then (k, v) else (k', v')) kvs) k'
      = (if k' = k then Some v else map_of kvs k')" if "k \<in> fst ` set kvs" for kvs
    using that
  proof (induction kvs)
    case Nil
    then show ?case by simp
  next
    case (Cons e kvs)
    show ?case
    proof (cases "k \<in> fst ` set kvs")
      case True
      with Cons.IH show ?thesis by (cases e) auto
    next
      case False
      then have "map (\<lambda>(k', v'). if k' = k then (k, v) else (k', v')) kvs = kvs"
        by (induction kvs) auto
      with Cons.prems False show ?thesis by (cases e) auto
    qed
  qed
  ultimately show ?thesis by (simp add: member_insert_def image_iff)
next
  case False
  then have "map_of kvs k = None" by (simp add: map_of_eq_None_iff)
  with False show ?thesis
    by (auto simp: member_insert_def map_add_def split: option.splits)
qed

lemma json_get_simps [simp]:
  "json_get (JObject kvs) k = map_of kvs k" "json_get (JArray vs) k = None"
  "json_get (JString s) k = None" "json_get JNull k = None"
  by (simp_all add: json_get_def)

end
