(* ===== verification/Audit_Log.thy ===== *)
theory Audit_Log
  imports Json "HOL-Library.List_Lexorder" "HOL-Library.Char_ord"
begin

text \<open>
  The audit log, crate \<open>buzz-audit\<close>: one hash chain per community in the table \<open>audit_log\<close>.
  Third-party code is a parameter, collected in \<open>audit_env\<close>: SHA-256, the RFC 3339 text of an
  instant, the JSON text of a scalar, and what PostgreSQL returns for a stored instant. An
  instant is an integer of nanoseconds; byte strings are strings. The per-community advisory
  lock makes \<open>log\<close> one step.
\<close>

section \<open>Actions and entries\<close>

datatype audit_action =
    EventCreated
  | EventDeleted
  | ChannelCreated
  | ChannelUpdated
  | ChannelDeleted
  | MemberAdded
  | MemberRemoved
  | AuthSuccess
  | AuthFailure
  | RateLimitExceeded
  | MediaUploaded

definition action_as_str :: "audit_action \<Rightarrow> string" where
  "action_as_str a =
     (case a of
        EventCreated \<Rightarrow> ''event_created''
      | EventDeleted \<Rightarrow> ''event_deleted''
      | ChannelCreated \<Rightarrow> ''channel_created''
      | ChannelUpdated \<Rightarrow> ''channel_updated''
      | ChannelDeleted \<Rightarrow> ''channel_deleted''
      | MemberAdded \<Rightarrow> ''member_added''
      | MemberRemoved \<Rightarrow> ''member_removed''
      | AuthSuccess \<Rightarrow> ''auth_success''
      | AuthFailure \<Rightarrow> ''auth_failure''
      | RateLimitExceeded \<Rightarrow> ''rate_limit_exceeded''
      | MediaUploaded \<Rightarrow> ''media_uploaded'')"

definition ALL_ACTIONS :: "audit_action list" where
  "ALL_ACTIONS =
     [EventCreated, EventDeleted, ChannelCreated, ChannelUpdated, ChannelDeleted, MemberAdded,
      MemberRemoved, AuthSuccess, AuthFailure, RateLimitExceeded, MediaUploaded]"

definition action_from_str :: "string \<Rightarrow> (string, audit_action) result" where
  "action_from_str s = ok_or (find (\<lambda>a. action_as_str a = s) ALL_ACTIONS) s"

record audit_entry =
  ae_community_id :: uuid
  ae_seq :: int
  ae_hash :: string
  ae_prev_hash :: "string option"
  ae_action :: audit_action
  ae_actor_pubkey :: "string option"
  ae_object_id :: "string option"
  ae_detail :: json
  ae_created_at :: int

record new_audit_entry =
  ne_community_id :: uuid
  ne_action :: audit_action
  ne_actor_pubkey :: "string option"
  ne_object_id :: "string option"
  ne_detail :: json

datatype audit_error =
    Database
  | ChainViolation int
  | HashMismatch int
  | UnknownAction
  | Serialization

record audit_env =
  au_sha256 :: "string \<Rightarrow> string"
  au_rfc3339 :: "int \<Rightarrow> string"
  au_scalar :: "json \<Rightarrow> string option"
  au_stored :: "int \<Rightarrow> int"

section \<open>Hashing\<close>

text \<open>Big-endian bytes of a number; a negative \<open>i64\<close> is its two's complement.\<close>

fun be_bytes :: "nat \<Rightarrow> nat \<Rightarrow> string" where
  "be_bytes 0 n = []"
| "be_bytes (Suc k) n = be_bytes k (n div 256) @ [char_of (n mod 256)]"

definition i64_bytes :: "int \<Rightarrow> string" where
  "i64_bytes i = be_bytes 8 (nat (i mod 2 ^ 64))"

definition GENESIS_HASH :: string where
  "GENESIS_HASH = replicate 32 (char_of (0 :: nat))"

definition to_storage_precision :: "int \<Rightarrow> int" where
  "to_storage_precision t = t - t mod 1000"

text \<open>
  \<open>canonical_json\<close>: members in the order of their keys. Any scalar that does not serialise is
  an error.
\<close>

fun join_comma :: "string list \<Rightarrow> string" where
  "join_comma [] = []"
| "join_comma [s] = s"
| "join_comma (s # ss) = s @ '','' @ join_comma ss"

fun all_or_none :: "'a option list \<Rightarrow> 'a list option" where
  "all_or_none [] = Some []"
| "all_or_none (x # xs) =
     (case x of None \<Rightarrow> None | Some y \<Rightarrow> map_option (\<lambda>ys. y # ys) (all_or_none xs))"

definition member_text :: "audit_env \<Rightarrow> string \<times> string option \<Rightarrow> string option" where
  "member_text env kv =
     (case au_scalar env (JString (fst kv)) of
        None \<Rightarrow> None
      | Some k \<Rightarrow> map_option (\<lambda>v. k @ '':'' @ v) (snd kv))"

fun canonical_json :: "audit_env \<Rightarrow> json \<Rightarrow> string option" where
  "canonical_json env (JObject kvs) =
     map_option (\<lambda>parts. ''{'' @ join_comma parts @ ''}'')
       (all_or_none (map (member_text env)
         (sort_key fst (map (\<lambda>(k, v). (k, canonical_json env v)) kvs))))"
| "canonical_json env (JArray vs) =
     map_option (\<lambda>parts. ''['' @ join_comma parts @ '']'')
       (all_or_none (map (canonical_json env) vs))"
| "canonical_json env v = au_scalar env v"

definition presence :: "string option \<Rightarrow> string" where
  "presence x = (case x of None \<Rightarrow> [char_of (0 :: nat)] | Some s \<Rightarrow> char_of (1 :: nat) # s)"

definition preimage :: "audit_env \<Rightarrow> audit_entry \<Rightarrow> (audit_error, string) result" where
  "preimage env e =
     (case canonical_json env (ae_detail e) of
        None \<Rightarrow> Err Serialization
      | Some detail \<Rightarrow>
          Ok (be_bytes 16 (ae_community_id e) @ i64_bytes (ae_seq e)
              @ au_rfc3339 env (to_storage_precision (ae_created_at e))
              @ action_as_str (ae_action e) @ presence (ae_actor_pubkey e)
              @ presence (ae_object_id e) @ detail
              @ (case ae_prev_hash e of Some h \<Rightarrow> h | None \<Rightarrow> GENESIS_HASH)))"

definition compute_hash :: "audit_env \<Rightarrow> audit_entry \<Rightarrow> (audit_error, string) result" where
  "compute_hash env e = bind_result (preimage env e) (\<lambda>p. Ok (au_sha256 env p))"

section \<open>The table\<close>

record audit_row =
  ar_community_id :: uuid
  ar_seq :: int
  ar_hash :: string
  ar_prev_hash :: "string option"
  ar_action :: string
  ar_actor_pubkey :: "string option"
  ar_object_id :: "string option"
  ar_detail :: json
  ar_created_at :: int

definition row_to_audit_entry :: "audit_env \<Rightarrow> audit_row \<Rightarrow> (audit_error, audit_entry) result" where
  "row_to_audit_entry env r =
     (case action_from_str (ar_action r) of
        Err _ \<Rightarrow> Err UnknownAction
      | Ok a \<Rightarrow>
          Ok \<lparr>ae_community_id = ar_community_id r, ae_seq = ar_seq r, ae_hash = ar_hash r,
              ae_prev_hash = ar_prev_hash r, ae_action = a, ae_actor_pubkey = ar_actor_pubkey r,
              ae_object_id = ar_object_id r, ae_detail = ar_detail r,
              ae_created_at = au_stored env (ar_created_at r)\<rparr>)"

definition entry_to_row :: "audit_entry \<Rightarrow> audit_row" where
  "entry_to_row e =
     \<lparr>ar_community_id = ae_community_id e, ar_seq = ae_seq e, ar_hash = ae_hash e,
      ar_prev_hash = ae_prev_hash e, ar_action = action_as_str (ae_action e),
      ar_actor_pubkey = ae_actor_pubkey e, ar_object_id = ae_object_id e,
      ar_detail = ae_detail e, ar_created_at = ae_created_at e\<rparr>"

text \<open>\<open>ORDER BY seq DESC LIMIT 1\<close> within the community.\<close>

definition chain_head :: "uuid \<Rightarrow> audit_row list \<Rightarrow> audit_row option" where
  "chain_head c rows = min_by_key (\<lambda>r. - ar_seq r) (filter (\<lambda>r. ar_community_id r = c) rows)"

text \<open>
  Appending an entry: the primary key \<open>(community_id, seq)\<close> makes an existing row an error.
\<close>

definition unhashed_entry :: "int \<Rightarrow> new_audit_entry \<Rightarrow> audit_row list \<Rightarrow> audit_entry" where
  "unhashed_entry now new rows =
     (let c = ne_community_id new;
          (prev_seq, prev_hash) =
            (case chain_head c rows of Some r \<Rightarrow> (ar_seq r, Some (ar_hash r)) | None \<Rightarrow> (0, None))
      in \<lparr>ae_community_id = c, ae_seq = prev_seq + 1, ae_hash = [], ae_prev_hash = prev_hash,
          ae_action = ne_action new, ae_actor_pubkey = ne_actor_pubkey new,
          ae_object_id = ne_object_id new, ae_detail = ne_detail new,
          ae_created_at = to_storage_precision now\<rparr>)"

definition audit_log ::
    "audit_env \<Rightarrow> int \<Rightarrow> new_audit_entry \<Rightarrow> audit_row list \<Rightarrow> (audit_error, audit_entry \<times> audit_row list) result"
  where
  "audit_log env now new rows =
     (let e0 = unhashed_entry now new rows in
      bind_result (compute_hash env e0)
        (\<lambda>h. let e = e0\<lparr>ae_hash := h\<rparr> in
           if list_ex (\<lambda>r. ar_community_id r = ae_community_id e \<and> ar_seq r = ae_seq e) rows
           then Err Database
           else Ok (e, rows @ [entry_to_row e])))"

section \<open>Verification\<close>

definition chain_rows :: "uuid \<Rightarrow> int \<Rightarrow> int \<Rightarrow> audit_row list \<Rightarrow> audit_row list" where
  "chain_rows c from_seq to_seq rows =
     sort_key ar_seq
       (filter (\<lambda>r. ar_community_id r = c \<and> from_seq \<le> ar_seq r \<and> ar_seq r \<le> to_seq) rows)"

fun verify_loop :: "audit_env \<Rightarrow> audit_row list \<Rightarrow> string option \<Rightarrow> (audit_error, bool) result" where
  "verify_loop env [] expected_prev = Ok True"
| "verify_loop env (row # rows) expected_prev =
     (case row_to_audit_entry env row of
        Err e \<Rightarrow> Err e
      | Ok entry \<Rightarrow>
          if expected_prev \<noteq> None \<and> ae_prev_hash entry \<noteq> expected_prev
          then Err (ChainViolation (ae_seq entry))
          else
            (case compute_hash env entry of
               Err e \<Rightarrow> Err e
             | Ok computed \<Rightarrow>
                 if computed \<noteq> ae_hash entry then Err (HashMismatch (ae_seq entry))
                 else verify_loop env rows (Some (ae_hash entry))))"

definition verify_chain :: "audit_env \<Rightarrow> uuid \<Rightarrow> int \<Rightarrow> int \<Rightarrow> audit_row list \<Rightarrow> (audit_error, bool) result" where
  "verify_chain env c from_seq to_seq rows =
     (let segment = chain_rows c from_seq to_seq rows in
      if segment = [] then Ok False else verify_loop env segment None)"

fun rows_to_entries :: "audit_env \<Rightarrow> audit_row list \<Rightarrow> (audit_error, audit_entry list) result" where
  "rows_to_entries env [] = Ok []"
| "rows_to_entries env (r # rs) =
     bind_result (row_to_audit_entry env r)
       (\<lambda>e. bind_result (rows_to_entries env rs) (\<lambda>es. Ok (e # es)))"

definition get_entries ::
    "audit_env \<Rightarrow> uuid \<Rightarrow> int \<Rightarrow> int \<Rightarrow> audit_row list \<Rightarrow> (audit_error, audit_entry list) result" where
  "get_entries env c from_seq limit rows =
     (if limit < 0 then Err Database
      else rows_to_entries env
        (take (nat limit)
          (sort_key ar_seq (filter (\<lambda>r. ar_community_id r = c \<and> from_seq \<le> ar_seq r) rows))))"

end
