(* ===== verification/Audit_Log_Laws.thy ===== *)
theory Audit_Log_Laws
  imports Audit_Log
begin

text \<open>
  What the audit chain guarantees and what it does not: the log always verifies, a verified
  segment is pinned by the hash of its last entry, but the check does not notice a chain that
  lost its beginning or its end, nor a shift of text between two of the hashed fields.
\<close>

section \<open>Well-formed chains\<close>

definition row_hash_ok :: "audit_env \<Rightarrow> audit_row \<Rightarrow> bool" where
  "row_hash_ok env r \<longleftrightarrow>
     (case row_to_audit_entry env r of
        Err _ \<Rightarrow> False
      | Ok e \<Rightarrow> compute_hash env e = Ok (ar_hash r))"

fun linked :: "audit_env \<Rightarrow> int \<Rightarrow> string option \<Rightarrow> audit_row list \<Rightarrow> bool" where
  "linked env n prev [] = True"
| "linked env n prev (r # rs) \<longleftrightarrow>
     ar_seq r = n \<and> ar_prev_hash r = prev \<and> row_hash_ok env r \<and>
     linked env (n + 1) (Some (ar_hash r)) rs"

definition chain_of :: "uuid \<Rightarrow> audit_row list \<Rightarrow> audit_row list" where
  "chain_of c rows = filter (\<lambda>r. ar_community_id r = c) rows"

definition log_wf :: "audit_env \<Rightarrow> audit_row list \<Rightarrow> bool" where
  "log_wf env rows \<longleftrightarrow> (\<forall>c. linked env 1 None (chain_of c rows))"

definition chain_end :: "string option \<Rightarrow> audit_row list \<Rightarrow> string option" where
  "chain_end prev rs = (if rs = [] then prev else Some (ar_hash (last rs)))"

lemma linked_append:
  "linked env n prev (rs @ ss) \<longleftrightarrow>
     linked env n prev rs \<and> linked env (n + int (length rs)) (chain_end prev rs) ss"
  by (induction rs arbitrary: n prev) (auto simp: chain_end_def algebra_simps)

lemma linked_seqs: "linked env n prev rs \<Longrightarrow> map ar_seq rs = map (\<lambda>i. n + int i) [0 ..< length rs]"
proof (induction rs arbitrary: n prev rule: rev_induct)
  case Nil
  then show ?case by simp
next
  case (snoc r rs)
  then show ?case using snoc.IH [of n prev] by (simp add: linked_append)
qed

lemma linked_take: "linked env n prev rs \<Longrightarrow> linked env n prev (take k rs)"
  using linked_append [of env n prev "take k rs" "drop k rs"] by simp

lemma linked_drop:
  "linked env n prev rs \<Longrightarrow> \<exists>n' prev'. linked env n' prev' (drop k rs)"
  using linked_append [of env n prev "take k rs" "drop k rs"] by auto

lemma linked_sorted: "linked env n prev rs \<Longrightarrow> sorted (map ar_seq rs)"
  by (simp add: linked_seqs sorted_iff_nth_mono)

lemma linked_range:
  assumes "linked env n prev rs"
  shows "\<exists>j k. filter (\<lambda>r. a \<le> ar_seq r \<and> ar_seq r \<le> b) rs = take k (drop j rs)"
  using assms
proof (induction rs arbitrary: n prev)
  case Nil
  then show ?case by simp
next
  case (Cons r rs)
  then have tail: "linked env (n + 1) (Some (ar_hash r)) rs" and n: "ar_seq r = n" by simp_all
  have later: "n < ar_seq x" if "x \<in> set rs" for x
  proof -
    have "ar_seq x \<in> set (map ar_seq rs)" using that by simp
    then show ?thesis unfolding linked_seqs [OF tail] by auto
  qed
  consider (before) "n < a" | (inside) "a \<le> n" "n \<le> b" | (after) "b < n" by linarith
  then show ?case
  proof cases
    case before
    from Cons.IH [OF tail] obtain j k
      where "filter (\<lambda>r. a \<le> ar_seq r \<and> ar_seq r \<le> b) rs = take k (drop j rs)" by blast
    with before n show ?thesis by (intro exI [of _ "Suc j"] exI [of _ k]) simp
  next
    case inside
    have low: "filter (\<lambda>r. a \<le> ar_seq r \<and> ar_seq r \<le> b) rs = filter (\<lambda>r. ar_seq r \<le> b) rs"
      using later inside by (intro filter_cong) force+
    have "\<exists>k. filter (\<lambda>r. ar_seq r \<le> b) rs = take k rs" using tail
    proof (induction rs arbitrary: n r)
      case Nil
      then show ?case by simp
    next
      case (Cons x xs)
      then have tl: "linked env (n + 1 + 1) (Some (ar_hash x)) xs" and x: "ar_seq x = n + 1" by simp_all
      show ?case
      proof (cases "n + 1 \<le> b")
        case True
        from Cons.IH [OF tl] obtain k where "filter (\<lambda>r. ar_seq r \<le> b) xs = take k xs" by blast
        with True x show ?thesis by (intro exI [of _ "Suc k"]) simp
      next
        case False
        have "ar_seq y \<in> set (map ar_seq xs)" if "y \<in> set xs" for y using that by simp
        then have "\<not> ar_seq y \<le> b" if "y \<in> set xs" for y
          using that False unfolding linked_seqs [OF tl] by fastforce
        with False x show ?thesis by (intro exI [of _ 0]) simp
      qed
    qed
    then obtain k where "filter (\<lambda>r. ar_seq r \<le> b) rs = take k rs" by blast
    with inside n low show ?thesis by (intro exI [of _ 0] exI [of _ "Suc k"]) simp
  next
    case after
    then have "filter (\<lambda>r. a \<le> ar_seq r \<and> ar_seq r \<le> b) (r # rs) = []"
      using later n by (auto simp: filter_empty_conv) force
    then show ?thesis by (intro exI [of _ 0]) simp
  qed
qed

lemma chain_rows_eq:
  assumes "linked env n prev (chain_of c rows)"
  shows "chain_rows c a b rows
    = filter (\<lambda>r. a \<le> ar_seq r \<and> ar_seq r \<le> b) (chain_of c rows)"
proof -
  have "sorted (map ar_seq (filter (\<lambda>r. a \<le> ar_seq r \<and> ar_seq r \<le> b) (chain_of c rows)))"
    by (rule sorted_filter) (rule linked_sorted [OF assms])
  moreover have "filter (\<lambda>r. ar_community_id r = c \<and> a \<le> ar_seq r \<and> ar_seq r \<le> b) rows
      = filter (\<lambda>r. a \<le> ar_seq r \<and> ar_seq r \<le> b) (chain_of c rows)"
    by (simp add: chain_of_def conj_commute)
  ultimately show ?thesis
    unfolding chain_rows_def by (simp add: sort_key_id_if_sorted)
qed

lemma verify_linked:
  "linked env n prev rs \<Longrightarrow> expected = None \<or> expected = prev \<Longrightarrow> verify_loop env rs expected = Ok True"
proof (induction rs arbitrary: n prev expected)
  case Nil
  then show ?case by simp
next
  case (Cons r rs)
  then have ok: "row_hash_ok env r" and tail: "linked env (n + 1) (Some (ar_hash r)) rs"
    and prev: "ar_prev_hash r = prev" by simp_all
  from ok obtain e where e: "row_to_audit_entry env r = Ok e" "compute_hash env e = Ok (ar_hash r)"
    by (auto simp: row_hash_ok_def split: result.splits)
  then have "ae_prev_hash e = prev" "ae_hash e = ar_hash r"
    using prev by (auto simp: row_to_audit_entry_def split: result.splits)
  with e Cons.prems(2) Cons.IH [OF tail, of "Some (ar_hash r)"] show ?case by auto
qed

lemma verify_wf:
  assumes "linked env n prev (chain_of c rows)"
  shows "verify_chain env c a b rows = Ok (chain_rows c a b rows \<noteq> [])"
proof -
  from linked_range [OF assms] obtain j k
    where seg: "filter (\<lambda>r. a \<le> ar_seq r \<and> ar_seq r \<le> b) (chain_of c rows) = take k (drop j (chain_of c rows))"
    by blast
  from linked_drop [OF assms] obtain n' prev' where "linked env n' prev' (drop j (chain_of c rows))" by blast
  then have "linked env n' prev' (chain_rows c a b rows)"
    unfolding chain_rows_eq [OF assms] seg by (rule linked_take)
  from verify_linked [OF this, of None] show ?thesis by (simp add: verify_chain_def Let_def)
qed

section \<open>Appending\<close>

lemma action_from_as_str [simp]: "action_from_str (action_as_str a) = Ok a"
  by (cases a) (simp_all add: action_from_str_def ok_or_def ALL_ACTIONS_def action_as_str_def)

lemma to_storage_precision_idem [simp]:
  "to_storage_precision (to_storage_precision t) = to_storage_precision t"
  by (simp add: to_storage_precision_def mod_diff_left_eq [symmetric])

lemma to_storage_precision_mod: "to_storage_precision t mod 1000 = 0"
  by (simp add: to_storage_precision_def mod_diff_left_eq [symmetric])

lemma compute_hash_ignores_hash [simp]: "compute_hash env (e\<lparr>ae_hash := h\<rparr>) = compute_hash env e"
  by (cases "canonical_json env (ae_detail e)") (simp_all add: compute_hash_def preimage_def)

lemma linked_head:
  assumes "linked env n prev rs"
  shows "min_by_key (\<lambda>r. - ar_seq r) rs = (if rs = [] then None else Some (last rs))"
proof (cases "rs = []")
  case True
  then show ?thesis by simp
next
  case False
  then obtain x where x: "min_by_key (\<lambda>r. - ar_seq r) rs = Some x"
    using min_by_key_None [of "\<lambda>r. - ar_seq r" rs] by (cases "min_by_key (\<lambda>r. - ar_seq r) rs") auto
  from min_by_key_Some [OF x] have "x \<in> set rs" and "ar_seq (last rs) \<le> ar_seq x"
    using False by (auto dest: bspec [of _ _ "last rs"])
  moreover obtain i where i: "i < length rs" "rs ! i = x"
    using \<open>x \<in> set rs\<close> by (auto simp: in_set_conv_nth)
  moreover have seq: "ar_seq (rs ! j) = n + int j" if "j < length rs" for j
  proof -
    have "ar_seq (rs ! j) = map ar_seq rs ! j" using that by simp
    also have "\<dots> = n + int j" unfolding linked_seqs [OF assms] using that by simp
    finally show ?thesis .
  qed
  ultimately have "i = length rs - 1"
    using seq [of i] seq [of "length rs - 1"] False by (simp add: last_conv_nth)
  with i False x show ?thesis by (simp add: last_conv_nth)
qed

lemma chain_of_append:
  "chain_of c (rows @ [r]) = (if ar_community_id r = c then chain_of c rows @ [r] else chain_of c rows)"
  by (simp add: chain_of_def)

lemma audit_log_wf:
  assumes stored: "\<And>t. t mod 1000 = 0 \<Longrightarrow> au_stored env t = t"
    and wf: "log_wf env rows" and out: "audit_log env now entry rows = Ok (e, rows')"
  shows "log_wf env rows'"
proof -
  let ?c = "ne_community_id entry"
  have chain: "linked env 1 None (chain_of ?c rows)" using wf by (simp add: log_wf_def)
  have head: "chain_head ?c rows
      = (if chain_of ?c rows = [] then None else Some (last (chain_of ?c rows)))"
    using linked_head [OF chain] by (simp add: chain_head_def chain_of_def)
  have seqs: "ar_seq (last (chain_of ?c rows)) = int (length (chain_of ?c rows))"
    if "chain_of ?c rows \<noteq> []"
  proof -
    have "ar_seq (last (chain_of ?c rows)) = map ar_seq (chain_of ?c rows) ! (length (chain_of ?c rows) - 1)"
      using that by (simp add: last_conv_nth)
    also have "\<dots> = 1 + int (length (chain_of ?c rows) - 1)"
      unfolding linked_seqs [OF chain] using that by simp
    also have "\<dots> = int (length (chain_of ?c rows))" using that by (cases "chain_of ?c rows") auto
    finally show ?thesis .
  qed
  let ?e0 = "unhashed_entry now entry rows"
  from out obtain h where h: "compute_hash env ?e0 = Ok h" and e: "e = ?e0\<lparr>ae_hash := h\<rparr>"
    and rows': "rows' = rows @ [entry_to_row e]"
    by (auto simp: audit_log_def Let_def bind_result_Ok split: if_splits)
  have comm: "ae_community_id e = ?c" and seq: "ae_seq e = 1 + int (length (chain_of ?c rows))"
    and prev: "ae_prev_hash e = chain_end None (chain_of ?c rows)"
    and time: "ae_created_at e mod 1000 = 0"
    unfolding e using seqs
    by (auto simp: unhashed_entry_def head chain_end_def to_storage_precision_mod Let_def)
  have hash: "compute_hash env e = Ok (ae_hash e)" using h by (simp add: e)
  have "row_to_audit_entry env (entry_to_row e) = Ok e"
    using stored [OF time] by (simp add: row_to_audit_entry_def entry_to_row_def)
  then have "row_hash_ok env (entry_to_row e)"
    using hash by (simp add: row_hash_ok_def entry_to_row_def)
  then have "linked env 1 None (chain_of ?c rows @ [entry_to_row e])"
    unfolding linked_append using chain seq prev by (simp add: entry_to_row_def)
  with wf show ?thesis
    unfolding rows' log_wf_def chain_of_append by (auto simp: comm entry_to_row_def)
qed

definition audit_step :: "audit_env \<Rightarrow> int \<times> new_audit_entry \<Rightarrow> audit_row list \<Rightarrow> audit_row list" where
  "audit_step env op rows =
     (case audit_log env (fst op) (snd op) rows of Ok (_, rows') \<Rightarrow> rows' | Err _ \<Rightarrow> rows)"

lemma audit_run_wf:
  assumes "\<And>t. t mod 1000 = 0 \<Longrightarrow> au_stored env t = t"
  shows "log_wf env rows \<Longrightarrow> log_wf env (fold (audit_step env) ops rows)"
proof (induction ops arbitrary: rows)
  case Nil
  then show ?case by simp
next
  case (Cons op ops)
  have "log_wf env (audit_step env op rows)"
    using Cons.prems audit_log_wf [OF assms Cons.prems]
    by (auto simp: audit_step_def split: result.splits)
  with Cons.IH show ?case by simp
qed


section \<open>The log verifies, and so does a piece of it\<close>

lemma chain_of_filter: "chain_of c (filter p rows) = filter p (chain_of c rows)"
  by (simp add: chain_of_def conj_commute)


text \<open>
  Verification does not notice a truncated chain. Delete every entry of the log below one
  sequence number or above another: the chain that is left still verifies over every range,
  because the check compares neither the first entry with the start of the range nor the last
  with its end, and accepts any previous hash in the first row it sees.
\<close>
lemma audit_truncation_undetected:
  assumes "\<And>t. t mod 1000 = 0 \<Longrightarrow> au_stored env t = t"
  shows "let rows = filter (\<lambda>r. lo \<le> ar_seq r \<and> ar_seq r \<le> hi) (fold (audit_step env) ops []) in
    verify_chain env c a b rows = Ok (chain_rows c a b rows \<noteq> [])"
proof -
  let ?rows = "fold (audit_step env) ops []"
  have "log_wf env ?rows"
    by (rule audit_run_wf [OF assms]) (simp_all add: log_wf_def chain_of_def)
  then have chain: "linked env 1 None (chain_of c ?rows)" by (simp add: log_wf_def)
  from linked_range [OF chain, of lo hi] obtain j k where
    "chain_of c (filter (\<lambda>r. lo \<le> ar_seq r \<and> ar_seq r \<le> hi) ?rows) = take k (drop j (chain_of c ?rows))"
    by (auto simp: chain_of_filter)
  moreover obtain n prev where "linked env n prev (drop j (chain_of c ?rows))"
    using linked_drop [OF chain] by blast
  ultimately have "linked env n prev (chain_of c (filter (\<lambda>r. lo \<le> ar_seq r \<and> ar_seq r \<le> hi) ?rows))"
    by (simp add: linked_take)
  from verify_wf [OF this, of a b] show ?thesis by (simp add: Let_def)
qed

section \<open>A verified chain is pinned by its last hash\<close>

definition row_preimage :: "audit_env \<Rightarrow> audit_row \<Rightarrow> string option" where
  "row_preimage env r =
     (case row_to_audit_entry env r of
        Err _ \<Rightarrow> None
      | Ok e \<Rightarrow> (case preimage env e of Err _ \<Rightarrow> None | Ok p \<Rightarrow> Some p))"

lemma row_hash_ok_iff:
  "row_hash_ok env r \<longleftrightarrow> (\<exists>p. row_preimage env r = Some p \<and> ar_hash r = au_sha256 env p)"
  by (auto simp: row_hash_ok_def row_preimage_def compute_hash_def split: result.splits)

lemma row_preimage_prev:
  "row_preimage env r = Some p \<Longrightarrow> ar_prev_hash r = Some h \<Longrightarrow> \<exists>x. p = x @ h"
  by (auto simp: row_preimage_def row_to_audit_entry_def preimage_def
    split: result.splits option.splits)

lemma verify_loop_snoc:
  "verify_loop env (rs @ [r]) expected = Ok True \<longleftrightarrow>
     verify_loop env rs expected = Ok True \<and> row_hash_ok env r \<and>
     (chain_end expected rs = None \<or> ar_prev_hash r = chain_end expected rs)"
proof (induction rs arbitrary: expected)
  case Nil
  show ?case
    by (auto simp: row_hash_ok_def chain_end_def row_to_audit_entry_def
      split: result.splits if_splits)
next
  case (Cons x rs)
  show ?case
  proof (cases "row_to_audit_entry env x")
    case (Err e)
    then show ?thesis by simp
  next
    case (Ok e)
    then have "ae_hash e = ar_hash x" by (auto simp: row_to_audit_entry_def split: result.splits)
    with Ok Cons.IH [of "Some (ar_hash x)"] show ?thesis
      by (auto simp: chain_end_def split: result.splits if_splits)
  qed
qed

lemma verified_pinned:
  assumes len: "\<And>x. length (au_sha256 env x) = 32"
    and "verify_loop env s1 None = Ok True" and "verify_loop env s2 None = Ok True"
    and "length s1 = length s2" and "s1 = [] \<or> ar_hash (last s1) = ar_hash (last s2)"
    and "\<And>p q. Some p \<in> row_preimage env ` set s1 \<Longrightarrow> Some q \<in> row_preimage env ` set s2 \<Longrightarrow>
      au_sha256 env p = au_sha256 env q \<Longrightarrow> p = q"
  shows "map (row_preimage env) s1 = map (row_preimage env) s2 \<and> map ar_hash s1 = map ar_hash s2"
  using assms(2-)
proof (induction s1 arbitrary: s2 rule: rev_induct)
  case Nil
  then show ?case by simp
next
  case (snoc r1 t1)
  then obtain t2 r2 where s2: "s2 = t2 @ [r2]" by (cases s2 rule: rev_cases) auto
  note v1 = snoc.prems(1) [unfolded verify_loop_snoc]
    and v2 = snoc.prems(2) [unfolded s2 verify_loop_snoc]
  from v1 obtain p1 where p1: "row_preimage env r1 = Some p1" "ar_hash r1 = au_sha256 env p1"
    by (auto simp: row_hash_ok_iff)
  from v2 obtain p2 where p2: "row_preimage env r2 = Some p2" "ar_hash r2 = au_sha256 env p2"
    by (auto simp: row_hash_ok_iff)
  have last: "ar_hash r1 = ar_hash r2" using snoc.prems(4) s2 by simp
  have same: "p1 = p2"
    by (rule snoc.prems(5)) (use p1 p2 last s2 in force)+
  have "map (row_preimage env) t1 = map (row_preimage env) t2 \<and> map ar_hash t1 = map ar_hash t2"
  proof (rule snoc.IH)
    show "verify_loop env t1 None = Ok True" "verify_loop env t2 None = Ok True"
      using v1 v2 by simp_all
    show len_t: "length t1 = length t2" using snoc.prems(3) s2 by simp
    show "t1 = [] \<or> ar_hash (last t1) = ar_hash (last t2)"
    proof (cases "t1 = []")
      case False
      with len_t have "t2 \<noteq> []" by auto
      have prev: "ar_prev_hash r1 = Some (ar_hash (last t1))" "ar_prev_hash r2 = Some (ar_hash (last t2))"
        using v1 v2 False \<open>t2 \<noteq> []\<close> by (auto simp: chain_end_def)
      have thirty_two: "length (ar_hash (last t)) = 32" if t: "t \<noteq> []" "verify_loop env t None = Ok True" for t
      proof -
        from t(1) have "t = butlast t @ [last t]" by simp
        then have "row_hash_ok env (last t)" using t(2) verify_loop_snoc by metis
        then show ?thesis using len by (auto simp: row_hash_ok_iff)
      qed
      from row_preimage_prev [OF p1(1) prev(1)] row_preimage_prev [OF p2(1) prev(2)] same
      obtain x y where "x @ ar_hash (last t1) = y @ ar_hash (last t2)" by auto
      then have "ar_hash (last t1) = ar_hash (last t2)"
        using thirty_two False \<open>t2 \<noteq> []\<close> v1 v2 by (simp add: append_eq_append_conv)
      then show ?thesis by simp
    qed simp
    show "p = q" if "Some p \<in> row_preimage env ` set t1" "Some q \<in> row_preimage env ` set t2"
      "au_sha256 env p = au_sha256 env q" for p q
      using snoc.prems(5) [of p q] that s2 by auto
  qed
  with p1 p2 same last s2 show ?case by simp
qed


section \<open>Shifting text between two fields\<close>

text \<open>
  The object id is hashed without its length, directly before the detail. A digit can move from
  one to the other.
\<close>

definition shift_digit :: "audit_row \<Rightarrow> audit_row" where
  "shift_digit r =
     (if ar_object_id r = Some ''1'' \<and> ar_detail r = JNumber 23
      then r\<lparr>ar_object_id := Some ''12'', ar_detail := JNumber 3\<rparr> else r)"

lemma shift_digit_simps [simp]:
  "ar_hash (shift_digit r) = ar_hash r" "ar_seq (shift_digit r) = ar_seq r"
  "ar_community_id (shift_digit r) = ar_community_id r"
  by (simp_all add: shift_digit_def)

lemma shift_digit_entry:
  assumes "au_scalar env (JNumber 23) = Some ''23''" and "au_scalar env (JNumber 3) = Some ''3''"
  shows "case row_to_audit_entry env r of
      Err e \<Rightarrow> row_to_audit_entry env (shift_digit r) = Err e
    | Ok e \<Rightarrow> (case row_to_audit_entry env (shift_digit r) of
        Err _ \<Rightarrow> False
      | Ok e' \<Rightarrow> compute_hash env e' = compute_hash env e \<and> ae_hash e' = ae_hash e
          \<and> ae_prev_hash e' = ae_prev_hash e \<and> ae_seq e' = ae_seq e)"
  using assms
  by (auto simp: shift_digit_def row_to_audit_entry_def compute_hash_def preimage_def presence_def
    split: result.splits)

text \<open>
  The hash does not separate the object id from the detail. Rewriting an entry for object 1
  with detail 23 into one for object 12 with detail 3 leaves every verification of every chain
  unchanged, although the documentation of the entry says that tampering with the detail is
  detectable. The hypotheses are two lines of the JSON serialisation of numbers.
\<close>
lemma audit_fields_not_separated:
  assumes "au_scalar env (JNumber 23) = Some ''23''" and "au_scalar env (JNumber 3) = Some ''3''"
  shows "verify_chain env c a b (map shift_digit rows) = verify_chain env c a b rows"
proof -
  have loop: "verify_loop env (map shift_digit rs) expected = verify_loop env rs expected" for rs expected
  proof (induction rs arbitrary: expected)
    case Nil
    then show ?case by simp
  next
    case (Cons r rs)
    with shift_digit_entry [OF assms, of r] show ?case
      by (cases "row_to_audit_entry env r"; cases "row_to_audit_entry env (shift_digit r)")
        (auto split: result.splits)
  qed
  have "filter p (map shift_digit rs) = map shift_digit (filter p rs)"
    if "\<And>r. p (shift_digit r) = p r" for p rs
    using that by (induction rs) auto
  moreover have "sort_key ar_seq (map shift_digit rs) = map shift_digit (sort_key ar_seq rs)" for rs
  proof (induction rs)
    case Nil
    then show ?case by simp
  next
    case (Cons r rs)
    have "insort_key ar_seq (shift_digit x) (map shift_digit ys) = map shift_digit (insort_key ar_seq x ys)"
      for x ys by (induction ys) auto
    with Cons show ?case by simp
  qed
  ultimately have "chain_rows c a b (map shift_digit rows) = map shift_digit (chain_rows c a b rows)"
    by (simp add: chain_rows_def)
  then show ?thesis by (simp add: verify_chain_def Let_def loop)
qed


section \<open>A sample environment\<close>

definition sample_audit_env :: audit_env where
  "sample_audit_env =
     \<lparr>au_sha256 = (\<lambda>_. replicate 32 (CHR ''x'')), au_rfc3339 = (\<lambda>_. ''t''),
      au_scalar = (\<lambda>v. case v of JNumber n \<Rightarrow> Some (if n = 23 then ''23'' else ''3'') | _ \<Rightarrow> Some ''null''),
      au_stored = (\<lambda>t. t)\<rparr>"

definition sample_entry :: new_audit_entry where
  "sample_entry =
     \<lparr>ne_community_id = 5, ne_action = MemberAdded, ne_actor_pubkey = None,
      ne_object_id = Some ''1'', ne_detail = JNumber 23\<rparr>"

definition sample_log :: "audit_row list" where
  "sample_log = fold (audit_step sample_audit_env) [(1500, sample_entry)] []"

lemma sample_stored: "au_stored sample_audit_env t = t"
  by (simp add: sample_audit_env_def)

lemma sample_log_row:
  obtains r where "sample_log = [r]" "ar_community_id r = 5" "ar_seq r = 1"
    "ar_object_id r = Some ''1''" "ar_detail r = JNumber 23"
  by (simp add: sample_log_def audit_step_def audit_log_def unhashed_entry_def chain_head_def
    compute_hash_def preimage_def sample_entry_def sample_audit_env_def entry_to_row_def Let_def)

lemma sample_chain: "chain_rows 5 1 1 sample_log = sample_log"
proof -
  obtain r where r: "sample_log = [r]" and "ar_community_id r = 5" "ar_seq r = 1"
    by (rule sample_log_row)
  then show ?thesis unfolding r by (simp add: chain_rows_def)
qed

lemma sample_log_nonempty: "sample_log \<noteq> []"
proof -
  obtain r where r: "sample_log = [r]" by (rule sample_log_row)
  then show ?thesis unfolding r by simp
qed


lemma sample_log_verified: "verify_chain sample_audit_env 5 1 1 sample_log = Ok True"
proof -
  have "log_wf sample_audit_env sample_log"
    unfolding sample_log_def
    by (rule audit_run_wf [OF sample_stored]) (simp_all add: log_wf_def chain_of_def)
  then have "linked sample_audit_env 1 None (chain_of 5 sample_log)" by (simp add: log_wf_def)
  from verify_wf [OF this, of 1 1] sample_chain sample_log_nonempty show ?thesis by simp
qed

lemma audit_truncation_undetected_witness:
  "verify_chain sample_audit_env 5 1 9
     (filter (\<lambda>r. 2 \<le> ar_seq r \<and> ar_seq r \<le> 3)
       (fold (audit_step sample_audit_env) (replicate 4 (1500, sample_entry)) []))
   = Ok (chain_rows 5 1 9
       (filter (\<lambda>r. 2 \<le> ar_seq r \<and> ar_seq r \<le> 3)
         (fold (audit_step sample_audit_env) (replicate 4 (1500, sample_entry)) [])) \<noteq> [])"
  using audit_truncation_undetected [OF sample_stored, of 2 3 "replicate 4 (1500, sample_entry)" 5 1 9]
  by (simp only: Let_def)


lemma audit_fields_not_separated_witness:
  "verify_chain sample_audit_env 5 1 1 (map shift_digit sample_log) = Ok True
   \<and> map shift_digit sample_log \<noteq> sample_log"
proof
  show "verify_chain sample_audit_env 5 1 1 (map shift_digit sample_log) = Ok True"
    using audit_fields_not_separated [of sample_audit_env 5 1 1 sample_log] sample_log_verified
    by (simp add: sample_audit_env_def)
  obtain r where r: "sample_log = [r]" and "ar_object_id r = Some ''1''" "ar_detail r = JNumber 23"
    by (rule sample_log_row)
  then have "ar_object_id (shift_digit r) \<noteq> ar_object_id r" by (simp add: shift_digit_def)
  then have "shift_digit r \<noteq> r" by auto
  then show "map shift_digit sample_log \<noteq> sample_log" unfolding r by simp
qed

end
