(* ===== verification/Workflow_Schema.thy ===== *)
theory Workflow_Schema
  imports Json
begin

text \<open>
  Workflow definitions, \<open>crates/buzz-workflow/src/schema.rs\<close>, with the error type of the crate
  and the duration parser of \<open>executor.rs\<close> that validation uses. The YAML and JSON codecs and the
  cron parser are third-party code and arguments. Error texts are kept where the source fixes
  them; the text of a wrapped error is not.
\<close>

section \<open>Definitions\<close>

datatype trigger_def =
    MessagePosted "string option"
  | ReactionAdded "string option"
  | DiffPosted "string option"
  | Schedule "string option" "string option"
  | Webhook

datatype action_def =
    SendMessage string "string option"
  | SendDm string string
  | SetChannelTopic string
  | AddReaction string
  | CallWebhook string "string option" "(string \<times> string) list option" "string option"
  | RequestApproval string string "string option"
  | Delay string

record wf_step =
  sp_id :: string
  sp_name :: "string option"
  sp_if_expr :: "string option"
  sp_timeout_secs :: "nat option"
  sp_action :: action_def

record workflow_def =
  wd_name :: string
  wd_description :: "string option"
  wd_trigger :: trigger_def
  wd_steps :: "wf_step list"
  wd_enabled :: bool

datatype workflow_error =
    InvalidYaml
  | InvalidDefinition string
  | ConditionError string
  | TemplateError string
  | StepTimeout string nat
  | WebhookError string
  | CapacityExceeded
  | WfDatabase string
  | Unauthorized string
  | NotImplemented string

definition is_call_webhook :: "action_def \<Rightarrow> bool" where
  "is_call_webhook a = (case a of CallWebhook _ _ _ _ \<Rightarrow> True | _ \<Rightarrow> False)"

definition requires_elevated_authority :: "workflow_def \<Rightarrow> bool" where
  "requires_elevated_authority def = list_ex (\<lambda>s. is_call_webhook (sp_action s)) (wd_steps def)"

section \<open>Durations\<close>

definition invalid_duration :: "string \<Rightarrow> workflow_error" where
  "invalid_duration d = InvalidDefinition (''invalid duration: '' @ d)"

definition parse_u64 :: "string \<Rightarrow> nat option" where
  "parse_u64 s = parse_unsigned u64_max s"

definition scaled_duration :: "string \<Rightarrow> string \<Rightarrow> nat \<Rightarrow> (workflow_error, nat) result" where
  "scaled_duration d n factor =
     (case parse_u64 (trim n) of
        None \<Rightarrow> Err (invalid_duration d)
      | Some k \<Rightarrow>
          if k * factor \<le> u64_max then Ok (k * factor)
          else Err (InvalidDefinition (''duration overflow: '' @ d)))"

definition parse_duration_secs :: "string \<Rightarrow> (workflow_error, nat) result" where
  "parse_duration_secs duration =
     (let d = trim duration in
      case strip_suffix d ''h'' of
        Some n \<Rightarrow> scaled_duration d n 3600
      | None \<Rightarrow>
          (case strip_suffix d ''m'' of
             Some n \<Rightarrow> scaled_duration d n 60
           | None \<Rightarrow>
               (case strip_suffix d ''s'' of
                  Some n \<Rightarrow> ok_or (parse_u64 (trim n)) (invalid_duration d)
                | None \<Rightarrow> ok_or (parse_u64 d) (invalid_duration d))))"

section \<open>Cron expressions\<close>

definition normalize_cron :: "string \<Rightarrow> string" where
  "normalize_cron expr =
     (let field_count = word_count False expr in
      if field_count = 5 then ''0 '' @ expr @ '' *''
      else if field_count = 6 then expr @ '' *''
      else expr)"

definition validate_cron :: "(string \<Rightarrow> bool) \<Rightarrow> string \<Rightarrow> (workflow_error, unit) result" where
  "validate_cron cron_valid expr =
     (if cron_valid (normalize_cron expr) then Ok ()
      else Err (InvalidDefinition (''invalid cron expression '' @ expr)))"

section \<open>Validation\<close>

definition valid_step_id :: "string \<Rightarrow> bool" where
  "valid_step_id i \<longleftrightarrow>
     i \<noteq> [] \<and> length i \<le> 64 \<and> list_all (\<lambda>c. is_ascii_alphanumeric c \<or> c = CHR ''_'') i"

fun validate_step_ids :: "wf_step list \<Rightarrow> string list \<Rightarrow> (workflow_error, unit) result" where
  "validate_step_ids [] seen_ids = Ok ()"
| "validate_step_ids (step # steps) seen_ids =
     (if trim (sp_id step) = [] then Err (InvalidDefinition ''step id must not be empty'')
      else if \<not> valid_step_id (sp_id step)
      then Err (InvalidDefinition (''invalid step id '' @ sp_id step))
      else if sp_id step \<in> set seen_ids
      then Err (InvalidDefinition (''duplicate step id: '' @ sp_id step))
      else validate_step_ids steps (sp_id step # seen_ids))"

definition validate_schedule ::
    "(string \<Rightarrow> bool) \<Rightarrow> string option \<Rightarrow> string option \<Rightarrow> (workflow_error, unit) result" where
  "validate_schedule cron_valid cron interval =
     (if cron = None \<and> interval = None
      then Err (InvalidDefinition ''schedule trigger requires either cron or interval'')
      else if cron \<noteq> None \<and> interval \<noteq> None
      then Err (InvalidDefinition ''schedule trigger cannot specify both cron and interval; use one or the other'')
      else
        bind_result (case cron of Some expr \<Rightarrow> validate_cron cron_valid expr | None \<Rightarrow> Ok ())
          (\<lambda>_. case interval of
             None \<Rightarrow> Ok ()
           | Some dur \<Rightarrow>
               (case parse_duration_secs dur of
                  Err _ \<Rightarrow> Err (InvalidDefinition (''invalid interval '' @ dur))
                | Ok secs \<Rightarrow>
                    if secs < 60
                    then Err (InvalidDefinition ''interval must be at least 60s (cron loop ticks every 60 seconds)'')
                    else Ok ())))"

definition validate :: "(string \<Rightarrow> bool) \<Rightarrow> workflow_def \<Rightarrow> (workflow_error, unit) result" where
  "validate cron_valid def =
     (if trim (wd_name def) = []
      then Err (InvalidDefinition ''name is required and must not be empty'')
      else if wd_steps def = [] then Err (InvalidDefinition ''at least one step is required'')
      else
        bind_result (validate_step_ids (wd_steps def) [])
          (\<lambda>_. case wd_trigger def of
             Schedule cron interval \<Rightarrow> validate_schedule cron_valid cron interval
           | _ \<Rightarrow> Ok ()))"

text \<open>
  \<open>parse_yaml\<close>: the codecs give the definition of a YAML text, if it is one, and its JSON.
\<close>

definition parse_yaml ::
    "(string \<Rightarrow> workflow_def option) \<Rightarrow> (workflow_def \<Rightarrow> json option) \<Rightarrow> (string \<Rightarrow> bool)
     \<Rightarrow> string \<Rightarrow> (workflow_error, workflow_def \<times> json) result" where
  "parse_yaml from_yaml to_json cron_valid yaml =
     (case from_yaml yaml of
        None \<Rightarrow> Err InvalidYaml
      | Some def \<Rightarrow>
          bind_result (validate cron_valid def)
            (\<lambda>_. case to_json def of
               None \<Rightarrow> Err (InvalidDefinition ''json'')
             | Some j \<Rightarrow> Ok (def, j)))"

section \<open>What validation means\<close>

definition valid_trigger :: "(string \<Rightarrow> bool) \<Rightarrow> trigger_def \<Rightarrow> bool" where
  "valid_trigger cron_valid t =
     (case t of
        Schedule (Some e) None \<Rightarrow> cron_valid (normalize_cron e)
      | Schedule None (Some d) \<Rightarrow> (case parse_duration_secs d of Ok secs \<Rightarrow> 60 \<le> secs | Err _ \<Rightarrow> False)
      | Schedule _ _ \<Rightarrow> False
      | _ \<Rightarrow> True)"

lemma trim_valid_step_id: "valid_step_id i \<Longrightarrow> trim i = i"
proof (rule trim_no_space)
  assume "valid_step_id i"
  then have *: "i \<noteq> []" "\<And>c. c \<in> set i \<Longrightarrow> is_ascii_alphanumeric c \<or> c = CHR ''_''"
    by (auto simp: valid_step_id_def list_all_iff)
  have no: "\<not> is_space c" if "is_ascii_alphanumeric c \<or> c = CHR ''_''" for c
    using that
    by (auto simp: is_space_def is_ascii_alphanumeric_def is_ascii_alphabetic_def is_digit_def Let_def)
  show "i \<noteq> []" by (rule *(1))
  show "\<not> is_space (hd i)" "\<not> is_space (last i)" using * no by auto
qed

lemma validate_step_ids_iff:
  "validate_step_ids steps seen = Ok () \<longleftrightarrow>
     list_all (\<lambda>s. valid_step_id (sp_id s)) steps \<and> distinct (map sp_id steps)
     \<and> set (map sp_id steps) \<inter> set seen = {}"
proof (induction steps arbitrary: seen)
  case Nil
  then show ?case by simp
next
  case (Cons s ss)
  have "valid_step_id (sp_id s) \<Longrightarrow> trim (sp_id s) \<noteq> []"
    by (simp add: trim_valid_step_id) (simp add: valid_step_id_def)
  then show ?case by (auto simp: Cons.IH)
qed

lemma validate_schedule_iff:
  "validate_schedule cron_valid c i = Ok () \<longleftrightarrow> valid_trigger cron_valid (Schedule c i)"
  by (auto simp: validate_schedule_def valid_trigger_def validate_cron_def
      split: option.splits result.splits)

text \<open>
  Validation accepts exactly the well-formed definitions: a name, at least one step, step
  ids of letters, digits and underscores that are pairwise distinct, and a schedule that is
  either a cron expression the cron parser accepts or an interval of at least a minute.
\<close>
lemma validate_exact:
  "validate cron_valid def = Ok () \<longleftrightarrow>
     trim (wd_name def) \<noteq> [] \<and> wd_steps def \<noteq> []
     \<and> list_all (\<lambda>s. valid_step_id (sp_id s)) (wd_steps def) \<and> distinct (map sp_id (wd_steps def))
     \<and> valid_trigger cron_valid (wd_trigger def)"
proof -
  have "(case wd_trigger def of Schedule c i \<Rightarrow> validate_schedule cron_valid c i | _ \<Rightarrow> Ok ()) = Ok ()
      \<longleftrightarrow> valid_trigger cron_valid (wd_trigger def)"
    by (cases "wd_trigger def") (simp_all add: validate_schedule_iff, simp_all add: valid_trigger_def)
  then show ?thesis
    by (auto simp: validate_def bind_result_Ok validate_step_ids_iff list_all_iff)
qed

section \<open>Durations\<close>

lemma strip_suffix_snoc: "strip_suffix (s @ [c]) [d] = (if c = d then Some s else None)"
  by (auto simp: strip_suffix_def ends_with_def starts_with_def)

lemma nat_to_string_snoc: "\<exists>s c. nat_to_string n = s @ [c] \<and> is_digit c"
proof -
  have "nat_to_string n \<noteq> []" by (subst nat_to_string.simps) simp
  then obtain s c where "nat_to_string n = s @ [c]" by (metis rev_exhaust)
  then show ?thesis using nat_to_string_digits [of n] by auto
qed

lemma digit_not_space: "is_digit c \<Longrightarrow> \<not> is_space c"
  by (auto simp: is_digit_def is_space_def Let_def)

lemma digit_not_sign: "is_digit c \<Longrightarrow> c \<noteq> CHR ''+'' \<and> c \<noteq> CHR ''-''"
  by (auto simp: is_digit_def)

lemma nat_to_string_hd: "is_digit (hd (nat_to_string n))"
proof -
  have "nat_to_string n \<noteq> []" using nat_to_string_snoc [of n] by auto
  then show ?thesis using nat_to_string_digits [of n] by (cases "nat_to_string n") auto
qed

lemma trim_number:
  assumes "\<not> is_space c"
  shows "trim (nat_to_string n @ [c]) = nat_to_string n @ [c]"
proof (rule trim_no_space)
  show "\<not> is_space (hd (nat_to_string n @ [c]))"
    using nat_to_string_snoc [of n] nat_to_string_hd [of n] by (auto simp: hd_append digit_not_space)
qed (use assms in simp_all)

lemma trim_nat_to_string [simp]: "trim (nat_to_string n) = nat_to_string n"
proof -
  obtain s c where s: "nat_to_string n = s @ [c]" "is_digit c" using nat_to_string_snoc by blast
  show ?thesis
    by (rule trim_no_space) (use s nat_to_string_hd [of n] in \<open>auto simp: digit_not_space\<close>)
qed

lemma parse_u64_nat_to_string: "parse_u64 (nat_to_string n) = (if n \<le> u64_max then Some n else None)"
proof -
  have "hd (nat_to_string n) \<noteq> CHR ''+''" "nat_to_string n \<noteq> []"
    using digit_not_sign [OF nat_to_string_hd] nat_to_string_snoc [of n] by auto
  then show ?thesis
    by (simp add: parse_u64_def parse_unsigned_def parse_digits_def nat_to_string_digits)
qed

lemma scaled_duration_number:
  "scaled_duration d (nat_to_string n) factor =
     (if u64_max < n then Err (invalid_duration d)
      else if u64_max < n * factor then Err (InvalidDefinition (''duration overflow: '' @ d))
      else Ok (n * factor))"
  by (simp add: scaled_duration_def parse_u64_nat_to_string not_le)

text \<open>
  A number of hours, minutes or seconds is read as its number of seconds, without a unit as
  seconds; what does not fit 64 bits, before or after the multiplication, is an error and never
  wraps around.
\<close>
lemma duration_units:
  "parse_duration_secs (nat_to_string n @ ''h'') =
     (if u64_max < n then Err (invalid_duration (nat_to_string n @ ''h''))
      else if u64_max < n * 3600
      then Err (InvalidDefinition (''duration overflow: '' @ nat_to_string n @ ''h''))
      else Ok (n * 3600))
   \<and> parse_duration_secs (nat_to_string n @ ''m'') =
     (if u64_max < n then Err (invalid_duration (nat_to_string n @ ''m''))
      else if u64_max < n * 60
      then Err (InvalidDefinition (''duration overflow: '' @ nat_to_string n @ ''m''))
      else Ok (n * 60))
   \<and> parse_duration_secs (nat_to_string n @ ''s'') =
     (if u64_max < n then Err (invalid_duration (nat_to_string n @ ''s'')) else Ok n)
   \<and> parse_duration_secs (nat_to_string n) =
     (if u64_max < n then Err (invalid_duration (nat_to_string n)) else Ok n)"
proof (intro conjI)
  obtain s c where plain: "nat_to_string n = s @ [c]" "is_digit c" using nat_to_string_snoc by blast
  then have "c \<noteq> CHR ''h''" "c \<noteq> CHR ''m''" "c \<noteq> CHR ''s''" by (auto simp: is_digit_def)
  with plain have none: "strip_suffix (nat_to_string n) ''h'' = None"
    "strip_suffix (nat_to_string n) ''m'' = None" "strip_suffix (nat_to_string n) ''s'' = None"
    by (simp_all add: strip_suffix_snoc)
  show "parse_duration_secs (nat_to_string n) =
     (if u64_max < n then Err (invalid_duration (nat_to_string n)) else Ok n)"
    by (simp add: parse_duration_secs_def none parse_u64_nat_to_string ok_or_def Let_def)
qed (simp_all add: parse_duration_secs_def trim_number strip_suffix_snoc scaled_duration_number
  parse_u64_nat_to_string ok_or_def Let_def is_space_def)

end
