(* ===== verification/Workflow_Template.thy ===== *)
theory Workflow_Template
  imports Workflow_Schema Hash_Map
begin

text \<open>
  Template resolution and conditions, the first half of \<open>crates/buzz-workflow/src/executor.rs\<close>.
  The key encoding of the \<open>nostr\<close> crate, the JSON printer and the expression evaluator
  \<open>evalexpr\<close> are third-party code, collected in \<open>wf_lib\<close>. The evaluator is seen as the code uses
  it: the sequence of \<open>set_value\<close> calls, in the order of the maps' iteration, and the expression
  determine the outcome; \<open>wl_context\<close> says whether all calls succeed. A character is a byte.
\<close>

section \<open>The trigger context\<close>

record trigger_context =
  tc_text :: string
  tc_author :: string
  tc_channel_id :: string
  tc_timestamp :: string
  tc_emoji :: string
  tc_message_id :: string
  tc_webhook_fields :: "(string, string) hmap"

definition default_trigger_context :: trigger_context where
  "default_trigger_context =
     \<lparr>tc_text = [], tc_author = [], tc_channel_id = [], tc_timestamp = [], tc_emoji = [],
      tc_message_id = [], tc_webhook_fields = []\<rparr>"

definition get_field :: "trigger_context \<Rightarrow> string \<Rightarrow> string option" where
  "get_field tc name =
     (if name = ''text'' then Some (tc_text tc)
      else if name = ''author'' then Some (tc_author tc)
      else if name = ''channel_id'' then Some (tc_channel_id tc)
      else if name = ''timestamp'' then Some (tc_timestamp tc)
      else if name = ''emoji'' then Some (tc_emoji tc)
      else if name = ''message_id'' then Some (tc_message_id tc)
      else hm_get (tc_webhook_fields tc) name)"

type_synonym step_outputs = "(string, json) hmap"

datatype eval_value =
    EvString string
  | EvBoolean bool
  | EvInt int
  | EvFloat json
  | EvEmpty

datatype eval_outcome = EvalTimedOut | EvalPanicked | EvalFailed | Evaluated bool

type_synonym eval_function = "eval_value list \<Rightarrow> eval_value option"

record wf_lib =
  wl_npub :: "string \<Rightarrow> string option"
  wl_json_text :: "json \<Rightarrow> string"
  wl_context :: "(string \<times> eval_value) list \<Rightarrow> bool"
  wl_eval :: "(string \<times> eval_function) list \<Rightarrow> (string \<times> eval_value) list \<Rightarrow> string \<Rightarrow> eval_outcome"

section \<open>Variables and filters\<close>

definition bool_text :: "bool \<Rightarrow> string" where
  "bool_text b = (if b then ''true'' else ''false'')"

definition json_to_string :: "wf_lib \<Rightarrow> json \<Rightarrow> string" where
  "json_to_string lib v =
     (case v of
        JString s \<Rightarrow> s
      | JBool b \<Rightarrow> bool_text b
      | JNull \<Rightarrow> []
      | _ \<Rightarrow> wl_json_text lib v)"

definition json_get_str :: "wf_lib \<Rightarrow> json \<Rightarrow> string \<Rightarrow> string option" where
  "json_get_str lib v key =
     (case v of JObject kvs \<Rightarrow> map_option (json_to_string lib) (map_of kvs key) | _ \<Rightarrow> None)"

definition resolve_variable ::
    "wf_lib \<Rightarrow> trigger_context \<Rightarrow> step_outputs \<Rightarrow> string \<Rightarrow> string option" where
  "resolve_variable lib tc outs path =
     (case strip_prefix path ''trigger.'' of
        Some field \<Rightarrow> get_field tc field
      | None \<Rightarrow>
          (case strip_prefix path ''steps.'' of
             Some rest \<Rightarrow>
               (case splitn 3 (CHR ''.'') rest of
                  [step_id, middle, field] \<Rightarrow>
                    if middle \<noteq> ''output'' then None
                    else Option.bind (hm_get outs step_id) (\<lambda>output. json_get_str lib output field)
                | _ \<Rightarrow> None)
           | None \<Rightarrow> None))"

definition apply_filter :: "wf_lib \<Rightarrow> string \<Rightarrow> string \<Rightarrow> (workflow_error, string) result" where
  "apply_filter lib value filter_text =
     (let f = trim filter_text in
      case Option.bind (strip_prefix f ''truncate('') (\<lambda>s. strip_suffix s '')'') of
        Some inner \<Rightarrow>
          (case parse_u64 (trim inner) of
             None \<Rightarrow> Err (TemplateError (''truncate() requires a number, got: '' @ inner))
           | Some n \<Rightarrow> Ok (take n value))
      | None \<Rightarrow>
          if f = ''npub'' \<or> f = ''truncate_pubkey'' then
            Ok (case wl_npub lib value of Some npub \<Rightarrow> npub | None \<Rightarrow> value)
          else Err (TemplateError (''unknown filter: '' @ f)))"

text \<open>One placeholder: the text between the braces, without the surrounding white space.\<close>

definition resolve_expr ::
    "wf_lib \<Rightarrow> trigger_context \<Rightarrow> step_outputs \<Rightarrow> string \<Rightarrow> (workflow_error, string) result" where
  "resolve_expr lib tc outs expr =
     (let parts = splitn 2 (CHR ''|'') expr;
          var_path = trim (hd parts);
          filter_part = (case parts of [_, f] \<Rightarrow> Some (trim f) | _ \<Rightarrow> None)
      in case resolve_variable lib tc outs var_path of
           None \<Rightarrow> Ok (''{{'' @ expr @ ''}}'')
         | Some v \<Rightarrow> (case filter_part of Some f \<Rightarrow> apply_filter lib v f | None \<Rightarrow> Ok v))"

section \<open>Templates\<close>

text \<open>
  The loop of \<open>resolve_template\<close> over what remains of the template. Every round consumes at
  least the four braces of a placeholder.
\<close>

function template_loop ::
    "wf_lib \<Rightarrow> trigger_context \<Rightarrow> step_outputs \<Rightarrow> string \<Rightarrow> string \<Rightarrow> (workflow_error, string) result" where
  "template_loop lib tc outs remaining out =
     (case find_str ''{{'' remaining of
        None \<Rightarrow> Ok (out @ remaining)
      | Some start \<Rightarrow>
          (let out1 = out @ take start remaining;
               rest = drop (start + 2) remaining
           in case find_str ''}}'' rest of
                None \<Rightarrow> Ok (out1 @ ''{{'' @ rest)
              | Some stop \<Rightarrow>
                  bind_result (resolve_expr lib tc outs (trim (take stop rest)))
                    (\<lambda>value. template_loop lib tc outs (drop (stop + 2) rest) (out1 @ value))))"
  by pat_completeness auto
termination
proof (relation "measure (\<lambda>(lib, tc, outs, remaining, out). length remaining)", goal_cases)
  case 1
  show ?case by simp
next
  case (2 lib tc outs remaining out start out1 rest stop x)
  then have "start + 2 \<le> length remaining" using find_str_bound [of "''{{''" remaining start] by simp
  with 2 show ?case by simp
qed

declare template_loop.simps [simp del]

definition resolve_template ::
    "wf_lib \<Rightarrow> trigger_context \<Rightarrow> step_outputs \<Rightarrow> string \<Rightarrow> (workflow_error, string) result" where
  "resolve_template lib tc outs template =
     (if \<not> contains_str ''{{'' template then Ok template
      else template_loop lib tc outs template [])"

section \<open>Action templates\<close>

definition resolve_opt ::
    "(string \<Rightarrow> (workflow_error, string) result) \<Rightarrow> string option
     \<Rightarrow> (workflow_error, string option) result" where
  "resolve_opt t x =
     (case x of None \<Rightarrow> Ok None | Some v \<Rightarrow> bind_result (t v) (\<lambda>v'. Ok (Some v')))"

fun resolve_headers ::
    "(string \<Rightarrow> (workflow_error, string) result) \<Rightarrow> (string \<times> string) list
     \<Rightarrow> (workflow_error, (string \<times> string) list) result" where
  "resolve_headers t [] = Ok []"
| "resolve_headers t ((k, v) # kvs) =
     bind_result (t v) (\<lambda>v'. bind_result (resolve_headers t kvs) (\<lambda>kvs'. Ok ((k, v') # kvs')))"

definition resolve_step_templates ::
    "wf_lib \<Rightarrow> trigger_context \<Rightarrow> step_outputs \<Rightarrow> action_def \<Rightarrow> (workflow_error, action_def) result" where
  "resolve_step_templates lib tc outs action =
     (let t = resolve_template lib tc outs in
      case action of
        SendMessage txt channel \<Rightarrow>
          bind_result (t txt) (\<lambda>txt'.
          bind_result (resolve_opt t channel) (\<lambda>channel'. Ok (SendMessage txt' channel')))
      | SendDm to txt \<Rightarrow>
          bind_result (t to) (\<lambda>to'. bind_result (t txt) (\<lambda>txt'. Ok (SendDm to' txt')))
      | SetChannelTopic topic \<Rightarrow> bind_result (t topic) (\<lambda>topic'. Ok (SetChannelTopic topic'))
      | AddReaction emoji \<Rightarrow> bind_result (t emoji) (\<lambda>emoji'. Ok (AddReaction emoji'))
      | CallWebhook url meth headers body \<Rightarrow>
          bind_result
            (case headers of
               None \<Rightarrow> Ok None
             | Some h \<Rightarrow> bind_result (resolve_headers t h) (\<lambda>h'. Ok (Some h')))
            (\<lambda>headers'. bind_result (t url) (\<lambda>url'.
             bind_result (resolve_opt t body) (\<lambda>body'. Ok (CallWebhook url' meth headers' body'))))
      | RequestApproval approver message tmo \<Rightarrow>
          bind_result (t approver) (\<lambda>approver'.
          bind_result (t message) (\<lambda>message'. Ok (RequestApproval approver' message' tmo)))
      | Delay duration \<Rightarrow> Ok (Delay duration))"

section \<open>Conditions\<close>

definition fn_str_contains :: eval_function where
  "fn_str_contains args =
     (case args of [EvString s, EvString p] \<Rightarrow> Some (EvBoolean (contains_str p s)) | _ \<Rightarrow> None)"

definition fn_str_starts_with :: eval_function where
  "fn_str_starts_with args =
     (case args of [EvString s, EvString p] \<Rightarrow> Some (EvBoolean (starts_with s p)) | _ \<Rightarrow> None)"

definition fn_str_ends_with :: eval_function where
  "fn_str_ends_with args =
     (case args of [EvString s, EvString p] \<Rightarrow> Some (EvBoolean (ends_with s p)) | _ \<Rightarrow> None)"

definition fn_str_len :: eval_function where
  "fn_str_len args = (case args of [EvString s] \<Rightarrow> Some (EvInt (int (length s))) | _ \<Rightarrow> None)"

definition eval_functions :: "(string \<times> eval_function) list" where
  "eval_functions =
     [(''str_contains'', fn_str_contains), (''str_starts_with'', fn_str_starts_with),
      (''str_ends_with'', fn_str_ends_with), (''str_len'', fn_str_len)]"

definition json_value_to_eval :: "wf_lib \<Rightarrow> json \<Rightarrow> eval_value" where
  "json_value_to_eval lib v =
     (case v of
        JString s \<Rightarrow> EvString s
      | JBool b \<Rightarrow> EvBoolean b
      | JNumber n \<Rightarrow> if - (2 ^ 63) \<le> n \<and> n < 2 ^ 63 then EvInt n else EvFloat v
      | JFloat _ \<Rightarrow> EvFloat v
      | JNull \<Rightarrow> EvEmpty
      | _ \<Rightarrow> EvString (wl_json_text lib v))"

definition step_variable :: "string \<Rightarrow> string \<Rightarrow> string" where
  "step_variable step_id field = ''steps_'' @ step_id @ ''_output_'' @ field"

definition webhook_assignments :: "trigger_context \<Rightarrow> (string \<times> eval_value) list" where
  "webhook_assignments tc =
     map (\<lambda>(k, v). (''trigger_'' @ k, EvString v))
       (filter (\<lambda>(k, v). \<not> (starts_with k ''trigger_'' \<or> starts_with k ''steps_''))
         (tc_webhook_fields tc))"

definition trigger_assignments :: "trigger_context \<Rightarrow> (string \<times> eval_value) list" where
  "trigger_assignments tc =
     [(''trigger_text'', EvString (tc_text tc)), (''trigger_author'', EvString (tc_author tc)),
      (''trigger_channel_id'', EvString (tc_channel_id tc)),
      (''trigger_timestamp'', EvString (tc_timestamp tc)),
      (''trigger_emoji'', EvString (tc_emoji tc)),
      (''trigger_message_id'', EvString (tc_message_id tc))]"

definition step_assignments :: "wf_lib \<Rightarrow> step_outputs \<Rightarrow> (string \<times> eval_value) list" where
  "step_assignments lib outs =
     concat (map (\<lambda>(step_id, output).
       case output of
         JObject kvs \<Rightarrow> map (\<lambda>(field, v). (step_variable step_id field, json_value_to_eval lib v)) kvs
       | _ \<Rightarrow> []) outs)"

definition build_eval_context ::
    "wf_lib \<Rightarrow> trigger_context \<Rightarrow> step_outputs \<Rightarrow> (string \<times> eval_value) list" where
  "build_eval_context lib tc outs =
     webhook_assignments tc @ trigger_assignments tc @ step_assignments lib outs"

definition MAX_EXPR_LEN :: nat where
  "MAX_EXPR_LEN = 4096"

definition evaluate_condition ::
    "wf_lib \<Rightarrow> string \<Rightarrow> trigger_context \<Rightarrow> step_outputs \<Rightarrow> (workflow_error, bool) result" where
  "evaluate_condition lib expr tc outs =
     (let ctx = build_eval_context lib tc outs in
      if \<not> wl_context lib ctx then Err (ConditionError ''set_value'')
      else if MAX_EXPR_LEN < length expr
      then Err (ConditionError ''condition expression exceeds 4096 byte limit'')
      else
        (case wl_eval lib eval_functions ctx expr of
           EvalTimedOut \<Rightarrow> Err (ConditionError (expr @ '': evaluation timed out after 100ms''))
         | EvalPanicked \<Rightarrow> Err (ConditionError (expr @ '': eval task panicked''))
         | EvalFailed \<Rightarrow> Err (ConditionError expr)
         | Evaluated b \<Rightarrow> Ok b))"

end
