(* ===== verification/Workflow_Template_Laws.thy ===== *)
theory Workflow_Template_Laws
  imports Workflow_Template
begin

text \<open>
  What template resolution and the evaluation context guarantee: placeholders come from the
  template alone, the trigger variables of a condition cannot be forged through webhook fields
  or step outputs, but the variables of two steps can coincide.
\<close>

section \<open>Templates as segments\<close>

text \<open>
  The reference reading: a template is a list of plain texts and placeholders, computed from the
  template alone, and its value is the concatenation of their values.
\<close>

datatype segment = Plain string | Placeholder string

function parse_template :: "string \<Rightarrow> segment list" where
  "parse_template remaining =
     (case find_str ''{{'' remaining of
        None \<Rightarrow> [Plain remaining]
      | Some start \<Rightarrow>
          (let rest = drop (start + 2) remaining
           in case find_str ''}}'' rest of
                None \<Rightarrow> [Plain (take start remaining), Plain (''{{'' @ rest)]
              | Some stop \<Rightarrow>
                  Plain (take start remaining) # Placeholder (trim (take stop rest))
                    # parse_template (drop (stop + 2) rest)))"
  by pat_completeness auto
termination
proof (relation "measure length", goal_cases)
  case 1
  show ?case by simp
next
  case (2 remaining start rest stop)
  then have "start + 2 \<le> length remaining" using find_str_bound [of "''{{''" remaining start] by simp
  with 2 show ?case by simp
qed

declare parse_template.simps [simp del]

fun segment_value ::
    "wf_lib \<Rightarrow> trigger_context \<Rightarrow> step_outputs \<Rightarrow> segment \<Rightarrow> (workflow_error, string) result" where
  "segment_value lib tc outs (Plain s) = Ok s"
| "segment_value lib tc outs (Placeholder e) = resolve_expr lib tc outs e"

fun render ::
    "wf_lib \<Rightarrow> trigger_context \<Rightarrow> step_outputs \<Rightarrow> segment list \<Rightarrow> (workflow_error, string) result" where
  "render lib tc outs [] = Ok []"
| "render lib tc outs (seg # segs) =
     bind_result (segment_value lib tc outs seg)
       (\<lambda>s. bind_result (render lib tc outs segs) (\<lambda>ss. Ok (s @ ss)))"

lemma template_loop_render:
  "template_loop lib tc outs remaining out
   = bind_result (render lib tc outs (parse_template remaining)) (\<lambda>s. Ok (out @ s))"
proof (induction lib tc outs remaining out rule: template_loop.induct)
  case (1 lib tc outs remaining out)
  show ?case
  proof (cases "find_str ''{{'' remaining")
    case None
    then show ?thesis by (simp add: template_loop.simps [of lib] parse_template.simps [of remaining])
  next
    case (Some start)
    define rest where "rest = drop (start + 2) remaining"
    show ?thesis
    proof (cases "find_str ''}}'' rest")
      case None
      with Some show ?thesis
        by (simp add: template_loop.simps [of lib] parse_template.simps [of remaining] rest_def Let_def)
    next
      case (Some stop)
      have "template_loop lib tc outs (drop (stop + 2) rest) (out @ take start remaining @ v)
          = bind_result (render lib tc outs (parse_template (drop (stop + 2) rest)))
              (\<lambda>s. Ok ((out @ take start remaining @ v) @ s))" for v
        using 1 [OF \<open>find_str ''{{'' remaining = Some start\<close> refl rest_def Some, of v] by simp
      then show ?thesis
        unfolding template_loop.simps [of lib tc outs remaining] parse_template.simps [of remaining]
          \<open>find_str ''{{'' remaining = Some start\<close> option.case rest_def [symmetric] Let_def Some
        by (cases "resolve_expr lib tc outs (trim (take stop rest))";
           cases "render lib tc outs (parse_template (drop (stop + 2) rest))"; simp)
    qed
  qed
qed

lemma parse_template_plain: "\<not> contains_str ''{{'' t \<Longrightarrow> parse_template t = [Plain t]"
  using find_str_None_iff [of "''{{''" t] by (simp add: parse_template.simps [of t])

text \<open>
  Resolution is substitution. A template resolves to the concatenation of its plain texts and
  the values of its placeholders, in order, where both are read off the template before any value
  is known: a value that itself contains braces, such as the text of the triggering message, is
  never resolved again.
\<close>
lemma template_is_substitution:
  "resolve_template lib tc outs template = render lib tc outs (parse_template template)"
proof (cases "contains_str ''{{'' template")
  case True
  then show ?thesis
    by (cases "render lib tc outs (parse_template template)")
      (simp_all add: resolve_template_def template_loop_render)
next
  case False
  then show ?thesis by (simp add: resolve_template_def parse_template_plain)
qed

section \<open>The evaluation context\<close>

text \<open>The value that a variable has after all assignments: the last one counts.\<close>

definition final_value :: "(string \<times> eval_value) list \<Rightarrow> string \<Rightarrow> eval_value option" where
  "final_value ctx name = map_of (rev ctx) name"

lemma step_assignment_names:
  "(name, v) \<in> set (step_assignments lib outs) \<Longrightarrow> starts_with name ''steps_''"
  by (auto simp: step_assignments_def step_variable_def starts_with_def split: json.splits)

lemma final_value_trigger:
  assumes "\<not> starts_with name ''steps_''" and "name \<in> fst ` set (trigger_assignments tc)"
  shows "final_value (build_eval_context lib tc outs) name = map_of (trigger_assignments tc) name"
proof -
  have "name \<notin> fst ` set (step_assignments lib outs)"
    using assms(1) step_assignment_names by fastforce
  then have "map_of (rev (step_assignments lib outs)) name = None"
    by (simp add: map_of_eq_None_iff)
  moreover have "map_of (rev (trigger_assignments tc)) name = map_of (trigger_assignments tc) name"
    by (simp add: trigger_assignments_def)
  moreover obtain v where "map_of (trigger_assignments tc) name = Some v"
    using assms(2) by (metis map_of_eq_None_iff option.exhaust)
  ultimately show ?thesis
    by (simp add: final_value_def build_eval_context_def map_add_def)
qed

text \<open>
  The six trigger variables of a condition always hold the values of the trigger context,
  whatever fields a webhook caller supplied and whatever earlier steps put out.
\<close>
lemma trigger_variables_unforgeable:
  "final_value (build_eval_context lib tc outs) ''trigger_text'' = Some (EvString (tc_text tc))
   \<and> final_value (build_eval_context lib tc outs) ''trigger_author'' = Some (EvString (tc_author tc))
   \<and> final_value (build_eval_context lib tc outs) ''trigger_channel_id'' = Some (EvString (tc_channel_id tc))
   \<and> final_value (build_eval_context lib tc outs) ''trigger_timestamp'' = Some (EvString (tc_timestamp tc))
   \<and> final_value (build_eval_context lib tc outs) ''trigger_emoji'' = Some (EvString (tc_emoji tc))
   \<and> final_value (build_eval_context lib tc outs) ''trigger_message_id'' = Some (EvString (tc_message_id tc))"
  by (intro conjI; subst final_value_trigger; simp add: trigger_assignments_def starts_with_def)

text \<open>
  The variables of two steps can coincide. The ids \<open>a\<close> and \<open>a_output_b\<close> are valid and
  distinct, but field \<open>b_output_c\<close> of the one and field \<open>c\<close> of the other have the same
  variable, whose value then depends on the iteration order of the outputs.
\<close>
lemma step_variables_collide:
  "valid_step_id ''a'' \<and> valid_step_id ''a_output_b''
   \<and> (let o1 = (''a'', JObject [(''b_output_c'', JBool True)]);
          o2 = (''a_output_b'', JObject [(''c'', JBool False)])
      in final_value (build_eval_context lib tc [o1, o2]) ''steps_a_output_b_output_c''
           = Some (EvBoolean False)
         \<and> final_value (build_eval_context lib tc [o2, o1]) ''steps_a_output_b_output_c''
           = Some (EvBoolean True))"
  by (simp add: valid_step_id_def is_ascii_alphanumeric_def is_ascii_alphabetic_def is_digit_def
      Let_def final_value_def build_eval_context_def step_assignments_def step_variable_def
      json_value_to_eval_def)

end
