(* ===== verification/Network.thy ===== *)
theory Network
  imports Prelude "HOL-Library.Word"
begin

unbundle bit_operations_syntax

text \<open>
  Address classification against server-side request forgery, \<open>crates/buzz-core/src/network.rs\<close>.
  Octets are 8-bit and segments 16-bit words. The predicates of \<open>std::net\<close> that the source
  uses are written out from their documentation: \<open>to_ipv4\<close> reads an IPv4-compatible or
  IPv4-mapped address.
\<close>

section \<open>Addresses\<close>

type_synonym octet = "8 word"
type_synonym ip_segment = "16 word"

datatype ipv4 = Ipv4 octet octet octet octet

datatype ipv6 =
  Ipv6 ip_segment ip_segment ip_segment ip_segment ip_segment ip_segment ip_segment ip_segment

datatype ip_addr = V4 ipv4 | V6 ipv6

definition high_octet :: "ip_segment \<Rightarrow> octet" where
  "high_octet s = ucast (drop_bit 8 s)"

definition low_octet :: "ip_segment \<Rightarrow> octet" where
  "low_octet s = ucast s"

fun v6_segments :: "ipv6 \<Rightarrow> ip_segment list" where
  "v6_segments (Ipv6 a b c d e f g h) = [a, b, c, d, e, f, g, h]"

definition v6_octets :: "ipv6 \<Rightarrow> octet list" where
  "v6_octets a = concat (map (\<lambda>s. [high_octet s, low_octet s]) (v6_segments a))"

section \<open>Predicates of the standard library\<close>

fun v4_is_loopback :: "ipv4 \<Rightarrow> bool" where
  "v4_is_loopback (Ipv4 a b c d) = (a = 127)"

fun v4_is_private :: "ipv4 \<Rightarrow> bool" where
  "v4_is_private (Ipv4 a b c d) =
     (a = 10 \<or> (a = 172 \<and> 16 \<le> b \<and> b \<le> 31) \<or> (a = 192 \<and> b = 168))"

fun v4_is_link_local :: "ipv4 \<Rightarrow> bool" where
  "v4_is_link_local (Ipv4 a b c d) = (a = 169 \<and> b = 254)"

fun v4_is_broadcast :: "ipv4 \<Rightarrow> bool" where
  "v4_is_broadcast (Ipv4 a b c d) = (a = 255 \<and> b = 255 \<and> c = 255 \<and> d = 255)"

fun v6_to_ipv4 :: "ipv6 \<Rightarrow> ipv4 option" where
  "v6_to_ipv4 (Ipv6 a b c d e f g h) =
     (if a = 0 \<and> b = 0 \<and> c = 0 \<and> d = 0 \<and> e = 0 \<and> (f = 0 \<or> f = 0xffff)
      then Some (Ipv4 (high_octet g) (low_octet g) (high_octet h) (low_octet h))
      else None)"

definition v6_is_loopback :: "ipv6 \<Rightarrow> bool" where
  "v6_is_loopback a = (a = Ipv6 0 0 0 0 0 0 0 1)"

definition v6_is_unspecified :: "ipv6 \<Rightarrow> bool" where
  "v6_is_unspecified a = (a = Ipv6 0 0 0 0 0 0 0 0)"

section \<open>Classification\<close>

definition NAT64_WELL_KNOWN_PREFIX :: "octet list" where
  "NAT64_WELL_KNOWN_PREFIX = [0x00, 0x64, 0xff, 0x9b, 0, 0, 0, 0, 0, 0, 0, 0]"

definition IPV4_TRANSLATED_PREFIX :: "octet list" where
  "IPV4_TRANSLATED_PREFIX = [0, 0, 0, 0, 0, 0, 0, 0, 0xff, 0xff, 0, 0]"

definition embedded_ipv4 :: "ipv6 \<Rightarrow> octet list \<Rightarrow> ipv4 option" where
  "embedded_ipv4 a pre =
     (let octets = v6_octets a in
      if take (length pre) octets = pre
      then Some (Ipv4 (octets ! 12) (octets ! 13) (octets ! 14) (octets ! 15))
      else None)"

fun is_private_v4 :: "ipv4 \<Rightarrow> bool" where
  "is_private_v4 (Ipv4 a b c d) =
     (v4_is_loopback (Ipv4 a b c d) \<or> v4_is_private (Ipv4 a b c d)
      \<or> v4_is_link_local (Ipv4 a b c d) \<or> a = 0 \<or> v4_is_broadcast (Ipv4 a b c d)
      \<or> (a = 100 \<and> b AND 0xC0 = 64) \<or> (a = 198 \<and> b AND 0xFE = 18))"

definition is_private_v6 :: "ipv6 \<Rightarrow> bool" where
  "is_private_v6 v6 =
     (case v6_to_ipv4 v6 of
        Some v4 \<Rightarrow> is_private_v4 v4
      | None \<Rightarrow>
          (case embedded_ipv4 v6 NAT64_WELL_KNOWN_PREFIX of
             Some v4 \<Rightarrow> is_private_v4 v4
           | None \<Rightarrow>
               (case embedded_ipv4 v6 IPV4_TRANSLATED_PREFIX of
                  Some v4 \<Rightarrow> is_private_v4 v4
                | None \<Rightarrow>
                    (let segs = v6_segments v6 in
                     v6_is_loopback v6 \<or> v6_is_unspecified v6
                     \<or> segs ! 0 AND 0xfe00 = 0xfc00
                     \<or> segs ! 0 AND 0xffc0 = 0xfe80
                     \<or> segs ! 0 AND 0xff00 = 0xff00
                     \<or> (segs ! 0 = 0x0064 \<and> segs ! 1 = 0xff9b \<and> segs ! 2 = 1)
                     \<or> (segs ! 0 = 0x2001 \<and> segs ! 1 = 0)
                     \<or> segs ! 0 = 0x2002
                     \<or> (segs ! 0 = 0x2001 \<and> segs ! 1 = 0x0db8)))))"

definition is_private_ip :: "ip_addr \<Rightarrow> bool" where
  "is_private_ip ip = (case ip of V4 v4 \<Rightarrow> is_private_v4 v4 | V6 v6 \<Rightarrow> is_private_v6 v6)"

section \<open>The blocked ranges\<close>

text \<open>The address as a number, and the documented ranges by their first and last addresses.\<close>

fun v4_value :: "ipv4 \<Rightarrow> nat" where
  "v4_value (Ipv4 a b c d) = unat a * 16777216 + unat b * 65536 + unat c * 256 + unat d"

definition blocked_v4 :: "(ipv4 \<times> ipv4) list" where
  "blocked_v4 =
     [(Ipv4 127 0 0 0, Ipv4 127 255 255 255),
      (Ipv4 10 0 0 0, Ipv4 10 255 255 255),
      (Ipv4 172 16 0 0, Ipv4 172 31 255 255),
      (Ipv4 192 168 0 0, Ipv4 192 168 255 255),
      (Ipv4 169 254 0 0, Ipv4 169 254 255 255),
      (Ipv4 0 0 0 0, Ipv4 0 255 255 255),
      (Ipv4 255 255 255 255, Ipv4 255 255 255 255),
      (Ipv4 100 64 0 0, Ipv4 100 127 255 255),
      (Ipv4 198 18 0 0, Ipv4 198 19 255 255)]"

definition in_range :: "ipv4 \<Rightarrow> ipv4 \<times> ipv4 \<Rightarrow> bool" where
  "in_range x r \<longleftrightarrow> v4_value (fst r) \<le> v4_value x \<and> v4_value x \<le> v4_value (snd r)"

lemma octet_less: "unat (x :: octet) < 256"
  using unsigned_less [of x, where 'a = nat] by simp

lemma octet_masks_table:
  "list_all (\<lambda>n. ((word_of_nat n :: octet) AND 0xC0 = 64) = (64 \<le> n \<and> n \<le> 127)
     \<and> ((word_of_nat n :: octet) AND 0xFE = 18) = (18 \<le> n \<and> n \<le> 19)) [0..<256]"
  by code_simp

lemma octet_masks:
  fixes b :: octet
  shows "b AND 0xC0 = 64 \<longleftrightarrow> 64 \<le> unat b \<and> unat b \<le> 127"
    and "b AND 0xFE = 18 \<longleftrightarrow> 18 \<le> unat b \<and> unat b \<le> 19"
proof -
  have "unat b \<in> set [0..<256]" using octet_less [of b] by simp
  then have "((word_of_nat (unat b) :: octet) AND 0xC0 = 64) = (64 \<le> unat b \<and> unat b \<le> 127)
     \<and> ((word_of_nat (unat b) :: octet) AND 0xFE = 18) = (18 \<le> unat b \<and> unat b \<le> 19)"
    by (rule bspec [OF octet_masks_table [unfolded list_all_iff]])
  then show "b AND 0xC0 = 64 \<longleftrightarrow> 64 \<le> unat b \<and> unat b \<le> 127"
    and "b AND 0xFE = 18 \<longleftrightarrow> 18 \<le> unat b \<and> unat b \<le> 19" by simp_all
qed

lemma octet_to_nat:
  fixes a :: octet
  shows "a = b \<longleftrightarrow> unat a = unat b" and "a \<le> b \<longleftrightarrow> unat a \<le> unat b"
  by (simp_all add: word_unat_eq_iff word_le_nat_alt)

lemma v4_prefix_range:
  fixes a b c d :: nat
  assumes "b < 256" "c < 256" "d < 256"
  shows "k * 16777216 \<le> a * 16777216 + b * 65536 + c * 256 + d
      \<and> a * 16777216 + b * 65536 + c * 256 + d \<le> k * 16777216 + 16777215 \<longleftrightarrow> a = k"
    (is "?lo \<and> ?hi \<longleftrightarrow> _")
proof
  assume "?lo \<and> ?hi"
  then have "a < k + 1" "k < a + 1" using assms by linarith+
  then show "a = k" by simp
qed (use assms in linarith)

lemma v4_prefix_range2:
  fixes a b c d :: nat
  assumes "b < 256" "c < 256" "d < 256" "l \<le> m" "m < 256"
  shows "k * 16777216 + l * 65536 \<le> a * 16777216 + b * 65536 + c * 256 + d
      \<and> a * 16777216 + b * 65536 + c * 256 + d \<le> k * 16777216 + m * 65536 + 65535
      \<longleftrightarrow> a = k \<and> l \<le> b \<and> b \<le> m"
    (is "?lo \<and> ?hi \<longleftrightarrow> _")
proof
  assume *: "?lo \<and> ?hi"
  then have "a < k + 1" "k < a + 1" using assms by linarith+
  then have a: "a = k" by simp
  with * assms have "l < b + 1" "b < m + 1" by linarith+
  with a show "a = k \<and> l \<le> b \<and> b \<le> m" by simp
qed (use assms in linarith)

lemma v4_top_range:
  fixes a b c d :: nat
  assumes "a < 256" "b < 256" "c < 256" "d < 256"
  shows "4294967295 \<le> a * 16777216 + b * 65536 + c * 256 + d
      \<and> a * 16777216 + b * 65536 + c * 256 + d \<le> 4294967295
      \<longleftrightarrow> a = 255 \<and> b = 255 \<and> c = 255 \<and> d = 255"
proof
  assume *: "4294967295 \<le> a * 16777216 + b * 65536 + c * 256 + d
      \<and> a * 16777216 + b * 65536 + c * 256 + d \<le> 4294967295"
  then have "254 < a" "254 < b" "254 < c" "254 < d" using assms by linarith+
  with assms show "a = 255 \<and> b = 255 \<and> c = 255 \<and> d = 255" by simp
qed simp

text \<open>
  The IPv4 classification is exact: an address is private or reserved if and only if it lies
  between the first and the last address of one of the nine documented ranges.
\<close>
lemma private_v4_exact:
  "is_private_ip (V4 x) \<longleftrightarrow> list_ex (in_range x) blocked_v4"
proof -
  obtain a b c d where x: "x = Ipv4 a b c d" by (cases x)
  note less = octet_less [of a] octet_less [of b] octet_less [of c] octet_less [of d]
  note block = v4_prefix_range [OF less(2-4), of _ "unat a"]
  note block2 = v4_prefix_range2 [OF less(2-4), of _ _ _ "unat a"]
  have "in_range x (Ipv4 127 0 0 0, Ipv4 127 255 255 255)
      \<longleftrightarrow> unat a = 127"
    using block [of 127] by (simp add: in_range_def x)
  moreover have "in_range x (Ipv4 10 0 0 0, Ipv4 10 255 255 255)
      \<longleftrightarrow> unat a = 10"
    using block [of 10] by (simp add: in_range_def x)
  moreover have "in_range x (Ipv4 172 16 0 0, Ipv4 172 31 255 255)
      \<longleftrightarrow> unat a = 172 \<and> 16 \<le> unat b \<and> unat b \<le> 31"
    using block2 [of 16 31 172] by (simp add: in_range_def x)
  moreover have "in_range x (Ipv4 192 168 0 0, Ipv4 192 168 255 255)
      \<longleftrightarrow> unat a = 192 \<and> 168 \<le> unat b \<and> unat b \<le> 168"
    using block2 [of 168 168 192] by (simp add: in_range_def x)
  moreover have "in_range x (Ipv4 169 254 0 0, Ipv4 169 254 255 255)
      \<longleftrightarrow> unat a = 169 \<and> 254 \<le> unat b \<and> unat b \<le> 254"
    using block2 [of 254 254 169] by (simp add: in_range_def x)
  moreover have "in_range x (Ipv4 0 0 0 0, Ipv4 0 255 255 255)
      \<longleftrightarrow> unat a = 0"
    using block [of 0] by (simp add: in_range_def x)
  moreover have "in_range x (Ipv4 255 255 255 255, Ipv4 255 255 255 255)
      \<longleftrightarrow> unat a = 255 \<and> unat b = 255 \<and> unat c = 255 \<and> unat d = 255"
    using v4_top_range [OF less] by (simp add: in_range_def x)
  moreover have "in_range x (Ipv4 100 64 0 0, Ipv4 100 127 255 255)
      \<longleftrightarrow> unat a = 100 \<and> 64 \<le> unat b \<and> unat b \<le> 127"
    using block2 [of 64 127 100] by (simp add: in_range_def x)
  moreover have "in_range x (Ipv4 198 18 0 0, Ipv4 198 19 255 255)
      \<longleftrightarrow> unat a = 198 \<and> 18 \<le> unat b \<and> unat b \<le> 19"
    using block2 [of 18 19 198] by (simp add: in_range_def x)
  ultimately have "list_ex (in_range x) blocked_v4 \<longleftrightarrow>
      unat a = 127 \<or> unat a = 10 \<or> (unat a = 172 \<and> 16 \<le> unat b \<and> unat b \<le> 31)
      \<or> (unat a = 192 \<and> 168 \<le> unat b \<and> unat b \<le> 168)
      \<or> (unat a = 169 \<and> 254 \<le> unat b \<and> unat b \<le> 254) \<or> unat a = 0
      \<or> (unat a = 255 \<and> unat b = 255 \<and> unat c = 255 \<and> unat d = 255)
      \<or> (unat a = 100 \<and> 64 \<le> unat b \<and> unat b \<le> 127)
      \<or> (unat a = 198 \<and> 18 \<le> unat b \<and> unat b \<le> 19)"
    by (simp only: blocked_v4_def list_ex_Cons_iff list_ex_Nil_iff simp_thms)
  moreover have "is_private_ip (V4 x) \<longleftrightarrow>
      unat a = 127 \<or> unat a = 10 \<or> (unat a = 172 \<and> 16 \<le> unat b \<and> unat b \<le> 31)
      \<or> (unat a = 192 \<and> 168 \<le> unat b \<and> unat b \<le> 168)
      \<or> (unat a = 169 \<and> 254 \<le> unat b \<and> unat b \<le> 254) \<or> unat a = 0
      \<or> (unat a = 255 \<and> unat b = 255 \<and> unat c = 255 \<and> unat d = 255)
      \<or> (unat a = 100 \<and> 64 \<le> unat b \<and> unat b \<le> 127)
      \<or> (unat a = 198 \<and> 18 \<le> unat b \<and> unat b \<le> 19)"
    unfolding is_private_ip_def x ip_addr.case is_private_v4.simps v4_is_loopback.simps
      v4_is_private.simps v4_is_link_local.simps v4_is_broadcast.simps octet_masks
    unfolding octet_to_nat by (simp add: eq_iff [of "unat b" 168] eq_iff [of "unat b" 254] disj_ac conj_ac)
  ultimately show ?thesis by simp
qed


section \<open>Embedded addresses\<close>

definition v4_of_segments :: "ip_segment \<Rightarrow> ip_segment \<Rightarrow> ipv4" where
  "v4_of_segments g h = Ipv4 (high_octet g) (low_octet g) (high_octet h) (low_octet h)"

text \<open>
  An IPv4 address does not escape the check by being written as an IPv6 address: in each of
  the four embeddings (compatible, mapped, NAT64 and translated) the IPv6 address is private
  exactly if the IPv4 address in its last two segments is.
\<close>
lemma private_v6_embedded:
  "is_private_ip (V6 (Ipv6 0 0 0 0 0 0 g h)) = is_private_ip (V4 (v4_of_segments g h))
   \<and> is_private_ip (V6 (Ipv6 0 0 0 0 0 0xffff g h)) = is_private_ip (V4 (v4_of_segments g h))
   \<and> is_private_ip (V6 (Ipv6 0x64 0xff9b 0 0 0 0 g h)) = is_private_ip (V4 (v4_of_segments g h))
   \<and> is_private_ip (V6 (Ipv6 0 0 0 0 0xffff 0 g h)) = is_private_ip (V4 (v4_of_segments g h))"
  by (simp add: is_private_ip_def is_private_v6_def v4_of_segments_def embedded_ipv4_def
      v6_octets_def NAT64_WELL_KNOWN_PREFIX_def IPV4_TRANSLATED_PREFIX_def high_octet_def low_octet_def
      Let_def)

end
