(* ===== verification/Threads.thy ===== *)
theory Threads
  imports Event_Store
begin

text \<open>
  Threads: the table \<open>thread_metadata\<close> of \<open>crates/buzz-db/src/thread.rs\<close>, the transactions of
  \<open>event.rs\<close> that keep its counters, and the resolution of a reply's ancestry in the ingest
  handler. Event and reply counts are unbounded integers here, 32 bits in the database. The
  order of rows that a query leaves open is the table's order.
\<close>

section \<open>Rows\<close>

record thread_row =
  tm_community :: community_id
  tm_created_at :: int
  tm_event_id :: hex_string
  tm_channel :: uuid
  tm_parent :: "hex_string option"
  tm_parent_created_at :: "int option"
  tm_root :: "hex_string option"
  tm_root_created_at :: "int option"
  tm_depth :: int
  tm_reply_count :: int
  tm_descendant_count :: int
  tm_last_reply_at :: "int option"
  tm_broadcast :: bool

record thread_params =
  tp_event_id :: hex_string
  tp_event_created_at :: int
  tp_channel_id :: uuid
  tp_parent_event_id :: "hex_string option"
  tp_parent_event_created_at :: "int option"
  tp_root_event_id :: "hex_string option"
  tp_root_event_created_at :: "int option"
  tp_depth :: int
  tp_broadcast :: bool

record thread_db =
  td_events :: event_db
  td_threads :: "thread_row list"

definition thread_key :: "thread_row \<Rightarrow> community_id \<times> int \<times> hex_string" where
  "thread_key r = (tm_community r, tm_created_at r, tm_event_id r)"

definition thread_at :: "community_id \<Rightarrow> hex_string \<Rightarrow> thread_row \<Rightarrow> bool" where
  "thread_at c i r \<longleftrightarrow> tm_community r = c \<and> tm_event_id r = i"

section \<open>Writes\<close>

text \<open>\<open>INSERT INTO thread_metadata ... ON CONFLICT DO NOTHING\<close> and \<open>rows_affected() > 0\<close>.\<close>

definition insert_thread_row :: "thread_row \<Rightarrow> thread_row list \<Rightarrow> bool \<times> thread_row list" where
  "insert_thread_row r rows =
     (if list_ex (\<lambda>x. thread_key x = thread_key r) rows then (False, rows) else (True, rows @ [r]))"

definition params_row :: "community_id \<Rightarrow> thread_params \<Rightarrow> thread_row" where
  "params_row c m =
     \<lparr>tm_community = c, tm_created_at = tp_event_created_at m, tm_event_id = tp_event_id m,
      tm_channel = tp_channel_id m, tm_parent = tp_parent_event_id m,
      tm_parent_created_at = tp_parent_event_created_at m, tm_root = tp_root_event_id m,
      tm_root_created_at = tp_root_event_created_at m, tm_depth = tp_depth m, tm_reply_count = 0,
      tm_descendant_count = 0, tm_last_reply_at = None, tm_broadcast = tp_broadcast m\<rparr>"

definition stub_row :: "community_id \<Rightarrow> int \<Rightarrow> hex_string \<Rightarrow> uuid \<Rightarrow> thread_row" where
  "stub_row c ts i ch =
     \<lparr>tm_community = c, tm_created_at = ts, tm_event_id = i, tm_channel = ch, tm_parent = None,
      tm_parent_created_at = None, tm_root = None, tm_root_created_at = None, tm_depth = 0,
      tm_reply_count = 0, tm_descendant_count = 0, tm_last_reply_at = None, tm_broadcast = False\<rparr>"

definition add_reply :: "int \<Rightarrow> community_id \<Rightarrow> hex_string \<Rightarrow> thread_row list \<Rightarrow> thread_row list" where
  "add_reply now c i rows =
     map (\<lambda>r. if thread_at c i r
              then r\<lparr>tm_reply_count := tm_reply_count r + 1, tm_last_reply_at := Some now\<rparr> else r) rows"

definition add_descendant :: "community_id \<Rightarrow> hex_string \<Rightarrow> thread_row list \<Rightarrow> thread_row list" where
  "add_descendant c i rows =
     map (\<lambda>r. if thread_at c i r then r\<lparr>tm_descendant_count := tm_descendant_count r + 1\<rparr> else r) rows"

definition remove_reply :: "community_id \<Rightarrow> hex_string \<Rightarrow> thread_row list \<Rightarrow> thread_row list" where
  "remove_reply c i rows =
     map (\<lambda>r. if thread_at c i r then r\<lparr>tm_reply_count := max (tm_reply_count r - 1) 0\<rparr> else r) rows"

definition remove_descendant :: "community_id \<Rightarrow> hex_string \<Rightarrow> thread_row list \<Rightarrow> thread_row list" where
  "remove_descendant c i rows =
     map (\<lambda>r. if thread_at c i r then r\<lparr>tm_descendant_count := max (tm_descendant_count r - 1) 0\<rparr> else r) rows"

definition insert_thread_metadata ::
    "int \<Rightarrow> community_id \<Rightarrow> thread_params \<Rightarrow> thread_row list \<Rightarrow> thread_row list" where
  "insert_thread_metadata now c m rows =
     (let (inserted, rows1) = insert_thread_row (params_row c m) rows in
      if \<not> inserted then rows1
      else
        (case tp_parent_event_id m of
           None \<Rightarrow> rows1
         | Some pid \<Rightarrow>
             (let parent_ts = unwrap_or (tp_event_created_at m) (tp_parent_event_created_at m);
                  rows2 = snd (insert_thread_row (stub_row c parent_ts pid (tp_channel_id m)) rows1);
                  rows3 =
                    (case tp_root_event_id m of
                       Some root \<Rightarrow>
                         if root \<noteq> pid then
                           snd (insert_thread_row
                                  (stub_row c (unwrap_or (tp_event_created_at m) (tp_root_event_created_at m))
                                     root (tp_channel_id m)) rows2)
                         else rows2
                     | None \<Rightarrow> rows2);
                  rows4 = add_reply now c pid rows3
              in case tp_root_event_id m of
                   Some root \<Rightarrow> add_descendant c root rows4
                 | None \<Rightarrow> rows4)))"

definition increment_reply_count ::
    "int \<Rightarrow> community_id \<Rightarrow> hex_string \<Rightarrow> hex_string option \<Rightarrow> thread_row list \<Rightarrow> thread_row list" where
  "increment_reply_count now c parent root rows =
     (let rows1 = add_reply now c parent rows
      in case root of Some r \<Rightarrow> add_descendant c r rows1 | None \<Rightarrow> rows1)"

definition decrement_reply_count ::
    "community_id \<Rightarrow> hex_string \<Rightarrow> hex_string option \<Rightarrow> thread_row list \<Rightarrow> thread_row list" where
  "decrement_reply_count c parent root rows =
     (let rows1 = remove_reply c parent rows
      in case root of Some r \<Rightarrow> remove_descendant c r rows1 | None \<Rightarrow> rows1)"

text \<open>
  The transactions: the event with its metadata, and the deletion with its decrement. The text of
  the metadata statements in the first repeats \<open>insert_thread_metadata\<close>.
\<close>

definition insert_event_with_thread_metadata ::
    "(int \<Rightarrow> int option) \<Rightarrow> nat \<Rightarrow> community_id \<Rightarrow> event \<Rightarrow> uuid option \<Rightarrow> thread_params option \<Rightarrow> thread_db
     \<Rightarrow> (db_error, (stored_event \<times> bool) \<times> thread_db) result" where
  "insert_event_with_thread_metadata from_ts now c ev ch meta db =
     bind_result (insert_event from_ts now c ev ch (td_events db))
       (\<lambda>((stored, was_inserted), evs).
          Ok ((stored, was_inserted),
              db\<lparr>td_events := evs,
                 td_threads :=
                   (if was_inserted then
                      (case meta of
                         Some m \<Rightarrow> insert_thread_metadata (int now) c m (td_threads db)
                       | None \<Rightarrow> td_threads db)
                    else td_threads db)\<rparr>))"

definition soft_delete_event_and_update_thread ::
    "community_id \<Rightarrow> hex_string \<Rightarrow> hex_string option \<Rightarrow> hex_string option \<Rightarrow> thread_db \<Rightarrow> bool \<times> thread_db" where
  "soft_delete_event_and_update_thread c i parent root db =
     (let (deleted, evs) = soft_delete_event c i (td_events db) in
      (deleted,
       db\<lparr>td_events := evs,
          td_threads :=
            (if deleted then
               (case parent of
                  Some pid \<Rightarrow> decrement_reply_count c pid root (td_threads db)
                | None \<Rightarrow> td_threads db)
             else td_threads db)\<rparr>))"

section \<open>Reads\<close>

definition get_thread_metadata_by_event ::
    "thread_db \<Rightarrow> community_id \<Rightarrow> hex_string \<Rightarrow> thread_row option" where
  "get_thread_metadata_by_event db c i = find (thread_at c i) (td_threads db)"

definition get_event_by_id :: "event_db \<Rightarrow> community_id \<Rightarrow> hex_string \<Rightarrow> event_row option" where
  "get_event_by_id db c i =
     min_by_key (\<lambda>r. - created_i64 r)
       (filter (\<lambda>r. row_community r = c \<and> ev_id (row_event r) = i \<and> \<not> row_deleted r) (db_events db))"

text \<open>
  The deletion handlers, \<open>side_effects.rs\<close>, look the metadata of the target up and pass its parent and root to the
  transaction.
\<close>

definition delete_event :: "community_id \<Rightarrow> hex_string \<Rightarrow> thread_db \<Rightarrow> bool \<times> thread_db" where
  "delete_event c i db =
     (let meta = get_thread_metadata_by_event db c i in
      soft_delete_event_and_update_thread c i (Option.bind meta tm_parent) (Option.bind meta tm_root) db)"

text \<open>Rows of the event table with their metadata, if any: the left join of the window query.\<close>

definition thread_of :: "thread_db \<Rightarrow> event_row \<Rightarrow> thread_row option" where
  "thread_of db r =
     find (\<lambda>t. thread_key t = (row_community r, created_i64 r, ev_id (row_event r)))
       (td_threads db)"

definition top_level :: "thread_db \<Rightarrow> event_row \<Rightarrow> bool" where
  "top_level db r \<longleftrightarrow>
     (case thread_of db r of
        None \<Rightarrow> True
      | Some t \<Rightarrow> tm_depth t = 0 \<or> (tm_depth t = 1 \<and> tm_broadcast t))"

type_synonym keyset_cursor = "int \<times> hex_string"

definition row_cursor :: "event_row \<Rightarrow> keyset_cursor" where
  "row_cursor r = (created_i64 r, ev_id (row_event r))"

text \<open>\<open>ORDER BY created_at DESC, id ASC\<close> and the predicate of the page after a cursor.\<close>

definition window_key :: "event_row \<Rightarrow> int \<times> hex_string" where
  "window_key r = (- created_i64 r, ev_id (row_event r))"

definition after_cursor :: "keyset_cursor \<Rightarrow> event_row \<Rightarrow> bool" where
  "after_cursor cur r \<longleftrightarrow>
     created_i64 r < fst cur \<or> (created_i64 r = fst cur \<and> snd cur < ev_id (row_event r))"

definition window_where ::
    "thread_db \<Rightarrow> community_id \<Rightarrow> uuid \<Rightarrow> kind list option \<Rightarrow> event_row \<Rightarrow> bool" where
  "window_where db c ch kinds r \<longleftrightarrow>
     row_community r = c \<and> row_channel r = Some ch \<and> \<not> row_deleted r \<and> top_level db r
     \<and> (case kinds of Some ks \<Rightarrow> ks = [] \<or> ev_kind (row_event r) \<in> set ks | None \<Rightarrow> True)"

record thread_summary =
  ts_reply_count :: int
  ts_descendant_count :: int
  ts_last_reply_at :: "int option"
  ts_participants :: "hex_string list"

text \<open>
  The authors of the live replies below a root, most recent first, ten at most.
\<close>

definition reply_events :: "thread_db \<Rightarrow> community_id \<Rightarrow> hex_string \<Rightarrow> event_row list" where
  "reply_events db c root =
     filter (\<lambda>r. row_community r = c \<and> \<not> row_deleted r
               \<and> is_some_and (\<lambda>t. tm_root t = Some root) (thread_of db r)) (db_events (td_events db))"

definition participants :: "thread_db \<Rightarrow> community_id \<Rightarrow> hex_string \<Rightarrow> hex_string list" where
  "participants db c root =
     take 10 (dedup_first (map (\<lambda>r. ev_pubkey (row_event r))
       (sort_key (\<lambda>r. - created_i64 r) (reply_events db c root))))"

definition get_thread_summary :: "thread_db \<Rightarrow> community_id \<Rightarrow> hex_string \<Rightarrow> thread_summary option" where
  "get_thread_summary db c i =
     map_option (\<lambda>t. \<lparr>ts_reply_count = tm_reply_count t, ts_descendant_count = tm_descendant_count t,
                     ts_last_reply_at = tm_last_reply_at t, ts_participants = participants db c i\<rparr>)
       (get_thread_metadata_by_event db c i)"

definition window_summary :: "thread_db \<Rightarrow> event_row \<Rightarrow> thread_summary option" where
  "window_summary db r =
     (case thread_of db r of
        None \<Rightarrow> None
      | Some t \<Rightarrow>
          if 0 < tm_reply_count t then
            Some \<lparr>ts_reply_count = tm_reply_count t, ts_descendant_count = tm_descendant_count t,
                  ts_last_reply_at = tm_last_reply_at t,
                  ts_participants = participants db (row_community r) (ev_id (row_event r))\<rparr>
          else None)"

record channel_window =
  cw_rows :: "(event_row \<times> thread_summary option) list"
  cw_has_more :: bool
  cw_next_cursor :: "keyset_cursor option"

text \<open>
  \<open>readable\<close> says of which rows \<open>row_to_stored_event\<close> can rebuild the event; the others are
  skipped, after the cursor was taken.
\<close>

definition get_channel_window ::
    "(event_row \<Rightarrow> bool) \<Rightarrow> thread_db \<Rightarrow> community_id \<Rightarrow> uuid \<Rightarrow> nat \<Rightarrow> keyset_cursor option
     \<Rightarrow> kind list option \<Rightarrow> channel_window" where
  "get_channel_window readable db c ch limit cursor kinds =
     (let fetched = take (limit + 1) (sort_key window_key
            (filter (\<lambda>r. window_where db c ch kinds r \<and> is_none_or (\<lambda>cur. after_cursor cur r) cursor)
               (db_events (td_events db))));
          has_more = limit < length fetched;
          db_rows = take limit fetched
      in \<lparr>cw_rows = map (\<lambda>r. (r, window_summary db r)) (filter readable db_rows),
          cw_has_more = has_more,
          cw_next_cursor =
            (if has_more then (if db_rows = [] then None else Some (row_cursor (last db_rows))) else None)\<rparr>)"

text \<open>
  Replies below a root, oldest first. The cursor bytes decode to an instant and, except for the
  legacy form, an event id.
\<close>

definition reply_key :: "event_row \<Rightarrow> int \<times> hex_string" where
  "reply_key r = (created_i64 r, ev_id (row_event r))"

definition after_reply :: "int \<times> hex_string option \<Rightarrow> event_row \<Rightarrow> bool" where
  "after_reply cur r \<longleftrightarrow>
     (case snd cur of
        Some i \<Rightarrow> (fst cur, i) < reply_key r
      | None \<Rightarrow> fst cur < created_i64 r)"

definition get_thread_replies ::
    "(event_row \<Rightarrow> bool) \<Rightarrow> thread_db \<Rightarrow> community_id \<Rightarrow> hex_string \<Rightarrow> nat option \<Rightarrow> nat
     \<Rightarrow> (int \<times> hex_string option) option \<Rightarrow> event_row list" where
  "get_thread_replies readable db c root depth_limit limit cursor =
     filter readable (take limit (sort_key reply_key
       (filter (\<lambda>r. is_none_or (\<lambda>d. is_some_and (\<lambda>t. tm_depth t \<le> int d) (thread_of db r)) depth_limit
                  \<and> is_none_or (\<lambda>cur. after_reply cur r) cursor) (reply_events db c root))))"

section \<open>Resolution of a reply\<close>

text \<open>
  \<open>resolve_nip10_thread_meta\<close> of \<open>handlers/ingest.rs\<close>. \<open>from_ts\<close> is
  \<open>DateTime::from_timestamp\<close> and \<open>now\<close> the current second. Of several marked tags the last
  counts in the event itself, the first in its parent.
\<close>

definition marked_id :: "string \<Rightarrow> tag \<Rightarrow> hex_string option" where
  "marked_id marker t =
     (if 4 \<le> length t \<and> t ! 0 = ''e'' \<and> t ! 3 = marker \<and> length (t ! 1) = 64
         \<and> list_all is_hex_char (t ! 1)
      then Some (ascii_lower (t ! 1)) else None)"

definition event_secs :: "(int \<Rightarrow> int option) \<Rightarrow> int \<Rightarrow> event \<Rightarrow> int" where
  "event_secs from_ts fallback ev = unwrap_or fallback (from_ts (as_i64 (ev_created_at ev)))"

definition known_secs ::
    "(int \<Rightarrow> int option) \<Rightarrow> event_db \<Rightarrow> community_id \<Rightarrow> int \<Rightarrow> hex_string \<Rightarrow> int" where
  "known_secs from_ts db c fallback i =
     (case get_event_by_id db c i of
        Some r \<Rightarrow> event_secs from_ts fallback (row_event r)
      | None \<Rightarrow> fallback)"

definition tagged_root :: "hex_string \<Rightarrow> event \<Rightarrow> hex_string" where
  "tagged_root own ev =
     (case find_map (marked_id ''root'') (ev_tags ev) of
        Some r \<Rightarrow> r
      | None \<Rightarrow> unwrap_or own (find_map (marked_id ''reply'') (ev_tags ev)))"

definition thread_root ::
    "(int \<Rightarrow> int option) \<Rightarrow> thread_db \<Rightarrow> community_id \<Rightarrow> hex_string \<Rightarrow> event_row \<Rightarrow> int
     \<Rightarrow> hex_string \<Rightarrow> (string, hex_string \<times> int \<times> int) result" where
  "thread_root from_ts db c parent prow parent_created client_root =
     (case get_thread_metadata_by_event db c parent of
        Some meta \<Rightarrow>
          (let effective_root = unwrap_or parent (tm_root meta) in
           if client_root \<noteq> effective_root then Err ''root tag does not match thread ancestry''
           else if 100 < tm_depth meta + 1 then Err ''thread depth limit exceeded''
           else Ok (effective_root,
                    known_secs from_ts (td_events db) c parent_created effective_root,
                    tm_depth meta + 1))
      | None \<Rightarrow>
          (let parent_root = tagged_root parent (row_event prow) in
           if client_root \<noteq> parent_root then Err ''root tag does not match thread ancestry''
           else Ok (parent_root,
                    if parent_root \<noteq> parent
                    then known_secs from_ts (td_events db) c parent_created parent_root
                    else parent_created,
                    if parent_root = parent then 1 else 2)))"

definition is_broadcast :: "event \<Rightarrow> bool" where
  "is_broadcast ev = list_ex (\<lambda>t. 2 \<le> length t \<and> t ! 0 = ''broadcast'' \<and> t ! 1 = ''1'') (ev_tags ev)"

definition resolve_nip10_thread_meta ::
    "(int \<Rightarrow> int option) \<Rightarrow> int \<Rightarrow> community_id \<Rightarrow> event \<Rightarrow> uuid \<Rightarrow> thread_db
     \<Rightarrow> (string, thread_params option) result" where
  "resolve_nip10_thread_meta from_ts now c ev ch db =
     (case find_map (marked_id ''reply'') (rev (ev_tags ev)) of
        None \<Rightarrow> Ok None
      | Some parent \<Rightarrow>
          (let client_root = unwrap_or parent (find_map (marked_id ''root'') (rev (ev_tags ev))) in
           case get_event_by_id (td_events db) c parent of
             None \<Rightarrow> Err ''reply parent not found''
           | Some prow \<Rightarrow>
               (case row_channel prow of
                  None \<Rightarrow> Err ''parent event has no channel association''
                | Some parent_ch \<Rightarrow>
                    if parent_ch \<noteq> ch then Err ''parent event belongs to a different channel''
                    else
                      (let parent_created = event_secs from_ts now (row_event prow) in
                       bind_result (thread_root from_ts db c parent prow parent_created client_root)
                         (\<lambda>(root, root_created, depth).
                            Ok (Some
                              \<lparr>tp_event_id = ev_id ev, tp_event_created_at = event_secs from_ts now ev,
                               tp_channel_id = ch, tp_parent_event_id = Some parent,
                               tp_parent_event_created_at = Some parent_created,
                               tp_root_event_id = Some root,
                               tp_root_event_created_at = Some root_created,
                               tp_depth = depth, tp_broadcast = is_broadcast ev\<rparr>))))))"

end
