(* ===== verification/Thread_Pages.thy ===== *)
theory Thread_Pages
  imports Threads
begin

text \<open>
  Keyset pagination of channel windows and thread replies. A reader who follows the cursors sees
  every row once, in the order of the query, and reaches an end. The locale holds the one fact
  about cursors that both queries rest on.
\<close>

section \<open>Walking pages\<close>

text \<open>
  A reader with fuel for so many pages: \<open>None\<close> when the fuel runs out before the last page.
\<close>

fun keyset_walk :: "('c option \<Rightarrow> 'a list \<times> 'c option) \<Rightarrow> nat \<Rightarrow> 'c option \<Rightarrow> 'a list option" where
  "keyset_walk page 0 cur = None"
| "keyset_walk page (Suc n) cur =
     (case snd (page cur) of
        None \<Rightarrow> Some (fst (page cur))
      | Some next \<Rightarrow> map_option ((@) (fst (page cur))) (keyset_walk page n (Some next)))"

locale keyset_pages =
  fixes key :: "'r \<Rightarrow> 'k::linorder"
    and cursor_at :: "'r \<Rightarrow> 'c"
    and after :: "'c \<Rightarrow> 'r \<Rightarrow> bool"
  assumes after_cursor_at: "after (cursor_at x) y \<longleftrightarrow> key x < key y"
begin

definition remaining :: "'r list \<Rightarrow> 'c option \<Rightarrow> 'r list" where
  "remaining rows cur = sort_key key (filter (\<lambda>r. is_none_or (\<lambda>c. after c r) cur) rows)"

lemma remaining_None: "remaining rows None = sort_key key rows"
  by (simp add: remaining_def)

text \<open>After the cursor of a row comes exactly what follows it in the sorted table.\<close>

lemma remaining_after:
  assumes "distinct (map key rows)" and S: "sort_key key rows = xs @ y # zs"
  shows "remaining rows (Some (cursor_at y)) = zs"
proof -
  have "inj_on key (set rows)" "distinct rows" using assms(1) by (simp_all add: distinct_map)
  then have "distinct (map key (sort_key key rows))" by (simp add: distinct_map)
  then have distinct: "key y \<notin> key ` set zs" unfolding S by simp
  have "sorted (map key (xs @ y # zs))" using sorted_sort_key [of key rows] by (simp add: S)
  then have below: "\<forall>x \<in> set xs. key x \<le> key y" and above: "\<forall>z \<in> set zs. key y \<le> key z"
    by (simp_all add: sorted_append)
  have "filter (\<lambda>r. key y < key r) xs = []"
    using below by (simp add: filter_empty_conv not_less)
  moreover have "filter (\<lambda>r. key y < key r) zs = zs"
    using above distinct by (simp add: filter_id_conv image_iff order_less_le)
  ultimately have "filter (\<lambda>r. key y < key r) (sort_key key rows) = zs" by (simp add: S)
  then show ?thesis by (simp add: remaining_def after_cursor_at filter_sort)
qed

text \<open>
  A page shows the next rows through \<open>out\<close>; it names a next page only when it is not empty, by
  its last row, and names none only when nothing follows.
\<close>

definition serves :: "nat \<Rightarrow> ('r list \<Rightarrow> 'a list) \<Rightarrow> 'r list \<Rightarrow> ('c option \<Rightarrow> 'a list \<times> 'c option) \<Rightarrow> bool" where
  "serves limit out rows page \<longleftrightarrow>
     (\<forall>cur. let rest = remaining rows cur; shown = take limit rest in
        fst (page cur) = out shown
        \<and> (case snd (page cur) of
             None \<Rightarrow> length rest \<le> limit
           | Some next \<Rightarrow> shown \<noteq> [] \<and> next = cursor_at (last shown)))"

lemma servesD:
  assumes "serves limit out rows page"
  shows "fst (page cur) = out (take limit (remaining rows cur))"
    and "snd (page cur) = None \<Longrightarrow> length (remaining rows cur) \<le> limit"
    and "snd (page cur) = Some next \<Longrightarrow> take limit (remaining rows cur) \<noteq> []"
    and "snd (page cur) = Some next \<Longrightarrow> next = cursor_at (last (take limit (remaining rows cur)))"
  using assms [unfolded serves_def Let_def, rule_format, of cur] by simp_all

lemma walk_from:
  assumes page: "serves limit out rows page" and out: "\<And>xs ys. out (xs @ ys) = out xs @ out ys"
    and keys: "distinct (map key rows)"
    and split: "sort_key key rows = seen @ rest" "remaining rows cur = rest"
    and fuel: "length rest < n"
  shows "keyset_walk page n cur = Some (out rest)"
  using split fuel
proof (induction n arbitrary: seen rest cur)
  case 0
  then show ?case by simp
next
  case (Suc n)
  let ?shown = "take limit rest" and ?left = "drop limit rest"
  have fst: "fst (page cur) = out ?shown" using servesD(1) [OF page] Suc.prems(2) by simp
  show ?case
  proof (cases "snd (page cur)")
    case None
    then have "length rest \<le> limit" using servesD(2) [OF page] Suc.prems(2) by metis
    with None fst show ?thesis by simp
  next
    case (Some nxt)
    then have ne: "?shown \<noteq> []" and at_nxt: "nxt = cursor_at (last ?shown)"
      using servesD(3,4) [OF page Some] Suc.prems(2) by simp_all
    have "?shown = butlast ?shown @ [last ?shown]" using ne by simp
    then have "sort_key key rows = (seen @ butlast ?shown) @ last ?shown # ?left"
      using Suc.prems(1) by (metis append.assoc append_Cons append_Nil append_take_drop_id)
    from remaining_after [OF keys this] have "remaining rows (Some nxt) = ?left"
      by (simp add: at_nxt)
    moreover have "length ?left < n" using ne Suc.prems(3) by (cases rest; cases limit) auto
    moreover have "sort_key key rows = (seen @ ?shown) @ ?left" using Suc.prems(1) by simp
    ultimately have "keyset_walk page n (Some nxt) = Some (out ?left)" using Suc.IH by blast
    with Some fst show ?thesis by (simp flip: out)
  qed
qed

lemma walk_complete:
  assumes "serves limit out rows page" and "\<And>xs ys. out (xs @ ys) = out xs @ out ys"
    and "distinct (map key rows)"
  shows "keyset_walk page (Suc (length rows)) None = Some (out (sort_key key rows))"
  by (rule walk_from [OF assms, where seen = "[]"]) (simp_all add: remaining_None)

end

section \<open>The two queries\<close>

interpretation windows: keyset_pages window_key row_cursor after_cursor
  by unfold_locales (auto simp: after_cursor_def row_cursor_def window_key_def)

definition reply_cursor :: "event_row \<Rightarrow> int \<times> hex_string option" where
  "reply_cursor r = (created_i64 r, Some (ev_id (row_event r)))"

interpretation replies: keyset_pages reply_key reply_cursor after_reply
  by unfold_locales (auto simp: after_reply_def reply_cursor_def reply_key_def)

definition window_page ::
    "(event_row \<Rightarrow> bool) \<Rightarrow> thread_db \<Rightarrow> community_id \<Rightarrow> uuid \<Rightarrow> nat \<Rightarrow> kind list option
     \<Rightarrow> keyset_cursor option \<Rightarrow> (event_row \<times> thread_summary option) list \<times> keyset_cursor option" where
  "window_page readable db c ch limit kinds cur =
     (let w = get_channel_window readable db c ch limit cur kinds in (cw_rows w, cw_next_cursor w))"

text \<open>
  A reader of replies asks for the page after the last reply received and stops at an empty page.
\<close>

definition reply_page ::
    "thread_db \<Rightarrow> community_id \<Rightarrow> hex_string \<Rightarrow> nat option \<Rightarrow> nat
     \<Rightarrow> (int \<times> hex_string option) option \<Rightarrow> event_row list \<times> (int \<times> hex_string option) option" where
  "reply_page db c root depth_limit limit cur =
     (let rs = get_thread_replies (\<lambda>_. True) db c root depth_limit limit cur
      in (rs, if rs = [] then None else Some (reply_cursor (last rs))))"

text \<open>The primary key of the event table.\<close>

definition row_key :: "event_row \<Rightarrow> community_id \<times> int \<times> hex_string" where
  "row_key r = (row_community r, created_i64 r, ev_id (row_event r))"

lemma distinct_window_keys:
  assumes "distinct (map row_key rows)" and "\<forall>r \<in> set rows. P r \<longrightarrow> row_community r = c"
  shows "distinct (map window_key (filter P rows))"
  using assms by (auto simp: distinct_map inj_on_def window_key_def row_key_def)

lemma distinct_reply_keys:
  assumes "distinct (map row_key rows)" and "\<forall>r \<in> set rows. P r \<longrightarrow> row_community r = c"
  shows "distinct (map reply_key (filter P rows))"
  using assms by (auto simp: distinct_map inj_on_def reply_key_def row_key_def)

text \<open>
  Walking a channel ends and shows everything once. With any positive page size, a reader who
  follows \<open>next_cursor\<close> from the head of a channel reaches a last page after at most one page per
  stored row, and has then received exactly the live top-level rows of the channel of the wanted
  kinds that can be read back, newest first and by id within a second, each with its summary,
  none twice and none skipped, whatever rows share a second.
\<close>
lemma channel_walk_is_complete:
  assumes "distinct (map row_key (db_events (td_events db)))" and "0 < limit"
  shows "keyset_walk (window_page readable db c ch limit kinds)
           (Suc (length (filter (window_where db c ch kinds) (db_events (td_events db))))) None =
         Some (map (\<lambda>r. (r, window_summary db r))
           (filter readable (sort_key window_key
              (filter (window_where db c ch kinds) (db_events (td_events db))))))"
proof (rule windows.walk_complete [where limit = limit
      and out = "\<lambda>rs. map (\<lambda>r. (r, window_summary db r)) (filter readable rs)"])
  show "distinct (map window_key (filter (window_where db c ch kinds) (db_events (td_events db))))"
    by (rule distinct_window_keys [OF assms(1), where c = c]) (auto simp: window_where_def)
  have take: "take limit (take (limit + 1) xs) = take limit xs"
    "limit < length (take (limit + 1) xs) \<longleftrightarrow> limit < length xs" for xs :: "event_row list"
    by auto
  show "windows.serves limit (\<lambda>rs. map (\<lambda>r. (r, window_summary db r)) (filter readable rs))
          (filter (window_where db c ch kinds) (db_events (td_events db)))
          (window_page readable db c ch limit kinds)"
    using assms(2)
    by (auto simp: windows.serves_def windows.remaining_def window_page_def get_channel_window_def
        take Let_def conj_commute)
qed simp

text \<open>
  Walking a thread ends and shows everything once. With any positive page size, a reader who
  asks for the page after the last reply received, until a page is empty, receives exactly the
  live replies below the root within the depth limit, oldest first, none twice and none skipped.
\<close>
lemma thread_walk_is_complete:
  assumes "distinct (map row_key (db_events (td_events db)))" and "0 < limit"
  shows "keyset_walk (reply_page db c root depth_limit limit)
           (Suc (length (filter (\<lambda>r. is_none_or (\<lambda>d. is_some_and (\<lambda>t. tm_depth t \<le> int d) (thread_of db r))
                                       depth_limit) (reply_events db c root)))) None =
         Some (sort_key reply_key
           (filter (\<lambda>r. is_none_or (\<lambda>d. is_some_and (\<lambda>t. tm_depth t \<le> int d) (thread_of db r)) depth_limit)
              (reply_events db c root)))"
proof (rule replies.walk_complete [where limit = limit and out = "\<lambda>rs. rs"])
  show "distinct (map reply_key
     (filter (\<lambda>r. is_none_or (\<lambda>d. is_some_and (\<lambda>t. tm_depth t \<le> int d) (thread_of db r)) depth_limit)
       (reply_events db c root)))"
    unfolding reply_events_def filter_filter
    by (rule distinct_reply_keys [OF assms(1), where c = c]) auto
  show "replies.serves limit (\<lambda>rs. rs)
     (filter (\<lambda>r. is_none_or (\<lambda>d. is_some_and (\<lambda>t. tm_depth t \<le> int d) (thread_of db r)) depth_limit)
       (reply_events db c root))
     (reply_page db c root depth_limit limit)"
    using assms(2)
    by (auto simp: replies.serves_def replies.remaining_def reply_page_def get_thread_replies_def
        Let_def conj_commute)
qed simp

section \<open>Two messages of one second\<close>

definition tie_row :: "hex_string \<Rightarrow> event_row" where
  "tie_row i =
     \<lparr>row_community = 4,
      row_event = \<lparr>ev_id = i, ev_pubkey = ''p'', ev_created_at = 7, ev_kind = 9, ev_tags = [],
                   ev_content = []\<rparr>,
      row_received_at = 7, row_channel = Some 2, row_deleted = False, row_d_tag = None,
      row_not_before = None\<rparr>"

definition tie_meta :: "hex_string \<Rightarrow> thread_row" where
  "tie_meta i =
     \<lparr>tm_community = 4, tm_created_at = 7, tm_event_id = i, tm_channel = 2,
      tm_parent = Some ''a'', tm_parent_created_at = Some 1, tm_root = Some ''a'',
      tm_root_created_at = Some 1, tm_depth = 1, tm_reply_count = 0, tm_descendant_count = 0,
      tm_last_reply_at = None, tm_broadcast = True\<rparr>"

definition tie_db :: thread_db where
  "tie_db = \<lparr>td_events = \<lparr>db_events = [tie_row ''2'', tie_row ''1''], db_mentions = []\<rparr>,
             td_threads = [tie_meta ''1'', tie_meta ''2'']\<rparr>"

lemma tie_db_keys: "distinct (map row_key (db_events (td_events tie_db)))"
  by (simp add: tie_db_def tie_row_def row_key_def)

lemma tie_threads:
  "thread_of tie_db (tie_row ''1'') = Some (tie_meta ''1'')"
  "thread_of tie_db (tie_row ''2'') = Some (tie_meta ''2'')"
  by (simp_all add: thread_of_def tie_db_def tie_row_def tie_meta_def thread_key_def created_i64_def
      as_i64_def)

lemma tie_window:
  "filter (window_where tie_db 4 2 None) (db_events (td_events tie_db)) = [tie_row ''2'', tie_row ''1'']"
proof -
  have "window_where tie_db 4 2 None (tie_row i)" if "i \<in> {''1'', ''2''}" for i
    using that tie_threads
    by (auto simp: window_where_def top_level_def) (auto simp: tie_row_def tie_meta_def)
  then show ?thesis by (simp add: tie_db_def)
qed

lemma tie_replies: "reply_events tie_db 4 ''a'' = [tie_row ''2'', tie_row ''1'']"
proof -
  have "row_community (tie_row i) = 4" "\<not> row_deleted (tie_row i)" "tm_root (tie_meta i) = Some ''a''" for i
    by (simp_all add: tie_row_def tie_meta_def)
  then show ?thesis by (simp add: reply_events_def tie_threads) (simp add: tie_db_def tie_threads [unfolded tie_db_def])
qed

lemma channel_walk_is_complete_witness:
  "map_option (map (\<lambda>(r, _). ev_id (row_event r)))
     (keyset_walk (window_page (\<lambda>_. True) tie_db 4 2 1 None) 3 None) = Some [''1'', ''2'']"
proof -
  have "keyset_walk (window_page (\<lambda>_. True) tie_db 4 2 1 None) 3 None
      = Some (map (\<lambda>r. (r, window_summary tie_db r)) (sort_key window_key [tie_row ''2'', tie_row ''1'']))"
    using channel_walk_is_complete [OF tie_db_keys, of 1 "\<lambda>_. True" 4 2 None]
    by (simp add: tie_window numeral_3_eq_3)
  moreover have "sort_key window_key [tie_row ''2'', tie_row ''1''] = [tie_row ''1'', tie_row ''2'']"
    by (simp add: window_key_def tie_row_def created_i64_def)
  ultimately show ?thesis by (simp add: tie_row_def)
qed

lemma thread_walk_is_complete_witness:
  "map_option (map (\<lambda>r. ev_id (row_event r)))
     (keyset_walk (reply_page tie_db 4 ''a'' None 1) 3 None) = Some [''1'', ''2'']"
proof -
  have "keyset_walk (reply_page tie_db 4 ''a'' None 1) 3 None
      = Some (sort_key reply_key [tie_row ''2'', tie_row ''1''])"
    using thread_walk_is_complete [OF tie_db_keys, of 1 4 "''a''" None]
    by (simp add: tie_replies numeral_3_eq_3)
  moreover have "sort_key reply_key [tie_row ''2'', tie_row ''1''] = [tie_row ''1'', tie_row ''2'']"
    by (simp add: reply_key_def tie_row_def created_i64_def)
  ultimately show ?thesis by (simp add: tie_row_def)
qed

end
