(* ===== verification/Thread_Counters.thy ===== *)
theory Thread_Counters
  imports Threads
begin

text \<open>
  The reply counters of threads. Over every sequence of accepted messages and deletions, the
  counters of a stored message are the number of its live replies and of its live descendants,
  as long as every reply names a stored root; the last section shows what an unknown root does.
\<close>

section \<open>Messages and deletions\<close>

definition post_event ::
    "(int \<Rightarrow> int option) \<Rightarrow> nat \<Rightarrow> community_id \<Rightarrow> event \<Rightarrow> uuid \<Rightarrow> thread_db \<Rightarrow> thread_db" where
  "post_event from_ts now c ev ch db =
     (case resolve_nip10_thread_meta from_ts (int now) c ev ch db of
        Err _ \<Rightarrow> db
      | Ok meta \<Rightarrow>
          (case insert_event_with_thread_metadata from_ts now c ev (Some ch) meta db of
             Err _ \<Rightarrow> db
           | Ok (_, db') \<Rightarrow> db'))"

definition event_stored :: "thread_db \<Rightarrow> community_id \<Rightarrow> hex_string \<Rightarrow> bool" where
  "event_stored db c i \<longleftrightarrow>
     list_ex (\<lambda>r. row_community r = c \<and> ev_id (row_event r) = i) (db_events (td_events db))"

definition event_live :: "thread_db \<Rightarrow> community_id \<Rightarrow> hex_string \<Rightarrow> bool" where
  "event_live db c i \<longleftrightarrow>
     list_ex (\<lambda>r. row_community r = c \<and> ev_id (row_event r) = i \<and> \<not> row_deleted r)
       (db_events (td_events db))"

text \<open>The root that a reply resolves to, when it does.\<close>

definition names_stored_root ::
    "(int \<Rightarrow> int option) \<Rightarrow> nat \<Rightarrow> community_id \<Rightarrow> event \<Rightarrow> uuid \<Rightarrow> thread_db \<Rightarrow> bool" where
  "names_stored_root from_ts now c ev ch db \<longleftrightarrow>
     (case resolve_nip10_thread_meta from_ts (int now) c ev ch db of
        Ok (Some m) \<Rightarrow> is_some_and (event_stored db c) (tp_root_event_id m)
      | _ \<Rightarrow> True)"

text \<open>
  The states reached from the empty tables. An event id is the hash of the event and determines
  its second, \<open>stamp\<close>.
\<close>

inductive thread_reach :: "(int \<Rightarrow> int option) \<Rightarrow> (hex_string \<Rightarrow> nat) \<Rightarrow> thread_db \<Rightarrow> bool"
  for from_ts stamp where
  reach_empty: "thread_reach from_ts stamp \<lparr>td_events = \<lparr>db_events = [], db_mentions = []\<rparr>, td_threads = []\<rparr>"
| reach_post:
    "thread_reach from_ts stamp db \<Longrightarrow> ev_created_at ev = stamp (ev_id ev) \<Longrightarrow>
     names_stored_root from_ts now c ev ch db \<Longrightarrow>
     thread_reach from_ts stamp (post_event from_ts now c ev ch db)"
| reach_delete:
    "thread_reach from_ts stamp db \<Longrightarrow> thread_reach from_ts stamp (snd (delete_event c i db))"

text \<open>
  The live events below a message: rows of the metadata table that name it, joined with the
  event table.
\<close>

definition live_below ::
    "(thread_row \<Rightarrow> hex_string option) \<Rightarrow> (community_id \<Rightarrow> hex_string \<Rightarrow> bool) \<Rightarrow> thread_row list
     \<Rightarrow> community_id \<Rightarrow> hex_string \<Rightarrow> thread_row list" where
  "live_below up live rows c i =
     filter (\<lambda>t. tm_community t = c \<and> up t = Some i \<and> live c (tm_event_id t)) rows"

section \<open>The invariant\<close>

definition seconds_ok :: "(int \<Rightarrow> int option) \<Rightarrow> (hex_string \<Rightarrow> nat) \<Rightarrow> thread_db \<Rightarrow> bool" where
  "seconds_ok from_ts stamp db \<longleftrightarrow>
     (\<forall>r \<in> set (db_events (td_events db)).
        ev_created_at (row_event r) = stamp (ev_id (row_event r))
        \<and> from_ts (created_i64 r) = Some (created_i64 r))"

text \<open>
  A row whose second is not that of its event is a stub of a deleted event; every parent and
  every root has a row.
\<close>

definition row_ok ::
    "(hex_string \<Rightarrow> nat) \<Rightarrow> (community_id \<Rightarrow> hex_string \<Rightarrow> bool) \<Rightarrow> (community_id \<Rightarrow> hex_string \<Rightarrow> bool)
     \<Rightarrow> thread_row \<Rightarrow> bool" where
  "row_ok stamp stored live t \<longleftrightarrow>
     stored (tm_community t) (tm_event_id t) \<and> (tm_parent t = None \<longleftrightarrow> tm_root t = None)
     \<and> (tm_created_at t = as_i64 (stamp (tm_event_id t))
        \<or> (\<not> live (tm_community t) (tm_event_id t) \<and> tm_parent t = None \<and> tm_root t = None))"

definition rows_ok ::
    "(hex_string \<Rightarrow> nat) \<Rightarrow> (community_id \<Rightarrow> hex_string \<Rightarrow> bool) \<Rightarrow> (community_id \<Rightarrow> hex_string \<Rightarrow> bool)
     \<Rightarrow> thread_row list \<Rightarrow> bool" where
  "rows_ok stamp stored live rows \<longleftrightarrow>
     distinct (map thread_key rows) \<and> (\<forall>t \<in> set rows. row_ok stamp stored live t)"

definition rows_closed :: "thread_row list \<Rightarrow> bool" where
  "rows_closed rows \<longleftrightarrow>
     (\<forall>t \<in> set rows. \<forall>i. tm_parent t = Some i \<or> tm_root t = Some i \<longrightarrow>
        list_ex (thread_at (tm_community t) i) rows)"

definition count_ok ::
    "(community_id \<Rightarrow> hex_string \<Rightarrow> bool) \<Rightarrow> thread_row list \<Rightarrow> thread_row \<Rightarrow> bool" where
  "count_ok live rows t \<longleftrightarrow>
     (live (tm_community t) (tm_event_id t) \<longrightarrow>
        tm_reply_count t = int (length (live_below tm_parent live rows (tm_community t) (tm_event_id t)))
        \<and> tm_descendant_count t
          = int (length (live_below tm_root live rows (tm_community t) (tm_event_id t))))"

definition counters_ok :: "(community_id \<Rightarrow> hex_string \<Rightarrow> bool) \<Rightarrow> thread_row list \<Rightarrow> bool" where
  "counters_ok live rows \<longleftrightarrow> (\<forall>t \<in> set rows. count_ok live rows t)"

lemma event_live_stored: "event_live db c i \<Longrightarrow> event_stored db c i"
  by (auto simp: event_live_def event_stored_def list_ex_iff)

lemma get_event_by_id_Some:
  assumes "get_event_by_id (td_events db) c i = Some r"
  shows "r \<in> set (db_events (td_events db))" "row_community r = c" "ev_id (row_event r) = i"
    "\<not> row_deleted r"
  using min_by_key_Some [OF assms [unfolded get_event_by_id_def]] by auto

lemma get_event_by_id_None: "get_event_by_id (td_events db) c i = None \<longleftrightarrow> \<not> event_live db c i"
  by (auto simp: get_event_by_id_def event_live_def list_ex_iff filter_empty_conv)

lemma event_live_get: "event_live db c i \<longleftrightarrow> (\<exists>r. get_event_by_id (td_events db) c i = Some r)"
  using get_event_by_id_None [of db c i] by auto

text \<open>The second that a lookup gives for a live event.\<close>

lemma event_secs_stored:
  assumes "seconds_ok from_ts stamp db" "r \<in> set (db_events (td_events db))"
  shows "event_secs from_ts d (row_event r) = as_i64 (stamp (ev_id (row_event r)))"
  using assms by (force simp: seconds_ok_def event_secs_def unwrap_or_def created_i64_def)

lemma known_secs_live:
  assumes "seconds_ok from_ts stamp db" "event_live db c i"
  shows "known_secs from_ts (td_events db) c d i = as_i64 (stamp i)"
proof -
  from assms(2) obtain r where r: "get_event_by_id (td_events db) c i = Some r"
    by (auto simp: event_live_get)
  from get_event_by_id_Some [OF r] event_secs_stored [OF assms(1)] r show ?thesis
    by (auto simp: known_secs_def)
qed

text \<open>What a resolved reply looks like.\<close>

definition meta_ok ::
    "(hex_string \<Rightarrow> nat) \<Rightarrow> thread_db \<Rightarrow> community_id \<Rightarrow> event \<Rightarrow> thread_params \<Rightarrow> hex_string \<Rightarrow> hex_string \<Rightarrow> bool" where
  "meta_ok stamp db c ev m parent root \<longleftrightarrow>
     tp_event_id m = ev_id ev \<and> tp_parent_event_id m = Some parent \<and> event_live db c parent
     \<and> tp_parent_event_created_at m = Some (as_i64 (stamp parent))
     \<and> tp_root_event_id m = Some root \<and> event_stored db c root
     \<and> (\<exists>s. tp_root_event_created_at m = Some s \<and> (event_live db c root \<longrightarrow> s = as_i64 (stamp root)))"

lemma thread_root_Ok:
  assumes "seconds_ok from_ts stamp db" and "parent_created = as_i64 (stamp parent)"
    and "thread_root from_ts db c parent prow parent_created client = Ok (root, s, depth)"
    and "event_live db c root"
  shows "s = as_i64 (stamp root)"
  using assms(2-4) known_secs_live [OF assms(1,4)]
  by (auto simp: thread_root_def Let_def split: option.splits if_splits)

lemma resolve_meta_ok:
  assumes "seconds_ok from_ts stamp db"
    and "resolve_nip10_thread_meta from_ts now c ev ch db = Ok (Some m)"
    and "is_some_and (event_stored db c) (tp_root_event_id m)"
  shows "\<exists>parent root. meta_ok stamp db c ev m parent root
    \<and> tp_event_created_at m = event_secs from_ts now ev"
proof -
  from assms(2) obtain parent prow client root s depth where
    p: "get_event_by_id (td_events db) c parent = Some prow"
    and t: "thread_root from_ts db c parent prow (event_secs from_ts now (row_event prow)) client
              = Ok (root, s, depth)"
    and m: "m = \<lparr>tp_event_id = ev_id ev, tp_event_created_at = event_secs from_ts now ev,
                 tp_channel_id = ch, tp_parent_event_id = Some parent,
                 tp_parent_event_created_at = Some (event_secs from_ts now (row_event prow)),
                 tp_root_event_id = Some root, tp_root_event_created_at = Some s,
                 tp_depth = depth, tp_broadcast = is_broadcast ev\<rparr>"
    by (auto simp: resolve_nip10_thread_meta_def Let_def bind_result_Ok split: option.splits if_splits)
  have secs: "event_secs from_ts now (row_event prow) = as_i64 (stamp parent)"
    using event_secs_stored [OF assms(1)] get_event_by_id_Some [OF p] by blast
  have "event_live db c parent" using p by (auto simp: event_live_get)
  with secs thread_root_Ok [OF assms(1) secs t] assms(3) show ?thesis
    by (auto simp: meta_ok_def m)
qed

section \<open>One reply\<close>

lemma insert_thread_row_eq:
  "insert_thread_row r rows =
     (\<not> list_ex (\<lambda>x. thread_key x = thread_key r) rows,
      rows @ (if list_ex (\<lambda>x. thread_key x = thread_key r) rows then [] else [r]))"
  by (simp add: insert_thread_row_def)

definition bump :: "int \<Rightarrow> community_id \<Rightarrow> hex_string \<Rightarrow> hex_string \<Rightarrow> thread_row \<Rightarrow> thread_row" where
  "bump now c p r t =
     (let t1 = if thread_at c p t then t\<lparr>tm_reply_count := tm_reply_count t + 1, tm_last_reply_at := Some now\<rparr> else t
      in if thread_at c r t then t1\<lparr>tm_descendant_count := tm_descendant_count t + 1\<rparr> else t1)"

lemma bump_simps [simp]:
  "thread_key (bump now c p r t) = thread_key t" "tm_community (bump now c p r t) = tm_community t"
  "tm_event_id (bump now c p r t) = tm_event_id t" "tm_created_at (bump now c p r t) = tm_created_at t"
  "tm_parent (bump now c p r t) = tm_parent t" "tm_root (bump now c p r t) = tm_root t"
  "thread_at c' i (bump now c p r t) = thread_at c' i t"
  "tm_reply_count (bump now c p r t) = tm_reply_count t + (if thread_at c p t then 1 else 0)"
  "tm_descendant_count (bump now c p r t) = tm_descendant_count t + (if thread_at c r t then 1 else 0)"
  by (simp_all add: bump_def thread_key_def thread_at_def Let_def)

lemma bump_add: "add_descendant c r (add_reply now c p rows) = map (bump now c p r) rows"
  by (simp add: add_descendant_def add_reply_def bump_def thread_at_def Let_def)

definition stub_unless :: "thread_row \<Rightarrow> thread_row list \<Rightarrow> thread_row list" where
  "stub_unless r rows = (if list_ex (\<lambda>x. thread_key x = thread_key r) rows then [] else [r])"

lemma insert_thread_metadata_eq:
  assumes "meta_ok stamp db c ev m p r"
    and "\<not> list_ex (\<lambda>x. thread_key x = thread_key (params_row c m)) rows"
    and "tp_root_event_created_at m = Some s"
  shows "insert_thread_metadata now c m rows =
    (let rows1 = rows @ [params_row c m];
         rows2 = rows1 @ stub_unless (stub_row c (as_i64 (stamp p)) p (tp_channel_id m)) rows1;
         rows3 = rows2 @ (if r = p then [] else stub_unless (stub_row c s r (tp_channel_id m)) rows2)
     in map (bump now c p r) rows3)"
  using assms
  by (simp add: insert_thread_metadata_def insert_thread_row_eq meta_ok_def Let_def unwrap_or_def
      bump_add stub_unless_def)

lemma live_below_simps [simp]:
  "live_below up live (xs @ ys) c i = live_below up live xs c i @ live_below up live ys c i"
  "live_below up live [] c i = []"
  by (simp_all add: live_below_def)

lemma length_live_below_bump:
  assumes "\<And>t. up (bump now c p r t) = up t"
  shows "length (live_below up live (map (bump now c p r) rows) c' i) = length (live_below up live rows c' i)"
  using assms by (simp add: live_below_def filter_map o_def)

lemma live_below_none:
  assumes "rows_closed rows" "\<not> list_ex (thread_at c i) rows" and "up = tm_parent \<or> up = tm_root"
  shows "live_below up live' rows c i = []"
  using assms by (auto simp: live_below_def rows_closed_def filter_empty_conv)

lemma live_below_cong:
  assumes "\<And>t. t \<in> set rows \<Longrightarrow> live' c (tm_event_id t) = live c (tm_event_id t)"
  shows "live_below up live' rows c i = live_below up live rows c i"
  unfolding live_below_def by (rule filter_cong) (use assms in auto)

text \<open>A live message has a row exactly if it has one with its own second.\<close>

lemma live_row_key:
  assumes "rows_ok stamp stored live rows" "live c q"
  shows "list_ex (\<lambda>x. thread_key x = (c, as_i64 (stamp q), q)) rows \<longleftrightarrow> list_ex (thread_at c q) rows"
  using assms by (auto simp: list_ex_iff thread_key_def thread_at_def rows_ok_def row_ok_def)

text \<open>
  After the row of a reply is in, every message has its new count, up to the increments; a stub
  that is then added for a message without a row starts from zero.
\<close>

definition bumped_ok ::
    "community_id \<Rightarrow> hex_string \<Rightarrow> hex_string \<Rightarrow> (community_id \<Rightarrow> hex_string \<Rightarrow> bool) \<Rightarrow> thread_row list
     \<Rightarrow> thread_row \<Rightarrow> bool" where
  "bumped_ok c p r live rows t \<longleftrightarrow>
     (live (tm_community t) (tm_event_id t) \<longrightarrow>
        tm_reply_count t + (if thread_at c p t then 1 else 0)
          = int (length (live_below tm_parent live rows (tm_community t) (tm_event_id t)))
        \<and> tm_descendant_count t + (if thread_at c r t then 1 else 0)
          = int (length (live_below tm_root live rows (tm_community t) (tm_event_id t))))"

lemma counters_bump:
  "counters_ok live (map (bump now c p r) rows) \<longleftrightarrow> (\<forall>t \<in> set rows. bumped_ok c p r live rows t)"
  by (simp add: counters_ok_def count_ok_def bumped_ok_def length_live_below_bump)

lemma bumped_stub:
  assumes rows: "\<forall>t \<in> set rows. bumped_ok c p r live rows t"
    and above: "live c q \<Longrightarrow> \<not> list_ex (\<lambda>x. thread_key x = (c, as_i64 (stamp q), q)) rows \<Longrightarrow>
      length (live_below tm_parent live rows c q) = (if q = p then 1 else 0)
      \<and> length (live_below tm_root live rows c q) = (if q = r then 1 else 0)"
    and secs: "live c q \<Longrightarrow> s = as_i64 (stamp q)"
  shows "\<forall>t \<in> set (rows @ stub_unless (stub_row c s q ch) rows).
           bumped_ok c p r live (rows @ stub_unless (stub_row c s q ch) rows) t"
proof -
  have none: "live_below up live (stub_unless (stub_row c s q ch) rows) c' i = []"
    if "up = tm_parent \<or> up = tm_root" for up c' i
    using that by (auto simp: live_below_def stub_unless_def stub_row_def)
  have "bumped_ok c p r live rows (stub_row c s q ch)"
    if "\<not> list_ex (\<lambda>x. thread_key x = thread_key (stub_row c s q ch)) rows"
    using above secs that by (auto simp: bumped_ok_def stub_row_def thread_key_def thread_at_def)
  with rows have "\<forall>t \<in> set (rows @ stub_unless (stub_row c s q ch) rows). bumped_ok c p r live rows t"
    by (auto simp: stub_unless_def)
  then show ?thesis by (simp add: bumped_ok_def none)
qed

lemma rows_stub:
  assumes "rows_ok stamp stored live rows" "stored c q" "live c q \<Longrightarrow> s = as_i64 (stamp q)"
  shows "rows_ok stamp stored live (rows @ stub_unless (stub_row c s q ch) rows)"
    and "list_ex (thread_at c q) (rows @ stub_unless (stub_row c s q ch) rows)"
  using assms
  by (auto simp: rows_ok_def stub_unless_def row_ok_def list_ex_iff stub_row_def thread_key_def
      thread_at_def image_iff)

lemma rows_closed_stub:
  "rows_closed (rows @ stub_unless (stub_row c s q ch) rows')
   \<longleftrightarrow> (\<forall>t \<in> set rows. \<forall>i. tm_parent t = Some i \<or> tm_root t = Some i \<longrightarrow>
        list_ex (thread_at (tm_community t) i) (rows @ stub_unless (stub_row c s q ch) rows'))"
  by (auto simp: rows_closed_def stub_unless_def stub_row_def)

text \<open>The rows of an event that was not stored before, before its own row is added.\<close>

definition old_or_new :: "(community_id \<Rightarrow> hex_string \<Rightarrow> bool) \<Rightarrow> community_id \<Rightarrow> hex_string \<Rightarrow> community_id \<Rightarrow> hex_string \<Rightarrow> bool" where
  "old_or_new P c e c' i \<longleftrightarrow> P c' i \<or> (c' = c \<and> i = e)"

lemma rows_new_event:
  assumes rows: "rows_ok stamp stored live rows" and counts: "counters_ok live rows"
    and new: "\<not> stored c e"
  shows "rows_ok stamp (old_or_new stored c e) (old_or_new live c e) rows"
    and "counters_ok (old_or_new live c e) rows"
    and "\<not> list_ex (thread_at c e) rows"
proof -
  have none: "\<not> thread_at c e t" if "t \<in> set rows" for t
    using rows new that by (auto simp: rows_ok_def row_ok_def thread_at_def)
  then show "\<not> list_ex (thread_at c e) rows" by (auto simp: list_ex_iff)
  have same: "old_or_new live c e (tm_community t) (tm_event_id t) = live (tm_community t) (tm_event_id t)"
    if "t \<in> set rows" for t
    using none [OF that] by (auto simp: old_or_new_def thread_at_def)
  then show "rows_ok stamp (old_or_new stored c e) (old_or_new live c e) rows"
    using rows by (auto simp: rows_ok_def row_ok_def old_or_new_def)
  have "live_below up (old_or_new live c e) rows c' i = live_below up live rows c' i" for up c' i
    unfolding live_below_def by (rule filter_cong) (use same in auto)
  with counts same show "counters_ok (old_or_new live c e) rows"
    by (simp add: counters_ok_def count_ok_def)
qed

lemma reply_rows:
  assumes rows: "rows_ok stamp stored live T" and closed: "rows_closed T"
    and counts: "counters_ok live T" and none: "\<not> list_ex (thread_at c e) T"
    and live: "live c e" "live c p" and stored: "stored c e" "stored c p" "stored c r"
    and s: "live c r \<Longrightarrow> s = as_i64 (stamp r)" and ne: "p \<noteq> e" "r \<noteq> e"
    and own: "tm_community own = c" "tm_event_id own = e" "tm_created_at own = as_i64 (stamp e)"
      "tm_parent own = Some p" "tm_root own = Some r" "tm_reply_count own = 0"
      "tm_descendant_count own = 0"
    and T1: "T1 = T @ [own]"
    and T2: "T2 = T1 @ stub_unless (stub_row c (as_i64 (stamp p)) p ch) T1"
    and T3: "T3 = T2 @ (if r = p then [] else stub_unless (stub_row c s r ch) T2)"
  shows "rows_ok stamp stored live (map (bump now c p r) T3)" "rows_closed (map (bump now c p r) T3)"
    "counters_ok live (map (bump now c p r) T3)"
proof -
  have ok1: "rows_ok stamp stored live T1"
    using rows none own stored(1)
    by (auto simp: T1 rows_ok_def row_ok_def list_ex_iff thread_key_def thread_at_def)
  note ok2 = rows_stub [OF ok1 stored(2), where s = "as_i64 (stamp p)" and ch = ch, folded T2]
  have ok3: "rows_ok stamp stored live T3" "list_ex (thread_at c r) T3"
    using ok2 rows_stub [OF ok2(1) stored(3) s, where ch = ch] by (auto simp: T3)
  then show "rows_ok stamp stored live (map (bump now c p r) T3)"
    by (auto simp: rows_ok_def row_ok_def o_def)
  have sub: "list_ex P T1 \<Longrightarrow> list_ex P T2" "list_ex P T2 \<Longrightarrow> list_ex P T3" for P
    by (auto simp: T2 T3)
  have "rows_closed T3"
  proof -
    have "list_ex (thread_at (tm_community t) i) T3"
      if "t \<in> set T" "tm_parent t = Some i \<or> tm_root t = Some i" for t i
      using closed that sub [of "thread_at (tm_community t) i"] by (auto simp: rows_closed_def T1)
    moreover have "list_ex (thread_at c p) T3" using sub(2) ok2(2) by blast
    moreover have "tm_parent t = None" "tm_root t = None" if "t \<in> set T3" "t \<notin> set T" "t \<noteq> own" for t
      using that by (auto simp: T3 T2 T1 stub_unless_def stub_row_def split: if_splits)
    ultimately show ?thesis using ok3(2) own unfolding rows_closed_def by (metis option.distinct(1) option.inject)
  qed
  then show "rows_closed (map (bump now c p r) T3)" by (simp add: rows_closed_def list_ex_iff)
  have below: "live_below up live T1 c' i
      = live_below up live T c' i @ (if c' = c \<and> up own = Some i then [own] else [])" for up c' i
    using live(1) own by (auto simp: T1 live_below_def)
  have e_none: "live_below up live T c e = []" if "up = tm_parent \<or> up = tm_root" for up
    by (rule live_below_none [OF closed none that])
  have "bumped_ok c p r live T1 t" if "t \<in> set T" for t
    using counts that own by (simp add: bumped_ok_def below counters_ok_def count_ok_def thread_at_def)
  moreover have "bumped_ok c p r live T1 own"
    using ne own e_none by (simp add: bumped_ok_def below thread_at_def)
  ultimately have b1: "\<forall>t \<in> set T1. bumped_ok c p r live T1 t" by (auto simp: T1)
  have first: "live_below up live T1 c q = (if up own = Some q then [own] else [])"
    if "live c q" "\<not> list_ex (\<lambda>x. thread_key x = (c, as_i64 (stamp q), q)) T1"
      "up = tm_parent \<or> up = tm_root" for q up
  proof -
    have "\<not> list_ex (thread_at c q) T1" using live_row_key [OF ok1 that(1)] that(2) by blast
    then have "\<not> list_ex (thread_at c q) T" by (simp add: T1)
    from live_below_none [OF closed this that(3), of live] show ?thesis by (simp add: below)
  qed
  have b2: "\<forall>t \<in> set T2. bumped_ok c p r live T2 t"
    unfolding T2 using first [of p] own by (intro bumped_stub [OF b1]) auto
  have stub_none: "live_below up live T2 c' i = live_below up live T1 c' i"
    if "up = tm_parent \<or> up = tm_root" for up c' i
    using that by (auto simp: T2 live_below_def stub_unless_def stub_row_def)
  have "\<forall>t \<in> set T3. bumped_ok c p r live T3 t"
  proof (cases "r = p")
    case True
    with b2 show ?thesis by (simp add: T3)
  next
    case False
    have "\<not> list_ex P T2 \<Longrightarrow> \<not> list_ex P T1" for P using sub(1) by blast
    with False first [of r] own have above: "length (live_below tm_parent live T2 c r) = (if r = p then 1 else 0)
      \<and> length (live_below tm_root live T2 c r) = (if r = r then 1 else 0)"
      if "live c r" "\<not> list_ex (\<lambda>x. thread_key x = (c, as_i64 (stamp r), r)) T2"
      using that by (simp add: stub_none)
    have "\<forall>t \<in> set (T2 @ stub_unless (stub_row c s r ch) T2).
        bumped_ok c p r live (T2 @ stub_unless (stub_row c s r ch) T2) t"
      by (rule bumped_stub [OF b2, where q = r and s = s and stamp = stamp]) (use above s in auto)
    with False show ?thesis by (simp add: T3)
  qed
  then show "counters_ok live (map (bump now c p r) T3)" by (simp add: counters_bump)
qed

section \<open>Every step keeps the counters\<close>

definition thread_db_ok :: "(int \<Rightarrow> int option) \<Rightarrow> (hex_string \<Rightarrow> nat) \<Rightarrow> thread_db \<Rightarrow> bool" where
  "thread_db_ok from_ts stamp db \<longleftrightarrow>
     seconds_ok from_ts stamp db \<and> rows_ok stamp (event_stored db) (event_live db) (td_threads db)
     \<and> rows_closed (td_threads db) \<and> counters_ok (event_live db) (td_threads db)"

text \<open>\<open>DateTime::from_timestamp\<close> gives the instant of the second, or nothing.\<close>

definition from_ts_exact :: "(int \<Rightarrow> int option) \<Rightarrow> bool" where
  "from_ts_exact from_ts \<longleftrightarrow> (\<forall>n m. from_ts n = Some m \<longrightarrow> m = n)"

lemma insert_event_cases:
  assumes "insert_event from_ts now c ev ch evs = Ok ((st, was_inserted), evs')"
    and "from_ts_exact from_ts"
  shows "from_ts (as_i64 (ev_created_at ev)) = Some (as_i64 (ev_created_at ev))"
    and "was_inserted \<longleftrightarrow> \<not> list_ex (same_row_key c ev) (db_events evs)"
    and "\<not> was_inserted \<Longrightarrow> evs' = evs"
    and "was_inserted \<Longrightarrow> \<exists>row. row_community row = c \<and> row_event row = ev \<and> \<not> row_deleted row
           \<and> db_events evs' = db_events evs @ [row]"
  using assms
  by (auto simp: insert_event_def Let_def from_ts_exact_def split: if_splits option.splits)

lemma same_row_key_stored:
  assumes "seconds_ok from_ts stamp db" "ev_created_at ev = stamp (ev_id ev)"
  shows "list_ex (same_row_key c ev) (db_events (td_events db)) \<longleftrightarrow> event_stored db c (ev_id ev)"
  using assms by (auto simp: list_ex_iff same_row_key_def event_stored_def seconds_ok_def)

lemma new_event_row:
  assumes "db_events (td_events db') = db_events (td_events db) @ [row]" "row_community row = c"
    and "row_event row = ev" "\<not> row_deleted row"
  shows "event_stored db' = old_or_new (event_stored db) c (ev_id ev)"
    and "event_live db' = old_or_new (event_live db) c (ev_id ev)"
  using assms by (auto simp: fun_eq_iff event_stored_def event_live_def old_or_new_def)

lemma insert_event_with_thread_metadata_ok:
  assumes exact: "from_ts_exact from_ts" and ok: "thread_db_ok from_ts stamp db"
    and secs: "ev_created_at ev = stamp (ev_id ev)"
    and meta: "\<And>m. meta = Some m \<Longrightarrow> \<exists>p r. meta_ok stamp db c ev m p r
      \<and> tp_event_created_at m = event_secs from_ts (int now) ev"
    and ins: "insert_event_with_thread_metadata from_ts now c ev (Some ch) meta db = Ok (res, db')"
  shows "thread_db_ok from_ts stamp db'"
proof -
  let ?e = "ev_id ev" and ?T = "td_threads db"
  from ok have seconds: "seconds_ok from_ts stamp db"
    and rows: "rows_ok stamp (event_stored db) (event_live db) ?T" and closed: "rows_closed ?T"
    and counts: "counters_ok (event_live db) ?T"
    by (simp_all add: thread_db_ok_def)
  from ins obtain st ins_flag evs' where
    ev: "insert_event from_ts now c ev (Some ch) (td_events db) = Ok ((st, ins_flag), evs')"
    and db': "db' = db\<lparr>td_events := evs',
       td_threads := (if ins_flag then (case meta of Some m \<Rightarrow> insert_thread_metadata (int now) c m ?T
                                                | None \<Rightarrow> ?T) else ?T)\<rparr>"
    by (auto simp: insert_event_with_thread_metadata_def bind_result_Ok)
  note cases = insert_event_cases [OF ev exact]
  show ?thesis
  proof (cases ins_flag)
    case False
    with cases(3) db' ok show ?thesis by simp
  next
    case True
    then have new: "\<not> event_stored db c ?e"
      using cases(2) same_row_key_stored [OF seconds secs] by simp
    from cases(4) True obtain row where row: "row_community row = c" "row_event row = ev"
        "\<not> row_deleted row" "db_events evs' = db_events (td_events db) @ [row]"
      by auto
    have events: "event_stored db' = old_or_new (event_stored db) c ?e"
      "event_live db' = old_or_new (event_live db) c ?e"
      by (rule new_event_row [OF _ row(1-3)]; simp add: db' row(4))+
    have seconds': "seconds_ok from_ts stamp db'"
      using seconds cases(1) row(2,4) secs by (auto simp: seconds_ok_def db' created_i64_def)
    note fresh = rows_new_event [OF rows counts new, folded events]
    show ?thesis
    proof (cases meta)
      case None
      with seconds' fresh closed True show ?thesis by (simp add: thread_db_ok_def db')
    next
      case (Some m)
      from meta [OF this] obtain p r where m: "meta_ok stamp db c ev m p r"
        and at: "tp_event_created_at m = event_secs from_ts (int now) ev" by blast
      from m obtain s where s: "tp_root_event_created_at m = Some s"
          "event_live db c r \<Longrightarrow> s = as_i64 (stamp r)"
        by (auto simp: meta_ok_def)
      have pr: "event_live db c p" "event_stored db c p" "event_stored db c r"
        using m event_live_stored by (auto simp: meta_ok_def)
      with new have ne: "p \<noteq> ?e" "r \<noteq> ?e" by auto
      have created: "tp_event_created_at m = as_i64 (stamp ?e)"
        using at cases(1) secs by (simp add: event_secs_def unwrap_or_def)
      let ?own = "params_row c m"
      have own: "tm_community ?own = c" "tm_event_id ?own = ?e" "tm_created_at ?own = as_i64 (stamp ?e)"
        "tm_parent ?own = Some p" "tm_root ?own = Some r" "tm_reply_count ?own = 0"
        "tm_descendant_count ?own = 0"
        using m created by (simp_all add: params_row_def meta_ok_def)
      have "\<not> list_ex (\<lambda>x. thread_key x = thread_key ?own) ?T"
        using fresh(3) own(1,2) by (auto simp: list_ex_iff thread_key_def thread_at_def)
      note eq = insert_thread_metadata_eq [OF m this s(1), unfolded Let_def]
      have lives: "event_live db' c ?e" "event_live db' c p" "event_stored db' c ?e"
        "event_stored db' c p" "event_stored db' c r"
        "event_live db' c r \<Longrightarrow> s = as_i64 (stamp r)"
        using pr ne s(2) by (simp_all add: events old_or_new_def)
      note result = reply_rows [OF fresh(1) closed fresh(2) fresh(3) lives(1,2,3,4,5) lives(6) ne own
          refl refl refl, where ch = "tp_channel_id m" and now = "int now"]
      have "td_threads db' = map (bump (int now) c p r)
         ((?T @ [?own]) @ stub_unless (stub_row c (as_i64 (stamp p)) p (tp_channel_id m)) (?T @ [?own])
          @ (if r = p then [] else stub_unless (stub_row c s r (tp_channel_id m))
               ((?T @ [?own]) @ stub_unless (stub_row c (as_i64 (stamp p)) p (tp_channel_id m)) (?T @ [?own]))))"
        using True Some eq [of "int now"] by (simp add: db')
      with result seconds' show ?thesis by (simp add: thread_db_ok_def)
    qed
  qed
qed

lemma length_filter_remove:
  assumes "distinct xs" "x \<in> set xs"
  shows "length (filter P xs) = length (filter (\<lambda>y. P y \<and> y \<noteq> x) xs) + (if P x then 1 else 0)"
  using assms
proof (induction xs)
  case Nil
  then show ?case by simp
next
  case (Cons a xs)
  show ?case
  proof (cases "a = x")
    case True
    with Cons.prems have "filter (\<lambda>y. P y \<and> y \<noteq> x) xs = filter P xs"
      by (intro filter_cong) auto
    with True show ?thesis by simp
  next
    case False
    with Cons show ?thesis by auto
  qed
qed

definition unbump :: "community_id \<Rightarrow> hex_string \<Rightarrow> hex_string \<Rightarrow> thread_row \<Rightarrow> thread_row" where
  "unbump c p r t =
     (let t1 = if thread_at c p t then t\<lparr>tm_reply_count := max (tm_reply_count t - 1) 0\<rparr> else t
      in if thread_at c r t then t1\<lparr>tm_descendant_count := max (tm_descendant_count t - 1) 0\<rparr> else t1)"

lemma unbump_simps [simp]:
  "thread_key (unbump c p r t) = thread_key t" "tm_community (unbump c p r t) = tm_community t"
  "tm_event_id (unbump c p r t) = tm_event_id t" "tm_created_at (unbump c p r t) = tm_created_at t"
  "tm_parent (unbump c p r t) = tm_parent t" "tm_root (unbump c p r t) = tm_root t"
  "thread_at c' i (unbump c p r t) = thread_at c' i t"
  "tm_reply_count (unbump c p r t)
   = (if thread_at c p t then max (tm_reply_count t - 1) 0 else tm_reply_count t)"
  "tm_descendant_count (unbump c p r t)
   = (if thread_at c r t then max (tm_descendant_count t - 1) 0 else tm_descendant_count t)"
  by (auto simp: unbump_def thread_key_def thread_at_def Let_def)

lemma decrement_reply_count_eq: "decrement_reply_count c p (Some r) rows = map (unbump c p r) rows"
  by (simp add: decrement_reply_count_def remove_reply_def remove_descendant_def unbump_def
      thread_at_def Let_def)

lemma length_live_below_unbump:
  assumes "\<And>t. up (unbump c p r t) = up t"
  shows "length (live_below up live (map (unbump c p r) rows) c' i) = length (live_below up live rows c' i)"
  using assms by (simp add: live_below_def filter_map o_def)

definition but_not :: "(community_id \<Rightarrow> hex_string \<Rightarrow> bool) \<Rightarrow> community_id \<Rightarrow> hex_string \<Rightarrow> community_id \<Rightarrow> hex_string \<Rightarrow> bool" where
  "but_not P c e c' i \<longleftrightarrow> P c' i \<and> \<not> (c' = c \<and> i = e)"

text \<open>A deletion takes one row, that of the event, out of what its parent and root count.\<close>

lemma live_below_delete:
  assumes "distinct (map thread_key rows)" and "own \<in> set rows" "thread_at c e own"
    and only: "\<forall>t \<in> set rows. thread_at c e t \<longrightarrow> t = own" and "live c e"
  shows "length (live_below up live rows c' i)
    = length (live_below up (but_not live c e) rows c' i) + (if c' = c \<and> up own = Some i then 1 else 0)"
proof -
  have "distinct rows" using assms(1) by (simp add: distinct_map)
  note rem = length_filter_remove [OF this assms(2),
      of "\<lambda>t. tm_community t = c' \<and> up t = Some i \<and> live c' (tm_event_id t)"]
  have "filter (\<lambda>t. (tm_community t = c' \<and> up t = Some i \<and> live c' (tm_event_id t)) \<and> t \<noteq> own) rows
      = live_below up (but_not live c e) rows c' i"
    unfolding live_below_def
    by (rule filter_cong) (use assms(3) only in \<open>auto simp: but_not_def thread_at_def\<close>)
  with rem show ?thesis using assms(3,5) by (simp add: live_below_def thread_at_def)
qed

lemma rows_but_not:
  assumes "rows_ok stamp stored live rows"
  shows "rows_ok stamp stored (but_not live c e) rows"
  using assms by (auto simp: rows_ok_def row_ok_def but_not_def)

lemma delete_rows:
  assumes rows: "rows_ok stamp stored live rows" and counts: "counters_ok live rows"
    and live: "live c e" and own: "find (thread_at c e) rows = Some own"
  shows "counters_ok (but_not live c e)
    (case tm_parent own of Some p \<Rightarrow> decrement_reply_count c p (tm_root own) rows | None \<Rightarrow> rows)"
proof -
  have in_rows: "own \<in> set rows" and at: "thread_at c e own" using own by (auto simp: find_Some_iff)
  have keys: "distinct (map thread_key rows)" using rows by (simp add: rows_ok_def)
  have only: "t = own" if "t \<in> set rows" "thread_at c e t" for t
  proof -
    have "row_ok stamp stored live t" "row_ok stamp stored live own"
      using rows that(1) in_rows by (simp_all add: rows_ok_def)
    with live that(2) at have "thread_key t = thread_key own"
      by (simp add: row_ok_def thread_at_def thread_key_def)
    with keys in_rows that(1) show ?thesis by (auto simp: distinct_map inj_on_def)
  qed
  then have "\<forall>t \<in> set rows. thread_at c e t \<longrightarrow> t = own" by blast
  note below = live_below_delete [OF keys in_rows at this, where live = live, OF live]
  have count: "tm_reply_count t = int (length (live_below tm_parent (but_not live c e) rows (tm_community t) (tm_event_id t)))
        + (if tm_community t = c \<and> tm_parent own = Some (tm_event_id t) then 1 else 0)
      \<and> tm_descendant_count t = int (length (live_below tm_root (but_not live c e) rows (tm_community t) (tm_event_id t)))
        + (if tm_community t = c \<and> tm_root own = Some (tm_event_id t) then 1 else 0)"
    if "t \<in> set rows" "but_not live c e (tm_community t) (tm_event_id t)" for t
    using counts that below [of tm_parent] below [of tm_root]
    by (simp add: counters_ok_def count_ok_def but_not_def)
  show ?thesis
  proof (cases "tm_parent own")
    case None
    then have "tm_root own = None" using rows in_rows by (simp add: rows_ok_def row_ok_def)
    with None count show ?thesis by (simp add: counters_ok_def count_ok_def)
  next
    case (Some p)
    then obtain r where r: "tm_root own = Some r" using rows in_rows by (auto simp: rows_ok_def row_ok_def)
    have "count_ok (but_not live c e) (map (unbump c p r) rows) (unbump c p r t)" if "t \<in> set rows" for t
      using count [OF that] Some r
      by (auto simp: count_ok_def length_live_below_unbump thread_at_def)
    with Some r show ?thesis by (simp add: counters_ok_def decrement_reply_count_eq)
  qed
qed

lemma soft_delete_lookup:
  assumes "db_events (td_events db') = db_events (snd (soft_delete_event c i (td_events db)))"
  shows "event_stored db' = event_stored db" "event_live db' = but_not (event_live db) c i"
    and "seconds_ok from_ts stamp db \<Longrightarrow> seconds_ok from_ts stamp db'"
proof -
  have same: "created_i64 (r\<lparr>row_deleted := b\<rparr>) = created_i64 r" for r b by (simp add: created_i64_def)
  have evs: "db_events (td_events db') =
      map (\<lambda>r. if row_community r = c \<and> ev_id (row_event r) = i \<and> \<not> row_deleted r
               then r\<lparr>row_deleted := True\<rparr> else r) (db_events (td_events db))"
    by (simp add: assms soft_delete_event_def Let_def)
  have list_ex_map: "list_ex P (map f xs) \<longleftrightarrow> list_ex (\<lambda>x. P (f x)) xs" for P and f :: "event_row \<Rightarrow> event_row" and xs
    by (induction xs) auto
  show "event_stored db' = event_stored db" "event_live db' = but_not (event_live db) c i"
    unfolding fun_eq_iff event_stored_def event_live_def but_not_def evs list_ex_map
    by (auto simp: list_ex_iff split: if_splits)
  show "seconds_ok from_ts stamp db \<Longrightarrow> seconds_ok from_ts stamp db'"
    by (auto simp: seconds_ok_def evs same)
qed

lemma rows_closed_decrement:
  "rows_closed rows \<Longrightarrow> rows_closed (decrement_reply_count c p (Some r) rows)"
  "rows_ok stamp stored live rows \<Longrightarrow> rows_ok stamp stored live (decrement_reply_count c p (Some r) rows)"
  by (auto simp: decrement_reply_count_eq rows_closed_def rows_ok_def row_ok_def list_ex_iff o_def)

lemma delete_event_ok:
  assumes ok: "thread_db_ok from_ts stamp db"
  shows "thread_db_ok from_ts stamp (snd (delete_event c i db))"
proof -
  let ?T = "td_threads db" and ?db = "snd (delete_event c i db)"
  let ?live = "event_live db"
  have rows: "rows_ok stamp (event_stored db) ?live ?T" and closed: "rows_closed ?T"
    and counts: "counters_ok ?live ?T" and seconds: "seconds_ok from_ts stamp db"
    using ok by (simp_all add: thread_db_ok_def)
  obtain deleted evs where del: "soft_delete_event c i (td_events db) = (deleted, evs)"
    by (cases "soft_delete_event c i (td_events db)")
  have flag: "deleted = ?live c i"
    using del by (auto simp: soft_delete_event_def event_live_def Let_def)
  have "td_events ?db = snd (soft_delete_event c i (td_events db))"
    by (simp add: delete_event_def soft_delete_event_and_update_thread_def del Let_def)
  note events = soft_delete_lookup [OF arg_cong [where f = db_events, OF this]]
  have threads: "td_threads ?db =
     (if ?live c i then
        (case find (thread_at c i) ?T of
           Some own \<Rightarrow> (case tm_parent own of Some p \<Rightarrow> decrement_reply_count c p (tm_root own) ?T | None \<Rightarrow> ?T)
         | None \<Rightarrow> ?T)
      else ?T)"
    using del flag
    by (auto simp: delete_event_def soft_delete_event_and_update_thread_def Let_def
        get_thread_metadata_by_event_def split: option.splits)
  have rows': "rows_ok stamp (event_stored db) (but_not ?live c i) ?T" by (rule rows_but_not [OF rows])
  have unchanged: "counters_ok (but_not ?live c i) ?T" if "\<forall>t \<in> set ?T. \<not> (?live c i \<and> thread_at c i t)"
  proof -
    have same: "but_not ?live c i (tm_community t) (tm_event_id t) = ?live (tm_community t) (tm_event_id t)"
      if "t \<in> set ?T" for t
      using that \<open>\<forall>t \<in> set ?T. \<not> (?live c i \<and> thread_at c i t)\<close> by (auto simp: but_not_def thread_at_def)
    have "live_below up (but_not ?live c i) ?T c' j = live_below up ?live ?T c' j" for up c' j
      unfolding live_below_def by (rule filter_cong) (use same in auto)
    with counts same show ?thesis by (simp add: counters_ok_def count_ok_def)
  qed
  show ?thesis
  proof (cases "?live c i \<and> find (thread_at c i) ?T \<noteq> None")
    case False
    then have "td_threads ?db = ?T" by (cases "?live c i") (simp_all add: threads)
    moreover from False have "\<forall>t \<in> set ?T. \<not> (?live c i \<and> thread_at c i t)"
      by (auto simp: find_None_iff)
    ultimately show ?thesis using rows' closed unchanged events(1,2) events(3) [OF seconds]
      by (simp add: thread_db_ok_def)
  next
    case True
    then obtain own where live: "?live c i" and own: "find (thread_at c i) ?T = Some own" by auto
    have "own \<in> set ?T" using own by (auto simp: find_Some_iff)
    with rows have "tm_parent own = None \<longleftrightarrow> tm_root own = None" by (simp add: rows_ok_def row_ok_def)
    then have "rows_ok stamp (event_stored db) (but_not ?live c i) (td_threads ?db) \<and> rows_closed (td_threads ?db)"
      using rows' closed rows_closed_decrement live own by (auto simp: threads split: option.splits)
    moreover have "counters_ok (but_not ?live c i) (td_threads ?db)"
      using delete_rows [OF rows counts live own] live own by (simp add: threads)
    ultimately show ?thesis using events(1,2) events(3) [OF seconds] by (simp add: thread_db_ok_def)
  qed
qed

lemma post_event_ok:
  assumes "from_ts_exact from_ts" "thread_db_ok from_ts stamp db" "ev_created_at ev = stamp (ev_id ev)"
    and "names_stored_root from_ts now c ev ch db"
  shows "thread_db_ok from_ts stamp (post_event from_ts now c ev ch db)"
proof (cases "resolve_nip10_thread_meta from_ts (int now) c ev ch db")
  case (Err e)
  with assms(2) show ?thesis by (simp add: post_event_def)
next
  case (Ok meta)
  have "\<exists>p r. meta_ok stamp db c ev m p r \<and> tp_event_created_at m = event_secs from_ts (int now) ev"
    if "meta = Some m" for m
    using resolve_meta_ok [of from_ts stamp db "int now" c ev ch m] assms(2,4) Ok that
    by (simp add: thread_db_ok_def names_stored_root_def)
  from insert_event_with_thread_metadata_ok [OF assms(1-3) this] Ok assms(2) show ?thesis
    by (auto simp: post_event_def split: result.splits)
qed

lemma thread_reach_ok:
  assumes "thread_reach from_ts stamp db" "from_ts_exact from_ts"
  shows "thread_db_ok from_ts stamp db"
  using assms
proof induction
  case reach_empty
  then show ?case
    by (simp add: thread_db_ok_def seconds_ok_def rows_ok_def rows_closed_def counters_ok_def)
next
  case (reach_post db ev now c ch)
  then show ?case by (simp add: post_event_ok)
next
  case (reach_delete db c i)
  then show ?case by (simp add: delete_event_ok)
qed


section \<open>Runs\<close>

definition msg_id :: "char \<Rightarrow> hex_string" where
  "msg_id x = replicate 64 x"

definition msg :: "char \<Rightarrow> nat \<Rightarrow> tag list \<Rightarrow> event" where
  "msg x secs tags =
     \<lparr>ev_id = msg_id x, ev_pubkey = ''p'', ev_created_at = secs, ev_kind = 9, ev_tags = tags, ev_content = []\<rparr>"

definition e_tag :: "char \<Rightarrow> string \<Rightarrow> tag" where
  "e_tag x marker = [''e'', msg_id x, [], marker]"

definition no_messages :: thread_db where
  "no_messages = \<lparr>td_events = \<lparr>db_events = [], db_mentions = []\<rparr>, td_threads = []\<rparr>"

definition post_all :: "event list \<Rightarrow> thread_db \<Rightarrow> thread_db" where
  "post_all evs db = fold (\<lambda>ev. post_event Some 9 4 ev 2) evs db"

definition one_reply :: thread_db where
  "one_reply = post_all [msg CHR ''a'' 1 [], msg CHR ''b'' 2 [e_tag CHR ''a'' ''reply'']] no_messages"

definition run_stamp :: "hex_string \<Rightarrow> nat" where
  "run_stamp i = (if i = msg_id CHR ''a'' then 1 else 2)"

lemma msg_id_inject [simp]: "msg_id x = msg_id y \<longleftrightarrow> x = y"
  by (simp add: msg_id_def)

lemma marked_e_tag [simp]:
  assumes "is_hex_char x" "ascii_lower [x] = [x]"
  shows "marked_id m (e_tag x k) = (if k = m then Some (msg_id x) else None)"
  using assms
  by (simp add: marked_id_def e_tag_def msg_id_def ascii_lower_def list_all_iff)

lemma run_chars:
  "is_hex_char CHR ''a'' \<and> is_hex_char CHR ''c'' \<and> is_hex_char CHR ''d''
   \<and> ascii_lower ''a'' = ''a'' \<and> ascii_lower ''c'' = ''c'' \<and> ascii_lower ''d'' = ''d''"
  by code_simp

lemmas run_defs = post_event_def resolve_nip10_thread_meta_def thread_root_def known_secs_def
  event_secs_def tagged_root_def is_broadcast_def get_event_by_id_def get_thread_metadata_by_event_def
  insert_event_with_thread_metadata_def insert_event_def insert_thread_metadata_def
  insert_thread_row_def params_row_def stub_row_def add_reply_def add_descendant_def thread_at_def
  thread_key_def unwrap_or_def same_row_key_def created_i64_def as_i64_def Let_def msg_def
  KIND_AUTH_def is_ephemeral_def EPHEMERAL_KIND_MIN_def EPHEMERAL_KIND_MAX_def extract_d_tag_def extract_not_before_def run_chars

lemma one_reply_rows:
  "map (\<lambda>t. (tm_community t, tm_event_id t, tm_reply_count t)) (td_threads one_reply)
   = [(4, msg_id CHR ''b'', 0), (4, msg_id CHR ''a'', 1)]
   \<and> event_live one_reply 4 (msg_id CHR ''a'')"
  by (simp add: one_reply_def post_all_def no_messages_def run_defs event_live_def)

lemma one_reply_known:
  "names_stored_root Some 9 4 (msg CHR ''a'' 1 []) 2 no_messages
   \<and> names_stored_root Some 9 4 (msg CHR ''b'' 2 [e_tag CHR ''a'' ''reply'']) 2
       (post_event Some 9 4 (msg CHR ''a'' 1 []) 2 no_messages)
   \<and> run_stamp (msg_id CHR ''b'') = 2"
  by (simp add: names_stored_root_def no_messages_def run_defs event_stored_def run_stamp_def)

lemma one_reply_reach: "thread_reach Some run_stamp one_reply"
proof -
  have "thread_reach Some run_stamp no_messages" unfolding no_messages_def by (rule reach_empty)
  then have "thread_reach Some run_stamp (post_event Some 9 4 (msg CHR ''a'' 1 []) 2 no_messages)"
    by (rule reach_post) (use one_reply_known in \<open>simp_all add: msg_def run_stamp_def\<close>)
  then have "thread_reach Some run_stamp
      (post_event Some 9 4 (msg CHR ''b'' 2 [e_tag CHR ''a'' ''reply'']) 2
        (post_event Some 9 4 (msg CHR ''a'' 1 []) 2 no_messages))"
    by (rule reach_post) (use one_reply_known in \<open>simp_all add: msg_def\<close>)
  then show ?thesis by (simp add: one_reply_def post_all_def)
qed


text \<open>
  Replies that name a root nobody has stored. The message \<open>q\<close> names \<open>x\<close> as its root and
  answers nothing, \<open>r\<close> answers \<open>q\<close>; the stub of \<open>x\<close> is written with the second of \<open>q\<close>. Then
  \<open>x\<close> itself arrives as an answer to \<open>a\<close>, with a second row, and is deleted: the lookup finds
  the stub, which has no parent.
\<close>

definition unknown_root_run :: thread_db where
  "unknown_root_run =
     snd (delete_event 4 (msg_id CHR ''c'')
       (post_all
          [msg CHR ''a'' 1 [], msg CHR ''d'' 7 [e_tag CHR ''c'' ''root''],
           msg CHR ''e'' 8 [e_tag CHR ''c'' ''root'', e_tag CHR ''d'' ''reply''],
           msg CHR ''c'' 5 [e_tag CHR ''a'' ''reply'']] no_messages))"

text \<open>
  A stub of an unknown root breaks the count. There is a run of four accepted messages and a
  deletion after which a live message still counts one reply although no live message answers it.
\<close>
lemma unknown_root_breaks_count:
  "event_live unknown_root_run 4 (msg_id CHR ''a'')
   \<and> map tm_reply_count (filter (thread_at 4 (msg_id CHR ''a'')) (td_threads unknown_root_run)) = [1]
   \<and> live_below tm_parent (event_live unknown_root_run) (td_threads unknown_root_run) 4 (msg_id CHR ''a'') = []"
  by (simp add: unknown_root_run_def post_all_def no_messages_def run_defs event_live_def live_below_def
      delete_event_def soft_delete_event_and_update_thread_def soft_delete_event_def)

end
