(* ===== verification/Workflow_Store.thy ===== *)
theory Workflow_Store
  imports Threads Channels Json
begin

text \<open>
  The workflow tables, \<open>crates/buzz-db/src/workflow.rs\<close>: definitions, runs, approval gates and
  scheduled fires, with the keys and foreign keys of the schema. A statement that violates one is
  the error \<open>Sqlx\<close>; an error rolls a transaction back, so it carries no state. Fresh uuids, the
  clock and SHA-256 are arguments; the texts of errors leave ids out. A definition is the JSON of
  its column.
\<close>

section \<open>Status values\<close>

datatype workflow_status = WfActive | WfDisabled | WfArchived

datatype run_status = RunPending | RunRunning | RunWaitingApproval | RunCompleted | RunFailed | RunCancelled

datatype approval_status =
  ApprovalPending | ApprovalGranted | ApprovalDenied | ApprovalDelegated | ApprovalExpired

fun workflow_status_str :: "workflow_status \<Rightarrow> string" where
  "workflow_status_str WfActive = ''active''"
| "workflow_status_str WfDisabled = ''disabled''"
| "workflow_status_str WfArchived = ''archived''"

fun run_status_str :: "run_status \<Rightarrow> string" where
  "run_status_str RunPending = ''pending''"
| "run_status_str RunRunning = ''running''"
| "run_status_str RunWaitingApproval = ''waiting_approval''"
| "run_status_str RunCompleted = ''completed''"
| "run_status_str RunFailed = ''failed''"
| "run_status_str RunCancelled = ''cancelled''"

fun approval_status_str :: "approval_status \<Rightarrow> string" where
  "approval_status_str ApprovalPending = ''pending''"
| "approval_status_str ApprovalGranted = ''granted''"
| "approval_status_str ApprovalDenied = ''denied''"
| "approval_status_str ApprovalDelegated = ''delegated''"
| "approval_status_str ApprovalExpired = ''expired''"

definition workflow_status_parse :: "string \<Rightarrow> (db_error, workflow_status) result" where
  "workflow_status_parse s =
     (if s = ''active'' then Ok WfActive
      else if s = ''disabled'' then Ok WfDisabled
      else if s = ''archived'' then Ok WfArchived
      else Err (InvalidData (''unknown workflow status: '' @ s)))"

definition run_status_parse :: "string \<Rightarrow> (db_error, run_status) result" where
  "run_status_parse s =
     (if s = ''pending'' then Ok RunPending
      else if s = ''running'' then Ok RunRunning
      else if s = ''waiting_approval'' then Ok RunWaitingApproval
      else if s = ''completed'' then Ok RunCompleted
      else if s = ''failed'' then Ok RunFailed
      else if s = ''cancelled'' then Ok RunCancelled
      else Err (InvalidData (''unknown run status: '' @ s)))"

definition approval_status_parse :: "string \<Rightarrow> (db_error, approval_status) result" where
  "approval_status_parse s =
     (if s = ''pending'' then Ok ApprovalPending
      else if s = ''granted'' then Ok ApprovalGranted
      else if s = ''denied'' then Ok ApprovalDenied
      else if s = ''delegated'' then Ok ApprovalDelegated
      else if s = ''expired'' then Ok ApprovalExpired
      else Err (InvalidData (''unknown approval status: '' @ s)))"

section \<open>Tables\<close>

record workflow_row =
  wr_id :: uuid
  wr_community :: community_id
  wr_name :: string
  wr_owner :: hex_string
  wr_channel :: "uuid option"
  wr_definition :: json
  wr_hash :: string
  wr_status :: workflow_status
  wr_enabled :: bool
  wr_created_at :: int
  wr_updated_at :: int

record run_row =
  rr_id :: uuid
  rr_community :: community_id
  rr_workflow :: uuid
  rr_status :: run_status
  rr_trigger_event :: "hex_string option"
  rr_current_step :: int
  rr_trace :: json
  rr_trigger_context :: "json option"
  rr_started_at :: "int option"
  rr_completed_at :: "int option"
  rr_error :: "string option"
  rr_created_at :: int

record fire_row =
  fi_community :: community_id
  fi_workflow :: uuid
  fi_scheduled_for :: int
  fi_claimed_at :: int
  fi_run :: "uuid option"

record approval_row =
  ap_community :: community_id
  ap_token :: string
  ap_workflow :: uuid
  ap_run :: uuid
  ap_step_id :: string
  ap_step_index :: int
  ap_spec :: string
  ap_status :: approval_status
  ap_approver :: "hex_string option"
  ap_delegated_to :: "hex_string option"
  ap_delegated_at :: "int option"
  ap_request_event :: "hex_string option"
  ap_note :: "string option"
  ap_granted_at :: "int option"
  ap_denied_at :: "int option"
  ap_expires_at :: int
  ap_created_at :: int

record wf_db =
  ws_channels :: channel_db
  ws_threads :: thread_db
  ws_workflows :: "workflow_row list"
  ws_runs :: "run_row list"
  ws_approvals :: "approval_row list"
  ws_fires :: "fire_row list"
  ws_archived :: "community_id list"

text \<open>\<open>UPDATE\<close> of the rows of a predicate, with the number of rows affected.\<close>

definition update_rows :: "('r \<Rightarrow> bool) \<Rightarrow> ('r \<Rightarrow> 'r) \<Rightarrow> 'r list \<Rightarrow> nat \<times> 'r list" where
  "update_rows p f rows = (length (filter p rows), map (\<lambda>r. if p r then f r else r) rows)"

definition workflow_at :: "community_id \<Rightarrow> uuid \<Rightarrow> workflow_row \<Rightarrow> bool" where
  "workflow_at c i w \<longleftrightarrow> wr_community w = c \<and> wr_id w = i"

definition run_at :: "community_id \<Rightarrow> uuid \<Rightarrow> run_row \<Rightarrow> bool" where
  "run_at c i r \<longleftrightarrow> rr_community r = c \<and> rr_id r = i"

definition approval_at :: "community_id \<Rightarrow> string \<Rightarrow> approval_row \<Rightarrow> bool" where
  "approval_at c h a \<longleftrightarrow> ap_community a = c \<and> ap_token a = h"

section \<open>Workflows\<close>

definition LIST_DEFAULT_LIMIT :: int where "LIST_DEFAULT_LIMIT = 100"

definition LIST_MAX_LIMIT :: int where "LIST_MAX_LIMIT = 1000"

definition new_workflow_row ::
    "int \<Rightarrow> community_id \<Rightarrow> uuid \<Rightarrow> uuid option \<Rightarrow> hex_string \<Rightarrow> string \<Rightarrow> json \<Rightarrow> string \<Rightarrow> workflow_row" where
  "new_workflow_row now c i ch owner name def h =
     \<lparr>wr_id = i, wr_community = c, wr_name = name, wr_owner = owner, wr_channel = ch,
      wr_definition = def, wr_hash = h, wr_status = WfActive, wr_enabled = True,
      wr_created_at = now, wr_updated_at = now\<rparr>"

definition workflow_refs_ok :: "wf_db \<Rightarrow> community_id \<Rightarrow> hex_string \<Rightarrow> uuid option \<Rightarrow> bool" where
  "workflow_refs_ok db c owner ch \<longleftrightarrow>
     list_ex (\<lambda>u. us_community u = c \<and> us_pubkey u = owner) (cdb_users (ws_channels db))
     \<and> is_none_or (\<lambda>i. list_ex (channel_at c i) (cdb_channels (ws_channels db))) ch"

definition create_workflow ::
    "int \<Rightarrow> uuid \<Rightarrow> community_id \<Rightarrow> uuid option \<Rightarrow> hex_string \<Rightarrow> string \<Rightarrow> json \<Rightarrow> string \<Rightarrow> wf_db
     \<Rightarrow> (db_error, uuid \<times> wf_db) result" where
  "create_workflow now i c ch owner name def h db =
     (if 255 < length name \<or> list_ex (workflow_at c i) (ws_workflows db) \<or> \<not> workflow_refs_ok db c owner ch
      then Err Sqlx
      else Ok (i, db\<lparr>ws_workflows := ws_workflows db @ [new_workflow_row now c i ch owner name def h]\<rparr>))"

definition upsert_workflow ::
    "int \<Rightarrow> community_id \<Rightarrow> uuid \<Rightarrow> uuid option \<Rightarrow> hex_string \<Rightarrow> string \<Rightarrow> json \<Rightarrow> string \<Rightarrow> wf_db
     \<Rightarrow> (db_error, wf_db) result" where
  "upsert_workflow now c i ch owner name def h db =
     (if 255 < length name then Err Sqlx
      else if \<not> list_ex (workflow_at c i) (ws_workflows db) then
        (if \<not> workflow_refs_ok db c owner ch then Err Sqlx
         else Ok (db\<lparr>ws_workflows := ws_workflows db @ [new_workflow_row now c i ch owner name def h]\<rparr>))
      else
        (let (n, rows) = update_rows (\<lambda>w. workflow_at c i w \<and> wr_owner w = owner \<and> wr_channel w = ch)
               (\<lambda>w. w\<lparr>wr_name := name, wr_definition := def, wr_hash := h, wr_updated_at := now\<rparr>)
               (ws_workflows db)
         in if n = 0 then Err (AccessDenied ''workflow belongs to a different owner or channel'')
            else Ok (db\<lparr>ws_workflows := rows\<rparr>)))"

definition get_workflow :: "wf_db \<Rightarrow> community_id \<Rightarrow> uuid \<Rightarrow> (db_error, workflow_row) result" where
  "get_workflow db c i = ok_or (find (workflow_at c i) (ws_workflows db)) (NotFound ''workflow'')"

definition page_of :: "int option \<Rightarrow> int option \<Rightarrow> 'r list \<Rightarrow> 'r list" where
  "page_of limit offset rows =
     take (nat (min (max (unwrap_or LIST_DEFAULT_LIMIT limit) 1) LIST_MAX_LIMIT))
       (drop (nat (max (unwrap_or 0 offset) 0)) rows)"

definition list_channel_workflows ::
    "wf_db \<Rightarrow> community_id \<Rightarrow> uuid \<Rightarrow> int option \<Rightarrow> int option \<Rightarrow> workflow_row list" where
  "list_channel_workflows db c ch limit offset =
     page_of limit offset (sort_key (\<lambda>w. - wr_created_at w)
       (filter (\<lambda>w. wr_community w = c \<and> wr_channel w = Some ch) (ws_workflows db)))"

definition list_enabled_channel_workflows :: "wf_db \<Rightarrow> community_id \<Rightarrow> uuid \<Rightarrow> workflow_row list" where
  "list_enabled_channel_workflows db c ch =
     take (nat LIST_MAX_LIMIT) (sort_key (\<lambda>w. - wr_created_at w)
       (filter (\<lambda>w. wr_community w = c \<and> wr_channel w = Some ch \<and> wr_status w = WfActive \<and> wr_enabled w)
          (ws_workflows db)))"

definition has_schedule_trigger :: "json \<Rightarrow> bool" where
  "has_schedule_trigger def \<longleftrightarrow>
     Option.bind (json_get def ''trigger'') (\<lambda>t. json_get t ''on'') = Some (JString ''schedule'')"

definition list_all_enabled_workflows :: "wf_db \<Rightarrow> workflow_row list" where
  "list_all_enabled_workflows db =
     take (nat LIST_MAX_LIMIT) (sort_key wr_created_at
       (filter (\<lambda>w. wr_status w = WfActive \<and> wr_enabled w \<and> has_schedule_trigger (wr_definition w)
                  \<and> wr_community w \<notin> set (ws_archived db)) (ws_workflows db)))"

definition update_workflow_rows ::
    "(workflow_row \<Rightarrow> bool) \<Rightarrow> (workflow_row \<Rightarrow> workflow_row) \<Rightarrow> wf_db \<Rightarrow> (db_error, wf_db) result" where
  "update_workflow_rows p f db =
     (let (n, rows) = update_rows p f (ws_workflows db)
      in if n = 0 then Err (NotFound ''workflow'') else Ok (db\<lparr>ws_workflows := rows\<rparr>))"

definition update_workflow ::
    "community_id \<Rightarrow> uuid \<Rightarrow> string \<Rightarrow> json \<Rightarrow> string \<Rightarrow> wf_db \<Rightarrow> (db_error, wf_db) result" where
  "update_workflow c i name def h db =
     (if 255 < length name then Err Sqlx
      else update_workflow_rows (workflow_at c i)
             (\<lambda>w. w\<lparr>wr_name := name, wr_definition := def, wr_hash := h\<rparr>) db)"

definition update_workflow_status ::
    "community_id \<Rightarrow> uuid \<Rightarrow> workflow_status \<Rightarrow> wf_db \<Rightarrow> (db_error, wf_db) result" where
  "update_workflow_status c i st db =
     update_workflow_rows (workflow_at c i) (\<lambda>w. w\<lparr>wr_status := st\<rparr>) db"

definition set_workflow_enabled :: "community_id \<Rightarrow> uuid \<Rightarrow> bool \<Rightarrow> wf_db \<Rightarrow> (db_error, wf_db) result" where
  "set_workflow_enabled c i b db =
     update_workflow_rows (workflow_at c i) (\<lambda>w. w\<lparr>wr_enabled := b\<rparr>) db"

definition disable_workflows_for_owner_in_channel ::
    "community_id \<Rightarrow> uuid \<Rightarrow> hex_string \<Rightarrow> wf_db \<Rightarrow> nat \<times> wf_db" where
  "disable_workflows_for_owner_in_channel c ch owner db =
     (let (n, rows) = update_rows
            (\<lambda>w. wr_community w = c \<and> wr_channel w = Some ch \<and> wr_owner w = owner \<and> wr_enabled w)
            (\<lambda>w. w\<lparr>wr_enabled := False\<rparr>) (ws_workflows db)
      in (n, db\<lparr>ws_workflows := rows\<rparr>))"

text \<open>\<open>ON DELETE CASCADE\<close> takes the runs, approvals and fires of a workflow with it.\<close>

definition cascade_workflow :: "community_id \<Rightarrow> uuid \<Rightarrow> wf_db \<Rightarrow> wf_db" where
  "cascade_workflow c i db =
     db\<lparr>ws_workflows := filter (\<lambda>w. \<not> workflow_at c i w) (ws_workflows db),
        ws_runs := filter (\<lambda>r. \<not> (rr_community r = c \<and> rr_workflow r = i)) (ws_runs db),
        ws_approvals :=
          filter (\<lambda>a. \<not> (ap_community a = c
                      \<and> (ap_workflow a = i
                         \<or> list_ex (\<lambda>r. run_at c (ap_run a) r \<and> rr_workflow r = i) (ws_runs db))))
            (ws_approvals db),
        ws_fires := filter (\<lambda>f. \<not> (fi_community f = c \<and> fi_workflow f = i)) (ws_fires db)\<rparr>"

definition delete_workflow :: "community_id \<Rightarrow> uuid \<Rightarrow> wf_db \<Rightarrow> (db_error, wf_db) result" where
  "delete_workflow c i db =
     (if \<not> list_ex (workflow_at c i) (ws_workflows db) then Err (NotFound ''workflow'')
      else Ok (cascade_workflow c i db))"

definition delete_workflow_for_owner ::
    "community_id \<Rightarrow> uuid \<Rightarrow> hex_string \<Rightarrow> wf_db \<Rightarrow> (db_error, uuid option \<times> wf_db) result" where
  "delete_workflow_for_owner c i owner db =
     (case find (\<lambda>w. workflow_at c i w \<and> wr_owner w = owner) (ws_workflows db) of
        None \<Rightarrow> Err (NotFound ''workflow'')
      | Some w \<Rightarrow> Ok (wr_channel w, cascade_workflow c i db))"

definition find_by_owner_and_name ::
    "wf_db \<Rightarrow> community_id \<Rightarrow> hex_string \<Rightarrow> string \<Rightarrow> workflow_row option" where
  "find_by_owner_and_name db c owner name =
     find (\<lambda>w. wr_community w = c \<and> wr_owner w = owner \<and> wr_name w = name) (ws_workflows db)"

section \<open>Scheduled fires\<close>

definition claim_scheduled_workflow_fire ::
    "int \<Rightarrow> community_id \<Rightarrow> uuid \<Rightarrow> int \<Rightarrow> wf_db \<Rightarrow> fire_row option \<times> wf_db" where
  "claim_scheduled_workflow_fire now c i at db =
     (if \<not> list_ex (workflow_at c i) (ws_workflows db)
         \<or> list_ex (\<lambda>f. fi_community f = c \<and> fi_workflow f = i \<and> fi_scheduled_for f = at) (ws_fires db)
      then (None, db)
      else
        (let f = \<lparr>fi_community = c, fi_workflow = i, fi_scheduled_for = at, fi_claimed_at = now, fi_run = None\<rparr>
         in (Some f, db\<lparr>ws_fires := ws_fires db @ [f]\<rparr>)))"

definition latest_scheduled_workflow_fire :: "wf_db \<Rightarrow> community_id \<Rightarrow> uuid \<Rightarrow> int option" where
  "latest_scheduled_workflow_fire db c i =
     (let ts = map fi_scheduled_for (filter (\<lambda>f. fi_community f = c \<and> fi_workflow f = i) (ws_fires db))
      in if ts = [] then None else Some (Max (set ts)))"

definition attach_scheduled_workflow_run ::
    "community_id \<Rightarrow> uuid \<Rightarrow> int \<Rightarrow> uuid \<Rightarrow> wf_db \<Rightarrow> (db_error, bool \<times> wf_db) result" where
  "attach_scheduled_workflow_run c i at run db =
     (let (n, rows) = update_rows
            (\<lambda>f. fi_community f = c \<and> fi_workflow f = i \<and> fi_scheduled_for f = at \<and> fi_run f = None)
            (\<lambda>f. f\<lparr>fi_run := Some run\<rparr>) (ws_fires db)
      in if 0 < n \<and> \<not> list_ex (run_at c run) (ws_runs db) then Err Sqlx
         else Ok (n = 1, db\<lparr>ws_fires := rows\<rparr>))"

definition prune_scheduled_workflow_fires_before :: "int \<Rightarrow> wf_db \<Rightarrow> nat \<times> wf_db" where
  "prune_scheduled_workflow_fires_before older_than db =
     (length (filter (\<lambda>f. fi_claimed_at f < older_than) (ws_fires db)),
      db\<lparr>ws_fires := filter (\<lambda>f. \<not> fi_claimed_at f < older_than) (ws_fires db)\<rparr>)"

section \<open>Runs\<close>

definition create_workflow_run ::
    "int \<Rightarrow> uuid \<Rightarrow> community_id \<Rightarrow> uuid \<Rightarrow> hex_string option \<Rightarrow> json option \<Rightarrow> wf_db
     \<Rightarrow> (db_error, uuid \<times> wf_db) result" where
  "create_workflow_run now i c w ev ctx db =
     (if list_ex (run_at c i) (ws_runs db) \<or> \<not> list_ex (workflow_at c w) (ws_workflows db) then Err Sqlx
      else Ok (i, db\<lparr>ws_runs := ws_runs db @
        [\<lparr>rr_id = i, rr_community = c, rr_workflow = w, rr_status = RunPending, rr_trigger_event = ev,
          rr_current_step = 0, rr_trace = JArray [], rr_trigger_context = ctx, rr_started_at = None,
          rr_completed_at = None, rr_error = None, rr_created_at = now\<rparr>]\<rparr>))"

definition get_workflow_run :: "wf_db \<Rightarrow> community_id \<Rightarrow> uuid \<Rightarrow> (db_error, run_row) result" where
  "get_workflow_run db c i = ok_or (find (run_at c i) (ws_runs db)) (NotFound ''workflow_run'')"

definition list_workflow_runs :: "wf_db \<Rightarrow> community_id \<Rightarrow> uuid \<Rightarrow> int \<Rightarrow> (db_error, run_row list) result" where
  "list_workflow_runs db c w limit =
     (if limit < 0 then Err Sqlx
      else Ok (take (nat (min limit 1000)) (sort_key (\<lambda>r. - rr_created_at r)
        (filter (\<lambda>r. rr_community r = c \<and> rr_workflow r = w) (ws_runs db)))))"

definition run_finished :: "run_status \<Rightarrow> bool" where
  "run_finished st \<longleftrightarrow> st = RunCompleted \<or> st = RunFailed \<or> st = RunCancelled"

definition update_workflow_run ::
    "int \<Rightarrow> community_id \<Rightarrow> uuid \<Rightarrow> run_status \<Rightarrow> int \<Rightarrow> json \<Rightarrow> string option \<Rightarrow> wf_db
     \<Rightarrow> (db_error, wf_db) result" where
  "update_workflow_run now c i st step tr err db =
     (let (n, rows) = update_rows (run_at c i)
            (\<lambda>r. r\<lparr>rr_status := st, rr_current_step := step, rr_trace := tr, rr_error := err,
                   rr_started_at := (if st = RunRunning \<and> rr_started_at r = None then Some now
                                     else rr_started_at r),
                   rr_completed_at := (if run_finished st then Some now else rr_completed_at r)\<rparr>)
            (ws_runs db)
      in if n = 0 then Err (NotFound ''workflow_run'') else Ok (db\<lparr>ws_runs := rows\<rparr>))"

section \<open>Approvals\<close>

definition approval_refs_ok :: "wf_db \<Rightarrow> community_id \<Rightarrow> uuid \<Rightarrow> uuid \<Rightarrow> string \<Rightarrow> string \<Rightarrow> bool" where
  "approval_refs_ok db c w run step_id token_hash \<longleftrightarrow>
     length step_id \<le> 64 \<and> \<not> list_ex (approval_at c token_hash) (ws_approvals db)
     \<and> list_ex (workflow_at c w) (ws_workflows db) \<and> list_ex (run_at c run) (ws_runs db)"

definition new_approval_row ::
    "int \<Rightarrow> community_id \<Rightarrow> string \<Rightarrow> uuid \<Rightarrow> uuid \<Rightarrow> string \<Rightarrow> int \<Rightarrow> string \<Rightarrow> hex_string option \<Rightarrow> int
     \<Rightarrow> approval_row" where
  "new_approval_row now c h w run step_id step_index spec request expires =
     \<lparr>ap_community = c, ap_token = h, ap_workflow = w, ap_run = run, ap_step_id = step_id,
      ap_step_index = step_index, ap_spec = spec, ap_status = ApprovalPending, ap_approver = None,
      ap_delegated_to = None, ap_delegated_at = None, ap_request_event = request, ap_note = None,
      ap_granted_at = None, ap_denied_at = None, ap_expires_at = expires, ap_created_at = now\<rparr>"

definition create_approval ::
    "(string \<Rightarrow> string) \<Rightarrow> int \<Rightarrow> community_id \<Rightarrow> string \<Rightarrow> uuid \<Rightarrow> uuid \<Rightarrow> string \<Rightarrow> int \<Rightarrow> string \<Rightarrow> int
     \<Rightarrow> wf_db \<Rightarrow> (db_error, wf_db) result" where
  "create_approval sha now c token w run step_id step_index spec expires db =
     (if \<not> approval_refs_ok db c w run step_id (sha token) then Err Sqlx
      else Ok (db\<lparr>ws_approvals := ws_approvals db @
        [new_approval_row now c (sha token) w run step_id step_index spec None expires]\<rparr>))"

record approval_params =
  apx_community :: community_id
  apx_token :: string
  apx_workflow :: uuid
  apx_run :: uuid
  apx_step_id :: string
  apx_step_index :: int
  apx_spec :: string
  apx_expires_at :: int
  apx_request_event :: event
  apx_channel :: "uuid option"
  apx_trace :: json

definition waiting_trace_entry :: "string \<Rightarrow> hex_string \<Rightarrow> json" where
  "waiting_trace_entry step_id request =
     JObject [(''step_id'', JString step_id), (''status'', JString ''waiting_approval''),
              (''request_event_id'', JString request)]"

definition create_actionable_approval ::
    "(int \<Rightarrow> int option) \<Rightarrow> (string \<Rightarrow> string) \<Rightarrow> nat \<Rightarrow> approval_params \<Rightarrow> wf_db
     \<Rightarrow> (db_error, (stored_event \<times> bool) \<times> wf_db) result" where
  "create_actionable_approval from_ts sha now p db =
     (let c = apx_community p; h = sha (apx_token p); ev = apx_request_event p in
      bind_result (ok_or (json_as_array (apx_trace p)) (InvalidData ''workflow execution trace must be an array''))
        (\<lambda>tr. bind_result (insert_event_with_thread_metadata from_ts now c ev (apx_channel p) None (ws_threads db))
          (\<lambda>((stored, inserted), threads).
             if \<not> inserted then Err (InvalidData ''approval request event already exists'')
             else if \<not> approval_refs_ok db c (apx_workflow p) (apx_run p) (apx_step_id p) h then Err Sqlx
             else
               (let (n, runs) = update_rows
                      (\<lambda>r. run_at c (apx_run p) r \<and> rr_workflow r = apx_workflow p \<and> rr_status r = RunRunning)
                      (\<lambda>r. r\<lparr>rr_status := RunWaitingApproval, rr_current_step := apx_step_index p,
                             rr_trace := JArray (tr @ [waiting_trace_entry (apx_step_id p) (ev_id ev)]),
                             rr_error := None\<rparr>) (ws_runs db)
                in if n \<noteq> 1 then Err (InvalidData ''workflow run is not running'')
                   else Ok ((stored, True),
                     db\<lparr>ws_threads := threads, ws_runs := runs,
                        ws_approvals := ws_approvals db @
                          [new_approval_row (int now) c h (apx_workflow p) (apx_run p) (apx_step_id p)
                             (apx_step_index p) (apx_spec p) (Some (ev_id ev)) (apx_expires_at p)]\<rparr>)))))"

datatype approval_decision =
    DecGrant hex_string "string option"
  | DecDeny hex_string "string option"
  | DecPass hex_string hex_string "string option"

fun decision_actor :: "approval_decision \<Rightarrow> hex_string" where
  "decision_actor (DecGrant a n) = a"
| "decision_actor (DecDeny a n) = a"
| "decision_actor (DecPass a t n) = a"

fun decision_note :: "approval_decision \<Rightarrow> string option" where
  "decision_note (DecGrant a n) = n"
| "decision_note (DecDeny a n) = n"
| "decision_note (DecPass a t n) = n"

fun decision_status :: "approval_decision \<Rightarrow> approval_status \<times> hex_string option \<times> string option" where
  "decision_status (DecGrant a n) = (ApprovalGranted, None, None)"
| "decision_status (DecDeny a n) =
     (ApprovalDenied, None, Some (''workflow cancelled: approval denied by '' @ a))"
| "decision_status (DecPass a t n) =
     (ApprovalDelegated, Some t, Some (''workflow cancelled: approval delegated by '' @ a @ '' to '' @ t))"

definition is_pass :: "approval_decision \<Rightarrow> bool" where
  "is_pass d = (case d of DecPass _ _ _ \<Rightarrow> True | _ \<Rightarrow> False)"

record decision_params =
  dp_community :: community_id
  dp_token_hash :: string
  dp_decision :: approval_decision
  dp_command_event :: event
  dp_lifecycle_event :: event
  dp_task_event :: "event option"
  dp_channel :: "uuid option"

record applied_decision =
  ad_approval :: approval_row
  ad_command_event :: stored_event
  ad_lifecycle_event :: stored_event
  ad_task_event :: "stored_event option"

datatype decision_outcome = DecisionDuplicate | DecisionApplied applied_decision

text \<open>The statements of one decision, in the order of the transaction.\<close>

definition decide_approval ::
    "int \<Rightarrow> decision_params \<Rightarrow> approval_row \<Rightarrow> approval_row list \<Rightarrow> (db_error, approval_row list) result" where
  "decide_approval now p a approvals =
     (let st = fst (decision_status (dp_decision p)) in
      if ap_status a \<noteq> ApprovalPending
      then Err (InvalidData (''approval already '' @ approval_status_str (ap_status a)))
      else if ap_expires_at a < now then Err (InvalidData ''approval has expired'')
      else
        (let (n, rows) = update_rows
               (\<lambda>r. approval_at (dp_community p) (dp_token_hash p) r \<and> ap_status r = ApprovalPending)
               (\<lambda>r. r\<lparr>ap_status := st, ap_approver := Some (decision_actor (dp_decision p)),
                      ap_delegated_to := fst (snd (decision_status (dp_decision p))),
                      ap_note := decision_note (dp_decision p),
                      ap_granted_at := (if st = ApprovalGranted then Some now else ap_granted_at r),
                      ap_denied_at := (if st = ApprovalDenied then Some now else ap_denied_at r),
                      ap_delegated_at := (if st = ApprovalDelegated then Some now else ap_delegated_at r)\<rparr>)
               approvals
         in if n \<noteq> 1 then Err (InvalidData ''approval was resolved concurrently'') else Ok rows))"

definition cancel_waiting_run ::
    "int \<Rightarrow> community_id \<Rightarrow> approval_row \<Rightarrow> string \<Rightarrow> run_row list \<Rightarrow> (db_error, run_row list) result" where
  "cancel_waiting_run now c a reason runs =
     (let (n, rows) = update_rows
            (\<lambda>r. run_at c (ap_run a) r \<and> rr_workflow r = ap_workflow a \<and> rr_status r = RunWaitingApproval)
            (\<lambda>r. r\<lparr>rr_status := RunCancelled, rr_error := Some reason, rr_completed_at := Some now\<rparr>) runs
      in if n \<noteq> 1 then Err (InvalidData ''workflow run is not waiting for approval'') else Ok rows)"

definition store_delegated_task ::
    "(int \<Rightarrow> int option) \<Rightarrow> nat \<Rightarrow> decision_params \<Rightarrow> approval_row \<Rightarrow> event \<Rightarrow> thread_db
     \<Rightarrow> (db_error, stored_event \<times> thread_db) result" where
  "store_delegated_task from_ts now p a task db =
     bind_result (ok_or (ap_request_event a) (InvalidData ''approval is missing its request event'')) (\<lambda>req.
     bind_result (ok_or (find (\<lambda>r. row_community r = dp_community p \<and> ev_id (row_event r) = req \<and> \<not> row_deleted r)
                           (db_events (td_events db))) (NotFound ''approval request event'')) (\<lambda>request.
     bind_result (ok_or (dp_channel p) (InvalidData ''approval pass requires a channel-scoped request'')) (\<lambda>ch.
     if row_channel request \<noteq> Some ch
     then Err (InvalidData ''approval request channel does not match decision channel'')
     else
       (let secs = as_i64 (ev_created_at task) in
        bind_result (ok_or (from_ts secs) (InvalidTimestamp secs)) (\<lambda>at.
        bind_result (insert_event_with_thread_metadata from_ts now (dp_community p) task (Some ch)
            (Some \<lparr>tp_event_id = ev_id task, tp_event_created_at = at, tp_channel_id = ch,
                   tp_parent_event_id = Some req, tp_parent_event_created_at = Some (created_i64 request),
                   tp_root_event_id = Some req, tp_root_event_created_at = Some (created_i64 request),
                   tp_depth = 1, tp_broadcast = True\<rparr>) db)
          (\<lambda>((stored, inserted), db').
             if \<not> inserted then Err (InvalidData ''delegated task event already exists'')
             else Ok (stored, db')))))))"

definition apply_approval_decision ::
    "(int \<Rightarrow> int option) \<Rightarrow> nat \<Rightarrow> decision_params \<Rightarrow> wf_db \<Rightarrow> (db_error, decision_outcome \<times> wf_db) result" where
  "apply_approval_decision from_ts now p db =
     (let c = dp_community p; d = dp_decision p in
      if ev_pubkey (dp_command_event p) \<noteq> decision_actor d
      then Err (InvalidData ''approval decision actor does not match command signer'')
      else if is_pass d \<noteq> (dp_task_event p \<noteq> None)
      then Err (InvalidData ''delegated task must be present exactly for pass decisions'')
      else
        bind_result (insert_event_with_thread_metadata from_ts now c (dp_command_event p) (dp_channel p) None (ws_threads db))
        (\<lambda>((command, command_inserted), threads1).
          if \<not> command_inserted then Ok (DecisionDuplicate, db)
          else
            bind_result (ok_or (find (approval_at c (dp_token_hash p)) (ws_approvals db)) (NotFound ''approval token (hashed)'')) (\<lambda>a.
            bind_result (decide_approval (int now) p a (ws_approvals db)) (\<lambda>approvals.
            bind_result (case snd (snd (decision_status d)) of
                           Some reason \<Rightarrow> cancel_waiting_run (int now) c a reason (ws_runs db)
                         | None \<Rightarrow> Ok (ws_runs db)) (\<lambda>runs.
            bind_result (case dp_task_event p of
                           Some task \<Rightarrow>
                             bind_result (store_delegated_task from_ts now p a task threads1)
                               (\<lambda>(stored, threads). Ok (Some stored, threads))
                         | None \<Rightarrow> Ok (None, threads1)) (\<lambda>(task_stored, threads2).
            bind_result (insert_event_with_thread_metadata from_ts now c (dp_lifecycle_event p) (dp_channel p) None threads2)
            (\<lambda>((lifecycle, lifecycle_inserted), threads3).
              if \<not> lifecycle_inserted then Err (InvalidData ''approval lifecycle event already exists'')
              else
                Ok (DecisionApplied
                      \<lparr>ad_approval = a\<lparr>ap_status := fst (decision_status d), ap_approver := Some (decision_actor d),
                                      ap_delegated_to := fst (snd (decision_status d)), ap_note := decision_note d,
                                      ap_delegated_at := (if fst (decision_status d) = ApprovalDelegated
                                                          then Some (int now) else ap_delegated_at a)\<rparr>,
                       ad_command_event = command, ad_lifecycle_event = lifecycle, ad_task_event = task_stored\<rparr>,
                    db\<lparr>ws_threads := threads3, ws_approvals := approvals, ws_runs := runs\<rparr>))))))))"

definition get_approval_by_stored_hash ::
    "wf_db \<Rightarrow> community_id \<Rightarrow> string \<Rightarrow> (db_error, approval_row) result" where
  "get_approval_by_stored_hash db c h =
     ok_or (find (approval_at c h) (ws_approvals db)) (NotFound ''approval token (hashed)'')"

definition get_approval ::
    "(string \<Rightarrow> string) \<Rightarrow> wf_db \<Rightarrow> community_id \<Rightarrow> string \<Rightarrow> (db_error, approval_row) result" where
  "get_approval sha db c token = get_approval_by_stored_hash db c (sha token)"

definition get_run_approvals :: "wf_db \<Rightarrow> community_id \<Rightarrow> uuid \<Rightarrow> uuid \<Rightarrow> approval_row list" where
  "get_run_approvals db c w run =
     sort_key (\<lambda>a. (ap_step_index a, ap_created_at a))
       (filter (\<lambda>a. ap_community a = c \<and> ap_run a = run \<and> ap_workflow a = w) (ws_approvals db))"

definition update_approval_by_stored_hash ::
    "int \<Rightarrow> community_id \<Rightarrow> string \<Rightarrow> approval_status \<Rightarrow> hex_string option \<Rightarrow> string option \<Rightarrow> wf_db
     \<Rightarrow> bool \<times> wf_db" where
  "update_approval_by_stored_hash now c h st approver note db =
     (let (n, rows) = update_rows (\<lambda>r. approval_at c h r \<and> ap_status r = ApprovalPending)
            (\<lambda>r. r\<lparr>ap_status := st, ap_approver := approver, ap_note := note,
                   ap_granted_at := (if st = ApprovalGranted then Some now else ap_granted_at r),
                   ap_denied_at := (if st = ApprovalDenied then Some now else ap_denied_at r)\<rparr>)
            (ws_approvals db)
      in (0 < n, db\<lparr>ws_approvals := rows\<rparr>))"

definition update_approval ::
    "(string \<Rightarrow> string) \<Rightarrow> int \<Rightarrow> community_id \<Rightarrow> string \<Rightarrow> approval_status \<Rightarrow> hex_string option \<Rightarrow> string option
     \<Rightarrow> wf_db \<Rightarrow> bool \<times> wf_db" where
  "update_approval sha now c token = update_approval_by_stored_hash now c (sha token)"

end
