(* ===== verification/Workflow_Exec.thy ===== *)
theory Workflow_Exec
  imports Workflow_Template Workflow_Store Network
begin

text \<open>
  The executor, second half of \<open>crates/buzz-workflow/src/executor.rs\<close>, and \<open>finalize_run\<close> of
  \<open>lib.rs\<close>. What a step meets outside the process is its \<open>step_world\<close>: the clock, name
  resolution, the answers of HTTP servers, the action sink, and whether the step's timeout cuts it
  off, before or after its effects. Third-party parsers are fields of \<open>exec_env\<close>. The executor
  state logs every HTTP request that leaves. Instants are nanoseconds. A panic kills the task. Error
  texts leave ids, quotes and characters beyond ASCII out.
\<close>

section \<open>The outside\<close>

datatype sink_error =
    InvalidInput string
  | SinkChannelNotFound string
  | ChannelArchived string
  | EventBuild string
  | SinkDatabase string
  | EmptyContent

fun sink_error_text :: "sink_error \<Rightarrow> string" where
  "sink_error_text (InvalidInput s) = ''invalid input: '' @ s"
| "sink_error_text (SinkChannelNotFound s) = ''channel not found: '' @ s"
| "sink_error_text (ChannelArchived s) = ''channel is archived: '' @ s"
| "sink_error_text (EventBuild s) = ''event construction failed: '' @ s"
| "sink_error_text (SinkDatabase s) = ''database error: '' @ s"
| "sink_error_text EmptyContent = ''empty message content''"

definition sink_to_workflow_error :: "sink_error \<Rightarrow> workflow_error" where
  "sink_to_workflow_error e = WebhookError (sink_error_text e)"

fun workflow_error_text :: "workflow_error \<Rightarrow> string" where
  "workflow_error_text InvalidYaml = ''invalid YAML''"
| "workflow_error_text (InvalidDefinition s) = ''invalid definition: '' @ s"
| "workflow_error_text (ConditionError s) = ''condition evaluation error: '' @ s"
| "workflow_error_text (TemplateError s) = ''template error: '' @ s"
| "workflow_error_text (StepTimeout i n) = ''step '' @ i @ '' timed out after '' @ nat_to_string n @ ''s''"
| "workflow_error_text (WebhookError s) = ''webhook error: '' @ s"
| "workflow_error_text CapacityExceeded = ''capacity exceeded''"
| "workflow_error_text (WfDatabase s) = ''database error: '' @ s"
| "workflow_error_text (Unauthorized s) = ''unauthorized: '' @ s"
| "workflow_error_text (NotImplemented s) = ''action not implemented: '' @ s"

record approval_request =
  aq_community :: community_id
  aq_workflow :: uuid
  aq_run :: uuid
  aq_step_id :: string
  aq_step_index :: int
  aq_spec :: string
  aq_message :: string
  aq_expires_at :: int
  aq_channel :: "uuid option"
  aq_owner :: hex_string
  aq_trace :: json

record action_sink =
  snk_send_message ::
    "community_id \<Rightarrow> string \<Rightarrow> string \<Rightarrow> hex_string \<Rightarrow> wf_db \<Rightarrow> (sink_error, hex_string) result \<times> wf_db"
  snk_request_approval :: "approval_request \<Rightarrow> wf_db \<Rightarrow> (sink_error, hex_string) result \<times> wf_db"

record http_request =
  hq_ip :: ip_addr
  hq_port :: nat
  hq_host :: string
  hq_url :: string
  hq_method :: string
  hq_headers :: "(string \<times> string) list"
  hq_body :: "string option"

text \<open>A reply: the chunks of the body and whether reading fails after them.\<close>

record http_reply =
  hr_status :: nat
  hr_chunks :: "string list"
  hr_broken :: bool

record relay_request =
  rq_url :: string
  rq_auth :: "(string \<times> string) option"
  rq_emoji :: string

record relay_reply =
  rp_status :: nat
  rp_body :: "string option"

datatype step_timing = InTime | CutBefore | CutAfter

record step_world =
  sw_now :: int
  sw_timing :: step_timing
  sw_resolve :: "string \<Rightarrow> nat \<Rightarrow> ip_addr list option"
  sw_http :: "http_request \<Rightarrow> http_reply option"
  sw_relay :: "relay_request \<Rightarrow> relay_reply option"
  sw_sink :: "action_sink option"

record exec_env =
  xe_lib :: wf_lib
  xe_uuid_text :: "uuid \<Rightarrow> string"
  xe_uuid_parse :: "string \<Rightarrow> uuid option"
  xe_url_parse :: "string \<Rightarrow> (string option \<times> nat option) option"
  xe_method_ok :: "string \<Rightarrow> bool"
  xe_utf8_lossy :: "string \<Rightarrow> string"
  xe_json_parse :: "string \<Rightarrow> json option"
  xe_checked_add :: "int \<Rightarrow> int \<Rightarrow> int option"
  xe_var :: "string \<Rightarrow> string option"
  xe_default_timeout_secs :: nat

record exec_state =
  xs_db :: wf_db
  xs_http :: "http_request list"
  xs_relay :: "relay_request list"

section \<open>HTTP calls\<close>

definition check_ssrf :: "step_world \<Rightarrow> string \<Rightarrow> nat \<Rightarrow> (workflow_error, ip_addr) result" where
  "check_ssrf w host port =
     (case sw_resolve w host port of
        None \<Rightarrow> Err (WebhookError ''DNS resolution failed'')
      | Some addrs \<Rightarrow>
          if addrs = [] then Err (WebhookError ''DNS resolution returned no addresses'')
          else if list_ex is_private_ip addrs
          then Err (WebhookError ''SSRF blocked: resolved to private/reserved address'')
          else Ok (addrs ! 0))"

definition WEBHOOK_MAX_RESPONSE_BYTES :: nat where
  "WEBHOOK_MAX_RESPONSE_BYTES = 1024 * 1024"

fun read_chunks :: "string \<Rightarrow> string list \<Rightarrow> bool \<Rightarrow> (workflow_error, string) result" where
  "read_chunks acc [] broken =
     (if broken then Err (WebhookError ''reading response body'') else Ok acc)"
| "read_chunks acc (b # bs) broken =
     (if WEBHOOK_MAX_RESPONSE_BYTES < length (acc @ b)
      then Err (WebhookError ''response body exceeds the byte limit'')
      else read_chunks (acc @ b) bs broken)"

definition call_webhook_impl ::
    "exec_env \<Rightarrow> step_world \<Rightarrow> string \<Rightarrow> string \<Rightarrow> (string \<times> string) list option \<Rightarrow> string option \<Rightarrow> exec_state
     \<Rightarrow> (workflow_error, json) result \<times> exec_state" where
  "call_webhook_impl env w url meth headers body s =
     (case xe_url_parse env url of
        None \<Rightarrow> (Err (WebhookError ''invalid URL''), s)
      | Some (None, _) \<Rightarrow> (Err (WebhookError ''URL has no host''), s)
      | Some (Some host, known_port) \<Rightarrow>
          (let port = unwrap_or 80 known_port in
           case check_ssrf w host port of
             Err e \<Rightarrow> (Err e, s)
           | Ok safe_ip \<Rightarrow>
               if \<not> xe_method_ok env meth then (Err (WebhookError ''invalid HTTP method''), s)
               else
                 (let req = \<lparr>hq_ip = safe_ip, hq_port = port, hq_host = host, hq_url = url, hq_method = meth,
                             hq_headers = unwrap_or [] headers, hq_body = body\<rparr>;
                      s' = s\<lparr>xs_http := xs_http s @ [req]\<rparr>
                  in case sw_http w req of
                       None \<Rightarrow> (Err (WebhookError ''request failed''), s')
                     | Some reply \<Rightarrow>
                         (bind_result (read_chunks [] (hr_chunks reply) (hr_broken reply))
                            (\<lambda>bytes. Ok (JObject [(''status'', JNumber (int (hr_status reply))),
                                                   (''body'', JString (xe_utf8_lossy env bytes))])), s'))))"

definition add_reaction_impl ::
    "exec_env \<Rightarrow> step_world \<Rightarrow> string \<Rightarrow> string \<Rightarrow> exec_state \<Rightarrow> (workflow_error, json) result \<times> exec_state" where
  "add_reaction_impl env w message_id emoji s =
     (let base_url = unwrap_or ''http://localhost:3000'' (xe_var env ''BUZZ_RELAY_BASE_URL'');
          auth = (case xe_var env ''BUZZ_API_TOKEN'' of
                    Some token \<Rightarrow> Some (''Authorization'', ''Bearer '' @ token)
                  | None \<Rightarrow> map_option (Pair ''X-Pubkey'') (xe_var env ''BUZZ_RELAY_PUBKEY''));
          req = \<lparr>rq_url = base_url @ ''/api/messages/'' @ message_id @ ''/reactions'', rq_auth = auth,
                 rq_emoji = emoji\<rparr>;
          s' = s\<lparr>xs_relay := xs_relay s @ [req]\<rparr>
      in case sw_relay w req of
           None \<Rightarrow> (Err (WebhookError ''AddReaction HTTP error''), s')
         | Some reply \<Rightarrow>
             if \<not> (200 \<le> rp_status reply \<and> rp_status reply < 300)
             then (Err (WebhookError (''AddReaction: relay returned an error for message '' @ message_id)), s')
             else
               (let body_text = unwrap_or [] (rp_body reply) in
                (Ok (JObject [(''added'', JBool True), (''status'', JNumber (int (rp_status reply))),
                              (''response'', unwrap_or (JObject [(''raw'', JString body_text)])
                                               (xe_json_parse env body_text))]), s')))"

section \<open>Dispatch of a step\<close>

datatype step_result = StepCompleted json | StepSuspended hex_string | StepSkipped

datatype dispatch_result = Dispatched "(workflow_error, step_result) result" | DispatchPanicked

definition parse_override :: "exec_env \<Rightarrow> string \<Rightarrow> (workflow_error, uuid) result" where
  "parse_override env s =
     ok_or (xe_uuid_parse env s) (InvalidDefinition ''SendMessage: invalid channel override UUID'')"

definition resolve_send_message_channel ::
    "exec_env \<Rightarrow> string option \<Rightarrow> string \<Rightarrow> uuid option \<Rightarrow> (workflow_error, string) result" where
  "resolve_send_message_channel env explicit trigger_channel workflow_channel =
     (let explicit_channel = Option.bind explicit (\<lambda>s. if trim s = [] then None else Some (trim s)) in
      case workflow_channel of
        Some ch \<Rightarrow>
          (case explicit_channel of
             Some s \<Rightarrow>
               bind_result (parse_override env s)
                 (\<lambda>u. if u \<noteq> ch
                      then Err (InvalidDefinition ''SendMessage: channel override must match the workflow channel'')
                      else Ok (xe_uuid_text env ch))
           | None \<Rightarrow> Ok (xe_uuid_text env ch))
      | None \<Rightarrow>
          (case explicit_channel of
             Some s \<Rightarrow> bind_result (parse_override env s) (\<lambda>u. Ok (xe_uuid_text env u))
           | None \<Rightarrow>
               if trim trigger_channel = []
               then Err (InvalidDefinition ''SendMessage: no channel_id available'')
               else Ok (trim trigger_channel)))"

definition load_workflow ::
    "string \<Rightarrow> wf_db \<Rightarrow> community_id \<Rightarrow> uuid \<Rightarrow> (workflow_error, workflow_row) result" where
  "load_workflow what db c run_id =
     (case get_workflow_run db c run_id of
        Err _ \<Rightarrow> Err (WebhookError (what @ '': failed to load workflow run''))
      | Ok r \<Rightarrow>
          (case get_workflow db c (rr_workflow r) of
             Err _ \<Rightarrow> Err (WebhookError (what @ '': failed to load workflow''))
           | Ok wf_row \<Rightarrow> Ok wf_row))"

definition sink_missing :: workflow_error where
  "sink_missing =
     InvalidDefinition ''action_sink not initialized - call set_action_sink() before executing workflows''"

definition send_message_step ::
    "exec_env \<Rightarrow> step_world \<Rightarrow> community_id \<Rightarrow> uuid \<Rightarrow> trigger_context \<Rightarrow> string \<Rightarrow> string option \<Rightarrow> exec_state
     \<Rightarrow> (workflow_error, step_result) result \<times> exec_state" where
  "send_message_step env w c run_id tc txt channel s =
     (case bind_result (load_workflow ''SendMessage'' (xs_db s) c run_id)
             (\<lambda>wr. bind_result (resolve_send_message_channel env channel (tc_channel_id tc) (wr_channel wr))
                (\<lambda>ch. bind_result (ok_or (sw_sink w) sink_missing) (\<lambda>sink. Ok (wr, ch, sink)))) of
        Err e \<Rightarrow> (Err e, s)
      | Ok (wr, ch, sink) \<Rightarrow>
          (let (r, db) = snk_send_message sink c ch txt (wr_owner wr) (xs_db s);
               s' = s\<lparr>xs_db := db\<rparr>
           in case r of
                Err e \<Rightarrow> (Err (sink_to_workflow_error e), s')
              | Ok event_id \<Rightarrow>
                  (Ok (StepCompleted (JObject [(''sent'', JBool True), (''event_id'', JString event_id)])), s')))"

definition i64_max :: nat where "i64_max = 2 ^ 63 - 1"

definition i32_max :: nat where "i32_max = 2 ^ 31 - 1"

text \<open>
  \<open>chrono::TimeDelta::seconds\<close> panics beyond \<open>i64::MAX / 1000\<close> seconds, before the addition is
  checked.
\<close>

definition request_approval_step ::
    "exec_env \<Rightarrow> step_world \<Rightarrow> community_id \<Rightarrow> uuid \<Rightarrow> string \<Rightarrow> nat \<Rightarrow> json list \<Rightarrow> string \<Rightarrow> string \<Rightarrow> string option
     \<Rightarrow> exec_state \<Rightarrow> dispatch_result \<times> exec_state" where
  "request_approval_step env w c run_id step_id step_index tr spec message tmo s =
     (let timeout_str = unwrap_or ''24h'' tmo in
      case parse_duration_secs timeout_str of
        Err e \<Rightarrow> (Dispatched (Err e), s)
      | Ok secs \<Rightarrow>
          if i64_max < secs
          then (Dispatched (Err (InvalidDefinition (''RequestApproval timeout is too large: '' @ timeout_str))), s)
          else if i64_max div 1000 < secs then (DispatchPanicked, s)
          else
            (case bind_result (ok_or (xe_checked_add env (sw_now w) (int secs * 10 ^ 9))
                     (InvalidDefinition (''RequestApproval timeout overflows: '' @ timeout_str)))
                   (\<lambda>expires_at. bind_result (load_workflow ''RequestApproval'' (xs_db s) c run_id)
                     (\<lambda>wr. bind_result (ok_or (sw_sink w) sink_missing)
                       (\<lambda>sink.
                          if i32_max < step_index
                          then Err (InvalidDefinition ''RequestApproval step index exceeds i32'')
                          else Ok (sink,
                            \<lparr>aq_community = c, aq_workflow = wr_id wr, aq_run = run_id, aq_step_id = step_id,
                             aq_step_index = int step_index, aq_spec = spec, aq_message = message,
                             aq_expires_at = expires_at, aq_channel = wr_channel wr, aq_owner = wr_owner wr,
                             aq_trace = JArray tr\<rparr>)))) of
               Err e \<Rightarrow> (Dispatched (Err e), s)
             | Ok (sink, req) \<Rightarrow>
                 (let (r, db) = snk_request_approval sink req (xs_db s);
                      s' = s\<lparr>xs_db := db\<rparr>
                  in case r of
                       Err e \<Rightarrow> (Dispatched (Err (sink_to_workflow_error e)), s')
                     | Ok request_event_id \<Rightarrow> (Dispatched (Ok (StepSuspended request_event_id)), s'))))"

definition MAX_DELAY_SECS :: nat where "MAX_DELAY_SECS = 270"

definition delay_step :: "string \<Rightarrow> (workflow_error, step_result) result" where
  "delay_step duration =
     bind_result (parse_duration_secs duration)
       (\<lambda>secs. if MAX_DELAY_SECS < secs
               then Err (InvalidDefinition ''delay exceeds maximum of 270 seconds'')
               else Ok (StepCompleted (JObject [(''slept_secs'', JNumber (int secs))])))"

definition completed_step ::
    "(workflow_error, json) result \<times> exec_state \<Rightarrow> dispatch_result \<times> exec_state" where
  "completed_step p = (Dispatched (bind_result (fst p) (\<lambda>j. Ok (StepCompleted j))), snd p)"

definition dispatch_action ::
    "exec_env \<Rightarrow> step_world \<Rightarrow> community_id \<Rightarrow> uuid \<Rightarrow> trigger_context \<Rightarrow> json list \<Rightarrow> string \<Rightarrow> nat \<Rightarrow> action_def
     \<Rightarrow> exec_state \<Rightarrow> dispatch_result \<times> exec_state" where
  "dispatch_action env w c run_id tc tr step_id step_index action s =
     (case action of
        SendMessage txt channel \<Rightarrow>
          (let (r, s') = send_message_step env w c run_id tc txt channel s in (Dispatched r, s'))
      | SendDm to txt \<Rightarrow> (Dispatched (Err (NotImplemented ''SendDm'')), s)
      | SetChannelTopic topic \<Rightarrow> (Dispatched (Err (NotImplemented ''SetChannelTopic'')), s)
      | AddReaction emoji \<Rightarrow>
          if tc_message_id tc = []
          then (Dispatched (Err (InvalidDefinition ''AddReaction: no trigger.message_id available'')), s)
          else completed_step (add_reaction_impl env w (tc_message_id tc) emoji s)
      | CallWebhook url meth headers body \<Rightarrow>
          completed_step (call_webhook_impl env w url (unwrap_or ''POST'' meth) headers body s)
      | RequestApproval spec message tmo \<Rightarrow>
          request_approval_step env w c run_id step_id step_index tr spec message tmo s
      | Delay duration \<Rightarrow> (Dispatched (delay_step duration), s))"

text \<open>The timeout around a dispatch: a step that is cut off late has had its effects.\<close>

definition timed_dispatch ::
    "exec_env \<Rightarrow> step_world \<Rightarrow> community_id \<Rightarrow> uuid \<Rightarrow> trigger_context \<Rightarrow> json list \<Rightarrow> wf_step \<Rightarrow> nat \<Rightarrow> action_def
     \<Rightarrow> exec_state \<Rightarrow> dispatch_result \<times> exec_state" where
  "timed_dispatch env w c run_id tc tr step i action s =
     (let timeout_secs = unwrap_or (xe_default_timeout_secs env) (sp_timeout_secs step);
          cut = Dispatched (Err (StepTimeout (sp_id step) timeout_secs))
      in case sw_timing w of
           CutBefore \<Rightarrow> (cut, s)
         | InTime \<Rightarrow> dispatch_action env w c run_id tc tr (sp_id step) i action s
         | CutAfter \<Rightarrow>
             (case dispatch_action env w c run_id tc tr (sp_id step) i action s of
                (DispatchPanicked, s') \<Rightarrow> (DispatchPanicked, s')
              | (Dispatched _, s') \<Rightarrow> (cut, s')))"

section \<open>The step loop\<close>

record execution_result =
  xr_request_event :: "hex_string option"
  xr_step_index :: nat
  xr_step_outputs :: step_outputs
  xr_trace :: "json list"

record partial_progress =
  pp_step_index :: nat
  pp_trace :: "json list"

datatype exec_outcome =
    ExecOk execution_result
  | ExecErr workflow_error partial_progress
  | ExecPanicked

definition skipped_entry :: "string \<Rightarrow> json" where
  "skipped_entry i = JObject [(''step_id'', JString i), (''status'', JString ''skipped'')]"

definition completed_entry :: "string \<Rightarrow> json \<Rightarrow> json" where
  "completed_entry i output =
     JObject [(''step_id'', JString i), (''status'', JString ''completed''), (''output'', output)]"

definition step_condition ::
    "exec_env \<Rightarrow> trigger_context \<Rightarrow> step_outputs \<Rightarrow> wf_step \<Rightarrow> (workflow_error, bool) result" where
  "step_condition env tc outs step =
     (case sp_if_expr step of
        None \<Rightarrow> Ok True
      | Some expr \<Rightarrow> evaluate_condition (xe_lib env) expr tc outs)"

fun steps_loop ::
    "exec_env \<Rightarrow> (nat \<Rightarrow> step_world) \<Rightarrow> community_id \<Rightarrow> uuid \<Rightarrow> trigger_context \<Rightarrow> nat \<Rightarrow> nat \<Rightarrow> wf_step list
     \<Rightarrow> step_outputs \<Rightarrow> json list \<Rightarrow> exec_state \<Rightarrow> exec_outcome \<times> exec_state" where
  "steps_loop env world c run_id tc start_index i [] outs tr s =
     (ExecOk \<lparr>xr_request_event = None, xr_step_index = i, xr_step_outputs = outs, xr_trace = tr\<rparr>, s)"
| "steps_loop env world c run_id tc start_index i (step # steps) outs tr s =
     (if i < start_index then steps_loop env world c run_id tc start_index (i + 1) steps outs tr s
      else
        (case step_condition env tc outs step of
           Err e \<Rightarrow> (ExecErr e \<lparr>pp_step_index = i, pp_trace = tr\<rparr>, s)
         | Ok False \<Rightarrow>
             steps_loop env world c run_id tc start_index (i + 1) steps outs (tr @ [skipped_entry (sp_id step)]) s
         | Ok True \<Rightarrow>
             (case resolve_step_templates (xe_lib env) tc outs (sp_action step) of
                Err e \<Rightarrow> (ExecErr e \<lparr>pp_step_index = i, pp_trace = tr\<rparr>, s)
              | Ok action \<Rightarrow>
                  (case timed_dispatch env (world i) c run_id tc tr step i action s of
                     (DispatchPanicked, s') \<Rightarrow> (ExecPanicked, s')
                   | (Dispatched (Err e), s') \<Rightarrow> (ExecErr e \<lparr>pp_step_index = i, pp_trace = tr\<rparr>, s')
                   | (Dispatched (Ok (StepCompleted output)), s') \<Rightarrow>
                       steps_loop env world c run_id tc start_index (i + 1) steps
                         (hm_insert (sp_id step) output outs) (tr @ [completed_entry (sp_id step) output]) s'
                   | (Dispatched (Ok (StepSuspended request)), s') \<Rightarrow>
                       (ExecOk \<lparr>xr_request_event = Some request, xr_step_index = i, xr_step_outputs = outs,
                               xr_trace = tr @ [waiting_trace_entry (sp_id step) request]\<rparr>, s')
                   | (Dispatched (Ok StepSkipped), s') \<Rightarrow>
                       steps_loop env world c run_id tc start_index (i + 1) steps outs
                         (tr @ [skipped_entry (sp_id step)]) s'))))"

definition execute_steps ::
    "exec_env \<Rightarrow> (nat \<Rightarrow> step_world) \<Rightarrow> community_id \<Rightarrow> uuid \<Rightarrow> workflow_def \<Rightarrow> trigger_context \<Rightarrow> nat
     \<Rightarrow> step_outputs option \<Rightarrow> exec_state \<Rightarrow> exec_outcome \<times> exec_state" where
  "execute_steps env world c run_id def tc start_index initial_outputs s =
     steps_loop env world c run_id tc start_index 0 (wd_steps def) (unwrap_or [] initial_outputs) [] s"

definition no_progress :: partial_progress where
  "no_progress = \<lparr>pp_step_index = 0, pp_trace = []\<rparr>"

text \<open>
  \<open>permit\<close> says whether the semaphore has a permit left and \<open>now\<close> is the clock when the run is
  marked.
\<close>

definition execute_run ::
    "exec_env \<Rightarrow> (nat \<Rightarrow> step_world) \<Rightarrow> bool \<Rightarrow> int \<Rightarrow> community_id \<Rightarrow> uuid \<Rightarrow> workflow_def \<Rightarrow> trigger_context
     \<Rightarrow> exec_state \<Rightarrow> exec_outcome \<times> exec_state" where
  "execute_run env world permit now c run_id def tc s =
     (if \<not> permit then (ExecErr CapacityExceeded no_progress, s)
      else
        (case update_workflow_run now c run_id RunRunning 0 (JArray []) None (xs_db s) of
           Err _ \<Rightarrow> (ExecErr (WfDatabase ''update_workflow_run'') no_progress, s)
         | Ok db \<Rightarrow> execute_steps env world c run_id def tc 0 None (s\<lparr>xs_db := db\<rparr>)))"

definition execute_from_step ::
    "exec_env \<Rightarrow> (nat \<Rightarrow> step_world) \<Rightarrow> bool \<Rightarrow> int \<Rightarrow> community_id \<Rightarrow> uuid \<Rightarrow> workflow_def \<Rightarrow> trigger_context
     \<Rightarrow> nat \<Rightarrow> step_outputs option \<Rightarrow> exec_state \<Rightarrow> exec_outcome \<times> exec_state" where
  "execute_from_step env world permit now c run_id def tc start_index initial_outputs s =
     (if \<not> permit then (ExecErr CapacityExceeded no_progress, s)
      else
        (let existing_trace = (case get_workflow_run (xs_db s) c run_id of
                                 Ok r \<Rightarrow> rr_trace r | Err _ \<Rightarrow> JArray [])
         in case update_workflow_run now c run_id RunRunning (int start_index) existing_trace None (xs_db s) of
              Err _ \<Rightarrow> (ExecErr (WfDatabase ''update_workflow_run'') no_progress, s)
            | Ok db \<Rightarrow> execute_steps env world c run_id def tc start_index initial_outputs (s\<lparr>xs_db := db\<rparr>)))"

section \<open>The end of a run\<close>

definition successful_run_status :: "execution_result \<Rightarrow> run_status" where
  "successful_run_status r = (if xr_request_event r \<noteq> None then RunWaitingApproval else RunCompleted)"

definition keep_on_error :: "wf_db \<Rightarrow> (db_error, wf_db) result \<Rightarrow> wf_db" where
  "keep_on_error db r = (case r of Ok db' \<Rightarrow> db' | Err _ \<Rightarrow> db)"

text \<open>\<open>finalize_run\<close>; a task that panicked never calls it.\<close>

definition finalize_run ::
    "int \<Rightarrow> community_id \<Rightarrow> uuid \<Rightarrow> exec_outcome \<Rightarrow> json list option \<Rightarrow> wf_db \<Rightarrow> wf_db" where
  "finalize_run now c run_id outcome existing_trace db =
     (let pre = unwrap_or [] existing_trace in
      case outcome of
        ExecPanicked \<Rightarrow> db
      | ExecOk r \<Rightarrow>
          keep_on_error db
            (update_workflow_run now c run_id (successful_run_status r) (int (xr_step_index r))
               (JArray (pre @ xr_trace r)) None db)
      | ExecErr e progress \<Rightarrow>
          keep_on_error db
            (update_workflow_run now c run_id RunFailed (int (pp_step_index progress))
               (JArray (pre @ pp_trace progress)) (Some (workflow_error_text e)) db))"

end
