(* ===== verification/Workflow_Engine.thy ===== *)
theory Workflow_Engine
  imports Workflow_Exec Membership Hash_Map
begin

text \<open>
  The engine, \<open>crates/buzz-workflow/src/lib.rs\<close>: triggering by events, the authority check before
  every run, and one tick of the scheduler. The cron crate is the field \<open>ge_cron\<close>: the parsed
  schedule as the function that gives the first instant after an instant. Runs that the code
  spawns are returned as tasks. Instants are nanoseconds; a stored instant is read back as it was
  written.
\<close>

section \<open>Triggers\<close>

definition owner_authority_allows :: "string option \<Rightarrow> bool \<Rightarrow> bool" where
  "owner_authority_allows role needs_elevated =
     (case role of
        None \<Rightarrow> False
      | Some r \<Rightarrow> if needs_elevated then r = ''owner'' \<or> r = ''admin'' else True)"

definition check_owner_authority ::
    "wf_db \<Rightarrow> community_id \<Rightarrow> uuid \<Rightarrow> hex_string \<Rightarrow> workflow_def \<Rightarrow> (workflow_error, unit) result" where
  "check_owner_authority db c ch owner def =
     (if owner_authority_allows (get_member_role (ws_channels db) c ch owner) (requires_elevated_authority def)
      then Ok () else Err (Unauthorized ''workflow owner lacks current channel authority''))"

definition trigger_matches_event :: "trigger_def \<Rightarrow> kind \<Rightarrow> bool" where
  "trigger_matches_event trigger k =
     (case trigger of
        MessagePosted _ \<Rightarrow> k = KIND_STREAM_MESSAGE
      | ReactionAdded _ \<Rightarrow> k = KIND_REACTION
      | DiffPosted _ \<Rightarrow> k = KIND_STREAM_MESSAGE_DIFF
      | Schedule _ _ \<Rightarrow> False
      | Webhook \<Rightarrow> False)"

definition filter_passes :: "wf_lib \<Rightarrow> trigger_context \<Rightarrow> string option \<Rightarrow> bool" where
  "filter_passes lib tc flt =
     (case flt of None \<Rightarrow> True | Some expr \<Rightarrow> evaluate_condition lib expr tc [] = Ok True)"

definition should_fire_workflow :: "wf_lib \<Rightarrow> workflow_def \<Rightarrow> trigger_context \<Rightarrow> bool" where
  "should_fire_workflow lib def tc =
     (case wd_trigger def of
        ReactionAdded (Some expected) \<Rightarrow> tc_emoji tc = expected
      | MessagePosted flt \<Rightarrow> filter_passes lib tc flt
      | DiffPosted flt \<Rightarrow> filter_passes lib tc flt
      | _ \<Rightarrow> True)"

definition reaction_target :: "tag \<Rightarrow> string option" where
  "reaction_target t =
     (if tag_kind t = ''e''
      then Option.bind (tag_content t) (\<lambda>v. if length v = 64 \<and> list_all is_hex_char v then Some v else None)
      else None)"

definition build_trigger_context :: "(uuid \<Rightarrow> string) \<Rightarrow> stored_event \<Rightarrow> trigger_context" where
  "build_trigger_context uuid_text st =
     (let ev = st_event st in
      \<lparr>tc_text = ev_content ev, tc_author = ev_pubkey ev,
       tc_channel_id = (case st_channel_id st of Some ch \<Rightarrow> uuid_text ch | None \<Rightarrow> []),
       tc_timestamp = nat_to_string (ev_created_at ev),
       tc_emoji = (if ev_kind ev = KIND_REACTION then ev_content ev else []),
       tc_message_id =
         (if ev_kind ev = KIND_REACTION
          then unwrap_or (ev_id ev) (find_map reaction_target (rev (ev_tags ev)))
          else ev_id ev),
       tc_webhook_fields = []\<rparr>)"

section \<open>The serialized context\<close>

definition trigger_context_json :: "trigger_context \<Rightarrow> json" where
  "trigger_context_json tc =
     JObject [(''text'', JString (tc_text tc)), (''author'', JString (tc_author tc)),
              (''channel_id'', JString (tc_channel_id tc)), (''timestamp'', JString (tc_timestamp tc)),
              (''emoji'', JString (tc_emoji tc)), (''message_id'', JString (tc_message_id tc)),
              (''webhook_fields'', JObject (map (\<lambda>(k, v). (k, JString v)) (tc_webhook_fields tc)))]"

definition json_str_field :: "json \<Rightarrow> string \<Rightarrow> string option" where
  "json_str_field v k = Option.bind (json_get v k) json_as_str"

fun string_members :: "(string \<times> json) list \<Rightarrow> (string \<times> string) list option" where
  "string_members [] = Some []"
| "string_members ((k, v) # kvs) =
     Option.bind (json_as_str v) (\<lambda>s. map_option (Cons (k, s)) (string_members kvs))"

definition parse_trigger_context :: "json \<Rightarrow> trigger_context option" where
  "parse_trigger_context v =
     Option.bind (json_str_field v ''text'') (\<lambda>txt.
     Option.bind (json_str_field v ''author'') (\<lambda>author.
     Option.bind (json_str_field v ''channel_id'') (\<lambda>channel_id.
     Option.bind (json_str_field v ''timestamp'') (\<lambda>timestamp.
     Option.bind (json_str_field v ''emoji'') (\<lambda>emoji.
     Option.bind (json_str_field v ''message_id'') (\<lambda>message_id.
     Option.bind (case json_get v ''webhook_fields'' of
                    Some (JObject kvs) \<Rightarrow> string_members kvs | _ \<Rightarrow> None) (\<lambda>webhook_fields.
       Some \<lparr>tc_text = txt, tc_author = author, tc_channel_id = channel_id, tc_timestamp = timestamp,
             tc_emoji = emoji, tc_message_id = message_id, tc_webhook_fields = webhook_fields\<rparr>)))))))"

section \<open>Runs caused by an event\<close>

record engine_env =
  ge_lib :: wf_lib
  ge_uuid_text :: "uuid \<Rightarrow> string"
  ge_parse_def :: "json \<Rightarrow> workflow_def option"
  ge_cron :: "string \<Rightarrow> (int \<Rightarrow> int option) option"
  ge_from_ts :: "int \<Rightarrow> int option"

record run_task =
  rt_community :: community_id
  rt_run :: uuid
  rt_workflow :: uuid
  rt_def :: workflow_def
  rt_context :: trigger_context

text \<open>\<open>fresh\<close> gives the uuid of the run that a workflow creates in this call.\<close>

definition trigger_workflow ::
    "engine_env \<Rightarrow> int \<Rightarrow> (uuid \<Rightarrow> uuid) \<Rightarrow> community_id \<Rightarrow> uuid \<Rightarrow> stored_event \<Rightarrow> workflow_row \<Rightarrow> wf_db
     \<Rightarrow> run_task option \<times> wf_db" where
  "trigger_workflow env now fresh c ch st w db =
     (let tc = build_trigger_context (ge_uuid_text env) st; ev = st_event st in
      case ge_parse_def env (wr_definition w) of
        None \<Rightarrow> (None, db)
      | Some def \<Rightarrow>
          if \<not> wd_enabled def \<or> \<not> trigger_matches_event (wd_trigger def) (ev_kind ev) then (None, db)
          else if \<not> should_fire_workflow (ge_lib env) def tc then (None, db)
          else if \<not> is_ok (check_owner_authority db c ch (wr_owner w) def) then (None, db)
          else
            (case create_workflow_run now (fresh (wr_id w)) c (wr_id w) (Some (ev_id ev))
                    (Some (trigger_context_json tc)) db of
               Err _ \<Rightarrow> (None, db)
             | Ok (run_id, db') \<Rightarrow>
                 (Some \<lparr>rt_community = c, rt_run = run_id, rt_workflow = wr_id w, rt_def = def, rt_context = tc\<rparr>, db')))"

fun trigger_workflows ::
    "engine_env \<Rightarrow> int \<Rightarrow> (uuid \<Rightarrow> uuid) \<Rightarrow> community_id \<Rightarrow> uuid \<Rightarrow> stored_event \<Rightarrow> workflow_row list \<Rightarrow> wf_db
     \<Rightarrow> run_task list \<times> wf_db" where
  "trigger_workflows env now fresh c ch st [] db = ([], db)"
| "trigger_workflows env now fresh c ch st (w # ws) db =
     (let (t, db1) = trigger_workflow env now fresh c ch st w db;
          (ts, db2) = trigger_workflows env now fresh c ch st ws db1
      in ((case t of Some t' \<Rightarrow> t' # ts | None \<Rightarrow> ts), db2))"

record engine_state =
  gs_db :: wf_db
  gs_cache :: "(community_id \<times> uuid, workflow_row list) hmap"
  gs_last_fired :: "(community_id \<times> uuid, int) hmap"

text \<open>
  Eviction from the cache, by its time to live or its capacity, is a step of its own; a lookup
  sees what is there.
\<close>

definition invalidate_channel_workflows :: "community_id \<Rightarrow> uuid \<Rightarrow> engine_state \<Rightarrow> engine_state" where
  "invalidate_channel_workflows c ch g = g\<lparr>gs_cache := hm_remove (c, ch) (gs_cache g)\<rparr>"

definition on_event ::
    "engine_env \<Rightarrow> int \<Rightarrow> (uuid \<Rightarrow> uuid) \<Rightarrow> community_id \<Rightarrow> stored_event \<Rightarrow> engine_state
     \<Rightarrow> run_task list \<times> engine_state" where
  "on_event env now fresh c st g =
     (case st_channel_id st of
        None \<Rightarrow> ([], g)
      | Some ch \<Rightarrow>
          if is_workflow_execution_kind (ev_kind (st_event st)) then ([], g)
          else
            (let (workflows, g1) =
                   (case hm_get (gs_cache g) (c, ch) of
                      Some cached \<Rightarrow> (cached, g)
                    | None \<Rightarrow>
                        (let rows = list_enabled_channel_workflows (gs_db g) c ch
                         in (rows, g\<lparr>gs_cache := hm_insert (c, ch) rows (gs_cache g)\<rparr>)));
                 (tasks, db) = trigger_workflows env now fresh c ch st workflows (gs_db g1)
             in (tasks, g1\<lparr>gs_db := db\<rparr>)))"

section \<open>Schedules\<close>

definition cron_fire_instant ::
    "(string \<Rightarrow> (int \<Rightarrow> int option) option) \<Rightarrow> string \<Rightarrow> int \<Rightarrow> int \<Rightarrow> int option" where
  "cron_fire_instant cron expr now window_secs =
     (case cron (normalize_cron expr) of
        None \<Rightarrow> None
      | Some next_after \<Rightarrow>
          (case next_after (now - window_secs * 10 ^ 9) of
             Some t \<Rightarrow> if t \<le> now then Some t else None
           | None \<Rightarrow> None))"

text \<open>\<open>DateTime::timestamp\<close> rounds down, \<open>num_seconds\<close> towards zero.\<close>

definition interval_fire_instant :: "(int \<Rightarrow> int option) \<Rightarrow> string \<Rightarrow> int \<Rightarrow> int option" where
  "interval_fire_instant from_ts dur now =
     (case parse_duration_secs dur of
        Err _ \<Rightarrow> None
      | Ok interval_secs \<Rightarrow>
          if 0 < interval_secs then
            (let secs = as_i64 interval_secs;
                 ts = now div 10 ^ 9;
                 bucket = (if 0 \<le> secs then ts div secs else - (ts div (- secs))) * secs
             in map_option (\<lambda>t. t * 10 ^ 9) (from_ts bucket))
          else None)"

definition interval_should_fire :: "string \<Rightarrow> int option \<Rightarrow> int \<Rightarrow> bool" where
  "interval_should_fire dur last_fired now =
     (case parse_duration_secs dur of
        Err _ \<Rightarrow> False
      | Ok interval_secs \<Rightarrow>
          (let elapsed = \<bar>now - unwrap_or now last_fired\<bar> div 10 ^ 9 in int interval_secs \<le> elapsed))"

definition interval_prefilter_should_fire ::
    "community_id \<Rightarrow> uuid \<Rightarrow> string \<Rightarrow> int option \<Rightarrow> int \<Rightarrow> (community_id \<times> uuid, int) hmap
     \<Rightarrow> bool \<times> (community_id \<times> uuid, int) hmap" where
  "interval_prefilter_should_fire c i dur anchor now last_fired =
     (if interval_should_fire dur anchor now then (True, last_fired)
      else (False, if anchor = None then hm_insert (c, i) now last_fired else last_fired))"

datatype fire_kind = CronFire | IntervalFire

text \<open>The instant that a schedule fires for at this tick, with the anchors.\<close>

definition resolve_fire ::
    "engine_env \<Rightarrow> int \<Rightarrow> workflow_row \<Rightarrow> workflow_def \<Rightarrow> engine_state \<Rightarrow> (int \<times> fire_kind) option \<times> engine_state" where
  "resolve_fire env now w def g =
     (case wd_trigger def of
        Schedule (Some expr) None \<Rightarrow>
          (map_option (\<lambda>t. (t, CronFire)) (cron_fire_instant (ge_cron env) expr now 60), g)
      | Schedule None (Some dur) \<Rightarrow>
          (let key = (wr_community w, wr_id w);
               anchor = (case hm_get (gs_last_fired g) key of
                         Some t \<Rightarrow> Some t
                       | None \<Rightarrow> latest_scheduled_workflow_fire (gs_db g) (wr_community w) (wr_id w));
               (fire, anchors) = interval_prefilter_should_fire (wr_community w) (wr_id w) dur anchor now (gs_last_fired g);
               g' = g\<lparr>gs_last_fired := anchors\<rparr>
           in if \<not> fire then (None, g')
              else (map_option (\<lambda>t. (t, IntervalFire)) (interval_fire_instant (ge_from_ts env) dur now), g'))
      | _ \<Rightarrow> (None, g))"

definition advance_anchor :: "fire_kind \<Rightarrow> int \<Rightarrow> workflow_row \<Rightarrow> engine_state \<Rightarrow> engine_state" where
  "advance_anchor k now w g =
     (if k = IntervalFire
      then g\<lparr>gs_last_fired := hm_insert (wr_community w, wr_id w) now (gs_last_fired g)\<rparr> else g)"

definition scheduled_context :: "engine_env \<Rightarrow> uuid \<Rightarrow> int \<Rightarrow> trigger_context" where
  "scheduled_context env ch now =
     default_trigger_context
       \<lparr>tc_channel_id := ge_uuid_text env ch,
        tc_timestamp := (if now div 10 ^ 9 < 0 then ''-'' else []) @ nat_to_string (nat \<bar>now div 10 ^ 9\<bar>)\<rparr>"

definition tick_workflow ::
    "engine_env \<Rightarrow> int \<Rightarrow> (uuid \<Rightarrow> uuid) \<Rightarrow> workflow_row \<Rightarrow> engine_state \<Rightarrow> run_task option \<times> engine_state" where
  "tick_workflow env now fresh w g =
     (let c = wr_community w in
      case ge_parse_def env (wr_definition w) of
        None \<Rightarrow> (None, g)
      | Some def \<Rightarrow>
          if \<not> wd_enabled def then (None, g)
          else
            (case wr_channel w of
               None \<Rightarrow> (None, g)
             | Some ch \<Rightarrow>
                 (case resolve_fire env now w def g of
                    (None, g1) \<Rightarrow> (None, g1)
                  | (Some (scheduled_for, trigger_type), g1) \<Rightarrow>
                      if \<not> is_ok (check_owner_authority (gs_db g1) c ch (wr_owner w) def) then (None, g1)
                      else
                        (case claim_scheduled_workflow_fire now c (wr_id w) scheduled_for (gs_db g1) of
                           (None, _) \<Rightarrow> (None, advance_anchor trigger_type now w g1)
                         | (Some _, db1) \<Rightarrow>
                             (let tc = scheduled_context env ch now
                              in case create_workflow_run now (fresh (wr_id w)) c (wr_id w) None
                                        (Some (trigger_context_json tc)) db1 of
                                   Err _ \<Rightarrow> (None, g1\<lparr>gs_db := db1\<rparr>)
                                 | Ok (run_id, db2) \<Rightarrow>
                                     (Some \<lparr>rt_community = c, rt_run = run_id, rt_workflow = wr_id w,
                                            rt_def = def, rt_context = tc\<rparr>,
                                      advance_anchor trigger_type now w
                                        (g1\<lparr>gs_db :=
                                           (case attach_scheduled_workflow_run c (wr_id w) scheduled_for run_id db2 of
                                              Ok (_, d) \<Rightarrow> d | Err _ \<Rightarrow> db2)\<rparr>)))))))"

fun tick_workflows ::
    "engine_env \<Rightarrow> int \<Rightarrow> (uuid \<Rightarrow> uuid) \<Rightarrow> workflow_row list \<Rightarrow> engine_state \<Rightarrow> run_task list \<times> engine_state" where
  "tick_workflows env now fresh [] g = ([], g)"
| "tick_workflows env now fresh (w # ws) g =
     (let (t, g1) = tick_workflow env now fresh w g;
          (ts, g2) = tick_workflows env now fresh ws g1
      in ((case t of Some t' \<Rightarrow> t' # ts | None \<Rightarrow> ts), g2))"

definition scheduler_tick ::
    "engine_env \<Rightarrow> int \<Rightarrow> (uuid \<Rightarrow> uuid) \<Rightarrow> engine_state \<Rightarrow> run_task list \<times> engine_state" where
  "scheduler_tick env now fresh g =
     (let workflows = list_all_enabled_workflows (gs_db g);
          (tasks, g1) = tick_workflows env now fresh workflows g;
          active_ids = map (\<lambda>w. (wr_community w, wr_id w)) workflows
      in (tasks, g1\<lparr>gs_last_fired := hm_retain (\<lambda>k _. k \<in> set active_ids) (gs_last_fired g1)\<rparr>))"

end
