(* ===== verification/Workflow_Sink.thy ===== *)
theory Workflow_Sink
  imports Workflow_Engine
begin

text \<open>
  The relay's action sink, \<open>crates/buzz-relay/src/workflow_sink.rs\<close>: messages and approval
  requests that a workflow produces, with the resolution of mentions and approvers. The nostr
  crate is two fields of \<open>relay_env\<close>: \<open>re_pubkey\<close> reads a public key in hexadecimal and gives its
  normal form, \<open>re_sign\<close> builds an event with the relay's signature. Profiles, relay members,
  hosts, presence and the membership cache are fields as well. Characters are ASCII, so folding
  case keeps lengths. Fan-out after a write is left to \<open>Delivery\<close>.
\<close>

record relay_env =
  re_engine :: engine_env
  re_uuid_parse :: "string \<Rightarrow> uuid option"
  re_pubkey :: "string \<Rightarrow> hex_string option"
  re_sign :: "kind \<Rightarrow> tag list \<Rightarrow> string \<Rightarrow> event option"
  re_sha :: "string \<Rightarrow> string"
  re_host :: "community_id \<Rightarrow> string option"
  re_member_cached :: "community_id \<Rightarrow> uuid \<Rightarrow> hex_string \<Rightarrow> bool"
  re_display_name :: "community_id \<Rightarrow> hex_string \<Rightarrow> string option"
  re_relay_members :: "community_id \<Rightarrow> string list"
  re_agent_policy :: "community_id \<Rightarrow> hex_string \<Rightarrow> (string \<times> hex_string option) option"
  re_presence :: "community_id \<Rightarrow> hex_string \<Rightarrow> string option"
  re_parse_yaml :: "string \<Rightarrow> (workflow_error, workflow_def \<times> json) result"
  re_json_parse :: "string \<Rightarrow> json option"
  re_hash :: "json \<Rightarrow> string"

section \<open>Mentions\<close>

text \<open>A name that two different keys carry is mapped to \<open>None\<close>.\<close>

definition add_named ::
    "string \<times> hex_string \<Rightarrow> (string, hex_string option) hmap \<Rightarrow> (string, hex_string option) hmap" where
  "add_named m by_name =
     (let name = fst m; pubkey = snd m; key = ascii_lower name in
      if trim name = [] then by_name
      else
        (case hm_get by_name key of
           None \<Rightarrow> hm_insert key (Some pubkey) by_name
         | Some slot \<Rightarrow> if slot \<noteq> Some pubkey then hm_insert key None by_name else by_name))"

definition names_of :: "(string \<times> hex_string) list \<Rightarrow> (string, hex_string option) hmap" where
  "names_of members = fold add_named members []"

fun match_name_len :: "string \<Rightarrow> string \<Rightarrow> nat option" where
  "match_name_len cs [] = Some 0"
| "match_name_len [] (f # fs) = None"
| "match_name_len (c # cs) (f # fs) =
     (if ascii_lower_char c = f then map_option Suc (match_name_len cs fs) else None)"

definition is_left_boundary :: "string \<Rightarrow> nat \<Rightarrow> bool" where
  "is_left_boundary chars i \<longleftrightarrow> i = 0 \<or> is_space (chars ! (i - 1)) \<or> chars ! (i - 1) = CHR ''(''"

definition extends_name :: "char \<Rightarrow> bool" where
  "extends_name c \<longleftrightarrow> is_ascii_alphanumeric c \<or> c = CHR ''_''"

definition mention_here :: "string \<Rightarrow> bool list \<Rightarrow> string \<Rightarrow> nat \<Rightarrow> nat option" where
  "mention_here chars consumed folded at =
     (if chars ! at = CHR ''@'' \<and> is_left_boundary chars at \<and> \<not> consumed ! at then
        (case match_name_len (drop (at + 1) chars) folded of
           None \<Rightarrow> None
         | Some n \<Rightarrow>
             (case drop (at + 1 + n) chars of
                [] \<Rightarrow> Some n
              | c # _ \<Rightarrow> if extends_name c then None else Some n))
      else None)"

definition mark_span :: "nat \<Rightarrow> nat \<Rightarrow> bool list \<Rightarrow> bool list" where
  "mark_span at span consumed =
     take at consumed @ replicate (min span (length consumed - at)) True @ drop (at + span) consumed"

type_synonym mention_state = "bool list \<times> (nat \<times> hex_string) list"

function scan_name ::
    "string \<Rightarrow> (string, hex_string option) hmap \<Rightarrow> string \<Rightarrow> nat \<Rightarrow> mention_state \<Rightarrow> mention_state" where
  "scan_name chars by_name folded at (consumed, hits) =
     (if length chars \<le> at then (consumed, hits)
      else
        (case mention_here chars consumed folded at of
           Some n \<Rightarrow>
             scan_name chars by_name folded (at + (1 + n))
               (mark_span at (1 + n) consumed,
                case hm_get by_name folded of
                  Some (Some pubkey) \<Rightarrow> hits @ [(at, pubkey)]
                | _ \<Rightarrow> hits)
         | None \<Rightarrow> scan_name chars by_name folded (at + 1) (consumed, hits)))"
  by pat_completeness auto
termination by (relation "measure (\<lambda>(chars, _, _, at, _). length chars - at)") auto

declare scan_name.simps [simp del]

fun scan_names ::
    "string \<Rightarrow> (string, hex_string option) hmap \<Rightarrow> (string \<times> hex_string) list \<Rightarrow> mention_state \<Rightarrow> mention_state" where
  "scan_names chars by_name [] st = st"
| "scan_names chars by_name (m # ms) st =
     (if ascii_lower (fst m) = [] then scan_names chars by_name ms st
      else scan_names chars by_name ms (scan_name chars by_name (ascii_lower (fst m)) 0 st))"

definition resolve_mention_pubkeys :: "string \<Rightarrow> (string \<times> hex_string) list \<Rightarrow> hex_string list" where
  "resolve_mention_pubkeys txt members =
     (let names = sort_key (\<lambda>m. - int (length (fst m))) members;
          (consumed, hits) = scan_names txt (names_of members) names (replicate (length txt) False, [])
      in dedup_first (map snd (sort_key fst hits)))"

section \<open>Approvers\<close>

definition no_approver :: "(sink_error, 'a) result" where
  "no_approver = Err (InvalidInput ''approval requires an exact human approver'')"

definition is_hex64 :: "string \<Rightarrow> bool" where
  "is_hex64 s \<longleftrightarrow> length s = 64 \<and> list_all is_hex_char s"

definition resolve_approver_pubkey ::
    "(string \<Rightarrow> hex_string option) \<Rightarrow> string \<Rightarrow> (string option \<times> hex_string) list
     \<Rightarrow> (sink_error, hex_string) result" where
  "resolve_approver_pubkey pubkey spec candidates =
     (let spec = trim spec in
      if spec = [] then no_approver
      else if is_hex64 spec then
        bind_result (ok_or (pubkey spec) (InvalidInput ''invalid approver pubkey''))
          (\<lambda>pk. if list_ex (\<lambda>m. snd m = pk) candidates then Ok pk
                else Err (InvalidInput ''approval target is not an active member of the workflow scope''))
      else
        bind_result
          (ok_or (Option.bind (strip_prefix spec ''@'') (\<lambda>n. if trim n = [] then None else Some (trim n)))
             (InvalidInput ''approver must be a 64-character pubkey or @display-name''))
          (\<lambda>name.
             (case remdups (sort (map snd (filter
                     (\<lambda>m. is_some_and (\<lambda>d. eq_ignore_ascii_case d name) (fst m)) candidates))) of
                [pk] \<Rightarrow> Ok pk
              | [] \<Rightarrow> Err (InvalidInput (''approver @'' @ name @ '' is not an active member of the workflow scope''))
              | _ \<Rightarrow> Err (InvalidInput (''approver @'' @ name @ '' is ambiguous in the workflow scope'')))))"

definition int_text :: "int \<Rightarrow> string" where
  "int_text i = (if i < 0 then ''-'' else []) @ nat_to_string (nat \<bar>i\<bar>)"

definition build_approval_request_event ::
    "relay_env \<Rightarrow> approval_request \<Rightarrow> hex_string \<Rightarrow> string \<Rightarrow> hex_string option \<Rightarrow> (sink_error, event) result" where
  "build_approval_request_event env r approver digest agent =
     (if trim (aq_message r) = [] then Err EmptyContent
      else
        (let uuid_text = ge_uuid_text (re_engine env);
             tags = [[''d'', digest], [''p'', approver], [''workflow'', uuid_text (aq_workflow r)],
                     [''run'', uuid_text (aq_run r)], [''step'', aq_step_id r],
                     [''step_index'', int_text (aq_step_index r)],
                     [''expiration'', int_text (aq_expires_at r div 10 ^ 9)]]
               @ (case aq_channel r of Some ch \<Rightarrow> [[''h'', uuid_text ch]] | None \<Rightarrow> [])
               @ (case agent of Some a \<Rightarrow> [[''agent'', a]] | None \<Rightarrow> [])
         in ok_or (re_sign env KIND_WORKFLOW_APPROVAL_REQUESTED tags (aq_message r)) (EventBuild ''signing'')))"

section \<open>The sink\<close>

definition find_channel_for_sink ::
    "relay_env \<Rightarrow> wf_db \<Rightarrow> community_id \<Rightarrow> uuid \<Rightarrow> (sink_error, channel_row) result" where
  "find_channel_for_sink env db c ch =
     (case get_channel (ws_channels db) c ch of
        Err _ \<Rightarrow> Err (SinkChannelNotFound (ge_uuid_text (re_engine env) ch))
      | Ok r \<Rightarrow>
          if cr_archived_at r \<noteq> None then Err (ChannelArchived (ge_uuid_text (re_engine env) ch)) else Ok r)"

definition check_host :: "relay_env \<Rightarrow> community_id \<Rightarrow> (sink_error, string) result" where
  "check_host env c = ok_or (re_host env c) (SinkDatabase ''workflow run community is not mapped to a host'')"

definition named_members :: "relay_env \<Rightarrow> wf_db \<Rightarrow> community_id \<Rightarrow> uuid \<Rightarrow> (string \<times> hex_string) list" where
  "named_members env db c ch =
     List.map_filter
       (\<lambda>m. Option.bind (re_display_name env c (mr_pubkey m))
              (\<lambda>name. map_option (Pair name) (re_pubkey env (mr_pubkey m))))
       (get_members (ws_channels db) c ch)"

definition message_tags :: "relay_env \<Rightarrow> wf_db \<Rightarrow> community_id \<Rightarrow> uuid \<Rightarrow> string \<Rightarrow> hex_string \<Rightarrow> tag list" where
  "message_tags env db c ch txt author =
     [[''p'', author], [''h'', ge_uuid_text (re_engine env) ch], [''buzz:workflow'', ''true'']]
     @ map (\<lambda>pk. [''p'', pk])
         (filter (\<lambda>pk. pk \<noteq> author) (resolve_mention_pubkeys txt (named_members env db c ch)))"

definition top_level_params :: "(int \<Rightarrow> int option) \<Rightarrow> int \<Rightarrow> event \<Rightarrow> uuid \<Rightarrow> thread_params" where
  "top_level_params from_ts now ev ch =
     \<lparr>tp_event_id = ev_id ev,
      tp_event_created_at = unwrap_or now (from_ts (as_i64 (ev_created_at ev))),
      tp_channel_id = ch, tp_parent_event_id = None, tp_parent_event_created_at = None,
      tp_root_event_id = None, tp_root_event_created_at = None, tp_depth = 0, tp_broadcast = False\<rparr>"

definition may_post :: "relay_env \<Rightarrow> community_id \<Rightarrow> uuid \<Rightarrow> hex_string \<Rightarrow> channel_row \<Rightarrow> bool" where
  "may_post env c ch author channel \<longleftrightarrow>
     re_member_cached env c ch author \<or> visibility_as_str (cr_visibility channel) = ''open''"

definition relay_send_message ::
    "relay_env \<Rightarrow> nat \<Rightarrow> community_id \<Rightarrow> string \<Rightarrow> string \<Rightarrow> hex_string \<Rightarrow> wf_db
     \<Rightarrow> (sink_error, hex_string) result \<times> wf_db" where
  "relay_send_message env now c channel_id txt author db =
     (case
        bind_result (check_host env c) (\<lambda>_.
        if trim txt = [] then Err EmptyContent
        else
          bind_result (ok_or (re_uuid_parse env channel_id) (InvalidInput ''invalid UUID'')) (\<lambda>ch.
          bind_result (find_channel_for_sink env db c ch) (\<lambda>channel.
          bind_result (ok_or (re_pubkey env author) (InvalidInput ''invalid author pubkey'')) (\<lambda>author_hex.
          if \<not> may_post env c ch author_hex channel
          then Err (InvalidInput ''workflow owner does not have access to destination channel'')
          else
            bind_result (ok_or (re_sign env KIND_STREAM_MESSAGE (message_tags env db c ch txt author_hex) txt)
                           (EventBuild ''signing'')) (\<lambda>ev.
            bind_result (map_err (\<lambda>_. SinkDatabase ''insert event'')
                (insert_event_with_thread_metadata (ge_from_ts (re_engine env)) now c ev (Some ch)
                   (Some (top_level_params (ge_from_ts (re_engine env)) (int now) ev ch)) (ws_threads db)))
              (\<lambda>(_, threads). Ok (ev_id ev, threads)))))))
      of Err e \<Rightarrow> (Err e, db)
       | Ok (i, threads) \<Rightarrow> (Ok i, db\<lparr>ws_threads := threads\<rparr>))"

definition approver_candidates ::
    "relay_env \<Rightarrow> wf_db \<Rightarrow> community_id \<Rightarrow> uuid option \<Rightarrow> (sink_error, (string option \<times> hex_string) list) result" where
  "approver_candidates env db c channel =
     (case channel of
        Some ch \<Rightarrow>
          bind_result (find_channel_for_sink env db c ch)
            (\<lambda>_. Ok (List.map_filter
               (\<lambda>m. map_option (Pair (re_display_name env c (mr_pubkey m))) (re_pubkey env (mr_pubkey m)))
               (get_members (ws_channels db) c ch)))
      | None \<Rightarrow>
          Ok (map (\<lambda>pk. (re_display_name env c pk, pk))
                (List.map_filter (re_pubkey env) (re_relay_members env c))))"

definition requesting_agent :: "relay_env \<Rightarrow> community_id \<Rightarrow> hex_string \<Rightarrow> hex_string option" where
  "requesting_agent env c owner =
     Option.bind (re_agent_policy env c owner) (\<lambda>p. map_option (\<lambda>_. owner) (snd p))"

text \<open>\<open>token\<close> is the fresh secret; only its digest is stored.\<close>

definition relay_request_approval ::
    "relay_env \<Rightarrow> nat \<Rightarrow> string \<Rightarrow> approval_request \<Rightarrow> wf_db \<Rightarrow> (sink_error, hex_string) result \<times> wf_db" where
  "relay_request_approval env now token r db =
     (let c = aq_community r in
      case
        bind_result (check_host env c) (\<lambda>_.
        bind_result (ok_or (re_pubkey env (aq_owner r)) (InvalidInput ''invalid workflow owner pubkey'')) (\<lambda>owner.
        bind_result (approver_candidates env db c (aq_channel r)) (\<lambda>candidates.
        bind_result (resolve_approver_pubkey (re_pubkey env) (aq_spec r) candidates) (\<lambda>approver.
        bind_result (build_approval_request_event env r approver (re_sha env token) (requesting_agent env c owner)) (\<lambda>ev.
        bind_result (map_err (\<lambda>_. SinkDatabase ''create actionable approval'')
            (create_actionable_approval (ge_from_ts (re_engine env)) (re_sha env) now
               \<lparr>apx_community = c, apx_token = token, apx_workflow = aq_workflow r, apx_run = aq_run r,
                apx_step_id = aq_step_id r, apx_step_index = aq_step_index r, apx_spec = approver,
                apx_expires_at = aq_expires_at r, apx_request_event = ev, apx_channel = aq_channel r,
                apx_trace = aq_trace r\<rparr> db))
          (\<lambda>(_, db'). Ok (ev_id ev, db')))))))
      of Err e \<Rightarrow> (Err e, db)
       | Ok (i, db') \<Rightarrow> (Ok i, db'))"

definition relay_action_sink :: "relay_env \<Rightarrow> nat \<Rightarrow> string \<Rightarrow> action_sink" where
  "relay_action_sink env now token =
     \<lparr>snk_send_message = relay_send_message env now,
      snk_request_approval = relay_request_approval env now token\<rparr>"

end
