(* ===== verification/Workflow_Commands.thy ===== *)
theory Workflow_Commands
  imports Workflow_Sink
begin

text \<open>
  The doors through which clients reach the engine: the workflow handlers of
  \<open>crates/buzz-relay/src/handlers/command_executor.rs\<close>, the webhook endpoint of
  \<open>api/bridge.rs\<close> with \<open>webhook_secret.rs\<close>, and the clean-up after a departed member
  (\<open>side_effects.rs\<close>). A handler returns the reply, the run it spawns and the new state; an
  error carries no state because its transaction rolls back. Failing database connections and
  fan-out are left out. Digests are in lowercase hexadecimal.
\<close>

section \<open>Webhook secrets\<close>

definition secret_key :: string where "secret_key = ''_webhook_secret''"

definition inject_secret :: "string \<Rightarrow> json \<Rightarrow> json" where
  "inject_secret secret def =
     (case def of JObject kvs \<Rightarrow> JObject (member_insert secret_key (JString secret) kvs) | _ \<Rightarrow> def)"

definition extract_secret :: "json \<Rightarrow> string option" where
  "extract_secret def = Option.bind (json_get def secret_key) json_as_str"

definition strip_secret :: "json \<Rightarrow> json" where
  "strip_secret def = (case def of JObject kvs \<Rightarrow> JObject (filter (\<lambda>m. fst m \<noteq> secret_key) kvs) | _ \<Rightarrow> def)"

definition byte_xor :: "char \<Rightarrow> char \<Rightarrow> 8 word" where
  "byte_xor a b = Bit_Operations.xor (word_of_nat (of_char a)) (word_of_nat (of_char b))"

definition verify_secret :: "string \<Rightarrow> string \<Rightarrow> bool" where
  "verify_secret provided stored =
     (if length provided \<noteq> length stored then False
      else fold (\<lambda>(a, b) r. Bit_Operations.or r (byte_xor a b)) (zip provided stored) 0 = 0)"

section \<open>Tags and command events\<close>

datatype ingest_error = Rejected string | AuthFailed string | Internal string

record ingest_result =
  in_event_id :: hex_string
  in_accepted :: bool
  in_message :: string

definition extract_tag :: "event \<Rightarrow> string \<Rightarrow> string option" where
  "extract_tag ev name = find_map (\<lambda>t. if tag_kind t = name then tag_content t else None) (ev_tags ev)"

definition extract_p_tags :: "event \<Rightarrow> string list" where
  "extract_p_tags ev = List.map_filter (\<lambda>t. if tag_kind t = ''p'' then tag_content t else None) (ev_tags ev)"

definition extract_channel_id :: "(string \<Rightarrow> uuid option) \<Rightarrow> event \<Rightarrow> uuid option" where
  "extract_channel_id uuid_parse ev =
     find_map (\<lambda>t. if tag_kind t = ''h'' then Option.bind (tag_content t) uuid_parse else None) (ev_tags ev)"

definition duplicate_reply :: "event \<Rightarrow> ingest_result" where
  "duplicate_reply ev = \<lparr>in_event_id = ev_id ev, in_accepted = True, in_message = ''duplicate: already processed''\<rparr>"

definition json_reply :: "relay_env \<Rightarrow> event \<Rightarrow> (string \<times> json) list \<Rightarrow> ingest_result" where
  "json_reply env ev kvs =
     \<lparr>in_event_id = ev_id ev, in_accepted = True,
      in_message = ''response:'' @ wl_json_text (ge_lib (re_engine env)) (JObject kvs)\<rparr>"

definition D_TAG_MAX_LEN :: nat where "D_TAG_MAX_LEN = 1024"

definition same_coordinate :: "community_id \<Rightarrow> event \<Rightarrow> string \<Rightarrow> event_row \<Rightarrow> bool" where
  "same_coordinate c ev d r \<longleftrightarrow>
     row_community r = c \<and> ev_kind (row_event r) = ev_kind ev \<and> ev_pubkey (row_event r) = ev_pubkey ev
     \<and> row_d_tag r = Some d \<and> \<not> row_deleted r"

definition dominated_by :: "event \<Rightarrow> event_row \<Rightarrow> bool" where
  "dominated_by ev r \<longleftrightarrow>
     as_i64 (ev_created_at ev) < created_i64 r
     \<or> (as_i64 (ev_created_at ev) = created_i64 r \<and> ev_id (row_event r) \<le> ev_id ev)"

definition command_row :: "nat \<Rightarrow> community_id \<Rightarrow> event \<Rightarrow> uuid option \<Rightarrow> event_row" where
  "command_row now c ev ch =
     \<lparr>row_community = c, row_event = ev, row_received_at = now, row_channel = ch, row_deleted = False,
      row_d_tag = Event_Store.extract_d_tag ev, row_not_before = None\<rparr>"

definition insert_command :: "nat \<Rightarrow> community_id \<Rightarrow> event \<Rightarrow> uuid option \<Rightarrow> event_row list \<Rightarrow> event_row list option" where
  "insert_command now c ev ch rows =
     (if list_ex (same_row_key c ev) rows then None else Some (rows @ [command_row now c ev ch]))"

text \<open>\<open>None\<close> is the duplicate, \<open>Some\<close> the events that the handler commits.\<close>

definition persist_command_event ::
    "relay_env \<Rightarrow> nat \<Rightarrow> community_id \<Rightarrow> event \<Rightarrow> uuid option \<Rightarrow> event_row list
     \<Rightarrow> (ingest_error, event_row list option) result" where
  "persist_command_event env now c ev override rows =
     (let ch = (case override of Some ch \<Rightarrow> Some ch | None \<Rightarrow> extract_channel_id (re_uuid_parse env) ev) in
      if ge_from_ts (re_engine env) (as_i64 (ev_created_at ev)) = None then Err (Rejected ''invalid: bad timestamp'')
      else
        (case Event_Store.extract_d_tag ev of
           None \<Rightarrow> Ok (insert_command now c ev ch rows)
         | Some d \<Rightarrow>
             if D_TAG_MAX_LEN < length d then Err (Rejected ''invalid: d tag too long'')
             else
               (case newest_first (filter (same_coordinate c ev d) rows) of
                  [] \<Rightarrow> Ok (insert_command now c ev ch rows)
                | existing # _ \<Rightarrow>
                    if dominated_by ev existing then Ok None
                    else Ok (insert_command now c ev ch
                               (map (\<lambda>r. if same_coordinate c ev d r then r\<lparr>row_deleted := True\<rparr> else r) rows)))))"

definition events_of :: "wf_db \<Rightarrow> event_row list" where
  "events_of db = db_events (td_events (ws_threads db))"

definition with_events :: "event_row list \<Rightarrow> wf_db \<Rightarrow> wf_db" where
  "with_events rows db =
     db\<lparr>ws_threads := (ws_threads db)\<lparr>td_events := (td_events (ws_threads db))\<lparr>db_events := rows\<rparr>\<rparr>\<rparr>"

section \<open>Saving a definition\<close>

definition parse_uuid_tag :: "relay_env \<Rightarrow> string option \<Rightarrow> string \<Rightarrow> string \<Rightarrow> (ingest_error, uuid) result" where
  "parse_uuid_tag env v missing bad =
     bind_result (ok_or v (Rejected missing)) (\<lambda>s. ok_or (re_uuid_parse env s) (Rejected bad))"

definition may_save :: "wf_db \<Rightarrow> community_id \<Rightarrow> uuid \<Rightarrow> hex_string \<Rightarrow> workflow_def \<Rightarrow> bool" where
  "may_save db c ch author def \<longleftrightarrow>
     (requires_elevated_authority def \<longrightarrow>
        (case get_member_role (ws_channels db) c ch author of
           Some r \<Rightarrow> r = ''owner'' \<or> r = ''admin'' | None \<Rightarrow> False))"

definition existing_definition ::
    "wf_db \<Rightarrow> community_id \<Rightarrow> uuid \<Rightarrow> uuid \<Rightarrow> hex_string \<Rightarrow> (ingest_error, workflow_row option) result" where
  "existing_definition db c i ch author =
     (case get_workflow db c i of
        Err _ \<Rightarrow> Ok None
      | Ok w \<Rightarrow>
          if wr_owner w \<noteq> author \<or> wr_channel w \<noteq> Some ch
          then Err (Rejected ''forbidden: workflow belongs to a different owner or channel'')
          else Ok (Some w))"

text \<open>The stored definition, and the secret when the reply shows it; \<open>fresh\<close> is a new secret.\<close>

definition with_secret :: "string \<Rightarrow> workflow_def \<Rightarrow> workflow_row option \<Rightarrow> json \<Rightarrow> json \<times> string option" where
  "with_secret fresh def existing j =
     (if wd_trigger def = Webhook then
        (case Option.bind existing (\<lambda>w. extract_secret (wr_definition w)) of
           Some s \<Rightarrow> (inject_secret s j, None)
         | None \<Rightarrow> (inject_secret fresh j, Some fresh))
      else (j, None))"

definition upsert_error :: "db_error \<Rightarrow> ingest_error" where
  "upsert_error e =
     (case e of
        AccessDenied _ \<Rightarrow> Rejected ''forbidden: workflow belongs to a different owner or channel''
      | _ \<Rightarrow> Internal ''error: db upsert_workflow'')"

definition handle_workflow_def ::
    "relay_env \<Rightarrow> nat \<Rightarrow> string \<Rightarrow> community_id \<Rightarrow> hex_string \<Rightarrow> event \<Rightarrow> engine_state
     \<Rightarrow> (ingest_error, ingest_result \<times> engine_state) result" where
  "handle_workflow_def env now fresh c author ev g =
     (let db = gs_db g in
      bind_result (parse_uuid_tag env (extract_tag ev ''h'') ''invalid: missing h tag (channel_id)''
                     ''invalid: bad channel_id format'') (\<lambda>ch.
      bind_result (parse_uuid_tag env (extract_tag ev ''d'') ''invalid: missing d tag (workflow_id)''
                     ''invalid: bad workflow_id format'') (\<lambda>i.
      if \<not> re_member_cached env c ch author then Err (Rejected ''forbidden: not a member of this channel'')
      else
        bind_result (map_err (\<lambda>e. Rejected (''invalid: workflow YAML parse error: '' @ workflow_error_text e))
                       (re_parse_yaml env (ev_content ev))) (\<lambda>(def, j).
        if \<not> may_save db c ch author def
        then Err (Rejected ''forbidden: workflows with call_webhook actions require the owner or admin role'')
        else
          bind_result (existing_definition db c i ch author) (\<lambda>existing.
          (let (j', secret) = with_secret fresh def existing j in
           bind_result (persist_command_event env now c ev None (events_of db)) (\<lambda>persisted.
           case persisted of
             None \<Rightarrow> Ok (duplicate_reply ev, g)
           | Some rows \<Rightarrow>
               bind_result (map_err (\<lambda>_. Rejected ''invalid: workflow channel not found'')
                              (get_channel (ws_channels db) c ch)) (\<lambda>_.
               bind_result (map_err upsert_error
                   (upsert_workflow (int now) c i (Some ch) author
                      (unwrap_or (wd_name def) (extract_tag ev ''name'')) j' (re_hash env j')
                      (with_events rows db)))
                 (\<lambda>db'. Ok (json_reply env ev
                           ((''workflow_id'', JString (ge_uuid_text (re_engine env) i))
                            # (case secret of Some s \<Rightarrow> [(''webhook_secret'', JString s)] | None \<Rightarrow> [])),
                         invalidate_channel_workflows c ch (g\<lparr>gs_db := db'\<rparr>)))))))))))"

section \<open>Starting a run\<close>

definition webhook_fields :: "relay_env \<Rightarrow> json option \<Rightarrow> (string \<times> string) list" where
  "webhook_fields env body =
     (case body of
        Some (JObject kvs) \<Rightarrow>
          fold (\<lambda>(k, v). hm_insert k (case v of JString s \<Rightarrow> s | _ \<Rightarrow> wl_json_text (ge_lib (re_engine env)) v)) kvs []
      | _ \<Rightarrow> [])"

definition is_active :: "workflow_row \<Rightarrow> bool" where
  "is_active w \<longleftrightarrow> wr_enabled w \<and> wr_status w = WfActive"

definition handle_workflow_trigger ::
    "relay_env \<Rightarrow> nat \<Rightarrow> uuid \<Rightarrow> community_id \<Rightarrow> hex_string \<Rightarrow> event \<Rightarrow> engine_state
     \<Rightarrow> (ingest_error, ingest_result \<times> run_task option \<times> engine_state) result" where
  "handle_workflow_trigger env now fresh c author ev g =
     (let db = gs_db g;
          reference = (case extract_tag ev ''d'' of Some d \<Rightarrow> Some d | None \<Rightarrow> extract_tag ev ''e'') in
      bind_result (parse_uuid_tag env reference ''invalid: missing workflow reference (d or e tag)''
                     ''invalid: bad workflow_id format'') (\<lambda>i.
      bind_result (map_err (\<lambda>_. Rejected ''invalid: workflow not found'') (get_workflow db c i)) (\<lambda>w.
          if wr_owner w \<noteq> author then Err (Rejected ''forbidden: not authorized to trigger this workflow'')
          else if \<not> is_active w then Err (Rejected ''forbidden: workflow is disabled or inactive'')
          else
            bind_result (ok_or (ge_parse_def (re_engine env) (wr_definition w))
                           (Internal ''error: corrupt workflow definition'')) (\<lambda>def.
            bind_result (ok_or (wr_channel w) (Rejected ''forbidden: workflow has no channel scope'')) (\<lambda>ch.
            if \<not> is_ok (check_owner_authority db c ch (wr_owner w) def)
            then Err (Rejected ''forbidden: not authorized to trigger this workflow'')
            else
              bind_result (persist_command_event env now c ev (wr_channel w) (events_of db)) (\<lambda>persisted.
              case persisted of
                None \<Rightarrow> Ok (duplicate_reply ev, None, g)
              | Some rows \<Rightarrow>
                  (let tc = default_trigger_context
                         \<lparr>tc_channel_id := ge_uuid_text (re_engine env) ch, tc_author := author,
                          tc_webhook_fields :=
                            (if ev_content ev = [] then [] else webhook_fields env (re_json_parse env (ev_content ev)))\<rparr>
                   in bind_result (map_err (\<lambda>_. Internal ''error: db create_workflow_run'')
                          (create_workflow_run (int now) fresh c i (Some (ev_id ev)) (Some (trigger_context_json tc))
                             (with_events rows db)))
                        (\<lambda>(run, db').
                          Ok (json_reply env ev [(''run_id'', JString (ge_uuid_text (re_engine env) run))],
                              Some \<lparr>rt_community = c, rt_run = run, rt_workflow = i, rt_def = def, rt_context = tc\<rparr>,
                              g\<lparr>gs_db := db'\<rparr>)))))))))"

datatype webhook_reply = WebhookAccepted uuid | WebhookRefused nat string

definition webhook_not_found :: webhook_reply where
  "webhook_not_found = WebhookRefused 404 ''workflow not found''"

text \<open>The host header is resolved to a community before; \<open>None\<close> is a host that maps to none.\<close>

definition workflow_webhook ::
    "relay_env \<Rightarrow> int \<Rightarrow> uuid \<Rightarrow> string \<Rightarrow> community_id option \<Rightarrow> string option \<Rightarrow> string option \<Rightarrow> string
     \<Rightarrow> engine_state \<Rightarrow> webhook_reply \<times> run_task option \<times> engine_state" where
  "workflow_webhook env now fresh id_text community header_secret query_secret body g =
     (let db = gs_db g; refuse = (\<lambda>r. (r, None, g)) in
      case re_uuid_parse env id_text of
        None \<Rightarrow> refuse (WebhookRefused 400 ''invalid workflow UUID'')
      | Some i \<Rightarrow>
      (case community of
        None \<Rightarrow> refuse webhook_not_found
      | Some c \<Rightarrow>
      (case get_workflow db c i of
        Err _ \<Rightarrow> refuse webhook_not_found
      | Ok w \<Rightarrow>
      (case ge_parse_def (re_engine env) (wr_definition w) of
        None \<Rightarrow> refuse (WebhookRefused 500 ''corrupt workflow definition'')
      | Some def \<Rightarrow>
      if wd_trigger def \<noteq> Webhook
      then refuse (WebhookRefused 400 ''workflow does not have a webhook trigger'')
      else
      (let provided = unwrap_or [] (case header_secret of Some s \<Rightarrow> Some s | None \<Rightarrow> query_secret) in
       case extract_secret (wr_definition w) of
        None \<Rightarrow> refuse (WebhookRefused 401 ''webhook secret required but not configured'')
      | Some secret \<Rightarrow>
      if \<not> verify_secret provided secret then refuse (WebhookRefused 401 ''authentication failed'')
      else if body \<noteq> [] \<and> re_json_parse env body = None
      then refuse (WebhookRefused 400 ''invalid JSON body'')
      else
      (let body_json = (if body = [] then None else re_json_parse env body);
           tc = default_trigger_context
                  \<lparr>tc_channel_id := (case wr_channel w of Some ch \<Rightarrow> ge_uuid_text (re_engine env) ch | None \<Rightarrow> []),
                   tc_webhook_fields := webhook_fields env body_json\<rparr>
       in if \<not> is_active w then refuse webhook_not_found
          else
            (case wr_channel w of
               None \<Rightarrow> refuse webhook_not_found
             | Some ch \<Rightarrow>
                 if \<not> is_ok (check_owner_authority db c ch (wr_owner w) def) then refuse webhook_not_found
                 else
                   (case create_workflow_run now fresh c i None (Some (trigger_context_json tc)) db of
                      Err _ \<Rightarrow> refuse (WebhookRefused 500 ''db error'')
                    | Ok (run, db') \<Rightarrow>
                        (WebhookAccepted run,
                         Some \<lparr>rt_community = c, rt_run = run, rt_workflow = i, rt_def = def, rt_context = tc\<rparr>,
                         g\<lparr>gs_db := db'\<rparr>)))))))))"

definition disable_departed_member_workflows ::
    "community_id \<Rightarrow> uuid \<Rightarrow> hex_string \<Rightarrow> engine_state \<Rightarrow> engine_state" where
  "disable_departed_member_workflows c ch target g =
     (let (n, db) = disable_workflows_for_owner_in_channel c ch target (gs_db g);
          g' = g\<lparr>gs_db := db\<rparr>
      in if n = 0 then g' else invalidate_channel_workflows c ch g')"

end
