(* ===== verification/Workflow_Approvals.thy ===== *)
theory Workflow_Approvals
  imports Workflow_Commands
begin

text \<open>
  Decisions on approval requests and the resumption of a run, from
  \<open>crates/buzz-relay/src/handlers/command_executor.rs\<close>, and the tasks that the doors spawn.
\<close>

section \<open>Who may decide\<close>

definition check_approver_spec :: "string \<Rightarrow> hex_string \<Rightarrow> (ingest_error, unit) result" where
  "check_approver_spec spec requester =
     (let spec = trim spec in
      if spec = [] \<or> spec = ''any'' then Ok ()
      else if is_hex64 spec then
        (if ascii_lower requester = ascii_lower spec then Ok ()
         else Err (Rejected ''forbidden: not the designated approver for this request''))
      else Err (Rejected ''forbidden: approver spec is not yet supported''))"

definition approval_note :: "event \<Rightarrow> string option" where
  "approval_note ev = (if trim (ev_content ev) \<noteq> [] then Some (ev_content ev) else None)"

definition approval_request_event_id :: "approval_row \<Rightarrow> (ingest_error, hex_string) result" where
  "approval_request_event_id a =
     bind_result (ok_or (ap_request_event a) (Rejected ''invalid: approval has no actionable request event''))
       (\<lambda>i. if length i \<noteq> 64 then Err (Rejected ''invalid: approval request event id is malformed'') else Ok i)"

definition load_pending_approval ::
    "int \<Rightarrow> wf_db \<Rightarrow> community_id \<Rightarrow> event \<Rightarrow> hex_string
     \<Rightarrow> (ingest_error, string \<times> string \<times> approval_row) result" where
  "load_pending_approval now db c ev actor =
     bind_result (ok_or (extract_tag ev ''d'') (Rejected ''invalid: missing approval digest d tag'')) (\<lambda>digest.
     if \<not> is_hex64 digest
     then Err (Rejected ''invalid: approval digest must be 64 hexadecimal characters'')
     else
       (case get_approval_by_stored_hash db c (ascii_lower digest) of
          Err _ \<Rightarrow> Err (Rejected ''invalid: approval not found'')
        | Ok a \<Rightarrow>
            if ap_status a \<noteq> ApprovalPending
            then Err (Rejected (''invalid: approval already '' @ approval_status_str (ap_status a)))
            else if ap_expires_at a < now then Err (Rejected ''invalid: approval token has expired'')
            else bind_result (check_approver_spec (ap_spec a) actor) (\<lambda>_. Ok (ascii_lower digest, digest, a))))"

definition build_approval_lifecycle_event ::
    "relay_env \<Rightarrow> kind \<Rightarrow> string \<Rightarrow> approval_row \<Rightarrow> hex_string \<Rightarrow> uuid option \<Rightarrow> hex_string option
     \<Rightarrow> (ingest_error, event) result" where
  "build_approval_lifecycle_event env k digest a actor channel target =
     (if k \<notin> {KIND_WORKFLOW_APPROVAL_GRANTED, KIND_WORKFLOW_APPROVAL_DENIED, KIND_WORKFLOW_APPROVAL_DELEGATED}
      then Err (Internal ''error: unsupported approval lifecycle kind'')
      else
        bind_result (approval_request_event_id a) (\<lambda>request.
          (let uuid_text = ge_uuid_text (re_engine env);
               tags = [[''d'', digest], [''e'', request], [''workflow'', uuid_text (ap_workflow a)],
                       [''run'', uuid_text (ap_run a)], [''step'', ap_step_id a], [''actor'', actor]]
                 @ (if is_hex64 (ap_spec a) then [[''p'', ap_spec a]] else [])
                 @ (case channel of Some ch \<Rightarrow> [[''h'', uuid_text ch]] | None \<Rightarrow> [])
                 @ (case target of Some t \<Rightarrow> [[''target'', t]] | None \<Rightarrow> [])
           in ok_or (re_sign env k tags []) (Internal ''error: sign approval lifecycle''))))"

section \<open>Granting and denying\<close>

record resume_task =
  rs_community :: community_id
  rs_run :: uuid
  rs_workflow :: uuid
  rs_index :: nat

definition decision_error :: "db_error \<Rightarrow> ingest_error" where
  "decision_error e =
     (case e of
        InvalidData m \<Rightarrow> Rejected (''invalid: '' @ m)
      | NotFound m \<Rightarrow> Rejected (''invalid: '' @ m)
      | _ \<Rightarrow> Internal ''error: apply approval decision'')"

definition request_event_of :: "wf_db \<Rightarrow> community_id \<Rightarrow> hex_string \<Rightarrow> (ingest_error, event_row) result" where
  "request_event_of db c i =
     ok_or (get_event_by_id (td_events (ws_threads db)) c i)
       (Rejected ''invalid: approval request event not found'')"

definition already_stored :: "wf_db \<Rightarrow> community_id \<Rightarrow> event \<Rightarrow> bool" where
  "already_stored db c ev \<longleftrightarrow> get_event_by_id (td_events (ws_threads db)) c (ev_id ev) \<noteq> None"

text \<open>
  \<open>granted\<close> chooses between the two statuses that the code calls the handler with. The index
  of the step is read after the decision is committed.
\<close>

definition terminal_decision ::
    "relay_env \<Rightarrow> nat \<Rightarrow> bool \<Rightarrow> community_id \<Rightarrow> hex_string \<Rightarrow> event \<Rightarrow> wf_db
     \<Rightarrow> (ingest_error, (approval_row \<times> wf_db) option) result" where
  "terminal_decision env now granted c actor ev db =
     bind_result (load_pending_approval (int now) db c ev actor) (\<lambda>(token_hash, digest, a).
     bind_result (approval_request_event_id a) (\<lambda>request_id.
     bind_result (request_event_of db c request_id) (\<lambda>request.
     bind_result (build_approval_lifecycle_event env
         (if granted then KIND_WORKFLOW_APPROVAL_GRANTED else KIND_WORKFLOW_APPROVAL_DENIED)
         digest a actor (row_channel request) None) (\<lambda>lifecycle.
     case apply_approval_decision (ge_from_ts (re_engine env)) now
            \<lparr>dp_community = c, dp_token_hash = token_hash,
             dp_decision = (if granted then DecGrant actor (approval_note ev) else DecDeny actor (approval_note ev)),
             dp_command_event = ev, dp_lifecycle_event = lifecycle, dp_task_event = None,
             dp_channel = row_channel request\<rparr> db of
       Err e \<Rightarrow> Err (decision_error e)
     | Ok (DecisionDuplicate, _) \<Rightarrow> Ok None
     | Ok (DecisionApplied _, db') \<Rightarrow> Ok (Some (a, db'))))))"

definition handle_terminal_approval ::
    "relay_env \<Rightarrow> nat \<Rightarrow> bool \<Rightarrow> community_id \<Rightarrow> hex_string \<Rightarrow> event \<Rightarrow> wf_db
     \<Rightarrow> (ingest_error, ingest_result \<times> resume_task option) result \<times> wf_db" where
  "handle_terminal_approval env now granted c actor ev db =
     (if already_stored db c ev then (Ok (duplicate_reply ev, None), db)
      else
        (case terminal_decision env now granted c actor ev db of
           Err e \<Rightarrow> (Err e, db)
         | Ok None \<Rightarrow> (Ok (duplicate_reply ev, None), db)
         | Ok (Some (a, db')) \<Rightarrow>
             (let reply = json_reply env ev
                    [(''status'', JString (if granted then ''granted'' else ''denied'')),
                     (''run_id'', JString (ge_uuid_text (re_engine env) (ap_run a)))]
              in if \<not> granted then (Ok (reply, None), db')
                 else if ap_step_index a < 0 then (Err (Internal ''error: negative approval step index''), db')
                 else (Ok (reply, Some \<lparr>rs_community = c, rs_run = ap_run a, rs_workflow = ap_workflow a,
                                        rs_index = nat (ap_step_index a) + 1\<rparr>), db'))))"

section \<open>Passing on\<close>

definition extract_pass_target :: "relay_env \<Rightarrow> event \<Rightarrow> (ingest_error, hex_string) result" where
  "extract_pass_target env ev =
     (case extract_p_tags ev of
        [target] \<Rightarrow> ok_or (re_pubkey env target) (Rejected ''invalid: bad approval pass target pubkey'')
      | _ \<Rightarrow> Err (Rejected ''invalid: approval pass requires exactly one p target''))"

definition validate_pass_target_policy ::
    "hex_string \<Rightarrow> hex_string option \<Rightarrow> hex_string \<Rightarrow> bool \<Rightarrow> hex_string option \<Rightarrow> string \<Rightarrow> string option
     \<Rightarrow> (ingest_error, unit) result" where
  "validate_pass_target_policy actor requester target is_channel_member agent_owner policy presence =
     (if actor = target then Err (Rejected ''invalid: cannot pass an approval to yourself'')
      else if requester = Some target
      then Err (Rejected ''invalid: cannot pass an approval back to its requesting agent'')
      else if \<not> is_channel_member
      then Err (Rejected ''forbidden: target agent is not an active channel member'')
      else
        (case agent_owner of
           None \<Rightarrow> Err (Rejected ''invalid: approval pass target is not a registered agent'')
         | Some owner \<Rightarrow>
             bind_result
               (if policy = ''anyone'' then Ok ()
                else if policy = ''owner_only'' then
                  (if actor = owner then Ok ()
                   else Err (Rejected ''forbidden: only the target agent owner may invoke it''))
                else if policy = ''nobody''
                then Err (Rejected ''forbidden: target agent does not accept invocations'')
                else Err (Rejected ''forbidden: target agent has an unsupported invocation policy''))
               (\<lambda>_. if presence = Some ''online'' \<or> presence = Some ''away'' then Ok ()
                    else Err (Rejected ''invalid: target agent is offline''))))"

definition requester_agent_pubkey :: "relay_env \<Rightarrow> event \<Rightarrow> hex_string option" where
  "requester_agent_pubkey env ev =
     find_map (\<lambda>t. case t of
                  k # v # _ \<Rightarrow> if k = ''agent'' then re_pubkey env v else None
                | _ \<Rightarrow> None) (ev_tags ev)"

definition delegated_content :: "event \<Rightarrow> string option \<Rightarrow> string" where
  "delegated_content request note =
     (case note of
        Some n \<Rightarrow>
          if trim n = [] then ev_content request
          else ev_content request @ [CHR 0x0A, CHR 0x0A] @ ''Pass note: '' @ trim n
      | None \<Rightarrow> ev_content request)"

definition build_delegated_task_event ::
    "relay_env \<Rightarrow> approval_row \<Rightarrow> event \<Rightarrow> uuid \<Rightarrow> hex_string \<Rightarrow> hex_string \<Rightarrow> string option
     \<Rightarrow> (ingest_error, event) result" where
  "build_delegated_task_event env a request ch target actor note =
     (let uuid_text = ge_uuid_text (re_engine env) in
      ok_or (re_sign env KIND_STREAM_MESSAGE
               [[''h'', uuid_text ch], [''e'', ev_id request, [], ''reply''], [''p'', target],
                [''workflow'', uuid_text (ap_workflow a)], [''run'', uuid_text (ap_run a)],
                [''step'', ap_step_id a], [''actor'', actor]]
               (delegated_content request note))
        (Internal ''error: sign delegated task''))"

definition handle_approval_pass ::
    "relay_env \<Rightarrow> nat \<Rightarrow> community_id \<Rightarrow> hex_string \<Rightarrow> event \<Rightarrow> wf_db
     \<Rightarrow> (ingest_error, ingest_result \<times> wf_db) result" where
  "handle_approval_pass env now c actor ev db =
     (if already_stored db c ev then Ok (duplicate_reply ev, db)
      else
        bind_result (extract_pass_target env ev) (\<lambda>target.
        bind_result (load_pending_approval (int now) db c ev actor) (\<lambda>(token_hash, digest, a).
        bind_result (approval_request_event_id a) (\<lambda>request_id.
        if extract_tag ev ''e'' \<noteq> Some request_id
        then Err (Rejected ''invalid: approval pass e tag does not match its request'')
        else
        bind_result (request_event_of db c request_id) (\<lambda>request.
        bind_result (ok_or (row_channel request) (Rejected ''invalid: only channel-scoped approvals can be passed'')) (\<lambda>ch.
        if extract_tag ev ''h'' \<noteq> Some (ge_uuid_text (re_engine env) ch)
        then Err (Rejected ''invalid: approval pass h tag does not match its request channel'')
        else
        bind_result (ok_or (re_agent_policy env c target) (Rejected ''invalid: pass target does not exist'')) (\<lambda>(policy, owner).
        bind_result (validate_pass_target_policy actor (requester_agent_pubkey env (row_event request)) target
            (re_member_cached env c ch target) owner policy (re_presence env c target)) (\<lambda>_.
        bind_result (build_approval_lifecycle_event env KIND_WORKFLOW_APPROVAL_DELEGATED digest a actor (Some ch) (Some target)) (\<lambda>lifecycle.
        bind_result (build_delegated_task_event env a (row_event request) ch target actor (approval_note ev)) (\<lambda>task.
        case apply_approval_decision (ge_from_ts (re_engine env)) now
               \<lparr>dp_community = c, dp_token_hash = token_hash, dp_decision = DecPass actor target (approval_note ev),
                dp_command_event = ev, dp_lifecycle_event = lifecycle, dp_task_event = Some task,
                dp_channel = Some ch\<rparr> db of
          Err e \<Rightarrow> Err (decision_error e)
        | Ok (DecisionDuplicate, _) \<Rightarrow> Ok (duplicate_reply ev, db)
        | Ok (DecisionApplied applied, db') \<Rightarrow>
            Ok (json_reply env ev
                  [(''status'', JString ''delegated''),
                   (''run_id'', JString (ge_uuid_text (re_engine env) (ap_run a))),
                   (''target'', JString target),
                   (''task_event_id'',
                      (case ad_task_event applied of
                         Some t \<Rightarrow> JString (ev_id (st_event t)) | None \<Rightarrow> JNull))], db')))))))))))"

section \<open>The spawned tasks\<close>

text \<open>\<open>now\<close> is the clock when the run is marked, \<open>later\<close> when its end is recorded.\<close>

definition finish ::
    "int \<Rightarrow> community_id \<Rightarrow> uuid \<Rightarrow> json list option \<Rightarrow> exec_outcome \<times> exec_state \<Rightarrow> exec_state" where
  "finish later c run_id existing p =
     (snd p)\<lparr>xs_db := finalize_run later c run_id (fst p) existing (xs_db (snd p))\<rparr>"

definition perform_event_run ::
    "exec_env \<Rightarrow> (nat \<Rightarrow> step_world) \<Rightarrow> bool \<Rightarrow> int \<Rightarrow> int \<Rightarrow> run_task \<Rightarrow> exec_state \<Rightarrow> exec_state" where
  "perform_event_run env world permit now later t s =
     finish later (rt_community t) (rt_run t) None
       (execute_run env world permit now (rt_community t) (rt_run t) (rt_def t) (rt_context t) s)"

definition perform_manual_run ::
    "exec_env \<Rightarrow> (nat \<Rightarrow> step_world) \<Rightarrow> bool \<Rightarrow> int \<Rightarrow> int \<Rightarrow> run_task \<Rightarrow> exec_state \<Rightarrow> exec_state" where
  "perform_manual_run env world permit now later t s =
     finish later (rt_community t) (rt_run t) None
       (execute_from_step env world permit now (rt_community t) (rt_run t) (rt_def t) (rt_context t) 0 None s)"

definition trace_output :: "json \<Rightarrow> (string \<times> json) option" where
  "trace_output entry =
     (case (Option.bind (json_get entry ''step_id'') json_as_str, json_get entry ''output'') of
        (Some i, Some v) \<Rightarrow> Some (i, v)
      | _ \<Rightarrow> None)"

definition outputs_of_trace :: "json list \<Rightarrow> step_outputs" where
  "outputs_of_trace tr = fold (\<lambda>(i, v). hm_insert i v) (List.map_filter trace_output tr) []"

definition resume_workflow_after_approval ::
    "(json \<Rightarrow> workflow_def option) \<Rightarrow> exec_env \<Rightarrow> (nat \<Rightarrow> step_world) \<Rightarrow> bool \<Rightarrow> int \<Rightarrow> int \<Rightarrow> resume_task
     \<Rightarrow> exec_state \<Rightarrow> exec_state" where
  "resume_workflow_after_approval parse_def env world permit now later t s =
     (let c = rs_community t in
      case get_workflow_run (xs_db s) c (rs_run t) of
        Err _ \<Rightarrow> s
      | Ok run \<Rightarrow>
          if rr_status run \<noteq> RunWaitingApproval then s
          else
            (case get_workflow (xs_db s) c (rs_workflow t) of
               Err _ \<Rightarrow> s
             | Ok w \<Rightarrow>
                 (case parse_def (wr_definition w) of
                    None \<Rightarrow>
                      s\<lparr>xs_db := keep_on_error (xs_db s)
                          (update_workflow_run now c (rs_run t) RunFailed (rr_current_step run) (rr_trace run)
                             (Some ''definition parse error'') (xs_db s))\<rparr>
                  | Some def \<Rightarrow>
                      finish later c (rs_run t) (json_as_array (rr_trace run))
                        (execute_from_step env world permit now c (rs_run t) def
                           (unwrap_or default_trigger_context (Option.bind (rr_trigger_context run) parse_trigger_context))
                           (rs_index t)
                           (Some (outputs_of_trace (unwrap_or [] (json_as_array (rr_trace run))))) s))))"

end
