(* ===== verification/Workflow_Run_Laws.thy ===== *)
theory Workflow_Run_Laws
  imports Workflow_Approvals
begin

text \<open>
  What holds of a run of a workflow. A step loop keeps what every dispatched action keeps
  (\<open>dispatch_law\<close>); an action sink that keeps the run rows (\<open>lawful_sink\<close>) lets every run end. Both
  interfaces are interpreted on the executor and on the relay's sink.
\<close>

section \<open>What the step loop keeps\<close>

locale dispatch_law =
  fixes env :: exec_env and world :: "nat \<Rightarrow> step_world" and c :: community_id and run_id :: uuid
    and tc :: trigger_context
    and ok :: "action_def \<Rightarrow> bool"
    and rel :: "exec_state \<Rightarrow> exec_state \<Rightarrow> bool"
  assumes rel_refl: "rel s s"
    and rel_trans: "rel s t \<Longrightarrow> rel t u \<Longrightarrow> rel s u"
    and ok_resolved: "ok a \<Longrightarrow> resolve_step_templates (xe_lib env) tc outs a = Ok a' \<Longrightarrow> ok a'"
    and dispatched: "ok a \<Longrightarrow> rel s (snd (dispatch_action env (world i) c run_id tc tr sid i a s))"
begin

lemma timed: "ok a \<Longrightarrow> rel s (snd (timed_dispatch env (world i) c run_id tc tr st i a s))"
  using dispatched [of a s i tr "sp_id st"] rel_refl [of s]
  by (auto simp: timed_dispatch_def Let_def split: step_timing.splits prod.splits dispatch_result.splits)

lemma loop:
  "list_all (\<lambda>st. ok (sp_action st)) steps \<Longrightarrow>
     rel s (snd (steps_loop env world c run_id tc start i steps outs tr s))"
proof (induction steps arbitrary: i outs tr s)
  case Nil
  then show ?case by (simp add: rel_refl)
next
  case (Cons step steps)
  then have step: "ok (sp_action step)" and rest: "list_all (\<lambda>st. ok (sp_action st)) steps" by auto
  have one: "rel s (snd (timed_dispatch env (world i) c run_id tc tr step i a s))"
    if "resolve_step_templates (xe_lib env) tc outs (sp_action step) = Ok a" for a
    by (rule timed) (rule ok_resolved [OF step that])
  from one rest show ?case
    by (auto simp: rel_refl split: result.splits bool.splits prod.splits dispatch_result.splits step_result.splits
        intro: Cons.IH rel_trans [OF _ Cons.IH])
qed

lemma run: "list_all (\<lambda>st. ok (sp_action st)) (wd_steps def) \<Longrightarrow>
    rel s (snd (execute_steps env world c run_id def tc start outs s))"
  unfolding execute_steps_def by (rule loop)

end

lemma resolved_kind:
  "resolve_step_templates lib tc outs a = Ok a' \<Longrightarrow> is_call_webhook a' = is_call_webhook a"
  by (cases a) (auto simp: resolve_step_templates_def Let_def is_call_webhook_def result_simps)

section \<open>Outgoing requests\<close>

text \<open>A request goes to an address that its host resolved to, and none of those is private.\<close>

definition pinned_public :: "step_world \<Rightarrow> http_request \<Rightarrow> bool" where
  "pinned_public w q =
     (case sw_resolve w (hq_host q) (hq_port q) of
        None \<Rightarrow> False
      | Some addrs \<Rightarrow> hq_ip q \<in> set addrs \<and> \<not> list_ex is_private_ip addrs)"

definition requests_ok :: "(nat \<Rightarrow> step_world) \<Rightarrow> exec_state \<Rightarrow> exec_state \<Rightarrow> bool" where
  "requests_ok world s s' \<longleftrightarrow>
     (\<exists>qs. xs_http s' = xs_http s @ qs \<and> list_all (\<lambda>q. \<exists>i. pinned_public (world i) q) qs)"

lemma requests_ok_refl: "requests_ok world s s"
  by (auto simp: requests_ok_def)

lemma requests_ok_trans: "requests_ok world s t \<Longrightarrow> requests_ok world t u \<Longrightarrow> requests_ok world s u"
  by (auto simp: requests_ok_def)

lemma check_ssrf_Ok: "check_ssrf w host port = Ok ip \<Longrightarrow>
    \<exists>addrs. sw_resolve w host port = Some addrs \<and> ip \<in> set addrs \<and> \<not> list_ex is_private_ip addrs"
  by (auto simp: check_ssrf_def split: option.splits if_splits)

lemma call_webhook_requests: "requests_ok world s (snd (call_webhook_impl env (world i) url meth headers body s))"
  using check_ssrf_Ok [of "world i"]
  by (fastforce simp: call_webhook_impl_def requests_ok_def pinned_public_def Let_def
      split: option.splits result.splits prod.splits)

lemma send_message_http [simp]: "xs_http (snd (send_message_step env w c run_id tc txt ch s)) = xs_http s"
  by (auto simp: send_message_step_def Let_def split: result.splits prod.splits)

lemma request_approval_http [simp]:
  "xs_http (snd (request_approval_step env w c run_id sid i tr spec message tmo s)) = xs_http s"
  by (auto simp: request_approval_step_def Let_def split: result.splits prod.splits)

lemma add_reaction_http [simp]: "xs_http (snd (add_reaction_impl env w mid emoji s)) = xs_http s"
  by (auto simp: add_reaction_impl_def Let_def split: option.splits)

lemma quiet_action:
  "\<not> is_call_webhook a \<Longrightarrow> xs_http (snd (dispatch_action env w c run_id tc tr sid i a s)) = xs_http s"
  by (cases a) (simp_all add: dispatch_action_def is_call_webhook_def completed_step_def case_prod_unfold Let_def)

lemma dispatch_requests: "requests_ok world s (snd (dispatch_action env (world i) c run_id tc tr sid i a s))"
proof (cases "is_call_webhook a")
  case True
  then show ?thesis
    by (cases a) (simp_all add: dispatch_action_def is_call_webhook_def completed_step_def call_webhook_requests)
next
  case False
  then show ?thesis by (simp add: requests_ok_def quiet_action)
qed

interpretation requests: dispatch_law env world c run_id tc "\<lambda>_. True" "requests_ok world"
  for env world c run_id tc
  by unfold_locales (auto intro: requests_ok_refl requests_ok_trans dispatch_requests)

interpretation quiet: dispatch_law env world c run_id tc "\<lambda>a. \<not> is_call_webhook a" "\<lambda>s s'. xs_http s' = xs_http s"
  for env world c run_id tc
  by unfold_locales (auto simp: resolved_kind quiet_action)

lemma finish_http [simp]: "xs_http (finish later c run_id existing p) = xs_http (snd p)"
  by (simp add: finish_def)

definition run_requests_ok :: "(nat \<Rightarrow> step_world) \<Rightarrow> workflow_def \<Rightarrow> exec_state \<Rightarrow> exec_state \<Rightarrow> bool" where
  "run_requests_ok world def s s' \<longleftrightarrow>
     requests_ok world s s' \<and> (requires_elevated_authority def \<or> xs_http s' = xs_http s)"

lemma execute_steps_requests:
  "run_requests_ok world def s (snd (execute_steps env world c run_id def tc start outs s))"
proof -
  have "requests_ok world s (snd (execute_steps env world c run_id def tc start outs s))"
    by (rule requests.run) (simp add: list_all_iff)
  moreover have "xs_http (snd (execute_steps env world c run_id def tc start outs s)) = xs_http s"
    if "\<not> requires_elevated_authority def"
    by (rule quiet.run) (use that in \<open>simp add: requires_elevated_authority_def list_all_iff list_ex_iff\<close>)
  ultimately show ?thesis by (auto simp: run_requests_ok_def)
qed

lemma run_requests_db [simp]: "run_requests_ok world def (s\<lparr>xs_db := db\<rparr>) s' = run_requests_ok world def s s'"
  by (simp add: run_requests_ok_def requests_ok_def)

lemma run_requests_refl: "run_requests_ok world def s s"
  by (simp add: run_requests_ok_def requests_ok_refl)

lemma execute_run_requests:
  "run_requests_ok world def s (snd (execute_run env world permit now c run_id def tc s))"
  using execute_steps_requests [of world def "s\<lparr>xs_db := db\<rparr>" for db]
  by (auto simp: execute_run_def run_requests_refl split: result.splits)

lemma execute_from_step_requests:
  "run_requests_ok world def s (snd (execute_from_step env world permit now c run_id def tc start outs s))"
  using execute_steps_requests [of world def "s\<lparr>xs_db := db\<rparr>" for db]
  by (auto simp: execute_from_step_def run_requests_refl Let_def split: result.splits)

lemma run_requests_finish:
  "run_requests_ok world def s (snd p) \<Longrightarrow> run_requests_ok world def s (finish later c run_id existing p)"
  by (simp add: run_requests_ok_def requests_ok_def)

lemma resume_requests: "requests_ok world s (resume_workflow_after_approval parse_def env world permit now later t s)"
proof -
  have "requests_ok world s (finish later c i ex (execute_from_step env world permit now c i def tc start outs s))"
    for c i ex def tc start outs
    using run_requests_finish [OF execute_from_step_requests] unfolding run_requests_ok_def by blast
  then show ?thesis
    by (auto simp: resume_workflow_after_approval_def Let_def requests_ok_refl requests_ok_def [of _ _ "_\<lparr>xs_db := _\<rparr>"]
        split: result.splits option.splits)
qed


section \<open>A sink keeps the runs\<close>

definition run_key :: "run_row \<Rightarrow> community_id \<times> uuid" where
  "run_key r = (rr_community r, rr_id r)"

definition run_keys :: "wf_db \<Rightarrow> (community_id \<times> uuid) list" where
  "run_keys db = map run_key (ws_runs db)"

locale lawful_sink =
  fixes sink :: action_sink
  assumes send_keeps: "run_keys (snd (snk_send_message sink c ch txt author db)) = run_keys db"
    and approval_keeps: "run_keys (snd (snk_request_approval sink req db)) = run_keys db"
begin

lemma send_step:
  "sw_sink w = Some sink \<Longrightarrow>
     run_keys (xs_db (snd (send_message_step env w c run_id tc txt ch s))) = run_keys (xs_db s)"
  using send_keeps
  by (auto simp: send_message_step_def Let_def ok_or_def result_simps case_prod_unfold split: result.splits)

lemma approval_step:
  "sw_sink w = Some sink \<Longrightarrow>
     run_keys (xs_db (snd (request_approval_step env w c run_id sid i tr spec message tmo s))) = run_keys (xs_db s)"
  using approval_keeps
  by (auto simp: request_approval_step_def Let_def ok_or_def result_simps case_prod_unfold
      split: result.splits if_splits)

end

lemma call_webhook_db [simp]: "xs_db (snd (call_webhook_impl env w url meth headers body s)) = xs_db s"
  by (auto simp: call_webhook_impl_def Let_def split: option.splits result.splits prod.splits)

lemma add_reaction_db [simp]: "xs_db (snd (add_reaction_impl env w mid emoji s)) = xs_db s"
  by (auto simp: add_reaction_impl_def Let_def split: option.splits)

lemma run_keys_update_rows [simp]:
  "(\<And>r. run_key (f r) = run_key r) \<Longrightarrow> map run_key (snd (update_rows p f rows)) = map run_key rows"
  by (induction rows) (auto simp: update_rows_def)

lemma relay_send_keeps: "run_keys (snd (relay_send_message env now c ch txt author db)) = run_keys db"
  by (auto simp: relay_send_message_def run_keys_def split: result.splits prod.splits)

lemma create_actionable_keys:
  "create_actionable_approval from_ts sha now p db = Ok (x, db') \<Longrightarrow> run_keys db' = run_keys db"
  by (auto simp: create_actionable_approval_def Let_def result_simps run_keys_def case_prod_unfold run_key_def
      split: if_splits)

lemma relay_approval_result:
  "relay_request_approval env now token r db = (Ok i, db') \<Longrightarrow>
     \<exists>p x. create_actionable_approval (ge_from_ts (re_engine env)) (re_sha env) now p db = Ok (x, db')
       \<and> apx_community p = aq_community r \<and> apx_token p = token \<and> apx_run p = aq_run r
       \<and> (\<exists>candidates. approver_candidates env db (aq_community r) (aq_channel r) = Ok candidates
            \<and> resolve_approver_pubkey (re_pubkey env) (aq_spec r) candidates = Ok (apx_spec p))"
  by (fastforce simp: relay_request_approval_def Let_def result_simps case_prod_unfold split: result.splits)

lemma relay_approval_error: "relay_request_approval env now token r db = (Err e, db') \<Longrightarrow> db' = db"
  by (auto simp: relay_request_approval_def Let_def split: result.splits prod.splits)

lemma relay_approval_keeps: "run_keys (snd (relay_request_approval env now token req db)) = run_keys db"
proof (cases "relay_request_approval env now token req db")
  case (Pair res db')
  then show ?thesis
    by (cases res) (auto dest!: relay_approval_result relay_approval_error create_actionable_keys)
qed

interpretation relay_sink: lawful_sink "relay_action_sink env now token"
  for env now token
  by unfold_locales (simp_all add: relay_action_sink_def relay_send_keeps relay_approval_keeps)

section \<open>Every run ends\<close>

definition relay_world ::
    "relay_env \<Rightarrow> (nat \<Rightarrow> nat) \<Rightarrow> (nat \<Rightarrow> string) \<Rightarrow> (nat \<Rightarrow> step_world) \<Rightarrow> nat \<Rightarrow> step_world" where
  "relay_world renv nows tokens w i = (w i)\<lparr>sw_sink := Some (relay_action_sink renv (nows i) (tokens i))\<rparr>"

lemma relay_dispatch_keeps:
  "run_keys (xs_db (snd (dispatch_action env (relay_world renv nows tokens w i) c run_id tc tr sid n a s)))
     = run_keys (xs_db s)"
  by (cases a) (simp_all add: dispatch_action_def completed_step_def case_prod_unfold Let_def
      relay_sink.send_step relay_sink.approval_step relay_world_def)

interpretation keeps: dispatch_law env "relay_world renv nows tokens w" c run_id tc "\<lambda>_. True"
    "\<lambda>s s'. run_keys (xs_db s') = run_keys (xs_db s)"
  for env renv nows tokens w c run_id tc
  by unfold_locales (simp_all add: relay_dispatch_keeps)

text \<open>A timeout that \<open>chrono::TimeDelta::seconds\<close> can represent.\<close>

definition timeout_fits :: "action_def \<Rightarrow> bool" where
  "timeout_fits a =
     (case a of
        RequestApproval _ _ tmo \<Rightarrow>
          (case parse_duration_secs (unwrap_or ''24h'' tmo) of
             Ok n \<Rightarrow> i64_max < n \<or> n \<le> i64_max div 1000
           | Err _ \<Rightarrow> True)
      | _ \<Rightarrow> True)"

lemma timeout_fits_resolved:
  "resolve_step_templates lib tc outs a = Ok a' \<Longrightarrow> timeout_fits a' = timeout_fits a"
  by (cases a) (auto simp: resolve_step_templates_def Let_def timeout_fits_def result_simps)

lemma fitting_dispatch: "timeout_fits a \<Longrightarrow> fst (dispatch_action env w c run_id tc tr sid i a s) \<noteq> DispatchPanicked"
  by (cases a) (auto simp: dispatch_action_def completed_step_def case_prod_unfold Let_def timeout_fits_def
      request_approval_step_def split: result.splits)

lemma fitting_timed: "timeout_fits a \<Longrightarrow> fst (timed_dispatch env w c run_id tc tr st i a s) \<noteq> DispatchPanicked"
  using fitting_dispatch [of a env w c run_id tc tr "sp_id st" i s]
  by (auto simp: timed_dispatch_def Let_def split: step_timing.splits prod.splits dispatch_result.splits)

lemma fitting_loop:
  "list_all (\<lambda>st. timeout_fits (sp_action st)) steps \<Longrightarrow>
     fst (steps_loop env world c run_id tc start i steps outs tr s) \<noteq> ExecPanicked"
proof (induction steps arbitrary: i outs tr s)
  case Nil
  then show ?case by simp
next
  case (Cons step steps)
  have "fst (timed_dispatch env (world i) c run_id tc tr step i a s) \<noteq> DispatchPanicked"
    if "resolve_step_templates (xe_lib env) tc outs (sp_action step) = Ok a" for a
    by (rule fitting_timed) (use Cons.prems timeout_fits_resolved [OF that] in simp)
  with Cons show ?case
    by (auto split: result.splits bool.splits prod.splits dispatch_result.splits step_result.splits)
qed

fun final_status :: "exec_outcome \<Rightarrow> run_status" where
  "final_status (ExecOk r) = successful_run_status r"
| "final_status (ExecErr e p) = RunFailed"
| "final_status ExecPanicked = RunRunning"

lemma run_exists_iff: "is_ok (get_workflow_run db c i) \<longleftrightarrow> (c, i) \<in> set (run_keys db)"
  by (force simp: get_workflow_run_def run_keys_def run_key_def run_at_def ok_or_def find_None_iff find_Some_iff
      image_iff in_set_conv_nth split: option.splits)

lemma find_map_update:
  assumes "\<And>r. p (f r) = p r" and "find p rows = Some r"
  shows "find p (map (\<lambda>r. if p r then f r else r) rows) = Some (f r)"
  using assms(2) by (induction rows) (auto simp: assms(1) split: if_splits)

lemma update_workflow_run_status:
  assumes "(c, i) \<in> set (run_keys db)"
  shows "\<exists>db' r. update_workflow_run now c i st step tr err db = Ok db' \<and> get_workflow_run db' c i = Ok r
      \<and> rr_status r = st \<and> run_keys db' = run_keys db"
proof -
  from assms obtain r where r: "find (run_at c i) (ws_runs db) = Some r"
    by (auto simp flip: run_exists_iff simp: get_workflow_run_def result_simps)
  then have hit: "filter (run_at c i) (ws_runs db) \<noteq> []" by (auto simp: find_Some_iff filter_empty_conv)
  show ?thesis
    using find_map_update [OF _ r] hit
    by (auto simp: update_workflow_run_def update_rows_def get_workflow_run_def ok_or_def Let_def run_at_def
        run_keys_def run_key_def)
qed

lemma finalize_status:
  assumes "(c, i) \<in> set (run_keys db)" and "outcome \<noteq> ExecPanicked"
  shows "\<exists>r. get_workflow_run (finalize_run now c i outcome ex db) c i = Ok r \<and> rr_status r = final_status outcome"
proof (cases outcome)
  case (ExecOk x)
  then show ?thesis
    using update_workflow_run_status [OF assms(1), of now "successful_run_status x" "int (xr_step_index x)"
        "JArray (unwrap_or [] ex @ xr_trace x)" None]
    by (auto simp: finalize_run_def keep_on_error_def)
next
  case (ExecErr e p)
  then show ?thesis
    using update_workflow_run_status [OF assms(1), of now RunFailed "int (pp_step_index p)"
        "JArray (unwrap_or [] ex @ pp_trace p)" "Some (workflow_error_text e)"]
    by (auto simp: finalize_run_def keep_on_error_def)
qed (use assms(2) in simp)

lemma update_workflow_run_keys:
  "update_workflow_run now c i st step tr err db = Ok db' \<Longrightarrow> run_keys db' = run_keys db"
  by (auto simp: update_workflow_run_def Let_def run_keys_def case_prod_unfold run_key_def split: if_splits)

lemma execute_keeps_run:
  assumes "(c, i) \<in> set (run_keys (xs_db s))"
  shows "(c, i) \<in> set (run_keys (xs_db (snd (execute_run env (relay_world renv nows tokens w) permit now c i def tc s))))"
    and "(c, i) \<in> set (run_keys (xs_db (snd
           (execute_from_step env (relay_world renv nows tokens w) permit now c i def tc start outs s))))"
  using assms update_workflow_run_keys
  by (auto simp: execute_run_def execute_from_step_def Let_def keeps.run list_all_iff split: result.splits)

lemma execute_not_panicked:
  assumes "list_all (\<lambda>st. timeout_fits (sp_action st)) (wd_steps def)"
  shows "fst (execute_run env world permit now c i def tc s) \<noteq> ExecPanicked"
    and "fst (execute_from_step env world permit now c i def tc start outs s) \<noteq> ExecPanicked"
  using fitting_loop [OF assms]
  by (auto simp: execute_run_def execute_from_step_def execute_steps_def Let_def split: result.splits)

lemma final_status_cases: "outcome \<noteq> ExecPanicked \<Longrightarrow>
    final_status outcome \<in> {RunCompleted, RunFailed, RunWaitingApproval}"
  by (cases outcome) (simp_all add: successful_run_status_def)

definition run_ended :: "wf_db \<Rightarrow> community_id \<Rightarrow> uuid \<Rightarrow> bool" where
  "run_ended db c i \<longleftrightarrow>
     (case get_workflow_run db c i of
        Ok r \<Rightarrow> rr_status r \<in> {RunCompleted, RunFailed, RunWaitingApproval} | Err _ \<Rightarrow> False)"

lemma finish_ended:
  "(c, i) \<in> set (run_keys (xs_db (snd p))) \<Longrightarrow> fst p \<noteq> ExecPanicked \<Longrightarrow>
     run_ended (xs_db (finish later c i ex p)) c i"
  using finalize_status [of c i "xs_db (snd p)" "fst p" later ex] final_status_cases [of "fst p"]
  by (auto simp: finish_def run_ended_def)


section \<open>Suspension and resumption\<close>

lemma outputs_of_trace_append:
  "outputs_of_trace (tr @ [e]) =
     (case trace_output e of Some (i, v) \<Rightarrow> hm_insert i v (outputs_of_trace tr) | None \<Rightarrow> outputs_of_trace tr)"
  by (simp add: outputs_of_trace_def map_filter_def split: option.split)

lemma trace_output_simps [simp]:
  "trace_output (completed_entry i v) = Some (i, v)"
  "trace_output (skipped_entry i) = None"
  "trace_output (waiting_trace_entry i q) = None"
  by (simp_all add: trace_output_def completed_entry_def skipped_entry_def waiting_trace_entry_def json_as_str_def)

lemma hm_get_insert_fun: "hm_get (hm_insert k v m) = (hm_get m)(k \<mapsto> v)"
  by (auto simp: fun_eq_iff)

lemma loop_trace_outputs:
  "fst (steps_loop env world c run_id tc start i steps outs tr s) = ExecOk r \<Longrightarrow>
     hm_get (outputs_of_trace tr) = hm_get outs \<Longrightarrow>
     hm_get (outputs_of_trace (xr_trace r)) = hm_get (xr_step_outputs r)"
proof (induction steps arbitrary: i outs tr s)
  case Nil
  then show ?case by auto
next
  case (Cons step steps)
  note IH = Cons.IH and prems = Cons.prems
  show ?case
  proof (cases "i < start")
    case True
    with prems show ?thesis by (auto intro: IH)
  next
    case False
    with prems show ?thesis
      by (auto split: result.splits bool.splits prod.splits dispatch_result.splits step_result.splits
          intro!: IH simp: outputs_of_trace_append hm_get_insert_fun)
  qed
qed

lemma loop_suspends_inside:
  "fst (steps_loop env world c run_id tc start i steps outs tr s) = ExecOk r \<Longrightarrow>
     xr_request_event r \<noteq> None \<Longrightarrow> xr_step_index r < i + length steps"
proof (induction steps arbitrary: i outs tr s)
  case Nil
  then show ?case by auto
next
  case (Cons step steps)
  from Cons.prems show ?case
    by (auto split: if_splits result.splits bool.splits prod.splits dispatch_result.splits step_result.splits
        dest!: Cons.IH)
qed

lemma loop_skips:
  "k \<le> length steps \<Longrightarrow> i + k \<le> start \<Longrightarrow>
     steps_loop env world c run_id tc start i steps outs tr s
       = steps_loop env world c run_id tc start (i + k) (drop k steps) outs tr s"
proof (induction k arbitrary: i steps)
  case 0
  then show ?case by simp
next
  case (Suc k)
  then obtain step rest where steps: "steps = step # rest" by (cases steps) auto
  from Suc.prems steps Suc.IH [of rest "Suc i"] show ?case by simp
qed

lemma execute_steps_from:
  "k \<le> length (wd_steps def) \<Longrightarrow>
     execute_steps env world c run_id def tc k outs s
       = steps_loop env world c run_id tc k k (drop k (wd_steps def)) (unwrap_or [] outs) [] s"
  unfolding execute_steps_def using loop_skips [of k "wd_steps def" 0 k] by simp

lemma string_members_strings: "string_members (map (\<lambda>(k, v). (k, JString v)) kvs) = Some kvs"
  by (induction kvs) (auto simp: json_as_str_def)

lemma trigger_context_roundtrip: "parse_trigger_context (trigger_context_json tc) = Some tc"
  by (simp add: parse_trigger_context_def trigger_context_json_def json_str_field_def json_as_str_def
      string_members_strings)

lemma execute_run_loop:
  "execute_run env world permit now c run_id def tc s = (ExecOk r, s') \<Longrightarrow>
     \<exists>s0. fst (steps_loop env world c run_id tc 0 0 (wd_steps def) [] [] s0) = ExecOk r"
  by (auto simp: execute_run_def execute_steps_def unwrap_or_def split: if_splits result.splits) (metis fst_conv)


section \<open>A sample run\<close>

definition sample_lib :: wf_lib where
  "sample_lib = \<lparr>wl_npub = (\<lambda>_. None), wl_json_text = (\<lambda>_. []), wl_context = (\<lambda>_. True),
     wl_eval = (\<lambda>_ _ _. Evaluated True)\<rparr>"

definition sample_env :: exec_env where
  "sample_env = \<lparr>xe_lib = sample_lib, xe_uuid_text = nat_to_string, xe_uuid_parse = parse_digits,
     xe_url_parse = (\<lambda>u. Some (Some u, Some 443)), xe_method_ok = (\<lambda>_. True), xe_utf8_lossy = id,
     xe_json_parse = (\<lambda>_. None), xe_checked_add = (\<lambda>a b. Some (a + b)), xe_var = (\<lambda>_. None),
     xe_default_timeout_secs = 300\<rparr>"

definition sample_sink :: action_sink where
  "sample_sink = \<lparr>snk_send_message = (\<lambda>_ _ _ _ db. (Ok ''m'', db)), snk_request_approval = (\<lambda>_ db. (Ok ''q'', db))\<rparr>"

definition sample_world :: "nat \<Rightarrow> step_world" where
  "sample_world i = \<lparr>sw_now = 0, sw_timing = InTime, sw_resolve = (\<lambda>_ _. None), sw_http = (\<lambda>_. None),
     sw_relay = (\<lambda>_. None), sw_sink = Some sample_sink\<rparr>"

definition sample_step :: "string \<Rightarrow> action_def \<Rightarrow> wf_step" where
  "sample_step i a = \<lparr>sp_id = i, sp_name = None, sp_if_expr = None, sp_timeout_secs = None, sp_action = a\<rparr>"

definition sample_def :: "action_def list \<Rightarrow> workflow_def" where
  "sample_def actions = \<lparr>wd_name = ''w'', wd_description = None, wd_trigger = MessagePosted None,
     wd_steps = map (\<lambda>(i, a). sample_step (nat_to_string i) a) (enumerate 0 actions), wd_enabled = True\<rparr>"

definition sample_workflow :: workflow_row where
  "sample_workflow = \<lparr>wr_id = 7, wr_community = 1, wr_name = ''w'', wr_owner = ''alice'', wr_channel = Some 5,
     wr_definition = JNull, wr_hash = [], wr_status = WfActive, wr_enabled = True, wr_created_at = 0,
     wr_updated_at = 0\<rparr>"

definition sample_run :: run_row where
  "sample_run = \<lparr>rr_id = 9, rr_community = 1, rr_workflow = 7, rr_status = RunPending, rr_trigger_event = None,
     rr_current_step = 0, rr_trace = JArray [], rr_trigger_context = None, rr_started_at = None,
     rr_completed_at = None, rr_error = None, rr_created_at = 0\<rparr>"

definition sample_db :: wf_db where
  "sample_db = \<lparr>ws_channels = \<lparr>cdb_channels = [], cdb_members = [], cdb_users = []\<rparr>,
     ws_threads = \<lparr>td_events = \<lparr>db_events = [], db_mentions = []\<rparr>, td_threads = []\<rparr>,
     ws_workflows = [sample_workflow], ws_runs = [sample_run], ws_approvals = [], ws_fires = [], ws_archived = []\<rparr>"

definition sample_state :: exec_state where
  "sample_state = \<lparr>xs_db = sample_db, xs_http = [], xs_relay = []\<rparr>"

definition sample_task :: "action_def list \<Rightarrow> run_task" where
  "sample_task actions = \<lparr>rt_community = 1, rt_run = 9, rt_workflow = 7, rt_def = sample_def actions,
     rt_context = default_trigger_context\<rparr>"

lemmas sample_defs = sample_lib_def sample_env_def sample_sink_def sample_world_def sample_step_def sample_def_def
  sample_workflow_def sample_run_def sample_db_def sample_state_def sample_task_def

lemma day_in_secs: "parse_duration_secs ''24h'' = Ok 86400"
proof -
  have "nat_to_string 24 = ''24''" by code_simp
  with duration_units [of 24] show ?thesis by (simp add: u64_max_def)
qed

lemma default_timeout_fits: "timeout_fits (RequestApproval spec message None)"
  by (simp add: timeout_fits_def unwrap_or_def day_in_secs i64_max_def)



end
