(* ===== verification/Workflow_Authority_Laws.thy ===== *)
theory Workflow_Authority_Laws
  imports Workflow_Run_Laws
begin

text \<open>
  Authority: whatever door a run comes through, its owner holds the role that the definition needs
  at that moment. The doors are events, scheduler ticks, manual triggers and webhooks.
\<close>

section \<open>The doors\<close>

datatype door =
    EventDoor stored_event "uuid \<Rightarrow> uuid"
  | TickDoor "uuid \<Rightarrow> uuid"
  | TriggerDoor hex_string event uuid
  | WebhookDoor string "string option" "string option" string uuid

fun door_runs :: "relay_env \<Rightarrow> nat \<Rightarrow> community_id \<Rightarrow> door \<Rightarrow> engine_state \<Rightarrow> run_task list \<times> engine_state" where
  "door_runs env now c (EventDoor st fresh) g = on_event (re_engine env) (int now) fresh c st g"
| "door_runs env now c (TickDoor fresh) g = scheduler_tick (re_engine env) (int now) fresh g"
| "door_runs env now c (TriggerDoor author ev fresh) g =
     (case handle_workflow_trigger env now fresh c author ev g of
        Ok (_, Some t, g') \<Rightarrow> ([t], g') | Ok (_, None, g') \<Rightarrow> ([], g') | Err _ \<Rightarrow> ([], g))"
| "door_runs env now c (WebhookDoor i header query body fresh) g =
     (case workflow_webhook env (int now) fresh i (Some c) header query body g of
        (_, Some t, g') \<Rightarrow> ([t], g') | (_, None, g') \<Rightarrow> ([], g'))"

text \<open>The rows a door may take a workflow from: an event may find a row in the cache.\<close>

definition rows_seen :: "door \<Rightarrow> engine_state \<Rightarrow> workflow_row set" where
  "rows_seen d g =
     {w \<in> set (ws_workflows (gs_db g)). is_active w}
     \<union> (case d of EventDoor _ _ \<Rightarrow> \<Union> ((set \<circ> snd) ` set (gs_cache g)) | _ \<Rightarrow> {})"

definition authorised_by :: "relay_env \<Rightarrow> wf_db \<Rightarrow> run_task \<Rightarrow> workflow_row \<Rightarrow> bool" where
  "authorised_by env db t w \<longleftrightarrow>
     wr_id w = rt_workflow t \<and> ge_parse_def (re_engine env) (wr_definition w) = Some (rt_def t)
     \<and> (\<exists>ch role. get_member_role (ws_channels db) (rt_community t) ch (wr_owner w) = Some role
          \<and> (requires_elevated_authority (rt_def t) \<longrightarrow> role = ''owner'' \<or> role = ''admin''))"

lemma check_owner_authority_iff:
  "is_ok (check_owner_authority db c ch owner def) \<longleftrightarrow>
     (\<exists>role. get_member_role (ws_channels db) c ch owner = Some role
        \<and> (requires_elevated_authority def \<longrightarrow> role = ''owner'' \<or> role = ''admin''))"
  by (auto simp: check_owner_authority_def owner_authority_allows_def split: option.splits)

lemma authorisedI:
  "is_ok (check_owner_authority db (rt_community t) ch (wr_owner w) (rt_def t)) \<Longrightarrow> wr_id w = rt_workflow t \<Longrightarrow>
     ge_parse_def (re_engine env) (wr_definition w) = Some (rt_def t) \<Longrightarrow> authorised_by env db t w"
  by (auto simp: check_owner_authority_iff authorised_by_def)

lemma authorised_channels: "ws_channels db = ws_channels db' \<Longrightarrow> authorised_by env db t w = authorised_by env db' t w"
  by (simp add: authorised_by_def)

section \<open>Each door\<close>

lemma create_run_channels: "create_workflow_run now i c w ev ctx db = Ok (r, db') \<Longrightarrow> ws_channels db' = ws_channels db"
  by (auto simp: create_workflow_run_def split: if_splits)

lemma trigger_workflow_channels:
  "ws_channels (snd (trigger_workflow env now fresh c ch st w db)) = ws_channels db"
  by (auto simp: trigger_workflow_def Let_def dest: create_run_channels split: option.split result.split)

lemma trigger_workflow_some:
  "fst (trigger_workflow env now fresh c ch st w db) = Some t \<Longrightarrow>
     ge_parse_def env (wr_definition w) = Some (rt_def t) \<and> rt_workflow t = wr_id w \<and> rt_community t = c
     \<and> is_ok (check_owner_authority db c ch (wr_owner w) (rt_def t))"
  by (cases "ge_parse_def env (wr_definition w)")
    (auto simp: trigger_workflow_def Let_def split: if_split_asm result.split_asm prod.split_asm)

lemma trigger_workflow_result:
  assumes "trigger_workflow (re_engine env) now fresh c ch st w db = (t, db')"
  shows "ws_channels db' = ws_channels db \<and> (case t of Some t \<Rightarrow> authorised_by env db t w | None \<Rightarrow> True)"
proof -
  have "authorised_by env db u w" if "t = Some u" for u
    using trigger_workflow_some [of "re_engine env" now fresh c ch st w db u] that assms
    by (intro authorisedI [where ch = ch]) auto
  then show ?thesis
    using trigger_workflow_channels [of "re_engine env" now fresh c ch st w db] assms by (auto split: option.split)
qed

lemma trigger_workflows_authorised:
  "t \<in> set (fst (trigger_workflows (re_engine env) now fresh c ch st ws db)) \<Longrightarrow>
     \<exists>w \<in> set ws. authorised_by env db t w"
proof (induction ws arbitrary: db)
  case Nil
  then show ?case by simp
next
  case (Cons w ws)
  obtain u db1 where one: "trigger_workflow (re_engine env) now fresh c ch st w db = (u, db1)" by fastforce
  note step = trigger_workflow_result [OF one]
  from Cons.prems one have "u = Some t \<or> t \<in> set (fst (trigger_workflows (re_engine env) now fresh c ch st ws db1))"
    by (auto split: option.splits prod.splits)
  then show ?case
  proof
    assume "u = Some t"
    with step show ?thesis by auto
  next
    assume "t \<in> set (fst (trigger_workflows (re_engine env) now fresh c ch st ws db1))"
    from Cons.IH [OF this] obtain w' where "w' \<in> set ws" "authorised_by env db1 t w'" by blast
    then show ?thesis using step authorised_channels [of db1 db env t w'] by auto
  qed
qed

lemma enabled_channel_rows: "w \<in> set (list_enabled_channel_workflows db c ch) \<Longrightarrow>
    w \<in> set (ws_workflows db) \<and> is_active w"
  by (auto simp: list_enabled_channel_workflows_def is_active_def dest!: in_set_takeD)

lemma all_enabled_rows: "w \<in> set (list_all_enabled_workflows db) \<Longrightarrow> w \<in> set (ws_workflows db) \<and> is_active w"
  by (auto simp: list_all_enabled_workflows_def is_active_def dest!: in_set_takeD)

lemma hm_get_rows: "hm_get m k = Some rows \<Longrightarrow> w \<in> set rows \<Longrightarrow> w \<in> \<Union> ((set \<circ> snd) ` set m)"
  by (force simp: hm_get_def dest!: map_of_SomeD)

lemma on_event_rows:
  "\<exists>ch ws. fst (on_event env now fresh c st g) \<in> {[], fst (trigger_workflows env now fresh c ch st ws (gs_db g))}
     \<and> (hm_get (gs_cache g) (c, ch) = Some ws \<or> ws = list_enabled_channel_workflows (gs_db g) c ch)"
  by (auto simp: on_event_def case_prod_unfold Let_def split: option.split)

lemma event_door:
  assumes "t \<in> set (fst (door_runs env now c (EventDoor st fresh) g))"
  shows "\<exists>w \<in> rows_seen (EventDoor st fresh) g. authorised_by env (gs_db g) t w"
proof -
  from on_event_rows [of "re_engine env" "int now" fresh c st g] assms obtain ch ws
    where t: "t \<in> set (fst (trigger_workflows (re_engine env) (int now) fresh c ch st ws (gs_db g)))"
      and ws: "hm_get (gs_cache g) (c, ch) = Some ws \<or> ws = list_enabled_channel_workflows (gs_db g) c ch"
    by auto
  from trigger_workflows_authorised [OF t] obtain w where w: "w \<in> set ws" "authorised_by env (gs_db g) t w" by blast
  from ws w(1) have "w \<in> rows_seen (EventDoor st fresh) g"
    unfolding rows_seen_def using hm_get_rows enabled_channel_rows by fastforce
  with w(2) show ?thesis by blast
qed

lemma claim_channels: "ws_channels (snd (claim_scheduled_workflow_fire now c i at db)) = ws_channels db"
  by (simp add: claim_scheduled_workflow_fire_def Let_def)

lemma attach_channels: "attach_scheduled_workflow_run c i at run db = Ok (b, db') \<Longrightarrow> ws_channels db' = ws_channels db"
  by (auto simp: attach_scheduled_workflow_run_def Let_def case_prod_unfold split: if_splits)

lemma resolve_fire_db [simp]: "gs_db (snd (resolve_fire env now w def g)) = gs_db g"
  by (auto simp: resolve_fire_def Let_def case_prod_unfold split: trigger_def.splits option.splits)

lemma resolve_fire_same_db: "resolve_fire env now w def g = (x, g1) \<Longrightarrow> gs_db g1 = gs_db g"
  using resolve_fire_db [of env now w def g] by simp

lemma claim_same_channels: "claim_scheduled_workflow_fire now c i at d = (x, db1) \<Longrightarrow> ws_channels db1 = ws_channels d"
  using claim_channels [of now c i at d] by simp

lemma advance_anchor_db [simp]: "gs_db (advance_anchor k now w g) = gs_db g"
  by (simp add: advance_anchor_def)

lemma tick_workflow_channels: "ws_channels (gs_db (snd (tick_workflow env now fresh w g))) = ws_channels (gs_db g)"
  by (auto simp: tick_workflow_def Let_def dest!: create_run_channels attach_channels resolve_fire_same_db
      claim_same_channels split: option.split result.split prod.split)

lemma tick_workflow_some:
  "fst (tick_workflow env now fresh w g) = Some t \<Longrightarrow>
     \<exists>ch. ge_parse_def env (wr_definition w) = Some (rt_def t) \<and> rt_workflow t = wr_id w \<and> rt_community t = wr_community w
       \<and> is_ok (check_owner_authority (gs_db g) (wr_community w) ch (wr_owner w) (rt_def t))"
  by (auto simp: tick_workflow_def Let_def dest!: resolve_fire_same_db
      split: option.split_asm if_split_asm result.split_asm prod.split_asm)

lemma tick_workflow_result:
  assumes "tick_workflow (re_engine env) now fresh w g = (t, g')"
  shows "ws_channels (gs_db g') = ws_channels (gs_db g)
    \<and> (case t of Some t \<Rightarrow> authorised_by env (gs_db g) t w | None \<Rightarrow> True)"
proof -
  have "authorised_by env (gs_db g) u w" if "t = Some u" for u
  proof -
    from tick_workflow_some [of "re_engine env" now fresh w g u] that assms obtain ch
      where "ge_parse_def (re_engine env) (wr_definition w) = Some (rt_def u)" "rt_workflow u = wr_id w"
        "rt_community u = wr_community w"
        "is_ok (check_owner_authority (gs_db g) (wr_community w) ch (wr_owner w) (rt_def u))"
      by auto
    then show ?thesis by (intro authorisedI [where ch = ch]) auto
  qed
  then show ?thesis
    using tick_workflow_channels [of "re_engine env" now fresh w g] assms by (auto split: option.split)
qed

lemma tick_workflows_authorised:
  "t \<in> set (fst (tick_workflows (re_engine env) now fresh ws g)) \<Longrightarrow> \<exists>w \<in> set ws. authorised_by env (gs_db g) t w"
proof (induction ws arbitrary: g)
  case Nil
  then show ?case by simp
next
  case (Cons w ws)
  obtain u g1 where one: "tick_workflow (re_engine env) now fresh w g = (u, g1)" by fastforce
  note step = tick_workflow_result [OF one]
  from Cons.prems one have "u = Some t \<or> t \<in> set (fst (tick_workflows (re_engine env) now fresh ws g1))"
    by (auto split: option.splits prod.splits)
  then show ?case
  proof
    assume "u = Some t"
    with step show ?thesis by auto
  next
    assume "t \<in> set (fst (tick_workflows (re_engine env) now fresh ws g1))"
    from Cons.IH [OF this] obtain w' where "w' \<in> set ws" "authorised_by env (gs_db g1) t w'" by blast
    then show ?thesis using step authorised_channels [of "gs_db g1" "gs_db g" env t w'] by auto
  qed
qed

lemma tick_door:
  "t \<in> set (fst (door_runs env now c (TickDoor fresh) g)) \<Longrightarrow>
     \<exists>w \<in> rows_seen (TickDoor fresh) g. authorised_by env (gs_db g) t w"
  by (auto simp: scheduler_tick_def rows_seen_def case_prod_unfold Let_def
      dest!: tick_workflows_authorised all_enabled_rows)

lemma get_workflow_row: "get_workflow db c i = Ok w \<Longrightarrow> w \<in> set (ws_workflows db) \<and> wr_id w = i"
  by (auto simp: get_workflow_def result_simps workflow_at_def find_Some_iff)

lemma trigger_some:
  "handle_workflow_trigger env now fresh c author ev g = Ok (rep, Some t, g') \<Longrightarrow>
     \<exists>w ch. get_workflow (gs_db g) c (rt_workflow t) = Ok w \<and> is_active w \<and> rt_community t = c
       \<and> ge_parse_def (re_engine env) (wr_definition w) = Some (rt_def t)
       \<and> is_ok (check_owner_authority (gs_db g) c ch (wr_owner w) (rt_def t))"
  by (auto simp: handle_workflow_trigger_def Let_def result_simps split: option.split_asm) blast+

lemma trigger_door:
  assumes "t \<in> set (fst (door_runs env now c (TriggerDoor author ev fresh) g))"
  shows "\<exists>w \<in> rows_seen (TriggerDoor author ev fresh) g. authorised_by env (gs_db g) t w"
proof -
  from assms obtain rep g' where "handle_workflow_trigger env now fresh c author ev g = Ok (rep, Some t, g')"
    by (auto split: result.split_asm prod.split_asm option.split_asm)
  from trigger_some [OF this] show ?thesis
    by (auto simp: rows_seen_def intro!: authorisedI dest!: get_workflow_row)
qed

lemma webhook_some:
  "workflow_webhook env now fresh i (Some c) h q body g = (rep, Some t, g') \<Longrightarrow>
     \<exists>w ch. get_workflow (gs_db g) c (rt_workflow t) = Ok w \<and> is_active w \<and> rt_community t = c
       \<and> ge_parse_def (re_engine env) (wr_definition w) = Some (rt_def t)
       \<and> is_ok (check_owner_authority (gs_db g) c ch (wr_owner w) (rt_def t))"
  by (auto simp: workflow_webhook_def Let_def split: result.split_asm if_split_asm option.split_asm)

lemma webhook_door:
  assumes "t \<in> set (fst (door_runs env now c (WebhookDoor i h q body fresh) g))"
  shows "\<exists>w \<in> rows_seen (WebhookDoor i h q body fresh) g. authorised_by env (gs_db g) t w"
proof -
  from assms obtain rep g' where "workflow_webhook env (int now) fresh i (Some c) h q body g = (rep, Some t, g')"
    by (auto split: prod.split_asm option.split_asm)
  from webhook_some [OF this] show ?thesis
    by (auto simp: rows_seen_def intro!: authorisedI dest!: get_workflow_row)
qed


section \<open>A sample relay\<close>

definition sample_engine :: "workflow_def \<Rightarrow> engine_env" where
  "sample_engine def = \<lparr>ge_lib = sample_lib, ge_uuid_text = nat_to_string, ge_parse_def = (\<lambda>_. Some def),
     ge_cron = (\<lambda>_. None), ge_from_ts = Some\<rparr>"

definition sample_relay :: "workflow_def \<Rightarrow> relay_env" where
  "sample_relay def = \<lparr>re_engine = sample_engine def, re_uuid_parse = parse_digits, re_pubkey = Some,
     re_sign = (\<lambda>k tags content. Some \<lparr>ev_id = ''s'', ev_pubkey = ''relay'', ev_created_at = 0, ev_kind = k,
       ev_tags = tags, ev_content = content\<rparr>),
     re_sha = id, re_host = (\<lambda>_. Some ''h''), re_member_cached = (\<lambda>_ _ _. True),
     re_display_name = (\<lambda>_ _. None), re_relay_members = (\<lambda>_. []), re_agent_policy = (\<lambda>_ _. None),
     re_presence = (\<lambda>_ _. None), re_parse_yaml = (\<lambda>_. Err InvalidYaml), re_json_parse = (\<lambda>_. None),
     re_hash = (\<lambda>_. [])\<rparr>"

definition sample_channels :: channel_db where
  "sample_channels = \<lparr>
     cdb_channels = [new_channel_row 0 1 5 ''general'' Stream Open None ''alice'' None],
     cdb_members = [\<lparr>mr_community = 1, mr_channel = 5, mr_pubkey = ''alice'', mr_role = Member, mr_joined_at = 0,
       mr_invited_by = None, mr_removed_at = None, mr_removed_by = None\<rparr>],
     cdb_users = []\<rparr>"

definition sample_engine_state :: engine_state where
  "sample_engine_state = \<lparr>gs_db = sample_db\<lparr>ws_channels := sample_channels\<rparr>, gs_cache = [((1, 5), [sample_workflow])], gs_last_fired = []\<rparr>"

definition sample_post :: stored_event where
  "sample_post = \<lparr>st_event = \<lparr>ev_id = ''e'', ev_pubkey = ''bob'', ev_created_at = 0, ev_kind = 9, ev_tags = [],
     ev_content = ''hi''\<rparr>, st_received_at = 0, st_channel_id = Some 5, st_verified = True\<rparr>"


text \<open>
  A run that waits for an approval is resumed with the definition that is saved by then, and
  without another look at the owner's authority: it can call a webhook for somebody who is no
  member of any channel.
\<close>

lemma resume_skips_authority:
  "let db = sample_db\<lparr>ws_runs := [sample_run\<lparr>rr_status := RunWaitingApproval\<rparr>]\<rparr>;
       def = sample_def [SetChannelTopic ''t'', CallWebhook ''https://example.org'' None None None];
       world = (\<lambda>i. (sample_world i)\<lparr>sw_resolve := (\<lambda>_ _. Some [V4 (Ipv4 93 184 216 34)])\<rparr>);
       s = resume_workflow_after_approval (\<lambda>_. Some def) sample_env world True 0 1
             \<lparr>rs_community = 1, rs_run = 9, rs_workflow = 7, rs_index = 1\<rparr> (sample_state\<lparr>xs_db := db\<rparr>)
   in \<not> is_ok (check_owner_authority db 1 5 ''alice'' def) \<and> map hq_url (xs_http s) = [''https://example.org'']"
  by code_simp

end
