(* ===== verification/Workflow_Schedule_Laws.thy ===== *)
theory Workflow_Schedule_Laws
  imports Workflow_Authority_Laws
begin

text \<open>
  Schedules. Pods share the claims and nothing else, so \<open>pods_reach\<close> lets every tick have arbitrary
  anchors: the claim alone makes an instant fire once.
\<close>

section \<open>An instant fires once\<close>

definition fire_key :: "fire_row \<Rightarrow> community_id \<times> uuid \<times> int" where
  "fire_key f = (fi_community f, fi_workflow f, fi_scheduled_for f)"

definition fire_run_key :: "fire_row \<Rightarrow> (community_id \<times> uuid) option" where
  "fire_run_key f = map_option (Pair (fi_community f)) (fi_run f)"

text \<open>Keys are distinct; a claim with a run has an existing run, and no two claims share one.\<close>

definition fires_wf :: "wf_db \<Rightarrow> bool" where
  "fires_wf db \<longleftrightarrow>
     distinct (map fire_key (ws_fires db))
     \<and> (\<forall>f \<in> set (ws_fires db). \<forall>k. fire_run_key f = Some k \<longrightarrow> k \<in> set (run_keys db))
     \<and> (\<forall>f \<in> set (ws_fires db). \<forall>f' \<in> set (ws_fires db). \<forall>k.
          fire_run_key f = Some k \<longrightarrow> fire_run_key f' = Some k \<longrightarrow> f = f')"

inductive pods_reach :: "engine_env \<Rightarrow> wf_db \<Rightarrow> wf_db \<Rightarrow> run_task list \<Rightarrow> bool"
  for env :: engine_env and db0 :: wf_db where
  start: "pods_reach env db0 db0 []"
| tick: "pods_reach env db0 db log \<Longrightarrow> gs_db g = db \<Longrightarrow> tick_workflow env now fresh w g = (t, g') \<Longrightarrow>
    pods_reach env db0 (gs_db g') (log @ (case t of Some t \<Rightarrow> [t] | None \<Rightarrow> []))"

text \<open>The instant that a run was claimed for.\<close>

definition fired_for :: "wf_db \<Rightarrow> run_task \<Rightarrow> int option" where
  "fired_for db t =
     map_option fi_scheduled_for
       (find (\<lambda>f. fi_workflow f = rt_workflow t \<and> fire_run_key f = Some (rt_community t, rt_run t)) (ws_fires db))"

text \<open>What one tick of a workflow does to the tables.\<close>

definition claim_row :: "int \<Rightarrow> community_id \<Rightarrow> uuid \<Rightarrow> int \<Rightarrow> uuid option \<Rightarrow> fire_row" where
  "claim_row now c i at run =
     \<lparr>fi_community = c, fi_workflow = i, fi_scheduled_for = at, fi_claimed_at = now, fi_run = run\<rparr>"

lemma claim_effect:
  "claim_scheduled_workflow_fire now c i at db = (Some f, db') \<Longrightarrow>
     db' = db\<lparr>ws_fires := ws_fires db @ [claim_row now c i at None]\<rparr> \<and> (c, i, at) \<notin> fire_key ` set (ws_fires db)"
  by (auto simp: claim_scheduled_workflow_fire_def claim_row_def Let_def fire_key_def list_ex_iff split: if_splits)

lemma create_run_effect:
  "create_workflow_run now i c w ev ctx db = Ok (r, db') \<Longrightarrow>
     r = i \<and> ws_fires db' = ws_fires db \<and> run_keys db' = run_keys db @ [(c, i)] \<and> (c, i) \<notin> set (run_keys db)
     \<and> ws_workflows db' = ws_workflows db \<and> ws_channels db' = ws_channels db"
  by (auto simp: create_workflow_run_def run_keys_def run_key_def list_ex_iff run_at_def split: if_splits)

lemma attach_effect:
  assumes fires: "ws_fires db = fs @ [claim_row now c i at None]"
    and new: "(c, i, at) \<notin> fire_key ` set fs" and run: "(c, r) \<in> set (run_keys db)"
  shows "(case attach_scheduled_workflow_run c i at r db of Ok (_, d) \<Rightarrow> d | Err _ \<Rightarrow> db)
    = db\<lparr>ws_fires := fs @ [claim_row now c i at (Some r)]\<rparr>"
proof -
  let ?p = "\<lambda>f. fi_community f = c \<and> fi_workflow f = i \<and> fi_scheduled_for f = at \<and> fi_run f = None"
  from new have none: "\<not> ?p f" if "f \<in> set fs" for f using that by (force simp: fire_key_def)
  then have "map (\<lambda>f. if ?p f then f\<lparr>fi_run := Some r\<rparr> else f) fs = fs" by (intro map_idI) auto
  moreover have "list_ex (run_at c r) (ws_runs db)"
    using run by (auto simp: run_keys_def run_key_def list_ex_iff run_at_def)
  ultimately show ?thesis
    by (simp add: attach_scheduled_workflow_run_def update_rows_def fires) (simp add: claim_row_def)
qed

lemma tick_stages:
  assumes "tick_workflow env now fresh w g = (t, g')"
  obtains (idle) "t = None" "gs_db g' = gs_db g"
  | (claimed) def at k g1 f db1 ctx where
      "resolve_fire env now w def g = (Some (at, k), g1)"
      "claim_scheduled_workflow_fire now (wr_community w) (wr_id w) at (gs_db g) = (Some f, db1)"
      "(case create_workflow_run now (fresh (wr_id w)) (wr_community w) (wr_id w) None (Some (trigger_context_json ctx)) db1 of
           Err _ \<Rightarrow> (None, g1\<lparr>gs_db := db1\<rparr>)
         | Ok (run_id, db2) \<Rightarrow>
             (Some \<lparr>rt_community = wr_community w, rt_run = run_id, rt_workflow = wr_id w, rt_def = def, rt_context = ctx\<rparr>,
              advance_anchor k now w (g1\<lparr>gs_db :=
                (case attach_scheduled_workflow_run (wr_community w) (wr_id w) at run_id db2 of
                   Ok (_, d) \<Rightarrow> d | Err _ \<Rightarrow> db2)\<rparr>))) = (t, g')"
proof (cases "ge_parse_def env (wr_definition w)")
  case None
  with assms show ?thesis by (intro idle) (auto simp: tick_workflow_def Let_def)
next
  case (Some def)
  show ?thesis
  proof (cases "\<not> wd_enabled def \<or> wr_channel w = None")
    case True
    with Some assms show ?thesis by (intro idle) (auto simp: tick_workflow_def Let_def split: if_splits)
  next
    case False
    then obtain ch where on: "wd_enabled def" and ch: "wr_channel w = Some ch" by auto
    obtain fire g1 where fire: "resolve_fire env now w def g = (fire, g1)" by fastforce
    note same = resolve_fire_same_db [OF fire]
    show ?thesis
    proof (cases "fire = None \<or> \<not> is_ok (check_owner_authority (gs_db g1) (wr_community w) ch (wr_owner w) def)")
      case True
      with Some on ch fire same assms show ?thesis
        by (intro idle) (auto simp: tick_workflow_def Let_def split: option.splits)
    next
      case False
      then obtain at k where at: "fire = Some (at, k)"
        and ok: "is_ok (check_owner_authority (gs_db g1) (wr_community w) ch (wr_owner w) def)" by auto
      obtain x db1 where claim: "claim_scheduled_workflow_fire now (wr_community w) (wr_id w) at (gs_db g1) = (x, db1)"
        by fastforce
      note eqs = Some on ch fire at ok claim assms
      show ?thesis
      proof (cases x)
        case None
        with eqs same show ?thesis by (intro idle) (auto simp: tick_workflow_def Let_def)
      next
        case (Some f)
        from eqs this same show ?thesis
          by (intro claimed [of def at k g1 f db1 "scheduled_context env ch now"])
            (auto simp: tick_workflow_def Let_def)
      qed
    qed
  qed
qed

text \<open>Either nothing is claimed, or one new instant is, by the new run if there is one.\<close>

definition new_claim :: "int \<Rightarrow> workflow_row \<Rightarrow> int \<Rightarrow> uuid option \<Rightarrow> wf_db \<Rightarrow> wf_db \<Rightarrow> bool" where
  "new_claim now w at run db db' \<longleftrightarrow>
     (wr_community w, wr_id w, at) \<notin> fire_key ` set (ws_fires db)
     \<and> ws_fires db' = ws_fires db @ [claim_row now (wr_community w) (wr_id w) at run]
     \<and> (case run of
          None \<Rightarrow> run_keys db' = run_keys db
        | Some r \<Rightarrow> (wr_community w, r) \<notin> set (run_keys db)
            \<and> run_keys db' = run_keys db @ [(wr_community w, r)])"

lemma tick_effect:
  assumes "tick_workflow env now fresh w g = (t, g')"
  obtains (quiet) "t = None" "ws_fires (gs_db g') = ws_fires (gs_db g)" "run_keys (gs_db g') = run_keys (gs_db g)"
  | (lost) at where "t = None" "new_claim now w at None (gs_db g) (gs_db g')"
  | (fired) u at where "t = Some u" "rt_community u = wr_community w" "rt_workflow u = wr_id w"
      "new_claim now w at (Some (rt_run u)) (gs_db g) (gs_db g')"
  using assms
proof (cases rule: tick_stages)
  case idle
  then show ?thesis by (intro quiet) auto
next
  case (claimed def at k g1 f db1 ctx)
  note db1 = claim_effect [OF claimed(2)]
  show ?thesis
  proof (cases "create_workflow_run now (fresh (wr_id w)) (wr_community w) (wr_id w) None (Some (trigger_context_json ctx)) db1")
    case (Err e)
    with claimed db1 show ?thesis by (intro lost [of at]) (auto simp: new_claim_def run_keys_def)
  next
    case (Ok p)
    then obtain r db2 where run: "create_workflow_run now (fresh (wr_id w)) (wr_community w) (wr_id w) None
        (Some (trigger_context_json ctx)) db1 = Ok (r, db2)" by (cases p) auto
    note db2 = create_run_effect [OF run]
    have "(case attach_scheduled_workflow_run (wr_community w) (wr_id w) at r db2 of Ok (_, d) \<Rightarrow> d | Err _ \<Rightarrow> db2)
        = db2\<lparr>ws_fires := ws_fires (gs_db g) @ [claim_row now (wr_community w) (wr_id w) at (Some r)]\<rparr>"
      by (rule attach_effect) (use db1 db2 in auto)
    with claimed(3) run db1 db2 show ?thesis
      by (intro fired [of _ at]) (auto simp: new_claim_def run_keys_def)
  qed
qed

definition task_key :: "run_task \<Rightarrow> community_id \<times> uuid" where
  "task_key t = (rt_community t, rt_run t)"

definition log_wf :: "wf_db \<Rightarrow> run_task list \<Rightarrow> bool" where
  "log_wf db log \<longleftrightarrow>
     distinct (map task_key log)
     \<and> (\<forall>t \<in> set log. \<exists>f \<in> set (ws_fires db). fi_workflow f = rt_workflow t \<and> fire_run_key f = Some (task_key t))"

lemma fires_wf_snoc:
  assumes "fires_wf db" and "ws_fires db' = ws_fires db @ [f]" and "fire_key f \<notin> fire_key ` set (ws_fires db)"
    and "set (run_keys db) \<subseteq> set (run_keys db')"
    and "\<And>k. fire_run_key f = Some k \<Longrightarrow> k \<in> set (run_keys db') \<and> k \<notin> set (run_keys db)"
  shows "fires_wf db'"
proof -
  from assms(1) have dist: "distinct (map fire_key (ws_fires db))"
    and ex: "\<And>h k. h \<in> set (ws_fires db) \<Longrightarrow> fire_run_key h = Some k \<Longrightarrow> k \<in> set (run_keys db)"
    and inj: "\<And>h h' k. h \<in> set (ws_fires db) \<Longrightarrow> h' \<in> set (ws_fires db) \<Longrightarrow>
      fire_run_key h = Some k \<Longrightarrow> fire_run_key h' = Some k \<Longrightarrow> h = h'"
    unfolding fires_wf_def by blast+
  have mem: "h \<in> set (ws_fires db') \<longleftrightarrow> h \<in> set (ws_fires db) \<or> h = f" for h using assms(2) by auto
  have old: "False" if "h \<in> set (ws_fires db)" "fire_run_key h = Some k" "fire_run_key f = Some k" for h k
    using that ex assms(5) by blast
  have "distinct (map fire_key (ws_fires db'))" using dist assms(2,3) by simp
  moreover have "k \<in> set (run_keys db')" if "h \<in> set (ws_fires db')" "fire_run_key h = Some k" for h k
    using that ex assms(4,5) unfolding mem by blast
  moreover have "h = h'" if "h \<in> set (ws_fires db')" "h' \<in> set (ws_fires db')"
    "fire_run_key h = Some k" "fire_run_key h' = Some k" for h h' k
    using that old inj unfolding mem by blast
  ultimately show ?thesis unfolding fires_wf_def by blast
qed

lemma new_claim_wf:
  assumes "fires_wf db" and "new_claim now w at run db db'"
  shows "fires_wf db'"
  by (rule fires_wf_snoc [OF assms(1), where f = "claim_row now (wr_community w) (wr_id w) at run"])
    (use assms(2) in \<open>auto simp: new_claim_def claim_row_def fire_key_def fire_run_key_def split: option.splits\<close>)

lemma log_wf_mono: "log_wf db log \<Longrightarrow> set (ws_fires db) \<subseteq> set (ws_fires db') \<Longrightarrow> log_wf db' log"
  unfolding log_wf_def by blast

lemma pods_reach_wf:
  assumes "pods_reach env db0 db log" and "fires_wf db0"
  shows "fires_wf db \<and> log_wf db log"
  using assms
proof (induction rule: pods_reach.induct)
  case start
  then show ?case by (simp add: log_wf_def)
next
  case (tick db log g now fresh w t g')
  then have wf: "fires_wf (gs_db g)" and log: "log_wf (gs_db g) log" by auto
  from tick.hyps(3) show ?case
  proof (cases rule: tick_effect)
    case quiet
    with wf log show ?thesis by (simp add: fires_wf_def log_wf_def)
  next
    case (lost at)
    from lost(2) have "set (ws_fires (gs_db g)) \<subseteq> set (ws_fires (gs_db g'))" by (auto simp: new_claim_def)
    with lost(1) log_wf_mono [OF log] new_claim_wf [OF wf lost(2)] show ?thesis by simp
  next
    case (fired u at)
    let ?f = "claim_row now (wr_community w) (wr_id w) at (Some (rt_run u))"
    have new: "ws_fires (gs_db g') = ws_fires (gs_db g) @ [?f]" and fresh: "task_key u \<notin> set (run_keys (gs_db g))"
      using fired by (auto simp: new_claim_def task_key_def)
    have "task_key u \<notin> task_key ` set log"
      using log wf fresh unfolding log_wf_def fires_wf_def by (auto; blast)
    moreover have "fi_workflow ?f = rt_workflow u \<and> fire_run_key ?f = Some (task_key u)"
      using fired by (simp add: claim_row_def fire_run_key_def task_key_def)
    ultimately show ?thesis
      using new_claim_wf [OF wf fired(4)] log fired(1) new by (auto simp: log_wf_def)
  qed
qed

lemma fired_for_Some:
  assumes "log_wf db log" and "t \<in> set log"
  obtains f where "f \<in> set (ws_fires db)" "fired_for db t = Some (fi_scheduled_for f)"
    "fi_workflow f = rt_workflow t" "fire_run_key f = Some (task_key t)"
proof -
  from assms obtain f where "find (\<lambda>f. fi_workflow f = rt_workflow t \<and> fire_run_key f = Some (task_key t)) (ws_fires db) = Some f"
    by (cases "find (\<lambda>f. fi_workflow f = rt_workflow t \<and> fire_run_key f = Some (task_key t)) (ws_fires db)")
      (auto simp: log_wf_def find_None_iff)
  then show ?thesis
    by (intro that [of f]) (auto simp: fired_for_def task_key_def find_Some_iff)
qed


end
