(* ===== verification/Workflow_Interval_Laws.thy ===== *)
theory Workflow_Interval_Laws
  imports Workflow_Schedule_Laws
begin

text \<open>
  Interval workflows on one pod: the ticks at which a run starts are compared with a reference that
  only looks at the clock. Times are nanoseconds; a sample schedule closes the theory.
\<close>

section \<open>An interval is kept exactly\<close>

text \<open>
  The times at which a task that fired at \<open>anchor\<close> is due again when it is looked at at the given
  times: the reference for an interval workflow.
\<close>

fun due_times :: "int \<Rightarrow> int \<Rightarrow> int list \<Rightarrow> int list" where
  "due_times period anchor [] = []"
| "due_times period anchor (t # ts) =
     (if anchor + period \<le> t then t # due_times period t ts else due_times period anchor ts)"

text \<open>The times of the ticks of one workflow on one pod at which a run starts.\<close>

fun fired_times :: "engine_env \<Rightarrow> workflow_row \<Rightarrow> (int \<times> uuid) list \<Rightarrow> engine_state \<Rightarrow> int list" where
  "fired_times env w [] g = []"
| "fired_times env w ((now, run) # ticks) g =
     (case tick_workflow env now (\<lambda>_. run) w g of
        (Some t, g') \<Rightarrow> now # fired_times env w ticks g'
      | (None, g') \<Rightarrow> fired_times env w ticks g')"

text \<open>\<open>DateTime::from_timestamp\<close> succeeds on the seconds of the years that matter.\<close>

definition from_ts_ok :: "(int \<Rightarrow> int option) \<Rightarrow> bool" where
  "from_ts_ok f \<longleftrightarrow> (\<forall>s. 0 \<le> s \<and> s \<le> 8 * 10 ^ 12 \<longrightarrow> f s = Some s)"

definition tick_time :: "int \<Rightarrow> bool" where
  "tick_time t \<longleftrightarrow> 0 \<le> t \<and> t < 8 * 10 ^ 21"

text \<open>An interval workflow that can run: parsed, switched on, bound to a channel, with authority.\<close>

definition interval_workflow :: "engine_env \<Rightarrow> wf_db \<Rightarrow> workflow_row \<Rightarrow> string \<Rightarrow> nat \<Rightarrow> bool" where
  "interval_workflow env db w dur secs \<longleftrightarrow>
     parse_duration_secs dur = Ok secs \<and> 0 < secs \<and> secs < 2 ^ 63 \<and> from_ts_ok (ge_from_ts env)
     \<and> w \<in> set (ws_workflows db)
     \<and> (\<exists>def ch. ge_parse_def env (wr_definition w) = Some def \<and> wd_enabled def
          \<and> wd_trigger def = Schedule None (Some dur) \<and> wr_channel w = Some ch
          \<and> is_ok (check_owner_authority db (wr_community w) ch (wr_owner w) def))"

definition anchored :: "workflow_row \<Rightarrow> int \<Rightarrow> engine_state \<Rightarrow> bool" where
  "anchored w a g \<longleftrightarrow>
     hm_get (gs_last_fired g) (wr_community w, wr_id w) = Some a
     \<and> (\<forall>f \<in> set (ws_fires (gs_db g)). fi_community f = wr_community w \<longrightarrow> fi_workflow f = wr_id w \<longrightarrow>
          fi_scheduled_for f \<le> a)"


lemma le_int_div_iff:
  fixes q x k :: int
  assumes "0 < k"
  shows "q \<le> x div k \<longleftrightarrow> q * k \<le> x"
proof
  assume "q \<le> x div k"
  with assms have "q * k \<le> x div k * k" by (simp add: mult_right_mono)
  also have "\<dots> \<le> x" using assms pos_mod_sign [of k x] div_mult_mod_eq [of x k] by linarith
  finally show "q * k \<le> x" .
next
  assume "q * k \<le> x"
  then have "q * k div k \<le> x div k" using assms by (intro zdiv_mono1)
  with assms show "q \<le> x div k" by simp
qed

lemma bucket_bounds:
  fixes now a s k :: int
  assumes "0 \<le> a" and "a + s * k \<le> now" and "0 < s" and "0 < k"
  defines "b \<equiv> now div k div s * s"
  shows "a < b * k" and "b * k \<le> now" and "0 \<le> b" and "b \<le> now div k"
proof -
  have "now div k * k + now mod k = now" by (rule div_mult_mod_eq)
  with assms(4) pos_mod_bound [of k now] pos_mod_sign [of k now]
  have s: "now div k * k \<le> now" "now < (now div k + 1) * k"
    unfolding distrib_right by linarith+
  have b: "b \<le> now div k" "now div k + 1 \<le> b + s"
    using assms(3) pos_mod_bound [of s "now div k"] pos_mod_sign [of s "now div k"]
      div_mult_mod_eq [of "now div k" s] unfolding b_def by linarith+
  from b assms(4) have "(now div k + 1) * k \<le> (b + s) * k" by (intro mult_right_mono) auto
  with s assms(2) show "a < b * k" by (simp add: algebra_simps)
  from b(1) assms(4) have "b * k \<le> now div k * k" by (intro mult_right_mono) auto
  with s show "b * k \<le> now" by linarith
  have "0 \<le> s * k" using assms(3,4) by simp
  with assms(1,2) have "0 \<le> now" by linarith
  with assms(3,4) show "0 \<le> b" by (simp add: b_def pos_imp_zdiv_nonneg_iff)
  show "b \<le> now div k" by (rule b)
qed

lemma should_fire_iff:
  assumes "parse_duration_secs dur = Ok secs" and "a \<le> now"
  shows "interval_should_fire dur (Some a) now \<longleftrightarrow> a + int secs * 10 ^ 9 \<le> now"
proof -
  have "int secs \<le> (now - a) div 10 ^ 9 \<longleftrightarrow> int secs * 10 ^ 9 \<le> now - a"
    by (rule le_int_div_iff) simp
  with assms show ?thesis by (auto simp: interval_should_fire_def unwrap_or_def)
qed

lemma interval_instant:
  assumes "parse_duration_secs dur = Ok secs" "0 < secs" "secs < 2 ^ 63" "from_ts_ok f"
    and "tick_time now" "0 \<le> a" "a + int secs * 10 ^ 9 \<le> now"
  obtains at where "interval_fire_instant f dur now = Some at" "a < at" "at \<le> now"
proof -
  let ?b = "now div 10 ^ 9 div int secs * int secs"
  have pos: "0 < int secs" "(0::int) < 10 ^ 9" using assms(2) by auto
  note b = bucket_bounds [OF assms(6,7) pos]
  have "now div 10 ^ 9 < 8 * 10 ^ 12" using assms(5) using le_int_div_iff [of "10 ^ 9" "8 * 10 ^ 12" now] by (simp add: tick_time_def)
  with b(3,4) assms(4) have "f ?b = Some ?b" by (auto simp: from_ts_ok_def)
  with assms(1-3) have "interval_fire_instant f dur now = Some (?b * 10 ^ 9)"
    by (simp add: interval_fire_instant_def as_i64_small Let_def)
  with b(1,2) show thesis by (intro that)
qed

lemma interval_tick:
  assumes iw: "interval_workflow env (gs_db g) w dur secs" and an: "anchored w a g"
    and now: "tick_time now" "0 \<le> a" "a \<le> now" and run: "(wr_community w, run) \<notin> set (run_keys (gs_db g))"
  obtains (idle) "now < a + int secs * 10 ^ 9" "tick_workflow env now (\<lambda>_. run) w g = (None, g)"
  | (fire_run) t g' where "a + int secs * 10 ^ 9 \<le> now" "tick_workflow env now (\<lambda>_. run) w g = (Some t, g')"
      "interval_workflow env (gs_db g') w dur secs" "anchored w now g'"
      "run_keys (gs_db g') = run_keys (gs_db g) @ [(wr_community w, run)]"
proof -
  let ?c = "wr_community w" and ?i = "wr_id w" and ?db = "gs_db g"
  from iw obtain def ch where
    d: "parse_duration_secs dur = Ok secs" "0 < secs" "secs < 2 ^ 63" "from_ts_ok (ge_from_ts env)"
      "w \<in> set (ws_workflows ?db)" "ge_parse_def env (wr_definition w) = Some def" "wd_enabled def"
      "wd_trigger def = Schedule None (Some dur)" "wr_channel w = Some ch"
      "is_ok (check_owner_authority ?db ?c ch (wr_owner w) def)"
    by (auto simp: interval_workflow_def)
  have key: "hm_get (gs_last_fired g) (?c, ?i) = Some a"
    and old: "\<And>f. f \<in> set (ws_fires ?db) \<Longrightarrow> fi_community f = ?c \<Longrightarrow> fi_workflow f = ?i \<Longrightarrow> fi_scheduled_for f \<le> a"
    using an by (auto simp: anchored_def)
  note pre = should_fire_iff [OF d(1) now(3)]
  show thesis
  proof (cases "a + int secs * 10 ^ 9 \<le> now")
    case False
    with pre d key show thesis
      by (intro idle) (simp_all add: tick_workflow_def resolve_fire_def interval_prefilter_should_fire_def Let_def)
  next
    case True
    obtain at where at: "interval_fire_instant (ge_from_ts env) dur now = Some at" "a < at" "at \<le> now"
      using interval_instant [OF d(1-4) now(1,2) True] .
    have fire: "resolve_fire env now w def g = (Some (at, IntervalFire), g)"
      using True pre d(8) key at(1) by (simp add: resolve_fire_def interval_prefilter_should_fire_def Let_def)
    have wf: "list_ex (workflow_at ?c ?i) (ws_workflows ?db)"
      using d(5) by (auto simp: list_ex_iff workflow_at_def)
    have new: "(?c, ?i, at) \<notin> fire_key ` set (ws_fires ?db)"
      using old at(2) by (force simp: fire_key_def)
    let ?db1 = "?db\<lparr>ws_fires := ws_fires ?db @ [claim_row now ?c ?i at None]\<rparr>"
    have claim: "claim_scheduled_workflow_fire now ?c ?i at ?db = (Some (claim_row now ?c ?i at None), ?db1)"
      using wf new
      by (auto simp: claim_scheduled_workflow_fire_def claim_row_def Let_def list_ex_iff fire_key_def; force)
    have "\<exists>db2. create_workflow_run now run ?c ?i None (Some (trigger_context_json (scheduled_context env ch now))) ?db1 = Ok (run, db2)"
      using wf run by (auto simp: create_workflow_run_def run_keys_def run_key_def list_ex_iff run_at_def; force)
    then obtain db2 where made:
      "create_workflow_run now run ?c ?i None (Some (trigger_context_json (scheduled_context env ch now))) ?db1 = Ok (run, db2)" ..
    note eff = create_run_effect [OF made]
    have att: "(case attach_scheduled_workflow_run ?c ?i at run db2 of Ok (_, d) \<Rightarrow> d | Err _ \<Rightarrow> db2)
        = db2\<lparr>ws_fires := ws_fires ?db @ [claim_row now ?c ?i at (Some run)]\<rparr>"
      using eff new by (intro attach_effect) auto
    have tick: "tick_workflow env now (\<lambda>_. run) w g =
        (Some \<lparr>rt_community = ?c, rt_run = run, rt_workflow = ?i, rt_def = def, rt_context = scheduled_context env ch now\<rparr>,
         advance_anchor IntervalFire now w
           (g\<lparr>gs_db := db2\<lparr>ws_fires := ws_fires ?db @ [claim_row now ?c ?i at (Some run)]\<rparr>\<rparr>))"
      using d fire claim made att by (simp add: tick_workflow_def Let_def)
    show thesis
    proof (rule fire_run [OF True tick])
      show "interval_workflow env (gs_db (advance_anchor IntervalFire now w
           (g\<lparr>gs_db := db2\<lparr>ws_fires := ws_fires ?db @ [claim_row now ?c ?i at (Some run)]\<rparr>\<rparr>))) w dur secs"
        using iw eff by (simp add: interval_workflow_def advance_anchor_def check_owner_authority_def)
    qed (use eff old now(3) at(3) in \<open>force simp: anchored_def advance_anchor_def claim_row_def run_keys_def\<close>)+
  qed
qed

lemma interval_ticks:
  assumes "interval_workflow env (gs_db g) w dur secs" and "anchored w a g" and "0 \<le> a"
    and "sorted (a # map fst ticks)" and "list_all tick_time (map fst ticks)" and "distinct (map snd ticks)"
    and "list_all (\<lambda>r. (wr_community w, r) \<notin> set (run_keys (gs_db g))) (map snd ticks)"
  shows "fired_times env w ticks g = due_times (int secs * 10 ^ 9) a (map fst ticks)"
  using assms
proof (induction ticks arbitrary: a g)
  case (Cons tick ticks)
  obtain now run where tick: "tick = (now, run)" by fastforce
  from Cons.prems tick have now: "tick_time now" "0 \<le> a" "a \<le> now"
    and run: "(wr_community w, run) \<notin> set (run_keys (gs_db g))" by auto
  from Cons.prems(1,2) now run show ?case
  proof (cases rule: interval_tick)
    case idle
    with Cons.IH [OF Cons.prems(1,2,3)] Cons.prems tick show ?thesis by simp
  next
    case (fire_run t g')
    from Cons.prems(6,7) tick
    have "list_all (\<lambda>r. (wr_community w, r) \<notin> set (run_keys (gs_db g'))) (map snd ticks)"
      by (auto simp: fire_run(5) list_all_iff)
    with Cons.IH [OF fire_run(3,4)] fire_run Cons.prems tick now show ?thesis by simp
  qed
qed simp

lemma cold_tick:
  assumes iw: "interval_workflow env (gs_db g) w dur secs"
    and cold: "hm_get (gs_last_fired g) (wr_community w, wr_id w) = None"
      "latest_scheduled_workflow_fire (gs_db g) (wr_community w) (wr_id w) = None"
  shows "tick_workflow env now fresh w g
    = (None, g\<lparr>gs_last_fired := hm_insert (wr_community w, wr_id w) now (gs_last_fired g)\<rparr>)"
  using assms
  by (auto simp: interval_workflow_def tick_workflow_def resolve_fire_def interval_prefilter_should_fire_def
      interval_should_fire_def unwrap_or_def Let_def)

text \<open>
  An interval workflow that has never fired fires on a pod exactly at the ticks that are due:
  the first tick only sets the anchor, and after it a run starts at a tick if and only if the
  interval has passed since the last run (or the first tick), never earlier and never skipped.
\<close>

lemma interval_schedule_exact:
  assumes "interval_workflow env (gs_db g) w dur secs"
    and "hm_get (gs_last_fired g) (wr_community w, wr_id w) = None"
    and "latest_scheduled_workflow_fire (gs_db g) (wr_community w) (wr_id w) = None"
    and "sorted (t0 # map fst ticks)" and "list_all tick_time (t0 # map fst ticks)"
    and "distinct (map snd ticks)"
    and "list_all (\<lambda>r. (wr_community w, r) \<notin> set (run_keys (gs_db g))) (map snd ticks)"
  shows "fired_times env w ((t0, r0) # ticks) g = due_times (int secs * 10 ^ 9) t0 (map fst ticks)"
proof -
  let ?g = "g\<lparr>gs_last_fired := hm_insert (wr_community w, wr_id w) t0 (gs_last_fired g)\<rparr>"
  have "anchored w t0 ?g"
    using assms(3) by (auto simp: anchored_def latest_scheduled_workflow_fire_def Let_def filter_empty_conv split: if_splits)
  moreover have "interval_workflow env (gs_db ?g) w dur secs" using assms(1) by simp
  ultimately have "fired_times env w ticks ?g = due_times (int secs * 10 ^ 9) t0 (map fst ticks)"
    using assms(4-7) by (intro interval_ticks) (auto simp: tick_time_def)
  with cold_tick [OF assms(1-3)] show ?thesis by simp
qed

section \<open>A sample schedule\<close>

definition daily :: engine_env where
  "daily = sample_engine ((sample_def [])\<lparr>wd_trigger := Schedule None (Some ''24h'')\<rparr>)"

definition hour :: int where
  "hour = 3600 * 10 ^ 9"

lemma daily_workflow: "interval_workflow daily (gs_db sample_engine_state) sample_workflow ''24h'' 86400"
proof -
  have "is_ok (check_owner_authority (gs_db sample_engine_state) 1 5 ''alice'' (sample_def []))" by code_simp
  then show ?thesis
    by (simp add: interval_workflow_def day_in_secs daily_def sample_engine_def from_ts_ok_def sample_engine_state_def
        sample_db_def sample_workflow_def sample_def_def check_owner_authority_def requires_elevated_authority_def)
qed

lemma interval_schedule_exact_witness:
  "fired_times daily sample_workflow
     [(0, 20), (8 * hour, 21), (25 * hour, 22), (30 * hour, 23), (48 * hour, 24), (49 * hour, 25)]
     sample_engine_state = [25 * hour, 49 * hour]"
proof -
  have "fired_times daily sample_workflow
     ((0, 20) # [(8 * hour, 21), (25 * hour, 22), (30 * hour, 23), (48 * hour, 24), (49 * hour, 25)])
     sample_engine_state = due_times (int 86400 * 10 ^ 9) 0
       (map fst [(8 * hour, 21 :: nat), (25 * hour, 22), (30 * hour, 23), (48 * hour, 24), (49 * hour, 25)])"
    by (rule interval_schedule_exact [OF daily_workflow])
      (simp_all add: sample_engine_state_def sample_db_def sample_workflow_def sample_run_def run_keys_def run_key_def
        latest_scheduled_workflow_fire_def tick_time_def hour_def)
  then show ?thesis by (simp add: hour_def)
qed


end
