(* ===== verification/Workflow_Approval_Laws.thy ===== *)
theory Workflow_Approval_Laws
  imports Workflow_Interval_Laws
begin

text \<open>
  Approval gates as a state machine: requests of the sink, grants, denials and passes of the command
  handlers in any order, with the tasks that the grants spawn.
\<close>

section \<open>The machine\<close>

definition approval_key :: "approval_row \<Rightarrow> community_id \<times> string" where
  "approval_key a = (ap_community a, ap_token a)"

text \<open>\<open>log\<close> collects the resumptions that grants ask for.\<close>

inductive approval_reach :: "relay_env \<Rightarrow> wf_db \<Rightarrow> wf_db \<Rightarrow> resume_task list \<Rightarrow> bool"
  for env :: relay_env and db0 :: wf_db where
  start: "approval_reach env db0 db0 []"
| request: "approval_reach env db0 db log \<Longrightarrow> relay_request_approval env now token r db = (res, db') \<Longrightarrow>
    approval_reach env db0 db' log"
| decided: "approval_reach env db0 db log \<Longrightarrow> handle_terminal_approval env now granted c actor ev db = (res, db') \<Longrightarrow>
    approval_reach env db0 db' (log @ (case res of Ok (_, Some t) \<Rightarrow> [t] | _ \<Rightarrow> []))"
| passed: "approval_reach env db0 db log \<Longrightarrow> handle_approval_pass env now c actor ev db = Ok (res, db') \<Longrightarrow>
    approval_reach env db0 db' log"

text \<open>What a decided gate has to show: the designated approver, and an instant before the expiry.\<close>

definition decision_time :: "approval_row \<Rightarrow> int option" where
  "decision_time a =
     (case ap_status a of
        ApprovalGranted \<Rightarrow> ap_granted_at a
      | ApprovalDenied \<Rightarrow> ap_denied_at a
      | ApprovalDelegated \<Rightarrow> ap_delegated_at a
      | _ \<Rightarrow> None)"

definition rightly_decided :: "approval_row \<Rightarrow> bool" where
  "rightly_decided a \<longleftrightarrow>
     is_some_and (\<lambda>t. t \<le> ap_expires_at a) (decision_time a)
     \<and> is_some_and (\<lambda>p. ascii_lower p = ascii_lower (ap_spec a)) (ap_approver a)"

definition lawful_gate :: "approval_row \<Rightarrow> bool" where
  "lawful_gate a \<longleftrightarrow> is_hex64 (ap_spec a) \<and> (ap_status a = ApprovalPending \<or> rightly_decided a)"

definition resumed_by :: "approval_row \<Rightarrow> resume_task \<Rightarrow> bool" where
  "resumed_by a t \<longleftrightarrow>
     ap_status a = ApprovalGranted \<and> rightly_decided a \<and> ap_community a = rs_community t \<and> ap_run a = rs_run t
     \<and> ap_workflow a = rs_workflow t \<and> ap_step_index a + 1 = int (rs_index t)"

definition pubkeys_are_hex :: "relay_env \<Rightarrow> bool" where
  "pubkeys_are_hex env \<longleftrightarrow> (\<forall>s p. re_pubkey env s = Some p \<longrightarrow> is_hex64 p)"

section \<open>What one step writes\<close>

definition decide_row :: "int \<Rightarrow> approval_decision \<Rightarrow> approval_row \<Rightarrow> approval_row" where
  "decide_row now d r =
     (let st = fst (decision_status d) in
      r\<lparr>ap_status := st, ap_approver := Some (decision_actor d), ap_delegated_to := fst (snd (decision_status d)),
        ap_note := decision_note d,
        ap_granted_at := (if st = ApprovalGranted then Some now else ap_granted_at r),
        ap_denied_at := (if st = ApprovalDenied then Some now else ap_denied_at r),
        ap_delegated_at := (if st = ApprovalDelegated then Some now else ap_delegated_at r)\<rparr>)"

definition replaced :: "approval_row \<Rightarrow> approval_row \<Rightarrow> approval_row list \<Rightarrow> approval_row list \<Rightarrow> bool" where
  "replaced a b as bs \<longleftrightarrow> a \<in> set as \<and> bs = map (\<lambda>r. if r = a then b else r) as"

lemma decide_row_keeps [simp]:
  "ap_spec (decide_row now d r) = ap_spec r" "ap_expires_at (decide_row now d r) = ap_expires_at r"
  "ap_community (decide_row now d r) = ap_community r" "ap_token (decide_row now d r) = ap_token r"
  "ap_run (decide_row now d r) = ap_run r" "ap_workflow (decide_row now d r) = ap_workflow r"
  "ap_step_index (decide_row now d r) = ap_step_index r"
  "ap_status (decide_row now d r) = fst (decision_status d)"
  "ap_approver (decide_row now d r) = Some (decision_actor d)"
  by (simp_all add: decide_row_def Let_def)

lemma decide_row_time [simp]: "decision_time (decide_row now d r) = Some now"
  by (cases d) (simp_all add: decide_row_def decision_time_def Let_def)

lemma approver_spec_hex:
  assumes "check_approver_spec spec actor = Ok ()" and "is_hex64 spec"
  shows "ascii_lower actor = ascii_lower spec"
proof -
  have ne: "spec \<noteq> []" using assms(2) by (auto simp: is_hex64_def)
  have hex: "\<not> is_space c" if "c \<in> set spec" for c
    using that assms(2) by (auto simp: is_hex64_def list_all_iff is_hex_char_def is_space_def Let_def)
  have "trim spec = spec" using ne hex by (intro trim_no_space) auto
  moreover have "spec \<noteq> ''any''" using assms(2) by (auto simp: is_hex64_def)
  ultimately show ?thesis using assms ne by (auto simp: check_approver_spec_def Let_def split: if_splits)
qed

lemma case_Err_Ok:
  "(case r of Err e \<Rightarrow> Err (f e) | Ok x \<Rightarrow> g x) = Ok y \<longleftrightarrow> (\<exists>x. r = Ok x \<and> g x = Ok y)"
  by (cases r) auto

lemma case_outcome_Ok:
  "(case z of (DecisionDuplicate, u) \<Rightarrow> Ok v | (DecisionApplied x, d) \<Rightarrow> Ok (g x d)) = Ok y \<longleftrightarrow>
     (\<exists>u. z = (DecisionDuplicate, u) \<and> v = y) \<or> (\<exists>x d. z = (DecisionApplied x, d) \<and> g x d = y)"
  by (cases z; cases "fst z") auto

lemma decide_effect:
  assumes rows: "decide_approval now p a as = Ok bs" and a: "find (approval_at (dp_community p) (dp_token_hash p)) as = Some a"
    and keys: "distinct (map approval_key as)"
  shows "ap_status a = ApprovalPending \<and> now \<le> ap_expires_at a \<and> replaced a (decide_row now (dp_decision p) a) as bs"
proof -
  from a have mem: "a \<in> set as" and at: "approval_at (dp_community p) (dp_token_hash p) a"
    by (auto simp: find_Some_iff)
  from rows have open_gate: "ap_status a = ApprovalPending" "now \<le> ap_expires_at a"
    by (auto simp: decide_approval_def Let_def split: if_splits)
  have only: "approval_at (dp_community p) (dp_token_hash p) r \<and> ap_status r = ApprovalPending \<longleftrightarrow> r = a"
    if "r \<in> set as" for r
    using that mem at open_gate(1) keys by (auto simp: approval_at_def approval_key_def distinct_map inj_on_def)
  from rows have "bs = map (\<lambda>r. if approval_at (dp_community p) (dp_token_hash p) r \<and> ap_status r = ApprovalPending
      then decide_row now (dp_decision p) r else r) as"
    by (auto simp: decide_approval_def update_rows_def decide_row_def Let_def split: if_splits)
  also have "\<dots> = map (\<lambda>r. if r = a then decide_row now (dp_decision p) a else r) as"
    using only by (intro map_cong) auto
  finally show ?thesis using open_gate mem by (simp add: replaced_def)
qed

lemma if_duplicate:
  "(if b then Ok (DecisionDuplicate, d) else r) = Ok (DecisionApplied x, d') \<longleftrightarrow> \<not> b \<and> r = Ok (DecisionApplied x, d')"
  by auto

lemma apply_effect:
  assumes "apply_approval_decision from_ts now p db = Ok (DecisionApplied x, db')"
    and "distinct (map approval_key (ws_approvals db))"
  obtains a where "find (approval_at (dp_community p) (dp_token_hash p)) (ws_approvals db) = Some a"
    "ap_status a = ApprovalPending" "int now \<le> ap_expires_at a"
    "replaced a (decide_row (int now) (dp_decision p) a) (ws_approvals db) (ws_approvals db')"
proof -
  from assms(1) have "\<exists>a as. find (approval_at (dp_community p) (dp_token_hash p)) (ws_approvals db) = Some a
      \<and> decide_approval (int now) p a (ws_approvals db) = Ok as \<and> ws_approvals db' = as"
    by (simp add: apply_approval_decision_def Let_def result_simps split_beta if_duplicate del: split_paired_Ex)
      clarsimp
  then obtain a as where a: "find (approval_at (dp_community p) (dp_token_hash p)) (ws_approvals db) = Some a"
    and rows: "decide_approval (int now) p a (ws_approvals db) = Ok as" and "ws_approvals db' = as" by blast
  with decide_effect [OF rows a assms(2)] that show thesis by auto
qed

lemma pending_effect:
  assumes "load_pending_approval now db c ev actor = Ok (h, digest, a)"
  shows "find (approval_at c h) (ws_approvals db) = Some a" and "check_approver_spec (ap_spec a) actor = Ok ()"
  using assms
  by (auto simp: load_pending_approval_def get_approval_by_stored_hash_def result_simps case_Err_Ok)

lemma terminal_effect:
  assumes "terminal_decision env now granted c actor ev db = Ok (Some (a, db'))"
    and "distinct (map approval_key (ws_approvals db))"
  shows "ap_status a = ApprovalPending" "int now \<le> ap_expires_at a" "check_approver_spec (ap_spec a) actor = Ok ()"
    and "approval_at c (ap_token a) a"
    and "replaced a (decide_row (int now) (if granted then DecGrant actor (approval_note ev) else DecDeny actor (approval_note ev)) a)
          (ws_approvals db) (ws_approvals db')"
proof -
  from assms(1) obtain h digest x p where load: "load_pending_approval (int now) db c ev actor = Ok (h, digest, a)"
    and app: "apply_approval_decision (ge_from_ts (re_engine env)) now p db = Ok (DecisionApplied x, db')"
    and p: "dp_community p = c" "dp_token_hash p = h"
      "dp_decision p = (if granted then DecGrant actor (approval_note ev) else DecDeny actor (approval_note ev))"
    unfolding terminal_decision_def
    by (auto simp: result_simps case_Err_Ok case_outcome_Ok)
  note pend = pending_effect [OF load]
  from app assms(2) obtain b where "find (approval_at c h) (ws_approvals db) = Some b" "ap_status b = ApprovalPending"
    "int now \<le> ap_expires_at b" "replaced b (decide_row (int now) (dp_decision p) b) (ws_approvals db) (ws_approvals db')"
    by (rule apply_effect) (auto simp: p)
  with pend show "ap_status a = ApprovalPending" "int now \<le> ap_expires_at a"
    "check_approver_spec (ap_spec a) actor = Ok ()" "approval_at c (ap_token a) a"
    "replaced a (decide_row (int now) (if granted then DecGrant actor (approval_note ev) else DecDeny actor (approval_note ev)) a)
          (ws_approvals db) (ws_approvals db')"
    by (auto simp: p find_Some_iff approval_at_def)
qed

lemma pass_effect:
  assumes "handle_approval_pass env now c actor ev db = Ok (res, db')"
    and "distinct (map approval_key (ws_approvals db))"
  obtains "db' = db"
  | a target where "ap_status a = ApprovalPending" "int now \<le> ap_expires_at a"
      "check_approver_spec (ap_spec a) actor = Ok ()"
      "replaced a (decide_row (int now) (DecPass actor target (approval_note ev)) a) (ws_approvals db) (ws_approvals db')"
proof (cases "db' = db")
  case False
  with assms(1) obtain h digest a x p target where
      load: "load_pending_approval (int now) db c ev actor = Ok (h, digest, a)"
    and app: "apply_approval_decision (ge_from_ts (re_engine env)) now p db = Ok (DecisionApplied x, db')"
    and p: "dp_community p = c" "dp_token_hash p = h" "dp_decision p = DecPass actor target (approval_note ev)"
    unfolding handle_approval_pass_def
    by (auto simp: result_simps case_Err_Ok case_outcome_Ok split: if_splits)
  note pend = pending_effect [OF load]
  from app assms(2) obtain b where "find (approval_at c h) (ws_approvals db) = Some b" "ap_status b = ApprovalPending"
    "int now \<le> ap_expires_at b" "replaced b (decide_row (int now) (dp_decision p) b) (ws_approvals db) (ws_approvals db')"
    by (rule apply_effect) (auto simp: p)
  with pend p that show thesis by auto
qed

lemma resolved_approver_hex:
  assumes "resolve_approver_pubkey pubkey spec candidates = Ok p"
    and "\<And>m. m \<in> set candidates \<Longrightarrow> is_hex64 (snd m)"
  shows "is_hex64 p"
proof -
  have "p \<in> snd ` set candidates"
  proof (cases "is_hex64 (trim spec)")
    case True
    with assms(1) show ?thesis
      by (auto simp: resolve_approver_pubkey_def no_approver_def Let_def result_simps list_ex_iff split: if_splits)
  next
    case False
    have "p \<in> set ps" if "(case ps of [] \<Rightarrow> Err e | [q] \<Rightarrow> Ok q | _ \<Rightarrow> Err f) = Ok p"
      for ps :: "hex_string list" and e f :: sink_error
      using that by (auto split: list.splits)
    with False assms(1) show ?thesis
      by (force simp: resolve_approver_pubkey_def no_approver_def Let_def result_simps split: if_splits)
  qed
  with assms(2) show ?thesis by auto
qed

lemma candidates_hex:
  assumes "approver_candidates env db c ch = Ok ms" and "pubkeys_are_hex env" and "m \<in> set ms"
  shows "is_hex64 (snd m)"
  using assms
  by (auto simp: approver_candidates_def pubkeys_are_hex_def map_filter_def result_simps split: option.splits)

lemma create_actionable_effect:
  assumes "create_actionable_approval from_ts sha now p db = Ok (x, db')"
  shows "\<exists>a. ws_approvals db' = ws_approvals db @ [a] \<and> ap_status a = ApprovalPending \<and> ap_spec a = apx_spec p
    \<and> approval_key a \<notin> approval_key ` set (ws_approvals db)"
  using assms
  by (simp add: create_actionable_approval_def Let_def result_simps split_beta del: split_paired_Ex)
    (clarsimp simp: new_approval_row_def approval_key_def approval_refs_ok_def approval_at_def list_ex_iff; force)

lemma request_effect:
  assumes "relay_request_approval env now token r db = (res, db')" and "pubkeys_are_hex env"
  obtains "db' = db"
  | a where "ws_approvals db' = ws_approvals db @ [a]" "ap_status a = ApprovalPending" "is_hex64 (ap_spec a)"
      "approval_key a \<notin> approval_key ` set (ws_approvals db)"
proof (cases "db' = db")
  case False
  with assms(1) obtain i candidates approver p x where
      cand: "approver_candidates env db (aq_community r) (aq_channel r) = Ok candidates"
    and app: "resolve_approver_pubkey (re_pubkey env) (aq_spec r) candidates = Ok approver"
    and made: "create_actionable_approval (ge_from_ts (re_engine env)) (re_sha env) now p db = Ok (x, db')"
    and p: "apx_spec p = approver"
    unfolding relay_request_approval_def Let_def
    by (auto simp: result_simps split: result.splits prod.splits)
  have "is_hex64 approver"
    using resolved_approver_hex [OF app] candidates_hex [OF cand assms(2)] by blast
  with create_actionable_effect [OF made] p that show thesis by auto
qed

section \<open>Every state of the machine\<close>

definition gates_wf :: "approval_row list \<Rightarrow> resume_task list \<Rightarrow> bool" where
  "gates_wf as log \<longleftrightarrow>
     distinct (map approval_key as) \<and> list_all lawful_gate as
     \<and> (\<exists>gs. distinct (map approval_key gs) \<and> set gs \<subseteq> set as \<and> list_all2 resumed_by gs log)"

lemma gates_wf_append:
  assumes "gates_wf as log" "ap_status a = ApprovalPending" "is_hex64 (ap_spec a)" "approval_key a \<notin> approval_key ` set as"
  shows "gates_wf (as @ [a]) log"
  using assms by (auto simp: gates_wf_def lawful_gate_def)

lemma approval_key_decide [simp]: "approval_key (decide_row now d a) = approval_key a"
  by (simp add: approval_key_def)

lemma gates_wf_replaced:
  assumes wf: "gates_wf as log" and repl: "replaced a b as bs" and a: "ap_status a = ApprovalPending"
    and b: "approval_key b = approval_key a" "lawful_gate b"
    and new: "new = [] \<or> (\<exists>t. new = [t] \<and> resumed_by b t)"
  shows "gates_wf bs (log @ new)"
proof -
  from wf obtain gs where keys: "distinct (map approval_key as)" and lawful: "list_all lawful_gate as"
    and gs: "distinct (map approval_key gs)" "set gs \<subseteq> set as" "list_all2 resumed_by gs log"
    by (auto simp: gates_wf_def)
  have mem: "a \<in> set as" and bs: "bs = map (\<lambda>r. if r = a then b else r) as"
    using repl by (auto simp: replaced_def)
  have "map approval_key bs = map approval_key as" using b(1) by (simp add: bs)
  with keys have keys': "distinct (map approval_key bs)" by simp
  have lawful': "list_all lawful_gate bs" using lawful b(2) by (auto simp: bs list_all_iff)
  have granted: "ap_status g = ApprovalGranted" if "g \<in> set gs" for g
    using gs(3) that by (auto simp: list_all2_conv_all_nth in_set_conv_nth resumed_by_def)
  then have old: "g \<in> set bs" if "g \<in> set gs" for g
    using that gs(2) a by (force simp: bs)
  have "b \<in> set bs" using mem by (auto simp: bs)
  moreover have "approval_key b \<notin> approval_key ` set gs"
  proof
    assume "approval_key b \<in> approval_key ` set gs"
    then obtain g where g: "g \<in> set gs" "approval_key g = approval_key a" using b(1) by auto
    with gs(2) mem keys have "g = a" by (auto simp: distinct_map inj_on_def)
    with granted [OF g(1)] a show False by simp
  qed
  moreover have "list_all2 resumed_by (gs @ [b]) (log @ [t])" if "resumed_by b t" for t
    using gs(3) that by (simp add: list_all2_appendI)
  ultimately have "\<exists>gs'. distinct (map approval_key gs') \<and> set gs' \<subseteq> set bs \<and> list_all2 resumed_by gs' (log @ new)"
    using new gs old by (elim disjE exE conjE) (force, intro exI [of _ "gs @ [b]"], force)
  with keys' lawful' show ?thesis by (simp add: gates_wf_def)
qed

lemma lawful_decided:
  assumes "lawful_gate a" "check_approver_spec (ap_spec a) (decision_actor d) = Ok ()" "now \<le> ap_expires_at a"
  shows "rightly_decided (decide_row now d a)" and "lawful_gate (decide_row now d a)"
  using assms approver_spec_hex [of "ap_spec a" "decision_actor d"]
  by (auto simp: lawful_gate_def rightly_decided_def is_some_and_def)

lemma handle_terminal_effect:
  assumes "handle_terminal_approval env now granted c actor ev db = (res, db')"
  obtains "db' = db" "\<And>r t. res \<noteq> Ok (r, Some t)"
  | a where "terminal_decision env now granted c actor ev db = Ok (Some (a, db'))"
      "\<And>r t. res = Ok (r, Some t) \<Longrightarrow> granted \<and> 0 \<le> ap_step_index a \<and>
        t = \<lparr>rs_community = c, rs_run = ap_run a, rs_workflow = ap_workflow a, rs_index = nat (ap_step_index a) + 1\<rparr>"
proof (cases "\<exists>a d. \<not> already_stored db c ev \<and> terminal_decision env now granted c actor ev db = Ok (Some (a, d))")
  case True
  then obtain a d where "\<not> already_stored db c ev" "terminal_decision env now granted c actor ev db = Ok (Some (a, d))" by auto
  with assms that show thesis
    by (auto simp: handle_terminal_approval_def Let_def split: if_splits)
next
  case False
  with assms have "db' = db" "\<And>r t. res \<noteq> Ok (r, Some t)"
    by (auto simp: handle_terminal_approval_def split: if_splits result.splits option.splits)
  with that show thesis by blast
qed

lemma approval_reach_wf:
  assumes "approval_reach env db0 db log" and hex: "pubkeys_are_hex env" and start: "ws_approvals db0 = []"
  shows "gates_wf (ws_approvals db) log"
  using assms(1)
proof induction
  case start
  then show ?case by (simp add: gates_wf_def assms(3))
next
  case (request db log now token r res db')
  from request(2) hex request.IH gates_wf_append show ?case by (cases rule: request_effect) auto
next
  case (decided db log now granted c actor ev res db')
  let ?d = "if granted then DecGrant actor (approval_note ev) else DecDeny actor (approval_note ev)"
  have keys: "distinct (map approval_key (ws_approvals db))" and lawful: "list_all lawful_gate (ws_approvals db)"
    using decided.IH by (auto simp: gates_wf_def)
  from decided(2) show ?case
  proof (cases rule: handle_terminal_effect)
    case 1
    then have "(case res of Ok (_, Some t) \<Rightarrow> [t] | _ \<Rightarrow> []) = []" by (auto split: result.splits option.splits)
    with 1 decided.IH show ?thesis by simp
  next
    case (2 a)
    note eff = terminal_effect [OF 2(1) keys]
    have "lawful_gate a" using eff(5) lawful by (auto simp: replaced_def list_all_iff)
    moreover have "decision_actor ?d = actor" by simp
    ultimately have right: "rightly_decided (decide_row (int now) ?d a)" "lawful_gate (decide_row (int now) ?d a)"
      using lawful_decided [of a ?d "int now"] eff(2,3) by auto
    have "(case res of Ok (_, Some t) \<Rightarrow> [t] | _ \<Rightarrow> []) = [] \<or>
        (\<exists>t. (case res of Ok (_, Some t) \<Rightarrow> [t] | _ \<Rightarrow> []) = [t] \<and> resumed_by (decide_row (int now) ?d a) t)"
      using 2(2) right(1) eff(4) by (auto simp: resumed_by_def approval_at_def split: result.splits option.splits)
    then show ?thesis using right(2) by (intro gates_wf_replaced [OF decided.IH eff(5,1)]) auto
  qed
next
  case (passed db log now c actor ev res db')
  have keys: "distinct (map approval_key (ws_approvals db))" and lawful: "list_all lawful_gate (ws_approvals db)"
    using passed.IH by (auto simp: gates_wf_def)
  from passed(2) keys show ?case
  proof (cases rule: pass_effect)
    case 1
    with passed.IH show ?thesis by simp
  next
    case (2 a target)
    have "lawful_gate a" using 2(4) lawful by (auto simp: replaced_def list_all_iff)
    then have "lawful_gate (decide_row (int now) (DecPass actor target (approval_note ev)) a)"
      using lawful_decided [of a "DecPass actor target (approval_note ev)" "int now"] 2(2,3) by auto
    then show ?thesis using gates_wf_replaced [OF passed.IH 2(4,1), of "[]"] by simp
  qed
qed

text \<open>
  C5. However requests, grants, denials and passes interleave, a gate that is no longer pending was
  decided by its designated approver before it expired, and every resumption of a run belongs to a
  gate that was so granted: no two resumptions share one.
\<close>

theorem gates_open_only_for_their_approver:
  assumes "approval_reach env db0 db log" and "pubkeys_are_hex env" and "ws_approvals db0 = []"
  shows "list_all (\<lambda>a. ap_status a = ApprovalPending \<or> rightly_decided a) (ws_approvals db)
    \<and> (\<exists>gs. distinct (map approval_key gs) \<and> set gs \<subseteq> set (ws_approvals db) \<and> list_all2 resumed_by gs log)"
  using approval_reach_wf [OF assms] by (auto simp: gates_wf_def lawful_gate_def list_all_iff)

section \<open>A sample gate\<close>

definition hex_a :: hex_string where "hex_a = replicate 64 CHR ''a''"

definition gate_env :: relay_env where
  "gate_env = (sample_relay (sample_def []))\<lparr>re_pubkey := (\<lambda>_. Some hex_a), re_relay_members := (\<lambda>_. [hex_a]),
     re_sha := (\<lambda>_. hex_a),
     re_sign := (\<lambda>k tags content. Some \<lparr>ev_id = replicate 64 (if k = KIND_WORKFLOW_APPROVAL_REQUESTED then CHR ''b'' else CHR ''c''),
        ev_pubkey = ''relay'', ev_created_at = 0, ev_kind = k, ev_tags = tags, ev_content = content\<rparr>)\<rparr>"

definition gate_db :: wf_db where
  "gate_db = sample_db\<lparr>ws_runs := [sample_run\<lparr>rr_status := RunRunning\<rparr>]\<rparr>"

definition gate_request :: approval_request where
  "gate_request = \<lparr>aq_community = 1, aq_workflow = 7, aq_run = 9, aq_step_id = ''s'', aq_step_index = 0, aq_spec = hex_a,
     aq_message = ''ship?'', aq_expires_at = 100, aq_channel = None, aq_owner = hex_a, aq_trace = JArray []\<rparr>"


lemma hex_a_hex [simp]: "is_hex64 hex_a" "length hex_a = 64" by (simp_all add: is_hex64_def hex_a_def is_hex_char_def list_all_iff)

lemma trim_a [simp]: "trim hex_a = hex_a" "hex_a \<noteq> []" by (simp_all add: trim_def trim_end_def trim_start_matches_def hex_a_def is_space_def)

lemma trim_q [simp]: "trim ''ship?'' \<noteq> []" by code_simp

lemma lower_a [simp]: "ascii_lower hex_a = hex_a" by (simp add: hex_a_def) code_simp

lemmas gate_defs = gate_env_def gate_db_def gate_request_def sample_relay_def sample_engine_def sample_db_def
  sample_run_def sample_workflow_def kind_class_defs EPHEMERAL_KIND_MIN_def EPHEMERAL_KIND_MAX_def
  KIND_WORKFLOW_APPROVAL_REQUESTED_def KIND_WORKFLOW_APPROVAL_GRANTED_def KIND_AUTH_def

lemma gate_asked:
  obtains r where "relay_request_approval gate_env 5 ''t'' gate_request gate_db =
    (Ok (replicate 64 CHR ''b''),
     gate_db\<lparr>ws_threads := \<lparr>td_events = \<lparr>db_events = [r], db_mentions = []\<rparr>, td_threads = []\<rparr>,
       ws_runs := [sample_run\<lparr>rr_status := RunWaitingApproval,
         rr_trace := JArray [waiting_trace_entry ''s'' (replicate 64 CHR ''b'')]\<rparr>],
       ws_approvals := [new_approval_row 5 1 hex_a 7 9 ''s'' 0 hex_a (Some (replicate 64 CHR ''b'')) 100]\<rparr>)"
    "row_community r = 1" "row_channel r = None" "\<not> row_deleted r" "ev_id (row_event r) = replicate 64 CHR ''b''"
    "ev_created_at (row_event r) = 0"
  by (simp add: relay_request_approval_def gate_defs check_host_def ok_or_def
     Let_def approver_candidates_def resolve_approver_pubkey_def build_approval_request_event_def requesting_agent_def
     create_actionable_approval_def insert_event_with_thread_metadata_def insert_event_def
     approval_refs_ok_def update_rows_def run_at_def workflow_at_def 
     map_err_def as_i64_def json_as_array_def map_filter_def)

definition gate_grant :: event where
  "gate_grant = \<lparr>ev_id = ''g'', ev_pubkey = hex_a, ev_created_at = 0, ev_kind = 46030, ev_tags = [[''d'', hex_a]],
     ev_content = []\<rparr>"

definition gate_task :: resume_task where
  "gate_task = \<lparr>rs_community = 1, rs_run = 9, rs_workflow = 7, rs_index = 1\<rparr>"

lemma short_id: "replicate 64 x \<noteq> [y]" "[y] \<noteq> replicate 64 x"
  by (auto dest: arg_cong [of _ _ length])

lemma gate_granted:
  assumes "relay_request_approval gate_env 5 ''t'' gate_request gate_db = (x, db)"
  shows "\<exists>reply. fst (handle_terminal_approval gate_env 50 True 1 hex_a gate_grant db) = Ok (reply, Some gate_task)"
proof -
  obtain r where db: "db = gate_db\<lparr>ws_threads := \<lparr>td_events = \<lparr>db_events = [r], db_mentions = []\<rparr>, td_threads = []\<rparr>,
       ws_runs := [sample_run\<lparr>rr_status := RunWaitingApproval,
         rr_trace := JArray [waiting_trace_entry ''s'' (replicate 64 CHR ''b'')]\<rparr>],
       ws_approvals := [new_approval_row 5 1 hex_a 7 9 ''s'' 0 hex_a (Some (replicate 64 CHR ''b'')) 100]\<rparr>"
    and r: "row_community r = 1" "row_channel r = None" "\<not> row_deleted r" "ev_id (row_event r) = replicate 64 CHR ''b''"
      "ev_created_at (row_event r) = 0"
    using gate_asked assms by auto
  show ?thesis
    unfolding db gate_task_def
    by (simp add: r handle_terminal_approval_def terminal_decision_def already_stored_def get_event_by_id_def
      gate_grant_def load_pending_approval_def extract_tag_def get_approval_by_stored_hash_def approval_at_def
      new_approval_row_def check_approver_spec_def approval_request_event_id_def request_event_of_def ok_or_def
      build_approval_lifecycle_event_def gate_defs apply_approval_decision_def insert_event_with_thread_metadata_def
      insert_event_def same_row_key_def decide_approval_def update_rows_def as_i64_def Let_def is_pass_def tag_kind_def tag_content_def
      short_id)
qed

lemma gates_open_only_for_their_approver_witness:
  "\<exists>db. approval_reach gate_env gate_db db [gate_task]
     \<and> list_all (\<lambda>a. ap_status a = ApprovalPending \<or> rightly_decided a) (ws_approvals db)
     \<and> (\<exists>gs. distinct (map approval_key gs) \<and> set gs \<subseteq> set (ws_approvals db) \<and> list_all2 resumed_by gs [gate_task])"
proof -
  obtain x db where asked: "relay_request_approval gate_env 5 ''t'' gate_request gate_db = (x, db)" by fastforce
  obtain reply db' where granted:
    "handle_terminal_approval gate_env 50 True 1 hex_a gate_grant db = (Ok (reply, Some gate_task), db')"
    using gate_granted [OF asked] by (metis prod.collapse)
  have reach: "approval_reach gate_env gate_db db' [gate_task]"
    using approval_reach.decided [OF approval_reach.request [OF approval_reach.start asked] granted] by simp
  moreover have "pubkeys_are_hex gate_env" by (simp add: pubkeys_are_hex_def gate_env_def)
  moreover have "ws_approvals gate_db = []" by (simp add: gate_db_def sample_db_def)
  ultimately show ?thesis using gates_open_only_for_their_approver [of gate_env gate_db db' "[gate_task]"] by blast
qed

end
