(* ===== verification/Workflow_Tables_Laws.thy ===== *)
theory Workflow_Tables_Laws
  imports Workflow_Approval_Laws
begin

text \<open>
  The workflow tables as a typed store: keys stay unique, every reference has its row, and a finished
  run has the instant of its end, whatever sequence of statements the engine, the commands and the
  janitor issue.
\<close>

section \<open>Well-typed tables\<close>

definition workflow_key :: "workflow_row \<Rightarrow> community_id \<times> uuid" where
  "workflow_key w = (wr_community w, wr_id w)"

definition run_typed :: "workflow_row list \<Rightarrow> run_row \<Rightarrow> bool" where
  "run_typed ws r \<longleftrightarrow>
     (rr_community r, rr_workflow r) \<in> workflow_key ` set ws \<and> (run_finished (rr_status r) \<longrightarrow> rr_completed_at r \<noteq> None)"

definition approval_typed :: "workflow_row list \<Rightarrow> run_row list \<Rightarrow> approval_row \<Rightarrow> bool" where
  "approval_typed ws rs a \<longleftrightarrow>
     (ap_community a, ap_workflow a) \<in> workflow_key ` set ws \<and> (ap_community a, ap_run a) \<in> run_key ` set rs
     \<and> length (ap_step_id a) \<le> 64"

definition fire_typed :: "workflow_row list \<Rightarrow> run_row list \<Rightarrow> fire_row \<Rightarrow> bool" where
  "fire_typed ws rs f \<longleftrightarrow>
     (fi_community f, fi_workflow f) \<in> workflow_key ` set ws
     \<and> is_none_or (\<lambda>i. list_ex (\<lambda>r. run_at (fi_community f) i r \<and> rr_workflow r = fi_workflow f) rs) (fi_run f)"

definition tables_typed :: "wf_db \<Rightarrow> bool" where
  "tables_typed db \<longleftrightarrow>
     distinct (map workflow_key (ws_workflows db)) \<and> distinct (map run_key (ws_runs db))
     \<and> distinct (map approval_key (ws_approvals db)) \<and> distinct (map fire_key (ws_fires db))
     \<and> list_all (\<lambda>w. length (wr_name w) \<le> 255) (ws_workflows db)
     \<and> list_all (run_typed (ws_workflows db)) (ws_runs db)
     \<and> list_all (approval_typed (ws_workflows db) (ws_runs db)) (ws_approvals db)
     \<and> list_all (fire_typed (ws_workflows db) (ws_runs db)) (ws_fires db)"

text \<open>The statements. The scheduler attaches a run that it created for the same workflow.\<close>

inductive table_step :: "wf_db \<Rightarrow> wf_db \<Rightarrow> bool" where
  create: "create_workflow now i c ch owner name def h db = Ok (j, db') \<Longrightarrow> table_step db db'"
| upsert: "upsert_workflow now c i ch owner name def h db = Ok db' \<Longrightarrow> table_step db db'"
| update: "update_workflow c i name def h db = Ok db' \<Longrightarrow> table_step db db'"
| status: "update_workflow_status c i st db = Ok db' \<Longrightarrow> table_step db db'"
| enabled: "set_workflow_enabled c i b db = Ok db' \<Longrightarrow> table_step db db'"
| disable: "disable_workflows_for_owner_in_channel c ch owner db = (n, db') \<Longrightarrow> table_step db db'"
| delete: "delete_workflow c i db = Ok db' \<Longrightarrow> table_step db db'"
| delete_own: "delete_workflow_for_owner c i owner db = Ok (ch, db') \<Longrightarrow> table_step db db'"
| claim: "claim_scheduled_workflow_fire now c i at db = (f, db') \<Longrightarrow> table_step db db'"
| attach: "attach_scheduled_workflow_run c i at run db = Ok (b, db') \<Longrightarrow>
    list_ex (\<lambda>r. run_at c run r \<and> rr_workflow r = i) (ws_runs db) \<Longrightarrow> table_step db db'"
| prune: "prune_scheduled_workflow_fires_before cutoff db = (n, db') \<Longrightarrow> table_step db db'"
| run: "create_workflow_run now i c w ev ctx db = Ok (j, db') \<Longrightarrow> table_step db db'"
| progress: "update_workflow_run now c i rst step tr err db = Ok db' \<Longrightarrow> table_step db db'"
| approval: "create_approval sha now c token w rn step_id step_index spec expires db = Ok db' \<Longrightarrow> table_step db db'"
| actionable: "create_actionable_approval from_ts sha t p db = Ok (stored, db') \<Longrightarrow> table_step db db'"
| decision: "apply_approval_decision from_ts t d db = Ok (outcome, db') \<Longrightarrow> table_step db db'"
| resolve: "update_approval_by_stored_hash now c h ast approver remark db = (hit, db') \<Longrightarrow> table_step db db'"

section \<open>Updates in place\<close>

lemma map_update_rows:
  assumes "\<And>r. k (f r) = k r"
  shows "map k (snd (update_rows p f rows)) = map k rows"
  using assms by (auto simp: update_rows_def)

lemma update_rows_member:
  "r \<in> set (snd (update_rows p f rows)) \<Longrightarrow> \<exists>r0 \<in> set rows. r = (if p r0 then f r0 else r0)"
  by (auto simp: update_rows_def)

lemma tables_typed_workflows:
  assumes "tables_typed db" and "map workflow_key ws = map workflow_key (ws_workflows db)"
    and "list_all (\<lambda>w. length (wr_name w) \<le> 255) ws"
  shows "tables_typed (db\<lparr>ws_workflows := ws\<rparr>)"
proof -
  have "workflow_key ` set ws = workflow_key ` set (ws_workflows db)" using assms(2) by (metis list.set_map)
  with assms show ?thesis
    by (simp add: tables_typed_def run_typed_def [abs_def] approval_typed_def [abs_def] fire_typed_def [abs_def])
qed

lemma tables_typed_runs:
  assumes "tables_typed db" and "map (\<lambda>r. (run_key r, rr_workflow r)) rs = map (\<lambda>r. (run_key r, rr_workflow r)) (ws_runs db)"
    and "list_all (\<lambda>r. run_finished (rr_status r) \<longrightarrow> rr_completed_at r \<noteq> None) rs"
  shows "tables_typed (db\<lparr>ws_runs := rs\<rparr>)"
proof -
  have keys: "map run_key rs = map run_key (ws_runs db)"
    using arg_cong [OF assms(2), of "map fst"] by (simp add: comp_def)
  then have set_keys: "run_key ` set rs = run_key ` set (ws_runs db)" by (metis list.set_map)
  have pairs: "(\<lambda>r. (run_key r, rr_workflow r)) ` set rs = (\<lambda>r. (run_key r, rr_workflow r)) ` set (ws_runs db)"
    using arg_cong [OF assms(2), of set] by (simp only: set_map)
  have "list_ex (\<lambda>r. run_at c i r \<and> rr_workflow r = w) rs = list_ex (\<lambda>r. run_at c i r \<and> rr_workflow r = w) (ws_runs db)" for c i w
  proof -
    have "list_ex (\<lambda>r. run_at c i r \<and> rr_workflow r = w) xs \<longleftrightarrow> ((c, i), w) \<in> (\<lambda>r. (run_key r, rr_workflow r)) ` set xs" for xs
      by (force simp: list_ex_iff run_at_def run_key_def)
    with pairs show ?thesis by simp
  qed
  moreover have "(rr_community r, rr_workflow r) \<in> workflow_key ` set (ws_workflows db)" if "r \<in> set rs" for r
  proof -
    from that pairs obtain r0 where "r0 \<in> set (ws_runs db)" "run_key r0 = run_key r" "rr_workflow r0 = rr_workflow r"
      by (metis (mono_tags, lifting) imageE imageI prod.inject)
    with assms(1) show ?thesis by (auto simp: tables_typed_def run_typed_def list_all_iff run_key_def)
  qed
  ultimately show ?thesis using assms(1,3) keys set_keys
    by (auto simp: tables_typed_def run_typed_def approval_typed_def fire_typed_def list_all_iff)
qed

lemma tables_typed_fires:
  assumes "tables_typed db" and "distinct (map fire_key fs)"
    and "list_all (fire_typed (ws_workflows db) (ws_runs db)) fs"
  shows "tables_typed (db\<lparr>ws_fires := fs\<rparr>)"
  using assms by (simp add: tables_typed_def)

lemma tables_typed_approvals:
  assumes "tables_typed db" and "distinct (map approval_key as)"
    and "list_all (approval_typed (ws_workflows db) (ws_runs db)) as"
  shows "tables_typed (db\<lparr>ws_approvals := as\<rparr>)"
  using assms by (simp add: tables_typed_def)

lemma tables_typed_threads [simp]: "tables_typed (db\<lparr>ws_threads := t\<rparr>) = tables_typed db"
  by (simp add: tables_typed_def)

lemma tables_typed_new_workflow:
  assumes "tables_typed db" and "workflow_key w \<notin> workflow_key ` set (ws_workflows db)" and "length (wr_name w) \<le> 255"
  shows "tables_typed (db\<lparr>ws_workflows := ws_workflows db @ [w]\<rparr>)"
  using assms by (auto simp: tables_typed_def run_typed_def approval_typed_def fire_typed_def list_all_iff)

lemma tables_typed_new_run:
  assumes "tables_typed db" and "run_key r \<notin> run_key ` set (ws_runs db)" and "run_typed (ws_workflows db) r"
  shows "tables_typed (db\<lparr>ws_runs := ws_runs db @ [r]\<rparr>)"
proof -
  have "fire_typed (ws_workflows db) (ws_runs db @ [r]) f" if "fire_typed (ws_workflows db) (ws_runs db) f" for f
    using that by (auto simp: fire_typed_def is_none_or_def split: option.splits)
  with assms show ?thesis by (auto simp: tables_typed_def approval_typed_def list_all_iff)
qed

lemma in_place_workflows:
  assumes "tables_typed db" and "\<And>w. workflow_key (f w) = workflow_key w"
    and "\<And>w. length (wr_name w) \<le> 255 \<Longrightarrow> length (wr_name (f w)) \<le> 255"
  shows "tables_typed (db\<lparr>ws_workflows := snd (update_rows p f (ws_workflows db))\<rparr>)"
  using assms by (intro tables_typed_workflows) (auto simp: update_rows_def list_all_iff tables_typed_def)

lemma in_place_runs:
  assumes "tables_typed db" and "\<And>r. run_key (f r) = run_key r" and "\<And>r. rr_workflow (f r) = rr_workflow r"
    and "\<And>r. p r \<Longrightarrow> run_finished (rr_status r) \<longrightarrow> rr_completed_at r \<noteq> None \<Longrightarrow>
      run_finished (rr_status (f r)) \<longrightarrow> rr_completed_at (f r) \<noteq> None"
  shows "tables_typed (db\<lparr>ws_runs := snd (update_rows p f (ws_runs db))\<rparr>)"
  using assms by (intro tables_typed_runs) (auto simp: update_rows_def list_all_iff tables_typed_def run_typed_def)

lemma in_place_approvals:
  assumes "tables_typed db" and "\<And>a. approval_key (f a) = approval_key a"
    and "\<And>a. ap_workflow (f a) = ap_workflow a" and "\<And>a. ap_run (f a) = ap_run a" and "\<And>a. ap_step_id (f a) = ap_step_id a"
  shows "tables_typed (db\<lparr>ws_approvals := snd (update_rows p f (ws_approvals db))\<rparr>)"
proof (rule tables_typed_approvals)
  have same: "ap_community (f a) = ap_community a" for a using assms(2) [of a] by (simp add: approval_key_def)
  show "list_all (approval_typed (ws_workflows db) (ws_runs db)) (snd (update_rows p f (ws_approvals db)))"
    using assms(1,3-5) same by (auto simp: update_rows_def list_all_iff tables_typed_def approval_typed_def)
  show "distinct (map approval_key (snd (update_rows p f (ws_approvals db))))"
    using assms(1,2) by (simp add: map_update_rows tables_typed_def)
qed (rule assms(1))

lemma tables_typed_cascade:
  assumes "tables_typed db"
  shows "tables_typed (cascade_workflow c i db)"
proof -
  let ?w = "\<lambda>w. \<not> workflow_at c i w" and ?r = "\<lambda>r. \<not> (rr_community r = c \<and> rr_workflow r = i)"
  have ws: "k \<in> workflow_key ` {w \<in> set (ws_workflows db). ?w w}"
    if "k \<in> workflow_key ` set (ws_workflows db)" "k \<noteq> (c, i)" for k
    using that by (auto simp: workflow_key_def workflow_at_def)
  have a: "approval_typed (filter ?w (ws_workflows db)) (filter ?r (ws_runs db)) a"
    if "approval_typed (ws_workflows db) (ws_runs db) a"
      and "\<not> (ap_community a = c \<and> (ap_workflow a = i \<or> list_ex (\<lambda>r. run_at c (ap_run a) r \<and> rr_workflow r = i) (ws_runs db)))"
    for a
  proof -
    from that obtain r where r: "r \<in> set (ws_runs db)" "run_key r = (ap_community a, ap_run a)"
      by (auto simp: approval_typed_def)
    with that(2) have "?r r" by (auto simp: run_key_def list_ex_iff run_at_def)
    with r have "(ap_community a, ap_run a) \<in> run_key ` set (filter ?r (ws_runs db))"
      by (intro image_eqI [of _ _ r]) auto
    moreover have "(ap_community a, ap_workflow a) \<in> workflow_key ` set (filter ?w (ws_workflows db))"
      using that ws [of "(ap_community a, ap_workflow a)"] by (auto simp: approval_typed_def)
    ultimately show ?thesis using that(1) by (simp add: approval_typed_def)
  qed
  have f: "fire_typed (filter ?w (ws_workflows db)) (filter ?r (ws_runs db)) f"
    if "fire_typed (ws_workflows db) (ws_runs db) f" "\<not> (fi_community f = c \<and> fi_workflow f = i)" for f
    using that ws [of "(fi_community f, fi_workflow f)"]
    by (auto simp: fire_typed_def is_none_or_def list_ex_iff run_at_def split: option.splits)
  have r: "run_typed (filter ?w (ws_workflows db)) r" if "run_typed (ws_workflows db) r" "?r r" for r
    using that ws [of "(rr_community r, rr_workflow r)"] by (auto simp: run_typed_def)
  show ?thesis
    using assms a f r by (simp add: tables_typed_def cascade_workflow_def list_all_iff distinct_map_filter)
qed

section \<open>Every statement keeps the tables typed\<close>

lemma snd_update_rows: "update_rows p f rows = (n, rows') \<Longrightarrow> rows' = snd (update_rows p f rows)"
  by simp

lemma update_workflow_rows_typed:
  assumes "update_workflow_rows p f db = Ok db'" "tables_typed db" "\<And>w. workflow_key (f w) = workflow_key w"
    and "\<And>w. length (wr_name w) \<le> 255 \<Longrightarrow> length (wr_name (f w)) \<le> 255"
  shows "tables_typed db'"
  using assms in_place_workflows [OF assms(2-4)]
  by (auto simp: update_workflow_rows_def split_beta Let_def result_simps)

lemma apply_decision_shape:
  assumes "apply_approval_decision from_ts t d db = Ok (outcome, db')" and changed: "db' \<noteq> db"
  shows "\<exists>threads as rs a. db' = db\<lparr>ws_threads := threads, ws_approvals := as, ws_runs := rs\<rparr>
    \<and> decide_approval (int t) d a (ws_approvals db) = Ok as
    \<and> (rs = ws_runs db \<or> (\<exists>reason. cancel_waiting_run (int t) (dp_community d) a reason (ws_runs db) = Ok rs))"
proof -
  have dup: "(if b then Ok (DecisionDuplicate, db) else r) = Ok (outcome, db') \<longleftrightarrow> \<not> b \<and> r = Ok (outcome, db')" for b r
    using changed by auto
  have runs: "(case x of None \<Rightarrow> Ok rs | Some reason \<Rightarrow> f reason) = Ok rs' \<Longrightarrow> rs' = rs \<or> (\<exists>reason. f reason = Ok rs')"
    for x rs rs' and f :: "string \<Rightarrow> (db_error, run_row list) result"
    by (cases x) auto
  from assms(1) show ?thesis
    apply (simp add: apply_approval_decision_def Let_def result_simps split_beta dup del: split_paired_Ex)
    apply (elim exE conjE)
    apply (drule runs)
    apply hypsubst
    apply (rule exI, rule exI, rule exI, rule conjI, rule refl, rule exI, rule conjI, assumption, assumption)
    done
qed

lemma decided_rows_typed:
  assumes "decide_approval now d a (ws_approvals db) = Ok as" and "tables_typed db"
  shows "tables_typed (db\<lparr>ws_approvals := as\<rparr>)"
proof -
  from assms(1) have "as = snd (update_rows
      (\<lambda>r. approval_at (dp_community d) (dp_token_hash d) r \<and> ap_status r = ApprovalPending)
      (decide_row now (dp_decision d)) (ws_approvals db))"
    by (auto simp: decide_approval_def update_rows_def decide_row_def Let_def split: if_splits)
  moreover have "ap_step_id (decide_row now (dp_decision d) r) = ap_step_id r" for r by (simp add: decide_row_def Let_def)
  ultimately show ?thesis
    using in_place_approvals [OF assms(2), of "decide_row now (dp_decision d)"] by simp
qed

lemma cancelled_rows_typed:
  assumes "cancel_waiting_run now c a reason (ws_runs db) = Ok rs" and "tables_typed db"
  shows "tables_typed (db\<lparr>ws_runs := rs\<rparr>)"
  using assms
  by (auto simp: cancel_waiting_run_def split_beta Let_def result_simps run_key_def intro!: in_place_runs)

lemma new_approval_typed:
  assumes "tables_typed db" and "approval_refs_ok db c w i step h"
  shows "tables_typed (db\<lparr>ws_approvals := ws_approvals db @ [new_approval_row now c h w i step k spec req expires]\<rparr>)"
  using assms
  by (intro tables_typed_approvals)
    (auto simp: approval_refs_ok_def new_approval_row_def list_ex_iff approval_at_def workflow_at_def run_at_def
      tables_typed_def approval_typed_def approval_key_def workflow_key_def run_key_def list_all_iff image_iff, metis)

lemma actionable_typed:
  assumes "create_actionable_approval from_ts sha t p db = Ok (stored, db')" and "tables_typed db"
  shows "tables_typed db'"
proof -
  from assms(1) obtain threads f tr where
      refs: "approval_refs_ok db (apx_community p) (apx_workflow p) (apx_run p) (apx_step_id p) (sha (apx_token p))"
    and f: "f = (\<lambda>r. r\<lparr>rr_status := RunWaitingApproval, rr_current_step := apx_step_index p, rr_trace := tr, rr_error := None\<rparr>)"
    and db': "db' = db\<lparr>ws_threads := threads,
        ws_runs := snd (update_rows (\<lambda>r. run_at (apx_community p) (apx_run p) r \<and> rr_workflow r = apx_workflow p \<and> rr_status r = RunRunning)
          f (ws_runs db)),
        ws_approvals := ws_approvals db @ [new_approval_row (int t) (apx_community p) (sha (apx_token p)) (apx_workflow p) (apx_run p)
          (apx_step_id p) (apx_step_index p) (apx_spec p) (Some (ev_id (apx_request_event p))) (apx_expires_at p)]\<rparr>"
    by (simp add: create_actionable_approval_def Let_def result_simps split_beta del: split_paired_Ex) fastforce
  let ?db = "db\<lparr>ws_approvals := ws_approvals db @ [new_approval_row (int t) (apx_community p) (sha (apx_token p)) (apx_workflow p) (apx_run p)
          (apx_step_id p) (apx_step_index p) (apx_spec p) (Some (ev_id (apx_request_event p))) (apx_expires_at p)]\<rparr>"
  have "tables_typed (?db\<lparr>ws_runs := snd (update_rows (\<lambda>r. run_at (apx_community p) (apx_run p) r \<and> rr_workflow r = apx_workflow p \<and> rr_status r = RunRunning)
          f (ws_runs ?db))\<rparr>)"
    by (rule in_place_runs [OF new_approval_typed [OF assms(2) refs]]) (auto simp: f run_key_def run_finished_def)
  then show ?thesis by (simp add: db' tables_typed_def)
qed

lemma claim_typed:
  assumes "claim_scheduled_workflow_fire now c i at db = (f, db')" and "tables_typed db"
  shows "tables_typed db'"
proof (cases f)
  case None
  with assms show ?thesis by (auto simp: claim_scheduled_workflow_fire_def Let_def split: if_splits)
next
  case (Some row)
  with assms(1) have eff: "db' = db\<lparr>ws_fires := ws_fires db @ [claim_row now c i at None]\<rparr>"
    "(c, i, at) \<notin> fire_key ` set (ws_fires db)" by (auto dest: claim_effect)
  have "list_ex (workflow_at c i) (ws_workflows db)"
    using assms(1) Some by (auto simp: claim_scheduled_workflow_fire_def Let_def split: if_splits)
  then have "fire_typed (ws_workflows db) (ws_runs db) (claim_row now c i at None)"
    by (auto simp: fire_typed_def claim_row_def list_ex_iff workflow_at_def workflow_key_def is_none_or_def)
  moreover have "distinct (map fire_key (ws_fires db @ [claim_row now c i at None]))"
    using eff(2) assms(2) by (auto simp: tables_typed_def fire_key_def claim_row_def)
  ultimately show ?thesis
    unfolding eff(1) using assms(2) by (intro tables_typed_fires) (auto simp: tables_typed_def)
qed

lemma attach_typed:
  assumes "attach_scheduled_workflow_run c i at run db = Ok (b, db')" and "tables_typed db"
    and "list_ex (\<lambda>r. run_at c run r \<and> rr_workflow r = i) (ws_runs db)"
  shows "tables_typed db'"
proof -
  let ?p = "\<lambda>f. fi_community f = c \<and> fi_workflow f = i \<and> fi_scheduled_for f = at \<and> fi_run f = None"
  let ?rows = "snd (update_rows ?p (\<lambda>f. f\<lparr>fi_run := Some run\<rparr>) (ws_fires db))"
  have db': "db' = db\<lparr>ws_fires := ?rows\<rparr>"
    using assms(1) by (auto simp: attach_scheduled_workflow_run_def split_beta Let_def result_simps)
  have "distinct (map fire_key ?rows)"
    using assms(2) by (simp add: map_update_rows fire_key_def tables_typed_def)
  moreover have "list_all (fire_typed (ws_workflows db) (ws_runs db)) ?rows"
    using assms(2,3) by (auto simp: update_rows_def list_all_iff tables_typed_def fire_typed_def is_none_or_def)
  ultimately show ?thesis unfolding db' by (rule tables_typed_fires [OF assms(2)])
qed

lemma table_step_typed: "table_step db db' \<Longrightarrow> tables_typed db \<Longrightarrow> tables_typed db'"
proof (induction rule: table_step.induct)
  case (create now i c ch owner name def h db j db')
  then show ?case
    by (auto simp: create_workflow_def new_workflow_row_def workflow_key_def workflow_at_def list_ex_iff split: if_splits
        intro!: tables_typed_new_workflow)
next
  case (upsert now c i ch owner name def h db db')
  then show ?case
    by (auto simp: upsert_workflow_def new_workflow_row_def workflow_key_def workflow_at_def list_ex_iff split_beta Let_def
        split: if_splits intro!: tables_typed_new_workflow in_place_workflows)
next
  case (update c i name def h db db')
  then show ?case
    by (auto simp: update_workflow_def workflow_key_def split: if_splits elim!: update_workflow_rows_typed)
next
  case (status c i st db db')
  then show ?case by (auto simp: update_workflow_status_def workflow_key_def elim!: update_workflow_rows_typed)
next
  case (enabled c i b db db')
  then show ?case by (auto simp: set_workflow_enabled_def workflow_key_def elim!: update_workflow_rows_typed)
next
  case (disable c ch owner db n db')
  then show ?case
    by (auto simp: disable_workflows_for_owner_in_channel_def workflow_key_def split_beta Let_def intro!: in_place_workflows)
next
  case (delete c i db db')
  then show ?case by (auto simp: delete_workflow_def tables_typed_cascade split: if_splits)
next
  case (delete_own c i owner db ch db')
  then show ?case by (auto simp: delete_workflow_for_owner_def tables_typed_cascade split: option.splits)
next
  case (claim now c i at db f db')
  then show ?case
    by (rule claim_typed)
next
  case (attach c i at run db b db')
  with attach_typed show ?case by blast
next
  case (prune cutoff db n db')
  then show ?case
    by (auto simp: prune_scheduled_workflow_fires_before_def tables_typed_def distinct_map_filter list_all_iff)
next
  case (run now i c w ev ctx db j db')
  then show ?case
    by (auto simp: create_workflow_run_def list_ex_iff run_at_def workflow_at_def run_key_def run_typed_def workflow_key_def
        run_finished_def image_iff split: if_splits intro!: tables_typed_new_run)
next
  case (progress now c i rst step tr err db db')
  then show ?case
    by (auto simp: update_workflow_run_def split_beta Let_def result_simps run_key_def intro!: in_place_runs)
next
  case (approval sha now c token w rn step_id step_index spec expires db db')
  then show ?case by (auto simp: create_approval_def result_simps intro: new_approval_typed)
next
  case (actionable from_ts sha t p db stored db')
  then show ?case by (rule actionable_typed)
next
  case (decision from_ts t d db outcome db')
  show ?case
  proof (cases "db' = db")
    case True
    with decision show ?thesis by simp
  next
    case False
    from apply_decision_shape [OF decision(1) False] obtain threads as rs a where
        db': "db' = db\<lparr>ws_threads := threads, ws_approvals := as, ws_runs := rs\<rparr>"
      and as: "decide_approval (int t) d a (ws_approvals db) = Ok as"
      and rs: "rs = ws_runs db \<or> (\<exists>reason. cancel_waiting_run (int t) (dp_community d) a reason (ws_runs db) = Ok rs)"
      by blast
    have "tables_typed (db\<lparr>ws_approvals := as\<rparr>)" by (rule decided_rows_typed [OF as decision(2)])
    then have "tables_typed (db\<lparr>ws_approvals := as\<rparr>\<lparr>ws_runs := rs\<rparr>\<lparr>ws_threads := threads\<rparr>)"
      using rs cancelled_rows_typed [where db = "db\<lparr>ws_approvals := as\<rparr>"] by (auto simp: tables_typed_def)
    then show ?thesis by (simp add: db' tables_typed_def)
  qed
next
  case (resolve now c h ast approver remark db hit db')
  then show ?case
    by (auto simp: update_approval_by_stored_hash_def split_beta Let_def approval_key_def intro!: in_place_approvals)
qed


definition empty_tables :: wf_db where
  "empty_tables = sample_db\<lparr>ws_workflows := [], ws_runs := [],
     ws_channels := sample_channels\<lparr>cdb_users := [\<lparr>us_community = 1, us_pubkey = ''alice'', us_agent_owner = None, us_display_name = None,
      us_avatar_url = None, us_about = None, us_nip05_handle = None, us_channel_add_policy = ''anyone''\<rparr>]\<rparr>\<rparr>"


end
