(* ===== verification/Ingest_Kinds.thy ===== *)
theory Ingest_Kinds
  imports Workflow_Commands
begin

text \<open>
  What the ingest pipeline derives from a kind alone, \<open>crates/buzz-relay/src/handlers/ingest.rs\<close> and
  \<open>side_effects.rs\<close>: the scope a writer needs, whether an event is global or must name its channel,
  and which kinds are validated and followed by side effects.
\<close>

section \<open>Authentication of a submission\<close>

datatype http_auth_method = HttpNip98 | DevPubkey

datatype ingest_auth =
    WsAuth hex_string "scope list" "uuid list option" uuid
  | HttpAuth hex_string "scope list" http_auth_method

fun auth_pubkey :: "ingest_auth \<Rightarrow> hex_string" where
  "auth_pubkey (WsAuth p s chs i) = p"
| "auth_pubkey (HttpAuth p s m) = p"

fun auth_scopes :: "ingest_auth \<Rightarrow> scope list" where
  "auth_scopes (WsAuth p s chs i) = s"
| "auth_scopes (HttpAuth p s m) = s"

fun auth_channel_ids :: "ingest_auth \<Rightarrow> uuid list option" where
  "auth_channel_ids (WsAuth p s chs i) = chs"
| "auth_channel_ids (HttpAuth p s m) = None"

fun auth_is_http :: "ingest_auth \<Rightarrow> bool" where
  "auth_is_http (WsAuth p s chs i) = False"
| "auth_is_http (HttpAuth p s m) = True"

section \<open>Scopes\<close>

text \<open>The arms of the match, in their order; \<open>has_archived\<close> looks at the tags of kind 9002.\<close>

definition has_tag_named :: "event \<Rightarrow> string \<Rightarrow> bool" where
  "has_tag_named ev k \<longleftrightarrow> list_ex (\<lambda>t. tag_kind t = k) (ev_tags ev)"

definition users_write_state_kinds :: "kind list" where
  "users_write_state_kinds =
     [KIND_CONTACT_LIST, KIND_READ_STATE, KIND_USER_STATUS, KIND_AGENT_ENGRAM, KIND_EVENT_REMINDER,
      KIND_PERSONA, KIND_TEAM, KIND_MANAGED_AGENT, KIND_PUSH_LEASE]"

definition user_list_kinds :: "kind list" where
  "user_list_kinds =
     [KIND_MUTE_LIST, KIND_PIN_LIST, KIND_NIP65_RELAY_LIST_METADATA, KIND_BOOKMARK_LIST, KIND_FOLLOW_SET,
      KIND_BOOKMARK_SET, KIND_EMOJI_SET, KIND_EMOJI_LIST, KIND_AGENT_PROFILE]"

definition message_write_kinds :: "kind list" where
  "message_write_kinds =
     [KIND_DELETION, KIND_REACTION, KIND_GIFT_WRAP, KIND_STREAM_MESSAGE, KIND_STREAM_MESSAGE_V2,
      KIND_NIP29_DELETE_EVENT, KIND_STREAM_MESSAGE_EDIT, KIND_STREAM_MESSAGE_PINNED,
      KIND_STREAM_MESSAGE_BOOKMARKED, KIND_STREAM_MESSAGE_SCHEDULED, KIND_STREAM_REMINDER,
      KIND_STREAM_MESSAGE_DIFF, KIND_FORUM_POST, KIND_FORUM_VOTE, KIND_FORUM_COMMENT]"

definition huddle_kinds :: "kind list" where
  "huddle_kinds =
     [KIND_HUDDLE_STARTED, KIND_HUDDLE_PARTICIPANT_JOINED, KIND_HUDDLE_PARTICIPANT_LEFT, KIND_HUDDLE_ENDED,
      KIND_HUDDLE_GUIDELINES]"

definition git_message_kinds :: "kind list" where
  "git_message_kinds =
     [KIND_GIT_PATCH, KIND_GIT_PULL_REQUEST, KIND_GIT_PR_UPDATE, KIND_GIT_ISSUE, KIND_GIT_STATUS_OPEN,
      KIND_GIT_STATUS_MERGED, KIND_GIT_STATUS_CLOSED, KIND_GIT_STATUS_DRAFT]"

definition required_scope_for_kind :: "kind \<Rightarrow> event \<Rightarrow> (string, scope) result" where
  "required_scope_for_kind k ev =
     (if k = KIND_PROFILE then Ok UsersWrite
      else if k \<in> {KIND_TEXT_NOTE, KIND_LONG_FORM} then Ok MessagesWrite
      else if k \<in> set users_write_state_kinds then Ok UsersWrite
      else if k = KIND_AGENT_TURN_METRIC then Ok MessagesWrite
      else if k \<in> {KIND_REPORT, KIND_PRODUCT_FEEDBACK} then Ok MessagesWrite
      else if is_moderation_command_kind k then Ok MessagesWrite
      else if k \<in> set user_list_kinds then Ok UsersWrite
      else if k \<in> set message_write_kinds then Ok MessagesWrite
      else if k \<in> {KIND_NIP29_PUT_USER, KIND_NIP29_REMOVE_USER, KIND_NIP29_DELETE_GROUP} then Ok AdminChannels
      else if is_relay_admin_kind k then Ok AdminUsers
      else if k \<in> {KIND_IA_ARCHIVE_REQUEST, KIND_IA_UNARCHIVE_REQUEST} then Ok UsersWrite
      else if k = KIND_NIP29_EDIT_METADATA then
        (if has_tag_named ev ''archived'' then Ok AdminChannels else Ok ChannelsWrite)
      else if k \<in> {KIND_NIP29_CREATE_GROUP, KIND_CANVAS} then Ok ChannelsWrite
      else if k \<in> {KIND_NIP29_JOIN_REQUEST, KIND_NIP29_LEAVE_REQUEST, KIND_NIP43_LEAVE_REQUEST} then Ok ChannelsRead
      else if k \<in> set huddle_kinds then Ok ChannelsWrite
      else if k \<in> {KIND_GIT_REPO_ANNOUNCEMENT, KIND_GIT_REPO_STATE} then Ok ReposWrite
      else if k \<in> set git_message_kinds then Ok MessagesWrite
      else if k \<in> {KIND_DM_OPEN, KIND_DM_ADD_MEMBER, KIND_DM_HIDE} then Ok MessagesWrite
      else if k \<in> {KIND_WORKFLOW_DEF, KIND_WORKFLOW_TRIGGER} then Ok MessagesWrite
      else if k \<in> {KIND_APPROVAL_GRANT, KIND_APPROVAL_DENY, KIND_APPROVAL_PASS} then Ok MessagesWrite
      else Err ''restricted: unknown event kind'')"

section \<open>Global kinds and channel kinds\<close>

definition global_only_kinds :: "kind list" where
  "global_only_kinds =
     [KIND_PROFILE, KIND_TEXT_NOTE, KIND_CONTACT_LIST, KIND_LONG_FORM, KIND_USER_STATUS, KIND_READ_STATE,
      KIND_MUTE_LIST, KIND_PIN_LIST, KIND_NIP65_RELAY_LIST_METADATA, KIND_BOOKMARK_LIST, KIND_FOLLOW_SET,
      KIND_BOOKMARK_SET, KIND_EMOJI_SET, KIND_EMOJI_LIST, KIND_AGENT_ENGRAM, KIND_EVENT_REMINDER,
      KIND_AGENT_PROFILE, KIND_PERSONA, KIND_TEAM, KIND_MANAGED_AGENT,
      KIND_GIT_REPO_ANNOUNCEMENT, KIND_GIT_REPO_STATE, KIND_GIT_PATCH, KIND_GIT_PULL_REQUEST,
      KIND_GIT_PR_UPDATE, KIND_GIT_ISSUE, KIND_GIT_STATUS_OPEN, KIND_GIT_STATUS_MERGED,
      KIND_GIT_STATUS_CLOSED, KIND_GIT_STATUS_DRAFT,
      KIND_MODERATION_BAN, KIND_MODERATION_UNBAN, KIND_MODERATION_TIMEOUT, KIND_MODERATION_UNTIMEOUT,
      KIND_MODERATION_RESOLVE_REPORT,
      RELAY_ADMIN_ADD_MEMBER, RELAY_ADMIN_REMOVE_MEMBER, RELAY_ADMIN_CHANGE_ROLE,
      RELAY_ADMIN_SET_WORKSPACE_PROFILE, KIND_NIP43_LEAVE_REQUEST,
      KIND_IA_ARCHIVE_REQUEST, KIND_IA_UNARCHIVE_REQUEST, KIND_AGENT_TURN_METRIC, KIND_PUSH_LEASE]"

definition is_global_only_kind :: "kind \<Rightarrow> bool" where
  "is_global_only_kind k \<longleftrightarrow> k \<in> set global_only_kinds"

definition h_scoped_kinds :: "kind list" where
  "h_scoped_kinds =
     [KIND_STREAM_MESSAGE, KIND_STREAM_MESSAGE_V2, KIND_STREAM_MESSAGE_EDIT, KIND_STREAM_MESSAGE_PINNED,
      KIND_STREAM_MESSAGE_BOOKMARKED, KIND_STREAM_MESSAGE_SCHEDULED, KIND_STREAM_REMINDER,
      KIND_STREAM_MESSAGE_DIFF, KIND_CANVAS, KIND_FORUM_POST, KIND_FORUM_VOTE, KIND_FORUM_COMMENT,
      KIND_NIP29_PUT_USER, KIND_NIP29_REMOVE_USER, KIND_NIP29_EDIT_METADATA, KIND_NIP29_DELETE_EVENT,
      KIND_NIP29_DELETE_GROUP, KIND_NIP29_LEAVE_REQUEST,
      KIND_HUDDLE_STARTED, KIND_HUDDLE_PARTICIPANT_JOINED, KIND_HUDDLE_PARTICIPANT_LEFT, KIND_HUDDLE_ENDED,
      KIND_HUDDLE_GUIDELINES]"

definition requires_h_channel_scope :: "kind \<Rightarrow> bool" where
  "requires_h_channel_scope k \<longleftrightarrow> k \<in> set h_scoped_kinds"

section \<open>Side effects\<close>

definition is_admin_kind :: "kind \<Rightarrow> bool" where
  "is_admin_kind k \<longleftrightarrow> 9000 \<le> k \<and> k \<le> 9022"

definition is_side_effect_kind :: "kind \<Rightarrow> bool" where
  "is_side_effect_kind k \<longleftrightarrow>
     k = 0 \<or> k = 5 \<or> is_admin_kind k \<or> k = KIND_GIT_REPO_ANNOUNCEMENT \<or> k = KIND_AGENT_PROFILE
     \<or> (41001 \<le> k \<and> k \<le> 41003) \<or> k = 40099"

lemmas ingest_kind_lists =
  users_write_state_kinds_def user_list_kinds_def message_write_kinds_def huddle_kinds_def git_message_kinds_def
  global_only_kinds_def h_scoped_kinds_def

text \<open>A global kind never requires a channel tag, so the two rules of the pipeline cannot conflict.\<close>

lemma global_not_h_scoped: "is_global_only_kind k \<Longrightarrow> \<not> requires_h_channel_scope k"
proof -
  have "list_all (\<lambda>k. k \<notin> set h_scoped_kinds) global_only_kinds"
    by (simp add: ingest_kind_lists kind_consts)
  then show "is_global_only_kind k \<Longrightarrow> \<not> requires_h_channel_scope k"
    by (auto simp: is_global_only_kind_def requires_h_channel_scope_def list_all_iff)
qed

lemma scoped_kind_writable:
  assumes "is_global_only_kind k \<or> requires_h_channel_scope k"
  shows "\<exists>s. required_scope_for_kind k ev = Ok s"
proof -
  have "k \<in> set (global_only_kinds @ h_scoped_kinds)"
    using assms by (auto simp: is_global_only_kind_def requires_h_channel_scope_def)
  moreover have "list_all (\<lambda>k. is_ok (required_scope_for_kind k ev)) (global_only_kinds @ h_scoped_kinds)"
    by (simp add: required_scope_for_kind_def ingest_kind_lists is_moderation_command_kind_def is_relay_admin_kind_def
        kind_consts)
  ultimately show ?thesis by (auto simp: list_all_iff is_ok_iff)
qed


end
