(* ===== verification/Ingest_Envelopes.thy ===== *)
theory Ingest_Envelopes
  imports Ingest_Kinds
begin

text \<open>
  The checks of one event's own tags and content, \<open>crates/buzz-relay/src/handlers/ingest.rs\<close>, with the
  emoji shortcodes of \<open>crates/buzz-sdk/src/builders.rs\<close>. Strings are lists of bytes.
\<close>

section \<open>Custom emoji\<close>

definition MAX_CUSTOM_EMOJI_SHORTCODE_LEN :: nat where
  "MAX_CUSTOM_EMOJI_SHORTCODE_LEN = 64"

definition MAX_CUSTOM_EMOJI_REACTION_LEN :: nat where
  "MAX_CUSTOM_EMOJI_REACTION_LEN = MAX_CUSTOM_EMOJI_SHORTCODE_LEN + 2"

definition trim_matches :: "char \<Rightarrow> string \<Rightarrow> string" where
  "trim_matches c s = rev (dropWhile (\<lambda>x. x = c) (rev (dropWhile (\<lambda>x. x = c) s)))"

definition is_shortcode_char :: "char \<Rightarrow> bool" where
  "is_shortcode_char c \<longleftrightarrow> is_ascii_alphanumeric c \<or> c = CHR ''-'' \<or> c = CHR ''_''"

definition normalize_custom_emoji_shortcode :: "string \<Rightarrow> (string, string) result" where
  "normalize_custom_emoji_shortcode shortcode =
     (let trimmed = trim_matches (CHR '':'') (trim shortcode) in
      if trimmed = [] then Err ''emoji shortcode must not be empty''
      else if MAX_CUSTOM_EMOJI_SHORTCODE_LEN < length trimmed
      then Err (''emoji shortcode exceeds 64 bytes (got '' @ nat_to_string (length trimmed) @ '')'')
      else if \<not> list_all is_shortcode_char trimmed
      then Err ''emoji shortcode may only contain ASCII letters, digits, hyphens, and underscores''
      else Ok (ascii_lower trimmed))"

definition rejected :: "string \<Rightarrow> ingest_error" where
  "rejected m = Rejected (''invalid: '' @ m)"

fun validate_emoji_tag_list :: "tag list \<Rightarrow> (ingest_error, unit) result" where
  "validate_emoji_tag_list [] = Ok ()"
| "validate_emoji_tag_list (t # ts) =
     (if t = [] \<or> t ! 0 \<noteq> ''emoji'' then validate_emoji_tag_list ts
      else if length t < 2 then Err (rejected ''emoji tag must include a shortcode'')
      else bind_result (map_err rejected (normalize_custom_emoji_shortcode (t ! 1)))
             (\<lambda>_. validate_emoji_tag_list ts))"

definition validate_custom_emoji_tags :: "event \<Rightarrow> (ingest_error, unit) result" where
  "validate_custom_emoji_tags ev = validate_emoji_tag_list (ev_tags ev)"

definition emoji_too_long :: "nat \<Rightarrow> ingest_error" where
  "emoji_too_long n = rejected (''reaction emoji exceeds 64 characters (got '' @ nat_to_string n @ '')'')"

definition validate_reaction_emoji :: "event \<Rightarrow> string \<Rightarrow> (ingest_error, unit) result" where
  "validate_reaction_emoji ev emoji =
     (let n = chars_count emoji in
      if n \<le> 64 then Ok ()
      else
        (case Option.bind (strip_prefix emoji '':'') (\<lambda>v. strip_suffix v '':'') of
           None \<Rightarrow> Err (emoji_too_long n)
         | Some shortcode \<Rightarrow>
             bind_result (map_err rejected (normalize_custom_emoji_shortcode shortcode)) (\<lambda>normalized.
             if shortcode \<noteq> normalized
             then Err (rejected ''long custom emoji reaction shortcode must be canonical lowercase'')
             else if \<not> list_ex (\<lambda>t. 2 \<le> length t \<and> t ! 0 = ''emoji'' \<and> t ! 1 = shortcode) (ev_tags ev)
                  \<or> MAX_CUSTOM_EMOJI_REACTION_LEN < n
             then Err (emoji_too_long n) else Ok ())))"

section \<open>Diffs\<close>

definition is_http_url :: "string \<Rightarrow> bool" where
  "is_http_url s \<longleftrightarrow> starts_with s ''http://'' \<or> starts_with s ''https://''"

definition is_commit_sha :: "string \<Rightarrow> bool" where
  "is_commit_sha s \<longleftrightarrow> \<not> length s < 7 \<and> list_all is_hex_char s"

text \<open>The loop over the tags, with the two flags.\<close>

fun diff_tag_loop :: "bool \<Rightarrow> bool \<Rightarrow> tag list \<Rightarrow> (string, bool \<times> bool) result" where
  "diff_tag_loop repo commit [] = Ok (repo, commit)"
| "diff_tag_loop repo commit (t # ts) =
     (if length t < 2 then diff_tag_loop repo commit ts
      else if t ! 0 = ''repo'' then
        (if \<not> is_http_url (t ! 1) then Err ''repo URL must be http or https'' else diff_tag_loop True commit ts)
      else if t ! 0 = ''commit'' then
        (if \<not> is_commit_sha (t ! 1) then Err ''commit SHA must be at least 7 hex characters''
         else diff_tag_loop repo True ts)
      else if t ! 0 = ''parent-commit'' then
        (if \<not> is_commit_sha (t ! 1) then Err ''parent-commit SHA must be at least 7 hex characters''
         else diff_tag_loop repo commit ts)
      else if t ! 0 = ''branch'' \<and> (length t < 3 \<or> t ! 1 = [] \<or> t ! 2 = [])
      then Err ''branch tag requires both source and target''
      else if t ! 0 = ''pr'' \<and> (case parse_unsigned (2 ^ 32 - 1) (t ! 1) of Some n \<Rightarrow> n = 0 | None \<Rightarrow> True)
      then Err ''pr number must be a positive integer''
      else diff_tag_loop repo commit ts)"

definition validate_diff_event :: "event \<Rightarrow> (string, unit) result" where
  "validate_diff_event ev =
     (if 61440 < length (ev_content ev)
      then Err (''diff content exceeds 60KB limit (got '' @ nat_to_string (length (ev_content ev)) @ '' bytes)'')
      else
        bind_result (diff_tag_loop False False (ev_tags ev)) (\<lambda>(has_repo, has_commit).
        if \<not> has_repo then Err ''diff event requires a repo tag''
        else if \<not> has_commit then Err ''diff event requires a commit tag''
        else Ok ()))"

section \<open>NIP-44 payloads\<close>

definition is_b64_char :: "char \<Rightarrow> bool" where
  "is_b64_char c \<longleftrightarrow> is_ascii_alphanumeric c \<or> c = CHR ''+'' \<or> c = CHR ''/''"

definition not_base64 :: string where
  "not_base64 = ''agent-engram content is not valid base64''"

text \<open>The loop over the bytes: \<open>i\<close> the position, \<open>pad\<close> the padding seen so far.\<close>

fun nip44_scan :: "nat \<Rightarrow> nat \<Rightarrow> nat \<Rightarrow> string \<Rightarrow> (string, nat) result" where
  "nip44_scan len i pad [] = Ok pad"
| "nip44_scan len i pad (b # bs) =
     (if is_b64_char b then
        (if 0 < pad then Err not_base64 else nip44_scan len (i + 1) pad bs)
      else if b = CHR ''='' then
        (if i < len - 2 then Err not_base64
         else if 2 < pad + 1 then Err not_base64
         else nip44_scan len (i + 1) (pad + 1) bs)
      else Err not_base64)"

definition b64_val :: "char \<Rightarrow> 8 word option" where
  "b64_val c =
     (let n = (of_char c :: nat) in
      if 65 \<le> n \<and> n \<le> 90 then Some (word_of_nat (n - 65))
      else if 97 \<le> n \<and> n \<le> 122 then Some (word_of_nat (n - 97 + 26))
      else if 48 \<le> n \<and> n \<le> 57 then Some (word_of_nat (n - 48 + 52))
      else if c = CHR ''+'' then Some 62
      else if c = CHR ''/'' then Some 63
      else None)"

definition validate_engram_nip44_content :: "string \<Rightarrow> (string, unit) result" where
  "validate_engram_nip44_content content =
     (let len = length content in
      if content = [] then Err ''agent-engram content must not be empty (NIP-44 ciphertext)''
      else if \<not> 4 dvd len then Err ''agent-engram content is not valid base64 (length)''
      else
        bind_result (nip44_scan len 0 0 content) (\<lambda>pad.
        if len div 4 * 3 - pad < 99 then Err ''agent-engram content too short for NIP-44 v2''
        else
          bind_result (ok_or (b64_val (content ! 0)) not_base64) (\<lambda>v0.
          bind_result (ok_or (b64_val (content ! 1)) not_base64) (\<lambda>v1.
          if Bit_Operations.or (push_bit 2 v0) (drop_bit 4 v1) \<noteq> 2
          then Err ''agent-engram content is not NIP-44 v2 (expected 0x02 version prefix)''
          else Ok ()))))"

section \<open>Engrams, personas and turn metrics\<close>

text \<open>The values of the tags of a name that have a value, in order.\<close>

definition tag_values :: "string \<Rightarrow> event \<Rightarrow> string list" where
  "tag_values name ev = List.map_filter (tag_second name) (ev_tags ev)"

definition is_lower_hex_char :: "char \<Rightarrow> bool" where
  "is_lower_hex_char c \<longleftrightarrow> is_hex_char c \<and> \<not> (65 \<le> (of_char c :: nat) \<and> (of_char c :: nat) \<le> 90)"

definition is_lower_hex64 :: "string \<Rightarrow> bool" where
  "is_lower_hex64 s \<longleftrightarrow> \<not> (length s \<noteq> 64 \<or> \<not> list_all is_lower_hex_char s)"

definition exactly_one :: "string \<Rightarrow> string \<Rightarrow> string list \<Rightarrow> (string, string) result" where
  "exactly_one what name values =
     (if length values \<noteq> 1
      then Err (what @ '' event must have exactly one `'' @ name @ ''` tag (got '' @ nat_to_string (length values) @ '')'')
      else Ok (values ! 0))"

definition validate_engram_envelope :: "event \<Rightarrow> (string, unit) result" where
  "validate_engram_envelope ev =
     bind_result (exactly_one ''agent-engram'' ''d'' (tag_values ''d'' ev)) (\<lambda>d.
     bind_result (exactly_one ''agent-engram'' ''p'' (tag_values ''p'' ev)) (\<lambda>p.
     if \<not> is_lower_hex64 d then Err ''agent-engram `d` tag must be 64 lowercase hex chars''
     else if \<not> is_lower_hex64 p then Err ''agent-engram `p` tag must be 64 lowercase hex chars (pubkey)''
     else validate_engram_nip44_content (ev_content ev)))"

text \<open>
  The loop over the tags of a persona: the values of \<open>d\<close> and the number of \<open>shared\<close> tags. The
  message about a bad \<open>shared\<close> tag is kept without its debug print of the tag.
\<close>

fun persona_tag_loop :: "string list \<Rightarrow> nat \<Rightarrow> tag list \<Rightarrow> (string, string list \<times> nat) result" where
  "persona_tag_loop ds shared [] = Ok (ds, shared)"
| "persona_tag_loop ds shared (t # ts) =
     (let ds' = (if 2 \<le> length t \<and> t ! 0 = ''d'' then ds @ [t ! 1] else ds) in
      if t \<noteq> [] \<and> t ! 0 = ''shared'' then
        (if length t \<noteq> 2 \<or> t ! 1 \<noteq> ''true''
         then Err ''persona event `shared` tag must be exactly [shared,true]''
         else persona_tag_loop ds' (shared + 1) ts)
      else persona_tag_loop ds' shared ts)"

definition is_lower_or_digit :: "char \<Rightarrow> bool" where
  "is_lower_or_digit c \<longleftrightarrow> (97 \<le> (of_char c :: nat) \<and> (of_char c :: nat) \<le> 122) \<or> is_digit c"

definition validate_persona_envelope :: "event \<Rightarrow> (string, unit) result" where
  "validate_persona_envelope ev =
     bind_result (persona_tag_loop [] 0 (ev_tags ev)) (\<lambda>(d_tags, shared_count).
     if 1 < shared_count
     then Err (''persona event must have at most one `shared` tag (got '' @ nat_to_string shared_count @ '')'')
     else
       bind_result (exactly_one ''persona'' ''d'' d_tags) (\<lambda>d.
       if d = [] then Err ''persona event `d` tag must not be empty''
       else if 64 < length d
       then Err (''persona event `d` tag too long ('' @ nat_to_string (length d) @ '' chars, max 64)'')
       else if \<not> is_lower_or_digit (d ! 0)
       then Err ''persona event `d` tag must start with a lowercase letter or digit''
       else if \<not> list_all (\<lambda>b. is_lower_or_digit b \<or> b = CHR ''_'' \<or> b = CHR ''-'') (tl d)
       then Err ''persona event `d` tag must match [a-z0-9_-] after the first character''
       else Ok ()))"

text \<open>\<open>map_err\<close> of the last check replaces the name of the event in the message.\<close>

definition for_turn_metric :: "string \<Rightarrow> string" where
  "for_turn_metric m =
     (case strip_prefix m ''agent-engram'' of Some rest \<Rightarrow> ''agent-turn-metric'' @ rest | None \<Rightarrow> m)"

definition validate_agent_turn_metric_envelope :: "event \<Rightarrow> (string, unit) result" where
  "validate_agent_turn_metric_envelope ev =
     (if tag_values ''h'' ev \<noteq> [] then Err ''agent-turn-metric event must not have an `h` tag''
      else
        bind_result (exactly_one ''agent-turn-metric'' ''p'' (tag_values ''p'' ev)) (\<lambda>p.
        if \<not> is_lower_hex64 p then Err ''agent-turn-metric `p` tag must be 64 lowercase hex chars''
        else
          bind_result (exactly_one ''agent-turn-metric'' ''agent'' (tag_values ''agent'' ev)) (\<lambda>agent.
          if \<not> is_lower_hex64 agent then Err ''agent-turn-metric `agent` tag must be 64 lowercase hex chars''
          else if agent \<noteq> ev_pubkey ev then Err ''agent-turn-metric `agent` tag must equal event pubkey''
          else map_err for_turn_metric (validate_engram_nip44_content (ev_content ev)))))"

section \<open>Reminders\<close>

definition MAX_NOT_BEFORE :: nat where
  "MAX_NOT_BEFORE = 9007199254740991"

definition validate_not_before :: "string \<Rightarrow> (string, nat) result" where
  "validate_not_before v =
     (if v = [] \<or> \<not> list_all is_digit v then Err ''malformed not_before''
      else if 1 < length v \<and> v ! 0 = CHR ''0'' then Err ''malformed not_before''
      else
        bind_result (ok_or (parse_unsigned u64_max v) ''malformed not_before'') (\<lambda>n.
        if MAX_NOT_BEFORE < n then Err ''malformed not_before'' else Ok n))"

record reminder_tags =
  rt_not_before :: "nat option"
  rt_expiration :: "string option"
  rt_d_count :: nat
  rt_d_empty :: bool

fun reminder_tag_loop :: "reminder_tags \<Rightarrow> tag list \<Rightarrow> (string, reminder_tags) result" where
  "reminder_tag_loop r [] = Ok r"
| "reminder_tag_loop r (t # ts) =
     (if length t < 2 then reminder_tag_loop r ts
      else if t ! 0 = ''not_before'' then
        (if rt_not_before r \<noteq> None then Err ''malformed not_before''
         else bind_result (validate_not_before (t ! 1))
                (\<lambda>n. reminder_tag_loop (r\<lparr>rt_not_before := Some n\<rparr>) ts))
      else if t ! 0 = ''expiration'' then reminder_tag_loop (r\<lparr>rt_expiration := Some (t ! 1)\<rparr>) ts
      else if t ! 0 = ''d'' then
        reminder_tag_loop (r\<lparr>rt_d_count := min 255 (rt_d_count r + 1),
                             rt_d_empty := (if t ! 1 = [] then True else rt_d_empty r)\<rparr>) ts
      else reminder_tag_loop r ts)"

text \<open>\<open>max_delta\<close> comes from the environment; the sum is a \<open>u64\<close>.\<close>

definition validate_event_reminder :: "nat \<Rightarrow> nat \<Rightarrow> event \<Rightarrow> (string, unit) result" where
  "validate_event_reminder max_delta now ev =
     bind_result (reminder_tag_loop \<lparr>rt_not_before = None, rt_expiration = None, rt_d_count = 0, rt_d_empty = False\<rparr>
                    (ev_tags ev)) (\<lambda>r.
     if rt_d_count r = 0 then Err ''missing d tag''
     else if 1 < rt_d_count r then Err ''duplicate d tag''
     else if rt_d_empty r then Err ''empty d tag''
     else
       (case rt_not_before r of
          None \<Rightarrow> Ok ()
        | Some nb \<Rightarrow>
            if wrapping_add64 now max_delta < nb then Err ''not_before too far in future''
            else
              (case Option.bind (rt_expiration r) (parse_unsigned u64_max) of
                 Some e \<Rightarrow> if e \<le> nb then Err ''expiration before not_before'' else Ok ()
               | None \<Rightarrow> Ok ())))"

end
