(* ===== verification/Ingest_Envelope_Laws.thy ===== *)
theory Ingest_Envelope_Laws
  imports Ingest_Envelopes
begin

text \<open>
  What the shape checks of \<open>crates/buzz-relay/src/handlers/ingest.rs\<close> guarantee of an accepted event:
  which byte layouts pass as an encrypted payload, and which tags and content each kind must carry.
\<close>

lemma nat_two_bits: "n = 2 \<longleftrightarrow> take_bit 2 n = 2 \<and> drop_bit 2 n = (0 :: nat)"
proof -
  have "n = 2 \<longleftrightarrow> n mod 4 = 2 \<and> n div 4 = 0" by presburger
  then show ?thesis by (simp add: take_bit_eq_mod drop_bit_eq_div)
qed

lemma version_byte:
  fixes v0 v1 :: "8 word"
  assumes "unat v0 < 64" and "unat v1 < 64"
  shows "Bit_Operations.or (push_bit 2 v0) (drop_bit 4 v1) = 2 \<longleftrightarrow> unat v0 = 0 \<and> unat v1 div 16 = 2"
proof -
  let ?o = "unat (Bit_Operations.or (push_bit 2 v0) (drop_bit 4 v1))"
  have p: "unat (push_bit 2 v0) = push_bit 2 (unat v0)"
    unfolding unsigned_push_bit_eq using assms(1) by (intro take_bit_nat_eq_self) (simp add: push_bit_eq_mult)
  have o: "?o = Bit_Operations.or (push_bit 2 (unat v0)) (drop_bit 4 (unat v1))"
    using assms(2) by (simp add: unsigned_or_eq p unsigned_drop_bit_eq take_bit_nat_eq_self)
  have small: "drop_bit 4 (unat v1) < 4" using assms(2) by (simp add: drop_bit_eq_div)
  have high: "drop_bit 6 (unat v1) = 0" using assms(2) by (simp add: drop_bit_eq_div)
  have low: "take_bit 2 ?o = drop_bit 4 (unat v1)"
    unfolding o by (simp add: take_bit_or take_bit_push_bit take_bit_nat_eq_self small)
  have rest: "drop_bit 2 ?o = unat v0"
    unfolding o using high by (simp add: drop_bit_or drop_bit_push_bit)
  have "?o = 2 \<longleftrightarrow> take_bit 2 ?o = 2 \<and> drop_bit 2 ?o = 0"
    by (rule nat_two_bits)
  then have "?o = 2 \<longleftrightarrow> unat v0 = 0 \<and> drop_bit 4 (unat v1) = 2"
    unfolding low rest by blast
  moreover have "(Bit_Operations.or (push_bit 2 v0) (drop_bit 4 v1) = 2) = (?o = 2)" by (simp add: word_unat_eq_iff)
  ultimately show ?thesis by (simp add: drop_bit_eq_div)
qed
lemma char_code_iff: "c = d \<longleftrightarrow> (of_char c :: nat) = of_char d"
  by simp

lemma b64_val_cases:
  assumes "b64_val c = Some v"
  obtains "65 \<le> (of_char c :: nat)" "of_char c \<le> (90::nat)" "unat v = of_char c - 65"
  | "97 \<le> (of_char c :: nat)" "of_char c \<le> (122::nat)" "unat v = of_char c - 97 + 26"
  | "48 \<le> (of_char c :: nat)" "of_char c \<le> (57::nat)" "unat v = of_char c - 48 + 52"
  | "of_char c = (43::nat)" "unat v = 62"
  | "of_char c = (47::nat)" "unat v = 63"
proof -
  have u: "unat (word_of_nat n :: 8 word) = n" if "n < 64" for n
    using that by (simp add: unsigned_of_nat take_bit_nat_eq_self)
  show thesis
    using assms that
    by (auto simp del: of_nat_diff of_nat_add simp: u b64_val_def Let_def char_code_iff [of c "CHR ''+''"] char_code_iff [of c "CHR ''/''"] split: if_splits)
qed

lemma b64_val_defined: "is_b64_char c \<longleftrightarrow> (\<exists>v. b64_val c = Some v)"
  by (auto simp: b64_val_def is_b64_char_def is_ascii_alphanumeric_def is_digit_def is_ascii_alphabetic_def Let_def)

lemma b64_val_facts:
  assumes "b64_val c = Some v"
  shows "unat v < 64" and "unat v = 0 \<longleftrightarrow> c = CHR ''A''"
    and "unat v div 16 = 2 \<longleftrightarrow> 103 \<le> (of_char c :: nat) \<and> (of_char c :: nat) \<le> 118"
  using assms by (cases rule: b64_val_cases; simp add: char_code_iff [of c "CHR ''A''"]; linarith?)+

lemma scan_padding:
  assumes "len - 2 \<le> i" "i + length s = len" "0 < pad" "pad \<le> 2"
  shows "nip44_scan len i pad s = Ok p \<longleftrightarrow> p \<le> 2 \<and> pad \<le> p \<and> s = replicate (p - pad) (CHR ''='')"
  using assms
proof (induction s arbitrary: i pad)
  case (Cons b bs)
  have eq: "\<not> is_b64_char (CHR ''='')" by (simp add: is_b64_char_def is_ascii_alphanumeric_def is_digit_def is_ascii_alphabetic_def)
  show ?case
  proof (cases "b = CHR ''='' \<and> pad + 1 \<le> 2")
    case True
    with Cons.IH [of "i + 1" "pad + 1"] Cons.prems eq show ?thesis
      by (cases "p - pad") auto
  next
    case False
    with Cons.prems eq show ?thesis
      by (cases "p - pad") auto
  qed
qed auto

lemma scan_body:
  assumes "i + length s = len"
  shows "nip44_scan len i 0 s = Ok p \<longleftrightarrow>
    p \<le> 2 \<and> p \<le> length s \<and> list_all is_b64_char (take (length s - p) s) \<and> drop (length s - p) s = replicate p (CHR ''='')"
  using assms
proof (induction s arbitrary: i)
  case Nil
  then show ?case by auto
next
  case (Cons b bs)
  have eq: "\<not> is_b64_char (CHR ''='')" by (simp add: is_b64_char_def is_ascii_alphanumeric_def is_digit_def is_ascii_alphabetic_def)
  consider "is_b64_char b" | "b = CHR ''=''" | "\<not> is_b64_char b" "b \<noteq> CHR ''=''" by blast
  then show ?case
  proof cases
    case 1
    then have "b \<noteq> CHR ''=''" using eq by auto
    with 1 Cons.IH [of "i + 1"] Cons.prems show ?thesis
      by (cases "p \<le> length bs") (auto simp: Suc_diff_le not_le le_Suc_eq)
  next
    case 2
    show ?thesis
    proof (cases "length bs \<le> 1")
      case True
      with 2 eq Cons.prems scan_padding [of len "i + 1" bs 1 p] show ?thesis
        by (cases bs; cases p) (auto simp: le_Suc_eq)
    next
      case False
      with 2 eq Cons.prems show ?thesis by (cases "p \<le> length bs") (auto simp: Suc_diff_le)
    qed
  next
    case 3
    with Cons.prems show ?thesis by (cases "p \<le> length bs") (auto simp: Suc_diff_le, cases p, auto)
  qed
qed

text \<open>The reference: a base64 text with its padding whose first decoded byte is the version.\<close>

definition nip44_shaped :: "string \<Rightarrow> nat \<Rightarrow> bool" where
  "nip44_shaped content pad \<longleftrightarrow>
     4 dvd length content \<and> pad \<le> 2 \<and> 99 + pad \<le> length content div 4 * 3
     \<and> list_all is_b64_char (take (length content - pad) content)
     \<and> drop (length content - pad) content = replicate pad (CHR ''='')
     \<and> content ! 0 = CHR ''A'' \<and> 103 \<le> (of_char (content ! 1) :: nat) \<and> (of_char (content ! 1) :: nat) \<le> 118"

lemma nip44_content_exact:
  "validate_engram_nip44_content content = Ok () \<longleftrightarrow> list_ex (nip44_shaped content) [0, 1, 2]"
proof -
  have ex: "list_ex P [0, 1, 2] \<longleftrightarrow> (\<exists>p \<le> 2. P p)" for P :: "nat \<Rightarrow> bool"
    by (auto simp: le_Suc_eq numeral_2_eq_2)
  have scan: "nip44_scan (length content) 0 0 content = Ok p \<longleftrightarrow> p \<le> 2 \<and> p \<le> length content
      \<and> list_all is_b64_char (take (length content - p) content) \<and> drop (length content - p) content = replicate p (CHR ''='')" for p
    by (rule scan_body) simp
  have head: "content ! 0 = take (length content - p) content ! 0 \<and> content ! 1 = take (length content - p) content ! 1
      \<and> 1 < length (take (length content - p) content)"
    if "99 + p \<le> length content div 4 * 3" "p \<le> 2" for p
    using that by auto
  have version: "(\<exists>v0 v1. b64_val (content ! 0) = Some v0 \<and> b64_val (content ! 1) = Some v1
        \<and> Bit_Operations.or (push_bit 2 v0) (drop_bit 4 v1) = 2) \<longleftrightarrow>
      content ! 0 = CHR ''A'' \<and> 103 \<le> (of_char (content ! 1) :: nat) \<and> (of_char (content ! 1) :: nat) \<le> 118"
    if "is_b64_char (content ! 0)" "is_b64_char (content ! 1)"
  proof -
    from that obtain v0 v1 where "b64_val (content ! 0) = Some v0" "b64_val (content ! 1) = Some v1"
      by (auto simp: b64_val_defined)
    then show ?thesis using b64_val_facts version_byte by auto
  qed
  have "validate_engram_nip44_content content = Ok () \<longleftrightarrow>
      (\<exists>p. content \<noteq> [] \<and> 4 dvd length content \<and> nip44_scan (length content) 0 0 content = Ok p
        \<and> 99 \<le> length content div 4 * 3 - p
        \<and> (\<exists>v0 v1. b64_val (content ! 0) = Some v0 \<and> b64_val (content ! 1) = Some v1
             \<and> Bit_Operations.or (push_bit 2 v0) (drop_bit 4 v1) = 2))"
    by (auto simp: validate_engram_nip44_content_def Let_def result_simps not_less)
  also have "\<dots> \<longleftrightarrow> (\<exists>p \<le> 2. nip44_shaped content p)"
  proof (intro iffI; elim exE conjE)
    fix p v0 v1
    assume *: "4 dvd length content" "nip44_scan (length content) 0 0 content = Ok p" "99 \<le> length content div 4 * 3 - p"
      "b64_val (content ! 0) = Some v0" "b64_val (content ! 1) = Some v1"
      "Bit_Operations.or (push_bit 2 v0) (drop_bit 4 v1) = 2"
    then show "\<exists>p \<le> 2. nip44_shaped content p"
      using scan [of p] version by (intro exI [of _ p]) (auto simp: nip44_shaped_def b64_val_defined)
  next
    fix p
    assume *: "p \<le> 2" "nip44_shaped content p"
    then have len: "99 + p \<le> length content div 4 * 3" by (simp add: nip44_shaped_def)
    note h = head [OF len *(1)]
    let ?b = "take (length content - p) content"
    have "list_all is_b64_char ?b" using *(2) by (simp add: nip44_shaped_def)
    then have "is_b64_char (?b ! 0)" "is_b64_char (?b ! 1)"
      using h by (auto simp only: list_all_length)
    with h have "is_b64_char (content ! 0)" "is_b64_char (content ! 1)" by metis+
    note v = version [OF this]
    show "\<exists>p. content \<noteq> [] \<and> 4 dvd length content \<and> nip44_scan (length content) 0 0 content = Ok p
        \<and> 99 \<le> length content div 4 * 3 - p
        \<and> (\<exists>v0 v1. b64_val (content ! 0) = Some v0 \<and> b64_val (content ! 1) = Some v1
             \<and> Bit_Operations.or (push_bit 2 v0) (drop_bit 4 v1) = 2)"
    proof (intro exI [of _ p] conjI)
      have pos: "p \<le> length content" "content \<noteq> []" using len *(1) by auto
      then show "content \<noteq> []" by simp
      show "4 dvd length content" "nip44_scan (length content) 0 0 content = Ok p"
        using * pos scan [of p] by (simp_all add: nip44_shaped_def)
      show "99 \<le> length content div 4 * 3 - p" using len by simp
      show "\<exists>v0 v1. b64_val (content ! 0) = Some v0 \<and> b64_val (content ! 1) = Some v1
             \<and> Bit_Operations.or (push_bit 2 v0) (drop_bit 4 v1) = 2"
        using *(2) v by (simp add: nip44_shaped_def)
    qed
  qed
  finally show ?thesis unfolding ex .
qed

section \<open>Personas\<close>

lemma persona_loop_exact:
  "persona_tag_loop ds n ts = Ok (ds', n') \<longleftrightarrow>
     list_all (\<lambda>t. tag_kind t = ''shared'' \<longrightarrow> t = [''shared'', ''true'']) ts
     \<and> ds' = ds @ List.map_filter (tag_second ''d'') ts \<and> n' = n + length (filter (\<lambda>t. tag_kind t = ''shared'') ts)"
proof (induction ts arbitrary: ds n)
  case (Cons t ts)
  consider "t = []" | a where "t = [a]" | a b where "t = [a, b]" | a b c r where "t = a # b # c # r"
    by (metis neq_Nil_conv)
  then show ?case
    by cases (auto simp: Cons.IH tag_second_def map_filter_def tag_kind_def Let_def)
qed (auto simp: map_filter_def)

definition persona_slug :: "string \<Rightarrow> bool" where
  "persona_slug d \<longleftrightarrow>
     d \<noteq> [] \<and> length d \<le> 64 \<and> is_lower_or_digit (hd d)
     \<and> list_all (\<lambda>b. is_lower_or_digit b \<or> b = CHR ''_'' \<or> b = CHR ''-'') (tl d)"

text \<open>
  A persona is accepted exactly when it has one slug and carries no mark or the one exact mark
  that shares it; of an accepted persona the read gate says shared exactly when the mark is there,
  and the slug is the address it is stored under.
\<close>

lemma persona_head_is_unambiguous:
  "validate_persona_envelope ev = Ok () \<longleftrightarrow>
     length (tag_values ''d'' ev) = 1 \<and> persona_slug (hd (tag_values ''d'' ev))
     \<and> persona_event_is_shared ev = has_tag_named ev ''shared''"
proof -
  let ?sh = "filter (\<lambda>t. tag_kind t = ''shared'') (ev_tags ev)"
  let ?exact = "list_all (\<lambda>t. tag_kind t = ''shared'' \<longrightarrow> t = [''shared'', ''true'']) (ev_tags ev)"
  have shared: "persona_event_is_shared ev \<longleftrightarrow> ?exact \<and> length ?sh = 1"
    by (auto simp: persona_event_is_shared_def shared_tag_loop_iff list_all_iff)
  have named: "has_tag_named ev ''shared'' \<longleftrightarrow> ?sh \<noteq> []"
    by (auto simp: has_tag_named_def list_ex_iff filter_empty_conv)
  have none: "?exact" if "?sh = []" using that by (auto simp: filter_empty_conv list_all_iff)
  have slug: "persona_slug d \<longleftrightarrow> d \<noteq> [] \<and> \<not> 64 < length d \<and> is_lower_or_digit (d ! 0)
     \<and> list_all (\<lambda>b. is_lower_or_digit b \<or> b = CHR ''_'' \<or> b = CHR ''-'') (tl d)" for d
    by (auto simp: persona_slug_def hd_conv_nth)
  have "validate_persona_envelope ev = Ok () \<longleftrightarrow>
      ?exact \<and> length ?sh \<le> 1 \<and> length (tag_values ''d'' ev) = 1 \<and> persona_slug (tag_values ''d'' ev ! 0)"
    by (auto simp: validate_persona_envelope_def exactly_one_def result_simps persona_loop_exact slug
        tag_values_def [symmetric])
  moreover have "length (tag_values ''d'' ev) = 1 \<Longrightarrow> tag_values ''d'' ev ! 0 = hd (tag_values ''d'' ev)"
    by (auto simp: hd_conv_nth length_Suc_conv)
  moreover have "?exact \<and> length ?sh \<le> 1 \<longleftrightarrow> persona_event_is_shared ev = has_tag_named ev ''shared''"
    unfolding shared named using none by (cases ?sh) auto
  ultimately show ?thesis by auto
qed


section \<open>Reminders\<close>

lemma digits_value_snoc: "digits_value (s @ [c]) = 10 * digits_value s + digit_value c"
  by (simp add: digits_value_def)

lemma digit_value_less: "is_digit c \<Longrightarrow> digit_value c < 10 \<and> digit_char (digit_value c) = c"
  by (auto simp: is_digit_def digit_value_def digit_char_def Let_def)

lemma canonical_digits:
  assumes "s \<noteq> []" "list_all is_digit s" "1 < length s \<Longrightarrow> s ! 0 \<noteq> CHR ''0''"
  shows "nat_to_string (digits_value s) = s \<and> (digits_value s = 0 \<longrightarrow> s = ''0'')"
  using assms
proof (induction s rule: rev_induct)
  case (snoc c s)
  from snoc.prems have c: "digit_value c < 10" "digit_char (digit_value c) = c"
    using digit_value_less by auto
  have zero: "digit_char 0 = CHR ''0''" by code_simp
  show ?case
  proof (cases "s = []")
    case True
    have "nat_to_string (digit_value c) = [c]" using c by (subst nat_to_string.simps) simp
    with True c zero show ?thesis by (auto simp: digits_value_def)
  next
    case False
    with snoc.prems have head: "s ! 0 \<noteq> CHR ''0''" by (cases s) auto
    with snoc.IH snoc.prems False have IH: "nat_to_string (digits_value s) = s" "digits_value s \<noteq> 0" by auto
    then have "10 \<le> 10 * digits_value s + digit_value c" by simp
    with IH c show ?thesis
      by (subst nat_to_string.simps) (simp add: digits_value_snoc)
  qed
qed simp

lemma not_before_canonical:
  assumes "validate_not_before v = Ok n"
  shows "v = nat_to_string n \<and> n \<le> MAX_NOT_BEFORE \<and> parse_i64 v = Some (int n)"
proof -
  from assms have digits: "v \<noteq> []" "list_all is_digit v" "1 < length v \<Longrightarrow> v ! 0 \<noteq> CHR ''0''"
    and n: "parse_unsigned u64_max v = Some n" "n \<le> MAX_NOT_BEFORE"
    by (auto simp: validate_not_before_def result_simps split: if_splits)
  obtain c cs where v: "v = c # cs" using digits(1) by (cases v) auto
  have sign: "c \<noteq> CHR ''+''" "c \<noteq> CHR ''-''" using digits(2) v by (auto simp: is_digit_def Let_def)
  have val: "parse_digits v = Some n" using n(1) v sign by (auto simp: parse_unsigned_def split: option.splits if_splits)
  then have nv: "digits_value v = n" by (auto simp: parse_digits_def split: if_splits)
  have "n \<le> 2 ^ 63 - 1" using n(2) by (simp add: MAX_NOT_BEFORE_def)
  then have "parse_unsigned (2 ^ 63 - 1) v = Some n" using val v sign by (simp add: parse_unsigned_def)
  then have "parse_i64 v = Some (int n)" using v sign by (auto simp: parse_i64_def split: char.splits bool.splits)
  with canonical_digits [OF digits] nv n(2) show ?thesis by auto
qed

lemma reminder_loop:
  assumes "reminder_tag_loop r ts = Ok r'"
  shows "rt_d_count r' = min 255 (rt_d_count r + length (List.map_filter (tag_second ''d'') ts)) \<or> 255 < rt_d_count r"
    and "rt_d_empty r' \<longleftrightarrow> rt_d_empty r \<or> [] \<in> set (List.map_filter (tag_second ''d'') ts)"
    and "rt_not_before r' = None \<Longrightarrow> rt_not_before r = None \<and> List.map_filter (tag_second ''not_before'') ts = []"
    and "rt_not_before r' = Some n \<Longrightarrow>
      (rt_not_before r = Some n \<and> List.map_filter (tag_second ''not_before'') ts = [])
      \<or> (rt_not_before r = None \<and> (\<exists>v. List.map_filter (tag_second ''not_before'') ts = [v] \<and> validate_not_before v = Ok n))"
  using assms
proof (induction ts arbitrary: r)
  case (Cons t ts)
  {
    case 1
    with Cons.IH(1) show ?case
      by (fastforce simp: map_filter_def tag_second_def result_simps split: if_splits)
  next
    case 2
    with Cons.IH(2) show ?case
      by (fastforce simp: map_filter_def tag_second_def result_simps split: if_splits)
  next
    case 3
    with Cons.IH(3) show ?case
      by (fastforce simp: map_filter_def tag_second_def result_simps split: if_splits)
  next
    case 4
    with Cons.IH(4) Cons.IH(3) show ?case
      by (fastforce simp: map_filter_def tag_second_def result_simps split: if_splits)
  }
qed (auto simp: map_filter_def)


lemma find_map_map_filter:
  "find_map (\<lambda>t. Option.bind (g t) h) ts = find_map h (List.map_filter g ts)"
  by (induction ts) (auto simp: map_filter_def split: option.splits)

lemma find_map_second: "find_map g ts = (case List.map_filter g ts of [] \<Rightarrow> None | v # _ \<Rightarrow> Some v)"
  by (induction ts) (auto simp: map_filter_def split: option.splits)

text \<open>
  A reminder that is accepted has one address that is not empty, and the time the store will
  index it under is the number its one tag writes in canonical decimal, or none when the tag is
  absent: the column and the tag can be recomputed from each other, and the time fits the bound.
\<close>

lemma reminder_columns_round_trip:
  assumes "validate_event_reminder max_delta now ev = Ok ()" and "ev_kind ev = KIND_EVENT_REMINDER"
  shows "length (tag_values ''d'' ev) = 1 \<and> hd (tag_values ''d'' ev) \<noteq> []
     \<and> extract_d_tag ev = Some (hd (tag_values ''d'' ev))
     \<and> tag_values ''not_before'' ev
         = (case extract_not_before ev of None \<Rightarrow> [] | Some n \<Rightarrow> [nat_to_string (nat n)])
     \<and> pred_option (\<lambda>n. 0 \<le> n \<and> n \<le> int MAX_NOT_BEFORE) (extract_not_before ev)"
proof -
  let ?d = "List.map_filter (tag_second ''d'') (ev_tags ev)"
  let ?nb = "List.map_filter (tag_second ''not_before'') (ev_tags ev)"
  have kind: "is_parameterized_replaceable KIND_EVENT_REMINDER"
    by (simp add: is_parameterized_replaceable_def KIND_EVENT_REMINDER_def PARAM_REPLACEABLE_KIND_MIN_def PARAM_REPLACEABLE_KIND_MAX_def)
  obtain r where r: "reminder_tag_loop \<lparr>rt_not_before = None, rt_expiration = None, rt_d_count = 0, rt_d_empty = False\<rparr>
      (ev_tags ev) = Ok r" "rt_d_count r = 1" "\<not> rt_d_empty r"
    using assms(1) by (auto simp: validate_event_reminder_def result_simps split: if_splits)
  from reminder_loop(1,2) [OF r(1)] r(2,3) have d: "length ?d = 1" "[] \<notin> set ?d" by auto
  then obtain v where v: "?d = [v]" "v \<noteq> []" by (auto simp: length_Suc_conv)
  then have slug: "extract_d_tag ev = Some v"
    using assms(2) kind by (simp add: extract_d_tag_def find_map_second)
  have column: "extract_not_before ev = find_map parse_i64 ?nb"
    using assms(2) by (simp add: extract_not_before_def find_map_map_filter)
  show ?thesis
  proof (cases "rt_not_before r")
    case None
    with reminder_loop(3) [OF r(1)] column v slug show ?thesis by (simp add: tag_values_def)
  next
    case (Some n)
    with reminder_loop(4) [OF r(1)] obtain w where w: "?nb = [w]" "validate_not_before w = Ok n" by auto
    from not_before_canonical [OF w(2)]
    have n: "w = nat_to_string n" "n \<le> MAX_NOT_BEFORE" "parse_i64 w = Some (int n)" by auto
    with column w(1) have "extract_not_before ev = Some (int n)" by simp
    with v slug w(1) n(1,2) show ?thesis by (simp add: tag_values_def)
  qed
qed

definition sample_reminder :: event where
  "sample_reminder =
     \<lparr>ev_id = ''r'', ev_pubkey = ''p'', ev_created_at = 1000, ev_kind = KIND_EVENT_REMINDER,
      ev_tags = [[''d'', ''standup''], [''not_before'', ''2000'']], ev_content = []\<rparr>"

theorem reminder_columns_round_trip_witness:
  "extract_d_tag sample_reminder = Some ''standup'' \<and> extract_not_before sample_reminder = Some 2000"
proof -
  have ok: "validate_event_reminder 5000 1000 sample_reminder = Ok ()"
    by (simp add: validate_event_reminder_def sample_reminder_def validate_not_before_def result_simps
        parse_unsigned_def parse_digits_def digits_value_def digit_value_def is_digit_def Let_def
        MAX_NOT_BEFORE_def u64_max_def wrapping_add64_def)
  have d: "tag_values ''d'' sample_reminder = [''standup'']" "tag_values ''not_before'' sample_reminder = [''2000'']"
    by (simp_all add: tag_values_def sample_reminder_def map_filter_def tag_second_def)
  have n: "nat_to_string (nat n) = ''2000'' \<Longrightarrow> 0 \<le> n \<Longrightarrow> n = 2000" for n :: int
    using digits_value_nat_to_string [of "nat n"] by (simp add: digits_value_def digit_value_def)
  from reminder_columns_round_trip [OF ok] d n show ?thesis
    by (auto simp: sample_reminder_def split: option.splits)
qed

end
