(* ===== verification/Users.thy ===== *)
theory Users
  imports Membership Json
begin

text \<open>
  The users of a community, \<open>crates/buzz-db/src/user.rs\<close>, with the profile side effects of
  \<open>handlers/side_effects.rs\<close> and the identity endpoint \<open>api/nip05.rs\<close>. Letters are ASCII letters.
\<close>

section \<open>The table\<close>

record user_profile =
  pf_pubkey :: hex_string
  pf_display_name :: "string option"
  pf_avatar_url :: "string option"
  pf_about :: "string option"
  pf_nip05_handle :: "string option"

record user_search_profile =
  sp_pubkey :: hex_string
  sp_display_name :: "string option"
  sp_avatar_url :: "string option"
  sp_nip05_handle :: "string option"

definition user_profile_of :: "user_row \<Rightarrow> user_profile" where
  "user_profile_of u =
     \<lparr>pf_pubkey = us_pubkey u, pf_display_name = us_display_name u, pf_avatar_url = us_avatar_url u,
      pf_about = us_about u, pf_nip05_handle = us_nip05_handle u\<rparr>"

text \<open>A unique violation is told apart from the other errors by its text.\<close>

datatype user_error = DuplicateKey | UserDb db_error

definition new_user_row :: "community_id \<Rightarrow> hex_string \<Rightarrow> user_row" where
  "new_user_row c pk =
     \<lparr>us_community = c, us_pubkey = pk, us_agent_owner = None, us_display_name = None, us_avatar_url = None,
      us_about = None, us_nip05_handle = None, us_channel_add_policy = ''anyone''\<rparr>"

definition ensure_user :: "community_id \<Rightarrow> hex_string \<Rightarrow> channel_db \<Rightarrow> (user_error, bool \<times> channel_db) result" where
  "ensure_user c pk db =
     (if length pk \<noteq> 64 then Err (UserDb Sqlx)
      else if list_ex (user_at c pk) (cdb_users db) then Ok (False, db)
      else Ok (True, db\<lparr>cdb_users := cdb_users db @ [new_user_row c pk]\<rparr>))"

definition get_user :: "channel_db \<Rightarrow> community_id \<Rightarrow> hex_string \<Rightarrow> user_profile option" where
  "get_user db c pk = map_option user_profile_of (find (user_at c pk) (cdb_users db))"

definition VARCHAR_MAX :: nat where
  "VARCHAR_MAX = 255"

definition empty_to_none :: "string option \<Rightarrow> string option" where
  "empty_to_none v = (case v of Some s \<Rightarrow> if s = [] then None else Some s | None \<Rightarrow> None)"

definition set_field :: "string option \<Rightarrow> string option \<Rightarrow> string option" where
  "set_field v old = (if v \<noteq> None then empty_to_none v else old)"

definition set_profile ::
    "string option \<Rightarrow> string option \<Rightarrow> string option \<Rightarrow> string option \<Rightarrow> user_row \<Rightarrow> user_row" where
  "set_profile display_name avatar_url about nip05 u =
     u\<lparr>us_display_name := set_field display_name (us_display_name u),
       us_avatar_url := set_field avatar_url (us_avatar_url u),
       us_about := set_field about (us_about u),
       us_nip05_handle := set_field nip05 (us_nip05_handle u)\<rparr>"

text \<open>The two column widths and the unique index on (community, lower handle) of the schema.\<close>

definition too_wide :: "string option \<Rightarrow> bool" where
  "too_wide v = is_some_and (\<lambda>s. VARCHAR_MAX < chars_count s) (empty_to_none v)"

definition handle_taken :: "channel_db \<Rightarrow> community_id \<Rightarrow> hex_string \<Rightarrow> string option \<Rightarrow> bool" where
  "handle_taken db c pk v =
     is_some_and (\<lambda>h. list_ex (\<lambda>u. us_community u = c \<and> us_pubkey u \<noteq> pk
       \<and> map_option ascii_lower (us_nip05_handle u) = Some (ascii_lower h)) (cdb_users db)) (empty_to_none v)"

definition update_user_profile ::
    "community_id \<Rightarrow> hex_string \<Rightarrow> string option \<Rightarrow> string option \<Rightarrow> string option \<Rightarrow> string option \<Rightarrow> channel_db
     \<Rightarrow> (user_error, channel_db) result" where
  "update_user_profile c pk display_name avatar_url about nip05 db =
     (if display_name = None \<and> avatar_url = None \<and> about = None \<and> nip05 = None then Ok db
      else if \<not> list_ex (user_at c pk) (cdb_users db) then Ok db
      else if too_wide display_name \<or> too_wide nip05 then Err (UserDb Sqlx)
      else if handle_taken db c pk nip05 then Err DuplicateKey
      else Ok (db\<lparr>cdb_users :=
        map (\<lambda>u. if user_at c pk u then set_profile display_name avatar_url about nip05 u else u) (cdb_users db)\<rparr>))"

definition get_user_by_nip05 :: "channel_db \<Rightarrow> community_id \<Rightarrow> string \<Rightarrow> string \<Rightarrow> user_profile option" where
  "get_user_by_nip05 db c local_part domain =
     (let handle = local_part @ ''@'' @ domain in
      map_option user_profile_of
        (find (\<lambda>u. us_community u = c \<and> map_option ascii_lower (us_nip05_handle u) = Some (ascii_lower handle))
          (cdb_users db)))"

definition get_agent_channel_policy ::
    "channel_db \<Rightarrow> community_id \<Rightarrow> hex_string \<Rightarrow> (string \<times> hex_string option) option" where
  "get_agent_channel_policy db c pk =
     map_option (\<lambda>u. (us_channel_add_policy u, us_agent_owner u)) (find (user_at c pk) (cdb_users db))"

definition set_channel_add_policy ::
    "community_id \<Rightarrow> hex_string \<Rightarrow> string \<Rightarrow> channel_db \<Rightarrow> (user_error, channel_db) result" where
  "set_channel_add_policy c pk policy db =
     (if policy \<notin> {''anyone'', ''owner_only'', ''nobody''}
      then Err (UserDb (InvalidData (''invalid channel_add_policy: '' @ policy)))
      else if \<not> list_ex (user_at c pk) (cdb_users db)
      then Err (UserDb (NotFound ''pubkey not found in users table''))
      else Ok (db\<lparr>cdb_users :=
        map (\<lambda>u. if user_at c pk u then u\<lparr>us_channel_add_policy := policy\<rparr> else u) (cdb_users db)\<rparr>))"

section \<open>Search\<close>

text \<open>Three replacements one after the other, the backslash first.\<close>

fun replace_char :: "char \<Rightarrow> string \<Rightarrow> string \<Rightarrow> string" where
  "replace_char c r [] = []"
| "replace_char c r (x # xs) = (if x = c then r else [x]) @ replace_char c r xs"

abbreviation backslash :: char where
  "backslash \<equiv> CHR 0x5C"

definition escape_like :: "string \<Rightarrow> string" where
  "escape_like s =
     replace_char (CHR ''_'') [backslash, CHR ''_'']
       (replace_char (CHR ''%'') [backslash, CHR ''%'']
         (replace_char backslash [backslash, backslash] s))"

text \<open>SQL's \<open>LIKE ... ESCAPE '\'\<close>.\<close>

fun sql_like :: "string \<Rightarrow> string \<Rightarrow> bool" where
  "sql_like [] s \<longleftrightarrow> s = []"
| "sql_like (p # ps) [] \<longleftrightarrow> p = CHR ''%'' \<and> sql_like ps []"
| "sql_like (p # ps) (x # xs) \<longleftrightarrow>
     (if p = backslash then (case ps of [] \<Rightarrow> False | q # qs \<Rightarrow> q = x \<and> sql_like qs xs)
      else if p = CHR ''%'' then sql_like ps (x # xs) \<or> sql_like (p # ps) xs
      else if p = CHR ''_'' then sql_like ps xs
      else p = x \<and> sql_like ps xs)"

definition coalesce :: "string option \<Rightarrow> string" where
  "coalesce v = ascii_lower (unwrap_or [] v)"

definition search_hit :: "string \<Rightarrow> user_row \<Rightarrow> bool" where
  "search_hit pattern u \<longleftrightarrow>
     sql_like pattern (coalesce (us_display_name u)) \<or> sql_like pattern (coalesce (us_nip05_handle u))
     \<or> sql_like pattern (ascii_lower (us_pubkey u))"

definition search_rank :: "string \<Rightarrow> string \<Rightarrow> user_row \<Rightarrow> nat" where
  "search_rank normalized prefix u =
     (if coalesce (us_display_name u) = normalized then 0
      else if coalesce (us_nip05_handle u) = normalized then 1
      else if ascii_lower (us_pubkey u) = normalized then 2
      else if sql_like prefix (coalesce (us_display_name u)) then 3
      else if sql_like prefix (coalesce (us_nip05_handle u)) then 4
      else if sql_like prefix (ascii_lower (us_pubkey u)) then 5
      else 6)"

definition search_name :: "user_row \<Rightarrow> string" where
  "search_name u =
     (case empty_to_none (us_display_name u) of
        Some n \<Rightarrow> n
      | None \<Rightarrow>
          (case empty_to_none (us_nip05_handle u) of Some n \<Rightarrow> n | None \<Rightarrow> ascii_lower (us_pubkey u)))"

definition search_profile_of :: "user_row \<Rightarrow> user_search_profile" where
  "search_profile_of u =
     \<lparr>sp_pubkey = us_pubkey u, sp_display_name = us_display_name u, sp_avatar_url = us_avatar_url u,
      sp_nip05_handle = us_nip05_handle u\<rparr>"

text \<open>\<open>coll\<close> is the order of the database's collation.\<close>

definition search_users ::
    "(string \<Rightarrow> nat) \<Rightarrow> channel_db \<Rightarrow> community_id \<Rightarrow> string \<Rightarrow> nat \<Rightarrow> user_search_profile list" where
  "search_users coll db c q limit =
     (let normalized = ascii_lower (trim q) in
      if normalized = [] then []
      else
        (let escaped = escape_like normalized;
             contains_pattern = ''%'' @ escaped @ ''%'';
             prefix_pattern = escaped @ ''%'' in
         map search_profile_of
           (take (max 1 (min limit 500))
             (sort_key (\<lambda>u. (search_rank normalized prefix_pattern u, coll (search_name u)))
               (filter (\<lambda>u. us_community u = c \<and> search_hit contains_pattern u) (cdb_users db))))))"

section \<open>Identity handles\<close>

function trim_prefix :: "string \<Rightarrow> string \<Rightarrow> string" where
  "trim_prefix p s = (if p \<noteq> [] \<and> starts_with s p then trim_prefix p (drop (length p) s) else s)"
  by auto

termination trim_prefix
  by (relation "measure (\<lambda>(p, s). length s)") (auto simp: starts_with_def, metis diff_less length_greater_0_conv take_Nil)

declare trim_prefix.simps [simp del]

definition extract_domain :: "string \<Rightarrow> string" where
  "extract_domain url =
     (let rest = trim_prefix ''http://'' (trim_prefix ''https://'' (trim_prefix ''ws://'' (trim_prefix ''wss://'' url))) in
      ascii_lower (takeWhile (\<lambda>c. c \<noteq> CHR ''/'') (takeWhile (\<lambda>c. c \<noteq> CHR '':'') rest)))"

definition split_once :: "char \<Rightarrow> string \<Rightarrow> (string \<times> string) option" where
  "split_once c s =
     (if c \<in> set s then Some (takeWhile (\<lambda>x. x \<noteq> c) s, tl (dropWhile (\<lambda>x. x \<noteq> c) s)) else None)"

definition canonicalize_nip05 :: "string \<Rightarrow> string \<Rightarrow> (string, string) result" where
  "canonicalize_nip05 raw expected_host_or_url =
     (let trimmed = trim raw in
      if trimmed = [] then Err ''empty''
      else
        bind_result (ok_or (split_once (CHR ''@'') trimmed) ''nip05_handle must be in user@domain format'') (\<lambda>(loc, domain).
        if loc = [] \<or> domain = [] then Err ''nip05_handle must be in user@domain format''
        else
          (let expected_domain = extract_domain expected_host_or_url;
               canonical_domain = ascii_lower domain in
           if canonical_domain \<noteq> expected_domain
           then Err (''nip05_handle domain must match this relay ('' @ expected_domain @ '')'')
           else Ok (ascii_lower loc @ ''@'' @ canonical_domain))))"

definition relay_url_for_tenant_host :: "string \<Rightarrow> string \<Rightarrow> string" where
  "relay_url_for_tenant_host config_relay_url tenant_host =
     (let scheme = (if starts_with (trim_start_matches is_space config_relay_url) ''wss://'' then ''wss'' else ''ws'') in
      scheme @ ''://'' @ tenant_host)"

text \<open>\<open>tenant\<close> is the community and the host that the request's Host header is bound to.\<close>

definition no_identity :: json where
  "no_identity = JObject [(''names'', JObject []), (''relays'', JObject [])]"

definition nostr_nip05 :: "string \<Rightarrow> (community_id \<times> string) option \<Rightarrow> channel_db \<Rightarrow> string option \<Rightarrow> json" where
  "nostr_nip05 config_relay_url tenant db name_param =
     (case (name_param, tenant) of
        (Some n, Some (c, host)) \<Rightarrow>
          (let name = ascii_lower n; domain = extract_domain host in
           case get_user_by_nip05 db c name domain of
             Some user \<Rightarrow>
               JObject
                 [(''names'', JObject [(name, JString (pf_pubkey user))]),
                  (''relays'', JObject [(pf_pubkey user,
                     JArray [JString (relay_url_for_tenant_host config_relay_url host)])])]
           | None \<Rightarrow> no_identity)
      | _ \<Rightarrow> no_identity)"

section \<open>Profile side effects\<close>

definition lift_user :: "(user_error, 'a) result \<Rightarrow> (handler_error, 'a) result" where
  "lift_user r = (case r of Ok x \<Rightarrow> Ok x | Err (UserDb e) \<Rightarrow> Err (Db e) | Err DuplicateKey \<Rightarrow> Err (Db Sqlx))"

definition str_field :: "json \<Rightarrow> string \<Rightarrow> string option" where
  "str_field content k = Option.bind (json_get content k) json_as_str"

definition first_present :: "json \<Rightarrow> string \<Rightarrow> string \<Rightarrow> string" where
  "first_present content k k' =
     unwrap_or [] (Option.bind (case json_get content k of None \<Rightarrow> json_get content k' | Some v \<Rightarrow> Some v) json_as_str)"

definition handle_agent_profile ::
    "(string \<Rightarrow> json option) \<Rightarrow> community_id \<Rightarrow> event \<Rightarrow> channel_db \<Rightarrow> (handler_error, channel_db) result" where
  "handle_agent_profile parse c ev db =
     (case parse (ev_content ev) of
        None \<Rightarrow> Err (Anyhow ''kind:10100 content parse error'')
      | Some content \<Rightarrow>
          bind_result (ok_or (str_field content ''channel_add_policy'')
                         (Anyhow ''kind:10100 missing channel_add_policy field'')) (\<lambda>policy.
          bind_result (lift_user (ensure_user c (ev_pubkey ev) db)) (\<lambda>(_, db1).
          lift_user (set_channel_add_policy c (ev_pubkey ev) policy db1))))"

definition profile_handle :: "string \<Rightarrow> json \<Rightarrow> string" where
  "profile_handle host content =
     (case str_field content ''nip05'' of
        Some raw \<Rightarrow> (case canonicalize_nip05 raw host of Ok h \<Rightarrow> h | Err _ \<Rightarrow> [])
      | None \<Rightarrow> [])"

definition handle_kind0_profile ::
    "(string \<Rightarrow> json option) \<Rightarrow> string \<Rightarrow> community_id \<Rightarrow> event \<Rightarrow> channel_db \<Rightarrow> (handler_error, channel_db) result" where
  "handle_kind0_profile parse host c ev db =
     (case parse (ev_content ev) of
        None \<Rightarrow> Err (Anyhow ''kind:0 content parse error'')
      | Some content \<Rightarrow>
          (let display_name = first_present content ''display_name'' ''name'';
               avatar_url = first_present content ''picture'' ''image'';
               about = unwrap_or [] (str_field content ''about'');
               nip05_handle = profile_handle host content;
               pk = ev_pubkey ev in
           bind_result (lift_user (ensure_user c pk db)) (\<lambda>(_, db1).
           case update_user_profile c pk (Some display_name) (Some avatar_url) (Some about) (Some nip05_handle) db1 of
             Err DuplicateKey \<Rightarrow>
               lift_user (update_user_profile c pk (Some display_name) (Some avatar_url) (Some about) None db1)
           | r \<Rightarrow> lift_user r)))"

end
