(* ===== verification/Users_Laws.thy ===== *)
theory Users_Laws
  imports Users
begin

text \<open>
  Users: search patterns are literal texts, profiles are absolute, and the identity handles of a
  community are unique and belong to its host.
\<close>

section \<open>Search patterns\<close>

definition like_escape :: "char \<Rightarrow> string" where
  "like_escape x = (if x = backslash \<or> x = CHR ''%'' \<or> x = CHR ''_'' then [backslash, x] else [x])"

lemma replace_char_append: "replace_char c r (xs @ ys) = replace_char c r xs @ replace_char c r ys"
  by (induction xs) auto

lemma escape_like_Nil [simp]: "escape_like [] = []"
  by (simp add: escape_like_def)

lemma escape_like_Cons [simp]: "escape_like (x # xs) = like_escape x @ escape_like xs"
  by (auto simp: escape_like_def like_escape_def replace_char_append)

lemma sql_like_literal: "sql_like (escape_like q @ p) s \<longleftrightarrow> starts_with s q \<and> sql_like p (drop (length q) s)"
proof (induction q arbitrary: s)
  case Nil
  then show ?case by (simp add: starts_with_def)
next
  case (Cons x q)
  then show ?case
    by (cases s) (auto simp: like_escape_def starts_with_def)
qed

lemma sql_like_percent: "sql_like (CHR ''%'' # p) s \<longleftrightarrow> (\<exists>n \<le> length s. sql_like p (drop n s))"
proof (induction s)
  case (Cons x xs)
  have "(\<exists>n \<le> length (x # xs). sql_like p (drop n (x # xs)))
      \<longleftrightarrow> sql_like p (x # xs) \<or> (\<exists>n \<le> length xs. sql_like p (drop n xs))"
    by (metis Suc_le_mono drop0 drop_Suc_Cons length_Cons not0_implies_Suc zero_le)
  with Cons show ?case by simp
qed simp

lemma sql_like_any [simp]: "sql_like ''%'' s"
  unfolding sql_like_percent by (intro exI [of _ "length s"]) simp

lemma contains_str_iff: "contains_str q s \<longleftrightarrow> (\<exists>n \<le> length s. starts_with (drop n s) q)"
proof (induction s)
  case Nil
  then show ?case by (auto simp: starts_with_def)
next
  case (Cons x xs)
  have "(\<exists>n \<le> length (x # xs). starts_with (drop n (x # xs)) q)
      \<longleftrightarrow> starts_with (x # xs) q \<or> (\<exists>n \<le> length xs. starts_with (drop n xs) q)"
    by (metis Suc_le_mono drop0 drop_Suc_Cons length_Cons not0_implies_Suc zero_le)
  with Cons show ?case by simp
qed

lemma prefix_pattern: "sql_like (escape_like q @ ''%'') s \<longleftrightarrow> starts_with s q"
  by (simp add: sql_like_literal)

lemma contains_pattern: "sql_like (CHR ''%'' # escape_like q @ ''%'') s \<longleftrightarrow> contains_str q s"
  by (simp add: sql_like_percent prefix_pattern contains_str_iff)

text \<open>The reference search: the query is a text to be found, not a pattern.\<close>

definition literal_rank :: "string \<Rightarrow> user_row \<Rightarrow> nat" where
  "literal_rank q u =
     (let fields = [coalesce (us_display_name u), coalesce (us_nip05_handle u), ascii_lower (us_pubkey u)] in
      case position (\<lambda>f. f = q) fields of
        Some i \<Rightarrow> i
      | None \<Rightarrow> (case position (\<lambda>f. starts_with f q) fields of Some i \<Rightarrow> 3 + i | None \<Rightarrow> 6))"

text \<open>
  Searching users treats the query as literal text whatever wildcards it contains: the result
  lists the users of the community with the text in their name, handle or key, exact matches first,
  then prefixes, then the rest, and cuts the list at the limit.
\<close>

lemma user_search_is_literal:
  "search_users coll db c q limit =
     (let text = ascii_lower (trim q) in
      if text = [] then []
      else
        map search_profile_of
          (take (max 1 (min limit 500))
            (sort_key (\<lambda>u. (literal_rank text u, coll (search_name u)))
              (filter (\<lambda>u. us_community u = c
                \<and> list_ex (contains_str text)
                    [coalesce (us_display_name u), coalesce (us_nip05_handle u), ascii_lower (us_pubkey u)])
                (cdb_users db)))))"
proof -
  have rank: "search_rank t (escape_like t @ ''%'') u = literal_rank t u" for t u
    by (simp add: search_rank_def literal_rank_def prefix_pattern Let_def)
  have hit: "search_hit (''%'' @ escape_like t @ ''%'') u \<longleftrightarrow> list_ex (contains_str t)
      [coalesce (us_display_name u), coalesce (us_nip05_handle u), ascii_lower (us_pubkey u)]" for t u
    by (simp add: search_hit_def contains_pattern)
  show ?thesis unfolding search_users_def Let_def rank hit ..
qed


section \<open>The table stays typed\<close>

definition handle_key :: "user_row \<Rightarrow> (community_id \<times> string) option" where
  "handle_key u = map_option (\<lambda>h. (us_community u, ascii_lower h)) (us_nip05_handle u)"

definition handles_unique :: "user_row list \<Rightarrow> bool" where
  "handles_unique us \<longleftrightarrow>
     list_all (\<lambda>u. list_all (\<lambda>v. us_pubkey u = us_pubkey v \<or> handle_key u = None \<or> handle_key u \<noteq> handle_key v) us) us"

text \<open>A handle is a lower-case name at the domain of the community's host.\<close>

definition user_typed :: "(community_id \<Rightarrow> string) \<Rightarrow> user_row \<Rightarrow> bool" where
  "user_typed hosts u \<longleftrightarrow>
     length (us_pubkey u) = 64 \<and> us_channel_add_policy u \<in> {''anyone'', ''owner_only'', ''nobody''}
     \<and> pred_option (\<lambda>h. ends_with h (CHR ''@'' # extract_domain (hosts (us_community u))) \<and> ascii_lower h = h)
         (us_nip05_handle u)"

definition users_typed :: "(community_id \<Rightarrow> string) \<Rightarrow> channel_db \<Rightarrow> bool" where
  "users_typed hosts db \<longleftrightarrow>
     distinct (map (\<lambda>u. (us_community u, us_pubkey u)) (cdb_users db))
     \<and> handles_unique (cdb_users db) \<and> list_all (user_typed hosts) (cdb_users db)"

inductive users_reach :: "(string \<Rightarrow> json option) \<Rightarrow> (community_id \<Rightarrow> string) \<Rightarrow> channel_db \<Rightarrow> bool"
  for parse :: "string \<Rightarrow> json option" and hosts :: "community_id \<Rightarrow> string" where
  no_users: "cdb_users db = [] \<Longrightarrow> users_reach parse hosts db"
| registered: "users_reach parse hosts db \<Longrightarrow> ensure_user c pk db = Ok (b, db') \<Longrightarrow> users_reach parse hosts db'"
| owner_set: "users_reach parse hosts db \<Longrightarrow> set_agent_owner c agent owner_pk db = Ok (b, db') \<Longrightarrow> users_reach parse hosts db'"
| profile_written: "users_reach parse hosts db \<Longrightarrow> handle_kind0_profile parse (hosts c) c ev db = Ok db' \<Longrightarrow> users_reach parse hosts db'"
| policy_written: "users_reach parse hosts db \<Longrightarrow> handle_agent_profile parse c ev db = Ok db' \<Longrightarrow> users_reach parse hosts db'"

lemma typed_append:
  assumes "users_typed hosts db" and "length pk = 64" and "\<not> list_ex (user_at c pk) (cdb_users db)"
  shows "users_typed hosts (db\<lparr>cdb_users := cdb_users db @ [new_user_row c pk]\<rparr>)"
  using assms
  by (auto simp: users_typed_def handles_unique_def user_typed_def new_user_row_def handle_key_def user_at_def
      list_ex_iff list_all_iff)

lemma typed_map:
  assumes typed: "users_typed hosts db"
    and same: "\<And>u. us_community (f u) = us_community u \<and> us_pubkey (f u) = us_pubkey u"
    and kept: "\<And>u. u \<in> set (cdb_users db) \<Longrightarrow> user_typed hosts u \<Longrightarrow> user_typed hosts (f u)"
    and free: "\<And>u v. u \<in> set (cdb_users db) \<Longrightarrow> v \<in> set (cdb_users db) \<Longrightarrow> us_pubkey u \<noteq> us_pubkey v
      \<Longrightarrow> handle_key (f u) \<noteq> None \<Longrightarrow> handle_key (f u) \<noteq> handle_key (f v)"
  shows "users_typed hosts (db\<lparr>cdb_users := map f (cdb_users db)\<rparr>)"
proof -
  have "(\<lambda>u. (us_community u, us_pubkey u)) \<circ> f = (\<lambda>u. (us_community u, us_pubkey u))"
    using same by auto
  moreover have "handles_unique (map f (cdb_users db))"
    using free same by (fastforce simp: handles_unique_def list_all_iff)
  ultimately show ?thesis using typed kept by (auto simp: users_typed_def list_all_iff)
qed

lemma handles_uniqueD:
  "users_typed hosts db \<Longrightarrow> u \<in> set (cdb_users db) \<Longrightarrow> v \<in> set (cdb_users db) \<Longrightarrow> us_pubkey u \<noteq> us_pubkey v
     \<Longrightarrow> handle_key u \<noteq> None \<Longrightarrow> handle_key u \<noteq> handle_key v"
  unfolding users_typed_def handles_unique_def list_all_iff
  by (elim conjE, drule (1) bspec, drule (1) bspec) auto

lemma typed_map_same:
  assumes "users_typed hosts db"
    and "\<And>u. us_community (f u) = us_community u \<and> us_pubkey (f u) = us_pubkey u \<and> us_nip05_handle (f u) = us_nip05_handle u
      \<and> us_channel_add_policy (f u) \<in> {us_channel_add_policy u, ''anyone'', ''owner_only'', ''nobody''}"
  shows "users_typed hosts (db\<lparr>cdb_users := map f (cdb_users db)\<rparr>)"
proof (rule typed_map [OF assms(1)])
  have key: "handle_key (f u) = handle_key u" for u using assms(2) by (simp add: handle_key_def)
  show "handle_key (f u) \<noteq> handle_key (f v)" if "u \<in> set (cdb_users db)" "v \<in> set (cdb_users db)"
    "us_pubkey u \<noteq> us_pubkey v" "handle_key (f u) \<noteq> None" for u v
    using handles_uniqueD [OF assms(1) that(1,2,3)] that(4) by (simp add: key)
  show "user_typed hosts (f u)" if "user_typed hosts u" for u using that assms(2) [of u] by (auto simp: user_typed_def)
qed (use assms(2) in auto)

lemma ensure_user_typed:
  "users_typed hosts db \<Longrightarrow> ensure_user c pk db = Ok (b, db') \<Longrightarrow>
     users_typed hosts db' \<and> list_ex (user_at c pk) (cdb_users db')"
  using typed_append by (auto simp: ensure_user_def new_user_row_def user_at_def split: if_splits)

lemma ascii_lower_idem [simp]: "ascii_lower (ascii_lower s) = ascii_lower s"
proof -
  have "ascii_lower_char (ascii_lower_char c) = ascii_lower_char c" for c
    by (cases "65 \<le> (of_char c :: nat) \<and> (of_char c :: nat) \<le> 90") (auto simp: ascii_lower_char_def Let_def)
  then show ?thesis by (simp add: ascii_lower_def)
qed

lemma ascii_lower_append: "ascii_lower (s @ t) = ascii_lower s @ ascii_lower t"
  by (simp add: ascii_lower_def)

lemma ascii_lower_at: "ascii_lower (CHR ''@'' # t) = CHR ''@'' # ascii_lower t"
  by (simp add: ascii_lower_def ascii_lower_char_def Let_def)

lemma lift_user_Ok [simp]: "lift_user r = Ok x \<longleftrightarrow> r = Ok x"
  by (auto simp: lift_user_def split: result.splits user_error.splits)

lemma handle_key_kept [simp]:
  "handle_key (u\<lparr>us_agent_owner := o'\<rparr>) = handle_key u" "handle_key (u\<lparr>us_channel_add_policy := q\<rparr>) = handle_key u"
  by (simp_all add: handle_key_def)

lemma ends_with_suffix [simp]: "ends_with (p @ s) s"
  by (simp add: ends_with_def)

lemma canonical_handle:
  assumes "canonicalize_nip05 raw host = Ok h"
  shows "ends_with h (CHR ''@'' # extract_domain host) \<and> ascii_lower h = h \<and> h \<noteq> []"
  using assms
  by (auto simp: canonicalize_nip05_def Let_def result_simps ascii_lower_append ascii_lower_at
      extract_domain_def split: if_splits prod.splits)

lemma update_profile_typed:
  assumes "users_typed hosts db" and "update_user_profile c pk d a b n db = Ok db'"
    and "\<And>h. n = Some h \<Longrightarrow> h = [] \<or> ends_with h (CHR ''@'' # extract_domain (hosts c)) \<and> ascii_lower h = h"
  shows "users_typed hosts db'"
proof (cases "db' = db")
  case False
  let ?f = "\<lambda>u. if user_at c pk u then set_profile d a b n u else u"
  from assms(2) False have db': "db' = db\<lparr>cdb_users := map ?f (cdb_users db)\<rparr>" and free: "\<not> handle_taken db c pk n"
    by (auto simp: update_user_profile_def split: if_splits)
  show ?thesis unfolding db'
  proof (rule typed_map [OF assms(1)])
    show "us_community (?f u) = us_community u \<and> us_pubkey (?f u) = us_pubkey u" for u by (simp add: set_profile_def)
    show "user_typed hosts (?f u)" if "u \<in> set (cdb_users db)" "user_typed hosts u" for u
      using that assms(3)
      by (cases n) (auto simp: user_typed_def set_profile_def set_field_def empty_to_none_def user_at_def)
    fix u v
    assume uv: "u \<in> set (cdb_users db)" "v \<in> set (cdb_users db)" "us_pubkey u \<noteq> us_pubkey v" "handle_key (?f u) \<noteq> None"
    note old = handles_uniqueD [OF assms(1) uv(1-3)] handles_uniqueD [OF assms(1) uv(2,1) uv(3) [symmetric]]
    show "handle_key (?f u) \<noteq> handle_key (?f v)"
      using uv old free
      by (cases "user_at c pk u"; cases "user_at c pk v"; cases "handle_key u"; cases "handle_key v") (auto simp: handle_key_def set_profile_def set_field_def user_at_def handle_taken_def is_some_and_def
          list_ex_iff split: option.splits)
  qed
qed (use assms in auto)

lemma kind0_typed:
  assumes "users_typed hosts db" and "handle_kind0_profile parse (hosts c) c ev db = Ok db'"
  shows "users_typed hosts db'"
proof -
  from assms(2) obtain content b db1 where 1: "ensure_user c (ev_pubkey ev) db = Ok (b, db1)"
    and r: "(case update_user_profile c (ev_pubkey ev) (Some (first_present content ''display_name'' ''name''))
        (Some (first_present content ''picture'' ''image'')) (Some (unwrap_or [] (str_field content ''about'')))
        (Some (profile_handle (hosts c) content)) db1 of
          Err DuplicateKey \<Rightarrow> lift_user (update_user_profile c (ev_pubkey ev) (Some (first_present content ''display_name'' ''name''))
            (Some (first_present content ''picture'' ''image'')) (Some (unwrap_or [] (str_field content ''about''))) None db1)
        | r \<Rightarrow> lift_user r) = Ok db'"
    by (auto simp: handle_kind0_profile_def Let_def result_simps split: option.splits)
  let ?n = "profile_handle (hosts c) content"
  from r obtain d a t where 2: "update_user_profile c (ev_pubkey ev) d a t (Some ?n) db1 = Ok db'
      \<or> update_user_profile c (ev_pubkey ev) d a t None db1 = Ok db'"
    by (auto simp: lift_user_def split: result.splits user_error.splits)
  have typed: "users_typed hosts db1" using ensure_user_typed [OF assms(1) 1] by blast
  have "?n = [] \<or> ends_with ?n (CHR ''@'' # extract_domain (hosts c)) \<and> ascii_lower ?n = ?n"
    using canonical_handle by (auto simp: profile_handle_def split: option.splits result.splits)
  with 2 show ?thesis using update_profile_typed [OF typed] by blast
qed

lemma policy_typed:
  assumes "users_typed hosts db" and "handle_agent_profile parse c ev db = Ok db'"
  shows "users_typed hosts db'"
proof -
  from assms(2) obtain b db1 policy where 1: "ensure_user c (ev_pubkey ev) db = Ok (b, db1)"
    and 2: "set_channel_add_policy c (ev_pubkey ev) policy db1 = Ok db'"
    by (auto simp: handle_agent_profile_def result_simps split: option.splits)
  have typed: "users_typed hosts db1" using ensure_user_typed [OF assms(1) 1] by blast
  from 2 have p: "policy \<in> {''anyone'', ''owner_only'', ''nobody''}"
    and db': "db' = db1\<lparr>cdb_users := map (\<lambda>u. if user_at c (ev_pubkey ev) u then u\<lparr>us_channel_add_policy := policy\<rparr> else u) (cdb_users db1)\<rparr>"
    by (auto simp: set_channel_add_policy_def split: if_splits)
  show ?thesis unfolding db' using typed p
    by (intro typed_map_same) auto
qed

lemma owner_typed:
  assumes "users_typed hosts db" and "set_agent_owner c agent owner_pk db = Ok (b, db')"
  shows "users_typed hosts db'"
proof (cases "db' = db")
  case False
  with assms(2) have db': "db' = db\<lparr>cdb_users := map (\<lambda>u. if user_at c agent u \<and> us_agent_owner u = None
      then u\<lparr>us_agent_owner := Some owner_pk\<rparr> else u) (cdb_users db)\<rparr>"
    by (auto simp: set_agent_owner_def Let_def split: if_splits)
  show ?thesis unfolding db' using assms(1)
    by (intro typed_map_same) auto
qed (use assms in auto)

text \<open>
  C39. Whatever users register, write profiles, set policies or become agents, the table keeps one
  row for each key of a community, its policies are the documented ones, and every identity handle
  is in lower case, at the domain of the community's host, and held by one user of the community.
\<close>

theorem user_identities_stay_unique:
  assumes "users_reach parse hosts db"
  shows "users_typed hosts db"
  using assms
proof induction
  case (no_users db)
  then show ?case by (simp add: users_typed_def handles_unique_def)
next
  case (registered db c pk b db')
  then show ?case using ensure_user_typed by blast
next
  case (owner_set db c agent owner_pk b db')
  then show ?case using owner_typed by blast
next
  case (profile_written db c ev db')
  then show ?case using kind0_typed by blast
next
  case (policy_written db c ev db')
  then show ?case using policy_typed by blast
qed


definition alice_key :: hex_string where
  "alice_key = replicate 64 (CHR ''a'')"

definition claim_profile :: event where
  "claim_profile =
     \<lparr>ev_id = ''e'', ev_pubkey = alice_key, ev_created_at = 5, ev_kind = 0, ev_tags = [], ev_content = ''profile''\<rparr>"

definition claim_parse :: "string \<Rightarrow> json option" where
  "claim_parse s = Some (JObject [(''name'', JString ''Al''), (''nip05'', JString ''Al@relay.example'')])"

lemma extract_relay [simp]: "extract_domain ''wss://relay.example'' = ''relay.example''"
  by code_simp

lemma claim_stored:
  "handle_kind0_profile claim_parse ''wss://relay.example'' 1 claim_profile
       \<lparr>cdb_channels = [], cdb_members = [], cdb_users = []\<rparr>
     = Ok \<lparr>cdb_channels = [], cdb_members = [], cdb_users = [(new_user_row 1 alice_key)
         \<lparr>us_display_name := Some ''Al'', us_nip05_handle := Some ''al@relay.example''\<rparr>]\<rparr>"
  by code_simp

theorem user_identities_stay_unique_witness:
  "users_typed (\<lambda>c. ''wss://relay.example'') \<lparr>cdb_channels = [], cdb_members = [], cdb_users =
     [(new_user_row 1 alice_key)\<lparr>us_display_name := Some ''Al'', us_nip05_handle := Some ''al@relay.example''\<rparr>]\<rparr>"
proof -
  have start: "users_reach claim_parse (\<lambda>c. ''wss://relay.example'') \<lparr>cdb_channels = [], cdb_members = [], cdb_users = []\<rparr>"
    by (rule no_users) simp
  show ?thesis
    by (rule user_identities_stay_unique [OF profile_written [OF start]]) (rule claim_stored)
qed

section \<open>Profiles\<close>

lemma find_map_same:
  assumes "\<And>u. p (f u) = p u"
  shows "find p (map (\<lambda>u. if p u then f u else u) us) = map_option f (find p us)"
    and "filter (\<lambda>u. \<not> p u) (map (\<lambda>u. if p u then f u else u) us) = filter (\<lambda>u. \<not> p u) us"
  using assms by (induction us) auto

lemma ensured:
  assumes "ensure_user c pk db = Ok (b, db1)"
  shows "find (user_at c pk) (cdb_users db1) = Some (unwrap_or (new_user_row c pk) (find (user_at c pk) (cdb_users db)))"
    and "filter (\<lambda>u. \<not> user_at c pk u) (cdb_users db1) = filter (\<lambda>u. \<not> user_at c pk u) (cdb_users db)"
    and "handle_taken db1 c pk v = handle_taken db c pk v"
proof -
  have new: "user_at c pk (new_user_row c pk)" "us_pubkey (new_user_row c pk) = pk"
    by (simp_all add: user_at_def new_user_row_def)
  have append: "find p (us @ [u]) = (case find p us of None \<Rightarrow> if p u then Some u else None | Some x \<Rightarrow> Some x)"
    for p :: "user_row \<Rightarrow> bool" and us u by (induction us) auto
  have none: "list_ex p us \<longleftrightarrow> find p us \<noteq> None" for p :: "user_row \<Rightarrow> bool" and us
    by (induction us) auto
  show "find (user_at c pk) (cdb_users db1) = Some (unwrap_or (new_user_row c pk) (find (user_at c pk) (cdb_users db)))"
    using assms new by (auto simp: ensure_user_def append none unwrap_or_def split: if_splits option.splits)
  show "filter (\<lambda>u. \<not> user_at c pk u) (cdb_users db1) = filter (\<lambda>u. \<not> user_at c pk u) (cdb_users db)"
    using assms new by (auto simp: ensure_user_def split: if_splits)
  show "handle_taken db1 c pk v = handle_taken db c pk v"
    using assms new by (auto simp: ensure_user_def handle_taken_def split: if_splits)
qed

lemma update_profile_result:
  assumes "update_user_profile c pk (Some d) a t n db = Ok db'" and "find (user_at c pk) (cdb_users db) = Some u"
  shows "find (user_at c pk) (cdb_users db') = Some (set_profile (Some d) a t n u)
     \<and> filter (\<lambda>u. \<not> user_at c pk u) (cdb_users db') = filter (\<lambda>u. \<not> user_at c pk u) (cdb_users db)
     \<and> \<not> handle_taken db c pk n"
proof -
  have "list_ex (user_at c pk) (cdb_users db)" using assms(2) by (auto simp: find_Some_iff list_ex_iff)
  moreover have "user_at c pk (set_profile (Some d) a t n v) = user_at c pk v" for v
    by (simp add: user_at_def set_profile_def)
  ultimately show ?thesis using assms find_map_same [where p = "user_at c pk" and f = "set_profile (Some d) a t n"]
    by (auto simp: update_user_profile_def split: if_splits)
qed

text \<open>
  A profile event that is synchronised replaces the whole profile of its author, clears what the
  event leaves out and touches nobody else; the identity handle is the canonical form of a handle at
  the community's own host, except that a handle which another user holds leaves the old one.
\<close>

lemma profile_event_is_absolute:
  assumes "handle_kind0_profile parse host c ev db = Ok db'" and "parse (ev_content ev) = Some content"
  shows "get_user db' c (ev_pubkey ev) = Some
      \<lparr>pf_pubkey = ev_pubkey ev,
       pf_display_name = empty_to_none (Some (first_present content ''display_name'' ''name'')),
       pf_avatar_url = empty_to_none (Some (first_present content ''picture'' ''image'')),
       pf_about = empty_to_none (str_field content ''about''),
       pf_nip05_handle =
         (if handle_taken db c (ev_pubkey ev) (Some (profile_handle host content))
          then Option.bind (get_user db c (ev_pubkey ev)) pf_nip05_handle
          else empty_to_none (Some (profile_handle host content)))\<rparr>
     \<and> filter (\<lambda>u. \<not> user_at c (ev_pubkey ev) u) (cdb_users db') = filter (\<lambda>u. \<not> user_at c (ev_pubkey ev) u) (cdb_users db)"
proof -
  let ?pk = "ev_pubkey ev" and ?n = "profile_handle host content"
  let ?d = "first_present content ''display_name'' ''name''" and ?a = "first_present content ''picture'' ''image''"
  let ?t = "unwrap_or [] (str_field content ''about'')"
  from assms obtain b db1 where 1: "ensure_user c ?pk db = Ok (b, db1)"
    and r: "(case update_user_profile c ?pk (Some ?d) (Some ?a) (Some ?t) (Some ?n) db1 of
        Err DuplicateKey \<Rightarrow> lift_user (update_user_profile c ?pk (Some ?d) (Some ?a) (Some ?t) None db1)
      | r \<Rightarrow> lift_user r) = Ok db'"
    by (auto simp: handle_kind0_profile_def Let_def result_simps split: option.splits)
  define old where "old = unwrap_or (new_user_row c ?pk) (find (user_at c ?pk) (cdb_users db))"
  note e = ensured [OF 1, folded old_def]
  from r consider (set) "update_user_profile c ?pk (Some ?d) (Some ?a) (Some ?t) (Some ?n) db1 = Ok db'"
    | (kept) "update_user_profile c ?pk (Some ?d) (Some ?a) (Some ?t) (Some ?n) db1 = Err DuplicateKey"
        "update_user_profile c ?pk (Some ?d) (Some ?a) (Some ?t) None db1 = Ok db'"
    by (auto simp: lift_user_def split: result.splits user_error.splits)
  then obtain n where n: "update_user_profile c ?pk (Some ?d) (Some ?a) (Some ?t) n db1 = Ok db'"
    "n = (if handle_taken db c ?pk (Some ?n) then None else Some ?n)"
  proof cases
    case set
    with update_profile_result [OF set e(1)] e(3) show ?thesis by (intro that) auto
  next
    case kept
    then have "handle_taken db1 c ?pk (Some ?n)" by (auto simp: update_user_profile_def split: if_splits)
    with kept e(3) show ?thesis by (intro that) auto
  qed
  note u = update_profile_result [OF n(1) e(1)]
  have about: "empty_to_none (Some ?t) = empty_to_none (str_field content ''about'')"
    by (auto simp: empty_to_none_def unwrap_or_def split: option.splits)
  have key: "us_pubkey old = ?pk"
    by (auto simp: old_def unwrap_or_def new_user_row_def find_Some_iff user_at_def split: option.splits)
  have handle: "us_nip05_handle old = Option.bind (get_user db c ?pk) pf_nip05_handle"
    by (auto simp: old_def unwrap_or_def new_user_row_def get_user_def user_profile_of_def split: option.splits)
  show ?thesis
    using u e(2) n(2) about key handle
    by (auto simp: get_user_def user_profile_of_def set_profile_def set_field_def)
qed

theorem profile_event_is_absolute_witness:
  "get_user \<lparr>cdb_channels = [], cdb_members = [], cdb_users = [(new_user_row 1 alice_key)
       \<lparr>us_display_name := Some ''Al'', us_nip05_handle := Some ''al@relay.example''\<rparr>]\<rparr> 1 alice_key
     = Some \<lparr>pf_pubkey = alice_key, pf_display_name = Some ''Al'', pf_avatar_url = None, pf_about = None,
         pf_nip05_handle = Some ''al@relay.example''\<rparr>"
proof -
  have c: "claim_parse (ev_content claim_profile) = Some (JObject [(''name'', JString ''Al''), (''nip05'', JString ''Al@relay.example'')])"
    by (simp add: claim_parse_def)
  have h: "profile_handle ''wss://relay.example'' (JObject [(''name'', JString ''Al''), (''nip05'', JString ''Al@relay.example'')])
      = ''al@relay.example''"
    by code_simp
  from profile_event_is_absolute [OF claim_stored c] show ?thesis
    by (simp add: h claim_profile_def first_present_def str_field_def json_get_def json_as_str_def unwrap_or_def
        empty_to_none_def handle_taken_def is_some_and_def)
qed

end
