(* ===== verification/Reactions.thy ===== *)
theory Reactions
  imports Threads
begin

text \<open>
  Reactions, \<open>crates/buzz-db/src/reaction.rs\<close>, with the transaction of \<open>crates/buzz-db/src/event.rs\<close> that
  stores a reaction row together with its kind:7 event. One row per target, actor and emoji; a
  removed row is kept and can become active again.
\<close>

section \<open>The table\<close>

record reaction_row =
  rx_community :: community_id
  rx_target_created_at :: int
  rx_target :: hex_string
  rx_pubkey :: hex_string
  rx_emoji :: string
  rx_created_at :: int
  rx_removed_at :: "int option"
  rx_source :: "hex_string option"

record reaction_user =
  ru_pubkey :: hex_string
  ru_display_name :: "string option"
  ru_reaction_event_id :: "hex_string option"

record reaction_group =
  rg_emoji :: string
  rg_count :: nat
  rg_users :: "reaction_user list"

record reaction_summary =
  rs_emoji :: string
  rs_count :: nat

record bulk_reaction_entry =
  be_event_id :: hex_string
  be_event_created_at :: int
  be_reactions :: "reaction_summary list"

text \<open>The column is \<open>VARCHAR(66)\<close> since migration 0028.\<close>

definition REACTION_EMOJI_WIDTH :: nat where
  "REACTION_EMOJI_WIDTH = 66"

definition reaction_on :: "community_id \<Rightarrow> hex_string \<Rightarrow> int \<Rightarrow> reaction_row \<Rightarrow> bool" where
  "reaction_on c i ts r \<longleftrightarrow> rx_community r = c \<and> rx_target r = i \<and> rx_target_created_at r = ts"

definition reaction_at :: "community_id \<Rightarrow> hex_string \<Rightarrow> int \<Rightarrow> hex_string \<Rightarrow> string \<Rightarrow> reaction_row \<Rightarrow> bool" where
  "reaction_at c i ts pk emoji r \<longleftrightarrow> reaction_on c i ts r \<and> rx_pubkey r = pk \<and> rx_emoji r = emoji"

definition reaction_active :: "reaction_row \<Rightarrow> bool" where
  "reaction_active r \<longleftrightarrow> rx_removed_at r = None"

text \<open>The unique index on (community, source event), for a row that gets the source \<open>src\<close>.\<close>

definition source_taken ::
    "community_id \<Rightarrow> hex_string \<Rightarrow> int \<Rightarrow> hex_string \<Rightarrow> string \<Rightarrow> hex_string option \<Rightarrow> reaction_row list \<Rightarrow> bool" where
  "source_taken c i ts pk emoji src rows \<longleftrightarrow>
     src \<noteq> None \<and> list_ex (\<lambda>r. rx_community r = c \<and> rx_source r = src \<and> \<not> reaction_at c i ts pk emoji r) rows"

definition reactivated :: "int \<Rightarrow> hex_string option \<Rightarrow> reaction_row \<Rightarrow> reaction_row" where
  "reactivated now src r =
     r\<lparr>rx_created_at := now, rx_removed_at := None,
       rx_source := (case src of Some s \<Rightarrow> Some s | None \<Rightarrow> rx_source r)\<rparr>"

text \<open>\<open>INSERT ... ON CONFLICT ... DO UPDATE ... WHERE removed_at IS NOT NULL\<close>, and whether a row was affected.\<close>

definition add_reaction ::
    "int \<Rightarrow> community_id \<Rightarrow> hex_string \<Rightarrow> int \<Rightarrow> hex_string \<Rightarrow> string \<Rightarrow> hex_string option \<Rightarrow> reaction_row list
     \<Rightarrow> (db_error, bool \<times> reaction_row list) result" where
  "add_reaction now c i ts pk emoji src rows =
     (if REACTION_EMOJI_WIDTH < chars_count emoji then Err Sqlx
      else
        (case find (reaction_at c i ts pk emoji) rows of
           Some r \<Rightarrow>
             if reaction_active r then Ok (False, rows)
             else if source_taken c i ts pk emoji src rows then Err Sqlx
             else Ok (True,
               map (\<lambda>r. if reaction_at c i ts pk emoji r then reactivated now src r else r) rows)
         | None \<Rightarrow>
             if source_taken c i ts pk emoji src rows then Err Sqlx
             else Ok (True, rows @
               [\<lparr>rx_community = c, rx_target_created_at = ts, rx_target = i, rx_pubkey = pk, rx_emoji = emoji,
                 rx_created_at = now, rx_removed_at = None, rx_source = src\<rparr>])))"

definition update_reactions ::
    "(reaction_row \<Rightarrow> bool) \<Rightarrow> (reaction_row \<Rightarrow> reaction_row) \<Rightarrow> reaction_row list \<Rightarrow> bool \<times> reaction_row list" where
  "update_reactions p f rows = (list_ex p rows, map (\<lambda>r. if p r then f r else r) rows)"

definition remove_reaction ::
    "int \<Rightarrow> community_id \<Rightarrow> hex_string \<Rightarrow> int \<Rightarrow> hex_string \<Rightarrow> string \<Rightarrow> reaction_row list \<Rightarrow> bool \<times> reaction_row list" where
  "remove_reaction now c i ts pk emoji rows =
     update_reactions (\<lambda>r. reaction_at c i ts pk emoji r \<and> reaction_active r)
       (\<lambda>r. r\<lparr>rx_removed_at := Some now\<rparr>) rows"

definition remove_reaction_by_source_event_id ::
    "int \<Rightarrow> community_id \<Rightarrow> hex_string \<Rightarrow> reaction_row list \<Rightarrow> bool \<times> reaction_row list" where
  "remove_reaction_by_source_event_id now c src rows =
     update_reactions (\<lambda>r. rx_community r = c \<and> rx_source r = Some src \<and> reaction_active r)
       (\<lambda>r. r\<lparr>rx_removed_at := Some now\<rparr>) rows"

definition get_active_reaction_record ::
    "community_id \<Rightarrow> hex_string \<Rightarrow> int \<Rightarrow> hex_string \<Rightarrow> string \<Rightarrow> reaction_row list \<Rightarrow> hex_string option option" where
  "get_active_reaction_record c i ts pk emoji rows =
     map_option rx_source (find (\<lambda>r. reaction_at c i ts pk emoji r \<and> reaction_active r) rows)"

definition set_reaction_event_id ::
    "community_id \<Rightarrow> hex_string \<Rightarrow> int \<Rightarrow> hex_string \<Rightarrow> string \<Rightarrow> hex_string \<Rightarrow> reaction_row list
     \<Rightarrow> (db_error, bool \<times> reaction_row list) result" where
  "set_reaction_event_id c i ts pk emoji src rows =
     (let hit = (\<lambda>r. reaction_at c i ts pk emoji r \<and> reaction_active r) in
      if list_ex hit rows \<and> source_taken c i ts pk emoji (Some src) rows then Err Sqlx
      else Ok (update_reactions hit (\<lambda>r. r\<lparr>rx_source := Some src\<rparr>) rows))"

section \<open>Reads\<close>

definition active_on :: "community_id \<Rightarrow> hex_string \<Rightarrow> int \<Rightarrow> reaction_row list \<Rightarrow> reaction_row list" where
  "active_on c i ts rows = filter (\<lambda>r. reaction_on c i ts r \<and> reaction_active r) rows"

definition reaction_user_of :: "reaction_row \<Rightarrow> reaction_user" where
  "reaction_user_of r = \<lparr>ru_pubkey = rx_pubkey r, ru_display_name = None, ru_reaction_event_id = rx_source r\<rparr>"

text \<open>
  The loop over the ordered rows with the current emoji and its users, and the flush at the end.
\<close>

definition flush_group :: "string option \<Rightarrow> reaction_user list \<Rightarrow> reaction_group list \<Rightarrow> reaction_group list" where
  "flush_group cur users groups =
     (case cur of
        Some e \<Rightarrow> groups @ [\<lparr>rg_emoji = e, rg_count = length users, rg_users = users\<rparr>]
      | None \<Rightarrow> groups)"

fun group_loop ::
    "string option \<Rightarrow> reaction_user list \<Rightarrow> reaction_group list \<Rightarrow> reaction_row list \<Rightarrow> reaction_group list" where
  "group_loop cur users groups [] = flush_group cur users groups"
| "group_loop cur users groups (r # rs) =
     (if cur \<noteq> Some (rx_emoji r)
      then group_loop (Some (rx_emoji r)) [reaction_user_of r] (flush_group cur users groups) rs
      else group_loop cur (users @ [reaction_user_of r]) groups rs)"

text \<open>\<open>coll\<close> is the order of the database's collation on the emoji column.\<close>

definition distinct_emojis :: "(string \<Rightarrow> nat) \<Rightarrow> reaction_row list \<Rightarrow> string list" where
  "distinct_emojis coll rows = sort_key coll (remdups (map rx_emoji rows))"

definition get_reactions ::
    "(string \<Rightarrow> nat) \<Rightarrow> community_id \<Rightarrow> hex_string \<Rightarrow> int \<Rightarrow> nat \<Rightarrow> reaction_row list \<Rightarrow> reaction_group list" where
  "get_reactions coll c i ts limit rows =
     (let active = active_on c i ts rows;
          page = take limit (distinct_emojis coll active) in
      group_loop None [] []
        (sort_key (\<lambda>r. (coll (rx_emoji r), rx_created_at r)) (filter (\<lambda>r. rx_emoji r \<in> set page) active)))"

definition reaction_counts :: "(string \<Rightarrow> nat) \<Rightarrow> reaction_row list \<Rightarrow> reaction_summary list" where
  "reaction_counts coll active =
     map (\<lambda>e. \<lparr>rs_emoji = e, rs_count = length (filter (\<lambda>r. rx_emoji r = e) active)\<rparr>) (distinct_emojis coll active)"

definition get_reactions_bulk ::
    "(string \<Rightarrow> nat) \<Rightarrow> community_id \<Rightarrow> (hex_string \<times> int) list \<Rightarrow> reaction_row list \<Rightarrow> bulk_reaction_entry list" where
  "get_reactions_bulk coll c ids rows =
     List.map_filter (\<lambda>(i, ts).
       (let active = active_on c i ts rows in
        if active = [] then None
        else Some \<lparr>be_event_id = i, be_event_created_at = ts, be_reactions = reaction_counts coll active\<rparr>)) ids"

section \<open>A reaction with its event\<close>

record reaction_db =
  rd_threads :: thread_db
  rd_reactions :: "reaction_row list"

datatype reaction_event_insert_outcome =
    TargetMissing
  | DuplicateReaction
  | InsertedReaction stored_event bool

text \<open>
  One transaction: a rollback leaves the database as it was, and so does an error of a statement.
\<close>

definition insert_reaction_event_with_thread_metadata ::
    "(int \<Rightarrow> int option) \<Rightarrow> nat \<Rightarrow> community_id \<Rightarrow> event \<Rightarrow> uuid option \<Rightarrow> thread_params option \<Rightarrow> hex_string
     \<Rightarrow> hex_string \<Rightarrow> string \<Rightarrow> reaction_db \<Rightarrow> (db_error, reaction_event_insert_outcome \<times> reaction_db) result" where
  "insert_reaction_event_with_thread_metadata from_ts now c ev ch meta target actor emoji db =
     (case get_event_by_id (td_events (rd_threads db)) c target of
        None \<Rightarrow> Ok (TargetMissing, db)
      | Some row \<Rightarrow>
          bind_result (add_reaction (int now) c target (created_i64 row) actor emoji (Some (ev_id ev)) (rd_reactions db))
            (\<lambda>(inserted, rows).
          if \<not> inserted then Ok (DuplicateReaction, db)
          else
            bind_result (insert_event_with_thread_metadata from_ts now c ev ch meta (rd_threads db))
              (\<lambda>((stored, was_inserted), threads).
            Ok (InsertedReaction stored was_inserted, db\<lparr>rd_threads := threads, rd_reactions := rows\<rparr>))))"

text \<open>The wrapper of \<open>Db\<close> indexes the mentions afterwards and only logs a failure.\<close>

definition reaction_with_mentions ::
    "(int \<Rightarrow> int option) \<Rightarrow> nat \<Rightarrow> community_id \<Rightarrow> event \<Rightarrow> uuid option \<Rightarrow> thread_params option \<Rightarrow> hex_string
     \<Rightarrow> hex_string \<Rightarrow> string \<Rightarrow> reaction_db \<Rightarrow> (db_error, reaction_event_insert_outcome \<times> reaction_db) result" where
  "reaction_with_mentions from_ts now c ev ch meta target actor emoji db =
     bind_result (insert_reaction_event_with_thread_metadata from_ts now c ev ch meta target actor emoji db)
       (\<lambda>(outcome, db1).
     case outcome of
       InsertedReaction stored True \<Rightarrow>
         (case insert_mentions from_ts c ev (td_events (rd_threads db1)) of
            Ok evs \<Rightarrow> Ok (outcome, db1\<lparr>rd_threads := (rd_threads db1)\<lparr>td_events := evs\<rparr>\<rparr>)
          | Err _ \<Rightarrow> Ok (outcome, db1))
     | _ \<Rightarrow> Ok (outcome, db1))"

end
