(* ===== verification/Reactions_Laws.thy ===== *)
theory Reactions_Laws
  imports Reactions "HOL-Library.Countable"
begin

text \<open>
  Reactions: the page of groups is what grouping by emoji means, an actor counts once for an emoji
  and a target, and what a replayed event can do to a removed reaction.
\<close>

section \<open>Sorting by two keys\<close>

lemma insort_key_left: "\<forall>b \<in> set ys. f x \<le> f b \<Longrightarrow> insort_key f x (xs @ ys) = insort_key f x xs @ ys"
  by (induction xs) (auto, cases ys, auto)

lemma insort_key_right: "\<forall>a \<in> set xs. f a < f x \<Longrightarrow> insort_key f x (xs @ ys) = xs @ insort_key f x ys"
  by (induction xs) auto

lemma insort_key_cong: "(\<And>y. y \<in> set ys \<Longrightarrow> f x \<le> f y \<longleftrightarrow> g x \<le> g y) \<Longrightarrow> insort_key f x ys = insort_key g x ys"
  by (induction ys) auto

lemma sort_key_split:
  assumes "\<And>x y. x \<in> set xs \<Longrightarrow> y \<in> set xs \<Longrightarrow> p x \<Longrightarrow> \<not> p y \<Longrightarrow> f x < f y"
  shows "sort_key f xs = sort_key f (filter p xs) @ sort_key f (filter (\<lambda>x. \<not> p x) xs)"
  using assms
proof (induction xs)
  case (Cons x xs)
  then have IH: "sort_key f xs = sort_key f (filter p xs) @ sort_key f (filter (\<lambda>x. \<not> p x) xs)" by auto
  show ?case
  proof (cases "p x")
    case True
    with Cons.prems have "\<forall>b \<in> set (sort_key f (filter (\<lambda>x. \<not> p x) xs)). f x \<le> f b" by force
    with True IH show ?thesis by (simp add: insort_key_left)
  next
    case False
    with Cons.prems have "\<forall>a \<in> set (sort_key f (filter p xs)). f a < f x" by force
    with False IH show ?thesis by (simp add: insort_key_right)
  qed
qed simp

lemma sort_key_second:
  "\<forall>x \<in> set xs. k x = v \<Longrightarrow> sort_key (\<lambda>x. (k x, m x)) xs = sort_key m xs"
  by (induction xs) (auto intro: insort_key_cong)

lemma sort_key_groups:
  assumes "sorted (map h vs)" and "distinct (map h vs)" and "\<forall>x \<in> set xs. \<exists>v \<in> set vs. k x = h v"
  shows "sort_key (\<lambda>x. (k x, m x)) xs = concat (map (\<lambda>v. sort_key m (filter (\<lambda>x. k x = h v) xs)) vs)"
  using assms
proof (induction vs arbitrary: xs)
  case Nil
  then show ?case by (cases xs) auto
next
  case (Cons v vs)
  let ?rest = "filter (\<lambda>x. k x \<noteq> h v) xs"
  have less: "h v < h w" if "w \<in> set vs" for w
  proof -
    have "h v \<noteq> h w" using Cons.prems(2) that by force
    moreover have "h v \<le> h w" using Cons.prems(1) that by auto
    ultimately show ?thesis by simp
  qed
  have split: "sort_key (\<lambda>x. (k x, m x)) xs
      = sort_key (\<lambda>x. (k x, m x)) (filter (\<lambda>x. k x = h v) xs) @ sort_key (\<lambda>x. (k x, m x)) ?rest"
    using Cons.prems(3) less by (intro sort_key_split) fastforce
  have "sort_key (\<lambda>x. (k x, m x)) (filter (\<lambda>x. k x = h v) xs) = sort_key m (filter (\<lambda>x. k x = h v) xs)"
    by (rule sort_key_second [where v = "h v"]) simp
  moreover have "sort_key (\<lambda>x. (k x, m x)) ?rest
      = concat (map (\<lambda>w. sort_key m (filter (\<lambda>x. k x = h w) ?rest)) vs)"
    using Cons.prems by (intro Cons.IH) auto
  moreover have "filter (\<lambda>x. k x = h w) ?rest = filter (\<lambda>x. k x = h w) xs" if "w \<in> set vs" for w
    using less [OF that] by (auto intro: filter_cong)
  ultimately show ?case using split by (simp cong: map_cong)
qed

section \<open>Groups\<close>

lemma group_loop_block:
  "\<forall>r \<in> set rs. rx_emoji r = e \<Longrightarrow>
     group_loop (Some e) us gs (rs @ rest) = group_loop (Some e) (us @ map reaction_user_of rs) gs rest"
  by (induction rs arbitrary: us) auto

definition group_of :: "(string \<Rightarrow> reaction_row list) \<Rightarrow> string \<Rightarrow> reaction_group" where
  "group_of rows e = \<lparr>rg_emoji = e, rg_count = length (rows e), rg_users = map reaction_user_of (rows e)\<rparr>"

lemma group_loop_blocks:
  assumes "\<And>e. e \<in> set es \<Longrightarrow> rows e \<noteq> [] \<and> (\<forall>r \<in> set (rows e). rx_emoji r = e)"
    and "distinct es" and "cur \<notin> Some ` set es"
  shows "group_loop cur us gs (concat (map rows es)) = flush_group cur us gs @ map (group_of rows) es"
  using assms
proof (induction es arbitrary: cur us gs)
  case (Cons e es)
  obtain r rs where r: "rows e = r # rs" "rx_emoji r = e" "\<forall>r \<in> set rs. rx_emoji r = e"
    using Cons.prems(1) [of e] by (cases "rows e") auto
  have "group_loop (Some e) (map reaction_user_of (rows e)) (flush_group cur us gs) (concat (map rows es))
      = flush_group (Some e) (map reaction_user_of (rows e)) (flush_group cur us gs) @ map (group_of rows) es"
    using Cons.prems by (intro Cons.IH) auto
  moreover have "group_loop cur us gs (concat (map rows (e # es)))
      = group_loop (Some e) (map reaction_user_of (rows e)) (flush_group cur us gs) (concat (map rows es))"
    using Cons.prems(3) r group_loop_block [OF r(3), of "[reaction_user_of r]"] by auto
  ultimately show ?case by (simp add: flush_group_def group_of_def)
qed simp

text \<open>The rows of one emoji on a target, oldest first.\<close>

definition emoji_rows :: "community_id \<Rightarrow> hex_string \<Rightarrow> int \<Rightarrow> reaction_row list \<Rightarrow> string \<Rightarrow> reaction_row list" where
  "emoji_rows c i ts rows e = sort_key rx_created_at (filter (\<lambda>r. rx_emoji r = e) (active_on c i ts rows))"

text \<open>
  A page of reactions lists the first emojis in the order of the collation, each once and each
  with every active reaction of that emoji on that target, oldest first: a busy emoji never pushes
  another one off the page and no reaction is missing from its group.
\<close>

lemma reaction_page_exact:
  assumes "inj coll"
  shows "get_reactions coll c i ts limit rows
    = map (group_of (emoji_rows c i ts rows)) (take limit (distinct_emojis coll (active_on c i ts rows)))"
proof -
  let ?active = "active_on c i ts rows"
  let ?page = "take limit (distinct_emojis coll ?active)"
  let ?chosen = "filter (\<lambda>r. rx_emoji r \<in> set ?page) ?active"
  have all: "set (distinct_emojis coll ?active) = rx_emoji ` set ?active" "distinct (distinct_emojis coll ?active)"
    by (simp_all add: distinct_emojis_def)
  have page: "sorted (map coll ?page)" "distinct ?page"
    using all(2) by (simp_all add: distinct_emojis_def take_map [symmetric] sorted_wrt_take)
  have "sort_key (\<lambda>r. (coll (rx_emoji r), rx_created_at r)) ?chosen
      = concat (map (\<lambda>e. sort_key rx_created_at (filter (\<lambda>r. coll (rx_emoji r) = coll e) ?chosen)) ?page)"
    using page assms by (intro sort_key_groups) (auto simp: distinct_map inj_on_def inj_def)
  moreover have "sort_key rx_created_at (filter (\<lambda>r. coll (rx_emoji r) = coll e) ?chosen) = emoji_rows c i ts rows e"
    if "e \<in> set ?page" for e
    using that assms by (auto simp: emoji_rows_def inj_eq intro!: arg_cong [where f = "sort_key rx_created_at"] filter_cong)
  ultimately have rows: "sort_key (\<lambda>r. (coll (rx_emoji r), rx_created_at r)) ?chosen
      = concat (map (emoji_rows c i ts rows) ?page)"
    by (simp cong: map_cong)
  have "emoji_rows c i ts rows e \<noteq> [] \<and> (\<forall>r \<in> set (emoji_rows c i ts rows e). rx_emoji r = e)" if "e \<in> set ?page" for e
  proof -
    from that all(1) have "e \<in> rx_emoji ` set ?active" by (metis in_set_takeD)
    then have "filter (\<lambda>r. rx_emoji r = e) ?active \<noteq> []" by (auto simp: filter_empty_conv)
    then show ?thesis unfolding emoji_rows_def by (auto simp: set_empty [symmetric] simp del: set_empty)
  qed
  then have "group_loop None [] [] (concat (map (emoji_rows c i ts rows) ?page))
      = flush_group None [] [] @ map (group_of (emoji_rows c i ts rows)) ?page"
    using page(2) by (intro group_loop_blocks) auto
  then show ?thesis
    unfolding get_reactions_def Let_def rows by (simp add: flush_group_def)
qed


definition sample_reaction :: reaction_row where
  "sample_reaction =
     \<lparr>rx_community = 1, rx_target_created_at = 5, rx_target = ''t'', rx_pubkey = ''p'', rx_emoji = ''+'',
      rx_created_at = 6, rx_removed_at = None, rx_source = Some ''s''\<rparr>"

theorem reaction_page_exact_witness:
  "get_reactions to_nat 1 ''t'' 5 10 [sample_reaction]
     = [\<lparr>rg_emoji = ''+'', rg_count = 1, rg_users = [reaction_user_of sample_reaction]\<rparr>]"
  using reaction_page_exact [OF inj_to_nat, of 1 "''t''" 5 10 "[sample_reaction]"]
  by (simp add: sample_reaction_def active_on_def reaction_on_def reaction_active_def distinct_emojis_def
      group_of_def emoji_rows_def)

section \<open>One reaction each\<close>

definition reaction_key :: "reaction_row \<Rightarrow> community_id \<times> int \<times> hex_string \<times> hex_string \<times> string" where
  "reaction_key r = (rx_community r, rx_target_created_at r, rx_target r, rx_pubkey r, rx_emoji r)"

definition event_stored :: "reaction_db \<Rightarrow> community_id \<Rightarrow> hex_string \<Rightarrow> bool" where
  "event_stored db c i \<longleftrightarrow> list_ex (\<lambda>e. row_community e = c \<and> ev_id (row_event e) = i) (db_events (td_events (rd_threads db)))"

text \<open>
  Keys are unique, no event is the source of two rows of a community, and every row has a source
  event in the table.
\<close>

definition reactions_typed :: "reaction_db \<Rightarrow> bool" where
  "reactions_typed db \<longleftrightarrow>
     distinct (map reaction_key (rd_reactions db))
     \<and> distinct (map (\<lambda>r. (rx_community r, rx_source r)) (rd_reactions db))
     \<and> list_all (\<lambda>r. rx_source r \<noteq> None \<and> event_stored db (rx_community r) (the (rx_source r))
          \<and> chars_count (rx_emoji r) \<le> REACTION_EMOJI_WIDTH) (rd_reactions db)"

inductive reactions_reach :: "(int \<Rightarrow> int option) \<Rightarrow> reaction_db \<Rightarrow> bool" for from_ts :: "int \<Rightarrow> int option" where
  no_reactions: "rd_reactions db = [] \<Longrightarrow> reactions_reach from_ts db"
| reacted: "reactions_reach from_ts db
    \<Longrightarrow> insert_reaction_event_with_thread_metadata from_ts now c ev ch meta target actor emoji db = Ok (out, db')
    \<Longrightarrow> reactions_reach from_ts db'"
| posted: "reactions_reach from_ts db
    \<Longrightarrow> insert_event_with_thread_metadata from_ts now c ev ch meta (rd_threads db) = Ok (r, threads)
    \<Longrightarrow> reactions_reach from_ts (db\<lparr>rd_threads := threads\<rparr>)"
| deleted: "reactions_reach from_ts db \<Longrightarrow> reactions_reach from_ts (db\<lparr>rd_threads := snd (delete_event c i (rd_threads db))\<rparr>)"
| unreacted: "reactions_reach from_ts db
    \<Longrightarrow> reactions_reach from_ts (db\<lparr>rd_reactions := snd (remove_reaction now c i ts pk emoji (rd_reactions db))\<rparr>)"
| source_removed: "reactions_reach from_ts db
    \<Longrightarrow> reactions_reach from_ts (db\<lparr>rd_reactions := snd (remove_reaction_by_source_event_id now c src (rd_reactions db))\<rparr>)"

lemma stored_event:
  assumes "insert_event_with_thread_metadata from_ts now c ev ch meta db = Ok ((stored, fresh), db')"
  shows "list_ex (\<lambda>e. row_community e = c \<and> ev_id (row_event e) = ev_id ev) (db_events (td_events db'))"
    and "list_ex p (db_events (td_events db)) \<Longrightarrow> list_ex p (db_events (td_events db'))"
  using assms
  by (auto simp: insert_event_with_thread_metadata_def insert_event_def result_simps Let_def same_row_key_def
      list_ex_iff split: option.splits if_splits)

lemma deletion_keeps_rows:
  "list_ex (\<lambda>e. row_community e = c' \<and> ev_id (row_event e) = i') (db_events (td_events (snd (delete_event c i db))))
     = list_ex (\<lambda>e. row_community e = c' \<and> ev_id (row_event e) = i') (db_events (td_events db))"
proof -
  have "list_ex (\<lambda>e. row_community e = c' \<and> ev_id (row_event e) = i') (map (\<lambda>r. if p r then r\<lparr>row_deleted := True\<rparr> else r) rows)
      = list_ex (\<lambda>e. row_community e = c' \<and> ev_id (row_event e) = i') rows" for p rows
    by (induction rows) auto
  then show ?thesis
    by (simp add: delete_event_def soft_delete_event_and_update_thread_def soft_delete_event_def Let_def)
qed

lemma typed_more_events:
  assumes "reactions_typed db" and "\<And>c i. event_stored db c i \<Longrightarrow> event_stored (db\<lparr>rd_threads := threads\<rparr>) c i"
  shows "reactions_typed (db\<lparr>rd_threads := threads\<rparr>)"
  using assms by (auto simp: reactions_typed_def list_all_iff)

lemma typed_removal:
  assumes "reactions_typed db"
  shows "reactions_typed (db\<lparr>rd_reactions := snd (update_reactions p (\<lambda>r. r\<lparr>rx_removed_at := t\<rparr>) (rd_reactions db))\<rparr>)"
proof -
  have keys: "reaction_key (if p r then r\<lparr>rx_removed_at := t\<rparr> else r) = reaction_key r" for r
    by (simp add: reaction_key_def)
  have fields: "rx_community (if p r then r\<lparr>rx_removed_at := t\<rparr> else r) = rx_community r"
    "rx_source (if p r then r\<lparr>rx_removed_at := t\<rparr> else r) = rx_source r"
    "rx_emoji (if p r then r\<lparr>rx_removed_at := t\<rparr> else r) = rx_emoji r" for r
    by simp_all
  show ?thesis
    using assms
    by (simp add: reactions_typed_def event_stored_def list_all_iff update_reactions_def comp_def keys fields del: if_image_distrib)
qed

lemma add_reaction_typed:
  assumes "reactions_typed db" and "add_reaction now c i ts pk emoji (Some src) (rd_reactions db) = Ok (True, rows)"
    and "event_stored (db\<lparr>rd_threads := threads\<rparr>) c src"
    and "\<And>c i. event_stored db c i \<Longrightarrow> event_stored (db\<lparr>rd_threads := threads\<rparr>) c i"
  shows "reactions_typed (db\<lparr>rd_threads := threads, rd_reactions := rows\<rparr>)"
proof -
  let ?old = "rd_reactions db"
  let ?at = "reaction_at c i ts pk emoji"
  have free: "\<not> source_taken c i ts pk emoji (Some src) ?old" and width: "\<not> REACTION_EMOJI_WIDTH < chars_count emoji"
    using assms(2) by (auto simp: add_reaction_def split: if_splits option.splits)
  have ev: "event_stored (db\<lparr>rd_threads := threads, rd_reactions := rows\<rparr>) c i = event_stored (db\<lparr>rd_threads := threads\<rparr>) c i" for c i
    by (simp add: event_stored_def)
  from assms(2) consider
      (new) r where "rows = ?old @ [r]" "\<forall>x \<in> set ?old. \<not> ?at x" "?at r" "rx_source r = Some src"
    | (again) "rows = map (\<lambda>r. if ?at r then reactivated now (Some src) r else r) ?old"
    by (auto simp: add_reaction_def find_None_iff reaction_at_def reaction_on_def split: if_splits option.splits)
  then show ?thesis
  proof cases
    case new
    have "reaction_key r \<notin> reaction_key ` set ?old"
      using new(2,3) by (auto simp: reaction_key_def reaction_at_def reaction_on_def)
    moreover have "(rx_community r, rx_source r) \<notin> (\<lambda>r. (rx_community r, rx_source r)) ` set ?old"
      using new(2-4) free by (auto simp: source_taken_def list_ex_iff reaction_at_def reaction_on_def)
    ultimately show ?thesis
      using assms(1,3,4) new(1,3,4) width ev by (auto simp: reactions_typed_def list_all_iff reaction_at_def reaction_on_def)
  next
    case again
    have keys: "reaction_key (if ?at r then reactivated now (Some src) r else r) = reaction_key r"
      "rx_community (if ?at r then reactivated now (Some src) r else r) = rx_community r"
      "rx_emoji (if ?at r then reactivated now (Some src) r else r) = rx_emoji r"
      "rx_source (if ?at r then reactivated now (Some src) r else r) = (if ?at r then Some src else rx_source r)" for r
      by (simp_all add: reaction_key_def reactivated_def)
    have key: "map reaction_key rows = map reaction_key ?old" using again keys by (simp add: comp_def)
    have unique: "x = y" if "x \<in> set ?old" "y \<in> set ?old" "?at x" "?at y" for x y
      using assms(1) that by (auto simp: reactions_typed_def distinct_map inj_on_def reaction_key_def reaction_at_def reaction_on_def)
    have "inj_on (\<lambda>r. (rx_community r, rx_source r)) (set ?old)" "distinct ?old"
      using assms(1) by (auto simp: reactions_typed_def distinct_map)
    then have "distinct (map (\<lambda>r. (rx_community r, rx_source r)) rows)"
      unfolding again map_map distinct_map comp_def keys
      using unique free by (auto simp: inj_on_def source_taken_def list_ex_iff reaction_at_def reaction_on_def)
    moreover have "rx_source x \<noteq> None \<and> event_stored (db\<lparr>rd_threads := threads\<rparr>) (rx_community x) (the (rx_source x))
        \<and> chars_count (rx_emoji x) \<le> REACTION_EMOJI_WIDTH" if "x \<in> set rows" for x
    proof -
      from that again obtain r where r: "r \<in> set ?old" "x = (if ?at r then reactivated now (Some src) r else r)" by auto
      show ?thesis
        unfolding r(2) keys using assms(1,3,4) r(1)
        by (auto simp: reactions_typed_def list_all_iff reaction_at_def reaction_on_def)
    qed
    ultimately show ?thesis
      using assms(1) key ev by (simp add: reactions_typed_def list_all_iff)
  qed
qed

lemma reactions_typed_reach:
  assumes "reactions_reach from_ts db"
  shows "reactions_typed db"
  using assms
proof induction
  case (no_reactions db)
  then show ?case by (simp add: reactions_typed_def)
next
  case (reacted db now c ev ch meta target actor emoji out db')
  show ?case
  proof (cases "db' = db")
    case False
    with reacted.hyps(2) obtain row rows stored fresh threads where
      add: "add_reaction (int now) c target (created_i64 row) actor emoji (Some (ev_id ev)) (rd_reactions db) = Ok (True, rows)"
      and ins: "insert_event_with_thread_metadata from_ts now c ev ch meta (rd_threads db) = Ok ((stored, fresh), threads)"
      and db': "db' = db\<lparr>rd_threads := threads, rd_reactions := rows\<rparr>"
      by (auto simp: insert_reaction_event_with_thread_metadata_def result_simps split: option.splits if_splits)
    show ?thesis unfolding db'
      using reacted.IH add stored_event [OF ins] by (intro add_reaction_typed) (auto simp: event_stored_def)
  qed (use reacted.IH in simp)
next
  case (posted db now c ev ch meta r threads)
  then show ?case
    by (cases r) (auto intro!: typed_more_events simp: event_stored_def dest: stored_event(2))
next
  case (deleted db c i)
  then show ?case by (intro typed_more_events) (auto simp: event_stored_def deletion_keeps_rows)
next
  case (unreacted db now c i ts pk emoji)
  then show ?case unfolding remove_reaction_def by (intro typed_removal)
next
  case (source_removed db now c src)
  then show ?case unfolding remove_reaction_by_source_event_id_def by (intro typed_removal)
qed


text \<open>
  C38. Whatever reactions, messages, removals and deletions happen in any order, an actor has one row
  for an emoji on a target, no event is the source of two reactions, every reaction names a kind:7
  event that is in the store, and its text fits the column.
\<close>

theorem reactions_stay_typed:
  assumes "reactions_reach from_ts db"
  shows "reactions_typed db"
  using assms by (rule reactions_typed_reach)


section \<open>Replaying a removed reaction\<close>

lemma added_row:
  assumes "add_reaction now c i ts pk emoji (Some src) rows = Ok (True, rows')"
  shows "\<exists>r. find (reaction_at c i ts pk emoji) rows' = Some r \<and> reaction_active r \<and> rx_source r = Some src"
proof -
  have append: "find p (xs @ [x]) = (case find p xs of None \<Rightarrow> if p x then Some x else None | Some y \<Rightarrow> Some y)"
    for p :: "reaction_row \<Rightarrow> bool" and xs x by (induction xs) auto
  have kept: "reaction_at c i ts pk emoji (reactivated now (Some src) r) = reaction_at c i ts pk emoji r" for r
    by (simp add: reaction_at_def reaction_on_def reactivated_def)
  have map: "find (reaction_at c i ts pk emoji) (map (\<lambda>r. if reaction_at c i ts pk emoji r then reactivated now (Some src) r else r) xs)
      = map_option (reactivated now (Some src)) (find (reaction_at c i ts pk emoji) xs)" for xs
    by (induction xs) (auto simp: kept)
  have new: "reaction_at c i ts pk emoji
      \<lparr>rx_community = c, rx_target_created_at = ts, rx_target = i, rx_pubkey = pk, rx_emoji = emoji,
       rx_created_at = now, rx_removed_at = None, rx_source = Some src\<rparr>"
    by (simp add: reaction_at_def reaction_on_def)
  show ?thesis
    using assms by (auto simp: add_reaction_def append map new reactivated_def reaction_active_def split: if_splits option.splits)
qed

lemma add_again:
  assumes "find (reaction_at c i ts pk emoji) rows = Some r" and "\<not> reaction_active r"
    and "\<not> source_taken c i ts pk emoji src rows" and "chars_count emoji \<le> REACTION_EMOJI_WIDTH"
  shows "\<exists>rows'. add_reaction now c i ts pk emoji src rows = Ok (True, rows')"
  using assms by (simp add: add_reaction_def)

lemma find_removed:
  "find (reaction_at c i ts pk emoji) (snd (update_reactions p (\<lambda>r. r\<lparr>rx_removed_at := t\<rparr>) rows))
     = map_option (\<lambda>r. if p r then r\<lparr>rx_removed_at := t\<rparr> else r) (find (reaction_at c i ts pk emoji) rows)"
  by (induction rows) (auto simp: update_reactions_def reaction_at_def reaction_on_def)

lemma taken_removed:
  "source_taken c i ts pk emoji src (snd (update_reactions p (\<lambda>r. r\<lparr>rx_removed_at := t\<rparr>) rows))
     = source_taken c i ts pk emoji src rows"
proof -
  have "list_ex (\<lambda>r. rx_community r = c \<and> rx_source r = src \<and> \<not> reaction_at c i ts pk emoji r)
        (map (\<lambda>r. if p r then r\<lparr>rx_removed_at := t\<rparr> else r) rows)
      = list_ex (\<lambda>r. rx_community r = c \<and> rx_source r = src \<and> \<not> reaction_at c i ts pk emoji r) rows"
    by (induction rows) (auto simp: reaction_at_def reaction_on_def)
  then show ?thesis by (simp add: source_taken_def update_reactions_def)
qed

lemma deleted_lookup:
  "get_event_by_id (td_events (snd (delete_event c i db))) c j = (if j = i then None else get_event_by_id (td_events db) c j)"
proof -
  let ?hit = "\<lambda>r. row_community r = c \<and> ev_id (row_event r) = i \<and> \<not> row_deleted r"
  have gone: "filter (\<lambda>r. row_community r = c \<and> ev_id (row_event r) = i \<and> \<not> row_deleted r)
      (map (\<lambda>r. if ?hit r then r\<lparr>row_deleted := True\<rparr> else r) rows) = []" for rows :: "event_row list"
    by (induction rows) auto
  have kept: "filter (\<lambda>r. row_community r = c \<and> ev_id (row_event r) = j \<and> \<not> row_deleted r)
      (map (\<lambda>r. if ?hit r then r\<lparr>row_deleted := True\<rparr> else r) rows)
      = filter (\<lambda>r. row_community r = c \<and> ev_id (row_event r) = j \<and> \<not> row_deleted r) rows" if "j \<noteq> i" for rows :: "event_row list"
    using that by (induction rows) auto
  show ?thesis
    using gone kept
    by (cases "j = i") (simp_all add: get_event_by_id_def delete_event_def soft_delete_event_and_update_thread_def
        soft_delete_event_def Let_def)
qed

lemma inserted_lookup:
  assumes "insert_event_with_thread_metadata from_ts now c ev ch meta db = Ok (r, db')" and "j \<noteq> ev_id ev"
  shows "get_event_by_id (td_events db') c j = get_event_by_id (td_events db) c j"
  using assms
  by (auto simp: insert_event_with_thread_metadata_def insert_event_def result_simps Let_def get_event_by_id_def
      split: option.splits)

lemma reinserted:
  assumes "insert_event_with_thread_metadata from_ts now c ev ch meta db = Ok (r, db')"
    and "list_ex (same_row_key c ev) (db_events (td_events db2))"
  shows "\<exists>stored. insert_event_with_thread_metadata from_ts now' c ev ch meta db2 = Ok ((stored, False), db2)"
  using assms
  by (auto simp: insert_event_with_thread_metadata_def insert_event_def result_simps Let_def split: option.splits)

lemma row_key_kept:
  assumes "insert_event_with_thread_metadata from_ts now c ev ch meta db = Ok (r, db')"
  shows "list_ex (same_row_key c ev) (db_events (td_events (snd (delete_event c i db'))))"
proof -
  have "list_ex (same_row_key c ev) (map (\<lambda>r. if p r then r\<lparr>row_deleted := True\<rparr> else r) rows)
      = list_ex (same_row_key c ev) rows" for p rows
    by (induction rows) (auto simp: same_row_key_def)
  moreover have "list_ex (same_row_key c ev) (db_events (td_events db'))"
    using assms by (auto simp: insert_event_with_thread_metadata_def insert_event_def result_simps Let_def
        same_row_key_def split: option.splits if_splits)
  ultimately show ?thesis
    by (simp add: delete_event_def soft_delete_event_and_update_thread_def soft_delete_event_def Let_def)
qed

text \<open>
  C40. When an accepted reaction is deleted - its event soft-deleted and its row removed - and the
  same signed event is submitted again, the row becomes active again although its event stays
  deleted: the reaction counts, and no live event is left that a client could delete.
\<close>

theorem replayed_reaction_counts_without_event:
  assumes "reactions_reach from_ts db" and "ev_id ev \<noteq> target"
    and "insert_reaction_event_with_thread_metadata from_ts now c ev ch meta target actor emoji db
           = Ok (InsertedReaction stored fresh, db1)"
    and "db2 = db1\<lparr>rd_threads := snd (delete_event c (ev_id ev) (rd_threads db1)),
                  rd_reactions := snd (remove_reaction_by_source_event_id t c (ev_id ev) (rd_reactions db1))\<rparr>"
  shows "\<exists>stored' db3. insert_reaction_event_with_thread_metadata from_ts now' c ev ch meta target actor emoji db2
           = Ok (InsertedReaction stored' False, db3)
     \<and> list_ex (\<lambda>r. reaction_active r \<and> rx_source r = Some (ev_id ev)) (rd_reactions db3)
     \<and> get_event_by_id (td_events (rd_threads db3)) c (ev_id ev) = None"
proof -
  from assms(3) obtain row rows threads where
    row: "get_event_by_id (td_events (rd_threads db)) c target = Some row"
    and add: "add_reaction (int now) c target (created_i64 row) actor emoji (Some (ev_id ev)) (rd_reactions db) = Ok (True, rows)"
    and ins: "insert_event_with_thread_metadata from_ts now c ev ch meta (rd_threads db) = Ok ((stored, fresh), threads)"
    and db1: "db1 = db\<lparr>rd_threads := threads, rd_reactions := rows\<rparr>"
    by (auto simp: insert_reaction_event_with_thread_metadata_def result_simps split: option.splits if_splits)
  let ?at = "reaction_at c target (created_i64 row) actor emoji" and ?src = "Some (ev_id ev)"
  have typed: "reactions_typed db1"
    using add_reaction_typed [OF _ add] reactions_typed_reach [OF assms(1)] stored_event [OF ins] unfolding db1
    by (simp add: event_stored_def)
  obtain r where r: "find ?at rows = Some r" "reaction_active r" "rx_source r = ?src" using added_row [OF add] by blast
  have "\<not> source_taken c target (created_i64 row) actor emoji ?src rows"
  proof
    assume "source_taken c target (created_i64 row) actor emoji ?src rows"
    then obtain x where x: "x \<in> set rows" "rx_community x = c" "rx_source x = ?src" "\<not> ?at x"
      by (auto simp: source_taken_def list_ex_iff)
    from r(1) have r': "r \<in> set rows" "?at r" by (auto simp: find_Some_iff)
    then have "rx_community r = c" by (simp add: reaction_at_def reaction_on_def)
    with typed x r r' have "x = r"
      by (auto simp: reactions_typed_def db1 distinct_map inj_on_def)
    with x(4) r'(2) show False by simp
  qed
  moreover have "chars_count emoji \<le> REACTION_EMOJI_WIDTH" using add by (simp add: add_reaction_def split: if_splits)
  moreover have "rx_community r = c" using r(1) by (auto simp: find_Some_iff reaction_at_def reaction_on_def)
  ultimately obtain rows' where again: "add_reaction (int now') c target (created_i64 row) actor emoji ?src (rd_reactions db2) = Ok (True, rows')"
    using r add_again [of c target "created_i64 row" actor emoji "rd_reactions db2" "r\<lparr>rx_removed_at := Some t\<rparr>" ?src]
    by (auto simp: assms(4) db1 remove_reaction_by_source_event_id_def find_removed taken_removed reaction_active_def)
  have "get_event_by_id (td_events (rd_threads db2)) c target = Some row"
    using assms(2) row inserted_lookup [OF ins, of target] by (auto simp: assms(4) db1 deleted_lookup)
  moreover obtain stored' where "insert_event_with_thread_metadata from_ts now' c ev ch meta (rd_threads db2)
      = Ok ((stored', False), rd_threads db2)"
    using reinserted [OF ins row_key_kept [OF ins], of now' "ev_id ev"] by (auto simp: assms(4) db1)
  ultimately have "insert_reaction_event_with_thread_metadata from_ts now' c ev ch meta target actor emoji db2
      = Ok (InsertedReaction stored' False, db2\<lparr>rd_reactions := rows'\<rparr>)"
    using again by (simp add: insert_reaction_event_with_thread_metadata_def)
  moreover obtain r' where "find ?at rows' = Some r'" "reaction_active r'" "rx_source r' = ?src"
    using added_row [OF again] by blast
  moreover have "get_event_by_id (td_events (rd_threads db2)) c (ev_id ev) = None"
    by (simp add: assms(4) deleted_lookup)
  ultimately show ?thesis by (auto simp: list_ex_iff find_Some_iff)
qed


definition sample_like :: event where
  "sample_like =
     \<lparr>ev_id = ''k'', ev_pubkey = ''p'', ev_created_at = 6, ev_kind = 7, ev_tags = [[''e'', ''t'']], ev_content = ''+''\<rparr>"

definition sample_target :: event_row where
  "sample_target =
     \<lparr>row_community = 1,
      row_event = \<lparr>ev_id = ''t'', ev_pubkey = ''q'', ev_created_at = 5, ev_kind = 9, ev_tags = [], ev_content = ''hi''\<rparr>,
      row_received_at = 5, row_channel = Some 3, row_deleted = False, row_d_tag = None, row_not_before = None\<rparr>"

definition sample_reaction_db :: reaction_db where
  "sample_reaction_db =
     \<lparr>rd_threads = \<lparr>td_events = \<lparr>db_events = [sample_target], db_mentions = []\<rparr>, td_threads = []\<rparr>, rd_reactions = []\<rparr>"

definition sample_like_row :: event_row where
  "sample_like_row =
     \<lparr>row_community = 1, row_event = sample_like, row_received_at = 7, row_channel = Some 3, row_deleted = False,
      row_d_tag = None, row_not_before = None\<rparr>"

definition sample_reacted :: reaction_db where
  "sample_reacted =
     \<lparr>rd_threads = \<lparr>td_events = \<lparr>db_events = [sample_target, sample_like_row], db_mentions = []\<rparr>, td_threads = []\<rparr>,
      rd_reactions = [\<lparr>rx_community = 1, rx_target_created_at = 5, rx_target = ''t'', rx_pubkey = ''p'', rx_emoji = ''+'',
        rx_created_at = 7, rx_removed_at = None, rx_source = Some ''k''\<rparr>]\<rparr>"

lemma sample_start: "reactions_reach Some sample_reaction_db"
  by (rule no_reactions) (simp add: sample_reaction_db_def)

lemma sample_inserted:
  "insert_reaction_event_with_thread_metadata Some 7 1 sample_like (Some 3) None ''t'' ''p'' ''+'' sample_reaction_db
     = Ok (InsertedReaction (stored_event_with_received_at sample_like 7 (Some 3) True) True, sample_reacted)"
  by (simp add: insert_reaction_event_with_thread_metadata_def sample_reaction_db_def get_event_by_id_def sample_target_def
      created_i64_def as_i64_def add_reaction_def REACTION_EMOJI_WIDTH_def chars_count_def source_taken_def sample_like_def
      insert_event_with_thread_metadata_def insert_event_def KIND_AUTH_def is_ephemeral_def EPHEMERAL_KIND_MIN_def
      EPHEMERAL_KIND_MAX_def same_row_key_def extract_d_tag_def is_parameterized_replaceable_def
      PARAM_REPLACEABLE_KIND_MIN_def PARAM_REPLACEABLE_KIND_MAX_def extract_not_before_def KIND_EVENT_REMINDER_def
      sample_reacted_def sample_like_row_def)

theorem reactions_stay_typed_witness: "reactions_typed sample_reacted"
  by (rule reactions_stay_typed [OF reacted [OF sample_start sample_inserted]])

theorem replayed_reaction_counts_without_event_witness:
  "\<exists>stored db3. insert_reaction_event_with_thread_metadata Some 9 1 sample_like (Some 3) None ''t'' ''p'' ''+''
       (sample_reacted\<lparr>rd_threads := snd (delete_event 1 ''k'' (rd_threads sample_reacted)),
          rd_reactions := snd (remove_reaction_by_source_event_id 8 1 ''k'' (rd_reactions sample_reacted))\<rparr>)
       = Ok (InsertedReaction stored False, db3)
     \<and> list_ex (\<lambda>r. reaction_active r \<and> rx_source r = Some ''k'') (rd_reactions db3)
     \<and> get_event_by_id (td_events (rd_threads db3)) 1 ''k'' = None"
proof -
  have k: "ev_id sample_like = ''k''" by (simp add: sample_like_def)
  have ne: "ev_id sample_like \<noteq> ''t''" by (simp add: k)
  show ?thesis
    using replayed_reaction_counts_without_event [OF sample_start ne sample_inserted refl, of 9 8] unfolding k .
qed

end
