(* ===== verification/Replaceable.thy ===== *)
theory Replaceable
  imports Event_Store Strings
begin

text \<open>
  Replaceable events, \<open>crates/buzz-db/src/lib.rs\<close> and \<open>event.rs\<close>: the transactions that keep one head for a
  (kind, author, channel) or for an address (kind, author, d tag), the compact watermark of read
  states, and the deletion of an address. Each transaction holds an advisory lock on its key, so it
  is one step here; \<open>from_ts\<close> is \<open>DateTime::from_timestamp\<close>.
\<close>

section \<open>State\<close>

record watermark_row =
  wm_community :: community_id
  wm_kind :: kind
  wm_pubkey :: hex_string
  wm_d_tag :: string
  wm_created_at :: int
  wm_event_id :: hex_string

record head_db =
  hd_events :: event_db
  hd_watermarks :: "watermark_row list"

section \<open>Order\<close>

text \<open>The newest event is the head; within a second the lowest id.\<close>

definition head_key :: "event_row \<Rightarrow> int \<times> hex_string" where
  "head_key r = (- created_i64 r, ev_id (row_event r))"

definition outranked_by :: "int \<Rightarrow> hex_string \<Rightarrow> int \<Rightarrow> hex_string \<Rightarrow> bool" where
  "outranked_by created_at incoming_id accepted_ts accepted_id \<longleftrightarrow>
     created_at < accepted_ts \<or> created_at = accepted_ts \<and> accepted_id \<le> incoming_id"

definition stored_row :: "nat \<Rightarrow> community_id \<Rightarrow> event \<Rightarrow> uuid option \<Rightarrow> string option \<Rightarrow> int option \<Rightarrow> event_row" where
  "stored_row now c ev ch d nb =
     \<lparr>row_community = c, row_event = ev, row_received_at = now, row_channel = ch, row_deleted = False,
      row_d_tag = d, row_not_before = nb\<rparr>"

definition soft_delete_where :: "(event_row \<Rightarrow> bool) \<Rightarrow> event_row list \<Rightarrow> event_row list" where
  "soft_delete_where p rows = map (\<lambda>r. if p r then r\<lparr>row_deleted := True\<rparr> else r) rows"

text \<open>Mentions are indexed after the commit; a failure is only logged.\<close>

definition index_mentions :: "(int \<Rightarrow> int option) \<Rightarrow> community_id \<Rightarrow> event \<Rightarrow> event_db \<Rightarrow> event_db" where
  "index_mentions from_ts c ev db =
     (case insert_mentions from_ts c ev db of Ok db' \<Rightarrow> db' | Err _ \<Rightarrow> db)"

section \<open>Heads of a kind, an author and a channel\<close>

definition addressable_at :: "community_id \<Rightarrow> kind \<Rightarrow> hex_string \<Rightarrow> uuid option \<Rightarrow> event_row \<Rightarrow> bool" where
  "addressable_at c k pk ch r \<longleftrightarrow>
     row_community r = c \<and> ev_kind (row_event r) = k \<and> ev_pubkey (row_event r) = pk \<and> row_channel r = ch
     \<and> \<not> row_deleted r"

definition replace_addressable_event ::
    "(int \<Rightarrow> int option) \<Rightarrow> nat \<Rightarrow> community_id \<Rightarrow> event \<Rightarrow> uuid option \<Rightarrow> event_db
     \<Rightarrow> (db_error, (stored_event \<times> bool) \<times> event_db) result" where
  "replace_addressable_event from_ts now c ev ch db =
     (let ts = as_i64 (ev_created_at ev); at = addressable_at c (ev_kind ev) (ev_pubkey ev) ch;
          refused = ((stored_event_with_received_at ev now ch False, False), db) in
      case from_ts ts of
        None \<Rightarrow> Err (InvalidTimestamp ts)
      | Some _ \<Rightarrow>
          (let existing = min_by_key head_key (filter at (db_events db)) in
           if is_some_and (\<lambda>r. outranked_by ts (ev_id ev) (created_i64 r) (ev_id (row_event r))) existing then Ok refused
           else
             (let retired = soft_delete_where at (db_events db) in
              if list_ex (same_row_key c ev) retired then Ok refused
              else Ok ((stored_event_with_received_at ev now ch True, True),
                index_mentions from_ts c ev
                  (db\<lparr>db_events := retired @ [stored_row now c ev ch (extract_d_tag ev) None]\<rparr>)))))"

definition soft_delete_discovery_events ::
    "community_id \<Rightarrow> uuid \<Rightarrow> hex_string \<Rightarrow> event_db \<Rightarrow> nat \<times> event_db" where
  "soft_delete_discovery_events c ch relay_pubkey db =
     (let hit = (\<lambda>r. row_community r = c \<and> row_channel r = Some ch \<and> ev_pubkey (row_event r) = relay_pubkey
                  \<and> \<not> row_deleted r \<and> ev_kind (row_event r) \<in> {39000, 39001, 39002}) in
      (length (filter hit (db_events db)), db\<lparr>db_events := soft_delete_where hit (db_events db)\<rparr>))"

section \<open>Heads of an address\<close>

definition coordinate_at :: "community_id \<Rightarrow> kind \<Rightarrow> hex_string \<Rightarrow> string \<Rightarrow> event_row \<Rightarrow> bool" where
  "coordinate_at c k pk d r \<longleftrightarrow>
     row_community r = c \<and> ev_kind (row_event r) = k \<and> ev_pubkey (row_event r) = pk \<and> row_d_tag r = Some d
     \<and> \<not> row_deleted r"

definition is_lower_hex32 :: "string \<Rightarrow> bool" where
  "is_lower_hex32 slot \<longleftrightarrow>
     length slot = 32 \<and> list_all (\<lambda>b. is_hex_char b \<and> \<not> (65 \<le> (of_char b :: nat) \<and> (of_char b :: nat) \<le> 90)) slot"

definition is_nip_rs :: "event \<Rightarrow> string \<Rightarrow> bool" where
  "is_nip_rs ev d \<longleftrightarrow>
     ev_kind ev = KIND_READ_STATE
     \<and> length (filter (\<lambda>t. t \<noteq> [] \<and> t ! 0 = ''d'') (ev_tags ev)) = 1
     \<and> list_ex (\<lambda>t. 2 \<le> length t \<and> t ! 0 = ''d'' \<and> t ! 1 = d) (ev_tags ev)
     \<and> is_some_and is_lower_hex32 (strip_prefix d ''read-state:'')
     \<and> length (filter (\<lambda>t. t = [''t'', ''read-state'']) (ev_tags ev)) = 1"

definition is_buzz_mesh_status :: "event \<Rightarrow> string \<Rightarrow> bool" where
  "is_buzz_mesh_status ev d \<longleftrightarrow>
     ev_kind ev = KIND_BOOKMARK_SET \<and> starts_with d ''buzz-mesh-member-status:''
     \<and> list_ex (\<lambda>t. t = [''k'', ''buzz-mesh-status'']) (ev_tags ev)"

definition watermark_at :: "community_id \<Rightarrow> kind \<Rightarrow> hex_string \<Rightarrow> string \<Rightarrow> watermark_row \<Rightarrow> bool" where
  "watermark_at c k pk d w \<longleftrightarrow> wm_community w = c \<and> wm_kind w = k \<and> wm_pubkey w = pk \<and> wm_d_tag w = d"

definition set_watermark :: "watermark_row \<Rightarrow> watermark_row list \<Rightarrow> watermark_row list" where
  "set_watermark w ws =
     (let at = watermark_at (wm_community w) (wm_kind w) (wm_pubkey w) (wm_d_tag w) in
      if list_ex at ws then map (\<lambda>x. if at x then w else x) ws else ws @ [w])"

text \<open>A superseded payload is removed with its mentions, or kept as deleted history.\<close>

definition retire_head :: "bool \<Rightarrow> community_id \<Rightarrow> (event_row \<Rightarrow> bool) \<Rightarrow> event_row option \<Rightarrow> event_db \<Rightarrow> event_db" where
  "retire_head hard c at existing db =
     (case existing of
        None \<Rightarrow> db
      | Some old \<Rightarrow>
          if hard then
            db\<lparr>db_events := filter (\<lambda>r. \<not> at r) (db_events db),
               db_mentions := filter (\<lambda>(c', pk, i). \<not> (c' = c \<and> i = ev_id (row_event old))) (db_mentions db)\<rparr>
          else db\<lparr>db_events := soft_delete_where at (db_events db)\<rparr>)"

definition replace_parameterized_event ::
    "(int \<Rightarrow> int option) \<Rightarrow> nat \<Rightarrow> community_id \<Rightarrow> event \<Rightarrow> string \<Rightarrow> uuid option \<Rightarrow> head_db
     \<Rightarrow> (db_error, (stored_event \<times> bool) \<times> head_db) result" where
  "replace_parameterized_event from_ts now c ev d ch db =
     (let ts = as_i64 (ev_created_at ev); at = coordinate_at c (ev_kind ev) (ev_pubkey ev) d;
          nip_rs = is_nip_rs ev d; hard = nip_rs \<or> is_buzz_mesh_status ev d;
          refused = ((stored_event_with_received_at ev now ch False, False), db) in
      case from_ts ts of
        None \<Rightarrow> Err (InvalidTimestamp ts)
      | Some _ \<Rightarrow>
          (let existing = min_by_key head_key (filter at (db_events (hd_events db)));
               watermark = (if nip_rs then find (watermark_at c (ev_kind ev) (ev_pubkey ev) d) (hd_watermarks db) else None) in
           if is_some_and (\<lambda>r. outranked_by ts (ev_id ev) (created_i64 r) (ev_id (row_event r))) existing
              \<or> is_some_and (\<lambda>w. outranked_by ts (ev_id ev) (wm_created_at w) (wm_event_id w)) watermark
           then Ok refused
           else
             (let retired = retire_head hard c at existing (hd_events db) in
              if list_ex (same_row_key c ev) (db_events retired) then Ok refused
              else
                (let inserted = retired\<lparr>db_events := db_events retired
                       @ [stored_row now c ev ch (Some d) (extract_not_before ev)]\<rparr>;
                     marks = (if nip_rs
                       then set_watermark \<lparr>wm_community = c, wm_kind = ev_kind ev, wm_pubkey = ev_pubkey ev, wm_d_tag = d,
                              wm_created_at = ts, wm_event_id = ev_id ev\<rparr> (hd_watermarks db)
                       else hd_watermarks db) in
                 Ok ((stored_event_with_received_at ev now ch True, True),
                     \<lparr>hd_events = index_mentions from_ts c ev inserted, hd_watermarks = marks\<rparr>)))))"

text \<open>
  The deletion of an address. The trigger of migration 0011 removes a read state that becomes
  deleted, with its mentions.
\<close>

definition purges :: "event_row \<Rightarrow> bool" where
  "purges r \<longleftrightarrow> is_some_and (is_nip_rs (row_event r)) (row_d_tag r)"

definition soft_delete_by_coordinate ::
    "community_id \<Rightarrow> kind \<Rightarrow> hex_string \<Rightarrow> string \<Rightarrow> event_db \<Rightarrow> bool \<times> event_db" where
  "soft_delete_by_coordinate c k pk d db =
     (let at = coordinate_at c k pk d; purged = filter (\<lambda>r. at r \<and> purges r) (db_events db) in
      (list_ex at (db_events db),
       db\<lparr>db_events := soft_delete_where at (filter (\<lambda>r. \<not> (at r \<and> purges r)) (db_events db)),
          db_mentions := filter (\<lambda>(c', pk', i). \<not> (c' = c \<and> i \<in> set (map (\<lambda>r. ev_id (row_event r)) purged)))
            (db_mentions db)\<rparr>))"

end
