(* ===== verification/Replaceable_Laws.thy ===== *)
theory Replaceable_Laws
  imports Replaceable
begin

text \<open>
  Replaceable events: the heads of the addresses depend on which events arrived and not on their
  order, and a read state never rolls back.
\<close>

section \<open>Keys\<close>

definition event_key :: "event \<Rightarrow> int \<times> hex_string" where
  "event_key ev = (- as_i64 (ev_created_at ev), ev_id ev)"

lemma outranked_iff:
  "outranked_by (as_i64 (ev_created_at ev)) (ev_id ev) ts i \<longleftrightarrow> (- ts, i) \<le> event_key ev"
  by (auto simp: outranked_by_def event_key_def less_eq_prod_def)

lemma head_key_event: "head_key r = event_key (row_event r)"
  by (simp add: head_key_def event_key_def created_i64_def)

lemma min_by_key_snoc:
  fixes f :: "'a \<Rightarrow> 'k::linorder"
  shows "min_by_key f (xs @ [y]) =
     (case min_by_key f xs of None \<Rightarrow> Some y | Some x \<Rightarrow> if f y < f x then Some y else Some x)"
  by (induction xs) (auto split: option.splits)

lemma index_mentions_events [simp]: "db_events (index_mentions from_ts c ev db) = db_events db"
  by (auto simp: index_mentions_def insert_mentions_def Let_def split: option.splits result.splits if_splits)

definition address :: "event \<Rightarrow> string" where
  "address ev = unwrap_or [] (extract_d_tag ev)"

definition at_address :: "kind \<Rightarrow> hex_string \<Rightarrow> string \<Rightarrow> event \<Rightarrow> bool" where
  "at_address k pk d ev \<longleftrightarrow> ev_kind ev = k \<and> ev_pubkey ev = pk \<and> address ev = d"

text \<open>A submission: when it arrives, the event and the channel it is stored with.\<close>

type_synonym submission = "nat \<times> event \<times> uuid option"

definition submit :: "(int \<Rightarrow> int option) \<Rightarrow> community_id \<Rightarrow> submission \<Rightarrow> head_db \<Rightarrow> head_db" where
  "submit from_ts c = (\<lambda>(now, ev, ch) db.
     case replace_parameterized_event from_ts now c ev (address ev) ch db of Ok (_, db') \<Rightarrow> db' | Err _ \<Rightarrow> db)"

definition heads :: "community_id \<Rightarrow> kind \<Rightarrow> hex_string \<Rightarrow> string \<Rightarrow> head_db \<Rightarrow> event list" where
  "heads c k pk d db = map row_event (filter (coordinate_at c k pk d) (db_events (hd_events db)))"

definition newest :: "event list \<Rightarrow> event list" where
  "newest evs = (case min_by_key event_key evs of None \<Rightarrow> [] | Some ev \<Rightarrow> [ev])"

section \<open>One submission\<close>

lemma filter_soft_delete:
  assumes "\<And>r. p r \<Longrightarrow> q r \<Longrightarrow> False" and "\<And>r. \<not> q (r\<lparr>row_deleted := True\<rparr>)"
  shows "filter q (soft_delete_where p rows) = filter q rows"
  using assms by (induction rows) (auto simp: soft_delete_where_def)

lemma filter_soft_deleted:
  assumes "\<And>r. \<not> p (r\<lparr>row_deleted := True\<rparr>)"
  shows "filter p (soft_delete_where p rows) = []"
  using assms by (induction rows) (auto simp: soft_delete_where_def)

lemma coordinate_deleted [simp]: "\<not> coordinate_at c k pk d (r\<lparr>row_deleted := True\<rparr>)"
  by (simp add: coordinate_at_def)

lemma coordinate_other:
  "coordinate_at c k pk d r \<Longrightarrow> coordinate_at c k' pk' d' r \<Longrightarrow> (k', pk', d') = (k, pk, d)"
  by (auto simp: coordinate_at_def)

lemma retired_same:
  "filter (coordinate_at c k pk d)
     (db_events (retire_head hard c (coordinate_at c k pk d) (min_by_key head_key (filter (coordinate_at c k pk d) (db_events db))) db)) = []"
  by (cases "filter (coordinate_at c k pk d) (db_events db) = []")
    (auto simp: retire_head_def filter_soft_deleted split: option.splits)

lemma retired_other:
  assumes "(k', pk', d') \<noteq> (k, pk, d)"
  shows "filter (coordinate_at c k' pk' d') (db_events (retire_head hard c (coordinate_at c k pk d) e db))
    = filter (coordinate_at c k' pk' d') (db_events db)"
proof -
  have no: "coordinate_at c k pk d r \<Longrightarrow> coordinate_at c k' pk' d' r \<Longrightarrow> False" for r
    using assms coordinate_other by blast
  have "filter (coordinate_at c k' pk' d') (filter (\<lambda>r. \<not> coordinate_at c k pk d r) rows)
      = filter (coordinate_at c k' pk' d') rows" for rows
    using no by (induction rows) auto
  moreover have "filter (coordinate_at c k' pk' d') (soft_delete_where (coordinate_at c k pk d) rows)
      = filter (coordinate_at c k' pk' d') rows" for rows
    by (rule filter_soft_delete) (use no in auto)
  ultimately show ?thesis by (auto simp: retire_head_def split: option.splits)
qed

lemma retired_rows:
  "r \<in> set (db_events (retire_head hard c at e db)) \<Longrightarrow>
     \<exists>r' \<in> set (db_events db). row_community r = row_community r' \<and> row_event r = row_event r' \<and> row_d_tag r = row_d_tag r'"
  by (auto simp: retire_head_def soft_delete_where_def split: option.splits if_splits)

text \<open>
  The state after some submissions: every row and watermark comes from one of them, and the live
  rows of an address are its newest event.
\<close>

definition heads_inv :: "community_id \<Rightarrow> event list \<Rightarrow> head_db \<Rightarrow> bool" where
  "heads_inv c evs db \<longleftrightarrow>
     (\<forall>r \<in> set (db_events (hd_events db)). row_event r \<in> set evs \<and> row_d_tag r = Some (address (row_event r)))
     \<and> (\<forall>w \<in> set (hd_watermarks db). \<exists>ev \<in> set evs. at_address (wm_kind w) (wm_pubkey w) (wm_d_tag w) ev
          \<and> event_key ev = (- wm_created_at w, wm_event_id w))
     \<and> (\<forall>k pk d. heads c k pk d db = newest (filter (at_address k pk d) evs))"

lemma newest_snoc_refused:
  assumes "x \<in> set evs" "event_key x \<le> event_key ev"
  shows "newest (evs @ [ev]) = newest evs"
proof -
  obtain y where y: "min_by_key event_key evs = Some y" using assms(1) by (cases "min_by_key event_key evs") auto
  with min_by_key_Some [OF y] assms have "event_key y \<le> event_key ev" by auto
  with y show ?thesis by (simp add: newest_def min_by_key_snoc)
qed

lemma newest_snoc_accepted:
  assumes "\<And>x. x \<in> set evs \<Longrightarrow> event_key ev < event_key x"
  shows "newest (evs @ [ev]) = [ev]"
  using assms min_by_key_Some [of event_key evs]
  by (auto simp: newest_def min_by_key_snoc split: option.splits)

lemma watermark_replaced:
  "w' \<in> set (set_watermark w ws) \<Longrightarrow> w' = w \<or> w' \<in> set ws"
  by (auto simp: set_watermark_def Let_def split: if_splits)

lemma submit_keeps:
  assumes inv: "heads_inv c evs db" and ids: "\<And>x. x \<in> set evs \<Longrightarrow> ev_id x = ev_id ev \<Longrightarrow> x = ev"
    and ts: "from_ts (as_i64 (ev_created_at ev)) \<noteq> None"
  shows "heads_inv c (evs @ [ev]) (submit from_ts c (now, ev, ch) db)"
proof -
  let ?k = "ev_kind ev" and ?pk = "ev_pubkey ev" and ?d = "address ev"
  let ?at = "coordinate_at c ?k ?pk ?d" and ?here = "filter (at_address ?k ?pk ?d) evs"
  let ?existing = "min_by_key head_key (filter ?at (db_events (hd_events db)))"
  have rows: "row_event r \<in> set evs \<and> row_d_tag r = Some (address (row_event r))"
    if "r \<in> set (db_events (hd_events db))" for r
    using inv that by (auto simp: heads_inv_def)
  have marks: "\<exists>x \<in> set evs. at_address (wm_kind w) (wm_pubkey w) (wm_d_tag w) x \<and> event_key x = (- wm_created_at w, wm_event_id w)"
    if "w \<in> set (hd_watermarks db)" for w
    using inv that by (auto simp: heads_inv_def)
  have live: "heads c k pk d db = newest (filter (at_address k pk d) evs)" for k pk d
    using inv by (auto simp: heads_inv_def)
  have at: "at_address ?k ?pk ?d ev" by (simp add: at_address_def)
  have filter_snoc: "filter (at_address k pk d) (evs @ [ev])
      = (if (k, pk, d) = (?k, ?pk, ?d) then ?here @ [ev] else filter (at_address k pk d) evs)" for k pk d
    by (auto simp: at_address_def)
  have refused: "heads_inv c (evs @ [ev]) db" if "x \<in> set ?here" "event_key x \<le> event_key ev" for x
    using rows marks live newest_snoc_refused [OF that] unfolding heads_inv_def filter_snoc by fastforce
  let ?dom = "is_some_and (\<lambda>r. outranked_by (as_i64 (ev_created_at ev)) (ev_id ev) (created_i64 r) (ev_id (row_event r))) ?existing"
  let ?mark = "if is_nip_rs ev ?d then find (watermark_at c ?k ?pk ?d) (hd_watermarks db) else None"
  let ?wdom = "is_some_and (\<lambda>w. outranked_by (as_i64 (ev_created_at ev)) (ev_id ev) (wm_created_at w) (wm_event_id w)) ?mark"
  have heads_here: "map row_event (filter ?at (db_events (hd_events db))) = newest ?here"
    using live [of ?k ?pk ?d] by (simp add: heads_def)
  show ?thesis
  proof (cases "?dom \<or> ?wdom")
    case True
    then have same: "submit from_ts c (now, ev, ch) db = db"
      using ts by (auto simp: submit_def replace_parameterized_event_def Let_def split: option.splits)
    have "\<exists>x \<in> set ?here. event_key x \<le> event_key ev"
      using True
    proof
      assume ?dom
      then obtain r where r: "?existing = Some r" "event_key (row_event r) \<le> event_key ev"
        by (auto simp: is_some_and_def outranked_iff head_key_event [symmetric] head_key_def split: option.splits)
      with min_by_key_Some [OF r(1)] have "r \<in> set (filter ?at (db_events (hd_events db)))" by blast
      with rows r(2) show ?thesis
        by (intro bexI [of _ "row_event r"]) (auto simp: at_address_def coordinate_at_def)
    next
      assume ?wdom
      then obtain w where w: "find (watermark_at c ?k ?pk ?d) (hd_watermarks db) = Some w"
        "(- wm_created_at w, wm_event_id w) \<le> event_key ev"
        by (auto simp: is_some_and_def outranked_iff split: option.splits if_splits)
      then have "w \<in> set (hd_watermarks db)" "watermark_at c ?k ?pk ?d w" by (auto simp: find_Some_iff)
      with marks [of w] w(2) show ?thesis by (auto simp: watermark_at_def)
    qed
    with refused show ?thesis unfolding same by blast
  next
    case False
    have newer: "event_key ev < event_key x" if "x \<in> set ?here" for x
    proof (rule ccontr)
      assume not: "\<not> event_key ev < event_key x"
      have "?here \<noteq> []" using that by force
      then obtain y where y: "min_by_key event_key ?here = Some y" by (cases "min_by_key event_key ?here") auto
      with heads_here obtain r where r: "filter ?at (db_events (hd_events db)) = [r]" "row_event r = y"
        by (auto simp: newest_def)
      have "event_key y \<le> event_key ev" using not min_by_key_Some [OF y] that by force
      with r False show False
        by (simp add: is_some_and_def outranked_iff head_key_event [symmetric] head_key_def created_i64_def event_key_def)
    qed
    let ?hard = "is_nip_rs ev ?d \<or> is_buzz_mesh_status ev ?d"
    let ?retired = "retire_head ?hard c ?at ?existing (hd_events db)"
    have "ev \<notin> set evs" using newer at by force
    then have fresh: "\<not> list_ex (same_row_key c ev) (db_events ?retired)"
      using retired_rows rows ids by (fastforce simp: list_ex_iff same_row_key_def)
    let ?row = "stored_row now c ev ch (Some ?d) (extract_not_before ev)"
    let ?wm = "\<lparr>wm_community = c, wm_kind = ?k, wm_pubkey = ?pk, wm_d_tag = ?d,
        wm_created_at = as_i64 (ev_created_at ev), wm_event_id = ev_id ev\<rparr>"
    let ?marks = "if is_nip_rs ev ?d then set_watermark ?wm (hd_watermarks db) else hd_watermarks db"
    define db' where "db' = \<lparr>hd_events = index_mentions from_ts c ev (?retired\<lparr>db_events := db_events ?retired @ [?row]\<rparr>),
        hd_watermarks = ?marks\<rparr>"
    have db': "submit from_ts c (now, ev, ch) db = db'"
      using ts False fresh by (auto simp: submit_def replace_parameterized_event_def Let_def db'_def split: option.splits)
    have events: "db_events (hd_events db') = db_events ?retired @ [?row]" by (simp add: db'_def)
    have wms: "w \<in> set (hd_watermarks db) \<or> w = ?wm" if "w \<in> set (hd_watermarks db')" for w
      using that watermark_replaced [of w ?wm "hd_watermarks db"] by (auto simp: db'_def split: if_splits)
    have row: "row_event ?row = ev" "row_d_tag ?row = Some (address ev)" "?at ?row"
      "coordinate_at c k pk d ?row \<longleftrightarrow> (k, pk, d) = (?k, ?pk, ?d)" for k pk d
      by (auto simp: stored_row_def coordinate_at_def)
    have "heads c k pk d db' = newest (filter (at_address k pk d) (evs @ [ev]))" for k pk d
    proof (cases "(k, pk, d) = (?k, ?pk, ?d)")
      case True
      then show ?thesis
        using newest_snoc_accepted [of ?here ev] newer retired_same [of c ?k ?pk ?d ?hard "hd_events db"]
        unfolding filter_snoc heads_def events by (auto simp: row)
    next
      case False
      then show ?thesis
        using live [of k pk d] retired_other [OF False, of c ?hard ?existing "hd_events db"]
        unfolding filter_snoc heads_def events by (auto simp: row)
    qed
    moreover have "row_event r \<in> set (evs @ [ev]) \<and> row_d_tag r = Some (address (row_event r))"
      if "r \<in> set (db_events (hd_events db'))" for r
      using that retired_rows [of r ?hard c ?at ?existing "hd_events db"] rows by (fastforce simp: events row)
    moreover have "\<exists>x \<in> set (evs @ [ev]). at_address (wm_kind w) (wm_pubkey w) (wm_d_tag w) x
        \<and> event_key x = (- wm_created_at w, wm_event_id w)" if "w \<in> set (hd_watermarks db')" for w
      using wms [OF that] marks [of w] at by (fastforce simp: event_key_def)
    ultimately show ?thesis unfolding db' heads_inv_def by blast
  qed
qed

lemma submissions_keep:
  assumes "heads_inv c evs db" and "inj_on ev_id (set (evs @ map (\<lambda>(now, ev, ch). ev) inbox))"
    and "\<And>now ev ch. (now, ev, ch) \<in> set inbox \<Longrightarrow> from_ts (as_i64 (ev_created_at ev)) \<noteq> None"
  shows "heads_inv c (evs @ map (\<lambda>(now, ev, ch). ev) inbox) (fold (submit from_ts c) inbox db)"
  using assms
proof (induction inbox arbitrary: evs db)
  case (Cons s inbox)
  obtain now ev ch where s: "s = (now, ev, ch)" by (cases s)
  have "heads_inv c (evs @ [ev]) (submit from_ts c s db)"
    using Cons.prems unfolding s by (intro submit_keeps) (auto simp: inj_on_def)
  moreover have "inj_on ev_id (set ((evs @ [ev]) @ map (\<lambda>(now, ev, ch). ev) inbox))"
    using Cons.prems(2) by (simp add: s)
  moreover have "from_ts (as_i64 (ev_created_at x)) \<noteq> None" if "(t, x, h) \<in> set inbox" for t x h
    using Cons.prems(3) [of t x h] that by simp
  ultimately have "heads_inv c ((evs @ [ev]) @ map (\<lambda>(now, ev, ch). ev) inbox) (fold (submit from_ts c) inbox (submit from_ts c s db))"
    by (rule Cons.IH)
  then show ?case by (simp add: s)
qed simp

lemma newest_set:
  assumes "set xs = set ys" "inj_on ev_id (set xs)"
  shows "newest xs = newest ys"
proof (cases "xs = []")
  case False
  with assms(1) have "ys \<noteq> []" by auto
  with False obtain x y where xy: "min_by_key event_key xs = Some x" "min_by_key event_key ys = Some y"
    by (cases "min_by_key event_key xs"; cases "min_by_key event_key ys") auto
  with min_by_key_Some [OF xy(1)] min_by_key_Some [OF xy(2)] assms(1) have "event_key x = event_key y" "x \<in> set xs" "y \<in> set xs"
    by (auto intro: antisym)
  with assms(2) have "x = y" by (auto simp: event_key_def inj_on_def)
  with xy show ?thesis by (simp add: newest_def)
qed (use assms in simp)


definition sent :: "submission list \<Rightarrow> event list" where
  "sent inbox = map (\<lambda>(now, ev, ch). ev) inbox"


section \<open>Read states\<close>

text \<open>
  The accepted read states of a run in which anything else may happen to the events, such as
  deletions: the watermarks only change when a read state is accepted.
\<close>

inductive read_states_reach ::
    "(int \<Rightarrow> int option) \<Rightarrow> head_db \<Rightarrow> (community_id \<times> string \<times> event) list \<Rightarrow> bool" for from_ts :: "int \<Rightarrow> int option" where
  no_watermarks: "hd_watermarks db = [] \<Longrightarrow> read_states_reach from_ts db []"
| replaced: "read_states_reach from_ts db acc
    \<Longrightarrow> replace_parameterized_event from_ts now c ev d ch db = Ok ((stored, accepted), db')
    \<Longrightarrow> read_states_reach from_ts db' (if accepted \<and> is_nip_rs ev d then (c, d, ev) # acc else acc)"
| address_deleted: "read_states_reach from_ts db acc
    \<Longrightarrow> read_states_reach from_ts (db\<lparr>hd_events := snd (soft_delete_by_coordinate c k pk d (hd_events db))\<rparr>) acc"
| events_changed: "read_states_reach from_ts db acc \<Longrightarrow> read_states_reach from_ts (db\<lparr>hd_events := evs\<rparr>) acc"

definition marks_newest :: "head_db \<Rightarrow> (community_id \<times> string \<times> event) list \<Rightarrow> bool" where
  "marks_newest db acc \<longleftrightarrow>
     (\<forall>(c, d, ev) \<in> set acc. \<exists>w. find (watermark_at c (ev_kind ev) (ev_pubkey ev) d) (hd_watermarks db) = Some w
        \<and> (- wm_created_at w, wm_event_id w) \<le> event_key ev)"

lemma find_set_watermark:
  "find (watermark_at c k pk d) (set_watermark w ws) =
     (if watermark_at c k pk d w then Some w else find (watermark_at c k pk d) ws)"
proof -
  have replace: "find (watermark_at c k pk d) (map (\<lambda>x. if at x then w else x) ws)
      = (if watermark_at c k pk d w then Some w else find (watermark_at c k pk d) ws)"
    if "at = watermark_at (wm_community w) (wm_kind w) (wm_pubkey w) (wm_d_tag w)" "list_ex at ws" for at
  proof -
    have kept: "find (watermark_at c k pk d) (map (\<lambda>x. if at x then w else x) ws) = find (watermark_at c k pk d) ws"
      if "\<not> watermark_at c k pk d w" for ws
      using that \<open>at = _\<close> by (induction ws) (auto simp: watermark_at_def)
    have found: "find (watermark_at c k pk d) (map (\<lambda>x. if at x then w else x) ws) = Some w"
      if "watermark_at c k pk d w" "list_ex at ws" for ws
    proof -
      have "at = watermark_at c k pk d" using that(1) \<open>at = _\<close> by (auto simp: watermark_at_def)
      with that show ?thesis by (induction ws) auto
    qed
    show ?thesis using kept found that(2) by simp
  qed
  have append: "find p (ws @ [w]) = (case find p ws of None \<Rightarrow> if p w then Some w else None | Some x \<Rightarrow> Some x)" for p
    by (induction ws) auto
  have none: "find (watermark_at c k pk d) ws = None"
    if "watermark_at c k pk d w" "\<not> list_ex (watermark_at (wm_community w) (wm_kind w) (wm_pubkey w) (wm_d_tag w)) ws"
    using that by (auto simp: find_None_iff list_ex_iff watermark_at_def)
  let ?own = "watermark_at (wm_community w) (wm_kind w) (wm_pubkey w) (wm_d_tag w)"
  show ?thesis
  proof (cases "list_ex ?own ws")
    case True
    with replace [OF refl True] show ?thesis by (simp add: set_watermark_def Let_def)
  next
    case False
    with none show ?thesis
      by (cases "watermark_at c k pk d w") (simp_all add: set_watermark_def append split: option.splits)
  qed
qed

lemma accepted_read_state:
  assumes "replace_parameterized_event from_ts now c ev d ch db = Ok ((stored, True), db')"
  shows "hd_watermarks db' = (if is_nip_rs ev d
      then set_watermark \<lparr>wm_community = c, wm_kind = ev_kind ev, wm_pubkey = ev_pubkey ev, wm_d_tag = d,
             wm_created_at = as_i64 (ev_created_at ev), wm_event_id = ev_id ev\<rparr> (hd_watermarks db)
      else hd_watermarks db)"
    and "is_nip_rs ev d \<Longrightarrow> find (watermark_at c (ev_kind ev) (ev_pubkey ev) d) (hd_watermarks db) = Some w
      \<Longrightarrow> event_key ev < (- wm_created_at w, wm_event_id w)"
  using assms
  by (auto simp: replace_parameterized_event_def Let_def is_some_and_def outranked_iff not_le split: option.splits if_splits)

lemma refused_read_state:
  "replace_parameterized_event from_ts now c ev d ch db = Ok ((stored, False), db') \<Longrightarrow> db' = db"
  by (auto simp: replace_parameterized_event_def Let_def split: option.splits if_splits)

lemma watermarks_newest:
  assumes "read_states_reach from_ts db acc"
  shows "marks_newest db acc"
  using assms
proof induction
  case (replaced db acc now c ev d ch stored accepted db')
  show ?case
  proof (cases accepted)
    case True
    have "replace_parameterized_event from_ts now c ev d ch db = Ok ((stored, True), db')"
      using replaced.hyps(2) True by simp
    note a = accepted_read_state [OF this]
    show ?thesis
    proof (cases "is_nip_rs ev d")
      case nip: True
      have "\<exists>w. find (watermark_at c' (ev_kind x) (ev_pubkey x) d') (hd_watermarks db') = Some w
          \<and> (- wm_created_at w, wm_event_id w) \<le> event_key x"
        if "(c', d', x) \<in> set ((c, d, ev) # acc)" for c' d' x
      proof (cases "(c', ev_kind x, ev_pubkey x, d') = (c, ev_kind ev, ev_pubkey ev, d)")
        case here: True
        then have "event_key ev \<le> event_key x"
          using that replaced.IH a(2) [OF nip] by (auto simp: marks_newest_def dest: order.strict_implies_order order.strict_trans1)
        with here nip show ?thesis
          by (auto simp: a(1) find_set_watermark watermark_at_def event_key_def)
      next
        case False
        then have "(c', d', x) \<in> set acc" using that by auto
        with False nip replaced.IH show ?thesis
          by (auto simp: a(1) find_set_watermark watermark_at_def marks_newest_def)
      qed
      with True nip show ?thesis by (auto simp: marks_newest_def)
    qed (use True replaced.IH a(1) in \<open>simp add: marks_newest_def\<close>)
  next
    case False
    then show ?thesis using replaced refused_read_state by fastforce
  qed
qed (auto simp: marks_newest_def)

text \<open>
  C18. A read state that is accepted is newer than every read state accepted before at its address,
  whatever was deleted in between: a deletion or a removal of the payload never lets an older signed
  blob come back.
\<close>

theorem read_states_never_roll_back:
  assumes "read_states_reach from_ts db acc"
    and "replace_parameterized_event from_ts now c ev d ch db = Ok ((stored, True), db')" and "is_nip_rs ev d"
    and "(c, d, old) \<in> set acc" and "ev_pubkey old = ev_pubkey ev" and "ev_kind old = ev_kind ev"
  shows "event_key ev < event_key old"
proof -
  obtain w where w: "find (watermark_at c (ev_kind ev) (ev_pubkey ev) d) (hd_watermarks db) = Some w"
    "(- wm_created_at w, wm_event_id w) \<le> event_key old"
    using watermarks_newest [OF assms(1)] assms(4-6) by (auto simp: marks_newest_def)
  show ?thesis using accepted_read_state(2) [OF assms(2,3) w(1)] w(2) by (rule order.strict_trans2)
qed


section \<open>Examples\<close>

definition slot :: string where
  "slot = ''read-state:00000000000000000000000000000000''"

definition read_state :: "hex_string \<Rightarrow> nat \<Rightarrow> event" where
  "read_state i ts =
     \<lparr>ev_id = i, ev_pubkey = ''p'', ev_created_at = ts, ev_kind = KIND_READ_STATE,
      ev_tags = [[''d'', slot], [''t'', ''read-state'']], ev_content = []\<rparr>"

definition no_heads :: head_db where
  "no_heads = \<lparr>hd_events = \<lparr>db_events = [], db_mentions = []\<rparr>, hd_watermarks = []\<rparr>"

lemma sample_read_state [simp]: "is_nip_rs (read_state i ts) slot"
proof -
  have "is_some_and is_lower_hex32 (strip_prefix slot ''read-state:'')" by code_simp
  then show ?thesis by (simp add: is_nip_rs_def read_state_def)
qed

lemma sample_address [simp]: "address (read_state i ts) = slot"
  by (simp add: address_def read_state_def extract_d_tag_def is_parameterized_replaceable_def KIND_READ_STATE_def
      PARAM_REPLACEABLE_KIND_MIN_def PARAM_REPLACEABLE_KIND_MAX_def tag_second_def unwrap_or_def)


lemma sample_head_accepted:
  assumes "hd_watermarks db = [] \<and> db_events (hd_events db) = []"
  shows "\<exists>stored. replace_parameterized_event Some 9 1 (read_state ''a'' 5) slot None db
    = Ok ((stored, True), \<lparr>hd_events = \<lparr>db_events = [stored_row 9 1 (read_state ''a'' 5) None (Some slot) None],
        db_mentions = db_mentions (hd_events db)\<rparr>,
        hd_watermarks = [\<lparr>wm_community = 1, wm_kind = KIND_READ_STATE, wm_pubkey = ''p'', wm_d_tag = slot,
          wm_created_at = 5, wm_event_id = ''a''\<rparr>]\<rparr>)"
proof -
  have fields: "ev_kind (read_state i ts) = KIND_READ_STATE" "ev_pubkey (read_state i ts) = ''p''" "ev_id (read_state i ts) = i"
    "ev_created_at (read_state i ts) = ts" "extract_not_before (read_state i ts) = None" for i ts
    by (simp_all add: read_state_def extract_not_before_def KIND_READ_STATE_def KIND_EVENT_REMINDER_def)
  have mentions: "index_mentions Some c (read_state i ts) e = e" for c i ts e
    by (simp add: index_mentions_def insert_mentions_def read_state_def map_filter_def tag_second_def)
  have event_db_eq: "(e :: event_db) = \<lparr>db_events = db_events e, db_mentions = db_mentions e\<rparr>" for e by simp
  show ?thesis
    using assms
    by (cases "hd_events db")
      (simp add: replace_parameterized_event_def Let_def fields as_i64_def is_some_and_def retire_head_def mentions set_watermark_def)
qed


lemma sample_newer:
  "\<exists>stored db'. replace_parameterized_event Some 12 1 (read_state ''b'' 7) slot None
     \<lparr>hd_events = \<lparr>db_events = [], db_mentions = []\<rparr>,
      hd_watermarks = [\<lparr>wm_community = 1, wm_kind = KIND_READ_STATE, wm_pubkey = ''p'', wm_d_tag = slot,
          wm_created_at = 5, wm_event_id = ''a''\<rparr>]\<rparr> = Ok ((stored, True), db')"
proof -
  have fields: "ev_kind (read_state i ts) = KIND_READ_STATE" "ev_pubkey (read_state i ts) = ''p''" "ev_id (read_state i ts) = i"
    "ev_created_at (read_state i ts) = ts" for i ts
    by (simp_all add: read_state_def)
  show ?thesis
    by (simp add: replace_parameterized_event_def Let_def fields as_i64_def is_some_and_def retire_head_def
        watermark_at_def outranked_by_def)
qed

theorem read_states_never_roll_back_witness:
  "event_key (read_state ''b'' 7) < event_key (read_state ''a'' 5)"
proof -
  obtain stored where s: "replace_parameterized_event Some 9 1 (read_state ''a'' 5) slot None no_heads
      = Ok ((stored, True), \<lparr>hd_events = \<lparr>db_events = [stored_row 9 1 (read_state ''a'' 5) None (Some slot) None],
          db_mentions = []\<rparr>,
        hd_watermarks = [\<lparr>wm_community = 1, wm_kind = KIND_READ_STATE, wm_pubkey = ''p'', wm_d_tag = slot,
          wm_created_at = 5, wm_event_id = ''a''\<rparr>]\<rparr>)"
    using sample_head_accepted [of no_heads] by (auto simp: no_heads_def)
  have "read_states_reach Some no_heads []" by (rule no_watermarks) (simp add: no_heads_def)
  from events_changed [OF replaced [OF this s], of "\<lparr>db_events = [], db_mentions = []\<rparr>"]
  have reach: "read_states_reach Some \<lparr>hd_events = \<lparr>db_events = [], db_mentions = []\<rparr>,
      hd_watermarks = [\<lparr>wm_community = 1, wm_kind = KIND_READ_STATE, wm_pubkey = ''p'', wm_d_tag = slot,
          wm_created_at = 5, wm_event_id = ''a''\<rparr>]\<rparr> [(1, slot, read_state ''a'' 5)]"
    by simp
  obtain stored' db' where new: "replace_parameterized_event Some 12 1 (read_state ''b'' 7) slot None
     \<lparr>hd_events = \<lparr>db_events = [], db_mentions = []\<rparr>,
      hd_watermarks = [\<lparr>wm_community = 1, wm_kind = KIND_READ_STATE, wm_pubkey = ''p'', wm_d_tag = slot,
          wm_created_at = 5, wm_event_id = ''a''\<rparr>]\<rparr> = Ok ((stored', True), db')"
    using sample_newer by auto
  show ?thesis
    by (rule read_states_never_roll_back [OF reach new sample_read_state, where old = "read_state ''a'' 5"])
      (simp_all add: read_state_def)
qed

section \<open>Mesh status\<close>

text \<open>
  A superseded mesh status is removed without a watermark: once its successor has been deleted by
  address, submitting the old signed event again makes it the live head of the address.
\<close>

lemma deleted_mesh_status_returns:
  assumes "is_buzz_mesh_status old d" and "is_buzz_mesh_status new d"
    and "ev_pubkey new = ev_pubkey old" and "event_key new < event_key old" and "\<And>t. from_ts t \<noteq> None"
    and "address old = d" and "address new = d"
    and "db1 = submit from_ts c (t2, new, ch) (submit from_ts c (t1, old, ch) no_heads)"
    and "db2 = db1\<lparr>hd_events := snd (soft_delete_by_coordinate c (ev_kind old) (ev_pubkey old) d (hd_events db1))\<rparr>"
  shows "heads c (ev_kind old) (ev_pubkey old) d db2 = []
     \<and> heads c (ev_kind old) (ev_pubkey old) d (submit from_ts c (t3, old, ch) db2) = [old]"
proof -
  have kind: "ev_kind old = KIND_BOOKMARK_SET" "ev_kind new = KIND_BOOKMARK_SET"
    using assms(1,2) by (auto simp: is_buzz_mesh_status_def)
  have no_rs: "\<not> is_nip_rs old d" "\<not> is_nip_rs new d"
    using kind by (auto simp: is_nip_rs_def KIND_BOOKMARK_SET_def KIND_READ_STATE_def)
  have some: "\<exists>x. from_ts t = Some x" for t using assms(5) by auto
  have ids: "ev_id old \<noteq> ev_id new \<or> ev_created_at old \<noteq> ev_created_at new"
    using assms(4) by (auto simp: event_key_def)
  have newer: "\<not> outranked_by (as_i64 (ev_created_at new)) (ev_id new) (as_i64 (ev_created_at old)) (ev_id old)"
    using assms(4) by (simp add: outranked_iff event_key_def [of old, symmetric] not_le)
  let ?row = "\<lambda>t ev. stored_row t c ev ch (Some d) (extract_not_before ev)"
  have row: "row_event (?row t ev) = ev" "row_community (?row t ev) = c" "row_d_tag (?row t ev) = Some d"
    "\<not> row_deleted (?row t ev)" "created_i64 (?row t ev) = as_i64 (ev_created_at ev)"
    "same_row_key c x (?row t ev) \<longleftrightarrow> ev_created_at ev = ev_created_at x \<and> ev_id ev = ev_id x"
    "same_row_key c x (?row t ev\<lparr>row_deleted := True\<rparr>) \<longleftrightarrow> ev_created_at ev = ev_created_at x \<and> ev_id ev = ev_id x"
    "coordinate_at c (ev_kind old) (ev_pubkey old) d (?row t ev)
       \<longleftrightarrow> ev_kind ev = ev_kind old \<and> ev_pubkey ev = ev_pubkey old" for t ev x
    by (auto simp: stored_row_def created_i64_def same_row_key_def coordinate_at_def)
  have insert: "\<exists>m. submit from_ts c (t, ev, ch) \<lparr>hd_events = \<lparr>db_events = rows, db_mentions = ms\<rparr>, hd_watermarks = []\<rparr>
      = \<lparr>hd_events = \<lparr>db_events = [r \<leftarrow> rows. \<not> coordinate_at c (ev_kind old) (ev_pubkey old) d r] @ [?row t ev], db_mentions = m\<rparr>,
         hd_watermarks = []\<rparr>"
    if "ev = old \<or> ev = new" "\<not> list_ex (same_row_key c ev) rows"
      "\<And>r. r \<in> set rows \<Longrightarrow> coordinate_at c (ev_kind old) (ev_pubkey old) d r
        \<Longrightarrow> \<not> outranked_by (as_i64 (ev_created_at ev)) (ev_id ev) (created_i64 r) (ev_id (row_event r))" for t ev rows ms
  proof -
    have ev: "address ev = d" "\<not> is_nip_rs ev d" "is_buzz_mesh_status ev d" "ev_kind ev = ev_kind old" "ev_pubkey ev = ev_pubkey old"
      using that(1) assms(1-3,6,7) no_rs kind by auto
    let ?at = "coordinate_at c (ev_kind old) (ev_pubkey old) d"
    have dom: "\<not> is_some_and (\<lambda>r. outranked_by (as_i64 (ev_created_at ev)) (ev_id ev) (created_i64 r) (ev_id (row_event r)))
        (min_by_key head_key (filter ?at rows))"
    proof (cases "min_by_key head_key (filter ?at rows)")
      case (Some r)
      with min_by_key_Some [OF Some] that(3) [of r] show ?thesis by (simp add: is_some_and_def)
    qed (simp add: is_some_and_def)
    have kept: "filter (\<lambda>r. \<not> ?at r) rows = rows" if "filter ?at rows = []"
      using that by (auto simp: filter_empty_conv filter_id_conv)
    have free: "\<not> list_ex (same_row_key c ev) (filter (\<lambda>r. \<not> ?at r) rows)" using that(2) by (auto simp: list_ex_iff)
    obtain x where "from_ts (as_i64 (ev_created_at ev)) = Some x" using some by blast
    then have "db_events (hd_events (submit from_ts c (t, ev, ch) \<lparr>hd_events = \<lparr>db_events = rows, db_mentions = ms\<rparr>, hd_watermarks = []\<rparr>))
        = filter (\<lambda>r. \<not> ?at r) rows @ [?row t ev]
      \<and> hd_watermarks (submit from_ts c (t, ev, ch) \<lparr>hd_events = \<lparr>db_events = rows, db_mentions = ms\<rparr>, hd_watermarks = []\<rparr>) = []"
      using dom free kept that(2) by (auto simp: submit_def ev replace_parameterized_event_def Let_def retire_head_def is_some_and_def
          split: option.splits)
    then show ?thesis
      by (intro exI [of _ "db_mentions (hd_events (submit from_ts c (t, ev, ch)
          \<lparr>hd_events = \<lparr>db_events = rows, db_mentions = ms\<rparr>, hd_watermarks = []\<rparr>))"]) auto
  qed
  obtain m1 where one: "submit from_ts c (t1, old, ch) no_heads
      = \<lparr>hd_events = \<lparr>db_events = [?row t1 old], db_mentions = m1\<rparr>, hd_watermarks = []\<rparr>"
    using insert [of old "[]" t1 "[]"] by (auto simp: no_heads_def)
  obtain m2 where two: "db1 = \<lparr>hd_events = \<lparr>db_events = [?row t2 new], db_mentions = m2\<rparr>, hd_watermarks = []\<rparr>"
    using insert [of new "[?row t1 old]" t2 m1] newer ids unfolding assms(8) one by (auto simp: row)
  let ?gone = "(?row t2 new)\<lparr>row_deleted := True\<rparr>"
  obtain m3 where three: "db2 = \<lparr>hd_events = \<lparr>db_events = [?gone], db_mentions = m3\<rparr>, hd_watermarks = []\<rparr>"
  proof -
    have here: "coordinate_at c (ev_kind old) (ev_pubkey old) d (?row t2 new)" unfolding row using kind assms(3) by simp
    have kept: "\<not> purges (?row t2 new)" using no_rs by (simp add: purges_def row is_some_and_def)
    show thesis
      using here kept by (intro that) (simp add: assms(9) two soft_delete_by_coordinate_def Let_def soft_delete_where_def)
  qed
  have gone: "\<not> coordinate_at c k pk d' ?gone" for k pk d' by simp
  obtain m4 where four: "submit from_ts c (t3, old, ch) db2
      = \<lparr>hd_events = \<lparr>db_events = [?gone, ?row t3 old], db_mentions = m4\<rparr>, hd_watermarks = []\<rparr>"
    using insert [of old "[?gone]" t3 m3] ids unfolding three by (auto simp: row gone)
  show ?thesis unfolding four by (simp add: three heads_def gone row)
qed



definition mesh_status :: "hex_string \<Rightarrow> nat \<Rightarrow> event" where
  "mesh_status i ts =
     \<lparr>ev_id = i, ev_pubkey = ''p'', ev_created_at = ts, ev_kind = KIND_BOOKMARK_SET,
      ev_tags = [[''d'', ''buzz-mesh-member-status:x''], [''k'', ''buzz-mesh-status'']], ev_content = []\<rparr>"

theorem deleted_mesh_status_returns_witness:
  "heads 1 KIND_BOOKMARK_SET ''p'' ''buzz-mesh-member-status:x''
     (submit Some 1 (9, mesh_status ''a'' 5, None)
       (let db = submit Some 1 (8, mesh_status ''b'' 7, None) (submit Some 1 (6, mesh_status ''a'' 5, None) no_heads)
        in db\<lparr>hd_events := snd (soft_delete_by_coordinate 1 KIND_BOOKMARK_SET ''p'' ''buzz-mesh-member-status:x'' (hd_events db))\<rparr>))
     = [mesh_status ''a'' 5]"
proof -
  have mesh: "is_buzz_mesh_status (mesh_status i ts) ''buzz-mesh-member-status:x''" for i ts
    by (simp add: is_buzz_mesh_status_def mesh_status_def starts_with_def)
  have addr: "address (mesh_status i ts) = ''buzz-mesh-member-status:x''" for i ts
    by (simp add: address_def mesh_status_def extract_d_tag_def is_parameterized_replaceable_def KIND_BOOKMARK_SET_def
        PARAM_REPLACEABLE_KIND_MIN_def PARAM_REPLACEABLE_KIND_MAX_def tag_second_def unwrap_or_def)
  have pk: "ev_pubkey (mesh_status ''b'' 7) = ev_pubkey (mesh_status ''a'' 5)" by (simp add: mesh_status_def)
  have key: "event_key (mesh_status ''b'' 7) < event_key (mesh_status ''a'' 5)"
    by (simp add: event_key_def mesh_status_def as_i64_def)
  have fields: "ev_kind (mesh_status ''a'' 5) = KIND_BOOKMARK_SET" "ev_pubkey (mesh_status ''a'' 5) = ''p''"
    by (simp_all add: mesh_status_def)
  show ?thesis
    using conjunct2 [OF deleted_mesh_status_returns [OF mesh mesh pk key _ addr addr refl refl,
        where from_ts = Some and c = 1 and ch = None and ?t1.0 = 6 and ?t2.0 = 8 and ?t3.0 = 9]]
    by (simp add: fields Let_def)
qed

end
