(* ===== verification/Communities.thy ===== *)
theory Communities
  imports Event_Store Strings
begin

text \<open>
  Communities, their relay members and the invites that admit them: \<open>crates/buzz-db/src/relay_members.rs\<close>,
  \<open>relay_invite.rs\<close>, the community functions of \<open>lib.rs\<close> and \<open>buzz-core/src/invite.rs\<close>. A
  function is one transaction; a rollback leaves the database as it was. Keys are lowercase
  hexadecimal; \<open>now\<close> is the clock of the database and new identifiers are arguments. The per-owner
  advisory lock serialises the functions that grant ownership, so each is one step.
\<close>

section \<open>Tables\<close>

record community_row =
  co_id :: community_id
  co_host :: string
  co_icon :: "string option"
  co_created_at :: int
  co_archived_at :: "int option"

record relay_member =
  rm_community :: community_id
  rm_pubkey :: hex_string
  rm_role :: string
  rm_added_by :: "string option"
  rm_created_at :: int
  rm_updated_at :: int

record invite_row =
  iv_community :: community_id
  iv_id :: uuid
  iv_token_hash :: hex_string
  iv_max_uses :: "nat option"
  iv_use_count :: nat
  iv_expires_at :: int
  iv_created_by :: hex_string

record tenant_db =
  tn_communities :: "community_row list"
  tn_members :: "relay_member list"
  tn_acceptances :: "(community_id \<times> hex_string \<times> string) list"
  tn_invites :: "invite_row list"

section \<open>Communities by host\<close>

definition host_is :: "string \<Rightarrow> community_row \<Rightarrow> bool" where
  "host_is host r \<longleftrightarrow> ascii_lower (co_host r) = ascii_lower host"

definition community_live :: "community_row \<Rightarrow> bool" where
  "community_live r \<longleftrightarrow> co_archived_at r = None"

definition lookup_community_by_host :: "tenant_db \<Rightarrow> string \<Rightarrow> (community_id \<times> string) option" where
  "lookup_community_by_host db host =
     map_option (\<lambda>r. (co_id r, co_host r)) (find (\<lambda>r. host_is host r \<and> community_live r) (tn_communities db))"

definition lookup_community_by_host_for_management ::
    "tenant_db \<Rightarrow> string \<Rightarrow> (community_id \<times> string) option" where
  "lookup_community_by_host_for_management db host =
     map_option (\<lambda>r. (co_id r, co_host r)) (find (host_is host) (tn_communities db))"

definition is_community_active :: "tenant_db \<Rightarrow> community_id \<Rightarrow> bool" where
  "is_community_active db c \<longleftrightarrow> list_ex (\<lambda>r. co_id r = c \<and> community_live r) (tn_communities db)"

definition lookup_community_host :: "tenant_db \<Rightarrow> community_id \<Rightarrow> string option" where
  "lookup_community_host db c =
     map_option co_host (find (\<lambda>r. co_id r = c \<and> community_live r) (tn_communities db))"

definition community_exists :: "tenant_db \<Rightarrow> community_id \<Rightarrow> bool" where
  "community_exists db c \<longleftrightarrow> list_ex (\<lambda>r. co_id r = c) (tn_communities db)"

definition get_community_icon :: "tenant_db \<Rightarrow> community_id \<Rightarrow> string option" where
  "get_community_icon db c =
     (case Option.bind (find (\<lambda>r. co_id r = c) (tn_communities db)) co_icon of
        Some icon \<Rightarrow> if icon = [] then None else Some icon
      | None \<Rightarrow> None)"

definition set_community_icon :: "community_id \<Rightarrow> string option \<Rightarrow> tenant_db \<Rightarrow> tenant_db" where
  "set_community_icon c icon db =
     db\<lparr>tn_communities := map (\<lambda>r. if co_id r = c then r\<lparr>co_icon := icon\<rparr> else r) (tn_communities db)\<rparr>"

text \<open>The constraints of the table: the width of the host, and a new identifier that is not nil.\<close>

definition COMMUNITY_HOST_WIDTH :: nat where
  "COMMUNITY_HOST_WIDTH = 255"

definition fresh_community :: "tenant_db \<Rightarrow> community_id \<Rightarrow> bool" where
  "fresh_community db fresh \<longleftrightarrow> fresh \<noteq> 0 \<and> \<not> community_exists db fresh"

definition new_community :: "int \<Rightarrow> community_id \<Rightarrow> string \<Rightarrow> community_row" where
  "new_community now fresh host =
     \<lparr>co_id = fresh, co_host = host, co_icon = None, co_created_at = now, co_archived_at = None\<rparr>"

definition ensure_configured_community ::
    "int \<Rightarrow> community_id \<Rightarrow> string \<Rightarrow> tenant_db
     \<Rightarrow> (db_error, (community_id \<times> string \<times> bool) \<times> tenant_db) result" where
  "ensure_configured_community now fresh host db =
     (if COMMUNITY_HOST_WIDTH < chars_count host then Err Sqlx
      else
        (case find (host_is host) (tn_communities db) of
           Some r \<Rightarrow> Ok ((co_id r, co_host r, False), db)
         | None \<Rightarrow>
             if \<not> fresh_community db fresh then Err Sqlx
             else Ok ((fresh, host, True),
               db\<lparr>tn_communities := tn_communities db @ [new_community now fresh host]\<rparr>)))"

section \<open>Relay members\<close>

definition relay_member_at :: "community_id \<Rightarrow> hex_string \<Rightarrow> relay_member \<Rightarrow> bool" where
  "relay_member_at c pk r \<longleftrightarrow> rm_community r = c \<and> rm_pubkey r = pk"

definition is_relay_member :: "tenant_db \<Rightarrow> community_id \<Rightarrow> hex_string \<Rightarrow> bool" where
  "is_relay_member db c pk \<longleftrightarrow> list_ex (relay_member_at c pk) (tn_members db)"

definition get_relay_member :: "tenant_db \<Rightarrow> community_id \<Rightarrow> hex_string \<Rightarrow> relay_member option" where
  "get_relay_member db c pk = find (relay_member_at c pk) (tn_members db)"

definition list_relay_members :: "tenant_db \<Rightarrow> community_id \<Rightarrow> relay_member list" where
  "list_relay_members db c = sort_key rm_created_at (filter (\<lambda>r. rm_community r = c) (tn_members db))"

definition relay_role_valid :: "string \<Rightarrow> bool" where
  "relay_role_valid role \<longleftrightarrow> role \<in> {''owner'', ''admin'', ''member''}"

definition new_relay_member ::
    "int \<Rightarrow> community_id \<Rightarrow> hex_string \<Rightarrow> string \<Rightarrow> string option \<Rightarrow> relay_member" where
  "new_relay_member now c pk role by =
     \<lparr>rm_community = c, rm_pubkey = pk, rm_role = role, rm_added_by = by, rm_created_at = now, rm_updated_at = now\<rparr>"

definition add_relay_member ::
    "int \<Rightarrow> community_id \<Rightarrow> hex_string \<Rightarrow> string \<Rightarrow> string option \<Rightarrow> tenant_db
     \<Rightarrow> (db_error, bool \<times> tenant_db) result" where
  "add_relay_member now c pk role by db =
     (if \<not> relay_role_valid role then Err Sqlx
      else if is_relay_member db c pk then Ok (False, db)
      else if \<not> community_exists db c then Err Sqlx
      else Ok (True, db\<lparr>tn_members := tn_members db @ [new_relay_member now c pk role by]\<rparr>))"

text \<open>\<open>INSERT INTO join_policy_acceptances ... ON CONFLICT DO NOTHING\<close>, with the check on the version and the reference to the member.\<close>

definition record_acceptance ::
    "community_id \<Rightarrow> hex_string \<Rightarrow> string option \<Rightarrow> tenant_db \<Rightarrow> (db_error, tenant_db) result" where
  "record_acceptance c pk version db =
     (case version of
        None \<Rightarrow> Ok db
      | Some v \<Rightarrow>
          if chars_count v \<noteq> 64 then Err Sqlx
          else if (c, pk, v) \<in> set (tn_acceptances db) then Ok db
          else if \<not> is_relay_member db c pk then Err Sqlx
          else Ok (db\<lparr>tn_acceptances := tn_acceptances db @ [(c, pk, v)]\<rparr>))"

definition claim_relay_membership ::
    "int \<Rightarrow> community_id \<Rightarrow> hex_string \<Rightarrow> string \<Rightarrow> string option \<Rightarrow> tenant_db
     \<Rightarrow> (db_error, bool \<times> tenant_db) result" where
  "claim_relay_membership now c pk role version db =
     bind_result (add_relay_member now c pk role (Some ''invite'') db) (\<lambda>(inserted, db1).
     bind_result (record_acceptance c pk version db1) (\<lambda>db2. Ok (inserted, db2)))"

definition has_join_policy_acceptance :: "tenant_db \<Rightarrow> community_id \<Rightarrow> hex_string \<Rightarrow> string \<Rightarrow> bool" where
  "has_join_policy_acceptance db c pk v \<longleftrightarrow> (c, pk, v) \<in> set (tn_acceptances db)"

datatype remove_result = Removed | IsOwner | NoSuchMember | RoleMismatch

text \<open>A deleted member takes its acceptances along (\<open>ON DELETE CASCADE\<close>).\<close>

definition delete_members :: "(relay_member \<Rightarrow> bool) \<Rightarrow> tenant_db \<Rightarrow> tenant_db" where
  "delete_members p db =
     db\<lparr>tn_members := filter (\<lambda>r. \<not> p r) (tn_members db),
        tn_acceptances := filter (\<lambda>(c, pk, v). \<not> list_ex (\<lambda>r. p r \<and> relay_member_at c pk r) (tn_members db))
          (tn_acceptances db)\<rparr>"

definition remove_relay_member :: "community_id \<Rightarrow> hex_string \<Rightarrow> tenant_db \<Rightarrow> remove_result \<times> tenant_db" where
  "remove_relay_member c pk db =
     (let hit = (\<lambda>r. relay_member_at c pk r \<and> rm_role r \<noteq> ''owner'') in
      if list_ex hit (tn_members db) then (Removed, delete_members hit db)
      else if is_relay_member db c pk then (IsOwner, db)
      else (NoSuchMember, db))"

definition remove_relay_member_if_role ::
    "community_id \<Rightarrow> hex_string \<Rightarrow> string \<Rightarrow> tenant_db \<Rightarrow> remove_result \<times> tenant_db" where
  "remove_relay_member_if_role c pk expected db =
     (let hit = (\<lambda>r. relay_member_at c pk r \<and> rm_role r = expected) in
      if list_ex hit (tn_members db) then (Removed, delete_members hit db)
      else
        (case get_relay_member db c pk of
           None \<Rightarrow> (NoSuchMember, db)
         | Some r \<Rightarrow> (if rm_role r = ''owner'' then IsOwner else RoleMismatch, db)))"

definition update_members :: "(relay_member \<Rightarrow> bool) \<Rightarrow> int \<Rightarrow> string \<Rightarrow> tenant_db \<Rightarrow> tenant_db" where
  "update_members p now role db =
     db\<lparr>tn_members := map (\<lambda>r. if p r then r\<lparr>rm_role := role, rm_updated_at := now\<rparr> else r) (tn_members db)\<rparr>"

definition update_relay_member_role ::
    "int \<Rightarrow> community_id \<Rightarrow> hex_string \<Rightarrow> string \<Rightarrow> tenant_db \<Rightarrow> (db_error, bool \<times> tenant_db) result" where
  "update_relay_member_role now c pk role db =
     (let hit = (\<lambda>r. relay_member_at c pk r \<and> rm_role r \<noteq> ''owner'') in
      if \<not> list_ex hit (tn_members db) then Ok (False, db)
      else if \<not> relay_role_valid role then Err Sqlx
      else Ok (True, update_members hit now role db))"

section \<open>Owners\<close>

definition owner_row :: "community_id \<Rightarrow> relay_member \<Rightarrow> bool" where
  "owner_row c r \<longleftrightarrow> rm_community r = c \<and> rm_role r = ''owner''"

definition upsert_owner :: "int \<Rightarrow> community_id \<Rightarrow> hex_string \<Rightarrow> tenant_db \<Rightarrow> (db_error, tenant_db) result" where
  "upsert_owner now c pk db =
     (if is_relay_member db c pk then Ok (update_members (relay_member_at c pk) now ''owner'' db)
      else if \<not> community_exists db c then Err Sqlx
      else Ok (db\<lparr>tn_members := tn_members db @ [new_relay_member now c pk ''owner'' None]\<rparr>))"

definition demote_others :: "int \<Rightarrow> community_id \<Rightarrow> hex_string \<Rightarrow> string \<Rightarrow> tenant_db \<Rightarrow> tenant_db" where
  "demote_others now c pk role db = update_members (\<lambda>r. owner_row c r \<and> rm_pubkey r \<noteq> pk) now role db"

definition bootstrap_owner :: "int \<Rightarrow> community_id \<Rightarrow> hex_string \<Rightarrow> tenant_db \<Rightarrow> (db_error, tenant_db) result" where
  "bootstrap_owner now c owner db =
     (let pk = ascii_lower owner in
      bind_result (upsert_owner now c pk db) (\<lambda>db1. Ok (demote_others now c pk ''admin'' db1)))"

definition MAX_COMMUNITIES_PER_OWNER :: int where
  "MAX_COMMUNITIES_PER_OWNER = 3"

definition effective_owner_limit :: "string option \<Rightarrow> int" where
  "effective_owner_limit raw =
     (case Option.bind raw (\<lambda>v. parse_i64 (trim v)) of
        Some limit \<Rightarrow> if 0 < limit then limit else MAX_COMMUNITIES_PER_OWNER
      | None \<Rightarrow> MAX_COMMUNITIES_PER_OWNER)"

definition owned_count :: "tenant_db \<Rightarrow> hex_string \<Rightarrow> nat" where
  "owned_count db pk = length (filter (\<lambda>r. rm_pubkey r = pk \<and> rm_role r = ''owner'') (tn_members db))"

datatype transfer_result =
    Transferred "hex_string option"
  | AlreadyOwner
  | NoOwner
  | OwnerConflict
  | TransferLimitReached

definition transfer_ownership ::
    "int \<Rightarrow> int \<Rightarrow> community_id \<Rightarrow> hex_string \<Rightarrow> hex_string \<Rightarrow> tenant_db
     \<Rightarrow> (db_error, transfer_result \<times> tenant_db) result" where
  "transfer_ownership limit now c new_owner expected_owner db =
     (let pk = ascii_lower new_owner; expected = ascii_lower expected_owner;
          owners = map rm_pubkey (filter (owner_row c) (tn_members db)) in
      if owners = [] then Ok (NoOwner, db)
      else if \<not> list_ex (\<lambda>p. p = expected) owners then Ok (OwnerConflict, db)
      else if length owners = 1 \<and> owners ! 0 = pk then Ok (AlreadyOwner, db)
      else
        (let previous = (if length owners = 1 then Some (owners ! 0) else find (\<lambda>p. p \<noteq> pk) owners) in
         if limit \<le> int (owned_count db pk) then Ok (TransferLimitReached, db)
         else
           bind_result (upsert_owner now c pk db) (\<lambda>db1.
           Ok (Transferred previous, demote_others now c pk ''member'' db1))))"

datatype create_community_result =
    CommunityCreated community_id string
  | HostExists
  | CreateLimitReached

definition create_community_with_owner ::
    "int \<Rightarrow> int \<Rightarrow> community_id \<Rightarrow> string \<Rightarrow> hex_string \<Rightarrow> tenant_db
     \<Rightarrow> (db_error, create_community_result \<times> tenant_db) result" where
  "create_community_with_owner limit now fresh host owner db =
     (let pk = ascii_lower owner in
      if COMMUNITY_HOST_WIDTH < chars_count host then Err Sqlx
      else if list_ex (host_is host) (tn_communities db) then
        (case find (\<lambda>r. host_is host r \<and> community_live r
                 \<and> list_ex (\<lambda>m. owner_row (co_id r) m \<and> ascii_lower (rm_pubkey m) = ascii_lower pk) (tn_members db))
               (tn_communities db) of
           None \<Rightarrow> Ok (HostExists, db)
         | Some r \<Rightarrow> Ok (CommunityCreated (co_id r) (co_host r), db))
      else if \<not> fresh_community db fresh then Err Sqlx
      else if limit \<le> int (owned_count db pk) then Ok (CreateLimitReached, db)
      else Ok (CommunityCreated fresh host,
        db\<lparr>tn_communities := tn_communities db @ [new_community now fresh host],
           tn_members := tn_members db @ [new_relay_member now fresh pk ''owner'' None]\<rparr>))"

definition list_communities_owned_by :: "tenant_db \<Rightarrow> hex_string \<Rightarrow> community_row list" where
  "list_communities_owned_by db owner =
     sort_key co_created_at (sort_key co_host
       (filter (\<lambda>r. list_ex (\<lambda>m. owner_row (co_id r) m \<and> rm_pubkey m = ascii_lower owner) (tn_members db))
         (tn_communities db)))"

text \<open>The two lifecycle updates address a community by its host and one of its owners.\<close>

definition owned_host :: "tenant_db \<Rightarrow> string \<Rightarrow> hex_string \<Rightarrow> community_row \<Rightarrow> bool" where
  "owned_host db host owner r \<longleftrightarrow>
     host_is host r
     \<and> list_ex (\<lambda>m. owner_row (co_id r) m \<and> ascii_lower (rm_pubkey m) = ascii_lower owner) (tn_members db)"

definition archive_community_owned_by ::
    "int \<Rightarrow> string \<Rightarrow> hex_string \<Rightarrow> string \<Rightarrow> tenant_db \<Rightarrow> (community_id \<times> string \<times> int) option \<times> tenant_db" where
  "archive_community_owned_by now host owner protected db =
     (let hit = (\<lambda>r. owned_host db host owner r \<and> \<not> host_is protected r);
          archived = (\<lambda>r. case co_archived_at r of Some t \<Rightarrow> t | None \<Rightarrow> now) in
      (map_option (\<lambda>r. (co_id r, co_host r, archived r)) (find hit (tn_communities db)),
       db\<lparr>tn_communities := map (\<lambda>r. if hit r then r\<lparr>co_archived_at := Some (archived r)\<rparr> else r) (tn_communities db)\<rparr>))"

definition unarchive_community_owned_by ::
    "string \<Rightarrow> hex_string \<Rightarrow> tenant_db \<Rightarrow> (community_id \<times> string) option \<times> tenant_db" where
  "unarchive_community_owned_by host owner db =
     (let hit = owned_host db host owner in
      (map_option (\<lambda>r. (co_id r, co_host r)) (find hit (tn_communities db)),
       db\<lparr>tn_communities := map (\<lambda>r. if hit r then r\<lparr>co_archived_at := None\<rparr> else r) (tn_communities db)\<rparr>))"

text \<open>
  The one-time migration of the allowlist, a table of (community, key, time) that may be missing;
  its primary key is the community and the key.
\<close>

definition backfill_row :: "int \<Rightarrow> community_id \<Rightarrow> hex_string \<times> int \<Rightarrow> relay_member list \<Rightarrow> relay_member list" where
  "backfill_row now c row ms =
     (if list_ex (relay_member_at c (fst row)) ms then ms
      else ms @ [\<lparr>rm_community = c, rm_pubkey = fst row, rm_role = ''member'', rm_added_by = None,
                  rm_created_at = snd row, rm_updated_at = now\<rparr>])"

definition backfill_from_allowlist ::
    "int \<Rightarrow> (community_id \<times> hex_string \<times> int) list option \<Rightarrow> community_id \<Rightarrow> tenant_db
     \<Rightarrow> (db_error, nat \<times> tenant_db) result" where
  "backfill_from_allowlist now allowlist c db =
     (case allowlist of
        None \<Rightarrow> Ok (0, db)
      | Some rows \<Rightarrow>
          if list_ex (\<lambda>r. rm_community r = c) (tn_members db) then Ok (0, db)
          else
            (let hits = map snd (filter (\<lambda>row. fst row = c) rows);
                 members = fold (backfill_row now c) hits (tn_members db) in
             if hits \<noteq> [] \<and> \<not> community_exists db c then Err Sqlx
             else Ok (length members - length (tn_members db), db\<lparr>tn_members := members\<rparr>)))"

section \<open>Invites\<close>

definition MIN_INVITE_TTL_SECS :: nat where "MIN_INVITE_TTL_SECS = 60"
definition MAX_INVITE_TTL_SECS :: nat where "MAX_INVITE_TTL_SECS = 30 * 24 * 60 * 60"
definition MAX_INVITE_USES :: int where "MAX_INVITE_USES = 10000"
definition RETENTION_SWEEP_BATCH_SIZE :: nat where "RETENTION_SWEEP_BATCH_SIZE = 1000"

definition validate_mint_inputs :: "nat \<Rightarrow> int option \<Rightarrow> (db_error, unit) result" where
  "validate_mint_inputs ttl max_uses =
     (if \<not> (MIN_INVITE_TTL_SECS \<le> ttl \<and> ttl \<le> MAX_INVITE_TTL_SECS)
      then Err (InvalidData ''ttl_secs must be between 60 and 2592000'')
      else if is_some_and (\<lambda>n. \<not> (1 \<le> n \<and> n \<le> MAX_INVITE_USES)) max_uses
      then Err (InvalidData ''max_uses must be between 1 and 10000'')
      else Ok ())"

text \<open>
  \<open>token\<close> is the hash of the random code, \<open>second\<close> the length of a second on the clock. A code is
  never stored.
\<close>

definition mint_relay_invite ::
    "int \<Rightarrow> int \<Rightarrow> uuid \<Rightarrow> hex_string \<Rightarrow> community_id \<Rightarrow> hex_string \<Rightarrow> nat \<Rightarrow> int option \<Rightarrow> tenant_db
     \<Rightarrow> (db_error, invite_row \<times> tenant_db) result" where
  "mint_relay_invite second now fresh token c by ttl max_uses db =
     bind_result (validate_mint_inputs ttl max_uses) (\<lambda>_.
     if \<not> community_exists db c \<or> length token \<noteq> 64
        \<or> list_ex (\<lambda>r. iv_community r = c \<and> (iv_id r = fresh \<or> iv_token_hash r = token)) (tn_invites db)
     then Err Sqlx
     else
       (let row = \<lparr>iv_community = c, iv_id = fresh, iv_token_hash = token, iv_max_uses = map_option nat max_uses,
                   iv_use_count = 0, iv_expires_at = now + second * int ttl, iv_created_by = by\<rparr> in
        Ok (row, db\<lparr>tn_invites := tn_invites db @ [row]\<rparr>)))"

definition reap_expired_relay_invites :: "int \<Rightarrow> tenant_db \<Rightarrow> nat \<times> tenant_db" where
  "reap_expired_relay_invites cutoff db =
     (let doomed = take RETENTION_SWEEP_BATCH_SIZE
            (sort_key iv_expires_at (filter (\<lambda>r. iv_expires_at r < cutoff) (tn_invites db)));
          hit = (\<lambda>r. (iv_community r, iv_id r) \<in> set (map (\<lambda>d. (iv_community d, iv_id d)) doomed)) in
      (length (filter hit (tn_invites db)), db\<lparr>tn_invites := filter (\<lambda>r. \<not> hit r) (tn_invites db)\<rparr>))"

datatype claim_outcome =
    Joined nat "nat option"
  | AlreadyMember nat "nat option"
  | Expired
  | Exhausted
  | InvalidInvite

definition invite_at :: "community_id \<Rightarrow> hex_string \<Rightarrow> invite_row \<Rightarrow> bool" where
  "invite_at c token r \<longleftrightarrow> iv_community r = c \<and> iv_token_hash r = token"

definition uses_remaining :: "invite_row \<Rightarrow> nat option" where
  "uses_remaining r = map_option (\<lambda>mu. mu - iv_use_count r) (iv_max_uses r)"

definition consume_invite :: "invite_row \<Rightarrow> tenant_db \<Rightarrow> tenant_db" where
  "consume_invite row db =
     db\<lparr>tn_invites := map (\<lambda>r. if iv_community r = iv_community row \<and> iv_id r = iv_id row
          then r\<lparr>iv_use_count := iv_use_count row + 1\<rparr> else r) (tn_invites db)\<rparr>"

text \<open>
  Expiry is asked before membership, capacity after it. The branch for a concurrent admission
  through another invite is the one where the insertion finds a row.
\<close>

definition claim_relay_invite ::
    "int \<Rightarrow> community_id \<Rightarrow> hex_string \<Rightarrow> hex_string \<Rightarrow> string option \<Rightarrow> tenant_db
     \<Rightarrow> (db_error, claim_outcome \<times> tenant_db) result" where
  "claim_relay_invite now c token pk version db =
     (case find (invite_at c token) (tn_invites db) of
        None \<Rightarrow> Ok (InvalidInvite, db)
      | Some row \<Rightarrow>
          if iv_expires_at row \<le> now then Ok (Expired, db)
          else if is_relay_member db c pk then
            bind_result (record_acceptance c pk version db) (\<lambda>db1.
            Ok (AlreadyMember (iv_use_count row) (uses_remaining row), db1))
          else if is_some_and (\<lambda>mu. mu \<le> iv_use_count row) (iv_max_uses row) then Ok (Exhausted, db)
          else
            bind_result (add_relay_member now c pk ''member'' (Some ''invite'') db) (\<lambda>(inserted, db1).
            bind_result (record_acceptance c pk version db1) (\<lambda>db2.
            if \<not> inserted then Ok (AlreadyMember (iv_use_count row) (uses_remaining row), db2)
            else Ok (Joined (iv_use_count row + 1) (map_option (\<lambda>mu. mu - (iv_use_count row + 1)) (iv_max_uses row)),
              consume_invite row db2))))"

end
