(* ===== verification/Moderation.thy ===== *)
theory Moderation
  imports Communities Membership
begin

text \<open>
  Moderation of a community: the tables of \<open>crates/buzz-db/src/moderation.rs\<close>, the authority of
  \<open>handlers/moderation_authz.rs\<close> and the commands of \<open>handlers/moderation_commands.rs\<close>. A handler
  runs several statements without a transaction, so it returns the state it leaves behind beside
  its reply. \<open>from_ts\<close> is \<open>DateTime::from_timestamp\<close>, \<open>now\<close> an instant of the same clock; the text
  of a database error and of a clock difference is left out of the messages.
\<close>

section \<open>Tables\<close>

datatype report_target = TargetEvent hex_string | TargetPubkey hex_string | TargetBlob hex_string

record report_row =
  rp_community :: community_id
  rp_id :: uuid
  rp_event_id :: hex_string
  rp_reporter :: hex_string
  rp_target :: report_target
  rp_channel :: "uuid option"
  rp_type :: string
  rp_note :: "string option"
  rp_status :: string
  rp_resolved_by :: "hex_string option"
  rp_resolved_at :: "int option"
  rp_action :: "uuid option"
  rp_created_at :: int

record ban_row =
  bn_community :: community_id
  bn_pubkey :: hex_string
  bn_banned :: bool
  bn_expires_at :: "int option"
  bn_reason :: "string option"
  bn_muted_until :: "int option"
  bn_mute_reason :: "string option"
  bn_actor :: hex_string
  bn_updated_at :: int

record action_row =
  ac_community :: community_id
  ac_id :: uuid
  ac_actor :: hex_string
  ac_action :: string
  ac_target_pubkey :: "hex_string option"
  ac_target_event :: "hex_string option"
  ac_channel :: "uuid option"
  ac_reason_code :: "string option"
  ac_public_reason :: "string option"
  ac_private_reason :: "string option"
  ac_principal :: "string option"
  ac_created_at :: int

record moderation_db =
  md_tenants :: tenant_db
  md_channels :: channel_db
  md_reports :: "report_row list"
  md_bans :: "ban_row list"
  md_actions :: "action_row list"

definition MODERATION_ACTION_CHECK_VOCAB :: "string list" where
  "MODERATION_ACTION_CHECK_VOCAB =
     [''delete_message'', ''kick'', ''ban'', ''unban'', ''timeout'', ''untimeout'', ''dismiss_report'', ''escalate'',
      ''resolve:delete'', ''resolve:kick'', ''resolve:ban'', ''resolve:timeout'']"

definition key_width :: "hex_string \<Rightarrow> bool" where
  "key_width k \<longleftrightarrow> length k = 64"

section \<open>Reports\<close>

definition report_at :: "community_id \<Rightarrow> hex_string \<Rightarrow> report_row \<Rightarrow> bool" where
  "report_at c ev r \<longleftrightarrow> rp_community r = c \<and> rp_event_id r = ev"

fun target_width :: "report_target \<Rightarrow> bool" where
  "target_width (TargetEvent i) = key_width i"
| "target_width (TargetPubkey k) = key_width k"
| "target_width (TargetBlob h) = key_width h"

definition channel_known :: "moderation_db \<Rightarrow> community_id \<Rightarrow> uuid option \<Rightarrow> bool" where
  "channel_known db c ch = is_none_or (\<lambda>h. list_ex (channel_at c h) (cdb_channels (md_channels db))) ch"

definition insert_report ::
    "int \<Rightarrow> uuid \<Rightarrow> community_id \<Rightarrow> hex_string \<Rightarrow> hex_string \<Rightarrow> report_target \<Rightarrow> uuid option \<Rightarrow> string \<Rightarrow> string option
     \<Rightarrow> moderation_db \<Rightarrow> (db_error, uuid \<times> moderation_db) result" where
  "insert_report now fresh c ev reporter target ch ty remark db =
     (if \<not> (key_width ev \<and> key_width reporter \<and> target_width target) then Err Sqlx
      else
        (case find (report_at c ev) (md_reports db) of
           Some r \<Rightarrow> Ok (rp_id r, db)
         | None \<Rightarrow>
             if \<not> community_exists (md_tenants db) c \<or> \<not> channel_known db c ch
                \<or> list_ex (\<lambda>r. rp_community r = c \<and> rp_id r = fresh) (md_reports db) then Err Sqlx
             else Ok (fresh, db\<lparr>md_reports := md_reports db @
               [\<lparr>rp_community = c, rp_id = fresh, rp_event_id = ev, rp_reporter = reporter, rp_target = target,
                 rp_channel = ch, rp_type = ty, rp_note = remark, rp_status = ''open'', rp_resolved_by = None,
                 rp_resolved_at = None, rp_action = None, rp_created_at = now\<rparr>]\<rparr>)))"

definition list_reports :: "moderation_db \<Rightarrow> community_id \<Rightarrow> string option \<Rightarrow> nat \<Rightarrow> report_row list" where
  "list_reports db c status limit =
     take limit (sort_key (\<lambda>r. - rp_created_at r)
       (filter (\<lambda>r. rp_community r = c \<and> is_none_or (\<lambda>s. rp_status r = s) status) (md_reports db)))"

definition get_report :: "moderation_db \<Rightarrow> community_id \<Rightarrow> uuid \<Rightarrow> report_row option" where
  "get_report db c i = find (\<lambda>r. rp_community r = c \<and> rp_id r = i) (md_reports db)"

definition get_report_by_event :: "moderation_db \<Rightarrow> community_id \<Rightarrow> hex_string \<Rightarrow> report_row option" where
  "get_report_by_event db c ev = find (report_at c ev) (md_reports db)"

text \<open>The check on the status and the reference to the action are constraints of the table.\<close>

definition resolve_report ::
    "int \<Rightarrow> community_id \<Rightarrow> uuid \<Rightarrow> string \<Rightarrow> hex_string \<Rightarrow> uuid option \<Rightarrow> moderation_db
     \<Rightarrow> (db_error, bool \<times> moderation_db) result" where
  "resolve_report now c i status by action db =
     (let hit = (\<lambda>r. rp_community r = c \<and> rp_id r = i \<and> rp_status r = ''open'') in
      if \<not> list_ex hit (md_reports db) then Ok (False, db)
      else if status \<notin> {''open'', ''resolved'', ''dismissed'', ''escalated''}
           \<or> \<not> is_none_or (\<lambda>a. list_ex (\<lambda>r. ac_community r = c \<and> ac_id r = a) (md_actions db)) action then Err Sqlx
      else Ok (True, db\<lparr>md_reports :=
        map (\<lambda>r. if hit r then r\<lparr>rp_status := status, rp_resolved_by := Some by, rp_resolved_at := Some now,
                                 rp_action := action\<rparr> else r) (md_reports db)\<rparr>))"

section \<open>Bans and timeouts\<close>

definition ban_at :: "community_id \<Rightarrow> hex_string \<Rightarrow> ban_row \<Rightarrow> bool" where
  "ban_at c pk r \<longleftrightarrow> bn_community r = c \<and> bn_pubkey r = pk"

text \<open>\<open>INSERT ... ON CONFLICT (community_id, pubkey) DO UPDATE\<close> with the columns a caller sets.\<close>

definition upsert_ban ::
    "int \<Rightarrow> community_id \<Rightarrow> hex_string \<Rightarrow> hex_string \<Rightarrow> (ban_row \<Rightarrow> ban_row) \<Rightarrow> moderation_db
     \<Rightarrow> (db_error, moderation_db) result" where
  "upsert_ban now c pk actor f db =
     (let set_row = (\<lambda>r. (f r)\<lparr>bn_actor := actor, bn_updated_at := now\<rparr>) in
      if \<not> (key_width pk \<and> key_width actor) then Err Sqlx
      else if list_ex (ban_at c pk) (md_bans db)
      then Ok (db\<lparr>md_bans := map (\<lambda>r. if ban_at c pk r then set_row r else r) (md_bans db)\<rparr>)
      else if \<not> community_exists (md_tenants db) c then Err Sqlx
      else Ok (db\<lparr>md_bans := md_bans db @ [set_row
             \<lparr>bn_community = c, bn_pubkey = pk, bn_banned = False, bn_expires_at = None, bn_reason = None,
              bn_muted_until = None, bn_mute_reason = None, bn_actor = actor, bn_updated_at = now\<rparr>]\<rparr>))"

definition ban_member ::
    "int \<Rightarrow> community_id \<Rightarrow> hex_string \<Rightarrow> hex_string \<Rightarrow> string option \<Rightarrow> int option \<Rightarrow> moderation_db
     \<Rightarrow> (db_error, moderation_db) result" where
  "ban_member now c pk actor reason expires db =
     upsert_ban now c pk actor (\<lambda>r. r\<lparr>bn_banned := True, bn_expires_at := expires, bn_reason := reason\<rparr>) db"

definition timeout_member ::
    "int \<Rightarrow> community_id \<Rightarrow> hex_string \<Rightarrow> hex_string \<Rightarrow> int \<Rightarrow> string option \<Rightarrow> moderation_db
     \<Rightarrow> (db_error, moderation_db) result" where
  "timeout_member now c pk actor until reason db =
     upsert_ban now c pk actor (\<lambda>r. r\<lparr>bn_muted_until := Some until, bn_mute_reason := reason\<rparr>) db"

text \<open>The two lifts update only a row that restricts, and say whether there was one.\<close>

definition lift_ban ::
    "int \<Rightarrow> hex_string \<Rightarrow> (ban_row \<Rightarrow> bool) \<Rightarrow> (ban_row \<Rightarrow> ban_row) \<Rightarrow> moderation_db
     \<Rightarrow> (db_error, bool \<times> moderation_db) result" where
  "lift_ban now actor hit f db =
     (if \<not> list_ex hit (md_bans db) then Ok (False, db)
      else if \<not> key_width actor then Err Sqlx
      else Ok (True, db\<lparr>md_bans :=
        map (\<lambda>r. if hit r then (f r)\<lparr>bn_actor := actor, bn_updated_at := now\<rparr> else r) (md_bans db)\<rparr>))"

definition unban_member ::
    "int \<Rightarrow> community_id \<Rightarrow> hex_string \<Rightarrow> hex_string \<Rightarrow> moderation_db \<Rightarrow> (db_error, bool \<times> moderation_db) result" where
  "unban_member now c pk actor db =
     lift_ban now actor (\<lambda>r. ban_at c pk r \<and> bn_banned r)
       (\<lambda>r. r\<lparr>bn_banned := False, bn_expires_at := None, bn_reason := None\<rparr>) db"

definition untimeout_member ::
    "int \<Rightarrow> community_id \<Rightarrow> hex_string \<Rightarrow> hex_string \<Rightarrow> moderation_db \<Rightarrow> (db_error, bool \<times> moderation_db) result" where
  "untimeout_member now c pk actor db =
     lift_ban now actor (\<lambda>r. ban_at c pk r \<and> is_some_and (\<lambda>t. now < t) (bn_muted_until r))
       (\<lambda>r. r\<lparr>bn_muted_until := None, bn_mute_reason := None\<rparr>) db"

definition ban_in_force :: "int \<Rightarrow> ban_row \<Rightarrow> bool" where
  "ban_in_force now r \<longleftrightarrow> bn_banned r \<and> is_none_or (\<lambda>t. now < t) (bn_expires_at r)"

definition mute_in_force :: "int \<Rightarrow> ban_row \<Rightarrow> bool" where
  "mute_in_force now r \<longleftrightarrow> is_some_and (\<lambda>t. now < t) (bn_muted_until r)"

record restriction =
  rs_banned :: bool
  rs_muted_until :: "int option"

definition restriction_state :: "int \<Rightarrow> moderation_db \<Rightarrow> community_id \<Rightarrow> hex_string \<Rightarrow> restriction" where
  "restriction_state now db c pk =
     (case find (ban_at c pk) (md_bans db) of
        Some r \<Rightarrow> \<lparr>rs_banned = ban_in_force now r,
                  rs_muted_until = (if mute_in_force now r then bn_muted_until r else None)\<rparr>
      | None \<Rightarrow> \<lparr>rs_banned = False, rs_muted_until = None\<rparr>)"

definition get_ban :: "int \<Rightarrow> moderation_db \<Rightarrow> community_id \<Rightarrow> hex_string \<Rightarrow> ban_row option" where
  "get_ban now db c pk =
     map_option (\<lambda>r. r\<lparr>bn_banned := ban_in_force now r\<rparr>) (find (ban_at c pk) (md_bans db))"

definition list_restricted :: "int \<Rightarrow> moderation_db \<Rightarrow> community_id \<Rightarrow> ban_row list" where
  "list_restricted now db c =
     map (\<lambda>r. r\<lparr>bn_banned := ban_in_force now r\<rparr>)
       (sort_key (\<lambda>r. - bn_updated_at r)
         (filter (\<lambda>r. bn_community r = c \<and> (ban_in_force now r \<or> mute_in_force now r)) (md_bans db)))"

section \<open>The audit trail\<close>

definition insert_action :: "action_row \<Rightarrow> moderation_db \<Rightarrow> (db_error, uuid \<times> moderation_db) result" where
  "insert_action row db =
     (if \<not> (key_width (ac_actor row) \<and> ac_action row \<in> set MODERATION_ACTION_CHECK_VOCAB
            \<and> is_none_or key_width (ac_target_pubkey row) \<and> is_none_or key_width (ac_target_event row)
            \<and> is_none_or (\<lambda>p. p = ''self'' \<or> p = ''owner'') (ac_principal row)
            \<and> community_exists (md_tenants db) (ac_community row) \<and> channel_known db (ac_community row) (ac_channel row)
            \<and> \<not> list_ex (\<lambda>r. ac_community r = ac_community row \<and> ac_id r = ac_id row) (md_actions db))
      then Err Sqlx
      else Ok (ac_id row, db\<lparr>md_actions := md_actions db @ [row]\<rparr>))"

definition list_actions :: "moderation_db \<Rightarrow> community_id \<Rightarrow> nat \<Rightarrow> action_row list" where
  "list_actions db c limit =
     take limit (sort_key (\<lambda>r. - ac_created_at r) (filter (\<lambda>r. ac_community r = c) (md_actions db)))"

section \<open>Authority\<close>

datatype moderation_action =
    DeleteMessage | Kick | Ban | Unban | Timeout | Untimeout | ResolveReport | ViewQueue

datatype moderation_target = OnEvent hex_string | OnPubkey hex_string | OnNothing

datatype moderation_authority = CommunityOwner | CommunityAdmin | ChannelRole

definition decide_authority ::
    "string option \<Rightarrow> string option \<Rightarrow> string option \<Rightarrow> moderation_action \<Rightarrow> (string, moderation_authority) result" where
  "decide_authority actor_role target_role channel_role action =
     (if actor_role = Some ''owner'' then Ok CommunityOwner
      else if actor_role = Some ''admin'' then
        if action \<in> {Ban, Timeout} \<and> target_role \<in> {Some ''owner'', Some ''admin''}
        then Err ''an admin cannot ban or time out a community owner or fellow admin''
        else Ok CommunityAdmin
      else if action \<in> {DeleteMessage, Kick} \<and> channel_role \<in> {Some ''owner'', Some ''admin''} then Ok ChannelRole
      else Err ''moderator access required'')"

definition relay_role :: "tenant_db \<Rightarrow> community_id \<Rightarrow> hex_string \<Rightarrow> string option" where
  "relay_role db c pk = map_option rm_role (get_relay_member db c pk)"

definition authorize_moderation_action ::
    "moderation_db \<Rightarrow> community_id \<Rightarrow> hex_string \<Rightarrow> uuid option \<Rightarrow> moderation_target \<Rightarrow> moderation_action
     \<Rightarrow> (string, moderation_authority) result" where
  "authorize_moderation_action db c actor ch target action =
     (let actor_role = relay_role (md_tenants db) c actor;
          target_role =
            (if actor_role = Some ''admin'' \<and> action \<in> {Ban, Timeout}
             then (case target of OnPubkey pk \<Rightarrow> relay_role (md_tenants db) c pk | _ \<Rightarrow> None)
             else None);
          channel_role =
            (if actor_role \<in> {Some ''owner'', Some ''admin''} then None
             else if action \<in> {DeleteMessage, Kick} then Option.bind ch (\<lambda>h. get_member_role (md_channels db) c h actor)
             else None) in
      decide_authority actor_role target_role channel_role action)"

end
