(* ===== verification/Moderation_Commands.thy ===== *)
theory Moderation_Commands
  imports Moderation
begin

text \<open>
  The moderation commands 9040 to 9044, \<open>handlers/moderation_commands.rs\<close>, and the roster commands
  9030 to 9033 with the leave request, \<open>handlers/relay_admin.rs\<close> and \<open>handlers/ingest.rs\<close>. None of
  them is stored. A handler returns its reply, the messages it sends out and the state it leaves,
  which a failure of a later statement does not take back. Delivery of the messages is best effort
  and not modelled.
\<close>

section \<open>Statements in sequence\<close>

type_synonym ('e, 'a, 's) step = "('e, 'a) result \<times> 's"

definition and_then :: "('e, 'a, 's) step \<Rightarrow> ('a \<Rightarrow> 's \<Rightarrow> ('e, 'b, 's) step) \<Rightarrow> ('e, 'b, 's) step" where
  "and_then r f = (case r of (Err e, s) \<Rightarrow> (Err e, s) | (Ok x, s) \<Rightarrow> f x s)"

text \<open>A statement of the database: an error leaves the state, and the handler words it.\<close>

definition run_stmt :: "'e \<Rightarrow> ('s \<Rightarrow> (db_error, 'a \<times> 's) result) \<Rightarrow> 's \<Rightarrow> ('e, 'a, 's) step" where
  "run_stmt e stmt s = (case stmt s of Err _ \<Rightarrow> (Err e, s) | Ok (x, s') \<Rightarrow> (Ok x, s'))"

definition check :: "('e, 'a) result \<Rightarrow> 's \<Rightarrow> ('e, 'a, 's) step" where
  "check r s = (r, s)"

definition unit_stmt :: "('s \<Rightarrow> ('e, 's) result) \<Rightarrow> 's \<Rightarrow> ('e, unit \<times> 's) result" where
  "unit_stmt stmt s = bind_result (stmt s) (\<lambda>s'. Ok ((), s'))"

section \<open>Tags\<close>

definition named_value :: "event \<Rightarrow> string \<Rightarrow> string option" where
  "named_value ev name =
     (case find (\<lambda>t. t \<noteq> [] \<and> t ! 0 = name) (ev_tags ev) of
        Some t \<Rightarrow> if 2 \<le> length t then Some (t ! 1) else None
      | None \<Rightarrow> None)"

definition hex64 :: "string \<Rightarrow> bool" where
  "hex64 v \<longleftrightarrow> length v = 64 \<and> list_all is_hex_char v"

text \<open>The first well-formed value of a tag name; decoding and encoding it gives it in lowercase.\<close>

definition first_hex64 :: "event \<Rightarrow> string \<Rightarrow> string option" where
  "first_hex64 ev name =
     map_option (\<lambda>t. t ! 1)
       (find (\<lambda>t. 2 \<le> length t \<and> t ! 0 = name \<and> hex64 (t ! 1)) (ev_tags ev))"

definition extract_p_tag_bytes :: "event \<Rightarrow> hex_string option" where
  "extract_p_tag_bytes ev = map_option ascii_lower (first_hex64 ev ''p'')"

definition extract_report_tag :: "event \<Rightarrow> hex_string option" where
  "extract_report_tag ev = map_option ascii_lower (first_hex64 ev ''report'')"

definition mod_invalid :: "string \<Rightarrow> string" where "mod_invalid m = ''invalid: '' @ m"
definition mod_error :: "string \<Rightarrow> string" where "mod_error m = ''error: '' @ m"
definition authz_denial :: "string \<Rightarrow> string" where "authz_denial e = ''restricted: '' @ e"

definition extract_expiration :: "(int \<Rightarrow> int option) \<Rightarrow> event \<Rightarrow> (string, int option) result" where
  "extract_expiration from_ts ev =
     (case named_value ev ''expiration'' of
        None \<Rightarrow> Ok None
      | Some raw \<Rightarrow>
          (case parse_i64 raw of
             None \<Rightarrow> Err (mod_invalid (''invalid expiration tag: '' @ raw))
           | Some secs \<Rightarrow>
               (case from_ts secs of
                  Some ts \<Rightarrow> Ok (Some ts)
                | None \<Rightarrow> Err (mod_invalid ''expiration out of range''))))"

section \<open>Effects and clock\<close>

datatype command_effect =
    DisconnectClusterwide hex_string hex_string
  | RestrictionNotice hex_string uuid string string
  | ReportNotice hex_string uuid string string
  | MemberAdded hex_string
  | MemberRemoved hex_string
  | MembershipList

text \<open>\<open>ck_now\<close> is an instant, \<open>ck_secs\<close> the same in seconds, \<open>ck_fresh\<close> the next random identifier.\<close>

record command_clock =
  ck_from_ts :: "int \<Rightarrow> int option"
  ck_now :: int
  ck_secs :: int
  ck_fresh :: uuid

definition MAX_COMMAND_SKEW_SECS :: int where
  "MAX_COMMAND_SKEW_SECS = 120"

definition stale_command :: "command_clock \<Rightarrow> event \<Rightarrow> bool" where
  "stale_command ck ev \<longleftrightarrow> MAX_COMMAND_SKEW_SECS < \<bar>as_i64 (ev_created_at ev) - ck_secs ck\<bar>"

type_synonym command_step = "(string, command_effect list, moderation_db) step"

definition insert_audit ::
    "command_clock \<Rightarrow> community_id \<Rightarrow> hex_string \<Rightarrow> string \<Rightarrow> hex_string option \<Rightarrow> hex_string option \<Rightarrow> string option
     \<Rightarrow> moderation_db \<Rightarrow> (string, uuid, moderation_db) step" where
  "insert_audit ck c actor action target_pubkey target_event reason =
     run_stmt (mod_error ''failed to write audit row'')
       (insert_action \<lparr>ac_community = c, ac_id = ck_fresh ck, ac_actor = actor, ac_action = action,
          ac_target_pubkey = target_pubkey, ac_target_event = target_event, ac_channel = None, ac_reason_code = None,
          ac_public_reason = reason, ac_private_reason = None, ac_principal = None, ac_created_at = ck_now ck\<rparr>)"

definition unwrap_or_empty :: "string option \<Rightarrow> string" where
  "unwrap_or_empty v = (case v of Some s \<Rightarrow> s | None \<Rightarrow> [])"

section \<open>Moderation commands\<close>

definition handle_ban :: "command_clock \<Rightarrow> community_id \<Rightarrow> event \<Rightarrow> hex_string \<Rightarrow> moderation_db \<Rightarrow> command_step" where
  "handle_ban ck c ev actor db =
     and_then (check (ok_or (extract_p_tag_bytes ev) (mod_invalid ''missing or invalid p tag'')) db) (\<lambda>target db.
     and_then (check (extract_expiration (ck_from_ts ck) ev) db) (\<lambda>expires db.
     (let reason = named_value ev ''reason'' in
     and_then (check (map_err authz_denial (authorize_moderation_action db c actor None (OnPubkey target) Ban)) db) (\<lambda>_ db.
     and_then (run_stmt (mod_error ''database error'') (unit_stmt (ban_member (ck_now ck) c target actor reason expires)) db) (\<lambda>_ db.
     and_then (insert_audit ck c actor ''ban'' (Some target) None reason db) (\<lambda>action_id db.
     (Ok [DisconnectClusterwide target (ev_id ev),
          RestrictionNotice target action_id ''ban'' (unwrap_or_empty reason)], db)))))))"

definition handle_unban :: "command_clock \<Rightarrow> community_id \<Rightarrow> event \<Rightarrow> hex_string \<Rightarrow> moderation_db \<Rightarrow> command_step" where
  "handle_unban ck c ev actor db =
     and_then (check (ok_or (extract_p_tag_bytes ev) (mod_invalid ''missing or invalid p tag'')) db) (\<lambda>target db.
     and_then (check (map_err authz_denial (authorize_moderation_action db c actor None (OnPubkey target) Unban)) db) (\<lambda>_ db.
     and_then (run_stmt (mod_error ''database error'') (unban_member (ck_now ck) c target actor) db) (\<lambda>lifted db.
     if \<not> lifted then (Err (mod_invalid ''member is not banned''), db)
     else and_then (insert_audit ck c actor ''unban'' (Some target) None None db) (\<lambda>_ db. (Ok [], db)))))"

definition handle_timeout :: "command_clock \<Rightarrow> community_id \<Rightarrow> event \<Rightarrow> hex_string \<Rightarrow> moderation_db \<Rightarrow> command_step" where
  "handle_timeout ck c ev actor db =
     and_then (check (ok_or (extract_p_tag_bytes ev) (mod_invalid ''missing or invalid p tag'')) db) (\<lambda>target db.
     and_then (check (extract_expiration (ck_from_ts ck) ev) db) (\<lambda>expiration db.
     and_then (check (ok_or expiration (mod_invalid ''timeout requires an expiration tag'')) db) (\<lambda>until db.
     (let reason = named_value ev ''reason'' in
     and_then (check (map_err authz_denial (authorize_moderation_action db c actor None (OnPubkey target) Timeout)) db) (\<lambda>_ db.
     and_then (run_stmt (mod_error ''database error'') (unit_stmt (timeout_member (ck_now ck) c target actor until reason)) db) (\<lambda>_ db.
     and_then (insert_audit ck c actor ''timeout'' (Some target) None reason db) (\<lambda>action_id db.
     (Ok [RestrictionNotice target action_id ''timeout'' (unwrap_or_empty reason)], db))))))))"

definition handle_untimeout :: "command_clock \<Rightarrow> community_id \<Rightarrow> event \<Rightarrow> hex_string \<Rightarrow> moderation_db \<Rightarrow> command_step" where
  "handle_untimeout ck c ev actor db =
     and_then (check (ok_or (extract_p_tag_bytes ev) (mod_invalid ''missing or invalid p tag'')) db) (\<lambda>target db.
     and_then (check (map_err authz_denial (authorize_moderation_action db c actor None (OnPubkey target) Untimeout)) db) (\<lambda>_ db.
     and_then (run_stmt (mod_error ''database error'') (untimeout_member (ck_now ck) c target actor) db) (\<lambda>cleared db.
     if \<not> cleared then (Err (mod_invalid ''member is not timed out''), db)
     else and_then (insert_audit ck c actor ''untimeout'' (Some target) None None db) (\<lambda>_ db. (Ok [], db)))))"

definition resolution_audit_action :: "string \<Rightarrow> string" where
  "resolution_audit_action action =
     (if action = ''dismiss'' then ''dismiss_report''
      else if action = ''escalate'' then ''escalate''
      else if action = ''delete'' then ''resolve:delete''
      else if action = ''kick'' then ''resolve:kick''
      else if action = ''ban'' then ''resolve:ban''
      else if action = ''timeout'' then ''resolve:timeout''
      else ''resolve:unknown'')"

definition resolution_vocabulary :: "string \<Rightarrow> string \<Rightarrow> (string, unit) result" where
  "resolution_vocabulary status action =
     (if status \<noteq> ''resolved'' \<and> status \<noteq> ''dismissed''
      then Err (mod_invalid (''invalid status: '' @ status @ '' (expect resolved|dismissed)''))
      else if action \<notin> {''delete'', ''kick'', ''ban'', ''timeout'', ''dismiss'', ''escalate''}
      then Err (mod_invalid (''invalid action: '' @ action @ '' (expect delete|kick|ban|timeout|dismiss|escalate)''))
      else if (action = ''dismiss'') \<noteq> (status = ''dismissed'')
      then Err (mod_invalid ''action `dismiss` pairs only with status `dismissed`'')
      else Ok ())"

fun target_columns :: "report_target \<Rightarrow> hex_string option \<times> hex_string option" where
  "target_columns (TargetPubkey k) = (Some k, None)"
| "target_columns (TargetEvent i) = (None, Some i)"
| "target_columns (TargetBlob _) = (None, None)"

definition resolution_summary :: "string option \<Rightarrow> string \<Rightarrow> string" where
  "resolution_summary reason status =
     (case reason of
        Some r \<Rightarrow> r
      | None \<Rightarrow> if status = ''dismissed'' then ''Your report was reviewed and dismissed.''
                else ''Your report was reviewed and acted on.'')"

definition report_closed_message :: string where
  "report_closed_message = mod_invalid ''report is not open (already resolved or dismissed)''"

definition handle_resolve :: "command_clock \<Rightarrow> community_id \<Rightarrow> event \<Rightarrow> hex_string \<Rightarrow> moderation_db \<Rightarrow> command_step" where
  "handle_resolve ck c ev actor db =
     and_then (check (ok_or (extract_report_tag ev)
       (mod_invalid ''missing or invalid report tag (expect 64-hex event id)'')) db) (\<lambda>report_event db.
     and_then (check (ok_or (named_value ev ''status'') (mod_invalid ''missing status tag'')) db) (\<lambda>status db.
     and_then (check (ok_or (named_value ev ''action'') (mod_invalid ''missing action tag'')) db) (\<lambda>action db.
     (let reason = named_value ev ''reason'' in
     and_then (check (resolution_vocabulary status action) db) (\<lambda>_ db.
     and_then (check (map_err authz_denial
       (authorize_moderation_action db c actor None (OnEvent report_event) ResolveReport)) db) (\<lambda>_ db.
     and_then (check (ok_or (get_report_by_event db c report_event)
       (mod_invalid ''report not found in this community'')) db) (\<lambda>report db.
     if rp_status report \<noteq> ''open'' then (Err report_closed_message, db)
     else
     and_then (insert_audit ck c actor (resolution_audit_action action)
       (fst (target_columns (rp_target report))) (snd (target_columns (rp_target report))) reason db) (\<lambda>action_id db.
     and_then (run_stmt (mod_error ''database error'')
       (resolve_report (ck_now ck) c (rp_id report) status actor (Some action_id)) db) (\<lambda>resolved db.
     if \<not> resolved then (Err report_closed_message, db)
     else (Ok [ReportNotice (rp_reporter report) (rp_id report) status (resolution_summary reason status)], db))))))))))"

definition ensure_actor_not_banned :: "restriction \<Rightarrow> (string, unit) result" where
  "ensure_actor_not_banned r =
     (if rs_banned r then Err ''blocked: you are banned from this community'' else Ok ())"

definition handle_moderation_command :: "command_clock \<Rightarrow> community_id \<Rightarrow> event \<Rightarrow> moderation_db \<Rightarrow> command_step" where
  "handle_moderation_command ck c ev db =
     (let actor = ev_pubkey ev in
      and_then (check (ensure_actor_not_banned (restriction_state (ck_now ck) db c actor)) db) (\<lambda>_ db.
      if stale_command ck ev then (Err (mod_invalid ''event timestamp out of range''), db)
      else if ev_kind ev = KIND_MODERATION_BAN then handle_ban ck c ev actor db
      else if ev_kind ev = KIND_MODERATION_UNBAN then handle_unban ck c ev actor db
      else if ev_kind ev = KIND_MODERATION_TIMEOUT then handle_timeout ck c ev actor db
      else if ev_kind ev = KIND_MODERATION_UNTIMEOUT then handle_untimeout ck c ev actor db
      else if ev_kind ev = KIND_MODERATION_RESOLVE_REPORT then handle_resolve ck c ev actor db
      else (Err (mod_invalid (''unexpected moderation command kind: '' @ nat_to_string (ev_kind ev))), db)))"

section \<open>The roster\<close>

datatype relay_admin_error = Banned | RosterRejected string

definition admits_relay_admin_command :: "restriction \<Rightarrow> (relay_admin_error, unit) result" where
  "admits_relay_admin_command r = (if rs_banned r then Err Banned else Ok ())"

definition is_control :: "char \<Rightarrow> bool" where
  "is_control ch \<longleftrightarrow> (of_char ch :: nat) < 32 \<or> (of_char ch :: nat) = 127"

definition MAX_WORKSPACE_ICON_URL_LEN :: nat where "MAX_WORKSPACE_ICON_URL_LEN = 2048"
definition MAX_WORKSPACE_ICON_DATA_URL_LEN :: nat where "MAX_WORKSPACE_ICON_DATA_URL_LEN = 98304"

text \<open>Control characters and white space beyond ASCII are not recognised here.\<close>

definition validate_workspace_icon :: "string \<Rightarrow> (string, unit) result" where
  "validate_workspace_icon icon =
     (if icon = [] then Ok ()
      else if list_ex (\<lambda>ch. is_control ch \<or> is_space ch) icon then Err ''icon contains invalid characters''
      else if starts_with icon ''data:image/'' then
        if MAX_WORKSPACE_ICON_DATA_URL_LEN < length icon
        then Err (''icon data URL too long: '' @ nat_to_string (length icon) @ '' bytes (max 98304)'') else Ok ()
      else if \<not> starts_with icon ''https://'' \<and> \<not> starts_with icon ''http://''
      then Err ''icon must be an http(s) URL or data:image/* URL''
      else if MAX_WORKSPACE_ICON_URL_LEN < length icon
      then Err (''icon URL too long: '' @ nat_to_string (length icon) @ '' bytes (max 2048)'')
      else Ok ())"

text \<open>The commands change only the tables of the tenants.\<close>

type_synonym roster_step = "(string, command_effect list, tenant_db) step"

definition add_member_command ::
    "command_clock \<Rightarrow> community_id \<Rightarrow> event \<Rightarrow> string \<Rightarrow> hex_string \<Rightarrow> tenant_db \<Rightarrow> roster_step" where
  "add_member_command ck c ev sender_role target db =
     (let role = (case named_value ev ''role'' of Some r \<Rightarrow> r | None \<Rightarrow> ''member'') in
      if sender_role \<noteq> ''admin'' \<and> sender_role \<noteq> ''owner''
      then (Err ''actor not authorized: must be admin or owner'', db)
      else if role = ''owner'' then (Err ''invalid role: use kind:9032 to promote to owner'', db)
      else if role = ''admin'' \<and> sender_role \<noteq> ''owner''
      then (Err ''actor not authorized: only owner can grant admin role'', db)
      else if role \<noteq> ''admin'' \<and> role \<noteq> ''member'' then (Err (''invalid role: '' @ role), db)
      else
        and_then (run_stmt ''database error'' (add_relay_member (ck_now ck) c target role (Some (ev_pubkey ev))) db)
          (\<lambda>inserted db. (Ok (if inserted then [MemberAdded target, MembershipList] else []), db)))"

definition remove_member_command ::
    "community_id \<Rightarrow> event \<Rightarrow> string \<Rightarrow> hex_string \<Rightarrow> tenant_db \<Rightarrow> roster_step" where
  "remove_member_command c ev sender_role target db =
     (if sender_role \<noteq> ''admin'' \<and> sender_role \<noteq> ''owner''
      then (Err ''actor not authorized: must be admin or owner'', db)
      else if target = ev_pubkey ev then (Err ''cannot remove yourself'', db)
      else
        (case (if sender_role = ''admin'' then remove_relay_member_if_role c target ''member'' db
               else remove_relay_member c target db) of
           (Removed, db') \<Rightarrow> (Ok [MemberRemoved target, MembershipList], db')
         | (IsOwner, db') \<Rightarrow> (Err ''cannot remove the relay owner'', db')
         | (NoSuchMember, db') \<Rightarrow> (Err (''member not found: '' @ target), db')
         | (RoleMismatch, db') \<Rightarrow> (Err ''actor not authorized: admins can only remove members'', db')))"

definition change_role_command ::
    "command_clock \<Rightarrow> community_id \<Rightarrow> event \<Rightarrow> string \<Rightarrow> hex_string \<Rightarrow> tenant_db \<Rightarrow> roster_step" where
  "change_role_command ck c ev sender_role target db =
     (if sender_role \<noteq> ''owner'' then (Err ''actor not authorized: must be owner'', db)
      else if target = ev_pubkey ev then (Err ''cannot change your own role'', db)
      else
        (case named_value ev ''role'' of
           None \<Rightarrow> (Err ''missing role tag'', db)
         | Some role \<Rightarrow>
             if role = ''owner'' then (Err ''cannot set role to owner'', db)
             else if role \<noteq> ''admin'' \<and> role \<noteq> ''member'' then (Err (''invalid role: '' @ role), db)
             else
               and_then (run_stmt ''database error'' (update_relay_member_role (ck_now ck) c target role) db)
                 (\<lambda>updated db.
                 if \<not> updated then
                   (Err (if is_relay_member db c target then ''cannot change the relay owner's role''
                         else ''member not found: '' @ target), db)
                 else (Ok [MembershipList], db))))"

definition execute_relay_admin_command :: "command_clock \<Rightarrow> community_id \<Rightarrow> event \<Rightarrow> tenant_db \<Rightarrow> roster_step" where
  "execute_relay_admin_command ck c ev db =
     (if stale_command ck ev then (Err ''event timestamp out of range'', db)
      else
        (let sender_role = unwrap_or_empty (relay_role db c (ev_pubkey ev)); icon = unwrap_or_empty (named_value ev ''icon'') in
         if ev_kind ev = RELAY_ADMIN_SET_WORKSPACE_PROFILE then
           if sender_role \<noteq> ''admin'' \<and> sender_role \<noteq> ''owner''
           then (Err ''actor not authorized: must be admin or owner'', db)
           else and_then (check (validate_workspace_icon icon) db) (\<lambda>_ db.
             (Ok [], set_community_icon c (if icon = [] then None else Some icon) db))
         else
           and_then (check (ok_or (extract_p_tag_bytes ev) ''missing or invalid p tag'') db) (\<lambda>target db.
           if ev_kind ev = RELAY_ADMIN_ADD_MEMBER then add_member_command ck c ev sender_role target db
           else if ev_kind ev = RELAY_ADMIN_REMOVE_MEMBER then remove_member_command c ev sender_role target db
           else if ev_kind ev = RELAY_ADMIN_CHANGE_ROLE then change_role_command ck c ev sender_role target db
           else (Err (''unexpected relay admin kind: '' @ nat_to_string (ev_kind ev)), db))))"

definition handle_relay_admin_event ::
    "command_clock \<Rightarrow> community_id \<Rightarrow> event \<Rightarrow> moderation_db
     \<Rightarrow> (relay_admin_error, command_effect list, moderation_db) step" where
  "handle_relay_admin_event ck c ev db =
     and_then (check (admits_relay_admin_command (restriction_state (ck_now ck) db c (ev_pubkey ev))) db) (\<lambda>_ db.
     (case execute_relay_admin_command ck c ev (md_tenants db) of
        (r, tenants) \<Rightarrow> (map_err RosterRejected r, db\<lparr>md_tenants := tenants\<rparr>)))"

text \<open>The leave request; \<open>enabled\<close> is the configured \<open>require_relay_membership\<close>.\<close>

definition handle_relay_leave ::
    "command_clock \<Rightarrow> bool \<Rightarrow> community_id \<Rightarrow> event \<Rightarrow> tenant_db \<Rightarrow> roster_step" where
  "handle_relay_leave ck enabled c ev db =
     (if \<not> enabled then (Err ''invalid: relay membership is not enabled'', db)
      else if stale_command ck ev then (Err ''invalid: leave request timestamp out of range'', db)
      else if \<not> list_ex (\<lambda>t. t \<noteq> [] \<and> t ! 0 = ''-'') (ev_tags ev)
      then (Err ''invalid: leave request must include NIP-70 protected event tag [\"-\"]'', db)
      else
        (case remove_relay_member c (ev_pubkey ev) db of
           (Removed, db') \<Rightarrow> (Ok [MemberRemoved (ev_pubkey ev), MembershipList], db')
         | (NoSuchMember, db') \<Rightarrow> (Err ''invalid: you are not a relay member'', db')
         | (IsOwner, db') \<Rightarrow> (Err ''invalid: relay owner cannot leave'', db')
         | (RoleMismatch, db') \<Rightarrow> (Err ''unexpected RoleMismatch from remove_relay_member'', db')))"

end
