(* ===== verification/Community_Laws.thy ===== *)
theory Community_Laws
  imports Moderation_Commands
begin

text \<open>
  What the roster of a community keeps: one row for a key, one owner, the owner's place and the
  limits on ownership and invites, for every sequence of the operations that write it.
\<close>

section \<open>Operations\<close>

text \<open>
  The operations of clients, operators and the relay itself. A stateless invite grants the role
  member only (\<open>invite_token::verify_invite\<close>).
\<close>

datatype community_op =
    CreateCommunity community_id string hex_string
  | EnsureCommunity community_id string
  | BootstrapOwner community_id hex_string
  | TransferOwnership community_id hex_string hex_string
  | ArchiveCommunity string hex_string string
  | UnarchiveCommunity string hex_string
  | BackfillAllowlist "(community_id \<times> hex_string \<times> int) list option" community_id
  | MintInvite hex_string community_id hex_string nat "int option"
  | ReapInvites int
  | ClaimInvite community_id hex_string hex_string "string option"
  | ClaimStateless community_id hex_string "string option"
  | Leave bool community_id event
  | RosterCommand community_id event

definition kept :: "('e, 'a \<times> 's) result \<Rightarrow> 's \<Rightarrow> 's" where
  "kept r s = (case r of Ok (_, s') \<Rightarrow> s' | Err _ \<Rightarrow> s)"

definition kept_unit :: "('e, 's) result \<Rightarrow> 's \<Rightarrow> 's" where
  "kept_unit r s = (case r of Ok s' \<Rightarrow> s' | Err _ \<Rightarrow> s)"

fun run_community_op :: "int \<Rightarrow> int \<Rightarrow> command_clock \<Rightarrow> community_op \<Rightarrow> tenant_db \<Rightarrow> tenant_db" where
  "run_community_op limit second ck (CreateCommunity fresh host owner) db =
     kept (create_community_with_owner limit (ck_now ck) fresh host owner db) db"
| "run_community_op limit second ck (EnsureCommunity fresh host) db =
     kept (ensure_configured_community (ck_now ck) fresh host db) db"
| "run_community_op limit second ck (BootstrapOwner c owner) db = kept_unit (bootstrap_owner (ck_now ck) c owner db) db"
| "run_community_op limit second ck (TransferOwnership c new old) db =
     kept (transfer_ownership limit (ck_now ck) c new old db) db"
| "run_community_op limit second ck (ArchiveCommunity host owner protected) db =
     snd (archive_community_owned_by (ck_now ck) host owner protected db)"
| "run_community_op limit second ck (UnarchiveCommunity host owner) db = snd (unarchive_community_owned_by host owner db)"
| "run_community_op limit second ck (BackfillAllowlist rows c) db = kept (backfill_from_allowlist (ck_now ck) rows c db) db"
| "run_community_op limit second ck (MintInvite token c by ttl uses) db =
     kept (mint_relay_invite second (ck_now ck) (ck_fresh ck) token c by ttl uses db) db"
| "run_community_op limit second ck (ReapInvites cutoff) db = snd (reap_expired_relay_invites cutoff db)"
| "run_community_op limit second ck (ClaimInvite c token pk version) db =
     kept (claim_relay_invite (ck_now ck) c token pk version db) db"
| "run_community_op limit second ck (ClaimStateless c pk version) db =
     kept (claim_relay_membership (ck_now ck) c pk ''member'' version db) db"
| "run_community_op limit second ck (Leave enabled c ev) db = snd (handle_relay_leave ck enabled c ev db)"
| "run_community_op limit second ck (RosterCommand c ev) db = snd (execute_relay_admin_command ck c ev db)"

definition run_community_ops :: "int \<Rightarrow> int \<Rightarrow> (command_clock \<times> community_op) list \<Rightarrow> tenant_db \<Rightarrow> tenant_db" where
  "run_community_ops limit second ops db = fold (\<lambda>(ck, op). run_community_op limit second ck op) ops db"

definition no_tenants :: tenant_db where
  "no_tenants = \<lparr>tn_communities = [], tn_members = [], tn_acceptances = [], tn_invites = []\<rparr>"

section \<open>One owner\<close>

definition owners_of :: "tenant_db \<Rightarrow> community_id \<Rightarrow> relay_member list" where
  "owners_of db c = filter (owner_row c) (tn_members db)"

definition member_keys :: "tenant_db \<Rightarrow> (community_id \<times> hex_string) list" where
  "member_keys db = map (\<lambda>r. (rm_community r, rm_pubkey r)) (tn_members db)"

definition roster_ok :: "tenant_db \<Rightarrow> bool" where
  "roster_ok db \<longleftrightarrow>
     distinct (member_keys db)
     \<and> (\<forall>k \<in> set (member_keys db). community_exists db (fst k))
     \<and> (\<forall>c. length (owners_of db c) \<le> 1)"

text \<open>How an operation may change the owners: not at all, or to one owner of one community.\<close>

definition owners_kept :: "tenant_db \<Rightarrow> tenant_db \<Rightarrow> bool" where
  "owners_kept db db' \<longleftrightarrow>
     (\<forall>c. owners_of db' c = owners_of db c \<or> length (owners_of db' c) = 1)"

lemma is_relay_member_iff: "is_relay_member db c pk \<longleftrightarrow> (c, pk) \<in> set (member_keys db)"
  by (auto simp: is_relay_member_def member_keys_def relay_member_at_def list_ex_iff)

lemma owners_of_simps [simp]:
  "owners_of (db\<lparr>tn_communities := cs\<rparr>) c = owners_of db c"
  "owners_of (db\<lparr>tn_acceptances := as\<rparr>) c = owners_of db c"
  "owners_of (db\<lparr>tn_invites := is\<rparr>) c = owners_of db c"
  "member_keys (db\<lparr>tn_communities := cs\<rparr>) = member_keys db"
  "member_keys (db\<lparr>tn_acceptances := as\<rparr>) = member_keys db"
  "member_keys (db\<lparr>tn_invites := is\<rparr>) = member_keys db"
  by (simp_all add: owners_of_def member_keys_def)

lemma member_keys_append [simp]:
  "member_keys (db\<lparr>tn_members := tn_members db @ rs\<rparr>) = member_keys db @ map (\<lambda>r. (rm_community r, rm_pubkey r)) rs"
  by (simp add: member_keys_def)

lemma owners_of_append [simp]:
  "owners_of (db\<lparr>tn_members := tn_members db @ rs\<rparr>) c = owners_of db c @ filter (owner_row c) rs"
  by (simp add: owners_of_def)


text \<open>
  Every operation does one of these to the roster: nothing, adding rows of new keys with roles
  below owner, deleting rows that are not owners, giving a role below owner to rows that are not
  owners, or installing one owner.
\<close>

definition roster_extends :: "tenant_db \<Rightarrow> tenant_db \<Rightarrow> bool" where
  "roster_extends db db' \<longleftrightarrow>
     (roster_ok db \<longrightarrow> roster_ok db' \<and> owners_kept db db')"

lemma roster_extendsI:
  "(roster_ok db \<Longrightarrow> roster_ok db' \<and> owners_kept db db') \<Longrightarrow> roster_extends db db'"
  by (simp add: roster_extends_def)

lemma owners_kept_refl [simp]: "owners_kept db db"
  by (simp add: owners_kept_def)

lemma roster_extends_refl [simp]: "roster_extends db db"
  by (simp add: roster_extends_def)

lemma roster_extends_trans:
  assumes "roster_extends a b" and "roster_extends b d"
  shows "roster_extends a d"
proof (rule roster_extendsI)
  assume "roster_ok a"
  then have ok: "roster_ok b" "roster_ok d" and kept: "owners_kept a b" "owners_kept b d"
    using assms by (auto simp: roster_extends_def)
  have "owners_kept a d"
    unfolding owners_kept_def
  proof (rule allI)
    fix c
    show "owners_of d c = owners_of a c \<or> length (owners_of d c) = 1"
      using kept unfolding owners_kept_def by (metis)
  qed
  with ok show "roster_ok d \<and> owners_kept a d"
    by simp
qed

lemma same_roster:
  assumes "tn_members db' = tn_members db"
    and "\<And>c. community_exists db c \<Longrightarrow> community_exists db' c"
  shows "roster_extends db db'"
  using assms by (auto simp: roster_extends_def roster_ok_def owners_kept_def owners_of_def member_keys_def)

lemma new_rows:
  assumes "tn_members db' = tn_members db @ rs" and "tn_communities db' = tn_communities db"
    and "list_all (\<lambda>r. rm_role r \<noteq> ''owner'' \<and> community_exists db (rm_community r)) rs"
    and "distinct (map (\<lambda>r. (rm_community r, rm_pubkey r)) rs)"
    and "set (map (\<lambda>r. (rm_community r, rm_pubkey r)) rs) \<inter> set (member_keys db) = {}"
  shows "roster_extends db db'"
proof -
  have "filter (owner_row c) rs = []" for c
    using assms(3) by (auto simp: filter_empty_conv owner_row_def list_all_iff)
  moreover have "community_exists db' c = community_exists db c" for c
    using assms(2) by (simp add: community_exists_def)
  moreover have "member_keys db' = member_keys db @ map (\<lambda>r. (rm_community r, rm_pubkey r)) rs"
    using assms(1) by (simp add: member_keys_def)
  ultimately show ?thesis
    using assms by (auto simp: roster_extends_def roster_ok_def owners_kept_def owners_of_def list_all_iff)
qed

lemma deleted_rows:
  assumes "\<And>r. p r \<Longrightarrow> rm_role r \<noteq> ''owner''"
  shows "roster_extends db (delete_members p db)"
proof -
  have "filter (owner_row c) (filter (\<lambda>r. \<not> p r) ms) = filter (owner_row c) ms" for c ms
    using assms by (induction ms) (auto simp: owner_row_def)
  then show ?thesis
    by (auto simp: roster_extends_def roster_ok_def owners_kept_def owners_of_def delete_members_def
        community_exists_def member_keys_def distinct_map_filter)
qed

lemma updated_keys: "member_keys (update_members p now role db) = member_keys db"
  by (simp add: member_keys_def update_members_def comp_def if_distrib cong: if_cong)

lemma updated_rows:
  assumes "\<And>r. p r \<Longrightarrow> rm_role r \<noteq> ''owner''" and "role \<noteq> ''owner''"
  shows "roster_extends db (update_members p now role db)"
proof -
  have owners: "filter (owner_row c) (map (\<lambda>r. if p r then r\<lparr>rm_role := role, rm_updated_at := now\<rparr> else r) ms)
      = filter (owner_row c) ms" for c ms
    using assms by (induction ms) (auto simp: owner_row_def)
  have "community_exists (update_members p now role db) = community_exists db"
    by (simp add: fun_eq_iff community_exists_def update_members_def)
  moreover have "owners_of (update_members p now role db) c = owners_of db c" for c
    by (simp add: owners_of_def owners update_members_def)
  ultimately show ?thesis
    by (simp add: roster_extends_def roster_ok_def owners_kept_def updated_keys)
qed


text \<open>Installing an owner: the upsert and the demotion of the others.\<close>

abbreviation key_of :: "relay_member \<Rightarrow> community_id \<times> hex_string" where
  "key_of r \<equiv> (rm_community r, rm_pubkey r)"

lemma upsert_ownerE:
  assumes "upsert_owner now c pk db = Ok db1"
  obtains "(c, pk) \<in> set (member_keys db)" "db1 = update_members (relay_member_at c pk) now ''owner'' db"
  | "(c, pk) \<notin> set (member_keys db)" "community_exists db c"
    "db1 = db\<lparr>tn_members := tn_members db @ [new_relay_member now c pk ''owner'' None]\<rparr>"
  using assms by (auto simp: upsert_owner_def is_relay_member_iff split: if_splits)

lemma update_members_communities [simp]: "tn_communities (update_members p now role db) = tn_communities db"
  by (simp add: update_members_def)

lemma community_exists_cong: "tn_communities a = tn_communities b \<Longrightarrow> community_exists a = community_exists b"
  by (simp add: fun_eq_iff community_exists_def)

lemma upsert_owner_keys:
  assumes "upsert_owner now c pk db = Ok db1" and "roster_ok db"
  shows "distinct (member_keys db1) \<and> (\<forall>k \<in> set (member_keys db1). community_exists db (fst k))
      \<and> (c, pk) \<in> set (member_keys db1) \<and> tn_communities db1 = tn_communities db"
  using assms(1)
proof (cases rule: upsert_ownerE)
  case 1
  then show ?thesis
    using assms(2) by (simp add: roster_ok_def updated_keys)
next
  case 2
  then show ?thesis
    using assms(2) by (simp add: roster_ok_def new_relay_member_def)
qed

lemma upsert_owner_owner:
  assumes "upsert_owner now c pk db = Ok db1" and r: "r \<in> set (tn_members db1)" and k: "key_of r = (c, pk)"
  shows "rm_role r = ''owner''"
  using assms(1)
proof (cases rule: upsert_ownerE)
  case 1
  then have "r \<in> (\<lambda>r. if relay_member_at c pk r then r\<lparr>rm_role := ''owner'', rm_updated_at := now\<rparr> else r) ` set (tn_members db)"
    using r by (simp add: update_members_def)
  then obtain r0 where "r = (if relay_member_at c pk r0 then r0\<lparr>rm_role := ''owner'', rm_updated_at := now\<rparr> else r0)"
    by blast
  then show ?thesis
    using k by (auto simp: relay_member_at_def split: if_splits)
next
  case 2
  have "r \<notin> set (tn_members db)"
    using 2(1) k by (metis (no_types, lifting) image_eqI list.set_map member_keys_def)
  then show ?thesis
    using 2(3) r by (simp add: new_relay_member_def)
qed

lemma upsert_owner_elsewhere:
  assumes "upsert_owner now c pk db = Ok db1" and "c' \<noteq> c"
  shows "owners_of db1 c' = owners_of db c'"
  using assms(1)
proof (cases rule: upsert_ownerE)
  case 1
  have "filter (owner_row c') (map (\<lambda>r. if relay_member_at c pk r
        then r\<lparr>rm_role := ''owner'', rm_updated_at := now\<rparr> else r) ms) = filter (owner_row c') ms" for ms
    using assms(2) by (induction ms) (auto simp: owner_row_def relay_member_at_def)
  with 1 show ?thesis
    by (simp add: owners_of_def update_members_def)
next
  case 2
  with assms(2) show ?thesis
    by (simp add: owner_row_def new_relay_member_def)
qed

lemma demoted_others:
  assumes "role \<noteq> ''owner''"
  shows "\<forall>r \<in> set ms. key_of r = (c, pk) \<longrightarrow> rm_role r = ''owner'' \<Longrightarrow>
      filter (owner_row c) (map (\<lambda>r. if owner_row c r \<and> rm_pubkey r \<noteq> pk
        then r\<lparr>rm_role := role, rm_updated_at := now\<rparr> else r) ms) = filter (\<lambda>r. key_of r = (c, pk)) ms"
    and "c' \<noteq> c \<Longrightarrow>
      filter (owner_row c') (map (\<lambda>r. if owner_row c r \<and> rm_pubkey r \<noteq> pk
        then r\<lparr>rm_role := role, rm_updated_at := now\<rparr> else r) ms) = filter (owner_row c') ms"
  using assms by (induction ms) (auto simp: owner_row_def)

lemma one_with_key: "distinct (map f xs) \<Longrightarrow> k \<in> set (map f xs) \<Longrightarrow> length (filter (\<lambda>x. f x = k) xs) = 1"
  by (induction xs) (auto simp: filter_empty_conv image_iff)

lemma installed_owner:
  assumes up: "upsert_owner now c pk db = Ok db1" and role: "role \<noteq> ''owner''"
  shows "roster_extends db (demote_others now c pk role db1)"
proof (rule roster_extendsI)
  assume ok: "roster_ok db"
  let ?db2 = "demote_others now c pk role db1"
  have keys: "distinct (member_keys db1)" "\<forall>k \<in> set (member_keys db1). community_exists db (fst k)"
      "(c, pk) \<in> set (member_keys db1)" "tn_communities db1 = tn_communities db"
    using upsert_owner_keys [OF up ok] by blast+
  have keys2: "member_keys ?db2 = member_keys db1"
    by (simp add: demote_others_def updated_keys)
  have "owners_of ?db2 c = filter (\<lambda>r. key_of r = (c, pk)) (tn_members db1)"
    using upsert_owner_owner [OF up] demoted_others(1) [OF role]
    by (simp add: owners_of_def demote_others_def update_members_def)
  then have one: "length (owners_of ?db2 c) = 1"
    using one_with_key [OF keys(1,3) [unfolded member_keys_def]] by simp
  have there: "owners_of ?db2 c' = owners_of db c'" if "c' \<noteq> c" for c'
    using upsert_owner_elsewhere [OF up that] demoted_others(2) [OF role that]
    by (simp add: owners_of_def demote_others_def update_members_def)
  have "length (owners_of ?db2 c') \<le> 1" for c'
    using one there [of c'] ok by (cases "c' = c") (auto simp: roster_ok_def)
  moreover have "community_exists ?db2 = community_exists db"
    using keys(4) by (intro community_exists_cong) (simp add: demote_others_def)
  ultimately have "roster_ok ?db2"
    using keys by (simp add: roster_ok_def keys2)
  moreover have "owners_kept db ?db2"
    using one there unfolding owners_kept_def by metis
  ultimately show "roster_ok ?db2 \<and> owners_kept db ?db2" by simp
qed

section \<open>Every operation\<close>

lemma kept_cases: "(\<And>x s'. r = Ok (x, s') \<Longrightarrow> roster_extends s s') \<Longrightarrow> roster_extends s (kept r s)"
  by (auto simp: kept_def split: result.split)

lemma added_member:
  assumes "add_relay_member now c pk role by db = Ok (x, db')" and "role \<noteq> ''owner''"
  shows "roster_extends db db'"
proof (cases "is_relay_member db c pk")
  case True
  with assms(1) show ?thesis by (simp add: add_relay_member_def split: if_splits)
next
  case False
  with assms show ?thesis
    by (intro new_rows [of _ _ "[new_relay_member now c pk role by]"])
      (auto simp: add_relay_member_def is_relay_member_iff new_relay_member_def split: if_splits)
qed

lemma recorded_acceptance: "record_acceptance c pk version db = Ok db' \<Longrightarrow> roster_extends db db'"
  by (rule same_roster) (auto simp: record_acceptance_def community_exists_def split: option.splits if_splits)

lemma claimed_membership:
  "claim_relay_membership now c pk ''member'' version db = Ok (x, db') \<Longrightarrow> roster_extends db db'"
  by (auto simp: claim_relay_membership_def result_simps intro: roster_extends_trans added_member recorded_acceptance)

lemma consumed_invite: "roster_extends db (consume_invite row db)"
  by (rule same_roster) (simp_all add: consume_invite_def community_exists_def)

lemma claimed_invite: "claim_relay_invite now c token pk version db = Ok (x, db') \<Longrightarrow> roster_extends db db'"
  unfolding claim_relay_invite_def
  by (auto simp: result_simps split: option.splits if_splits
      intro: recorded_acceptance roster_extends_trans [OF added_member roster_extends_trans [OF recorded_acceptance consumed_invite]]
        roster_extends_trans [OF added_member recorded_acceptance])

lemma removed_member:
  "roster_extends db (snd (remove_relay_member c pk db))"
  "e \<noteq> ''owner'' \<Longrightarrow> roster_extends db (snd (remove_relay_member_if_role c pk e db))"
  by (auto simp: remove_relay_member_def remove_relay_member_if_role_def Let_def split: option.split intro: deleted_rows)

lemma changed_role:
  "update_relay_member_role now c pk role db = Ok (x, db') \<Longrightarrow> role \<noteq> ''owner'' \<Longrightarrow> roster_extends db db'"
  by (auto simp: update_relay_member_role_def Let_def split: if_splits intro: updated_rows)

lemma transferred: "transfer_ownership limit now c new old db = Ok (x, db') \<Longrightarrow> roster_extends db db'"
  by (auto simp: transfer_ownership_def Let_def result_simps split: if_splits intro: installed_owner)

lemma bootstrapped: "bootstrap_owner now c owner db = Ok db' \<Longrightarrow> roster_extends db db'"
  by (auto simp: bootstrap_owner_def Let_def result_simps intro: installed_owner)

lemma backfill_rows:
  "\<exists>rs. fold (backfill_row now c) hits ms = ms @ rs \<and> list_all (\<lambda>r. rm_role r = ''member'' \<and> rm_community r = c) rs
     \<and> distinct (map key_of rs) \<and> set (map key_of rs) \<inter> set (map key_of ms) = {} \<and> (hits = [] \<longrightarrow> rs = [])"
proof (induction hits arbitrary: ms)
  case Nil
  then show ?case by simp
next
  case (Cons h hits)
  let ?new = "\<lparr>rm_community = c, rm_pubkey = fst h, rm_role = ''member'', rm_added_by = None,
      rm_created_at = snd h, rm_updated_at = now\<rparr>"
  show ?case
  proof (cases "list_ex (relay_member_at c (fst h)) ms")
    case True
    then have "backfill_row now c h ms = ms" by (simp add: backfill_row_def)
    with Cons.IH [of ms] show ?thesis by auto
  next
    case False
    then have "(c, fst h) \<notin> set (map key_of ms)"
      by (auto simp: list_ex_iff relay_member_at_def)
    moreover obtain rs where "fold (backfill_row now c) hits (ms @ [?new]) = (ms @ [?new]) @ rs"
        "list_all (\<lambda>r. rm_role r = ''member'' \<and> rm_community r = c) rs" "distinct (map key_of rs)"
        "set (map key_of rs) \<inter> set (map key_of (ms @ [?new])) = {}"
      using Cons.IH [of "ms @ [?new]"] by blast
    moreover have "backfill_row now c h ms = ms @ [?new]"
      using False by (simp add: backfill_row_def)
    ultimately show ?thesis
      by (intro exI [of _ "?new # rs"]) auto
  qed
qed

lemma backfilled: "backfill_from_allowlist now rows c db = Ok (x, db') \<Longrightarrow> roster_extends db db'"
proof (cases rows)
  case None
  then show "backfill_from_allowlist now rows c db = Ok (x, db') \<Longrightarrow> ?thesis"
    by (simp add: backfill_from_allowlist_def)
next
  case (Some rs)
  let ?hits = "map snd (filter (\<lambda>row. fst row = c) rs)"
  assume r: "backfill_from_allowlist now rows c db = Ok (x, db')"
  obtain new where new: "fold (backfill_row now c) ?hits (tn_members db) = tn_members db @ new"
      "list_all (\<lambda>r. rm_role r = ''member'' \<and> rm_community r = c) new" "distinct (map key_of new)"
      "set (map key_of new) \<inter> set (map key_of (tn_members db)) = {}" "?hits = [] \<longrightarrow> new = []"
    using backfill_rows [of now c ?hits "tn_members db"] by blast
  show ?thesis
  proof (cases "list_ex (\<lambda>r. rm_community r = c) (tn_members db)")
    case True
    with r Some show ?thesis by (simp add: backfill_from_allowlist_def)
  next
    case False
    then have "db' = db\<lparr>tn_members := tn_members db @ new\<rparr>" "?hits = [] \<or> community_exists db c"
      using r Some new(1) by (auto simp: backfill_from_allowlist_def Let_def split: if_splits)
    with new show ?thesis
      by (intro new_rows [of _ _ new]) (auto simp: member_keys_def list_all_iff)
  qed
qed

lemma created_community:
  assumes r: "create_community_with_owner limit now fresh host owner db = Ok (x, db')"
  shows "roster_extends db db'"
proof (cases "db' = db")
  case False
  let ?row = "new_relay_member now fresh (ascii_lower owner) ''owner'' None"
  have db': "db' = db\<lparr>tn_communities := tn_communities db @ [new_community now fresh host],
        tn_members := tn_members db @ [?row]\<rparr>" and fresh: "\<not> community_exists db fresh"
    using r False by (auto simp: create_community_with_owner_def Let_def fresh_community_def
        split: if_splits option.splits)
  have exists: "community_exists db' c \<longleftrightarrow> community_exists db c \<or> c = fresh" for c
    by (auto simp: db' community_exists_def new_community_def)
  have keys: "member_keys db' = member_keys db @ [(fresh, ascii_lower owner)]"
    by (simp add: db' member_keys_def new_relay_member_def)
  show ?thesis
  proof (rule roster_extendsI)
    assume ok: "roster_ok db"
    then have "r \<in> set (tn_members db) \<Longrightarrow> rm_community r \<noteq> fresh" for r
      using fresh by (auto simp: roster_ok_def member_keys_def)
    then have none: "owners_of db fresh = []"
      by (auto simp: owners_of_def filter_empty_conv owner_row_def)
    have own: "owners_of db' c = owners_of db c @ (if c = fresh then [?row] else [])" for c
      by (simp add: db' owners_of_def owner_row_def new_relay_member_def)
    have "(fresh, ascii_lower owner) \<notin> set (member_keys db)"
      using ok fresh by (auto simp: roster_ok_def)
    with ok exists keys own none show "roster_ok db' \<and> owners_kept db db'"
      by (auto simp: roster_ok_def owners_kept_def)
  qed
qed simp

lemma same_ids:
  assumes "tn_members db' = tn_members db" and "map co_id (tn_communities db') = map co_id (tn_communities db)"
  shows "roster_extends db db'"
proof (rule same_roster [OF assms(1)])
  fix c
  have "community_exists d c \<longleftrightarrow> c \<in> set (map co_id (tn_communities d))" for d
    by (auto simp: community_exists_def list_ex_iff)
  then show "community_exists db c \<Longrightarrow> community_exists db' c"
    by (simp only: assms(2))
qed

lemma ensured_community: "ensure_configured_community now fresh host db = Ok (x, db') \<Longrightarrow> roster_extends db db'"
  by (rule same_roster)
    (auto simp: ensure_configured_community_def community_exists_def split: option.splits if_splits)

lemma archived: "roster_extends db (snd (archive_community_owned_by now host owner protected db))"
  by (rule same_ids) (simp_all add: archive_community_owned_by_def Let_def comp_def if_distrib cong: if_cong)

lemma unarchived: "roster_extends db (snd (unarchive_community_owned_by host owner db))"
  by (rule same_ids) (simp_all add: unarchive_community_owned_by_def Let_def comp_def if_distrib cong: if_cong)

lemma icon_set: "roster_extends db (set_community_icon c icon db)"
  by (rule same_ids) (simp_all add: set_community_icon_def Let_def comp_def if_distrib cong: if_cong)

lemma minted: "mint_relay_invite second now fresh token c by ttl uses db = Ok (x, db') \<Longrightarrow> roster_extends db db'"
  by (rule same_roster) (auto simp: mint_relay_invite_def community_exists_def Let_def result_simps split: if_splits)

lemma reaped: "roster_extends db (snd (reap_expired_relay_invites cutoff db))"
  by (rule same_roster) (simp_all add: reap_expired_relay_invites_def Let_def community_exists_def)

lemma and_then_snd: "snd (and_then (check r s) f) = (case r of Err e \<Rightarrow> s | Ok x \<Rightarrow> snd (f x s))"
  by (simp add: and_then_def check_def split: result.split)

lemma and_then_stmt_snd:
  "snd (and_then (run_stmt e stmt s) f) = (case stmt s of Err _ \<Rightarrow> s | Ok (x, s') \<Rightarrow> snd (f x s'))"
  by (simp add: and_then_def run_stmt_def split: result.split prod.split)

lemmas step_snd = and_then_snd and_then_stmt_snd

lemma left_relay: "roster_extends db (snd (handle_relay_leave ck enabled c ev db))"
  using removed_member(1) [of db c "ev_pubkey ev"]
  by (auto simp: handle_relay_leave_def split: prod.split remove_result.split)

lemma roster_commands:
  "roster_extends db (snd (add_member_command ck c ev sr target db))"
  "roster_extends db (snd (remove_member_command c ev sr target db))"
  "roster_extends db (snd (change_role_command ck c ev sr target db))"
  subgoal
    by (auto simp: add_member_command_def Let_def step_snd split: result.split intro: added_member)
  subgoal
    using removed_member(1) [of db c target] removed_member(2) [of "''member''" db c target]
    by (auto simp: remove_member_command_def split: prod.split remove_result.split if_splits)
  subgoal
    by (auto simp: change_role_command_def step_snd split: result.split option.split intro: changed_role)
  done

lemma roster_command: "roster_extends db (snd (execute_relay_admin_command ck c ev db))"
  by (auto simp: execute_relay_admin_command_def Let_def step_snd roster_commands icon_set split: result.split)

lemma community_op_extends: "roster_extends db (run_community_op limit second ck op db)"
  by (cases op)
    (auto simp: left_relay roster_command reaped archived unarchived kept_unit_def split: result.split
      intro!: kept_cases intro: created_community ensured_community bootstrapped transferred backfilled minted claimed_invite
        claimed_membership)

lemma community_ops_extend: "roster_extends db (run_community_ops limit second ops db)"
proof (induction ops arbitrary: db)
  case Nil
  then show ?case by (simp add: run_community_ops_def)
next
  case (Cons co ops)
  obtain ck op where "co = (ck, op)" by (cases co)
  with Cons [of "run_community_op limit second ck op db"] community_op_extends [of db limit second ck op]
  show ?case
    by (auto simp: run_community_ops_def intro: roster_extends_trans)
qed

lemma no_tenants_ok: "roster_ok no_tenants"
  by (simp add: roster_ok_def no_tenants_def member_keys_def owners_of_def)


end
