(* ===== verification/Community_Limits.thy ===== *)
theory Community_Limits
  imports Community_Laws
begin

text \<open>
  The two limits that the roster operations enforce: the number of communities a key owns, and the
  number of members an invite admits.
\<close>

section \<open>Ownership\<close>

definition own_key :: "hex_string \<Rightarrow> relay_member \<Rightarrow> bool" where
  "own_key pk r \<longleftrightarrow> rm_pubkey r = pk \<and> rm_role r = ''owner''"

lemma owned_count_eq: "owned_count db pk = length (filter (own_key pk) (tn_members db))"
  by (simp add: owned_count_def own_key_def [abs_def])

lemma owned_count_cong: "tn_members a = tn_members b \<Longrightarrow> owned_count a pk = owned_count b pk"
  by (simp add: owned_count_eq)

lemma owned_below:
  "role \<noteq> ''owner'' \<Longrightarrow>
   length (filter (own_key pk) (map (\<lambda>r. if p r then r\<lparr>rm_role := role, rm_updated_at := now\<rparr> else r) ms))
     \<le> length (filter (own_key pk) ms)"
  by (induction ms) (auto simp: own_key_def)

lemma demoted_count: "role \<noteq> ''owner'' \<Longrightarrow> owned_count (update_members p now role db) pk \<le> owned_count db pk"
  using owned_below by (simp add: owned_count_eq update_members_def)

lemma deleted_count: "owned_count (delete_members p db) pk \<le> owned_count db pk"
proof -
  have "length (filter q (filter (\<lambda>r. \<not> p r) ms)) \<le> length (filter q ms)" for q ms
    by (induction ms) auto
  then show ?thesis
    by (simp add: owned_count_eq delete_members_def)
qed

lemma distinct_head: "distinct (map f (m # ms)) \<Longrightarrow> r \<in> set ms \<Longrightarrow> f r \<noteq> f m"
  by (auto simp: image_iff)

definition promote :: "int \<Rightarrow> community_id \<Rightarrow> hex_string \<Rightarrow> relay_member \<Rightarrow> relay_member" where
  "promote now c w r = (if relay_member_at c w r then r\<lparr>rm_role := ''owner'', rm_updated_at := now\<rparr> else r)"

lemma promote_other [simp]: "\<not> relay_member_at c w r \<Longrightarrow> promote now c w r = r"
  by (simp add: promote_def)

lemma own_promote: "relay_member_at c w r \<Longrightarrow> own_key pk (promote now c w r) \<longleftrightarrow> pk = w"
  by (auto simp: promote_def own_key_def relay_member_at_def)

lemma promoted_rows:
  "distinct (map key_of ms) \<Longrightarrow>
   length (filter (own_key pk) (map (promote now c w) ms)) \<le> length (filter (own_key pk) ms) + (if pk = w then 1 else 0)"
proof (induction ms)
  case (Cons m ms)
  show ?case
  proof (cases "relay_member_at c w m")
    case True
    have "map (promote now c w) ms = ms"
    proof (rule map_idI)
      fix r
      assume "r \<in> set ms"
      then have "key_of r \<noteq> key_of m"
        by (rule distinct_head [OF Cons.prems])
      with True show "promote now c w r = r"
        by (intro promote_other) (auto simp: relay_member_at_def)
    qed
    then show ?thesis
      using own_promote [OF True, of pk now] by simp
  next
    case False
    with Cons show ?thesis by (cases "pk = w") simp_all
  qed
qed simp

lemma installed_count:
  assumes "upsert_owner now c w db = Ok db1" and "roster_ok db" and "role \<noteq> ''owner''"
  shows "owned_count (demote_others now c w role db1) pk \<le> owned_count db pk + (if pk = w then 1 else 0)"
proof -
  have "owned_count db1 pk \<le> owned_count db pk + (if pk = w then 1 else 0)"
    using assms(1)
  proof (cases rule: upsert_ownerE)
    case 1
    with assms(2) show ?thesis
      using promoted_rows [of "tn_members db" pk now c w]
      by (simp add: owned_count_eq update_members_def roster_ok_def member_keys_def promote_def [abs_def])
  next
    case 2
    then show ?thesis
      by (simp add: owned_count_eq own_key_def new_relay_member_def)
  qed
  with demoted_count [OF assms(3)] show ?thesis
    unfolding demote_others_def by (meson order_trans)
qed

definition within :: "int \<Rightarrow> hex_string \<Rightarrow> tenant_db \<Rightarrow> tenant_db \<Rightarrow> bool" where
  "within limit pk db db' \<longleftrightarrow>
     owned_count db' pk \<le> owned_count db pk \<or> int (owned_count db' pk) \<le> limit"

lemma within_le: "owned_count db' pk \<le> owned_count db pk \<Longrightarrow> within limit pk db db'"
  by (simp add: within_def)

lemma within_same: "tn_members db' = tn_members db \<Longrightarrow> within limit pk db db'"
  by (simp add: within_def owned_count_eq)

lemma within_trans: "within limit pk a b \<Longrightarrow> within limit pk b d \<Longrightarrow> within limit pk a d"
  by (auto simp: within_def)

lemma within_refl [simp]: "within limit pk db db"
  by (simp add: within_def)

lemma within_kept: "(\<And>x s'. r = Ok (x, s') \<Longrightarrow> within limit pk s s') \<Longrightarrow> within limit pk s (kept r s)"
  by (auto simp: kept_def split: result.split)

lemma within_added:
  "add_relay_member now c k role by db = Ok (x, db') \<Longrightarrow> role \<noteq> ''owner'' \<Longrightarrow> within limit pk db db'"
  by (auto simp: add_relay_member_def owned_count_eq own_key_def new_relay_member_def intro!: within_le split: if_splits)

lemma within_accepted: "record_acceptance c k version db = Ok db' \<Longrightarrow> within limit pk db db'"
  by (rule within_same) (auto simp: record_acceptance_def split: option.splits if_splits)

lemma within_claimed:
  "claim_relay_membership now c k ''member'' version db = Ok (x, db') \<Longrightarrow> within limit pk db db'"
  by (auto simp: claim_relay_membership_def result_simps intro: within_trans within_added within_accepted)

lemma within_consumed: "within limit pk db (consume_invite row db)"
  by (rule within_same) (simp add: consume_invite_def)

lemma within_claimed_invite: "claim_relay_invite now c token k version db = Ok (x, db') \<Longrightarrow> within limit pk db db'"
  unfolding claim_relay_invite_def
  by (auto simp: result_simps split: option.splits if_splits
      intro: within_accepted within_trans [OF within_added within_trans [OF within_accepted within_consumed]]
        within_trans [OF within_added within_accepted])

lemma within_removed:
  "within limit pk db (snd (remove_relay_member c k db))"
  "within limit pk db (snd (remove_relay_member_if_role c k e db))"
  by (auto simp: remove_relay_member_def remove_relay_member_if_role_def Let_def split: option.split
      intro: within_le deleted_count)

lemma within_changed:
  "update_relay_member_role now c k role db = Ok (x, db') \<Longrightarrow> role \<noteq> ''owner'' \<Longrightarrow> within limit pk db db'"
  by (auto simp: update_relay_member_role_def Let_def split: if_splits intro: within_le demoted_count)

lemma within_transferred:
  assumes r: "transfer_ownership limit now c new old db = Ok (x, db')" and ok: "roster_ok db"
  shows "within limit pk db db'"
proof (cases "db' = db")
  case False
  let ?o = "ascii_lower new"
  obtain db1 where "upsert_owner now c ?o db = Ok db1" "db' = demote_others now c ?o ''member'' db1"
      and room: "int (owned_count db ?o) < limit"
    using r False by (auto simp: transfer_ownership_def Let_def result_simps not_le split: if_splits)
  then have "owned_count db' pk \<le> owned_count db pk + (if pk = ?o then 1 else 0)"
    using installed_count [of now c ?o db db1 "''member''" pk] ok by simp
  with room show ?thesis
    by (cases "pk = ?o") (auto simp: within_def)
qed simp

lemma within_created:
  assumes r: "create_community_with_owner limit now fresh host owner db = Ok (x, db')"
  shows "within limit pk db db'"
proof (cases "db' = db")
  case False
  let ?o = "ascii_lower owner"
  have "tn_members db' = tn_members db @ [new_relay_member now fresh ?o ''owner'' None]"
      and "int (owned_count db ?o) < limit"
    using r False by (auto simp: create_community_with_owner_def Let_def not_le split: if_splits option.splits)
  then show ?thesis
    by (auto simp: within_def owned_count_eq own_key_def new_relay_member_def)
qed simp

lemma within_backfilled:
  assumes r: "backfill_from_allowlist now rows c db = Ok (x, db')"
  shows "within limit pk db db'"
proof -
  have fold: "filter (own_key pk) (fold (backfill_row now c) hits ms) = filter (own_key pk) ms" for hits ms
    by (induction hits arbitrary: ms) (auto simp: backfill_row_def own_key_def)
  show ?thesis
    using r by (intro within_le)
      (auto simp: backfill_from_allowlist_def Let_def owned_count_eq fold split: option.splits if_splits)
qed

lemma within_commands:
  "within limit pk db (snd (handle_relay_leave ck enabled c ev db))"
  "within limit pk db (snd (add_member_command ck c ev sr target db))"
  "within limit pk db (snd (remove_member_command c ev sr target db))"
  "within limit pk db (snd (change_role_command ck c ev sr target db))"
  subgoal
    using within_removed(1) [of limit pk db c "ev_pubkey ev"]
    by (auto simp: handle_relay_leave_def split: prod.split remove_result.split)
  subgoal
    by (auto simp: add_member_command_def Let_def step_snd split: result.split intro: within_added)
  subgoal
    using within_removed(1) [of limit pk db c target] within_removed(2) [of limit pk db c target "''member''"]
    by (auto simp: remove_member_command_def split: prod.split remove_result.split if_splits)
  subgoal
    by (auto simp: change_role_command_def step_snd split: result.split option.split intro: within_changed)
  done

lemma within_roster: "within limit pk db (snd (execute_relay_admin_command ck c ev db))"
  by (auto simp: execute_relay_admin_command_def Let_def step_snd within_commands set_community_icon_def
      split: result.split intro: within_same)

fun is_bootstrap :: "community_op \<Rightarrow> bool" where
  "is_bootstrap (BootstrapOwner _ _) = True"
| "is_bootstrap _ = False"

lemma community_op_within:
  assumes "\<not> is_bootstrap op" and "roster_ok db"
  shows "within limit pk db (run_community_op limit second ck op db)"
  using assms
  by (cases op)
    (auto simp: within_commands within_roster intro!: within_kept
      intro: within_created within_transferred within_backfilled within_claimed_invite within_claimed
        within_same simp: ensure_configured_community_def archive_community_owned_by_def unarchive_community_owned_by_def
        mint_relay_invite_def reap_expired_relay_invites_def Let_def result_simps split: option.splits if_splits)

lemma community_ops_within:
  "roster_ok db \<Longrightarrow> int (owned_count db pk) \<le> limit \<Longrightarrow> list_all (\<lambda>(ck, op). \<not> is_bootstrap op) ops \<Longrightarrow>
   int (owned_count (run_community_ops limit second ops db) pk) \<le> limit"
proof (induction ops arbitrary: db)
  case Nil
  then show ?case by (simp add: run_community_ops_def)
next
  case (Cons co ops)
  obtain ck op where co: "co = (ck, op)" by (cases co)
  let ?db = "run_community_op limit second ck op db"
  have "roster_ok ?db"
    using community_op_extends [of db limit second ck op] Cons.prems by (simp add: roster_extends_def)
  moreover have "int (owned_count ?db pk) \<le> limit"
    using community_op_within [of op db limit pk second ck] Cons.prems by (auto simp: co within_def)
  ultimately show ?case
    using Cons.IH [of ?db] Cons.prems by (simp add: run_community_ops_def co)
qed

lemma effective_owner_limit_pos: "0 < effective_owner_limit raw"
  by (auto simp: effective_owner_limit_def MAX_COMMUNITIES_PER_OWNER_def split: option.split)

text \<open>
  Whatever limit is configured, no key owns more communities than it allows after any sequence
  of operations other than the deployment's own owner bootstrap, which is exempt from the limit.
\<close>

lemma owner_limit_holds:
  "int (owned_count (run_community_ops (effective_owner_limit raw) second
      (filter (\<lambda>(ck, op). \<not> is_bootstrap op) ops) no_tenants) pk) \<le> effective_owner_limit raw"
proof (rule community_ops_within [OF no_tenants_ok])
  show "int (owned_count no_tenants pk) \<le> effective_owner_limit raw"
    using effective_owner_limit_pos [of raw] by (simp add: owned_count_def no_tenants_def)
  show "list_all (\<lambda>(ck, op). \<not> is_bootstrap op) (filter (\<lambda>(ck, op). \<not> is_bootstrap op) ops)"
    by (simp add: list_all_iff)
qed

section \<open>Invites\<close>

text \<open>Operations that leave the table of invites alone.\<close>

lemma claimed_keeps_invites:
  "add_relay_member now c k role by db = Ok (x, db') \<Longrightarrow> tn_invites db' = tn_invites db"
  "record_acceptance c k version db = Ok db' \<Longrightarrow> tn_invites db' = tn_invites db"
  by (auto simp: add_relay_member_def record_acceptance_def split: option.splits if_splits)

lemma update_keeps_invites [simp]:
  "tn_invites (update_members p now role db) = tn_invites db"
  "tn_invites (delete_members p db) = tn_invites db"
  "tn_invites (set_community_icon c icon db) = tn_invites db"
  by (simp_all add: update_members_def delete_members_def set_community_icon_def)

lemma upsert_keeps_invites: "upsert_owner now c w db = Ok db' \<Longrightarrow> tn_invites db' = tn_invites db"
  by (auto elim: upsert_ownerE)

lemma removal_keeps_invites [simp]:
  "tn_invites (snd (remove_relay_member c k db)) = tn_invites db"
  "tn_invites (snd (remove_relay_member_if_role c k e db)) = tn_invites db"
  by (auto simp: remove_relay_member_def remove_relay_member_if_role_def Let_def split: option.splits)

lemma removal_invites:
  "remove_relay_member c k db = (x, db') \<Longrightarrow> tn_invites db' = tn_invites db"
  "remove_relay_member_if_role c k e db = (x, db') \<Longrightarrow> tn_invites db' = tn_invites db"
  using removal_keeps_invites by (metis snd_conv)+

lemma change_keeps_invites: "update_relay_member_role now c k role db = Ok (x, db') \<Longrightarrow> tn_invites db' = tn_invites db"
  by (auto simp: update_relay_member_role_def Let_def split: if_splits)

lemma command_keeps_invites [simp]:
  "tn_invites (snd (handle_relay_leave ck enabled c ev db)) = tn_invites db"
  "tn_invites (snd (add_member_command ck c ev sr target db)) = tn_invites db"
  "tn_invites (snd (remove_member_command c ev sr target db)) = tn_invites db"
  "tn_invites (snd (change_role_command ck c ev sr target db)) = tn_invites db"
  subgoal
    by (auto simp: handle_relay_leave_def split: prod.split remove_result.split dest: removal_invites)
  subgoal
    by (auto simp: add_member_command_def Let_def step_snd split: result.split dest: claimed_keeps_invites)
  subgoal
    by (auto simp: remove_member_command_def split: prod.split remove_result.split if_splits dest: removal_invites)
  subgoal
    by (auto simp: change_role_command_def step_snd split: result.split option.split dest: change_keeps_invites)
  done

lemma roster_keeps_invites [simp]: "tn_invites (snd (execute_relay_admin_command ck c ev db)) = tn_invites db"
  by (auto simp: execute_relay_admin_command_def Let_def step_snd split: result.split)

fun writes_invites :: "community_op \<Rightarrow> bool" where
  "writes_invites (MintInvite _ _ _ _ _) = True"
| "writes_invites (ReapInvites _) = True"
| "writes_invites (ClaimInvite _ _ _ _) = True"
| "writes_invites _ = False"

lemma kept_invites: "(\<And>x s'. r = Ok (x, s') \<Longrightarrow> tn_invites s' = tn_invites s) \<Longrightarrow> tn_invites (kept r s) = tn_invites s"
  by (auto simp: kept_def split: result.split)

lemma op_keeps_invites:
  "\<not> writes_invites op \<Longrightarrow> tn_invites (run_community_op limit second ck op db) = tn_invites db"
proof (cases op)
  case (CreateCommunity fresh host owner)
  then show ?thesis
    by (auto intro!: kept_invites simp: create_community_with_owner_def Let_def split: if_splits option.splits)
next
  case (EnsureCommunity fresh host)
  then show ?thesis
    by (auto intro!: kept_invites simp: ensure_configured_community_def split: if_splits option.splits)
next
  case (BootstrapOwner c w)
  then show ?thesis
    by (auto simp: kept_unit_def bootstrap_owner_def Let_def demote_others_def result_simps
        dest!: upsert_keeps_invites split: result.splits)
next
  case (TransferOwnership c new old)
  then show ?thesis
    by (auto intro!: kept_invites simp: transfer_ownership_def Let_def demote_others_def result_simps
        dest!: upsert_keeps_invites split: if_splits)
next
  case (BackfillAllowlist rows c)
  then show ?thesis
    by (auto intro!: kept_invites simp: backfill_from_allowlist_def Let_def split: if_splits option.splits)
next
  case (ClaimStateless c pk version)
  then show ?thesis
    by (auto intro!: kept_invites simp: claim_relay_membership_def result_simps dest!: claimed_keeps_invites)
qed (simp_all add: archive_community_owned_by_def unarchive_community_owned_by_def Let_def)

text \<open>How often a claim of one invite joins somebody.\<close>

fun joined_by :: "community_id \<Rightarrow> hex_string \<Rightarrow> command_clock \<times> community_op \<Rightarrow> tenant_db \<Rightarrow> nat" where
  "joined_by c token (ck, ClaimInvite c' token' pk version) db =
     (if c' = c \<and> token' = token then
        (case claim_relay_invite (ck_now ck) c token pk version db of Ok (Joined _ _, _) \<Rightarrow> 1 | _ \<Rightarrow> 0)
      else 0)"
| "joined_by c token _ db = 0"

fun joins :: "int \<Rightarrow> int \<Rightarrow> community_id \<Rightarrow> hex_string \<Rightarrow> (command_clock \<times> community_op) list \<Rightarrow> tenant_db \<Rightarrow> nat" where
  "joins limit second c token [] db = 0"
| "joins limit second c token (co # ops) db =
     joined_by c token co db + joins limit second c token ops (run_community_op limit second (fst co) (snd co) db)"

fun mints :: "community_id \<Rightarrow> hex_string \<Rightarrow> community_op \<Rightarrow> bool" where
  "mints c token (MintInvite token' c' _ _ _) \<longleftrightarrow> c' = c \<and> token' = token"
| "mints _ _ _ \<longleftrightarrow> False"

text \<open>Identifiers and tokens are unique in a community; \<open>k\<close> is what the row of the token has counted.\<close>

definition invites_unique :: "tenant_db \<Rightarrow> bool" where
  "invites_unique db \<longleftrightarrow>
     distinct (map (\<lambda>r. (iv_community r, iv_id r)) (tn_invites db))
     \<and> distinct (map (\<lambda>r. (iv_community r, iv_token_hash r)) (tn_invites db))"

definition counted :: "community_id \<Rightarrow> hex_string \<Rightarrow> nat \<Rightarrow> nat \<Rightarrow> tenant_db \<Rightarrow> bool" where
  "counted c token n k db \<longleftrightarrow>
     list_all (\<lambda>r. \<not> invite_at c token r \<or> iv_max_uses r = Some n \<and> iv_use_count r = k) (tn_invites db)"

lemma consumed_invites:
  "tn_invites (consume_invite row db) =
     map (\<lambda>r. if iv_community r = iv_community row \<and> iv_id r = iv_id row
          then r\<lparr>iv_use_count := iv_use_count row + 1\<rparr> else r) (tn_invites db)"
  by (simp add: consume_invite_def)

lemma invites_unique_cong: "tn_invites a = tn_invites b \<Longrightarrow> invites_unique a = invites_unique b"
  by (simp add: invites_unique_def)

lemma invites_unique_consume: "invites_unique db \<Longrightarrow> invites_unique (consume_invite row db)"
proof -
  have "map (\<lambda>r. (iv_community r, iv_id r)) (tn_invites (consume_invite row db)) =
        map (\<lambda>r. (iv_community r, iv_id r)) (tn_invites db)"
    by (simp add: consumed_invites)
  moreover have "map (\<lambda>r. (iv_community r, iv_token_hash r)) (tn_invites (consume_invite row db)) =
        map (\<lambda>r. (iv_community r, iv_token_hash r)) (tn_invites db)"
    by (simp add: consumed_invites)
  ultimately show "invites_unique db \<Longrightarrow> invites_unique (consume_invite row db)"
    unfolding invites_unique_def by (simp only:)
qed

lemma claim_invite_cases:
  assumes "claim_relay_invite now c token pk version db = Ok (x, db')"
  obtains (same) "tn_invites db' = tn_invites db" "\<forall>a b. x \<noteq> Joined a b"
  | (joined) row db2 where "find (invite_at c token) (tn_invites db) = Some row" "tn_invites db2 = tn_invites db"
      "db' = consume_invite row db2" "is_none_or (\<lambda>mu. iv_use_count row < mu) (iv_max_uses row)" "\<exists>a b. x = Joined a b"
proof (cases "find (invite_at c token) (tn_invites db)")
  case None
  with assms show ?thesis by (intro same) (simp_all add: claim_relay_invite_def)
next
  case (Some row)
  consider "iv_expires_at row \<le> now" | "\<not> iv_expires_at row \<le> now" "is_relay_member db c pk"
    | "\<not> iv_expires_at row \<le> now" "\<not> is_relay_member db c pk" "is_some_and (\<lambda>mu. mu \<le> iv_use_count row) (iv_max_uses row)"
    | "\<not> iv_expires_at row \<le> now" "\<not> is_relay_member db c pk" "\<not> is_some_and (\<lambda>mu. mu \<le> iv_use_count row) (iv_max_uses row)"
    by blast
  then show ?thesis
  proof cases
    case 1
    with assms Some show ?thesis by (intro same) (auto simp: claim_relay_invite_def)
  next
    case 2
    with assms Some show ?thesis
      by (intro same) (auto simp: claim_relay_invite_def result_simps dest!: claimed_keeps_invites)
  next
    case 3
    with assms Some show ?thesis by (intro same) (auto simp: claim_relay_invite_def)
  next
    case 4
    with assms Some obtain ins db1 db2 where step: "add_relay_member now c pk ''member'' (Some ''invite'') db = Ok (ins, db1)"
        "record_acceptance c pk version db1 = Ok db2"
        "(x, db') = (if \<not> ins then (AlreadyMember (iv_use_count row) (uses_remaining row), db2)
          else (Joined (iv_use_count row + 1) (map_option (\<lambda>mu. mu - (iv_use_count row + 1)) (iv_max_uses row)),
            consume_invite row db2))"
      by (auto simp: claim_relay_invite_def result_simps split: if_splits)
    have inv: "tn_invites db2 = tn_invites db"
      using claimed_keeps_invites(1) [OF step(1)] claimed_keeps_invites(2) [OF step(2)] by simp
    show ?thesis
    proof (cases ins)
      case True
      have "is_none_or (\<lambda>mu. iv_use_count row < mu) (iv_max_uses row)"
        using 4(3) by (auto simp: is_some_and_def is_none_or_def split: option.splits)
      with True Some inv step(3) show ?thesis
        by (intro joined) auto
    next
      case False
      with inv step(3) show ?thesis by (intro same) auto
    qed
  qed
qed

lemma same_key: "distinct (map f xs) \<Longrightarrow> x \<in> set xs \<Longrightarrow> y \<in> set xs \<Longrightarrow> f x = f y \<Longrightarrow> x = y"
  by (metis distinct_map inj_onD)

lemma counted_consume:
  assumes unique: "invites_unique db" and row: "row \<in> set (tn_invites db)" and counted: "counted c token n k db"
  shows "counted c token n (k + (if invite_at c token row then 1 else 0)) (consume_invite row db)"
  unfolding counted_def list_all_iff
proof
  fix r
  assume "r \<in> set (tn_invites (consume_invite row db))"
  then obtain r0 where r0: "r0 \<in> set (tn_invites db)"
      and r: "r = (if iv_community r0 = iv_community row \<and> iv_id r0 = iv_id row
                   then r0\<lparr>iv_use_count := iv_use_count row + 1\<rparr> else r0)"
    unfolding consumed_invites set_map by blast
  have id: "iv_community r0 = iv_community row \<and> iv_id r0 = iv_id row \<Longrightarrow> r0 = row"
    using same_key [of "\<lambda>r. (iv_community r, iv_id r)", OF _ r0 row] unique by (simp add: invites_unique_def)
  have tok: "invite_at c token r0 \<Longrightarrow> invite_at c token row \<Longrightarrow> r0 = row"
    using same_key [of "\<lambda>r. (iv_community r, iv_token_hash r)", OF _ r0 row] unique
    by (simp add: invites_unique_def invite_at_def)
  have k: "\<not> invite_at c token r0 \<or> iv_max_uses r0 = Some n \<and> iv_use_count r0 = k"
    using counted r0 by (simp add: counted_def list_all_iff)
  show "\<not> invite_at c token r \<or> iv_max_uses r = Some n \<and> iv_use_count r = k + (if invite_at c token row then 1 else 0)"
  proof (cases "r0 = row")
    case True
    with r k show ?thesis by (auto simp: invite_at_def)
  next
    case False
    with r id have "r = r0" by auto
    with tok False k show ?thesis by auto
  qed
qed

lemma op_counted:
  assumes unique: "invites_unique db" and counted: "counted c token n k db" and k: "k \<le> n"
    and new: "\<not> mints c token op" and db'_def: "db' = run_community_op limit second ck op db"
  shows "invites_unique db' \<and> counted c token n (k + joined_by c token (ck, op) db) db'
    \<and> k + joined_by c token (ck, op) db \<le> n"
proof (cases "writes_invites op")
  case False
  then have "tn_invites db' = tn_invites db" "joined_by c token (ck, op) db = 0"
    using False by (simp add: db'_def op_keeps_invites) (use False in \<open>cases op; simp\<close>)
  with unique counted k show ?thesis
    by (simp add: invites_unique_def counted_def)
next
  case True
  then show ?thesis
  proof (cases op)
    case (MintInvite token' c' who ttl uses)
    have "db' = db \<or> (\<exists>row. tn_invites db' = tn_invites db @ [row] \<and> iv_community row = c' \<and> iv_token_hash row = token'
        \<and> \<not> list_ex (\<lambda>r. iv_community r = c' \<and> (iv_id r = iv_id row \<or> iv_token_hash r = token')) (tn_invites db))"
      unfolding db'_def MintInvite
      by (auto simp: kept_def mint_relay_invite_def Let_def result_simps split: result.splits if_splits)
    then show ?thesis
    proof
      assume "db' = db"
      with unique counted k MintInvite show ?thesis by simp
    next
      assume "\<exists>row. tn_invites db' = tn_invites db @ [row] \<and> iv_community row = c' \<and> iv_token_hash row = token'
        \<and> \<not> list_ex (\<lambda>r. iv_community r = c' \<and> (iv_id r = iv_id row \<or> iv_token_hash r = token')) (tn_invites db)"
      then obtain row where row: "tn_invites db' = tn_invites db @ [row]" "iv_community row = c'" "iv_token_hash row = token'"
        "\<forall>r \<in> set (tn_invites db). iv_community r = c' \<longrightarrow> iv_id r \<noteq> iv_id row \<and> iv_token_hash r \<noteq> token'"
        unfolding list_ex_iff by blast
      have "\<not> invite_at c token row"
        using row new MintInvite by (auto simp: invite_at_def)
      with row unique counted k MintInvite show ?thesis
        by (auto simp: invites_unique_def counted_def)
    qed
  next
    case (ReapInvites cutoff)
    then obtain p where "tn_invites db' = filter p (tn_invites db)"
      by (auto simp: db'_def reap_expired_relay_invites_def Let_def)
    with unique counted k ReapInvites show ?thesis
      by (auto simp: invites_unique_def counted_def list_all_iff distinct_map_filter)
  next
    case (ClaimInvite c' token' pk version)
    show ?thesis
    proof (cases "claim_relay_invite (ck_now ck) c' token' pk version db")
      case (Err e)
      with unique counted k ClaimInvite show ?thesis
        by (auto simp: db'_def kept_def)
    next
      case (Ok y)
      obtain x db2 where y: "y = (x, db2)" by (cases y)
      then have db': "db' = db2" by (simp add: db'_def ClaimInvite kept_def Ok)
      from Ok [unfolded y] show ?thesis
      proof (cases rule: claim_invite_cases)
        case same
        then have "joined_by c token (ck, op) db = 0"
          using Ok y ClaimInvite by (auto split: claim_outcome.splits)
        with same(1) unique counted k show ?thesis
          by (simp add: db' invites_unique_def counted_def)
      next
        case (joined row db3)
        have row: "row \<in> set (tn_invites db)" "invite_at c' token' row"
          using joined(1) by (auto simp: find_Some_iff)
        have "invites_unique db3" "counted c token n k db3" "row \<in> set (tn_invites db3)"
          using unique counted row joined(2) by (simp_all add: invites_unique_def counted_def)
        then have *: "invites_unique db'" "counted c token n (k + (if invite_at c token row then 1 else 0)) db'"
          using counted_consume invites_unique_consume by (simp_all add: db' joined(3))
        have at: "invite_at c token row \<longleftrightarrow> c' = c \<and> token' = token"
          using row(2) by (auto simp: invite_at_def)
        then have "joined_by c token (ck, op) db = (if invite_at c token row then 1 else 0)"
          using Ok y joined(5) ClaimInvite by auto
        moreover have "k < n" if "invite_at c token row"
          using counted row(1) that joined(4) by (auto simp: counted_def list_all_iff is_none_or_def)
        ultimately show ?thesis
          using * k by (auto simp: Suc_le_eq)
      qed
    qed
  qed simp_all
qed

lemma joins_counted:
  "invites_unique db \<Longrightarrow> counted c token n k db \<Longrightarrow> k \<le> n \<Longrightarrow> list_all (\<lambda>(ck, op). \<not> mints c token op) ops \<Longrightarrow>
   k + joins limit second c token ops db \<le> n
   \<and> counted c token n (k + joins limit second c token ops db) (run_community_ops limit second ops db)"
proof (induction ops arbitrary: db k)
  case Nil
  then show ?case by (simp add: run_community_ops_def)
next
  case (Cons co ops)
  obtain ck op where co: "co = (ck, op)" by (cases co)
  note step = op_counted [of db c token n k op _ limit second ck, OF _ _ _ _ refl]
  have "\<not> mints c token op" "list_all (\<lambda>(ck, op). \<not> mints c token op) ops"
    using Cons.prems(4) by (simp_all add: co)
  then show ?case
    using step Cons.prems(1-3) Cons.IH [of "run_community_op limit second ck op db" "k + joined_by c token (ck, op) db"]
    by (auto simp: run_community_ops_def co add.assoc)
qed

lemma reachable_invites_unique: "invites_unique db \<Longrightarrow> invites_unique (run_community_ops limit second ops db)"
proof (induction ops arbitrary: db)
  case Nil
  then show ?case by (simp add: run_community_ops_def)
next
  case (Cons co ops)
  obtain ck op where co: "co = (ck, op)" by (cases co)
  have "\<exists>token. \<not> mints 0 token op \<and> counted 0 token 0 0 db"
  proof -
    obtain token where "token \<notin> iv_token_hash ` set (tn_invites db) \<union> {t. mints 0 t op}"
    proof -
      have "{t. mints 0 t op} \<subseteq> (case op of MintInvite t _ _ _ _ \<Rightarrow> {t} | _ \<Rightarrow> {})"
        by (cases op) auto
      then have "finite {t. mints 0 t op}"
        by (rule finite_subset) (simp split: community_op.split)
      then have "finite (iv_token_hash ` set (tn_invites db) \<union> {t. mints 0 t op})" by simp
      with that show thesis
        using ex_new_if_finite [OF infinite_UNIV_listI] by blast
    qed
    then show ?thesis
      by (intro exI [of _ token]) (auto simp: counted_def list_all_iff invite_at_def)
  qed
  then obtain token where "\<not> mints 0 token op" "counted 0 token 0 0 db" by blast
  then have "invites_unique (run_community_op limit second ck op db)"
    using op_counted [OF Cons.prems _ order_refl _ refl] by blast
  then show ?case
    using Cons.IH by (simp add: run_community_ops_def co)
qed

lemma found_in: "find P xs = Some x \<Longrightarrow> x \<in> set xs \<and> P x"
  by (auto simp: find_Some_iff)


section \<open>A sample\<close>

definition sample_clock :: command_clock where
  "sample_clock = \<lparr>ck_from_ts = Some, ck_now = 100, ck_secs = 100, ck_fresh = 9\<rparr>"

definition sample_token :: hex_string where
  "sample_token = replicate 64 (CHR ''a'')"

definition sample_tenants :: tenant_db where
  "sample_tenants =
     \<lparr>tn_communities = [new_community 100 1 ''relay.example''],
      tn_members = [new_relay_member 100 1 ''alice'' ''owner'' None], tn_acceptances = [], tn_invites = []\<rparr>"

definition sample_invite :: invite_row where
  "sample_invite =
     \<lparr>iv_community = 1, iv_id = 9, iv_token_hash = sample_token, iv_max_uses = Some 1, iv_use_count = 0,
      iv_expires_at = 160, iv_created_by = ''alice''\<rparr>"

lemma sample_tenants_run:
  "sample_tenants = run_community_ops 3 1 [(sample_clock, CreateCommunity 1 ''relay.example'' ''alice'')] no_tenants"
proof -
  have "ascii_lower ''alice'' = ''alice''" by code_simp
  then show ?thesis
    by (simp add: sample_tenants_def run_community_ops_def sample_clock_def no_tenants_def kept_def
        create_community_with_owner_def COMMUNITY_HOST_WIDTH_def chars_count_def fresh_community_def community_exists_def
        owned_count_def Let_def)
qed

lemma sample_minted:
  "mint_relay_invite 1 100 9 sample_token 1 ''alice'' 60 (Some 1) sample_tenants
     = Ok (sample_invite, sample_tenants\<lparr>tn_invites := [sample_invite]\<rparr>)"
  by (simp add: mint_relay_invite_def validate_mint_inputs_def MIN_INVITE_TTL_SECS_def MAX_INVITE_TTL_SECS_def
      MAX_INVITE_USES_def is_some_and_def sample_tenants_def sample_invite_def sample_token_def community_exists_def
      new_community_def Let_def)


end
