(* ===== verification/Moderation_Laws.thy ===== *)
theory Moderation_Laws
  imports Community_Laws
begin

text \<open>
  What the moderation commands guarantee: who can restrict whom, what is recorded of it, and that
  the owner can be neither deposed nor silenced by others.
\<close>

section \<open>What a command does\<close>

definition audit_entry_row ::
    "command_clock \<Rightarrow> community_id \<Rightarrow> hex_string \<Rightarrow> string \<Rightarrow> hex_string option \<Rightarrow> hex_string option \<Rightarrow> string option
     \<Rightarrow> action_row" where
  "audit_entry_row ck c actor action tp te reason =
     \<lparr>ac_community = c, ac_id = ck_fresh ck, ac_actor = actor, ac_action = action, ac_target_pubkey = tp,
      ac_target_event = te, ac_channel = None, ac_reason_code = None, ac_public_reason = reason,
      ac_private_reason = None, ac_principal = None, ac_created_at = ck_now ck\<rparr>"

definition auditable ::
    "command_clock \<Rightarrow> community_id \<Rightarrow> hex_string \<Rightarrow> string \<Rightarrow> hex_string option \<Rightarrow> hex_string option \<Rightarrow> moderation_db \<Rightarrow> bool" where
  "auditable ck c actor action tp te db \<longleftrightarrow>
     key_width actor \<and> action \<in> set MODERATION_ACTION_CHECK_VOCAB \<and> is_none_or key_width tp \<and> is_none_or key_width te
     \<and> community_exists (md_tenants db) c
     \<and> \<not> list_ex (\<lambda>r. ac_community r = c \<and> ac_id r = ck_fresh ck) (md_actions db)"

lemma insert_audit_eq:
  "insert_audit ck c actor action tp te reason db =
     (if auditable ck c actor action tp te db
      then (Ok (ck_fresh ck), db\<lparr>md_actions := md_actions db @ [audit_entry_row ck c actor action tp te reason]\<rparr>)
      else (Err (mod_error ''failed to write audit row''), db))"
  by (auto simp: insert_audit_def run_stmt_def insert_action_def auditable_def audit_entry_row_def is_none_or_def channel_known_def)

lemma audit_entry_row_simps [simp]:
  "ac_community (audit_entry_row ck c actor action tp te reason) = c"
  "ac_id (audit_entry_row ck c actor action tp te reason) = ck_fresh ck"
  "ac_actor (audit_entry_row ck c actor action tp te reason) = actor"
  "ac_action (audit_entry_row ck c actor action tp te reason) = action"
  "ac_target_pubkey (audit_entry_row ck c actor action tp te reason) = tp"
  "ac_target_event (audit_entry_row ck c actor action tp te reason) = te"
  by (simp_all add: audit_entry_row_def)

lemma check_then: "and_then (check r s) f = (case r of Err e \<Rightarrow> (Err e, s) | Ok x \<Rightarrow> f x s)"
  by (simp add: and_then_def check_def split: result.split)

lemma and_then_pair [simp]:
  "and_then (Ok x, s) f = f x s"
  "and_then (Err e, s) f = (Err e, s)"
  by (simp_all add: and_then_def)

lemma audit_then_snd:
  "(\<And>i s. snd (f i s) = s) \<Longrightarrow>
   snd (and_then (insert_audit ck c actor action tp te reason db) f) = snd (insert_audit ck c actor action tp te reason db)"
  by (auto simp: and_then_def split: prod.split result.split)

text \<open>The restrictions a command may write, with the name under which it is audited.\<close>

definition restricts ::
    "command_clock \<Rightarrow> community_id \<Rightarrow> event \<Rightarrow> hex_string \<Rightarrow> moderation_db \<Rightarrow> moderation_db \<Rightarrow> bool" where
  "restricts ck c ev t db db1 \<longleftrightarrow>
     (let actor = ev_pubkey ev; may = (\<lambda>a. is_ok (authorize_moderation_action db c actor None (OnPubkey t) a)) in
      (ev_kind ev = KIND_MODERATION_BAN \<and> may Ban
         \<and> (\<exists>ex. ban_member (ck_now ck) c t actor (named_value ev ''reason'') ex db = Ok db1))
      \<or> (ev_kind ev = KIND_MODERATION_TIMEOUT \<and> may Timeout
         \<and> (\<exists>u. timeout_member (ck_now ck) c t actor u (named_value ev ''reason'') db = Ok db1))
      \<or> (ev_kind ev = KIND_MODERATION_UNBAN \<and> may Unban \<and> unban_member (ck_now ck) c t actor db = Ok (True, db1))
      \<or> (ev_kind ev = KIND_MODERATION_UNTIMEOUT \<and> may Untimeout \<and> untimeout_member (ck_now ck) c t actor db = Ok (True, db1)))"

definition audit_name :: "kind \<Rightarrow> string" where
  "audit_name k =
     (if k = KIND_MODERATION_BAN then ''ban'' else if k = KIND_MODERATION_UNBAN then ''unban''
      else if k = KIND_MODERATION_TIMEOUT then ''timeout'' else ''untimeout'')"

definition admitted_command :: "command_clock \<Rightarrow> community_id \<Rightarrow> event \<Rightarrow> moderation_db \<Rightarrow> bool" where
  "admitted_command ck c ev db \<longleftrightarrow>
     \<not> rs_banned (restriction_state (ck_now ck) db c (ev_pubkey ev)) \<and> \<not> stale_command ck ev"

lemma lift_true: "lift_ban now actor hit f db = Ok (x, db1) \<Longrightarrow> \<not> x \<Longrightarrow> db1 = db"
  by (auto simp: lift_ban_def split: if_splits)

definition audited :: "command_clock \<Rightarrow> community_id \<Rightarrow> event \<Rightarrow> hex_string \<Rightarrow> moderation_db \<Rightarrow> moderation_db" where
  "audited ck c ev t db1 =
     snd (insert_audit ck c (ev_pubkey ev) (audit_name (ev_kind ev)) (Some t) None
       (if ev_kind ev \<in> {KIND_MODERATION_BAN, KIND_MODERATION_TIMEOUT} then named_value ev ''reason'' else None) db1)"

lemmas handler_simps = check_then and_then_stmt_snd audit_then_snd Let_def unit_stmt_def result_simps ok_or_def map_err_def

lemma ban_effect:
  assumes "ev_kind ev = KIND_MODERATION_BAN"
  shows "snd (handle_ban ck c ev (ev_pubkey ev) db) = db
    \<or> (\<exists>t db1. extract_p_tag_bytes ev = Some t \<and> restricts ck c ev t db db1
         \<and> snd (handle_ban ck c ev (ev_pubkey ev) db) = audited ck c ev t db1)"
  using assms
  by (auto simp: handle_ban_def handler_simps restricts_def audited_def audit_name_def split: result.splits option.splits)

lemma timeout_effect:
  assumes "ev_kind ev = KIND_MODERATION_TIMEOUT"
  shows "snd (handle_timeout ck c ev (ev_pubkey ev) db) = db
    \<or> (\<exists>t db1. extract_p_tag_bytes ev = Some t \<and> restricts ck c ev t db db1
         \<and> snd (handle_timeout ck c ev (ev_pubkey ev) db) = audited ck c ev t db1)"
  using assms
  by (auto simp: handle_timeout_def handler_simps restricts_def audited_def audit_name_def kind_consts
      split: result.splits option.splits)

lemma unban_effect:
  assumes "ev_kind ev = KIND_MODERATION_UNBAN"
  shows "snd (handle_unban ck c ev (ev_pubkey ev) db) = db
    \<or> (\<exists>t db1. extract_p_tag_bytes ev = Some t \<and> restricts ck c ev t db db1
         \<and> snd (handle_unban ck c ev (ev_pubkey ev) db) = audited ck c ev t db1)"
  using assms
  by (auto simp: handle_unban_def handler_simps restricts_def audited_def audit_name_def kind_consts unban_member_def
      dest: lift_true split: result.splits option.splits)

lemma untimeout_effect:
  assumes "ev_kind ev = KIND_MODERATION_UNTIMEOUT"
  shows "snd (handle_untimeout ck c ev (ev_pubkey ev) db) = db
    \<or> (\<exists>t db1. extract_p_tag_bytes ev = Some t \<and> restricts ck c ev t db db1
         \<and> snd (handle_untimeout ck c ev (ev_pubkey ev) db) = audited ck c ev t db1)"
  using assms
  by (auto simp: handle_untimeout_def handler_simps restricts_def audited_def audit_name_def kind_consts untimeout_member_def
      dest: lift_true split: result.splits option.splits)

lemma resolve_keeps_bans: "md_bans (snd (handle_resolve ck c ev actor db)) = md_bans db"
  by (auto simp: handle_resolve_def check_then Let_def resolve_report_def ok_or_def and_then_stmt_snd insert_audit_eq
      split: result.split option.split if_splits)

lemma command_cases:
  "let db' = snd (handle_moderation_command ck c ev db) in
   db' = db \<or> db' = snd (handle_resolve ck c ev (ev_pubkey ev) db)
   \<or> admitted_command ck c ev db
      \<and> (\<exists>t db1. extract_p_tag_bytes ev = Some t \<and> restricts ck c ev t db db1 \<and> db' = audited ck c ev t db1)"
proof (cases "admitted_command ck c ev db")
  case False
  then show ?thesis
    by (auto simp: handle_moderation_command_def admitted_command_def ensure_actor_not_banned_def check_then Let_def
        split: result.splits)
next
  case True
  have "snd (handle_moderation_command ck c ev db) =
      (if ev_kind ev = KIND_MODERATION_BAN then snd (handle_ban ck c ev (ev_pubkey ev) db)
       else if ev_kind ev = KIND_MODERATION_UNBAN then snd (handle_unban ck c ev (ev_pubkey ev) db)
       else if ev_kind ev = KIND_MODERATION_TIMEOUT then snd (handle_timeout ck c ev (ev_pubkey ev) db)
       else if ev_kind ev = KIND_MODERATION_UNTIMEOUT then snd (handle_untimeout ck c ev (ev_pubkey ev) db)
       else if ev_kind ev = KIND_MODERATION_RESOLVE_REPORT then snd (handle_resolve ck c ev (ev_pubkey ev) db)
       else db)"
    using True
    by (simp add: handle_moderation_command_def admitted_command_def ensure_actor_not_banned_def check_then Let_def)
  then show ?thesis
    using True ban_effect [of ev ck c db] unban_effect [of ev ck c db] timeout_effect [of ev ck c db]
      untimeout_effect [of ev ck c db]
    by (auto simp: Let_def split: if_splits)
qed

lemma command_effect:
  "let db' = snd (handle_moderation_command ck c ev db) in
   md_bans db' = md_bans db
   \<or> admitted_command ck c ev db
      \<and> (\<exists>t db1. extract_p_tag_bytes ev = Some t \<and> restricts ck c ev t db db1 \<and> db' = audited ck c ev t db1)"
  using command_cases [of ck c ev db] by (auto simp: Let_def resolve_keeps_bans)

section \<open>Who may restrict\<close>

definition ban_of :: "moderation_db \<Rightarrow> community_id \<Rightarrow> hex_string \<Rightarrow> ban_row option" where
  "ban_of db c pk = find (ban_at c pk) (md_bans db)"

lemma find_map_kept: "(\<And>r. P (f r) = P r) \<Longrightarrow> find P (map f xs) = map_option f (find P xs)"
  by (induction xs) auto

lemma audited_bans [simp]: "md_bans (audited ck c ev t db) = md_bans db"
  by (simp add: audited_def insert_audit_eq)

lemma upsert_ban_of:
  assumes "upsert_ban now c pk actor f db = Ok db1" and "\<And>r. bn_community (f r) = bn_community r \<and> bn_pubkey (f r) = bn_pubkey r"
  shows "ban_of db1 c' pk' = ban_of db c' pk' \<or> c' = c \<and> pk' = pk"
proof (cases "c' = c \<and> pk' = pk")
  case False
  have "find (ban_at c' pk') (map (\<lambda>r. if ban_at c pk r then g r else r) xs) = find (ban_at c' pk') xs"
    if "\<And>r. bn_community (g r) = bn_community r \<and> bn_pubkey (g r) = bn_pubkey r" for g xs
    using False that by (induction xs) (auto simp: ban_at_def)
  moreover have "find P (xs @ [y]) = find P xs" if "\<not> P y" for P :: "ban_row \<Rightarrow> bool" and xs y
    using that by (induction xs) auto
  ultimately show ?thesis
    using False assms by (auto simp: upsert_ban_def ban_of_def Let_def ban_at_def split: if_splits)
qed simp

lemma lift_ban_of:
  assumes "lift_ban now actor hit f db = Ok (True, db1)"
    and "\<And>r. hit r \<Longrightarrow> ban_at c pk r" and "\<And>r. bn_community (f r) = bn_community r \<and> bn_pubkey (f r) = bn_pubkey r"
  shows "ban_of db1 c' pk' = ban_of db c' pk' \<or> c' = c \<and> pk' = pk"
proof (cases "c' = c \<and> pk' = pk")
  case False
  have "find (ban_at c' pk') (map (\<lambda>r. if hit r then (f r)\<lparr>bn_actor := actor, bn_updated_at := now\<rparr> else r) xs)
      = find (ban_at c' pk') xs" for xs
    using False assms(2,3) by (induction xs) (auto simp: ban_at_def)
  then show ?thesis
    using assms(1) by (auto simp: lift_ban_def ban_of_def split: if_splits)
qed simp

lemma restricts_only:
  assumes "restricts ck c ev t db db1"
  shows "ban_of db1 c' pk = ban_of db c' pk \<or> c' = c \<and> pk = t"
  using assms
  by (auto simp: restricts_def Let_def ban_member_def timeout_member_def unban_member_def untimeout_member_def
      dest!: upsert_ban_of [where c' = c' and pk' = pk] lift_ban_of [where c = c and pk = t and c' = c' and pk' = pk])

lemma ascii_lower_length [simp]: "length (ascii_lower s) = length s"
  by (simp add: ascii_lower_def)

lemma p_tag_width: "extract_p_tag_bytes ev = Some t \<Longrightarrow> key_width t"
  by (auto simp: extract_p_tag_bytes_def first_hex64_def hex64_def key_width_def find_Some_iff)

lemma restricts_actor: "restricts ck c ev t db db1 \<Longrightarrow> key_width (ev_pubkey ev)"
  by (auto simp: restricts_def Let_def ban_member_def timeout_member_def unban_member_def untimeout_member_def
      upsert_ban_def lift_ban_def split: if_splits)

lemma restricts_tables:
  "restricts ck c ev t db db1 \<Longrightarrow> md_tenants db1 = md_tenants db \<and> md_actions db1 = md_actions db
     \<and> md_channels db1 = md_channels db \<and> md_reports db1 = md_reports db"
  by (auto simp: restricts_def Let_def ban_member_def timeout_member_def unban_member_def untimeout_member_def
      upsert_ban_def lift_ban_def split: if_splits)

lemma restricts_kind:
  "restricts ck c ev t db db1 \<Longrightarrow>
   ev_kind ev \<in> {KIND_MODERATION_BAN, KIND_MODERATION_TIMEOUT, KIND_MODERATION_UNBAN, KIND_MODERATION_UNTIMEOUT}"
  by (auto simp: restricts_def Let_def)

lemma audited_row:
  assumes "restricts ck c ev t db db1" and "extract_p_tag_bytes ev = Some t" and "community_exists (md_tenants db) c"
    and "\<not> list_ex (\<lambda>r. ac_community r = c \<and> ac_id r = ck_fresh ck) (md_actions db)"
  shows "\<exists>row. md_actions (audited ck c ev t db1) = md_actions db @ [row] \<and> ac_community row = c
    \<and> ac_actor row = ev_pubkey ev \<and> ac_action row = audit_name (ev_kind ev) \<and> ac_target_pubkey row = Some t"
proof -
  have "audit_name (ev_kind ev) \<in> set MODERATION_ACTION_CHECK_VOCAB"
    by (simp add: audit_name_def MODERATION_ACTION_CHECK_VOCAB_def)
  then have "auditable ck c (ev_pubkey ev) (audit_name (ev_kind ev)) (Some t) None db1"
    using restricts_actor [OF assms(1)] p_tag_width [OF assms(2)] restricts_tables [OF assms(1)] assms(3,4)
    by (simp add: auditable_def is_none_or_def)
  then show ?thesis
    using restricts_tables [OF assms(1)] by (simp add: audited_def insert_audit_eq)
qed

lemma authority_cases:
  assumes "is_ok (authorize_moderation_action db c actor None (OnPubkey t) a)" and "a \<in> {Ban, Timeout, Unban, Untimeout}"
  shows "relay_role (md_tenants db) c actor = Some ''owner''
    \<or> relay_role (md_tenants db) c actor = Some ''admin''
       \<and> (a \<in> {Unban, Untimeout} \<or> relay_role (md_tenants db) c t \<notin> {Some ''owner'', Some ''admin''})"
  using assms by (auto simp: authorize_moderation_action_def decide_authority_def Let_def split: if_splits)

lemma restricts_authority:
  assumes "restricts ck c ev t db db1"
  shows "relay_role (md_tenants db) c (ev_pubkey ev) = Some ''owner''
    \<or> relay_role (md_tenants db) c (ev_pubkey ev) = Some ''admin''
       \<and> (ev_kind ev \<in> {KIND_MODERATION_UNBAN, KIND_MODERATION_UNTIMEOUT}
          \<or> relay_role (md_tenants db) c t \<notin> {Some ''owner'', Some ''admin''})"
  using assms authority_cases [of db c "ev_pubkey ev" t]
  by (auto simp: restricts_def Let_def)


section \<open>Runs\<close>

text \<open>Everything that writes the tables: commands, the operations on the roster and accepted reports.\<close>

datatype moderation_op =
    Moderate community_id event
  | Administer community_id event
  | Roster community_op
  | FileReport community_id hex_string hex_string report_target "uuid option" string "string option"

fun run_moderation_op :: "int \<Rightarrow> int \<Rightarrow> command_clock \<Rightarrow> moderation_op \<Rightarrow> moderation_db \<Rightarrow> moderation_db" where
  "run_moderation_op limit second ck (Moderate c ev) db = snd (handle_moderation_command ck c ev db)"
| "run_moderation_op limit second ck (Administer c ev) db = snd (handle_relay_admin_event ck c ev db)"
| "run_moderation_op limit second ck (Roster op) db =
     db\<lparr>md_tenants := run_community_op limit second ck op (md_tenants db)\<rparr>"
| "run_moderation_op limit second ck (FileReport c ev reporter target ch ty remark) db =
     kept (insert_report (ck_now ck) (ck_fresh ck) c ev reporter target ch ty remark db) db"

definition run_moderation_ops ::
    "int \<Rightarrow> int \<Rightarrow> (command_clock \<times> moderation_op) list \<Rightarrow> moderation_db \<Rightarrow> moderation_db" where
  "run_moderation_ops limit second ops db = fold (\<lambda>(ck, op). run_moderation_op limit second ck op) ops db"

section \<open>The owner's place\<close>

lemma admin_event_tenants:
  "md_tenants (snd (handle_relay_admin_event ck c ev db)) = md_tenants db
   \<or> md_tenants (snd (handle_relay_admin_event ck c ev db)) = snd (execute_relay_admin_command ck c ev (md_tenants db))"
  "md_bans (snd (handle_relay_admin_event ck c ev db)) = md_bans db"
  "md_actions (snd (handle_relay_admin_event ck c ev db)) = md_actions db"
  "md_reports (snd (handle_relay_admin_event ck c ev db)) = md_reports db"
  by (auto simp: handle_relay_admin_event_def check_then split: result.split prod.split)

definition owners_fixed :: "community_id \<Rightarrow> tenant_db \<Rightarrow> tenant_db \<Rightarrow> bool" where
  "owners_fixed c db db' \<longleftrightarrow> owners_of db' c = owners_of db c"

lemma owners_fixed_refl [simp]: "owners_fixed c db db"
  by (simp add: owners_fixed_def)

lemma owners_fixed_trans: "owners_fixed c a b \<Longrightarrow> owners_fixed c b d \<Longrightarrow> owners_fixed c a d"
  by (simp add: owners_fixed_def)

lemma owners_fixed_same: "tn_members db' = tn_members db \<Longrightarrow> owners_fixed c db db'"
  by (simp add: owners_fixed_def owners_of_def)

lemma owners_fixed_kept: "(\<And>x s'. r = Ok (x, s') \<Longrightarrow> owners_fixed c s s') \<Longrightarrow> owners_fixed c s (kept r s)"
  by (auto simp: kept_def split: result.split)

lemma fixed_added:
  "add_relay_member now c' k role by db = Ok (x, db') \<Longrightarrow> role \<noteq> ''owner'' \<Longrightarrow> owners_fixed c db db'"
  by (auto simp: add_relay_member_def owners_fixed_def owner_row_def new_relay_member_def split: if_splits)

lemma fixed_accepted: "record_acceptance c' k version db = Ok db' \<Longrightarrow> owners_fixed c db db'"
  by (rule owners_fixed_same) (auto simp: record_acceptance_def split: option.splits if_splits)

lemma fixed_claimed: "claim_relay_membership now c' k ''member'' version db = Ok (x, db') \<Longrightarrow> owners_fixed c db db'"
  by (auto simp: claim_relay_membership_def result_simps intro: owners_fixed_trans fixed_added fixed_accepted)

lemma fixed_consumed: "owners_fixed c db (consume_invite row db)"
  by (rule owners_fixed_same) (simp add: consume_invite_def)

lemma fixed_claimed_invite: "claim_relay_invite now c' token k version db = Ok (x, db') \<Longrightarrow> owners_fixed c db db'"
  unfolding claim_relay_invite_def
  by (auto simp: result_simps split: option.splits if_splits
      intro: fixed_accepted owners_fixed_trans [OF fixed_added owners_fixed_trans [OF fixed_accepted fixed_consumed]]
        owners_fixed_trans [OF fixed_added fixed_accepted])

lemma fixed_deleted: "(\<And>r. p r \<Longrightarrow> rm_role r \<noteq> ''owner'') \<Longrightarrow> owners_fixed c db (delete_members p db)"
proof -
  assume p: "\<And>r. p r \<Longrightarrow> rm_role r \<noteq> ''owner''"
  have "filter (owner_row c) (filter (\<lambda>r. \<not> p r) ms) = filter (owner_row c) ms" for ms
    using p by (induction ms) (auto simp: owner_row_def)
  then show ?thesis
    by (simp add: owners_fixed_def owners_of_def delete_members_def)
qed

lemma fixed_updated:
  assumes "\<And>r. p r \<Longrightarrow> rm_role r \<noteq> ''owner''" and "role \<noteq> ''owner''"
  shows "owners_fixed c db (update_members p now role db)"
proof -
  have "filter (owner_row c) (map (\<lambda>r. if p r then r\<lparr>rm_role := role, rm_updated_at := now\<rparr> else r) ms)
      = filter (owner_row c) ms" for ms
    using assms by (induction ms) (auto simp: owner_row_def)
  then show ?thesis
    by (simp add: owners_fixed_def owners_of_def update_members_def)
qed

lemma fixed_removed:
  "remove_relay_member c' k db = (x, db') \<Longrightarrow> owners_fixed c db db'"
  "remove_relay_member_if_role c' k e db = (x, db') \<Longrightarrow> e \<noteq> ''owner'' \<Longrightarrow> owners_fixed c db db'"
  by (auto simp: remove_relay_member_def remove_relay_member_if_role_def Let_def split: option.splits if_splits
      intro: fixed_deleted)

lemma fixed_changed:
  "update_relay_member_role now c' k role db = Ok (x, db') \<Longrightarrow> role \<noteq> ''owner'' \<Longrightarrow> owners_fixed c db db'"
  by (auto simp: update_relay_member_role_def Let_def split: if_splits intro: fixed_updated)

lemma fixed_commands:
  "owners_fixed c db (snd (handle_relay_leave ck enabled c' ev db))"
  "owners_fixed c db (snd (add_member_command ck c' ev sr target db))"
  "owners_fixed c db (snd (remove_member_command c' ev sr target db))"
  "owners_fixed c db (snd (change_role_command ck c' ev sr target db))"
  subgoal
    by (auto simp: handle_relay_leave_def split: prod.split remove_result.split dest: fixed_removed)
  subgoal
    by (auto simp: add_member_command_def Let_def step_snd split: result.split intro: fixed_added)
  subgoal
    by (auto simp: remove_member_command_def split: prod.split remove_result.split if_splits dest: fixed_removed)
  subgoal
    by (auto simp: change_role_command_def step_snd split: result.split option.split intro: fixed_changed)
  done

lemma fixed_roster: "owners_fixed c db (snd (execute_relay_admin_command ck c' ev db))"
  by (auto simp: execute_relay_admin_command_def Let_def step_snd fixed_commands set_community_icon_def
      split: result.split intro: owners_fixed_same)

lemma fixed_installed:
  assumes "upsert_owner now c' k db = Ok db1" and "role \<noteq> ''owner''" and "c \<noteq> c'"
  shows "owners_fixed c db (demote_others now c' k role db1)"
  using upsert_owner_elsewhere [OF assms(1,3)] demoted_others(2) [OF assms(2,3)]
  by (simp add: owners_fixed_def owners_of_def demote_others_def update_members_def)

fun installs_owner :: "community_id \<Rightarrow> community_op \<Rightarrow> bool" where
  "installs_owner c (BootstrapOwner c' _) \<longleftrightarrow> c' = c"
| "installs_owner c (TransferOwnership c' _ _) \<longleftrightarrow> c' = c"
| "installs_owner _ _ \<longleftrightarrow> False"

lemma fixed_backfilled:
  assumes r: "backfill_from_allowlist now rows c' db = Ok (x, db')"
  shows "owners_fixed c db db'"
proof -
  have "filter (owner_row c) (fold (backfill_row now c') hits ms) = filter (owner_row c) ms" for hits ms
    by (induction hits arbitrary: ms) (auto simp: backfill_row_def owner_row_def)
  then show ?thesis
    using r by (auto simp: backfill_from_allowlist_def Let_def owners_fixed_def owners_of_def split: option.splits if_splits)
qed

lemma fixed_created:
  assumes r: "create_community_with_owner limit now fresh host owner db = Ok (x, db')" and c: "community_exists db c"
  shows "owners_fixed c db db'"
proof (cases "db' = db")
  case False
  then have "tn_members db' = tn_members db @ [new_relay_member now fresh (ascii_lower owner) ''owner'' None]"
      and "fresh \<noteq> c"
    using r c by (auto simp: create_community_with_owner_def Let_def fresh_community_def split: if_splits option.splits)
  then show ?thesis
    by (simp add: owners_fixed_def owners_of_def owner_row_def new_relay_member_def)
qed simp

lemma community_op_fixed:
  assumes "\<not> installs_owner c op" and "community_exists db c"
  shows "owners_fixed c db (run_community_op limit second ck op db)"
  using assms
  by (cases op)
    (auto simp: fixed_commands fixed_roster kept_unit_def bootstrap_owner_def transfer_ownership_def
        ensure_configured_community_def archive_community_owned_by_def unarchive_community_owned_by_def
        mint_relay_invite_def reap_expired_relay_invites_def Let_def result_simps
      intro!: owners_fixed_kept
      intro: fixed_created fixed_backfilled fixed_claimed_invite fixed_claimed fixed_installed owners_fixed_same
      split: option.splits if_splits result.split)

text \<open>A restriction is no stricter than another when it bans and mutes no more, at any time.\<close>

definition no_stricter :: "moderation_db \<Rightarrow> moderation_db \<Rightarrow> community_id \<Rightarrow> hex_string \<Rightarrow> bool" where
  "no_stricter db db' c pk \<longleftrightarrow>
     (\<forall>now. (\<not> rs_banned (restriction_state now db' c pk) \<or> rs_banned (restriction_state now db c pk))
       \<and> rs_muted_until (restriction_state now db' c pk) \<in> {None, rs_muted_until (restriction_state now db c pk)})"

lemma restriction_state_eq:
  "restriction_state now db c pk =
     (case ban_of db c pk of
        Some r \<Rightarrow> \<lparr>rs_banned = ban_in_force now r, rs_muted_until = (if mute_in_force now r then bn_muted_until r else None)\<rparr>
      | None \<Rightarrow> \<lparr>rs_banned = False, rs_muted_until = None\<rparr>)"
  by (simp add: restriction_state_def ban_of_def)

lemma no_stricter_same: "ban_of db' c pk = ban_of db c pk \<Longrightarrow> no_stricter db db' c pk"
  by (simp add: no_stricter_def restriction_state_eq)

lemma no_stricter_trans:
  assumes "no_stricter a b c pk" and "no_stricter b d c pk"
  shows "no_stricter a d c pk"
  unfolding no_stricter_def
proof
  fix now
  from assms have "(\<not> rs_banned (restriction_state now b c pk) \<or> rs_banned (restriction_state now a c pk))
       \<and> rs_muted_until (restriction_state now b c pk) \<in> {None, rs_muted_until (restriction_state now a c pk)}"
    "(\<not> rs_banned (restriction_state now d c pk) \<or> rs_banned (restriction_state now b c pk))
       \<and> rs_muted_until (restriction_state now d c pk) \<in> {None, rs_muted_until (restriction_state now b c pk)}"
    by (simp_all add: no_stricter_def)
  then show "(\<not> rs_banned (restriction_state now d c pk) \<or> rs_banned (restriction_state now a c pk))
       \<and> rs_muted_until (restriction_state now d c pk) \<in> {None, rs_muted_until (restriction_state now a c pk)}"
    by auto
qed

lemma find_lifted:
  assumes "\<And>r. bn_community (f r) = bn_community r \<and> bn_pubkey (f r) = bn_pubkey r"
  shows "find (ban_at c pk) (map (\<lambda>r. if hit r then f r else r) xs) =
    map_option (\<lambda>r. if hit r then f r else r) (find (ban_at c pk) xs)"
  using assms by (intro find_map_kept) (auto simp: ban_at_def)

lemma lifted_no_stricter:
  assumes "lift_ban now actor hit f db = Ok (x, db1)"
    and "\<And>r. bn_community (f r) = bn_community r \<and> bn_pubkey (f r) = bn_pubkey r"
    and "\<And>r t. \<not> ban_in_force t (f r) \<or> ban_in_force t r"
    and "\<And>r. bn_muted_until (f r) \<in> {None, bn_muted_until r}"
  shows "no_stricter db db1 c pk"
proof (cases "db1 = db")
  case False
  let ?g = "\<lambda>r. (f r)\<lparr>bn_actor := actor, bn_updated_at := now\<rparr>"
  have new: "ban_of db1 c pk = map_option (\<lambda>r. if hit r then ?g r else r) (ban_of db c pk)"
    using assms(1,2) False find_lifted [of ?g c pk hit] by (auto simp: lift_ban_def ban_of_def split: if_splits)
  have g: "\<not> ban_in_force t (?g r) \<or> ban_in_force t r" "bn_muted_until (?g r) \<in> {None, bn_muted_until r}" for t r
    using assms(3) [of t r] assms(4) [of r] by (simp_all add: ban_in_force_def)
  have "mute_in_force t (?g r) \<Longrightarrow> bn_muted_until (?g r) = bn_muted_until r" for t r
    using g(2) [of r] by (auto simp: mute_in_force_def is_some_and_def split: option.splits)
  with g have weaker: "(\<not> ban_in_force t (?g r) \<or> ban_in_force t r)
      \<and> (if mute_in_force t (?g r) then bn_muted_until (?g r) else None)
          \<in> {None, if mute_in_force t r then bn_muted_until r else None}" for t r
    by (auto simp: mute_in_force_def)
  show ?thesis
  proof (cases "ban_of db c pk")
    case None
    then show ?thesis by (intro no_stricter_same) (simp add: new)
  next
    case (Some r)
    show ?thesis
    proof (cases "hit r")
      case True
      have "ban_of db1 c pk = Some (?g r)"
        using Some True by (simp add: new)
      then show ?thesis
        using weaker [of _ r] by (simp add: no_stricter_def restriction_state_eq Some del: insert_iff)
    next
      case False
      with Some show ?thesis by (intro no_stricter_same) (simp add: new)
    qed
  qed
qed (simp add: no_stricter_same)

lemma restricts_weaker:
  assumes "restricts ck c ev t db db1" and "ev_kind ev \<in> {KIND_MODERATION_UNBAN, KIND_MODERATION_UNTIMEOUT}"
  shows "no_stricter db db1 c' pk"
  using assms
  by (auto simp: restricts_def Let_def unban_member_def untimeout_member_def kind_consts ban_in_force_def
      intro: lifted_no_stricter)

text \<open>A step in which the owner of the community signs no moderation command and no operator installs another owner.\<close>

fun leaves_owner :: "community_id \<Rightarrow> hex_string \<Rightarrow> moderation_op \<Rightarrow> bool" where
  "leaves_owner c  w (Moderate c' ev) \<longleftrightarrow> c' \<noteq> c \<or> ev_pubkey ev \<noteq> w"
| "leaves_owner c  w (Roster op) \<longleftrightarrow> \<not> installs_owner c op"
| "leaves_owner _ _ _ \<longleftrightarrow> True"

lemma find_hit: "find P xs = Some x \<Longrightarrow> x \<in> set xs \<and> P x"
  by (auto simp: find_Some_iff)

lemma relay_role_owner:
  assumes "relay_role db c pk = Some ''owner''"
  shows "\<exists>r \<in> set (owners_of db c). rm_pubkey r = pk"
proof -
  obtain r where "find (relay_member_at c pk) (tn_members db) = Some r" "rm_role r = ''owner''"
    using assms by (auto simp: relay_role_def get_relay_member_def)
  from find_hit [OF this(1)] this(2) show ?thesis
    by (auto simp: owners_of_def owner_row_def relay_member_at_def)
qed

lemma role_of_owner:
  assumes "distinct (member_keys db)" and "r \<in> set (owners_of db c)"
  shows "relay_role db c (rm_pubkey r) = Some ''owner''"
proof -
  have r: "r \<in> set (tn_members db)" "rm_community r = c" "rm_role r = ''owner''"
    using assms(2) by (auto simp: owners_of_def owner_row_def)
  then have "find (relay_member_at c (rm_pubkey r)) (tn_members db) \<noteq> None"
    by (auto simp: find_None_iff relay_member_at_def)
  then obtain x where x: "find (relay_member_at c (rm_pubkey r)) (tn_members db) = Some x" by blast
  from find_hit [OF this] have "x \<in> set (tn_members db)" "key_of x = key_of r"
    using r by (auto simp: relay_member_at_def)
  then have "x = r"
    using assms(1) r by (auto simp: member_keys_def distinct_map dest: inj_onD)
  with x r show ?thesis by (simp add: relay_role_def get_relay_member_def)
qed

lemma moderation_tenants: "md_tenants (snd (handle_moderation_command ck c ev db)) = md_tenants db"
proof -
  have aud: "md_tenants (audited ck c ev t d) = md_tenants d" for t d
    by (simp add: audited_def insert_audit_eq)
  have "md_tenants (snd (handle_resolve ck c ev actor db)) = md_tenants db" for actor
    by (auto simp: handle_resolve_def check_then Let_def resolve_report_def ok_or_def and_then_stmt_snd insert_audit_eq
        split: result.split option.split if_splits)
  then show ?thesis
    using command_cases [of ck c ev db] by (auto simp: Let_def aud restricts_tables)
qed

lemma file_report_keeps:
  "insert_report now fresh c ev reporter target ch ty remark db = Ok (x, db') \<Longrightarrow>
   md_tenants db' = md_tenants db \<and> md_bans db' = md_bans db \<and> md_actions db' = md_actions db"
  by (auto simp: insert_report_def split: option.splits if_splits)

definition reigns :: "community_id \<Rightarrow> relay_member \<Rightarrow> moderation_db \<Rightarrow> bool" where
  "reigns c row db \<longleftrightarrow> roster_ok (md_tenants db) \<and> community_exists (md_tenants db) c \<and> owners_of (md_tenants db) c = [row]"

lemma reigns_step:
  assumes reigns: "reigns c row db" and op: "leaves_owner c (rm_pubkey row) op"
  shows "reigns c row (run_moderation_op limit second ck op db)
    \<and> no_stricter db (run_moderation_op limit second ck op db) c (rm_pubkey row)"
proof -
  have tenants: "reigns c row db'"
    if "roster_extends (md_tenants db) (md_tenants db')" "owners_fixed c (md_tenants db) (md_tenants db')" for db'
  proof -
    have "owners_of (md_tenants db') c = [row]" and ok: "roster_ok (md_tenants db')"
      using that reigns by (auto simp: reigns_def roster_extends_def owners_fixed_def)
    then have "(c, rm_pubkey row) \<in> set (member_keys (md_tenants db'))"
      by (auto simp: owners_of_def member_keys_def filter_eq_Cons_iff owner_row_def)
    with ok show ?thesis
      using \<open>owners_of (md_tenants db') c = [row]\<close> by (auto simp: reigns_def roster_ok_def)
  qed
  show ?thesis
  proof (cases op)
    case (Moderate c' ev)
    let ?db' = "snd (handle_moderation_command ck c' ev db)"
    have "reigns c row ?db'"
      using reigns by (simp add: reigns_def moderation_tenants)
    moreover have "no_stricter db ?db' c (rm_pubkey row)"
    proof (cases "ban_of ?db' c (rm_pubkey row) = ban_of db c (rm_pubkey row)")
      case True
      then show ?thesis by (rule no_stricter_same)
    next
      case False
      with command_effect [of ck c' ev db] obtain t db1 where
        res: "restricts ck c' ev t db db1" and db': "?db' = audited ck c' ev t db1"
        by (auto simp: Let_def ban_of_def)
      have "c' = c" "t = rm_pubkey row"
        using restricts_only [OF res, of c "rm_pubkey row"] False by (auto simp: db' ban_of_def)
      moreover have "relay_role (md_tenants db) c (ev_pubkey ev) \<noteq> Some ''owner''"
        using relay_role_owner reigns op Moderate \<open>c' = c\<close> by (fastforce simp: reigns_def)
      moreover have "relay_role (md_tenants db) c (rm_pubkey row) = Some ''owner''"
        using reigns role_of_owner [of "md_tenants db" row c] by (simp add: reigns_def roster_ok_def)
      ultimately have "ev_kind ev \<in> {KIND_MODERATION_UNBAN, KIND_MODERATION_UNTIMEOUT}"
        using restricts_authority [OF res] by auto
      from restricts_weaker [OF res this] have "no_stricter db db1 c (rm_pubkey row)" .
      then show ?thesis
        by (simp add: db' no_stricter_def restriction_state_eq ban_of_def)
    qed
    ultimately show ?thesis by (simp add: Moderate)
  next
    case (Administer c' ev)
    let ?db' = "snd (handle_relay_admin_event ck c' ev db)"
    have "no_stricter db ?db' c (rm_pubkey row)"
      by (rule no_stricter_same) (simp add: ban_of_def admin_event_tenants)
    moreover have "reigns c row ?db'"
      using admin_event_tenants(1) [of ck c' ev db] roster_command [of "md_tenants db" ck c' ev]
        fixed_roster [of c "md_tenants db" ck c' ev]
      by (intro tenants) auto
    ultimately show ?thesis by (simp add: Administer)
  next
    case (Roster cop)
    let ?db' = "db\<lparr>md_tenants := run_community_op limit second ck cop (md_tenants db)\<rparr>"
    have "no_stricter db ?db' c (rm_pubkey row)"
      by (rule no_stricter_same) (simp add: ban_of_def)
    moreover have "reigns c row ?db'"
      using op Roster reigns by (intro tenants) (auto simp: community_op_extends reigns_def intro: community_op_fixed)
    ultimately show ?thesis by (simp add: Roster)
  next
    case (FileReport c' ev reporter target ch ty remark)
    have "md_tenants (run_moderation_op limit second ck op db) = md_tenants db"
        "md_bans (run_moderation_op limit second ck op db) = md_bans db"
      by (auto simp: FileReport kept_def dest: file_report_keeps split: result.split)
    then show ?thesis
      using reigns by (auto simp: reigns_def ban_of_def intro: no_stricter_same)
  qed
qed

text \<open>
  C8. Nobody but the owner of a community can restrict the owner, and no command of anybody takes
  the ownership away: through any run of moderation and roster commands, claims, departures and
  reports the owner's row stays as it is, and the owner is banned or timed out no more than before.
\<close>

theorem owner_cannot_be_deposed:
  assumes "reigns c row db" and "list_all (\<lambda>(ck, op). leaves_owner c (rm_pubkey row) op) ops"
  shows "owners_of (md_tenants (run_moderation_ops limit second ops db)) c = [row]
    \<and> no_stricter db (run_moderation_ops limit second ops db) c (rm_pubkey row)"
proof -
  have "reigns c row (run_moderation_ops limit second ops db)
      \<and> no_stricter db (run_moderation_ops limit second ops db) c (rm_pubkey row)"
    using assms
  proof (induction ops arbitrary: db)
    case Nil
    then show ?case by (simp add: run_moderation_ops_def no_stricter_same)
  next
    case (Cons co ops)
    obtain ck op where co: "co = (ck, op)" by (cases co)
    have "leaves_owner c (rm_pubkey row) op"
      using Cons.prems(2) by (simp add: co)
    from reigns_step [OF Cons.prems(1) this, of limit second ck]
    show ?case
      using Cons.IH [of "run_moderation_op limit second ck op db"] Cons.prems(2)
      by (auto simp: run_moderation_ops_def co intro: no_stricter_trans)
  qed
  then show ?thesis by (simp add: reigns_def)
qed

section \<open>The roster\<close>

lemma find_append_new: "\<not> P y \<Longrightarrow> find P (xs @ [y]) = find P xs"
  by (induction xs) auto

lemma relay_role_added:
  assumes "add_relay_member now c k role by db = Ok (x, db')"
  shows "relay_role db' c' t = relay_role db c' t \<or> c' = c \<and> t = k \<and> relay_role db c k = None \<and> relay_role db' c k = Some role"
proof (cases "db' = db")
  case False
  then have new: "tn_members db' = tn_members db @ [new_relay_member now c k role by]" and none: "\<not> is_relay_member db c k"
    using assms by (auto simp: add_relay_member_def split: if_splits)
  show ?thesis
  proof (cases "c' = c \<and> t = k")
    case True
    have "find (relay_member_at c k) (tn_members db) = None"
      using none by (simp add: is_relay_member_def find_None_iff list_ex_iff)
    moreover have "find P (xs @ [y]) = (case find P xs of None \<Rightarrow> if P y then Some y else None | Some z \<Rightarrow> Some z)"
      for P :: "relay_member \<Rightarrow> bool" and xs y
      by (induction xs) auto
    ultimately show ?thesis
      using True by (simp add: relay_role_def get_relay_member_def new relay_member_at_def new_relay_member_def)
  next
    case False
    then have "\<not> relay_member_at c' t (new_relay_member now c k role by)"
      by (auto simp: relay_member_at_def new_relay_member_def)
    then show ?thesis
      by (simp add: relay_role_def get_relay_member_def new find_append_new)
  qed
qed simp

lemma find_filter_other: "(\<And>r. P r \<Longrightarrow> \<not> q r) \<Longrightarrow> find P (filter (\<lambda>r. \<not> q r) xs) = find P xs"
  by (induction xs) auto

lemma relay_role_deleted:
  assumes unique: "distinct (member_keys db)" and p: "\<And>r. p r \<Longrightarrow> relay_member_at c k r"
  shows "relay_role (delete_members p db) c' t = relay_role db c' t
    \<or> c' = c \<and> t = k \<and> relay_role (delete_members p db) c k = None
      \<and> (\<exists>r. p r \<and> relay_role db c k = Some (rm_role r))"
proof (cases "c' = c \<and> t = k")
  case False
  then have "relay_member_at c' t r \<Longrightarrow> \<not> p r" for r
    using p [of r] by (auto simp: relay_member_at_def)
  then show ?thesis
    by (simp add: relay_role_def get_relay_member_def delete_members_def find_filter_other)
next
  case True
  show ?thesis
  proof (cases "find (relay_member_at c k) (tn_members db)")
    case None
    then have "find (relay_member_at c k) (filter (\<lambda>r. \<not> p r) (tn_members db)) = None"
      by (auto simp: find_None_iff)
    with None show ?thesis
      using True by (simp add: relay_role_def get_relay_member_def delete_members_def)
  next
    case (Some r)
    note r = find_hit [OF Some]
    have only: "x = r" if "x \<in> set (tn_members db)" "relay_member_at c k x" for x
      using unique r that by (auto simp: member_keys_def distinct_map relay_member_at_def dest: inj_onD)
    show ?thesis
    proof (cases "p r")
      case True
      then have "find (relay_member_at c k) (filter (\<lambda>r. \<not> p r) (tn_members db)) = None"
        using only by (auto simp: find_None_iff)
      with Some True show ?thesis
        using \<open>c' = c \<and> t = k\<close> by (auto simp: relay_role_def get_relay_member_def delete_members_def)
    next
      case False
      then have "filter (\<lambda>r. \<not> p r) (tn_members db) = tn_members db"
        using only p by (metis (mono_tags, lifting) filter_True)
      then show ?thesis
        by (simp add: relay_role_def get_relay_member_def delete_members_def)
    qed
  qed
qed

lemma relay_role_changed:
  assumes "update_relay_member_role now c k role db = Ok (x, db')"
  shows "relay_role db' c' t = relay_role db c' t
    \<or> c' = c \<and> t = k \<and> relay_role db' c k = Some role \<and> relay_role db c k \<notin> {None, Some ''owner''}"
proof (cases "db' = db")
  case False
  let ?f = "\<lambda>r. if relay_member_at c k r \<and> rm_role r \<noteq> ''owner'' then r\<lparr>rm_role := role, rm_updated_at := now\<rparr> else r"
  have db': "tn_members db' = map ?f (tn_members db)"
    using assms False by (auto simp: update_relay_member_role_def Let_def update_members_def split: if_splits)
  have "find (relay_member_at c' t) (map ?f (tn_members db)) = map_option ?f (find (relay_member_at c' t) (tn_members db))"
    by (intro find_map_kept) (auto simp: relay_member_at_def)
  then have "relay_role db' c' t = map_option (\<lambda>r. rm_role (?f r)) (get_relay_member db c' t)"
    by (simp add: relay_role_def get_relay_member_def db' option.map_comp comp_def)
  then have new: "relay_role db' c' t = map_option (\<lambda>r. rm_role (?f r)) (get_relay_member db c' t)" .
  show ?thesis
  proof (cases "get_relay_member db c' t")
    case None
    with new show ?thesis by (simp add: relay_role_def)
  next
    case (Some a)
    then have a: "relay_member_at c' t a"
      using find_hit by (fastforce simp: get_relay_member_def)
    show ?thesis
    proof (cases "relay_member_at c k a \<and> rm_role a \<noteq> ''owner''")
      case True
      with a have "c' = c" "t = k" by (auto simp: relay_member_at_def)
      with new Some True show ?thesis by (simp add: relay_role_def)
    next
      case False
      then have "rm_role (?f a) = rm_role a" by (simp only: if_False)
      with new Some show ?thesis by (simp add: relay_role_def)
    qed
  qed
qed simp

lemma removal_roles:
  assumes "distinct (member_keys db)"
  shows "remove_relay_member c k db = (x, db') \<Longrightarrow>
      relay_role db' c' t = relay_role db c' t
      \<or> c' = c \<and> t = k \<and> relay_role db' c k = None \<and> relay_role db c k \<notin> {None, Some ''owner''}"
    and "remove_relay_member_if_role c k e db = (x, db') \<Longrightarrow>
      relay_role db' c' t = relay_role db c' t
      \<or> c' = c \<and> t = k \<and> relay_role db' c k = None \<and> relay_role db c k = Some e"
  subgoal
    using relay_role_deleted [OF assms, of "\<lambda>r. relay_member_at c k r \<and> rm_role r \<noteq> ''owner''" c k c' t]
    by (auto simp: remove_relay_member_def Let_def split: if_splits)
  subgoal
    using relay_role_deleted [OF assms, of "\<lambda>r. relay_member_at c k r \<and> rm_role r = e" c k c' t]
    by (auto simp: remove_relay_member_if_role_def Let_def split: if_splits option.splits)
  done

definition may_change :: "string \<Rightarrow> string option \<Rightarrow> string option \<Rightarrow> bool" where
  "may_change sender_role old new \<longleftrightarrow>
     sender_role = ''owner'' \<and> old \<noteq> Some ''owner'' \<and> new \<noteq> Some ''owner''
     \<or> sender_role = ''admin'' \<and> old \<in> {None, Some ''member''} \<and> new \<in> {None, Some ''member''}"

lemma roster_command_roles:
  assumes unique: "distinct (member_keys db)"
  shows "relay_role (snd (add_member_command ck c ev sr k db)) c' t = relay_role db c' t
      \<or> c' = c \<and> t = k \<and> may_change sr (relay_role db c t) (relay_role (snd (add_member_command ck c ev sr k db)) c t)"
    and "relay_role (snd (remove_member_command c ev sr k db)) c' t = relay_role db c' t
      \<or> c' = c \<and> t = k \<and> may_change sr (relay_role db c t) (relay_role (snd (remove_member_command c ev sr k db)) c t)"
    and "relay_role (snd (change_role_command ck c ev sr k db)) c' t = relay_role db c' t
      \<or> c' = c \<and> t = k \<and> may_change sr (relay_role db c t) (relay_role (snd (change_role_command ck c ev sr k db)) c t)"
  subgoal
    by (auto simp: add_member_command_def Let_def step_snd may_change_def split: result.split
        dest!: relay_role_added [where c' = c' and t = t])
  subgoal
    by (auto simp: remove_member_command_def may_change_def split: prod.split remove_result.split if_splits
        dest!: removal_roles [OF unique, where c' = c' and t = t])
  subgoal
    by (auto simp: change_role_command_def step_snd may_change_def split: result.split option.split
        dest!: relay_role_changed [where c' = c' and t = t])
  done

lemma icon_roles: "relay_role (set_community_icon c icon db) c' t = relay_role db c' t"
  by (simp add: set_community_icon_def relay_role_def get_relay_member_def)

lemma admin_command_roles:
  assumes "distinct (member_keys db)" and "relay_role (snd (execute_relay_admin_command ck c ev db)) c' t \<noteq> relay_role db c' t"
  shows "c' = c \<and> extract_p_tag_bytes ev = Some t \<and> \<not> stale_command ck ev
    \<and> may_change (unwrap_or_empty (relay_role db c (ev_pubkey ev))) (relay_role db c t)
        (relay_role (snd (execute_relay_admin_command ck c ev db)) c t)"
proof -
  let ?sr = "unwrap_or_empty (relay_role db c (ev_pubkey ev))"
  have "\<not> stale_command ck ev"
    using assms(2) by (auto simp: execute_relay_admin_command_def)
  moreover from this assms(2) obtain k where k: "extract_p_tag_bytes ev = Some k"
    by (cases "extract_p_tag_bytes ev")
      (auto simp: execute_relay_admin_command_def Let_def step_snd ok_or_def icon_roles split: if_splits result.splits)
  moreover have "snd (execute_relay_admin_command ck c ev db) \<in>
      {db, snd (add_member_command ck c ev ?sr k db), snd (remove_member_command c ev ?sr k db),
       snd (change_role_command ck c ev ?sr k db)}
      \<or> (\<exists>icon. snd (execute_relay_admin_command ck c ev db) = set_community_icon c icon db)"
    using k by (auto simp: execute_relay_admin_command_def Let_def step_snd ok_or_def split: result.splits)
  ultimately show ?thesis
    using assms(2) roster_command_roles(1) [OF assms(1), of ck c ev ?sr k c' t]
      roster_command_roles(2) [OF assms(1), of c ev ?sr k c' t] roster_command_roles(3) [OF assms(1), of ck c ev ?sr k c' t]
    by (auto simp: icon_roles)
qed

text \<open>
  C11. A roster command changes the role of the key it names, in its own community, and only for a
  signer who is not banned there: an owner, who neither makes nor unmakes owners, or an admin, who
  only adds and removes plain members.
\<close>

theorem roster_changes_are_authorised:
  assumes "distinct (member_keys (md_tenants db))"
    and "handle_relay_admin_event ck c ev db = (r, db')"
    and "relay_role (md_tenants db') c' t \<noteq> relay_role (md_tenants db) c' t"
  shows "c' = c \<and> extract_p_tag_bytes ev = Some t \<and> \<not> stale_command ck ev
    \<and> \<not> rs_banned (restriction_state (ck_now ck) db c (ev_pubkey ev))
    \<and> may_change (unwrap_or_empty (relay_role (md_tenants db) c (ev_pubkey ev))) (relay_role (md_tenants db) c t)
        (relay_role (md_tenants db') c t)"
proof -
  have adm: "\<not> rs_banned (restriction_state (ck_now ck) db c (ev_pubkey ev))"
    and db': "md_tenants db' = snd (execute_relay_admin_command ck c ev (md_tenants db))"
    using assms(2,3)
    by (auto simp: handle_relay_admin_event_def check_then admits_relay_admin_command_def
        split: prod.splits result.splits if_splits)
  then show ?thesis
    using admin_command_roles [OF assms(1)] assms(3) by auto
qed

end
