(* ===== verification/Moderation_Audit.thy ===== *)
theory Moderation_Audit
  imports Moderation_Laws
begin

text \<open>
  Reports over a run of the moderation operations: each is closed once, by a recorded decision. At
  the end, concrete commands for the theorems on who may do what.
\<close>

section \<open>Reports\<close>

text \<open>An open report has no action; a closed one has an action of its community by who resolved it.\<close>

definition report_accounted :: "action_row list \<Rightarrow> report_row \<Rightarrow> bool" where
  "report_accounted actions r \<longleftrightarrow>
     (rp_status r = ''open'' \<and> rp_action r = None \<and> rp_resolved_by r = None
      \<or> rp_status r \<in> {''resolved'', ''dismissed''}
        \<and> list_ex (\<lambda>a. ac_community a = rp_community r \<and> Some (ac_id a) = rp_action r \<and> Some (ac_actor a) = rp_resolved_by r
             \<and> (ac_action a = ''dismiss_report'') = (rp_status r = ''dismissed'')) actions)"

definition reports_accounted :: "moderation_db \<Rightarrow> bool" where
  "reports_accounted db \<longleftrightarrow> list_all (report_accounted (md_actions db)) (md_reports db)"

definition closed_kept :: "moderation_db \<Rightarrow> moderation_db \<Rightarrow> bool" where
  "closed_kept db db' \<longleftrightarrow> list_all (\<lambda>r. rp_status r = ''open'' \<or> r \<in> set (md_reports db')) (md_reports db)"

lemma closed_kept_refl [simp]: "closed_kept db db"
  by (simp add: closed_kept_def list_all_iff)

lemma closed_kept_same: "md_reports db' = md_reports db \<Longrightarrow> closed_kept db db'"
  by (simp add: closed_kept_def list_all_iff)

lemma closed_kept_trans: "closed_kept a b \<Longrightarrow> closed_kept b d \<Longrightarrow> closed_kept a d"
  by (auto simp: closed_kept_def list_all_iff)

lemma accounted_more: "report_accounted as r \<Longrightarrow> report_accounted (as @ bs) r"
  by (auto simp: report_accounted_def)

lemma reports_accounted_more:
  "reports_accounted db \<Longrightarrow> md_reports db' = md_reports db \<Longrightarrow> md_actions db' = md_actions db @ rows \<Longrightarrow> reports_accounted db'"
  by (auto simp: reports_accounted_def list_all_iff accounted_more)

definition closed_by ::
    "int \<Rightarrow> community_id \<Rightarrow> uuid \<Rightarrow> string \<Rightarrow> hex_string \<Rightarrow> uuid \<Rightarrow> report_row \<Rightarrow> report_row" where
  "closed_by now c i status actor a r =
     (if rp_community r = c \<and> rp_id r = i \<and> rp_status r = ''open''
      then r\<lparr>rp_status := status, rp_resolved_by := Some actor, rp_resolved_at := Some now, rp_action := Some a\<rparr> else r)"

lemma vocabulary_ok:
  "resolution_vocabulary status action = Ok () \<Longrightarrow>
   status \<in> {''resolved'', ''dismissed''} \<and> (resolution_audit_action action = ''dismiss_report'') = (status = ''dismissed'')"
  by (auto simp: resolution_vocabulary_def resolution_audit_action_def split: if_splits)

text \<open>The two writes at the end of a resolution.\<close>

definition resolve_writes ::
    "command_clock \<Rightarrow> community_id \<Rightarrow> hex_string \<Rightarrow> report_row \<Rightarrow> string \<Rightarrow> string \<Rightarrow> string option
     \<Rightarrow> moderation_db \<Rightarrow> command_step" where
  "resolve_writes ck c actor report status action reason db =
     and_then (insert_audit ck c actor (resolution_audit_action action)
       (fst (target_columns (rp_target report))) (snd (target_columns (rp_target report))) reason db) (\<lambda>action_id db.
     and_then (run_stmt (mod_error ''database error'')
       (resolve_report (ck_now ck) c (rp_id report) status actor (Some action_id)) db) (\<lambda>resolved db.
     if \<not> resolved then (Err report_closed_message, db)
     else (Ok [ReportNotice (rp_reporter report) (rp_id report) status (resolution_summary reason status)], db)))"

lemma resolve_writes_effect:
  assumes "resolution_vocabulary status action = Ok ()"
    and row_def: "row = audit_entry_row ck c actor (resolution_audit_action action)
      (fst (target_columns (rp_target report))) (snd (target_columns (rp_target report))) reason"
  shows "snd (resolve_writes ck c actor report status action reason db) \<in>
    {db, db\<lparr>md_actions := md_actions db @ [row]\<rparr>,
     db\<lparr>md_actions := md_actions db @ [row],
        md_reports := map (closed_by (ck_now ck) c (rp_id report) status actor (ac_id row)) (md_reports db)\<rparr>}"
proof (cases "auditable ck c actor (resolution_audit_action action)
    (fst (target_columns (rp_target report))) (snd (target_columns (rp_target report))) db")
  case False
  then show ?thesis by (simp add: resolve_writes_def insert_audit_eq)
next
  case True
  let ?db1 = "db\<lparr>md_actions := md_actions db @ [row]\<rparr>"
  have "snd (resolve_writes ck c actor report status action reason db)
      = (case resolve_report (ck_now ck) c (rp_id report) status actor (Some (ck_fresh ck)) ?db1 of
           Err _ \<Rightarrow> ?db1 | Ok (x, db') \<Rightarrow> db')"
    using True by (simp add: resolve_writes_def insert_audit_eq and_then_stmt_snd row_def split: result.split)
  moreover have "map (\<lambda>r. if rp_community r = c \<and> rp_id r = rp_id report \<and> rp_status r = ''open''
      then r\<lparr>rp_status := status, rp_resolved_by := Some actor, rp_resolved_at := Some (ck_now ck), rp_action := Some (ck_fresh ck)\<rparr>
      else r) rs = map (closed_by (ck_now ck) c (rp_id report) status actor (ac_id row)) rs" for rs
    by (simp add: closed_by_def row_def)
  ultimately show ?thesis
    by (simp add: resolve_report_def Let_def)
qed

lemma resolve_effect:
  "snd (handle_resolve ck c ev actor db) = db
   \<or> (\<exists>report status action. resolution_vocabulary status action = Ok ()
        \<and> snd (handle_resolve ck c ev actor db)
            = snd (resolve_writes ck c actor report status action (named_value ev ''reason'') db))"
  unfolding handle_resolve_def Let_def check_then ok_or_def resolve_writes_def [symmetric]
  by (auto split: option.split result.split)

lemma closed_accounted:
  assumes "reports_accounted db" and "status \<in> {''resolved'', ''dismissed''}" and "ac_community row = c" and "ac_actor row = actor"
    and "(ac_action row = ''dismiss_report'') = (status = ''dismissed'')"
  shows "reports_accounted (db\<lparr>md_actions := md_actions db @ [row],
      md_reports := map (closed_by now c i status actor (ac_id row)) (md_reports db)\<rparr>)"
proof -
  have "report_accounted (md_actions db @ [row]) (closed_by now c i status actor (ac_id row) r)"
    if "report_accounted (md_actions db) r" for r
  proof (cases "rp_community r = c \<and> rp_id r = i \<and> rp_status r = ''open''")
    case True
    with assms(2-5) show ?thesis by (simp add: closed_by_def report_accounted_def)
  next
    case False
    with accounted_more [OF that] show ?thesis by (simp only: closed_by_def if_False)
  qed
  with assms(1) show ?thesis
    by (simp add: reports_accounted_def list_all_iff)
qed

lemma closed_kept_closing:
  "closed_kept db (db\<lparr>md_actions := as, md_reports := map (closed_by now c i status actor a) (md_reports db)\<rparr>)"
  by (auto simp: closed_kept_def list_all_iff closed_by_def image_iff intro: bexI)

lemma resolve_accounted:
  assumes "reports_accounted db"
  shows "reports_accounted (snd (handle_resolve ck c ev actor db)) \<and> closed_kept db (snd (handle_resolve ck c ev actor db))"
  using resolve_effect [of ck c ev actor db]
proof
  assume "snd (handle_resolve ck c ev actor db) = db"
  with assms show ?thesis by simp
next
  assume "\<exists>report status action. resolution_vocabulary status action = Ok ()
        \<and> snd (handle_resolve ck c ev actor db)
            = snd (resolve_writes ck c actor report status action (named_value ev ''reason'') db)"
  then obtain report status action where v: "resolution_vocabulary status action = Ok ()"
    and db': "snd (handle_resolve ck c ev actor db)
            = snd (resolve_writes ck c actor report status action (named_value ev ''reason'') db)"
    by blast
  have app: "reports_accounted (db\<lparr>md_actions := md_actions db @ [row]\<rparr>)" "closed_kept db (db\<lparr>md_actions := md_actions db @ [row]\<rparr>)"
    for row
    using assms by (auto intro: reports_accounted_more closed_kept_same)
  let ?row = "audit_entry_row ck c actor (resolution_audit_action action)
      (fst (target_columns (rp_target report))) (snd (target_columns (rp_target report))) (named_value ev ''reason'')"
  have "reports_accounted (db\<lparr>md_actions := md_actions db @ [?row],
      md_reports := map (closed_by (ck_now ck) c (rp_id report) status actor (ac_id ?row)) (md_reports db)\<rparr>)"
    using vocabulary_ok [OF v] by (intro closed_accounted assms) simp_all
  with app assms closed_kept_closing show ?thesis
    using resolve_writes_effect [OF v refl, of ck c actor report "named_value ev ''reason''" db]
    unfolding db' by (elim insertE emptyE) (simp_all only: closed_kept_refl simp_thms)
qed

lemma command_accounted:
  assumes "reports_accounted db"
  shows "reports_accounted (snd (handle_moderation_command ck c ev db))
    \<and> closed_kept db (snd (handle_moderation_command ck c ev db))"
proof -
  consider "snd (handle_moderation_command ck c ev db) = db"
    | "snd (handle_moderation_command ck c ev db) = snd (handle_resolve ck c ev (ev_pubkey ev) db)"
    | t db1 where "restricts ck c ev t db db1" "snd (handle_moderation_command ck c ev db) = audited ck c ev t db1"
    using command_cases [of ck c ev db] by (auto simp: Let_def)
  then show ?thesis
  proof cases
    case 1
    with assms show ?thesis by simp
  next
    case 2
    with resolve_accounted [OF assms] show ?thesis by simp
  next
    case 3
    have "\<exists>rows. md_actions (audited ck c ev t db1) = md_actions db @ rows" "md_reports (audited ck c ev t db1) = md_reports db"
      using restricts_tables [OF 3(1)] by (auto simp: audited_def insert_audit_eq)
    then show ?thesis
      using assms by (auto simp: 3(2) intro: reports_accounted_more closed_kept_same)
  qed
qed

lemma filed_accounted:
  assumes "insert_report now fresh c ev reporter target ch ty remark db = Ok (x, db')" and "reports_accounted db"
  shows "reports_accounted db' \<and> closed_kept db db'"
  using assms
  by (auto simp: insert_report_def reports_accounted_def report_accounted_def closed_kept_def list_all_iff
      split: option.splits if_splits)

lemma step_accounted:
  assumes "reports_accounted db"
  shows "reports_accounted (run_moderation_op limit second ck op db)
    \<and> closed_kept db (run_moderation_op limit second ck op db)"
proof (cases op)
  case (Administer c ev)
  then show ?thesis
    using assms by (simp add: reports_accounted_def closed_kept_same admin_event_tenants)
next
  case (Roster cop)
  then show ?thesis
    using assms by (simp add: reports_accounted_def closed_kept_same)
next
  case (FileReport c ev reporter target ch ty remark)
  then show ?thesis
    using assms by (auto simp: kept_def filed_accounted split: result.split)
qed (simp add: command_accounted assms)

lemma run_accounted:
  "reports_accounted db \<Longrightarrow>
   reports_accounted (run_moderation_ops limit second ops db) \<and> closed_kept db (run_moderation_ops limit second ops db)"
proof (induction ops arbitrary: db)
  case Nil
  then show ?case by (simp add: run_moderation_ops_def)
next
  case (Cons co ops)
  obtain ck op where co: "co = (ck, op)" by (cases co)
  show ?case
    using step_accounted [OF Cons.prems, of limit second ck op] Cons.IH [of "run_moderation_op limit second ck op db"]
    by (auto simp: run_moderation_ops_def co intro: closed_kept_trans)
qed

definition no_moderation :: "tenant_db \<Rightarrow> channel_db \<Rightarrow> moderation_db" where
  "no_moderation tenants channels =
     \<lparr>md_tenants = tenants, md_channels = channels, md_reports = [], md_bans = [], md_actions = []\<rparr>"

text \<open>
  C36. In any run, a report is open without an action, or resolved or dismissed by a recorded action
  of its community whose actor is the one noted; the status escalated never occurs, and a report
  that is closed is never written again.
\<close>

theorem closed_reports_stay:
  "let db = run_moderation_ops limit second ops (no_moderation tenants channels);
       db' = run_moderation_ops limit second later db in
   list_all (report_accounted (md_actions db')) (md_reports db')
   \<and> list_all (\<lambda>r. rp_status r = ''open'' \<or> r \<in> set (md_reports db')) (md_reports db)"
proof -
  have "reports_accounted (no_moderation tenants channels)"
    by (simp add: reports_accounted_def no_moderation_def)
  with run_accounted show ?thesis
    by (simp add: Let_def reports_accounted_def closed_kept_def)
qed

section \<open>Sample commands\<close>

definition key_a :: hex_string where "key_a = replicate 64 (CHR ''a'')"
definition key_b :: hex_string where "key_b = replicate 64 (CHR ''b'')"

lemma key_lower: "ascii_lower key_a = key_a" "ascii_lower key_b = key_b"
  by (simp_all add: key_a_def key_b_def ascii_lower_def map_replicate_const) (code_simp+)

definition alice :: relay_member where
  "alice = new_relay_member 1 7 key_a ''owner'' None"

definition sample_moderation :: moderation_db where
  "sample_moderation = no_moderation
     \<lparr>tn_communities = [new_community 1 7 ''relay.example''], tn_members = [alice], tn_acceptances = [], tn_invites = []\<rparr>
     \<lparr>cdb_channels = [], cdb_members = [], cdb_users = []\<rparr>"

definition command_ck :: command_clock where
  "command_ck = \<lparr>ck_from_ts = Some, ck_now = 100, ck_secs = 100, ck_fresh = 9\<rparr>"

definition signed_command :: "hex_string \<Rightarrow> kind \<Rightarrow> hex_string \<Rightarrow> event" where
  "signed_command by k target =
     \<lparr>ev_id = key_a, ev_pubkey = by, ev_created_at = 100, ev_kind = k, ev_tags = [[''p'', target]], ev_content = []\<rparr>"

lemma hex_keys: "list_all is_hex_char key_a" "list_all is_hex_char key_b"
proof -
  have "is_hex_char (CHR ''a'')" "is_hex_char (CHR ''b'')" by code_simp+
  then show "list_all is_hex_char key_a" "list_all is_hex_char key_b"
    by (simp_all add: key_a_def key_b_def list_all_iff)
qed

lemma keys_differ: "key_a \<noteq> key_b" "length key_a = 64" "length key_b = 64"
  by (simp_all add: key_a_def key_b_def)

lemma signed_command_target: "extract_p_tag_bytes (signed_command by k key_b) = Some key_b"
  by (simp add: extract_p_tag_bytes_def first_hex64_def hex64_def signed_command_def keys_differ hex_keys key_lower)

lemma fresh_sample: "\<not> stale_command command_ck (signed_command by k target)"
  by (simp add: stale_command_def signed_command_def command_ck_def as_i64_def MAX_COMMAND_SKEW_SECS_def)

lemma sample_roles: "relay_role (md_tenants sample_moderation) 7 key_a = Some ''owner''"
  by (simp add: relay_role_def get_relay_member_def sample_moderation_def no_moderation_def alice_def relay_member_at_def
      new_relay_member_def)

definition sample_ban :: event where
  "sample_ban = signed_command key_a KIND_MODERATION_BAN key_b"

lemma sample_ban_fields:
  "ev_pubkey sample_ban = key_a" "ev_kind sample_ban = KIND_MODERATION_BAN"
  "named_value sample_ban ''expiration'' = None" "named_value sample_ban ''reason'' = None"
  by (simp_all add: sample_ban_def signed_command_def named_value_def)

lemma sample_ban_effect:
  "ban_of (snd (handle_moderation_command command_ck 7 sample_ban sample_moderation)) 7 key_b
     \<noteq> ban_of sample_moderation 7 key_b"
proof -
  have auth: "authorize_moderation_action sample_moderation 7 key_a None (OnPubkey key_b) Ban = Ok CommunityOwner"
    by (simp add: authorize_moderation_action_def sample_roles decide_authority_def Let_def)
  have none: "md_bans sample_moderation = []" "community_exists (md_tenants sample_moderation) 7"
    by (simp_all add: sample_moderation_def no_moderation_def community_exists_def new_community_def)
  have target: "extract_p_tag_bytes sample_ban = Some key_b"
    by (simp add: sample_ban_def signed_command_target)
  have "\<exists>db1. ban_member 100 7 key_b key_a None None sample_moderation = Ok db1 \<and> ban_of db1 7 key_b \<noteq> None"
    by (simp add: ban_member_def upsert_ban_def none key_width_def keys_differ ban_of_def ban_at_def)
  then obtain db1 where db1: "ban_member 100 7 key_b key_a None None sample_moderation = Ok db1" "ban_of db1 7 key_b \<noteq> None"
    by blast
  have "snd (handle_ban command_ck 7 sample_ban key_a sample_moderation)
      = snd (insert_audit command_ck 7 key_a ''ban'' (Some key_b) None None db1)"
  proof -
    have "ck_now command_ck = 100" by (simp add: command_ck_def)
    with db1(1) show ?thesis
      by (simp add: handle_ban_def check_then target extract_expiration_def sample_ban_fields auth and_then_stmt_snd
          unit_stmt_def ok_or_def map_err_def audit_then_snd)
  qed
  then have "ban_of (snd (handle_ban command_ck 7 sample_ban key_a sample_moderation)) 7 key_b \<noteq> None"
    using db1(2) by (simp add: insert_audit_eq ban_of_def)
  moreover have "handle_moderation_command command_ck 7 sample_ban sample_moderation
      = handle_ban command_ck 7 sample_ban key_a sample_moderation"
    using fresh_sample [of key_a KIND_MODERATION_BAN key_b]
    by (simp add: handle_moderation_command_def check_then ensure_actor_not_banned_def restriction_state_def none
        sample_ban_def signed_command_def)
  ultimately show ?thesis
    by (simp add: ban_of_def none)
qed


lemma sample_reigns: "reigns 7 alice sample_moderation"
  by (simp add: reigns_def roster_ok_def member_keys_def owners_of_def sample_moderation_def no_moderation_def alice_def
      new_relay_member_def community_exists_def new_community_def owner_row_def)

theorem owner_cannot_be_deposed_witness:
  "owners_of (md_tenants (run_moderation_ops 3 1
      [(command_ck, Moderate 7 (signed_command key_b KIND_MODERATION_BAN key_a)),
       (command_ck, Administer 7 (signed_command key_a RELAY_ADMIN_REMOVE_MEMBER key_a))] sample_moderation)) 7 = [alice]"
proof -
  have "rm_pubkey alice = key_a"
    by (simp add: alice_def new_relay_member_def)
  then show ?thesis
    using keys_differ(1) by (intro conjunct1 [OF owner_cannot_be_deposed] sample_reigns) (auto simp: signed_command_def)
qed

lemma sample_add_effect:
  "relay_role (md_tenants (snd (handle_relay_admin_event command_ck 7
      (signed_command key_a RELAY_ADMIN_ADD_MEMBER key_b) sample_moderation))) 7 key_b
     \<noteq> relay_role (md_tenants sample_moderation) 7 key_b"
proof -
  let ?ev = "signed_command key_a RELAY_ADMIN_ADD_MEMBER key_b" and ?db = "md_tenants sample_moderation"
  have members: "tn_members ?db = [alice]" "md_bans sample_moderation = []" "community_exists ?db 7"
    by (simp_all add: sample_moderation_def no_moderation_def community_exists_def new_community_def)
  have none: "\<not> is_relay_member ?db 7 key_b"
    using keys_differ(1) by (simp add: is_relay_member_def members relay_member_at_def alice_def new_relay_member_def)
  have "add_relay_member 100 7 key_b ''member'' (Some key_a) ?db
      = Ok (True, ?db\<lparr>tn_members := [alice, new_relay_member 100 7 key_b ''member'' (Some key_a)]\<rparr>)"
    using none by (simp add: add_relay_member_def relay_role_valid_def members)
  then have "snd (execute_relay_admin_command command_ck 7 ?ev ?db)
      = ?db\<lparr>tn_members := [alice, new_relay_member 100 7 key_b ''member'' (Some key_a)]\<rparr>"
    using sample_roles fresh_sample [of key_a RELAY_ADMIN_ADD_MEMBER key_b] signed_command_target [of key_a RELAY_ADMIN_ADD_MEMBER]
    by (simp add: execute_relay_admin_command_def Let_def step_snd ok_or_def add_member_command_def unwrap_or_empty_def
        named_value_def signed_command_def kind_consts command_ck_def)
  then have "md_tenants (snd (handle_relay_admin_event command_ck 7 ?ev sample_moderation))
      = ?db\<lparr>tn_members := [alice, new_relay_member 100 7 key_b ''member'' (Some key_a)]\<rparr>"
    by (cases "execute_relay_admin_command command_ck 7 ?ev ?db")
      (simp add: handle_relay_admin_event_def check_then admits_relay_admin_command_def restriction_state_def members)
  then show ?thesis
    using keys_differ(1)
    by (simp add: relay_role_def get_relay_member_def members relay_member_at_def alice_def new_relay_member_def)
qed

theorem roster_changes_are_authorised_witness:
  "may_change ''owner'' (relay_role (md_tenants sample_moderation) 7 key_b)
     (relay_role (md_tenants (snd (handle_relay_admin_event command_ck 7
        (signed_command key_a RELAY_ADMIN_ADD_MEMBER key_b) sample_moderation))) 7 key_b)"
proof -
  have "distinct (member_keys (md_tenants sample_moderation))"
    by (simp add: member_keys_def sample_moderation_def no_moderation_def)
  from roster_changes_are_authorised [OF this prod.collapse [symmetric] sample_add_effect] sample_roles show ?thesis
    by (simp add: signed_command_def unwrap_or_empty_def)
qed

end
