(* ===== verification/Git_Store.thy ===== *)
theory Git_Store
  imports Git_Policy
begin

text \<open>
  Git repositories on object storage: the manifest of \<open>crates/buzz-relay/src/api/git/manifest.rs\<close>
  and the store of \<open>api/git/store.rs\<close>. The bucket is read as \<open>docs/git-on-object-storage.md\<close> states
  it (axioms A1 to A3): an answered write is durable, a read sees it, a conditional write is atomic.
  A request has a \<open>fate\<close>, for an answer can be lost before or after its effect. SHA-256, the JSON
  codec of the manifest and the tokens of the service are the record \<open>object_env\<close>.
\<close>

section \<open>Manifests\<close>

definition MANIFEST_VERSION :: nat where "MANIFEST_VERSION = 1"
definition MAX_MANIFEST_PACKS :: nat where "MAX_MANIFEST_PACKS = 128"
definition PACK_COMPACTION_THRESHOLD :: nat where "PACK_COMPACTION_THRESHOLD = MAX_MANIFEST_PACKS * 3 div 4"
definition MAX_MANIFEST_REFS :: nat where "MAX_MANIFEST_REFS = 10000"

text \<open>\<open>mf_refs\<close> is a \<open>BTreeMap\<close>: its entries in the order of the names.\<close>

record manifest =
  mf_version :: nat
  mf_head :: string
  mf_refs :: "(string, string) hmap"
  mf_packs :: "string list"
  mf_parent :: "string option"

datatype manifest_error =
    ManifestSerde | UnsupportedVersion nat | UnsafeRefName string | MalformedOid string string
  | EmptyHead | MalformedParent string | TooManyPacks nat | TooManyRefs nat | MalformedPackKey string

definition refname_char :: "char \<Rightarrow> bool" where
  "refname_char c \<longleftrightarrow> is_ascii_alphanumeric c \<or> c \<in> set ''/_.-''"

definition is_safe_refname :: "string \<Rightarrow> bool" where
  "is_safe_refname s \<longleftrightarrow>
     starts_with s ''refs/''
     \<and> \<not> (contains_str ''..'' s \<or> contains_str ''//'' s \<or> starts_with s ''/'' \<or> ends_with s ''/'')
     \<and> list_all refname_char s"

definition is_hex_oid :: "string \<Rightarrow> bool" where
  "is_hex_oid s \<longleftrightarrow> (length s = 40 \<or> length s = 64) \<and> list_all is_hex_char s"

definition is_manifest_digest :: "string \<Rightarrow> bool" where
  "is_manifest_digest s \<longleftrightarrow> length s = 64 \<and> list_all (\<lambda>c. is_hex_char c \<and> \<not> is_ascii_uppercase c) s"

definition is_pack_key :: "string \<Rightarrow> bool" where
  "is_pack_key s = is_some_and is_manifest_digest (strip_prefix s ''packs/'')"

fun check_ref_entries :: "(string, string) hmap \<Rightarrow> (manifest_error, unit) result" where
  "check_ref_entries [] = Ok ()"
| "check_ref_entries ((refname, oid) # rest) =
     (if \<not> is_safe_refname refname then Err (UnsafeRefName refname)
      else if \<not> is_hex_oid oid then Err (MalformedOid refname oid)
      else check_ref_entries rest)"

definition validate_manifest :: "manifest \<Rightarrow> (manifest_error, unit) result" where
  "validate_manifest m =
     (if MAX_MANIFEST_PACKS < length (mf_packs m) then Err (TooManyPacks (length (mf_packs m)))
      else if MAX_MANIFEST_REFS < length (mf_refs m) then Err (TooManyRefs (length (mf_refs m)))
      else if mf_head m = [] then Err EmptyHead
      else if \<not> is_safe_refname (mf_head m) then Err (UnsafeRefName (mf_head m))
      else bind_result (check_ref_entries (mf_refs m)) (\<lambda>_.
        case find (\<lambda>p. \<not> is_pack_key p) (mf_packs m) of
          Some p \<Rightarrow> Err (MalformedPackKey p)
        | None \<Rightarrow>
            (case mf_parent m of
               Some p \<Rightarrow> if is_manifest_digest p then Ok () else Err (MalformedParent p)
             | None \<Rightarrow> Ok ())))"

section \<open>The service\<close>

record object_env =
  oe_sha256 :: "string \<Rightarrow> hex_string"
  oe_to_json :: "manifest \<Rightarrow> string"
  oe_from_json :: "string \<Rightarrow> manifest option"
  oe_uuid_text :: "uuid \<Rightarrow> string"
  oe_tag :: "string \<Rightarrow> string \<Rightarrow> nat \<Rightarrow> string"

definition pointer_key :: "object_env \<Rightarrow> community_id \<Rightarrow> string \<Rightarrow> string \<Rightarrow> string" where
  "pointer_key env community owner repo =
     (let repo = (case strip_suffix repo ''.git'' of Some r \<Rightarrow> r | None \<Rightarrow> repo)
      in ''repos/'' @ oe_uuid_text env community @ ''/'' @ owner @ ''/'' @ repo @ ''/pointer'')"

definition canonical_form :: "manifest \<Rightarrow> manifest" where
  "canonical_form m = m\<lparr>mf_packs := remdups_adj (sort (mf_packs m))\<rparr>"

definition canonical_bytes :: "object_env \<Rightarrow> manifest \<Rightarrow> string" where
  "canonical_bytes env m = oe_to_json env (canonical_form m)"

definition manifest_from_bytes :: "object_env \<Rightarrow> string \<Rightarrow> (manifest_error, manifest) result" where
  "manifest_from_bytes env bytes =
     (case oe_from_json env bytes of
        None \<Rightarrow> Err ManifestSerde
      | Some m \<Rightarrow> if mf_version m \<noteq> MANIFEST_VERSION then Err (UnsupportedVersion (mf_version m)) else Ok m)"

text \<open>
  The bucket: the objects that exist, and every write that took effect, the oldest first, as a key
  and a body. A write gets its token from its key, its body and its number.
\<close>

record bucket =
  bk_objects :: "string \<Rightarrow> (string \<times> string) option"
  bk_writes :: "(string \<times> string) list"

datatype fate = Answered | Untagged | Refused | CutOff
datatype s3_error = Http nat | Transport
datatype precond = IfNoneMatchStar | IfMatch string

definition holds_for :: "precond \<Rightarrow> (string \<times> string) option \<Rightarrow> bool" where
  "holds_for p obj = (case p of IfNoneMatchStar \<Rightarrow> obj = None | IfMatch tag \<Rightarrow> map_option fst obj = Some tag)"

definition written :: "object_env \<Rightarrow> string \<Rightarrow> string \<Rightarrow> bucket \<Rightarrow> bucket" where
  "written env key body b =
     b\<lparr>bk_objects := (bk_objects b)(key \<mapsto> (oe_tag env key body (length (bk_writes b)), body)),
       bk_writes := bk_writes b @ [(key, body)]\<rparr>"

definition s3_put ::
    "object_env \<Rightarrow> fate \<Rightarrow> string \<Rightarrow> string \<Rightarrow> precond \<Rightarrow> bucket \<Rightarrow> (s3_error, string option) result \<times> bucket" where
  "s3_put env fate key body p b =
     (let tag = oe_tag env key body (length (bk_writes b));
          ok = holds_for p (bk_objects b key);
          after = (if ok then written env key body b else b)
      in case fate of
           Answered \<Rightarrow> (if ok then Ok (Some tag) else Err (Http 412), after)
         | Untagged \<Rightarrow> (if ok then Ok None else Err (Http 412), after)
         | Refused \<Rightarrow> (Err Transport, b)
         | CutOff \<Rightarrow> (Err Transport, after))"

definition s3_get :: "fate \<Rightarrow> string \<Rightarrow> bucket \<Rightarrow> (s3_error, string option \<times> string) result" where
  "s3_get fate key b =
     (case fate of
        Answered \<Rightarrow> (case bk_objects b key of Some (tag, body) \<Rightarrow> Ok (Some tag, body) | None \<Rightarrow> Err (Http 404))
      | Untagged \<Rightarrow> (case bk_objects b key of Some (tag, body) \<Rightarrow> Ok (None, body) | None \<Rightarrow> Err (Http 404))
      | _ \<Rightarrow> Err Transport)"

section \<open>The store\<close>

datatype store_error = ObjectNotFound string | ObjectTooLarge string nat | DigestMismatch string | Backend s3_error

datatype cas_outcome = Won string | LostRace

definition content_key :: "object_env \<Rightarrow> string \<Rightarrow> string \<Rightarrow> string" where
  "content_key env prefix bytes = prefix @ ''/'' @ oe_sha256 env bytes"

definition idx_key_for_pack_digest :: "string \<Rightarrow> (store_error, string) result" where
  "idx_key_for_pack_digest digest =
     (if length digest \<noteq> 64 \<or> \<not> list_all is_hex_char digest then Err (Backend (Http 400))
      else Ok (''idx/'' @ digest))"

text \<open>A 412 means that the key already holds these bytes.\<close>

definition put_immutable ::
    "object_env \<Rightarrow> fate \<Rightarrow> string \<Rightarrow> string \<Rightarrow> bucket \<Rightarrow> (store_error, string) result \<times> bucket" where
  "put_immutable env fate prefix bytes b =
     (let key = content_key env prefix bytes;
          (answer, b') = s3_put env fate key bytes IfNoneMatchStar b
      in (case answer of
            Ok _ \<Rightarrow> Ok key
          | Err (Http n) \<Rightarrow> if n = 412 then Ok key else Err (Backend (Http n))
          | Err e \<Rightarrow> Err (Backend e), b'))"

definition put_pack :: "object_env \<Rightarrow> fate \<Rightarrow> string \<Rightarrow> bucket \<Rightarrow> (store_error, string) result \<times> bucket" where
  "put_pack env fate bytes = put_immutable env fate ''packs'' bytes"

definition put_manifest :: "object_env \<Rightarrow> fate \<Rightarrow> string \<Rightarrow> bucket \<Rightarrow> (store_error, string) result \<times> bucket" where
  "put_manifest env fate bytes = put_immutable env fate ''manifests'' bytes"

definition put_idx ::
    "object_env \<Rightarrow> fate \<Rightarrow> string \<Rightarrow> string \<Rightarrow> bucket \<Rightarrow> (store_error, string) result \<times> bucket" where
  "put_idx env fate digest idx b =
     (case idx_key_for_pack_digest digest of
        Err e \<Rightarrow> (Err e, b)
      | Ok key \<Rightarrow>
          (let (answer, b') = s3_put env fate key idx IfNoneMatchStar b
           in (case answer of
                 Ok _ \<Rightarrow> Ok key
               | Err (Http n) \<Rightarrow> if n = 412 then Ok key else Err (Backend (Http n))
               | Err e \<Rightarrow> Err (Backend e), b')))"

definition store_get :: "fate \<Rightarrow> string \<Rightarrow> bucket \<Rightarrow> (store_error, string) result" where
  "store_get fate key b =
     (case s3_get fate key b of
        Ok (_, body) \<Rightarrow> Ok body
      | Err (Http n) \<Rightarrow> if n = 404 then Err (ObjectNotFound key) else Err (Backend (Http n))
      | Err e \<Rightarrow> Err (Backend e))"

definition verified :: "object_env \<Rightarrow> string \<Rightarrow> string \<Rightarrow> string \<Rightarrow> (store_error, string) result" where
  "verified env key expected bytes = (if oe_sha256 env bytes \<noteq> expected then Err (DigestMismatch key) else Ok bytes)"

definition get_verified :: "object_env \<Rightarrow> fate \<Rightarrow> string \<Rightarrow> string \<Rightarrow> bucket \<Rightarrow> (store_error, string) result" where
  "get_verified env fate key expected b = bind_result (store_get fate key b) (verified env key expected)"

text \<open>The HEAD request may leave the length out; then only the body is measured.\<close>

definition get_limited :: "fate \<Rightarrow> fate \<Rightarrow> string \<Rightarrow> nat \<Rightarrow> bucket \<Rightarrow> (store_error, string) result" where
  "get_limited head_fate get_fate key limit b =
     (case s3_get head_fate key b of
        Err (Http n) \<Rightarrow> if n = 404 then Err (ObjectNotFound key) else Err (Backend (Http n))
      | Err e \<Rightarrow> Err (Backend e)
      | Ok (_, body) \<Rightarrow>
          if head_fate = Answered \<and> limit < length body then Err (ObjectTooLarge key (length body))
          else bind_result (store_get get_fate key b) (\<lambda>bytes.
            if limit < length bytes then Err (ObjectTooLarge key (length bytes)) else Ok bytes))"

definition get_verified_limited ::
    "object_env \<Rightarrow> fate \<Rightarrow> fate \<Rightarrow> string \<Rightarrow> string \<Rightarrow> nat \<Rightarrow> bucket \<Rightarrow> (store_error, string) result" where
  "get_verified_limited env head_fate get_fate key expected limit b =
     bind_result (get_limited head_fate get_fate key limit b) (verified env key expected)"

definition get_idx :: "fate \<Rightarrow> fate \<Rightarrow> string \<Rightarrow> nat \<Rightarrow> bucket \<Rightarrow> (store_error, string option) result" where
  "get_idx head_fate get_fate digest limit b =
     bind_result (idx_key_for_pack_digest digest) (\<lambda>key.
       case get_limited head_fate get_fate key limit b of
         Ok bytes \<Rightarrow> Ok (Some bytes)
       | Err (ObjectNotFound _) \<Rightarrow> Ok None
       | Err e \<Rightarrow> Err e)"

definition get_pointer :: "fate \<Rightarrow> string \<Rightarrow> bucket \<Rightarrow> (store_error, (string \<times> string) option) result" where
  "get_pointer fate key b =
     (case s3_get fate key b of
        Ok (Some tag, body) \<Rightarrow> Ok (Some (tag, body))
      | Ok (None, _) \<Rightarrow> Err (Backend (Http 500))
      | Err (Http n) \<Rightarrow> if n = 404 then Ok None else Err (Backend (Http n))
      | Err e \<Rightarrow> Err (Backend e))"

definition classify_cas :: "(s3_error, string option) result \<Rightarrow> (store_error, cas_outcome) result" where
  "classify_cas answer =
     (case answer of
        Ok (Some tag) \<Rightarrow> Ok (Won tag)
      | Ok None \<Rightarrow> Err (Backend (Http 200))
      | Err (Http n) \<Rightarrow> if n = 412 then Ok LostRace else Err (Backend (Http n))
      | Err e \<Rightarrow> Err (Backend e))"

definition put_pointer ::
    "object_env \<Rightarrow> fate \<Rightarrow> string \<Rightarrow> string \<Rightarrow> precond \<Rightarrow> bucket \<Rightarrow> (store_error, cas_outcome) result \<times> bucket" where
  "put_pointer env fate key body p b =
     (let (answer, b') = s3_put env fate key body p b in (classify_cas answer, b'))"

end
