(* ===== verification/Git_Publish.thy ===== *)
theory Git_Publish
  imports Git_Store
begin

text \<open>
  Hydration and publication of a repository, \<open>api/git/hydrate.rs\<close>, \<open>api/git/cas_publish.rs\<close> and
  \<open>finalize_push\<close> of \<open>api/git/transport.rs\<close>. What the \<open>git\<close> subprocesses answer for one push is its
  \<open>workspace\<close>. A push is a program with a phase: \<open>push_step\<close> runs the code between two writes to
  the bucket, so that the steps of pushes can interleave. Index files are a cache and their failures
  are only logged; error texts leave numbers and quotes out.
\<close>

section \<open>Text\<close>

definition continuation :: "nat \<Rightarrow> bool" where
  "continuation b \<longleftrightarrow> 128 \<le> b \<and> b \<le> 191"

text \<open>\<open>str::from_utf8\<close>: the well-formed byte sequences.\<close>

fun utf8_bytes :: "nat list \<Rightarrow> bool" where
  "utf8_bytes [] = True"
| "utf8_bytes (a # r) =
     (if a \<le> 127 then utf8_bytes r
      else (case r of
          [] \<Rightarrow> False
        | b # r1 \<Rightarrow>
            if 194 \<le> a \<and> a \<le> 223 then continuation b \<and> utf8_bytes r1
            else (case r1 of
                [] \<Rightarrow> False
              | c # r2 \<Rightarrow>
                  if 224 \<le> a \<and> a \<le> 239
                  then continuation b \<and> continuation c \<and> (a = 224 \<longrightarrow> 160 \<le> b) \<and> (a = 237 \<longrightarrow> b \<le> 159) \<and> utf8_bytes r2
                  else (case r2 of
                      [] \<Rightarrow> False
                    | d # r3 \<Rightarrow>
                        240 \<le> a \<and> a \<le> 244 \<and> continuation b \<and> continuation c \<and> continuation d
                        \<and> (a = 240 \<longrightarrow> 144 \<le> b) \<and> (a = 244 \<longrightarrow> b \<le> 143) \<and> utf8_bytes r3))))"

definition is_utf8 :: "string \<Rightarrow> bool" where
  "is_utf8 s = utf8_bytes (map of_char s)"

text \<open>\<open>str::lines\<close>: the last line may lack its end, and a line end may be \<open>CR LF\<close>.\<close>

definition str_lines :: "string \<Rightarrow> string list" where
  "str_lines s =
     (let parts = split_on (CHR 0x0A) s;
          parts = (if last parts = [] then butlast parts else parts)
      in map (\<lambda>l. if l \<noteq> [] \<and> last l = CHR 0x0D then butlast l else l) parts)"

fun bt_insert :: "'k::linorder \<Rightarrow> 'v \<Rightarrow> ('k, 'v) hmap \<Rightarrow> ('k, 'v) hmap" where
  "bt_insert k v [] = [(k, v)]"
| "bt_insert k v ((k', v') # m) =
     (if k < k' then (k, v) # (k', v') # m
      else if k = k' then (k, v) # m
      else (k', v') # bt_insert k v m)"

section \<open>Errors and state\<close>

datatype hydrate_error =
    InvalidPointer | HydrateManifest manifest_error | HydrateStore store_error | HydrateFailed string
  | HydrateLimit

datatype cas_error =
    Conflict manifest string | ManifestReadFailed string | ManifestInvalid manifest_error
  | CasBackend store_error | PackCapture string | ResourceLimit string

record publish_limits =
  pl_parent_hydrated_bytes :: nat
  pl_max_pack_bytes :: nat
  pl_max_repo_bytes :: nat

record parent_state =
  pa_if_match :: "string option"
  pa_digest :: "string option"
  pa_manifest :: manifest

definition fresh_parent :: parent_state where
  "fresh_parent =
     \<lparr>pa_if_match = None, pa_digest = None,
      pa_manifest = \<lparr>mf_version = MANIFEST_VERSION, mf_head = [], mf_refs = [], mf_packs = [], mf_parent = None\<rparr>\<rparr>"

definition from_loaded :: "string \<Rightarrow> string \<Rightarrow> manifest \<Rightarrow> parent_state" where
  "from_loaded tag digest m = \<lparr>pa_if_match = Some tag, pa_digest = Some digest, pa_manifest = m\<rparr>"

text \<open>
  The answers of \<open>git\<close> in the workspace of one push. \<open>Err\<close> is the text of a failed subprocess;
  \<open>symbolic-ref\<close> answers \<open>None\<close> on a detached HEAD. The compacted packs come with their index files.
  \<open>receive-pack\<close> fails with a status, or ends with its success and its output.
\<close>

record workspace =
  ws_for_each_ref :: "(string, string) result"
  ws_symbolic_ref :: "(string, string option) result"
  ws_pack_objects :: "string \<Rightarrow> (string, string) result"
  ws_count_objects :: "(string, string) result"
  ws_compact_objects :: "string \<Rightarrow> nat \<Rightarrow> (string, (string \<times> string) list) result"
  ws_index_pack :: "string \<Rightarrow> (string, string) result"
  ws_permit :: "(string, unit) result"
  ws_receive_pack :: "(nat, bool \<times> string) result"

section \<open>Hydration\<close>

definition MAX_MANIFEST_BYTES :: nat where "MAX_MANIFEST_BYTES = 4 * 1024 * 1024"

text \<open>The digest that a pointer body names.\<close>

definition pointer_digest :: "string \<Rightarrow> string option" where
  "pointer_digest body =
     (if \<not> is_utf8 body then None
      else let digest = trim body
           in if length digest \<noteq> 64 \<or> \<not> list_all is_hex_char digest then None else Some digest)"

definition limited_read ::
    "object_env \<Rightarrow> fate \<Rightarrow> fate \<Rightarrow> string \<Rightarrow> string \<Rightarrow> nat \<Rightarrow> bucket \<Rightarrow> (hydrate_error, string) result" where
  "limited_read env hf gf key digest limit b =
     (case get_verified_limited env hf gf key digest limit b of
        Ok bytes \<Rightarrow> Ok bytes
      | Err (ObjectTooLarge _ _) \<Rightarrow> Err HydrateLimit
      | Err e \<Rightarrow> Err (HydrateStore e))"

definition load_manifest ::
    "object_env \<Rightarrow> fate \<Rightarrow> fate \<Rightarrow> string \<Rightarrow> bucket \<Rightarrow> (hydrate_error, manifest) result" where
  "load_manifest env hf gf digest b =
     bind_result (limited_read env hf gf (''manifests/'' @ digest) digest MAX_MANIFEST_BYTES b) (\<lambda>bytes.
     bind_result (map_err HydrateManifest (manifest_from_bytes env bytes)) (\<lambda>m.
     bind_result (map_err HydrateManifest (validate_manifest m)) (\<lambda>_. Ok m)))"

text \<open>
  A pack comes from the local cache, which tells its size, or from the bucket; then its index is
  installed or generated, which can fail.
\<close>

datatype pack_read = Cached nat | Fetched fate fate bool

definition read_pack ::
    "object_env \<Rightarrow> (string \<Rightarrow> pack_read) \<Rightarrow> nat \<Rightarrow> string \<Rightarrow> bucket \<Rightarrow> (hydrate_error, nat) result" where
  "read_pack env reads limit key b =
     (case strip_prefix key ''packs/'' of
        None \<Rightarrow> Err (HydrateFailed ''malformed pack key'')
      | Some digest \<Rightarrow>
          if length digest \<noteq> 64 \<or> \<not> list_all is_hex_char digest then Err (HydrateFailed ''pack cache digest is malformed'')
          else (case reads key of
              Cached n \<Rightarrow> Ok n
            | Fetched hf gf indexed \<Rightarrow>
                bind_result (limited_read env hf gf key digest limit b) (\<lambda>bytes.
                  if indexed then Ok (length bytes) else Err (HydrateFailed ''index''))))"

fun read_packs ::
    "object_env \<Rightarrow> (string \<Rightarrow> pack_read) \<Rightarrow> nat \<Rightarrow> nat \<Rightarrow> bucket \<Rightarrow> string list \<Rightarrow> nat \<Rightarrow> (hydrate_error, nat) result" where
  "read_packs env reads max_pack max_repo b [] bytes_total = Ok bytes_total"
| "read_packs env reads max_pack max_repo b (key # keys) bytes_total =
     bind_result (read_pack env reads max_pack key b) (\<lambda>n.
       if max_pack < n then Err HydrateLimit
       else if u64_max < bytes_total + n then Err HydrateLimit
       else if max_repo < bytes_total + n then Err HydrateLimit
       else read_packs env reads max_pack max_repo b keys (bytes_total + n))"

text \<open>Packs first, then the refs and HEAD, each checked again: the size of the packs.\<close>

definition materialize_manifest ::
    "object_env \<Rightarrow> (string \<Rightarrow> pack_read) \<Rightarrow> nat \<Rightarrow> nat \<Rightarrow> bucket \<Rightarrow> manifest \<Rightarrow> (hydrate_error, nat) result" where
  "materialize_manifest env reads max_pack max_repo b m =
     bind_result (read_packs env reads max_pack max_repo b (mf_packs m) 0) (\<lambda>bytes_total.
     case check_ref_entries (mf_refs m) of
       Err _ \<Rightarrow> Err (HydrateFailed ''manifest contains unsafe refname'')
     | Ok _ \<Rightarrow> if \<not> is_safe_refname (mf_head m) then Err (HydrateFailed ''manifest head is not a safe ref name'') else Ok bytes_total)"

section \<open>What a push publishes\<close>

definition MAX_REF_SNAPSHOT_BYTES :: nat where "MAX_REF_SNAPSHOT_BYTES = 4 * 1024 * 1024"

fun collect_refs :: "string list \<Rightarrow> (string, string) hmap \<Rightarrow> (cas_error, (string, string) hmap) result" where
  "collect_refs [] refs = Ok refs"
| "collect_refs (line # rest) refs =
     (case splitn 2 (CHR 0x20) line of
        [name, oid] \<Rightarrow>
          if length oid \<noteq> 40 \<or> \<not> list_all is_hex_char oid then collect_refs rest refs
          else if MAX_MANIFEST_REFS \<le> length refs \<and> \<not> hm_contains refs name
          then Err (ResourceLimit ''workspace contains too many refs'')
          else collect_refs rest (bt_insert name oid refs)
      | _ \<Rightarrow> collect_refs rest refs)"

definition snapshot_workspace_state ::
    "workspace \<Rightarrow> (cas_error, (string, string) hmap \<times> string) result" where
  "snapshot_workspace_state ws =
     bind_result (map_err PackCapture (ws_for_each_ref ws)) (\<lambda>out.
     if MAX_REF_SNAPSHOT_BYTES < length out then Err (ResourceLimit ''ref snapshot'')
     else bind_result (collect_refs (str_lines (if is_utf8 out then out else [])) []) (\<lambda>refs.
     bind_result (map_err PackCapture (ws_symbolic_ref ws)) (\<lambda>head.
       Ok (refs, case head of Some h \<Rightarrow> trim h | None \<Rightarrow> []))))"

definition published_branch :: "(string, string) hmap \<Rightarrow> string \<Rightarrow> bool" where
  "published_branch refs name \<longleftrightarrow> starts_with name ''refs/heads/'' \<and> hm_contains refs name"

definition resolve_published_head :: "(string, string) hmap \<Rightarrow> string \<Rightarrow> string \<Rightarrow> string" where
  "resolve_published_head refs observed parent_head =
     (if published_branch refs observed then observed
      else if published_branch refs parent_head then parent_head
      else case find (hm_contains refs) [''refs/heads/main'', ''refs/heads/master''] of
          Some preferred \<Rightarrow> preferred
        | None \<Rightarrow>
            (case find (\<lambda>name. starts_with name ''refs/heads/'') (map fst refs) of
               Some branch \<Rightarrow> branch
             | None \<Rightarrow> if observed \<noteq> [] then observed else parent_head))"

definition capture_pack ::
    "workspace \<Rightarrow> (string, string) hmap \<Rightarrow> (string, string) hmap \<Rightarrow> nat \<Rightarrow> (cas_error, string option) result" where
  "capture_pack ws before after max_pack =
     (if after = [] then Ok None
      else let stdin = concat (map (\<lambda>(_, oid). oid @ [CHR 0x0A]) after)
                       @ concat (map (\<lambda>(_, oid). ''^'' @ oid @ [CHR 0x0A]) before)
           in bind_result (map_err PackCapture (ws_pack_objects ws stdin)) (\<lambda>bytes.
             if max_pack < length bytes then Err (ResourceLimit ''pack-objects output'')
             else if bytes = [] then Ok None else Ok (Some bytes)))"

definition should_compact :: "nat \<Rightarrow> nat \<Rightarrow> bool" where
  "should_compact packs threshold \<longleftrightarrow> threshold \<le> packs"

definition compacted_pack_set_is_usable :: "nat \<Rightarrow> nat \<Rightarrow> bool" where
  "compacted_pack_set_is_usable before after \<longleftrightarrow>
     after < before \<or> (MAX_MANIFEST_PACKS \<le> before \<and> after \<le> MAX_MANIFEST_PACKS)"

definition MAX_COMPACTION_OBJECTS :: nat where "MAX_COMPACTION_OBJECTS = 1000000"

definition parse_count :: "string list \<Rightarrow> string \<Rightarrow> (cas_error, nat) result" where
  "parse_count ls name =
     (case List.map_filter (\<lambda>l. strip_prefix l name) ls of
        [] \<Rightarrow> Err (PackCapture ''count-objects omitted'')
      | v # _ \<Rightarrow> ok_or (parse_unsigned u64_max (trim v)) (PackCapture ''count-objects omitted''))"

definition enforce_compaction_object_limit :: "workspace \<Rightarrow> (cas_error, unit) result" where
  "enforce_compaction_object_limit ws =
     bind_result (map_err PackCapture (ws_count_objects ws)) (\<lambda>out.
     if 64 * 1024 < length out then Err (ResourceLimit ''count-objects output'')
     else bind_result (parse_count (str_lines out) ''count:'') (\<lambda>loose.
     bind_result (parse_count (str_lines out) ''in-pack:'') (\<lambda>packed.
       if u64_max < loose + packed then Err (ResourceLimit ''compaction object count overflowed u64'')
       else if MAX_COMPACTION_OBJECTS < loose + packed then Err (ResourceLimit ''repository has too many objects'')
       else Ok ())))"

fun check_compacted :: "publish_limits \<Rightarrow> (string \<times> string) list \<Rightarrow> nat \<Rightarrow> (cas_error, unit) result" where
  "check_compacted limits [] bytes_total = Ok ()"
| "check_compacted limits ((pack, idx) # rest) bytes_total =
     (if pl_max_pack_bytes limits < length pack then Err (ResourceLimit ''compacted pack'')
      else if u64_max < bytes_total + length pack then Err (ResourceLimit ''compacted byte count overflowed u64'')
      else if pl_max_repo_bytes limits < bytes_total + length pack then Err (ResourceLimit ''compacted repo'')
      else if pl_max_pack_bytes limits < length idx then Err (ResourceLimit ''compacted idx'')
      else check_compacted limits rest (bytes_total + length pack))"

definition capture_compacted_packs ::
    "workspace \<Rightarrow> (string, string) hmap \<Rightarrow> publish_limits \<Rightarrow> (cas_error, (string \<times> string) list) result" where
  "capture_compacted_packs ws after limits =
     (if after = [] then Ok []
      else bind_result (enforce_compaction_object_limit ws) (\<lambda>_.
        let stdin = concat (map (\<lambda>oid. oid @ [CHR 0x0A]) (dedup_first (map snd after)))
        in bind_result (map_err PackCapture (ws_compact_objects ws stdin (pl_max_pack_bytes limits))) (\<lambda>packs.
          if MAX_MANIFEST_PACKS < length packs then Err (ResourceLimit ''compaction produced too many packs'')
          else bind_result (check_compacted limits packs 0) (\<lambda>_. Ok packs))))"

definition compose_after ::
    "manifest \<Rightarrow> string option \<Rightarrow> string \<Rightarrow> (string, string) hmap \<Rightarrow> string option \<Rightarrow> manifest" where
  "compose_after parent digest head refs new_pack =
     (let packs = mf_packs parent;
          packs = (case new_pack of Some k \<Rightarrow> if k \<in> set packs then packs else packs @ [k] | None \<Rightarrow> packs)
      in \<lparr>mf_version = MANIFEST_VERSION, mf_head = head, mf_refs = refs,
          mf_packs = remdups_adj (sort packs), mf_parent = digest\<rparr>)"

definition compose_compacted_after ::
    "string option \<Rightarrow> string \<Rightarrow> (string, string) hmap \<Rightarrow> string list \<Rightarrow> manifest" where
  "compose_compacted_after digest head refs keys =
     \<lparr>mf_version = MANIFEST_VERSION, mf_head = head, mf_refs = refs,
      mf_packs = remdups_adj (sort keys), mf_parent = digest\<rparr>"

end
