(* ===== verification/Git_Push.thy ===== *)
theory Git_Push
  imports Git_Publish
begin

text \<open>
  A push as a program over the bucket: \<open>hydrate_for_write\<close>, the report of \<open>receive-pack\<close>,
  \<open>cas_publish\<close> and \<open>finalize_push\<close>. Between two steps of a push other pushes may run. The objects a
  manifest names are read in one step, since they are never changed.
\<close>

section \<open>The report of \<open>receive-pack\<close>\<close>

definition hex_digit_value :: "char \<Rightarrow> nat" where
  "hex_digit_value c =
     (if is_digit c then digit_value c
      else if is_ascii_uppercase c then of_char c - 55 else of_char c - 87)"

text \<open>\<open>usize::from_str_radix(_, 16)\<close>.\<close>

definition parse_hex :: "string \<Rightarrow> nat option" where
  "parse_hex s =
     (let s = (if s \<noteq> [] \<and> hd s = CHR ''+'' then tl s else s)
      in if s \<noteq> [] \<and> list_all is_hex_char s then Some (fold (\<lambda>c n. 16 * n + hex_digit_value c) s 0) else None)"

function pkt_lines :: "string \<Rightarrow> string list" where
  "pkt_lines buf =
     (if length buf < 4 then []
      else (case parse_hex (take 4 buf) of
          None \<Rightarrow> []
        | Some len \<Rightarrow>
            if len < 4 then pkt_lines (drop 4 buf)
            else if length buf < len then []
            else drop 4 (take len buf) # pkt_lines (drop len buf)))"
  by pat_completeness auto
termination by (relation "measure length") auto

declare pkt_lines.simps [simp del]

definition payload_rejected :: "string \<Rightarrow> bool" where
  "payload_rejected payload =
     (case payload of
        c # rest \<Rightarrow>
          if c = CHR 0x01 then list_ex (\<lambda>l. starts_with l ''ng '') (pkt_lines rest)
          else if c = CHR 0x02 \<or> c = CHR 0x03 then False
          else starts_with payload ''ng ''
      | [] \<Rightarrow> False)"

definition receive_pack_report_rejected :: "string \<Rightarrow> bool" where
  "receive_pack_report_rejected out = list_ex payload_rejected (pkt_lines out)"

definition RECEIVE_PACK_MAX_OUTPUT_BYTES :: nat where "RECEIVE_PACK_MAX_OUTPUT_BYTES = 1024 * 1024"

text \<open>The subprocess: a status when it fails, else whether the push is safe to publish.\<close>

definition run_git_at :: "workspace \<Rightarrow> (nat, bool) result" where
  "run_git_at ws =
     (case ws_receive_pack ws of
        Err status \<Rightarrow> Err status
      | Ok (success, out) \<Rightarrow>
          if RECEIVE_PACK_MAX_OUTPUT_BYTES < length out then Err 413
          else Ok (success \<and> \<not> receive_pack_report_rejected out))"

section \<open>Phases\<close>

record draft =
  dr_parent :: parent_state
  dr_refs :: "(string, string) hmap"
  dr_head :: string
  dr_limits :: publish_limits

datatype push_result =
    HydrationFailed hydrate_error | RunFailed nat | Declined | CasOk manifest string | CasFailed cas_error

datatype push_phase =
    Starting
  | Located string string
  | Ready parent_state nat
  | Compacting draft "(string \<times> string) list" "string list"
  | Capturing draft "cas_error option"
  | Composed parent_state manifest
  | Stored parent_state manifest string
  | Raced
  | Finished push_result

record push =
  pu_community :: community_id
  pu_owner :: string
  pu_repo :: string
  pu_max_pack_bytes :: nat
  pu_max_repo_bytes :: nat
  pu_workspace :: workspace
  pu_phase :: push_phase

text \<open>
  What a step meets: the fates of its requests, the reads of packs, whether the workspace could be
  set up, and whether the time for a compaction is over.
\<close>

record step_input =
  si_fate :: fate
  si_fate2 :: fate
  si_reads :: "string \<Rightarrow> pack_read"
  si_init :: "(string, unit) result"
  si_expired :: bool

definition push_pointer :: "object_env \<Rightarrow> push \<Rightarrow> string" where
  "push_pointer env p = pointer_key env (pu_community p) (pu_owner p) (pu_repo p)"

section \<open>Steps\<close>

definition locate :: "object_env \<Rightarrow> step_input \<Rightarrow> push \<Rightarrow> bucket \<Rightarrow> push_phase" where
  "locate env inp p b =
     (case get_pointer (si_fate inp) (push_pointer env p) b of
        Err e \<Rightarrow> Finished (HydrationFailed (HydrateStore e))
      | Ok None \<Rightarrow>
          (case si_init inp of
             Err t \<Rightarrow> Finished (HydrationFailed (HydrateFailed t))
           | Ok _ \<Rightarrow> Ready fresh_parent 0)
      | Ok (Some (tag, body)) \<Rightarrow>
          (case pointer_digest body of
             None \<Rightarrow> Finished (HydrationFailed InvalidPointer)
           | Some digest \<Rightarrow> Located tag digest))"

definition hydrate :: "object_env \<Rightarrow> step_input \<Rightarrow> push \<Rightarrow> string \<Rightarrow> string \<Rightarrow> bucket \<Rightarrow> push_phase" where
  "hydrate env inp p tag digest b =
     (case load_manifest env (si_fate inp) (si_fate2 inp) digest b of
        Err e \<Rightarrow> Finished (HydrationFailed e)
      | Ok m \<Rightarrow>
          (case si_init inp of
             Err t \<Rightarrow> Finished (HydrationFailed (HydrateFailed t))
           | Ok _ \<Rightarrow>
               (case materialize_manifest env (si_reads inp) (pu_max_pack_bytes p) (pu_max_repo_bytes p) b m of
                  Err e \<Rightarrow> Finished (HydrationFailed e)
                | Ok n \<Rightarrow> Ready (from_loaded tag digest m) n)))"

definition prepare_compaction :: "push \<Rightarrow> draft \<Rightarrow> (cas_error, (string \<times> string) list) result" where
  "prepare_compaction p d =
     bind_result (map_err PackCapture (ws_permit (pu_workspace p))) (\<lambda>_.
     bind_result (capture_compacted_packs (pu_workspace p) (dr_refs d) (dr_limits d)) (\<lambda>packs.
       if compacted_pack_set_is_usable (length (mf_packs (pa_manifest (dr_parent d)))) (length packs) then Ok packs
       else Err (ResourceLimit ''compaction did not reduce pack count'')))"

definition begin_publish :: "step_input \<Rightarrow> push \<Rightarrow> parent_state \<Rightarrow> nat \<Rightarrow> push_phase" where
  "begin_publish inp p ps hydrated =
     (case run_git_at (pu_workspace p) of
        Err status \<Rightarrow> Finished (RunFailed status)
      | Ok ok \<Rightarrow>
      if \<not> ok then Finished Declined
      else (case snapshot_workspace_state (pu_workspace p) of
          Err e \<Rightarrow> Finished (CasFailed e)
        | Ok (refs, observed) \<Rightarrow>
            (let d = \<lparr>dr_parent = ps, dr_refs = refs,
                      dr_head = resolve_published_head refs observed (mf_head (pa_manifest ps)),
                      dr_limits = \<lparr>pl_parent_hydrated_bytes = hydrated, pl_max_pack_bytes = pu_max_pack_bytes p,
                        pl_max_repo_bytes = pu_max_repo_bytes p\<rparr>\<rparr>
             in if \<not> should_compact (length (mf_packs (pa_manifest ps))) PACK_COMPACTION_THRESHOLD then Capturing d None
                else if si_expired inp then Capturing d (Some (PackCapture ''pack compaction timed out''))
                else (case prepare_compaction p d of
                    Err e \<Rightarrow> Capturing d (Some e)
                  | Ok packs \<Rightarrow> Compacting d packs []))))"

definition digest_from_pack_key :: "string \<Rightarrow> (cas_error, string) result" where
  "digest_from_pack_key key =
     (case strip_prefix key ''packs/'' of
        Some digest \<Rightarrow>
          if length digest = 64 \<and> list_all is_hex_char digest then Ok digest else Err (CasBackend (Backend (Http 500)))
      | None \<Rightarrow> Err (CasBackend (Backend (Http 500))))"

definition upload_compacted ::
    "object_env \<Rightarrow> step_input \<Rightarrow> draft \<Rightarrow> (string \<times> string) list \<Rightarrow> string list \<Rightarrow> bucket \<Rightarrow> push_phase \<times> bucket" where
  "upload_compacted env inp d todo keys b =
     (if si_expired inp then (Capturing d (Some (PackCapture ''pack compaction timed out'')), b)
      else (case todo of
          [] \<Rightarrow>
            (Composed (dr_parent d)
               (compose_compacted_after (pa_digest (dr_parent d)) (dr_head d) (dr_refs d) (remdups_adj (sort keys))), b)
        | (pack, idx) # rest \<Rightarrow>
            (case put_pack env (si_fate inp) pack b of
               (Err e, b') \<Rightarrow> (Capturing d (Some (CasBackend e)), b')
             | (Ok key, b') \<Rightarrow>
                 (case digest_from_pack_key key of
                    Err e \<Rightarrow> (Capturing d (Some e), b')
                  | Ok digest \<Rightarrow> (Compacting d rest (keys @ [key]), snd (put_idx env (si_fate2 inp) digest idx b'))))))"

definition write_idx_sidecar ::
    "object_env \<Rightarrow> fate \<Rightarrow> workspace \<Rightarrow> string \<Rightarrow> string \<Rightarrow> bucket \<Rightarrow> bucket" where
  "write_idx_sidecar env fate ws key bytes b =
     (case digest_from_pack_key key of
        Err _ \<Rightarrow> b
      | Ok digest \<Rightarrow>
          (case ws_index_pack ws bytes of
             Err _ \<Rightarrow> b
           | Ok idx \<Rightarrow> snd (put_idx env fate digest idx b)))"

definition capture ::
    "object_env \<Rightarrow> step_input \<Rightarrow> push \<Rightarrow> draft \<Rightarrow> cas_error option \<Rightarrow> bucket \<Rightarrow> push_phase \<times> bucket" where
  "capture env inp p d failure b =
     (let ps = dr_parent d; parent = pa_manifest ps; lim = dr_limits d;
          composed = (\<lambda>key. Composed ps (compose_after parent (pa_digest ps) (dr_head d) (dr_refs d) key))
      in case capture_pack (pu_workspace p) (mf_refs parent) (dr_refs d) (pl_max_pack_bytes lim) of
           Err e \<Rightarrow> (Finished (CasFailed e), b)
         | Ok None \<Rightarrow> (composed None, b)
         | Ok (Some bytes) \<Rightarrow>
             if MAX_MANIFEST_PACKS \<le> length (mf_packs parent)
             then (Finished (CasFailed (case failure of Some e \<Rightarrow> e
                     | None \<Rightarrow> ResourceLimit ''too many packs and compaction failed'')), b)
             else if u64_max < pl_parent_hydrated_bytes lim + length bytes
             then (Finished (CasFailed (ResourceLimit ''repo byte count overflowed u64'')), b)
             else if pl_max_repo_bytes lim < pl_parent_hydrated_bytes lim + length bytes
             then (Finished (CasFailed (ResourceLimit ''repo would need too many bytes'')), b)
             else (case put_pack env (si_fate inp) bytes b of
                 (Err e, b') \<Rightarrow> (Finished (CasFailed (CasBackend e)), b')
               | (Ok key, b') \<Rightarrow> (composed (Some key), write_idx_sidecar env (si_fate2 inp) (pu_workspace p) key bytes b')))"

definition store_manifest ::
    "object_env \<Rightarrow> step_input \<Rightarrow> parent_state \<Rightarrow> manifest \<Rightarrow> bucket \<Rightarrow> push_phase \<times> bucket" where
  "store_manifest env inp ps m b =
     (case validate_manifest m of
        Err e \<Rightarrow> (Finished (CasFailed (ManifestInvalid e)), b)
      | Ok _ \<Rightarrow>
          (case put_manifest env (si_fate inp) (canonical_bytes env m) b of
             (Err e, b') \<Rightarrow> (Finished (CasFailed (CasBackend e)), b')
           | (Ok key, b') \<Rightarrow> (Stored ps m key, b')))"

definition swap_pointer ::
    "object_env \<Rightarrow> step_input \<Rightarrow> push \<Rightarrow> parent_state \<Rightarrow> manifest \<Rightarrow> string \<Rightarrow> bucket \<Rightarrow> push_phase \<times> bucket" where
  "swap_pointer env inp p ps m key b =
     (case strip_prefix key ''manifests/'' of
        None \<Rightarrow> (Finished (CasFailed (CasBackend (Backend (Http 500)))), b)
      | Some digest \<Rightarrow>
          (case put_pointer env (si_fate inp) (push_pointer env p) digest
                  (case pa_if_match ps of Some tag \<Rightarrow> IfMatch tag | None \<Rightarrow> IfNoneMatchStar) b of
             (Err e, b') \<Rightarrow> (Finished (CasFailed (CasBackend e)), b')
           | (Ok (Won _), b') \<Rightarrow> (Finished (CasOk m key), b')
           | (Ok LostRace, b') \<Rightarrow> (Raced, b')))"

definition read_winner_after_conflict ::
    "object_env \<Rightarrow> fate \<Rightarrow> fate \<Rightarrow> string \<Rightarrow> bucket \<Rightarrow> (cas_error, manifest \<times> string) result" where
  "read_winner_after_conflict env f1 f2 pkey b =
     (case get_pointer f1 pkey b of
        Err e \<Rightarrow> Err (CasBackend e)
      | Ok None \<Rightarrow> Err (ManifestReadFailed ''pointer vanished after LostRace'')
      | Ok (Some (_, body)) \<Rightarrow>
          (case pointer_digest body of
             None \<Rightarrow> Err (ManifestReadFailed ''winner pointer body is not a digest'')
           | Some digest \<Rightarrow>
               (case get_verified env f2 (''manifests/'' @ digest) digest b of
                  Err (DigestMismatch _) \<Rightarrow> Err (ManifestReadFailed ''winner manifest digest mismatch'')
                | Err (ObjectNotFound _) \<Rightarrow> Err (ManifestReadFailed ''winner pointer names missing manifest'')
                | Err e \<Rightarrow> Err (CasBackend e)
                | Ok bytes \<Rightarrow>
                    (case manifest_from_bytes env bytes of
                       Err _ \<Rightarrow> Err (ManifestReadFailed ''parse winner manifest'')
                     | Ok m \<Rightarrow> Ok (m, ''manifests/'' @ digest)))))"

definition lose_race :: "object_env \<Rightarrow> step_input \<Rightarrow> push \<Rightarrow> bucket \<Rightarrow> push_phase" where
  "lose_race env inp p b =
     Finished (CasFailed
       (case read_winner_after_conflict env (si_fate inp) (si_fate2 inp) (push_pointer env p) b of
          Ok (m, key) \<Rightarrow> Conflict m key
        | Err e \<Rightarrow> e))"

definition phase_step ::
    "object_env \<Rightarrow> step_input \<Rightarrow> push \<Rightarrow> bucket \<Rightarrow> push_phase \<times> bucket" where
  "phase_step env inp p b =
     (case pu_phase p of
        Starting \<Rightarrow> (locate env inp p b, b)
      | Located tag digest \<Rightarrow> (hydrate env inp p tag digest b, b)
      | Ready ps hydrated \<Rightarrow> (begin_publish inp p ps hydrated, b)
      | Compacting d todo keys \<Rightarrow> upload_compacted env inp d todo keys b
      | Capturing d failure \<Rightarrow> capture env inp p d failure b
      | Composed ps m \<Rightarrow> store_manifest env inp ps m b
      | Stored ps m key \<Rightarrow> swap_pointer env inp p ps m key b
      | Raced \<Rightarrow> (lose_race env inp p b, b)
      | Finished r \<Rightarrow> (Finished r, b))"

definition push_step :: "object_env \<Rightarrow> step_input \<Rightarrow> push \<Rightarrow> bucket \<Rightarrow> push \<times> bucket" where
  "push_step env inp p b = (let (ph, b') = phase_step env inp p b in (p\<lparr>pu_phase := ph\<rparr>, b'))"

section \<open>The answer\<close>

text \<open>The status of the response to a push, which carries the report of git when it is 200.\<close>

definition finalize_status :: "push_result \<Rightarrow> nat" where
  "finalize_status r =
     (case r of
        HydrationFailed HydrateLimit \<Rightarrow> 413
      | HydrationFailed _ \<Rightarrow> 500
      | RunFailed status \<Rightarrow> status
      | Declined \<Rightarrow> 200
      | CasOk _ _ \<Rightarrow> 200
      | CasFailed (Conflict _ _) \<Rightarrow> 409
      | CasFailed (ManifestInvalid _) \<Rightarrow> 400
      | CasFailed (ResourceLimit _) \<Rightarrow> 413
      | CasFailed _ \<Rightarrow> 500)"

definition manifest_changed :: "string option \<Rightarrow> string \<Rightarrow> bool" where
  "manifest_changed before key =
     (case (before, strip_prefix key ''manifests/'') of
        (Some d, Some d') \<Rightarrow> d \<noteq> d'
      | _ \<Rightarrow> True)"

text \<open>The tags of the announced state, kind 30618.\<close>

definition is_emittable_ref :: "string \<Rightarrow> bool" where
  "is_emittable_ref name \<longleftrightarrow>
     (starts_with name ''refs/heads/'' \<or> starts_with name ''refs/tags/'')
     \<and> \<not> (starts_with name ''/'' \<or> contains_str ''//'' name)
     \<and> list_all refname_char name"

definition ref_state_tags ::
    "string \<Rightarrow> string \<Rightarrow> (string, string) hmap \<Rightarrow> hex_string \<Rightarrow> string list list" where
  "ref_state_tags repo_id head refs actor =
     [''d'', repo_id]
     # map (\<lambda>(name, oid). [name, oid]) (filter (\<lambda>(name, oid). is_emittable_ref name \<and> is_hex_oid oid) refs)
     @ (if head \<noteq> [] \<and> is_emittable_ref head then [[''HEAD'', ''ref: '' @ head]] else [])
     @ [[''p'', actor]]"

end
