(* ===== verification/Git_Push_Laws.thy ===== *)
theory Git_Push_Laws
  imports Git_Push
begin

text \<open>
  Concurrent pushes. Any number of pushes run their steps in any order, with requests that fail before
  or after their effect. The published versions of a repository form one line, each derived from the
  one before; what a version names is stored; success is answered only after publication.
\<close>

section \<open>What the bucket has held\<close>

definition versions :: "bucket \<Rightarrow> string \<Rightarrow> string list" where
  "versions b k = map snd (filter (\<lambda>w. fst w = k) (bk_writes b))"

definition present :: "bucket \<Rightarrow> string \<Rightarrow> bool" where
  "present b k \<longleftrightarrow> bk_objects b k \<noteq> None"

definition manifest_at :: "object_env \<Rightarrow> bucket \<Rightarrow> string \<Rightarrow> manifest option" where
  "manifest_at env b d =
     (case bk_objects b (''manifests/'' @ d) of Some (_, bytes) \<Rightarrow> oe_from_json env bytes | None \<Rightarrow> None)"

text \<open>A line of digests: each manifest names the one before as its parent.\<close>

fun linear :: "(string \<Rightarrow> manifest option) \<Rightarrow> string option \<Rightarrow> string list \<Rightarrow> bool" where
  "linear look prev [] = True"
| "linear look prev (d # ds) = (is_some_and (\<lambda>m. mf_parent m = prev) (look d) \<and> linear look (Some d) ds)"

lemma linear_snoc:
  "linear look prev (ds @ [d]) \<longleftrightarrow>
     linear look prev ds \<and> is_some_and (\<lambda>m. mf_parent m = (if ds = [] then prev else Some (last ds))) (look d)"
  by (induction ds arbitrary: prev) auto

lemma linear_cong: "linear look prev ds \<Longrightarrow> (\<And>d. d \<in> set ds \<Longrightarrow> look' d = look d) \<Longrightarrow> linear look' prev ds"
  by (induction ds arbitrary: prev) auto

lemma linear_nth:
  "linear look prev ds \<Longrightarrow> i < length ds \<Longrightarrow>
     \<exists>m. look (ds ! i) = Some m \<and> mf_parent m = (if i = 0 then prev else Some (ds ! (i - 1)))"
proof (induction ds arbitrary: prev i)
  case (Cons d ds)
  show ?case
  proof (cases i)
    case 0
    with Cons.prems show ?thesis by (auto simp: is_some_and_iff)
  next
    case (Suc j)
    with Cons.prems Cons.IH [of "Some d" j] show ?thesis by (cases j) auto
  qed
qed simp

lemma linear_distinct: "linear look None ds \<Longrightarrow> distinct ds"
proof (induction ds rule: rev_induct)
  case (snoc d ds)
  then have line: "linear look None ds" and "distinct ds"
    and new: "is_some_and (\<lambda>m. mf_parent m = (if ds = [] then None else Some (last ds))) (look d)"
    by (simp_all add: linear_snoc)
  have "d \<notin> set ds"
  proof
    assume "d \<in> set ds"
    then obtain j where j: "j < length ds" "ds ! j = d" by (auto simp: in_set_conv_nth)
    then have "ds \<noteq> []" by auto
    with linear_nth [OF line j(1)] j new obtain "j \<noteq> 0" and "ds ! (j - 1) = last ds"
      by (auto simp: is_some_and_iff split: if_splits)
    then have "ds ! (j - 1) = ds ! (length ds - 1)" using \<open>ds \<noteq> []\<close> by (simp add: last_conv_nth)
    then have "j - 1 = length ds - 1"
      using \<open>distinct ds\<close> j \<open>ds \<noteq> []\<close> by (subst (asm) nth_eq_iff_index_eq) auto
    with j(1) \<open>j \<noteq> 0\<close> show False by arith
  qed
  with \<open>distinct ds\<close> show ?case by simp
qed simp

section \<open>Effects of the requests\<close>

definition created :: "object_env \<Rightarrow> string \<Rightarrow> string \<Rightarrow> bucket \<Rightarrow> bucket \<Rightarrow> bool" where
  "created env key body b b' \<longleftrightarrow> b' = b \<or> (bk_objects b key = None \<and> b' = written env key body b)"

lemma written_simps [simp]:
  "bk_objects (written env key body b) k =
     (if k = key then Some (oe_tag env key body (length (bk_writes b)), body) else bk_objects b k)"
  "bk_writes (written env key body b) = bk_writes b @ [(key, body)]"
  "versions (written env key body b) k = versions b k @ (if k = key then [body] else [])"
  by (auto simp: written_def versions_def)

lemma in_versions_written:
  "y \<in> set (versions (written env key x b) k) \<longleftrightarrow> y \<in> set (versions b k) \<or> (key = k \<and> y = x)"
  unfolding written_simps by (cases "k = key") auto

lemma put_immutable_effect:
  assumes "put_immutable env fate prefix bytes b = (r, b')"
  shows "created env (content_key env prefix bytes) bytes b b'"
    and "r = Ok k \<Longrightarrow> k = content_key env prefix bytes \<and> present b' k"
  using assms
  by (auto simp: put_immutable_def s3_put_def created_def holds_for_def present_def Let_def
      split: fate.splits if_splits)

lemma put_idx_effect: "\<exists>key. created env (''idx/'' @ key) idx b (snd (put_idx env fate digest idx b))"
  by (auto simp: put_idx_def s3_put_def created_def holds_for_def idx_key_for_pack_digest_def Let_def
      split: fate.splits if_splits)

lemma put_pointer_effect:
  assumes "put_pointer env fate key body p b = (r, b')"
  shows "b' = b \<or> (holds_for p (bk_objects b key) \<and> b' = written env key body b)"
    and "r = Ok LostRace \<Longrightarrow> b' = b \<and> \<not> holds_for p (bk_objects b key)"
    and "r = Ok (Won tag) \<Longrightarrow> holds_for p (bk_objects b key) \<and> b' = written env key body b"
  using assms
  by (auto simp: put_pointer_def s3_put_def classify_cas_def Let_def split: fate.splits if_splits)

section \<open>The system\<close>

record git_world =
  gw_bucket :: bucket
  gw_pushes :: "push list"
  gw_offered :: "manifest list"

definition offers :: "push \<Rightarrow> manifest list" where
  "offers p = (case pu_phase p of Composed _ m \<Rightarrow> [m] | _ \<Rightarrow> [])"

definition advance :: "object_env \<Rightarrow> step_input \<Rightarrow> nat \<Rightarrow> git_world \<Rightarrow> git_world" where
  "advance env inp i w =
     (let p = gw_pushes w ! i; (p', b') = push_step env inp p (gw_bucket w)
      in \<lparr>gw_bucket = b', gw_pushes = (gw_pushes w)[i := p'], gw_offered = gw_offered w @ offers p\<rparr>)"

definition git_start :: git_world where
  "git_start = \<lparr>gw_bucket = \<lparr>bk_objects = (\<lambda>_. None), bk_writes = []\<rparr>, gw_pushes = [], gw_offered = []\<rparr>"

inductive git_reach :: "object_env \<Rightarrow> git_world \<Rightarrow> bool" for env where
  git_init: "git_reach env git_start"
| git_arrive: "git_reach env w \<Longrightarrow> pu_phase p = Starting \<Longrightarrow> git_reach env (w\<lparr>gw_pushes := gw_pushes w @ [p]\<rparr>)"
| git_advance: "git_reach env w \<Longrightarrow> i < length (gw_pushes w) \<Longrightarrow> git_reach env (advance env inp i w)"

text \<open>
  What is asked of the service and the codec: SHA-256 gives 64 lowercase digits, a token tells the
  body, a manifest that was offered can be read back, and no two of those collide.
\<close>

definition reads_back :: "object_env \<Rightarrow> manifest \<Rightarrow> bool" where
  "reads_back env m \<longleftrightarrow> oe_from_json env (canonical_bytes env m) = Some (canonical_form m)"

definition collide :: "object_env \<Rightarrow> manifest \<Rightarrow> manifest \<Rightarrow> bool" where
  "collide env m m' \<longleftrightarrow>
     oe_sha256 env (canonical_bytes env m) = oe_sha256 env (canonical_bytes env m')
     \<and> canonical_bytes env m \<noteq> canonical_bytes env m'"

definition conforming :: "object_env \<Rightarrow> manifest list \<Rightarrow> bool" where
  "conforming env ms \<longleftrightarrow>
     (\<forall>bytes. is_manifest_digest (oe_sha256 env bytes))
     \<and> (\<forall>k x n x' n'. oe_tag env k x n = oe_tag env k x' n' \<longrightarrow> x = x')
     \<and> list_all (reads_back env) ms
     \<and> list_all (\<lambda>m. list_all (\<lambda>m'. \<not> collide env m m') ms) ms"

lemma conforming_prefix: "conforming env (ms @ ms') \<Longrightarrow> conforming env ms"
  unfolding conforming_def list_all_append by (auto simp: list_all_iff)

section \<open>The invariant\<close>

definition sound_manifest :: "object_env \<Rightarrow> manifest list \<Rightarrow> bucket \<Rightarrow> manifest \<Rightarrow> bool" where
  "sound_manifest env ms b m \<longleftrightarrow>
     m \<in> set ms \<and> canonical_form m = m \<and> mf_version m = MANIFEST_VERSION \<and> validate_manifest m = Ok () \<and> (\<forall>k \<in> set (mf_packs m). present b k)"

definition current_ok :: "object_env \<Rightarrow> bucket \<Rightarrow> bool" where
  "current_ok env b \<longleftrightarrow>
     (\<forall>k tag x. bk_objects b k = Some (tag, x) \<longrightarrow>
        versions b k \<noteq> [] \<and> x = last (versions b k)
        \<and> (\<exists>n < length (bk_writes b). bk_writes b ! n = (k, x) \<and> tag = oe_tag env k x n))
     \<and> (\<forall>k. bk_objects b k = None \<longrightarrow> versions b k = [])"

definition packs_ok :: "object_env \<Rightarrow> bucket \<Rightarrow> bool" where
  "packs_ok env b \<longleftrightarrow> (\<forall>d x. x \<in> set (versions b (''packs/'' @ d)) \<longrightarrow> d = oe_sha256 env x)"

definition manifests_ok :: "object_env \<Rightarrow> manifest list \<Rightarrow> bucket \<Rightarrow> bool" where
  "manifests_ok env ms b \<longleftrightarrow>
     (\<forall>d x. x \<in> set (versions b (''manifests/'' @ d)) \<longrightarrow>
        (\<exists>m. x = canonical_bytes env m \<and> d = oe_sha256 env x \<and> sound_manifest env ms b m))"

definition pointers_ok :: "object_env \<Rightarrow> bucket \<Rightarrow> bool" where
  "pointers_ok env b \<longleftrightarrow> (\<forall>k. linear (manifest_at env b) None (versions b (''repos/'' @ k)))"

definition bucket_ok :: "object_env \<Rightarrow> manifest list \<Rightarrow> bucket \<Rightarrow> bool" where
  "bucket_ok env ms b \<longleftrightarrow> current_ok env b \<and> packs_ok env b \<and> manifests_ok env ms b \<and> pointers_ok env b"

definition grows :: "bucket \<Rightarrow> bucket \<Rightarrow> bool" where
  "grows b b' \<longleftrightarrow>
     (\<forall>k. present b k \<longrightarrow> present b' k)
     \<and> (\<forall>d. present b (''manifests/'' @ d) \<longrightarrow> bk_objects b' (''manifests/'' @ d) = bk_objects b (''manifests/'' @ d))
     \<and> (\<exists>more. bk_writes b' = bk_writes b @ more)"

lemma grows_refl [simp]: "grows b b"
  by (simp add: grows_def)

lemma grows_trans: "grows a b \<Longrightarrow> grows b c \<Longrightarrow> grows a c"
  unfolding grows_def by (metis append.assoc)

lemma created_grows: "created env key x b b' \<Longrightarrow> grows b b'"
  by (auto simp: created_def grows_def present_def)

lemma pointer_grows: "grows b (written env (''repos/'' @ k) x b)"
  by (auto simp: grows_def present_def)

lemma grows_present: "grows b b' \<Longrightarrow> present b k \<Longrightarrow> present b' k"
  by (simp add: grows_def)

lemma grows_manifest_at: "grows b b' \<Longrightarrow> manifest_at env b d = Some m \<Longrightarrow> manifest_at env b' d = Some m"
  by (auto simp: grows_def manifest_at_def present_def split: option.splits)

lemma grows_versions: "grows b b' \<Longrightarrow> x \<in> set (versions b k) \<Longrightarrow> x \<in> set (versions b' k)"
  by (auto simp: grows_def versions_def)

lemma grows_write:
  "grows b b' \<Longrightarrow> n < length (bk_writes b) \<Longrightarrow> n < length (bk_writes b') \<and> bk_writes b' ! n = bk_writes b ! n"
  by (auto simp: grows_def nth_append)

lemma write_version: "n < length (bk_writes b) \<Longrightarrow> bk_writes b ! n = (k, x) \<Longrightarrow> x \<in> set (versions b k)"
  unfolding versions_def by (force simp: in_set_conv_nth)

lemma sound_manifest_grows:
  "sound_manifest env ms b m \<Longrightarrow> grows b b' \<Longrightarrow> set ms \<subseteq> set ms' \<Longrightarrow> sound_manifest env ms' b' m"
  by (auto simp: sound_manifest_def intro: grows_present)

lemma current_ok_written: "current_ok env b \<Longrightarrow> current_ok env (written env key x b)"
  unfolding current_ok_def by (auto simp: nth_append less_Suc_eq) blast+

lemma linear_manifest_at: "linear (manifest_at env b) prev ds \<Longrightarrow> d \<in> set ds \<Longrightarrow> \<exists>m. manifest_at env b d = Some m"
  by (induction ds arbitrary: prev) (auto simp: is_some_and_iff)

lemma pointers_ok_grows:
  assumes "pointers_ok env b" and "grows b b'" and "\<And>k. versions b' (''repos/'' @ k) = versions b (''repos/'' @ k)"
  shows "pointers_ok env b'"
  unfolding pointers_ok_def
proof
  fix k
  have line: "linear (manifest_at env b) None (versions b (''repos/'' @ k))"
    using assms(1) by (simp add: pointers_ok_def)
  then show "linear (manifest_at env b') None (versions b' (''repos/'' @ k))"
    unfolding assms(3)
  proof (rule linear_cong)
    fix d assume "d \<in> set (versions b (''repos/'' @ k))"
    with line obtain m where "manifest_at env b d = Some m" by (blast dest: linear_manifest_at)
    with assms(2) show "manifest_at env b' d = manifest_at env b d" by (simp add: grows_manifest_at)
  qed
qed

lemma bucket_ok_created:
  assumes ok: "bucket_ok env ms b" and new: "created env key x b b'"
    and key: "hd key \<noteq> CHR ''r''"
    and pack: "\<And>d. key = ''packs/'' @ d \<Longrightarrow> d = oe_sha256 env x"
    and man: "\<And>d. key = ''manifests/'' @ d \<Longrightarrow>
      \<exists>m. x = canonical_bytes env m \<and> d = oe_sha256 env x \<and> sound_manifest env ms b m"
  shows "bucket_ok env ms b'"
proof (cases "b' = b")
  case False
  then have b': "b' = written env key x b" using new by (simp add: created_def)
  have grow: "grows b b'" using new by (rule created_grows)
  have "\<And>k. versions b' (''repos/'' @ k) = versions b (''repos/'' @ k)" using key by (auto simp: b')
  with ok grow have "pointers_ok env b'" by (auto simp: bucket_ok_def intro: pointers_ok_grows)
  moreover have "manifests_ok env ms b'"
    unfolding manifests_ok_def
  proof (intro allI impI)
    fix d y assume "y \<in> set (versions b' (''manifests/'' @ d))"
    then have "y \<in> set (versions b (''manifests/'' @ d)) \<or> (key = ''manifests/'' @ d \<and> y = x)"
      unfolding b' in_versions_written .
    then obtain m where "y = canonical_bytes env m" "d = oe_sha256 env y" "sound_manifest env ms b m"
    proof
      assume "y \<in> set (versions b (''manifests/'' @ d))"
      with ok that show thesis by (auto simp: bucket_ok_def manifests_ok_def)
    next
      assume "key = ''manifests/'' @ d \<and> y = x"
      with man [of d] that show thesis by blast
    qed
    with sound_manifest_grows [OF _ grow order_refl]
    show "\<exists>m. y = canonical_bytes env m \<and> d = oe_sha256 env y \<and> sound_manifest env ms b' m" by blast
  qed
  moreover have "packs_ok env b'"
    using ok pack unfolding bucket_ok_def packs_ok_def b' in_versions_written by blast
  moreover have "current_ok env b'" using ok by (simp add: bucket_ok_def b' current_ok_written)
  ultimately show ?thesis by (simp add: bucket_ok_def)
next
  case True
  with ok show ?thesis by simp
qed

lemma bucket_ok_pointer:
  assumes ok: "bucket_ok env ms b" and at: "manifest_at env b d = Some m"
    and parent: "mf_parent m = (let ds = versions b (''repos/'' @ k) in if ds = [] then None else Some (last ds))"
  shows "bucket_ok env ms (written env (''repos/'' @ k) d b)"
proof -
  let ?b = "written env (''repos/'' @ k) d b"
  have grow: "grows b ?b" by (rule pointer_grows)
  have at': "manifest_at env ?b = manifest_at env b" by (simp add: manifest_at_def fun_eq_iff)
  have "pointers_ok env ?b"
    unfolding pointers_ok_def at'
    using ok at parent by (auto simp: bucket_ok_def pointers_ok_def linear_snoc Let_def)
  moreover have "manifests_ok env ms ?b"
    using ok sound_manifest_grows [OF _ grow order_refl] by (fastforce simp: bucket_ok_def manifests_ok_def)
  ultimately show ?thesis using ok by (simp add: bucket_ok_def current_ok_written packs_ok_def)
qed

end
