(* ===== verification/Git_Push_Safety.thy ===== *)
theory Git_Push_Safety
  imports Git_Push_Laws
begin

text \<open>
  Every step of a push keeps the invariant of the bucket, and the theorems on published repositories.
\<close>

section \<open>Reading\<close>

lemma digest_chars: "is_hex_char c \<Longrightarrow> \<not> is_space c \<and> (of_char c :: nat) \<le> 127"
  by (auto simp: is_hex_char_def is_space_def is_digit_def Let_def)

lemma utf8_ascii: "list_all (\<lambda>n. n \<le> 127) ns \<Longrightarrow> utf8_bytes ns"
  by (induction ns) auto

lemma pointer_digest_id:
  assumes "is_manifest_digest s"
  shows "pointer_digest s = Some s"
proof -
  have hex: "list_all is_hex_char s" and len: "length s = 64" using assms by (auto simp: is_manifest_digest_def list_all_iff)
  then have "is_utf8 s" by (auto simp: is_utf8_def list_all_iff digest_chars intro!: utf8_ascii)
  moreover have "s \<noteq> []" using len by auto
  then have "trim s = s" using hex by (intro trim_no_space) (auto simp: list_all_iff digest_chars)
  ultimately show ?thesis using hex len by (simp add: pointer_digest_def)
qed

lemma limited_read_Ok:
  assumes "limited_read env hf gf key digest limit b = Ok bytes"
  obtains tag where "bk_objects b key = Some (tag, bytes)" and "oe_sha256 env bytes = digest" and "length bytes \<le> limit"
proof -
  have "get_verified_limited env hf gf key digest limit b = Ok bytes"
    using assms by (auto simp: limited_read_def split: result.splits store_error.splits)
  then have got: "get_limited hf gf key limit b = Ok bytes" and sha: "oe_sha256 env bytes = digest"
    by (auto simp: get_verified_limited_def verified_def result_simps split: if_splits)
  from got have "store_get gf key b = Ok bytes" and "length bytes \<le> limit"
    by (auto simp: get_limited_def result_simps split: result.splits s3_error.splits if_splits prod.splits)
  moreover from this(1) obtain tag where "bk_objects b key = Some (tag, bytes)"
    by (auto simp: store_get_def s3_get_def split: result.splits s3_error.splits if_splits fate.splits option.splits)
  ultimately show thesis using that sha by blast
qed

lemma stored_manifest:
  assumes "bucket_ok env ms b" and "conforming env ms" and "present b (''manifests/'' @ d)"
  obtains tag m where "bk_objects b (''manifests/'' @ d) = Some (tag, canonical_bytes env m)"
    and "d = oe_sha256 env (canonical_bytes env m)" and "sound_manifest env ms b m" and "manifest_at env b d = Some m"
proof -
  obtain tag x where x: "bk_objects b (''manifests/'' @ d) = Some (tag, x)"
    using assms(3) by (auto simp: present_def)
  then have "x \<in> set (versions b (''manifests/'' @ d))"
    using assms(1) unfolding bucket_ok_def current_ok_def by (metis last_in_set)
  then obtain m where m: "x = canonical_bytes env m" "d = oe_sha256 env x" "sound_manifest env ms b m"
    using assms(1) unfolding bucket_ok_def manifests_ok_def by blast
  then have "reads_back env m" using assms(2) by (simp add: conforming_def sound_manifest_def list_all_iff)
  then have "manifest_at env b d = Some m"
    using m(1,3) x by (simp add: manifest_at_def reads_back_def sound_manifest_def)
  with that x m show thesis by blast
qed

lemma load_manifest_Ok:
  assumes "load_manifest env hf gf d b = Ok m" and ok: "bucket_ok env ms b" "conforming env ms"
  shows "manifest_at env b d = Some m \<and> (\<forall>k \<in> set (mf_packs m). present b k)"
proof -
  obtain bytes where read: "limited_read env hf gf (''manifests/'' @ d) d MAX_MANIFEST_BYTES b = Ok bytes"
    and m: "manifest_from_bytes env bytes = Ok m"
    using assms(1) by (auto simp: load_manifest_def result_simps)
  obtain tag where obj: "bk_objects b (''manifests/'' @ d) = Some (tag, bytes)" using read by (rule limited_read_Ok)
  then have "present b (''manifests/'' @ d)" by (simp add: present_def)
  with ok obtain tag' m' where m': "bk_objects b (''manifests/'' @ d) = Some (tag', canonical_bytes env m')"
    "sound_manifest env ms b m'" "manifest_at env b d = Some m'" by (rule stored_manifest)
  have "manifest_at env b d = Some m"
    using obj m by (auto simp: manifest_at_def manifest_from_bytes_def split: option.splits if_splits)
  with m' show ?thesis by (simp add: sound_manifest_def)
qed

lemma push_pointer_form: "\<exists>k. push_pointer env p = ''repos/'' @ k"
  by (simp add: push_pointer_def pointer_key_def Let_def)

lemma pointer_body:
  assumes "bucket_ok env ms b" and "conforming env ms" and "bk_objects b (push_pointer env p) = Some (tag, body)"
  shows "pointer_digest body = Some body \<and> body = last (versions b (push_pointer env p))
    \<and> (\<exists>n < length (bk_writes b). bk_writes b ! n = (push_pointer env p, body) \<and> tag = oe_tag env (push_pointer env p) body n)"
proof -
  obtain k where k: "push_pointer env p = ''repos/'' @ k" using push_pointer_form by blast
  have cur: "versions b (''repos/'' @ k) \<noteq> []" "body = last (versions b (''repos/'' @ k))"
    and n: "\<exists>n < length (bk_writes b). bk_writes b ! n = (''repos/'' @ k, body) \<and> tag = oe_tag env (''repos/'' @ k) body n"
    using assms(1,3) unfolding bucket_ok_def current_ok_def k by blast+
  then have "body \<in> set (versions b (''repos/'' @ k))" by simp
  with assms(1) obtain m where "manifest_at env b body = Some m"
    unfolding bucket_ok_def pointers_ok_def by (blast dest: linear_manifest_at)
  then have "present b (''manifests/'' @ body)" by (auto simp: manifest_at_def present_def split: option.splits)
  with assms(1,2) obtain tag' m' where "body = oe_sha256 env (canonical_bytes env m')" by (rule stored_manifest)
  then have "is_manifest_digest body" using assms(2) by (simp add: conforming_def)
  then have "pointer_digest body = Some body" by (rule pointer_digest_id)
  with cur n show ?thesis by (simp add: k)
qed

section \<open>Phases\<close>

definition observed_write :: "object_env \<Rightarrow> bucket \<Rightarrow> push \<Rightarrow> string \<Rightarrow> string \<Rightarrow> bool" where
  "observed_write env b p tag d \<longleftrightarrow>
     (\<exists>n < length (bk_writes b). bk_writes b ! n = (push_pointer env p, d) \<and> tag = oe_tag env (push_pointer env p) d n)"

definition packs_present :: "bucket \<Rightarrow> manifest \<Rightarrow> bool" where
  "packs_present b m \<longleftrightarrow> (\<forall>k \<in> set (mf_packs m). present b k)"

definition parent_ok :: "object_env \<Rightarrow> bucket \<Rightarrow> push \<Rightarrow> parent_state \<Rightarrow> bool" where
  "parent_ok env b p ps \<longleftrightarrow>
     ps = fresh_parent
     \<or> (\<exists>tag d m. ps = from_loaded tag d m \<and> observed_write env b p tag d \<and> manifest_at env b d = Some m \<and> packs_present b m)"

definition snapshot_of :: "push \<Rightarrow> (string, string) hmap \<Rightarrow> bool" where
  "snapshot_of p refs \<longleftrightarrow> (\<exists>head. snapshot_workspace_state (pu_workspace p) = Ok (refs, head))"

definition draft_ok :: "object_env \<Rightarrow> bucket \<Rightarrow> push \<Rightarrow> draft \<Rightarrow> bool" where
  "draft_ok env b p d \<longleftrightarrow> parent_ok env b p (dr_parent d) \<and> snapshot_of p (dr_refs d)"

definition composed_ok :: "object_env \<Rightarrow> bucket \<Rightarrow> push \<Rightarrow> parent_state \<Rightarrow> manifest \<Rightarrow> bool" where
  "composed_ok env b p ps m \<longleftrightarrow>
     parent_ok env b p ps \<and> mf_parent m = pa_digest ps \<and> canonical_form m = m \<and> mf_version m = MANIFEST_VERSION
     \<and> packs_present b m \<and> snapshot_of p (mf_refs m)"

definition published :: "object_env \<Rightarrow> bucket \<Rightarrow> push \<Rightarrow> manifest \<Rightarrow> string \<Rightarrow> bool" where
  "published env b p m key \<longleftrightarrow>
     (\<exists>d. key = ''manifests/'' @ d \<and> d \<in> set (versions b (push_pointer env p)) \<and> manifest_at env b d = Some m)
     \<and> snapshot_of p (mf_refs m)"

definition phase_ok :: "object_env \<Rightarrow> bucket \<Rightarrow> push \<Rightarrow> push_phase \<Rightarrow> bool" where
  "phase_ok env b p ph =
     (case ph of
        Located tag d \<Rightarrow> observed_write env b p tag d
      | Ready ps _ \<Rightarrow> parent_ok env b p ps
      | Compacting d _ keys \<Rightarrow> draft_ok env b p d \<and> (\<forall>k \<in> set keys. present b k)
      | Capturing d _ \<Rightarrow> draft_ok env b p d
      | Composed ps m \<Rightarrow> composed_ok env b p ps m
      | Stored ps m key \<Rightarrow>
          composed_ok env b p ps m \<and> key = content_key env ''manifests'' (canonical_bytes env m)
          \<and> manifest_at env b (oe_sha256 env (canonical_bytes env m)) = Some m
      | Finished (CasOk m key) \<Rightarrow> published env b p m key
      | _ \<Rightarrow> True)"

lemmas phase_oks = phase_ok_def draft_ok_def composed_ok_def parent_ok_def

lemma push_pointer_phase [simp]: "push_pointer env (p\<lparr>pu_phase := ph\<rparr>) = push_pointer env p"
  by (simp add: push_pointer_def)

lemma phase_ok_phase [simp]: "phase_ok env b (p\<lparr>pu_phase := ph\<rparr>) ph' = phase_ok env b p ph'"
  by (simp add: phase_oks observed_write_def snapshot_of_def published_def split: push_phase.splits push_result.splits)

lemma observed_write_grows: "grows b b' \<Longrightarrow> observed_write env b p tag d \<Longrightarrow> observed_write env b' p tag d"
  unfolding observed_write_def using grows_write by metis

lemma packs_present_grows: "grows b b' \<Longrightarrow> packs_present b m \<Longrightarrow> packs_present b' m"
  unfolding packs_present_def using grows_present by blast

lemma parent_ok_grows: "grows b b' \<Longrightarrow> parent_ok env b p ps \<Longrightarrow> parent_ok env b' p ps"
  unfolding parent_ok_def using observed_write_grows packs_present_grows grows_manifest_at by blast

lemma composed_ok_grows: "grows b b' \<Longrightarrow> composed_ok env b p ps m \<Longrightarrow> composed_ok env b' p ps m"
  unfolding composed_ok_def using parent_ok_grows packs_present_grows by blast

lemma published_grows:
  assumes grow: "grows b b'" and "published env b p m key"
  shows "published env b' p m key"
  using assms(2) grows_versions [OF grow] grows_manifest_at [OF grow] unfolding published_def by auto

lemma phase_ok_grows:
  assumes grow: "grows b b'" and ok: "phase_ok env b p ph"
  shows "phase_ok env b' p ph"
proof (cases ph)
  case (Finished r)
  with ok published_grows [OF grow] show ?thesis by (cases r) (simp_all add: phase_ok_def)
qed (use ok in \<open>simp_all add: phase_ok_def draft_ok_def observed_write_grows [OF grow] parent_ok_grows [OF grow]
      composed_ok_grows [OF grow] grows_present [OF grow] grows_manifest_at [OF grow]\<close>)

section \<open>Steps\<close>

text \<open>What a step has to establish.\<close>

definition keeps_line ::
    "object_env \<Rightarrow> manifest list \<Rightarrow> push \<Rightarrow> bucket \<Rightarrow> push_phase \<times> bucket \<Rightarrow> bool" where
  "keeps_line env ms p b r \<longleftrightarrow> bucket_ok env ms (snd r) \<and> phase_ok env (snd r) p (fst r) \<and> grows b (snd r)"

lemma locate_ok:
  assumes "bucket_ok env ms b" and "conforming env ms"
  shows "phase_ok env b p (locate env inp p b)"
proof -
  have "observed_write env b p tag d"
    if "get_pointer (si_fate inp) (push_pointer env p) b = Ok (Some (tag, body))" and "pointer_digest body = Some d" for tag body d
  proof -
    have "bk_objects b (push_pointer env p) = Some (tag, body)"
      using that(1) by (auto simp: get_pointer_def s3_get_def split: fate.splits option.splits if_splits)
    from pointer_body [OF assms this] that(2) show ?thesis by (auto simp: observed_write_def)
  qed
  then show ?thesis
    by (auto simp: locate_def phase_ok_def parent_ok_def split: result.splits option.splits)
qed

lemma hydrate_ok:
  assumes "bucket_ok env ms b" and "conforming env ms" and "observed_write env b p tag d"
  shows "phase_ok env b p (hydrate env inp p tag d b)"
proof (cases "load_manifest env (si_fate inp) (si_fate2 inp) d b")
  case (Ok m)
  with load_manifest_Ok [OF Ok assms(1,2)] assms(3) have "parent_ok env b p (from_loaded tag d m)"
    unfolding parent_ok_def packs_present_def by blast
  with Ok show ?thesis by (simp add: hydrate_def phase_ok_def split: result.splits)
qed (simp add: hydrate_def phase_ok_def)

lemma begin_publish_ok:
  assumes "parent_ok env b p ps"
  shows "phase_ok env b p (begin_publish inp p ps n)"
  using assms
  by (auto simp: begin_publish_def phase_ok_def draft_ok_def snapshot_of_def Let_def split: result.splits)

lemma prefix_apart:
  "''idx/'' @ k \<noteq> ''packs/'' @ d" "''idx/'' @ k \<noteq> ''manifests/'' @ d"
  "''packs/'' @ k \<noteq> ''manifests/'' @ d" "''manifests/'' @ k \<noteq> ''packs/'' @ d"
  by simp_all

lemma idx_ok:
  assumes "bucket_ok env ms b"
  shows "bucket_ok env ms (snd (put_idx env fate digest idx b)) \<and> grows b (snd (put_idx env fate digest idx b))"
proof -
  obtain key where c: "created env (''idx/'' @ key) idx b (snd (put_idx env fate digest idx b))"
    using put_idx_effect by blast
  have "bucket_ok env ms (snd (put_idx env fate digest idx b))"
    by (rule bucket_ok_created [OF assms c]) simp_all
  with c show ?thesis by (blast intro: created_grows)
qed

lemma sidecar_ok:
  assumes "bucket_ok env ms b"
  shows "bucket_ok env ms (write_idx_sidecar env fate ws key bytes b) \<and> grows b (write_idx_sidecar env fate ws key bytes b)"
  using assms idx_ok [OF assms] by (auto simp: write_idx_sidecar_def split: result.splits)

lemma pack_stored:
  assumes "put_pack env fate bytes b = (r, b')" and "bucket_ok env ms b"
  shows "bucket_ok env ms b'" and "grows b b'" and "r = Ok key \<Longrightarrow> present b' key"
proof -
  have c: "created env (content_key env ''packs'' bytes) bytes b b'"
    using assms(1) unfolding put_pack_def by (rule put_immutable_effect)
  then show "bucket_ok env ms b'"
    by (rule bucket_ok_created [OF assms(2)]) (simp_all add: content_key_def)
  show "grows b b'" using c by (rule created_grows)
  show "present b' key" if "r = Ok key"
    using put_immutable_effect(2) [OF assms(1) [unfolded put_pack_def] that] by blast
qed

lemma remdups_adj_strict: "sorted xs \<Longrightarrow> sorted_wrt (<) (remdups_adj xs)" for xs :: "'a::linorder list"
  by (induction xs rule: remdups_adj.induct) auto

lemma canonical_idem [simp]: "remdups_adj (sort (remdups_adj (sort xs))) = remdups_adj (sort xs)"
  for xs :: "string list"
proof -
  have "sorted_wrt (<) (remdups_adj (sort xs))" by (rule remdups_adj_strict) simp
  then have "distinct (remdups_adj (sort xs))" by (simp add: strict_sorted_iff)
  then show ?thesis by (simp add: sorted_sort_id sorted_remdups_adj remdups_adj_distinct)
qed

lemma published_packs:
  assumes "parent_ok env b p ps" and "snapshot_of p refs" and "\<forall>k. key = Some k \<longrightarrow> present b k"
  shows "composed_ok env b p ps (compose_after (pa_manifest ps) (pa_digest ps) head refs key)"
  using assms
  by (auto simp: composed_ok_def compose_after_def canonical_form_def packs_present_def parent_ok_def fresh_parent_def
      from_loaded_def Let_def split: option.splits)

lemma compacted_packs:
  assumes "parent_ok env b p ps" and "snapshot_of p refs" and "\<forall>k \<in> set keys. present b k"
  shows "composed_ok env b p ps (compose_compacted_after (pa_digest ps) head refs (remdups_adj (sort keys)))"
  using assms by (simp add: composed_ok_def compose_compacted_after_def canonical_form_def packs_present_def)

lemma upload_ok:
  assumes ok: "bucket_ok env ms b" and d: "draft_ok env b p d" and keys: "\<forall>k \<in> set keys. present b k"
  shows "keeps_line env ms p b (upload_compacted env inp d todo keys b)"
proof (cases "si_expired inp \<or> todo = []")
  case True
  with ok d keys compacted_packs show ?thesis
    by (auto simp: upload_compacted_def keeps_line_def phase_ok_def draft_ok_def)
next
  case False
  then obtain pack idx rest where todo: "todo = (pack, idx) # rest" and "\<not> si_expired inp" by (cases todo) auto
  obtain r b1 where put: "put_pack env (si_fate inp) pack b = (r, b1)" by force
  note b1 = pack_stored [OF put ok]
  have d1: "draft_ok env b1 p d" using d parent_ok_grows [OF b1(2)] by (simp add: draft_ok_def)
  show ?thesis
  proof (cases r)
    case (Err e)
    with todo put \<open>\<not> si_expired inp\<close> b1 d1 show ?thesis
      by (simp add: upload_compacted_def keeps_line_def phase_ok_def)
  next
    case (Ok key)
    let ?b2 = "\<lambda>digest. snd (put_idx env (si_fate2 inp) digest idx b1)"
    have b2: "bucket_ok env ms (?b2 digest)" "grows b1 (?b2 digest)" for digest
      using idx_ok [OF b1(1)] by auto
    have "draft_ok env (?b2 digest) p d" for digest
      using d1 parent_ok_grows [OF b2(2)] by (simp add: draft_ok_def)
    moreover have "present (?b2 digest) k" if "k \<in> set (keys @ [key])" for digest k
      using that keys b1(3) [OF Ok] grows_present [OF b1(2)] grows_present [OF b2(2)] by auto
    ultimately show ?thesis
      using todo put Ok \<open>\<not> si_expired inp\<close> b1 b2 d1 grows_trans [OF b1(2) b2(2)]
      by (simp add: upload_compacted_def keeps_line_def phase_ok_def split: result.splits)
  qed
qed

lemma capture_ok:
  assumes ok: "bucket_ok env ms b" and d: "draft_ok env b p d"
  shows "keeps_line env ms p b (capture env inp p d failure b)"
proof -
  have failed: "keeps_line env ms p b (Finished (CasFailed e), b)" for e
    using ok by (simp add: keeps_line_def phase_ok_def)
  let ?m = "compose_after (pa_manifest (dr_parent d)) (pa_digest (dr_parent d)) (dr_head d) (dr_refs d)"
  have none: "keeps_line env ms p b (Composed (dr_parent d) (?m None), b)"
    using ok d by (simp add: keeps_line_def phase_ok_def draft_ok_def published_packs)
  have some: "keeps_line env ms p b
      (case put_pack env (si_fate inp) bytes b of
         (Err e, b') \<Rightarrow> (Finished (CasFailed (CasBackend e)), b')
       | (Ok key, b') \<Rightarrow>
           (Composed (dr_parent d) (?m (Some key)), write_idx_sidecar env (si_fate2 inp) (pu_workspace p) key bytes b'))" for bytes
  proof -
    obtain r b1 where put: "put_pack env (si_fate inp) bytes b = (r, b1)" by force
    note b1 = pack_stored [OF put ok]
    show ?thesis
    proof (cases r)
      case (Err e)
      with put b1 show ?thesis by (simp add: keeps_line_def phase_ok_def)
    next
      case (Ok key)
      let ?b2 = "write_idx_sidecar env (si_fate2 inp) (pu_workspace p) key bytes b1"
      have b2: "bucket_ok env ms ?b2" "grows b1 ?b2" using sidecar_ok [OF b1(1)] by auto
      have "composed_ok env ?b2 p (dr_parent d) (?m (Some key))"
        using d b1(3) [OF Ok] grows_present [OF b2(2)] parent_ok_grows [OF grows_trans [OF b1(2) b2(2)]]
        by (intro published_packs) (auto simp: draft_ok_def)
      with put Ok b2 grows_trans [OF b1(2) b2(2)] show ?thesis by (simp add: keeps_line_def phase_ok_def)
    qed
  qed
  show ?thesis
    unfolding capture_def Let_def using failed none some by (auto split: result.splits option.splits)
qed

end
