(* ===== verification/Git_Published.thy ===== *)
theory Git_Published
  imports Git_Push_Safety
begin

text \<open>
  Published repositories: the last two steps of a push, the invariant over every run, and the
  theorems. A sample run of two racing pushes closes the theory.
\<close>

section \<open>Publication\<close>

lemma offered_apart: "conforming env ms \<Longrightarrow> m \<in> set ms \<Longrightarrow> m' \<in> set ms \<Longrightarrow> \<not> collide env m m'"
  unfolding conforming_def list_all_iff by blast

lemma offered_reads_back:
  "conforming env ms \<Longrightarrow> m \<in> set ms \<Longrightarrow> canonical_form m = m \<Longrightarrow>
     oe_from_json env (canonical_bytes env m) = Some m"
  by (simp add: conforming_def list_all_iff reads_back_def)

lemma store_manifest_ok:
  assumes ok: "bucket_ok env ms b" and conf: "conforming env (ms @ [m])" and m: "composed_ok env b p ps m"
  shows "keeps_line env (ms @ [m]) p b (store_manifest env inp ps m b)"
proof (cases "validate_manifest m = Ok ()")
  case True
  obtain r b1 where put: "put_manifest env (si_fate inp) (canonical_bytes env m) b = (r, b1)" by force
  have ok': "bucket_ok env (ms @ [m]) b"
    using ok sound_manifest_grows [OF _ grows_refl, of env ms b _ "ms @ [m]"]
    by (fastforce simp: bucket_ok_def manifests_ok_def)
  have sound: "sound_manifest env (ms @ [m]) b m"
    using True m by (simp add: sound_manifest_def composed_ok_def packs_present_def)
  have c: "created env (content_key env ''manifests'' (canonical_bytes env m)) (canonical_bytes env m) b b1"
    using put unfolding put_manifest_def by (rule put_immutable_effect)
  have b1: "bucket_ok env (ms @ [m]) b1" "grows b b1"
    using sound by (auto intro!: bucket_ok_created [OF ok' c] created_grows [OF c] simp: content_key_def)
  show ?thesis
  proof (cases r)
    case (Err e)
    with True put b1 show ?thesis by (simp add: store_manifest_def keeps_line_def phase_ok_def)
  next
    case (Ok key)
    let ?d = "oe_sha256 env (canonical_bytes env m)"
    from put_immutable_effect(2) [OF put [unfolded put_manifest_def] Ok]
    have key: "key = content_key env ''manifests'' (canonical_bytes env m)" and "present b1 key"
      by blast+
    then have "present b1 (''manifests/'' @ ?d)" by (simp add: content_key_def)
    from stored_manifest [OF b1(1) conf this]
    obtain m' where m': "?d = oe_sha256 env (canonical_bytes env m')" "sound_manifest env (ms @ [m]) b1 m'"
      "manifest_at env b1 ?d = Some m'" by metis
    then have in_offers: "m' \<in> set (ms @ [m])" "canonical_form m' = m'" by (simp_all add: sound_manifest_def)
    then have "\<not> collide env m m'" by (intro offered_apart [OF conf]) simp_all
    then have "canonical_bytes env m' = canonical_bytes env m" using m'(1) by (simp add: collide_def)
    with offered_reads_back [OF conf in_offers] offered_reads_back [OF conf, of m] m have "m' = m"
      by (simp add: composed_ok_def)
    with m'(3) True put Ok key b1 composed_ok_grows [OF b1(2) m] show ?thesis
      by (simp add: store_manifest_def keeps_line_def phase_ok_def)
  qed
next
  case False
  then obtain e where "validate_manifest m = Err e" by (cases "validate_manifest m") auto
  moreover have "bucket_ok env (ms @ [m]) b"
    using ok sound_manifest_grows [OF _ grows_refl, of env ms b _ "ms @ [m]"]
    by (fastforce simp: bucket_ok_def manifests_ok_def)
  ultimately show ?thesis by (simp add: store_manifest_def keeps_line_def phase_ok_def)
qed

text \<open>The precondition of the write holds only of the version that the push was derived from.\<close>

lemma guard_names_parent:
  assumes ok: "bucket_ok env ms b" and conf: "conforming env ms" and ps: "parent_ok env b p ps"
    and guard: "holds_for (case pa_if_match ps of Some tag \<Rightarrow> IfMatch tag | None \<Rightarrow> IfNoneMatchStar)
                  (bk_objects b (push_pointer env p))"
  shows "pa_digest ps =
    (let ds = versions b (push_pointer env p) in if ds = [] then None else Some (last ds))"
proof (cases "ps = fresh_parent")
  case True
  then have "bk_objects b (push_pointer env p) = None" using guard by (simp add: fresh_parent_def holds_for_def)
  then have "versions b (push_pointer env p) = []" using ok by (simp add: bucket_ok_def current_ok_def)
  with True show ?thesis by (simp add: fresh_parent_def)
next
  case False
  then obtain tag d m where parent: "ps = from_loaded tag d m" and seen: "observed_write env b p tag d"
    using ps by (auto simp: parent_ok_def)
  then obtain x where x: "bk_objects b (push_pointer env p) = Some (tag, x)"
    using guard by (auto simp: from_loaded_def holds_for_def)
  from pointer_body [OF ok conf x] obtain n where "x = last (versions b (push_pointer env p))"
    and "tag = oe_tag env (push_pointer env p) x n" by blast
  moreover from seen obtain n' where "tag = oe_tag env (push_pointer env p) d n'" by (auto simp: observed_write_def)
  ultimately have "d = last (versions b (push_pointer env p))" using conf unfolding conforming_def by metis
  moreover have "versions b (push_pointer env p) \<noteq> []" using ok x by (auto simp: bucket_ok_def current_ok_def)
  ultimately show ?thesis by (simp add: parent from_loaded_def)
qed

lemma swap_ok:
  assumes ok: "bucket_ok env ms b" and conf: "conforming env ms"
    and stored: "phase_ok env b p (Stored ps m key)"
  shows "keeps_line env ms p b (swap_pointer env inp p ps m key b)"
proof -
  let ?d = "oe_sha256 env (canonical_bytes env m)" and ?k = "push_pointer env p"
  have m: "composed_ok env b p ps m" and key: "key = ''manifests/'' @ ?d" and at: "manifest_at env b ?d = Some m"
    using stored by (simp_all add: phase_ok_def content_key_def)
  obtain r b1 where put: "put_pointer env (si_fate inp) ?k ?d
      (case pa_if_match ps of Some tag \<Rightarrow> IfMatch tag | None \<Rightarrow> IfNoneMatchStar) b = (r, b1)" by force
  have b1: "bucket_ok env ms b1 \<and> grows b b1"
  proof (cases "b1 = b")
    case False
    with put_pointer_effect(1) [OF put] m have b1: "b1 = written env ?k ?d b"
      and "pa_digest ps = (let ds = versions b ?k in if ds = [] then None else Some (last ds))"
      using guard_names_parent [OF ok conf] by (auto simp: composed_ok_def)
    with m have "mf_parent m = (let ds = versions b ?k in if ds = [] then None else Some (last ds))"
      by (simp add: composed_ok_def)
    moreover obtain k where "?k = ''repos/'' @ k" using push_pointer_form by blast
    ultimately show ?thesis using bucket_ok_pointer [OF ok at, of k] pointer_grows [of b env k ?d] b1 by simp
  qed (use ok in simp)
  have "published env b1 p m key" if "r = Ok (Won tag)" for tag
  proof -
    have "?d \<in> set (versions b1 ?k)" using put_pointer_effect(3) [OF put that] by simp
    with grows_manifest_at [OF _ at, of b1] b1 key m show ?thesis
      by (auto simp: published_def composed_ok_def)
  qed
  moreover have strip: "strip_prefix key ''manifests/'' = Some ?d" by (simp add: key)
  ultimately show ?thesis
    using b1 unfolding swap_pointer_def strip option.case put prod.case
    by (cases r) (auto simp: keeps_line_def phase_ok_def split: cas_outcome.split)
qed

section \<open>Every run\<close>

lemma phase_step_ok:
  assumes ok: "bucket_ok env ms b" and ph: "phase_ok env b p (pu_phase p)" and conf: "conforming env (ms @ offers p)"
  shows "keeps_line env (ms @ offers p) p b (phase_step env inp p b)"
proof -
  have conf': "conforming env ms" using conf by (rule conforming_prefix)
  have still: "keeps_line env ms p b (x, b)" if "phase_ok env b p x" for x
    using ok that by (simp add: keeps_line_def)
  show ?thesis
  proof (cases "pu_phase p")
    case Starting
    with still [OF locate_ok [OF ok conf']] show ?thesis by (simp add: phase_step_def offers_def)
  next
    case (Located tag d)
    with ph still [OF hydrate_ok [OF ok conf']] show ?thesis by (simp add: phase_step_def offers_def phase_ok_def)
  next
    case (Ready ps n)
    with ph still [OF begin_publish_ok] show ?thesis by (simp add: phase_step_def offers_def phase_ok_def)
  next
    case (Compacting d todo keys)
    with ph upload_ok [OF ok] show ?thesis by (simp add: phase_step_def offers_def phase_ok_def)
  next
    case (Capturing d failure)
    with ph capture_ok [OF ok] show ?thesis by (simp add: phase_step_def offers_def phase_ok_def)
  next
    case (Composed ps m)
    with ph conf store_manifest_ok [OF ok, of m] show ?thesis by (simp add: phase_step_def offers_def phase_ok_def)
  next
    case (Stored ps m key)
    with ph swap_ok [OF ok conf'] show ?thesis by (simp add: phase_step_def offers_def)
  next
    case Raced
    with still show ?thesis by (simp add: phase_step_def offers_def lose_race_def phase_ok_def)
  next
    case (Finished r)
    with ph still show ?thesis by (simp add: phase_step_def offers_def)
  qed
qed

definition world_ok :: "object_env \<Rightarrow> git_world \<Rightarrow> bool" where
  "world_ok env w \<longleftrightarrow>
     bucket_ok env (gw_offered w) (gw_bucket w)
     \<and> (\<forall>p \<in> set (gw_pushes w). phase_ok env (gw_bucket w) p (pu_phase p))"

lemma empty_bucket_ok: "bucket_ok env [] \<lparr>bk_objects = (\<lambda>_. None), bk_writes = []\<rparr>"
  by (simp add: bucket_ok_def current_ok_def packs_ok_def manifests_ok_def pointers_ok_def versions_def)

lemma advance_ok:
  assumes "world_ok env w" and i: "i < length (gw_pushes w)" and conf: "conforming env (gw_offered (advance env inp i w))"
  shows "world_ok env (advance env inp i w)"
proof -
  let ?p = "gw_pushes w ! i"
  obtain ph b' where step: "phase_step env inp ?p (gw_bucket w) = (ph, b')" by force
  have "bucket_ok env (gw_offered w) (gw_bucket w)" and "phase_ok env (gw_bucket w) ?p (pu_phase ?p)"
    using assms(1) i by (auto simp: world_ok_def)
  moreover have "conforming env (gw_offered w @ offers ?p)"
    using conf step by (simp add: advance_def push_step_def Let_def)
  ultimately have line: "keeps_line env (gw_offered w @ offers ?p) ?p (gw_bucket w) (ph, b')"
    using phase_step_ok [of env "gw_offered w" "gw_bucket w" ?p inp] step by simp
  then have "phase_ok env b' p (pu_phase p)" if "p \<in> set (gw_pushes w)" for p
    using assms(1) that phase_ok_grows [of "gw_bucket w" b'] by (simp add: world_ok_def keeps_line_def)
  with line step show ?thesis
    by (auto simp: world_ok_def advance_def push_step_def keeps_line_def Let_def dest!: set_update_subset_insert [THEN subsetD])
qed

lemma git_reach_ok: "git_reach env w \<Longrightarrow> conforming env (gw_offered w) \<Longrightarrow> world_ok env w"
proof (induction rule: git_reach.induct)
  case git_init
  show ?case by (simp add: world_ok_def git_start_def empty_bucket_ok)
next
  case (git_arrive w p)
  then show ?case by (auto simp: world_ok_def phase_ok_def)
next
  case (git_advance w i inp)
  have "conforming env (gw_offered w)"
    using git_advance.prems by (auto simp: advance_def push_step_def Let_def split: prod.splits intro: conforming_prefix)
  with git_advance advance_ok show ?case by blast
qed

lemma current_version:
  assumes "current_ok env b"
  shows "map_option snd (bk_objects b k) = (if versions b k = [] then None else Some (last (versions b k)))"
proof (cases "bk_objects b k")
  case None
  with assms show ?thesis by (simp add: current_ok_def)
next
  case (Some obj)
  obtain tag x where "obj = (tag, x)" by (cases obj)
  with assms Some have "versions b k \<noteq> []" "x = last (versions b k)" unfolding current_ok_def by blast+
  with Some \<open>obj = (tag, x)\<close> show ?thesis by simp
qed

lemma validated_packs: "validate_manifest m = Ok () \<Longrightarrow> k \<in> set (mf_packs m) \<Longrightarrow> is_pack_key k"
  by (auto simp: validate_manifest_def result_simps find_None_iff split: option.splits if_splits)

lemma write_unique:
  assumes "distinct (versions b k)" and i: "i < length (bk_writes b)" "bk_writes b ! i = (k, x)"
    and j: "j < length (bk_writes b)" "bk_writes b ! j = (k, x)"
  shows "i = j"
proof -
  have False if "i < j" and i: "bk_writes b ! i = (k, x)" and j: "j < length (bk_writes b)" "bk_writes b ! j = (k, x)" for i j
  proof -
    let ?vs = "\<lambda>ws. map snd (filter (\<lambda>w. fst w = k) ws)"
    have "(k, x) \<in> set (take j (bk_writes b))" and "(k, x) \<in> set (drop j (bk_writes b))"
      using that by (auto simp: in_set_conv_nth) (force intro!: exI [of _ 0])
    then have "x \<in> set (?vs (take j (bk_writes b)))" and "x \<in> set (?vs (drop j (bk_writes b)))" by force+
    moreover have "versions b k = ?vs (take j (bk_writes b)) @ ?vs (drop j (bk_writes b))"
      unfolding versions_def by (simp flip: map_append filter_append)
    ultimately show False using assms(1) by auto
  qed
  from this [of i j] this [of j i] i j show ?thesis by (cases i j rule: linorder_cases) auto
qed

text \<open>The write is refused only of a version that the push has not seen.\<close>

lemma refused_guard:
  assumes ok: "bucket_ok env ms b" and conf: "conforming env ms" and ps: "parent_ok env b p ps"
    and refused: "\<not> holds_for (case pa_if_match ps of Some tag \<Rightarrow> IfMatch tag | None \<Rightarrow> IfNoneMatchStar)
                  (bk_objects b (push_pointer env p))"
  shows "versions b (push_pointer env p) \<noteq> [] \<and> pa_digest ps \<noteq> Some (last (versions b (push_pointer env p)))"
proof (cases "ps = fresh_parent")
  case True
  then obtain obj where "bk_objects b (push_pointer env p) = Some obj"
    using refused by (auto simp: fresh_parent_def holds_for_def)
  moreover from this have "versions b (push_pointer env p) \<noteq> []"
    using ok unfolding bucket_ok_def current_ok_def by (cases obj) blast
  ultimately show ?thesis using True by (simp add: fresh_parent_def)
next
  case False
  then obtain tag d m where parent: "ps = from_loaded tag d m" and seen: "observed_write env b p tag d"
    using ps by (auto simp: parent_ok_def)
  then obtain n where n: "n < length (bk_writes b)" "bk_writes b ! n = (push_pointer env p, d)"
    "tag = oe_tag env (push_pointer env p) d n" by (auto simp: observed_write_def)
  then have "d \<in> set (versions b (push_pointer env p))" by (blast intro: write_version)
  then have ne: "versions b (push_pointer env p) \<noteq> []" by auto
  then obtain tag' x where obj: "bk_objects b (push_pointer env p) = Some (tag', x)"
    using ok unfolding bucket_ok_def current_ok_def by (metis option.exhaust surj_pair)
  from pointer_body [OF ok conf obj] obtain n' where x: "x = last (versions b (push_pointer env p))"
    and n': "n' < length (bk_writes b)" "bk_writes b ! n' = (push_pointer env p, x)"
    "tag' = oe_tag env (push_pointer env p) x n'" by blast
  obtain r where k: "push_pointer env p = ''repos/'' @ r" using push_pointer_form by blast
  have "distinct (versions b (push_pointer env p))"
    unfolding k using ok linear_distinct unfolding bucket_ok_def pointers_ok_def by blast
  then have "tag' = tag" if "x = d" using write_unique n n' that by metis
  moreover have "tag' \<noteq> tag" using refused obj parent by (auto simp: from_loaded_def holds_for_def)
  ultimately show ?thesis using ne x parent by (auto simp: from_loaded_def)
qed

lemma stored_pack_readable:
  assumes ok: "bucket_ok env ms b" and conf: "conforming env ms" and key: "is_pack_key k" "present b k"
  shows "\<exists>tag bytes. bk_objects b k = Some (tag, bytes)
    \<and> (length bytes \<le> limit \<longrightarrow> read_pack env (\<lambda>_. Fetched Answered Answered True) limit k b = Ok (length bytes))"
proof -
  obtain d where d: "k = ''packs/'' @ d" "is_manifest_digest d" using key(1) by (auto simp: is_pack_key_def is_some_and_iff)
  obtain tag bytes where obj: "bk_objects b (''packs/'' @ d) = Some (tag, bytes)" using key(2) d by (auto simp: present_def)
  then have "bytes \<in> set (versions b (''packs/'' @ d))"
    using ok unfolding bucket_ok_def current_ok_def by (metis last_in_set)
  then have sha: "d = oe_sha256 env bytes" using ok unfolding bucket_ok_def packs_ok_def by blast
  have strip: "strip_prefix (''packs/'' @ d) ''packs/'' = Some d" by (simp only: strip_prefix_Some)
  have hex: "length d = 64" "list_all is_hex_char d" using d(2) by (auto simp: is_manifest_digest_def list_all_iff)
  have "limited_read env Answered Answered (''packs/'' @ d) d limit b = Ok bytes" if "length bytes \<le> limit"
    unfolding limited_read_def get_verified_limited_def get_limited_def store_get_def s3_get_def verified_def fate.case obj
    using that sha by simp
  then show ?thesis using obj hex unfolding d(1) read_pack_def strip by simp
qed

section \<open>Theorems\<close>

text \<open>
  C13. Concurrent pushes to a repository never fork its history or lose an update: whatever the
  interleaving, and whichever requests fail before or after taking effect, the manifests that its
  pointer has named form one line, each with the one before as its parent, no digest twice, and the
  pointer names the last.
\<close>
theorem published_history_is_linear:
  assumes "git_reach env w" and "conforming env (gw_offered w)"
  shows "let b = gw_bucket w; k = pointer_key env community owner repo; ds = versions b k
    in map_option snd (bk_objects b k) = (if ds = [] then None else Some (last ds))
       \<and> linear (manifest_at env b) None ds \<and> distinct ds"
proof -
  obtain r where k: "pointer_key env community owner repo = ''repos/'' @ r" by (simp add: pointer_key_def Let_def)
  have ok: "bucket_ok env (gw_offered w) (gw_bucket w)" using git_reach_ok [OF assms] by (simp add: world_ok_def)
  then have line: "linear (manifest_at env (gw_bucket w)) None (versions (gw_bucket w) (''repos/'' @ r))"
    unfolding bucket_ok_def pointers_ok_def by blast
  with ok linear_distinct [OF line] current_version show ?thesis unfolding k Let_def bucket_ok_def by blast
qed


text \<open>
  C28. Every version that a repository has had, superseded ones included, can be read for ever: its
  manifest and each pack it names are found under their digests, within the size limits of a reader.
\<close>
theorem published_versions_stay_readable:
  assumes "git_reach env w" and "conforming env (gw_offered w)"
    and "d \<in> set (versions (gw_bucket w) (pointer_key env community owner repo))"
  shows "\<exists>m. manifest_at env (gw_bucket w) d = Some m
    \<and> (length (canonical_bytes env m) \<le> MAX_MANIFEST_BYTES \<longrightarrow>
         load_manifest env Answered Answered d (gw_bucket w) = Ok m)
    \<and> (\<forall>k \<in> set (mf_packs m). \<exists>tag bytes. bk_objects (gw_bucket w) k = Some (tag, bytes)
         \<and> (length bytes \<le> limit \<longrightarrow>
              read_pack env (\<lambda>_. Fetched Answered Answered True) limit k (gw_bucket w) = Ok (length bytes)))"
proof -
  let ?b = "gw_bucket w"
  have ok: "bucket_ok env (gw_offered w) ?b" using git_reach_ok [OF assms(1,2)] by (simp add: world_ok_def)
  obtain r where k: "pointer_key env community owner repo = ''repos/'' @ r" by (simp add: pointer_key_def Let_def)
  then have "linear (manifest_at env ?b) None (versions ?b (''repos/'' @ r))"
    using ok unfolding bucket_ok_def pointers_ok_def by blast
  then obtain m0 where "manifest_at env ?b d = Some m0" using assms(3) k by (auto dest: linear_manifest_at)
  then have "present ?b (''manifests/'' @ d)" by (auto simp: manifest_at_def present_def split: option.splits)
  with ok assms(2) obtain tag m where m: "bk_objects ?b (''manifests/'' @ d) = Some (tag, canonical_bytes env m)"
    "d = oe_sha256 env (canonical_bytes env m)" "sound_manifest env (gw_offered w) ?b m" "manifest_at env ?b d = Some m"
    by (rule stored_manifest)
  then have "oe_from_json env (canonical_bytes env m) = Some m" by (simp add: manifest_at_def)
  with m have "load_manifest env Answered Answered d ?b = Ok m" if "length (canonical_bytes env m) \<le> MAX_MANIFEST_BYTES"
    using that by (simp add: load_manifest_def limited_read_def get_verified_limited_def get_limited_def store_get_def
        s3_get_def verified_def manifest_from_bytes_def sound_manifest_def map_err_def)
  moreover have "\<exists>tag bytes. bk_objects ?b pk = Some (tag, bytes)
      \<and> (length bytes \<le> limit \<longrightarrow> read_pack env (\<lambda>_. Fetched Answered Answered True) limit pk ?b = Ok (length bytes))"
    if "pk \<in> set (mf_packs m)" for pk
    using that m(3) validated_packs by (intro stored_pack_readable [OF ok assms(2)]) (auto simp: sound_manifest_def)
  ultimately show ?thesis using m(4) by blast
qed

text \<open>
  C29. A push loses the race only to a push that was published since: when the conditional write is
  refused, the pointer names another version than the one the push was derived from.
\<close>
theorem conflict_has_a_winner:
  assumes "git_reach env w" and "conforming env (gw_offered w)"
    and "p \<in> set (gw_pushes w)" and "pu_phase p = Stored ps m key"
    and "fst (phase_step env inp p (gw_bucket w)) = Raced"
  shows "let ds = versions (gw_bucket w) (push_pointer env p)
    in ds \<noteq> [] \<and> pa_digest ps \<noteq> Some (last ds) \<and> snd (phase_step env inp p (gw_bucket w)) = gw_bucket w"
proof -
  let ?b = "gw_bucket w" and ?k = "push_pointer env p" and ?d = "oe_sha256 env (canonical_bytes env m)"
  have ok: "bucket_ok env (gw_offered w) ?b" and ph: "phase_ok env ?b p (Stored ps m key)"
    using git_reach_ok [OF assms(1,2)] assms(3,4) by (auto simp: world_ok_def)
  then have ps: "parent_ok env ?b p ps" and "key = ''manifests/'' @ ?d"
    by (simp_all add: phase_ok_def composed_ok_def content_key_def)
  then have strip: "strip_prefix key ''manifests/'' = Some ?d" by (simp only: strip_prefix_Some)
  obtain r b1 where put: "put_pointer env (si_fate inp) ?k ?d
      (case pa_if_match ps of Some tag \<Rightarrow> IfMatch tag | None \<Rightarrow> IfNoneMatchStar) ?b = (r, b1)" by force
  have step: "phase_step env inp p ?b = swap_pointer env inp p ps m key ?b" by (simp add: phase_step_def assms(4))
  have "r = Ok LostRace" and res: "phase_step env inp p ?b = (Raced, b1)"
    using assms(5) unfolding step swap_pointer_def strip option.case put prod.case
    by (auto split: result.splits cas_outcome.splits)
  from put_pointer_effect(2) [OF put this(1)] refused_guard [OF ok assms(2) ps] res show ?thesis
    by (simp add: Let_def)
qed

end
