(* ===== verification/Git_Race_Sample.thy ===== *)
theory Git_Race_Sample
  imports Git_Published
begin

text \<open>
  Two pushes to an empty repository race: both have stored their manifests, the first has written the
  pointer. The theorems on published repositories apply to this world.
\<close>

definition duel_oid :: string where "duel_oid = replicate 40 (CHR ''a'')"
definition duel_digest :: "char \<Rightarrow> string" where "duel_digest c = replicate 64 c"

definition duel_workspace :: "string \<Rightarrow> workspace" where
  "duel_workspace pack =
     \<lparr>ws_for_each_ref = Ok (''refs/heads/main '' @ duel_oid @ [CHR 0x0A]), ws_symbolic_ref = Ok (Some ''refs/heads/main''),
      ws_pack_objects = (\<lambda>_. Ok pack), ws_count_objects = Err [], ws_compact_objects = (\<lambda>_ _. Err []),
      ws_index_pack = (\<lambda>_. Err []), ws_permit = Ok (), ws_receive_pack = Ok (True, ''0000'')\<rparr>"

definition duel_push :: "string \<Rightarrow> push_phase \<Rightarrow> push" where
  "duel_push pack ph =
     \<lparr>pu_community = 0, pu_owner = ''o'', pu_repo = ''r'', pu_max_pack_bytes = 9, pu_max_repo_bytes = 99,
      pu_workspace = duel_workspace pack, pu_phase = ph\<rparr>"

definition duel_manifest :: "char \<Rightarrow> manifest" where
  "duel_manifest c =
     \<lparr>mf_version = 1, mf_head = ''refs/heads/main'', mf_refs = [(''refs/heads/main'', duel_oid)],
      mf_packs = [''packs/'' @ duel_digest c], mf_parent = None\<rparr>"

text \<open>Digests of 64 equal digits; the JSON of a manifest is the digit of its pack.\<close>

definition duel_object_env :: object_env where
  "duel_object_env =
     \<lparr>oe_sha256 = (\<lambda>x. duel_digest
        (if x = ''p'' then CHR ''1'' else if x = ''q'' then CHR ''2'' else if x = ''1'' then CHR ''3'' else CHR ''4'')),
      oe_to_json = (\<lambda>m. take 1 (drop 6 (hd (mf_packs m)))),
      oe_from_json = (\<lambda>x. Some (duel_manifest (hd x))),
      oe_uuid_text = (\<lambda>_. ''c''), oe_tag = (\<lambda>_ x _. x)\<rparr>"

definition duel_input :: step_input where
  "duel_input =
     \<lparr>si_fate = Answered, si_fate2 = Answered, si_reads = (\<lambda>_. Fetched Answered Answered True), si_init = Ok (),
      si_expired = False\<rparr>"

definition duel_draft :: draft where
  "duel_draft =
     \<lparr>dr_parent = fresh_parent, dr_refs = [(''refs/heads/main'', duel_oid)], dr_head = ''refs/heads/main'',
      dr_limits = \<lparr>pl_parent_hydrated_bytes = 0, pl_max_pack_bytes = 9, pl_max_repo_bytes = 99\<rparr>\<rparr>"

lemma list_all_replicate_iff [simp]: "list_all P (replicate n c) \<longleftrightarrow> n = 0 \<or> P c"
  by (induction n) auto

lemma duel_digest_hex: "c \<in> set ''1234'' \<Longrightarrow> is_manifest_digest (duel_digest c)"
  by (auto simp: is_manifest_digest_def duel_digest_def is_hex_char_def is_digit_def is_ascii_uppercase_def Let_def)

lemma duel_text:
  "is_utf8 (''refs/heads/main '' @ duel_oid @ [CHR 0x0A])"
  by (simp add: is_utf8_def duel_oid_def utf8_ascii)

lemma split_on_fresh: "d \<notin> set xs \<Longrightarrow> split_on d (xs @ [d]) = [xs, []]"
  by (induction xs) auto

lemma duel_lines: "str_lines (''refs/heads/main '' @ duel_oid @ [CHR 0x0A]) = [''refs/heads/main '' @ duel_oid]"
proof -
  have "CHR 0x0A \<notin> set (''refs/heads/main '' @ duel_oid)" by (simp add: duel_oid_def)
  from split_on_fresh [OF this] show ?thesis by (simp add: str_lines_def Let_def duel_oid_def)
qed

lemma duel_refs: "collect_refs [''refs/heads/main '' @ duel_oid] [] = Ok [(''refs/heads/main'', duel_oid)]"
  by (simp add: numeral_2_eq_2 duel_oid_def is_hex_char_def is_digit_def MAX_MANIFEST_REFS_def)

lemma duel_snapshot:
  "snapshot_workspace_state (duel_workspace pack) = Ok ([(''refs/heads/main'', duel_oid)], ''refs/heads/main'')"
proof -
  have "trim ''refs/heads/main'' = ''refs/heads/main''" by (rule trim_no_space) (simp_all add: is_space_def)
  moreover have "length (''refs/heads/main '' @ duel_oid @ [CHR 0x0A]) \<le> MAX_REF_SNAPSHOT_BYTES"
    by (simp add: duel_oid_def MAX_REF_SNAPSHOT_BYTES_def)
  ultimately show ?thesis
    unfolding snapshot_workspace_state_def duel_workspace_def workspace.simps map_err_def result.case bind_result.simps
    using duel_text duel_lines duel_refs by simp
qed

lemma duel_run: "run_git_at (duel_workspace pack) = Ok True"
  by (simp add: run_git_at_def duel_workspace_def RECEIVE_PACK_MAX_OUTPUT_BYTES_def receive_pack_report_rejected_def
      pkt_lines.simps parse_hex_def is_hex_char_def is_digit_def hex_digit_value_def digit_value_def Let_def)

definition duel_pointer :: string where "duel_pointer = ''repos/c/o/r/pointer''"

lemma duel_pointer_key: "push_pointer duel_object_env (duel_push pack ph) = duel_pointer"
  by (simp add: push_pointer_def pointer_key_def duel_push_def duel_object_env_def duel_pointer_def
      strip_suffix_def ends_with_def starts_with_def Let_def)

lemma duel_push_simps [simp]:
  "pu_phase (duel_push pack ph) = ph" "pu_workspace (duel_push pack ph) = duel_workspace pack"
  "pu_max_pack_bytes (duel_push pack ph) = 9" "pu_max_repo_bytes (duel_push pack ph) = 99"
  "(duel_push pack ph)\<lparr>pu_phase := ph'\<rparr> = duel_push pack ph'"
  by (simp_all add: duel_push_def)

lemma duel_input_simps [simp]:
  "si_fate duel_input = Answered" "si_fate2 duel_input = Answered" "si_init duel_input = Ok ()"
  "si_expired duel_input = False"
  by (simp_all add: duel_input_def)

lemma step_locate:
  "bk_objects b duel_pointer = None \<Longrightarrow>
     phase_step duel_object_env duel_input (duel_push pack Starting) b = (Ready fresh_parent 0, b)"
  by (simp add: phase_step_def locate_def duel_pointer_key get_pointer_def s3_get_def)

lemma fresh_parent_simps [simp]:
  "pa_if_match fresh_parent = None" "pa_digest fresh_parent = None" "mf_head (pa_manifest fresh_parent) = []"
  "mf_packs (pa_manifest fresh_parent) = []" "mf_refs (pa_manifest fresh_parent) = []"
  by (simp_all add: fresh_parent_def)

lemma step_begin:
  "phase_step duel_object_env duel_input (duel_push pack (Ready fresh_parent 0)) b = (Capturing duel_draft None, b)"
  by (simp add: phase_step_def begin_publish_def duel_run duel_snapshot duel_draft_def should_compact_def
      PACK_COMPACTION_THRESHOLD_def MAX_MANIFEST_PACKS_def resolve_published_head_def published_branch_def
      hm_contains_def starts_with_def)

definition pack_digit :: "string \<Rightarrow> char" where "pack_digit pack = (if pack = ''p'' then CHR ''1'' else CHR ''2'')"

definition duel_pack_key :: "char \<Rightarrow> string" where "duel_pack_key c = ''packs/'' @ duel_digest c"
definition duel_manifest_key :: "char \<Rightarrow> string" where "duel_manifest_key c = ''manifests/'' @ duel_digest c"

lemma step_capture:
  assumes "pack = ''p'' \<or> pack = ''q''" and "bk_objects b (duel_pack_key (pack_digit pack)) = None"
  shows "phase_step duel_object_env duel_input (duel_push pack (Capturing duel_draft None)) b =
    (Composed fresh_parent (duel_manifest (pack_digit pack)),
     written duel_object_env (duel_pack_key (pack_digit pack)) pack b)"
proof -
  have key: "content_key duel_object_env ''packs'' pack = duel_pack_key (pack_digit pack)"
    using assms(1) by (auto simp: content_key_def duel_object_env_def pack_digit_def duel_pack_key_def)
  have put: "put_pack duel_object_env Answered pack b =
      (Ok (duel_pack_key (pack_digit pack)),
       written duel_object_env (duel_pack_key (pack_digit pack)) pack b)"
    unfolding put_pack_def put_immutable_def key Let_def s3_put_def assms(2) by (simp add: holds_for_def)
  have side: "write_idx_sidecar env f (duel_workspace pack) key bytes b = b" for env f key bytes b
    by (simp add: write_idx_sidecar_def duel_workspace_def split: result.split)
  have cap: "capture_pack (duel_workspace pack) [] (dr_refs duel_draft) 9 = Ok (Some pack)"
    using assms(1) by (auto simp: capture_pack_def duel_draft_def duel_workspace_def map_err_def)
  show ?thesis
    unfolding phase_step_def duel_push_simps push_phase.case capture_def Let_def duel_input_simps
    using put side cap assms(1)
    by (auto simp: duel_draft_def MAX_MANIFEST_PACKS_def u64_max_def compose_after_def duel_manifest_def MANIFEST_VERSION_def duel_pack_key_def)
qed

lemma duel_canonical: "canonical_bytes duel_object_env (duel_manifest c) = [c]"
  by (simp add: canonical_bytes_def canonical_form_def duel_manifest_def duel_object_env_def duel_digest_def
      numeral_eq_Suc)

lemma duel_valid: "c \<in> set ''1234'' \<Longrightarrow> validate_manifest (duel_manifest c) = Ok ()"
proof -
  assume c: "c \<in> set ''1234''"
  have pack: "is_pack_key (''packs/'' @ duel_digest c)"
    unfolding is_pack_key_def is_some_and_iff using duel_digest_hex [OF c] by (simp del: append.simps)
  have ref: "is_safe_refname ''refs/heads/main''" "is_hex_oid duel_oid"
    by (simp_all add: is_safe_refname_def starts_with_def ends_with_def refname_char_def is_ascii_alphanumeric_def
        is_digit_def is_ascii_alphabetic_def Let_def is_hex_oid_def duel_oid_def is_hex_char_def)
  show ?thesis using pack ref
    by (simp add: validate_manifest_def duel_manifest_def MAX_MANIFEST_PACKS_def MAX_MANIFEST_REFS_def)
qed

definition manifest_digit :: "char \<Rightarrow> char" where "manifest_digit c = (if c = CHR ''1'' then CHR ''3'' else CHR ''4'')"

lemma duel_sha: "c \<in> set ''12'' \<Longrightarrow> oe_sha256 duel_object_env [c] = duel_digest (manifest_digit c)"
  by (auto simp: duel_object_env_def manifest_digit_def)

lemma step_store:
  assumes "c \<in> set ''12''" and "bk_objects b (duel_manifest_key (manifest_digit c)) = None"
  shows "phase_step duel_object_env duel_input (duel_push pack (Composed fresh_parent (duel_manifest c))) b =
    (Stored fresh_parent (duel_manifest c) (duel_manifest_key (manifest_digit c)),
     written duel_object_env (duel_manifest_key (manifest_digit c)) [c] b)"
proof -
  have key: "content_key duel_object_env ''manifests'' [c] = duel_manifest_key (manifest_digit c)"
    using duel_sha [OF assms(1)] by (simp add: content_key_def duel_manifest_key_def)
  have "put_manifest duel_object_env Answered [c] b =
      (Ok (duel_manifest_key (manifest_digit c)),
       written duel_object_env (duel_manifest_key (manifest_digit c)) [c] b)"
    unfolding put_manifest_def put_immutable_def key Let_def s3_put_def assms(2) by (simp add: holds_for_def)
  moreover have "validate_manifest (duel_manifest c) = Ok ()" using assms(1) by (intro duel_valid) auto
  ultimately show ?thesis by (simp add: phase_step_def store_manifest_def duel_canonical)
qed

lemma step_swap:
  assumes "bk_objects b duel_pointer = None"
  shows "phase_step duel_object_env duel_input (duel_push pack (Stored fresh_parent m (duel_manifest_key c))) b =
    (Finished (CasOk m (duel_manifest_key c)), written duel_object_env duel_pointer (duel_digest c) b)"
proof -
  have strip: "strip_prefix (duel_manifest_key c) ''manifests/'' = Some (duel_digest c)"
    by (simp only: strip_prefix_Some duel_manifest_key_def)
  have "put_pointer duel_object_env Answered duel_pointer (duel_digest c) IfNoneMatchStar b =
      (Ok (Won (oe_tag duel_object_env duel_pointer (duel_digest c) (length (bk_writes b)))), written duel_object_env duel_pointer (duel_digest c) b)"
    by (simp add: put_pointer_def s3_put_def assms holds_for_def classify_cas_def)
  then show ?thesis
    unfolding phase_step_def swap_pointer_def duel_push_simps push_phase.case strip option.case duel_pointer_key
    by simp
qed

lemma step_refused:
  assumes "bk_objects b duel_pointer \<noteq> None"
  shows "phase_step duel_object_env duel_input (duel_push pack (Stored fresh_parent m (duel_manifest_key c))) b = (Raced, b)"
proof -
  have strip: "strip_prefix (duel_manifest_key c) ''manifests/'' = Some (duel_digest c)"
    by (simp only: strip_prefix_Some duel_manifest_key_def)
  have "put_pointer duel_object_env Answered duel_pointer (duel_digest c) IfNoneMatchStar b = (Ok LostRace, b)"
    unfolding put_pointer_def s3_put_def using assms by (auto simp: holds_for_def classify_cas_def Let_def)
  then show ?thesis
    unfolding phase_step_def swap_pointer_def duel_push_simps push_phase.case strip option.case duel_pointer_key
    by simp
qed

lemma reach_step:
  assumes "git_reach env \<lparr>gw_bucket = b, gw_pushes = ps, gw_offered = ms\<rparr>" and "i < length ps"
    and "phase_step env inp (ps ! i) b = (ph, b')"
  shows "git_reach env \<lparr>gw_bucket = b', gw_pushes = ps[i := (ps ! i)\<lparr>pu_phase := ph\<rparr>], gw_offered = ms @ offers (ps ! i)\<rparr>"
  using git_advance [OF assms(1), of i inp] assms(2,3) by (simp add: advance_def push_step_def Let_def)

lemma move_first:
  assumes "git_reach env \<lparr>gw_bucket = b, gw_pushes = [duel_push x ph, q], gw_offered = ms\<rparr>"
    and "phase_step env inp (duel_push x ph) b = (ph', b')"
    and "ms' = ms @ offers (duel_push x ph)"
  shows "git_reach env \<lparr>gw_bucket = b', gw_pushes = [duel_push x ph', q], gw_offered = ms'\<rparr>"
  using reach_step [OF assms(1), of 0 inp] assms(2,3) by simp

lemma move_second:
  assumes "git_reach env \<lparr>gw_bucket = b, gw_pushes = [p, duel_push x ph], gw_offered = ms\<rparr>"
    and "phase_step env inp (duel_push x ph) b = (ph', b')"
    and "ms' = ms @ offers (duel_push x ph)"
  shows "git_reach env \<lparr>gw_bucket = b', gw_pushes = [p, duel_push x ph'], gw_offered = ms'\<rparr>"
  using reach_step [OF assms(1), of 1 inp] assms(2,3) by simp

text \<open>Two pushes race; the first wins, the second is about to write the pointer.\<close>

definition duel_bucket :: "nat \<Rightarrow> bucket" where
  "duel_bucket n =
     fold (\<lambda>(k, x). written duel_object_env k x)
       (take n [(duel_pack_key CHR ''1'', ''p''), (duel_pack_key CHR ''2'', ''q''),
          (duel_manifest_key CHR ''3'', ''1''), (duel_manifest_key CHR ''4'', ''2''),
          (duel_pointer, duel_digest CHR ''3'')])
       \<lparr>bk_objects = (\<lambda>_. None), bk_writes = []\<rparr>"

definition duel_stored :: "char \<Rightarrow> push_phase" where
  "duel_stored c = Stored fresh_parent (duel_manifest c) (duel_manifest_key (manifest_digit c))"

definition duel_world :: git_world where
  "duel_world =
     \<lparr>gw_bucket = duel_bucket 5,
      gw_pushes = [duel_push ''p'' (Finished (CasOk (duel_manifest CHR ''1'') (duel_manifest_key CHR ''3''))),
                   duel_push ''q'' (duel_stored CHR ''2'')],
      gw_offered = [duel_manifest CHR ''1'', duel_manifest CHR ''2'']\<rparr>"

lemma duel_digest_inject [simp]: "duel_digest c = duel_digest d \<longleftrightarrow> c = d"
  by (simp add: duel_digest_def numeral_eq_Suc)

lemma duel_keys [simp]:
  "duel_pack_key c = duel_pack_key d \<longleftrightarrow> c = d" "duel_manifest_key c = duel_manifest_key d \<longleftrightarrow> c = d"
  "duel_pack_key c \<noteq> duel_manifest_key d" "duel_manifest_key d \<noteq> duel_pack_key c"
  "duel_pack_key c \<noteq> duel_pointer" "duel_manifest_key c \<noteq> duel_pointer"
  "duel_pointer \<noteq> duel_pack_key c" "duel_pointer \<noteq> duel_manifest_key c"
  by (simp_all add: duel_pack_key_def duel_manifest_key_def duel_pointer_def)

lemma duel_reached: "git_reach duel_object_env duel_world"
proof -
  let ?E = duel_object_env and ?A = "duel_push ''p''" and ?B = "duel_push ''q''"
  let ?w = "\<lambda>n a b ms. \<lparr>gw_bucket = duel_bucket n, gw_pushes = [?A a, ?B b], gw_offered = ms\<rparr>"
  let ?m = duel_manifest
  have bk: "bk_objects (duel_bucket n) k = None"
    if "k \<notin> fst ` set (take n [(duel_pack_key CHR ''1'', ''p''), (duel_pack_key CHR ''2'', ''q''),
          (duel_manifest_key CHR ''3'', ''1''), (duel_manifest_key CHR ''4'', ''2''),
          (duel_pointer, duel_digest CHR ''3'')])" for n k
  proof -
    have "bk_objects (fold (\<lambda>(k, x). written ?E k x) ws b) k = bk_objects b k" if "k \<notin> fst ` set ws" for ws b
      using that by (induction ws arbitrary: b) auto
    with that show ?thesis unfolding duel_bucket_def by simp
  qed
  have "git_reach ?E git_start" by (rule git_init)
  then have "git_reach ?E (git_start\<lparr>gw_pushes := [?A Starting]\<rparr>)"
    using git_arrive [of ?E git_start "?A Starting"] by (simp add: git_start_def)
  then have "git_reach ?E (?w 0 Starting Starting [])"
    using git_arrive [of ?E "git_start\<lparr>gw_pushes := [?A Starting]\<rparr>" "?B Starting"]
    by (simp add: git_start_def duel_bucket_def offers_def)
  then have "git_reach ?E (?w 0 (Ready fresh_parent 0) Starting [])"
    by (rule move_first [OF _ step_locate]) (simp_all add: bk offers_def)
  then have "git_reach ?E (?w 0 (Ready fresh_parent 0) (Ready fresh_parent 0) [])"
    by (rule move_second [OF _ step_locate]) (simp_all add: bk offers_def)
  then have "git_reach ?E (?w 0 (Capturing duel_draft None) (Ready fresh_parent 0) [])"
    by (rule move_first [OF _ step_begin]) (simp add: offers_def)
  then have "git_reach ?E (?w 0 (Capturing duel_draft None) (Capturing duel_draft None) [])"
    by (rule move_second [OF _ step_begin]) (simp add: offers_def)
  then have "git_reach ?E (?w 1 (Composed fresh_parent (?m CHR ''1'')) (Capturing duel_draft None) [])"
    by (rule move_first [where inp = duel_input]) (simp_all add: step_capture bk pack_digit_def duel_bucket_def offers_def)
  then have "git_reach ?E (?w 2 (Composed fresh_parent (?m CHR ''1'')) (Composed fresh_parent (?m CHR ''2'')) [])"
    by (rule move_second [where inp = duel_input]) (simp_all add: step_capture pack_digit_def duel_bucket_def numeral_eq_Suc offers_def)
  then have "git_reach ?E (?w 3 (duel_stored CHR ''1'') (Composed fresh_parent (?m CHR ''2'')) ([] @ [?m CHR ''1'']))"
    by (rule move_first [where inp = duel_input]) (simp_all add: step_store duel_stored_def manifest_digit_def duel_bucket_def numeral_eq_Suc offers_def)
  then have "git_reach ?E (?w 4 (duel_stored CHR ''1'') (duel_stored CHR ''2'') (([] @ [?m CHR ''1'']) @ [?m CHR ''2'']))"
    by (rule move_second [where inp = duel_input]) (simp_all add: step_store duel_stored_def manifest_digit_def duel_bucket_def numeral_eq_Suc offers_def)
  then show ?thesis
    unfolding duel_world_def
    by (rule move_first [where inp = duel_input]) (simp_all add: step_swap duel_stored_def manifest_digit_def duel_bucket_def numeral_eq_Suc offers_def)
qed

lemma duel_conforms: "conforming duel_object_env [duel_manifest CHR ''1'', duel_manifest CHR ''2'']"
proof -
  have "is_manifest_digest (oe_sha256 duel_object_env x)" for x
    by (simp add: duel_object_env_def duel_digest_hex)
  moreover have "oe_tag duel_object_env k x n = oe_tag duel_object_env k x' n' \<longrightarrow> x = x'" for k x n x' n'
    by (simp add: duel_object_env_def)
  moreover have "reads_back duel_object_env (duel_manifest c)" for c
    unfolding reads_back_def duel_canonical by (simp add: duel_object_env_def duel_manifest_def canonical_form_def)
  moreover have "\<not> collide duel_object_env (duel_manifest c) (duel_manifest d)" if "c \<in> set ''12''" "d \<in> set ''12''" for c d
    using that by (auto simp: collide_def duel_canonical duel_sha manifest_digit_def)
  ultimately show ?thesis unfolding conforming_def by simp
qed

lemma duel_world_simps:
  "gw_offered duel_world = [duel_manifest CHR ''1'', duel_manifest CHR ''2'']" "gw_bucket duel_world = duel_bucket 5"
  "gw_pushes duel_world =
     [duel_push ''p'' (Finished (CasOk (duel_manifest CHR ''1'') (duel_manifest_key CHR ''3''))),
      duel_push ''q'' (duel_stored CHR ''2'')]"
  by (simp_all add: duel_world_def)

lemma duel_versions: "versions (duel_bucket 5) duel_pointer = [duel_digest CHR ''3'']"
  by (simp add: duel_bucket_def versions_def)

lemma duel_key: "pointer_key duel_object_env 0 ''o'' ''r'' = duel_pointer"
  using duel_pointer_key [of "[]" Starting] by (simp add: push_pointer_def duel_push_def)

theorem published_history_is_linear_witness:
  "let ds = versions (duel_bucket 5) (pointer_key duel_object_env 0 ''o'' ''r'')
   in ds = [duel_digest CHR ''3''] \<and> linear (manifest_at duel_object_env (duel_bucket 5)) None ds"
  using published_history_is_linear [of duel_object_env duel_world 0 "''o''" "''r''"] duel_reached duel_conforms
  by (simp add: duel_world_simps duel_key duel_versions Let_def)


theorem published_versions_stay_readable_witness:
  "load_manifest duel_object_env Answered Answered (duel_digest CHR ''3'') (duel_bucket 5) = Ok (duel_manifest CHR ''1'')"
proof -
  have "duel_digest CHR ''3'' \<in> set (versions (duel_bucket 5) (pointer_key duel_object_env 0 ''o'' ''r''))"
    by (simp add: duel_key duel_versions)
  from published_versions_stay_readable [OF duel_reached, unfolded duel_world_simps, OF duel_conforms this, of 9]
  obtain m where at: "manifest_at duel_object_env (duel_bucket 5) (duel_digest CHR ''3'') = Some m"
    and load: "length (canonical_bytes duel_object_env m) \<le> MAX_MANIFEST_BYTES \<longrightarrow>
      load_manifest duel_object_env Answered Answered (duel_digest CHR ''3'') (duel_bucket 5) = Ok m" by blast
  have "bk_objects (duel_bucket 5) (''manifests/'' @ duel_digest CHR ''3'')
      = Some (oe_tag duel_object_env (duel_manifest_key CHR ''3'') ''1'' 2, ''1'')"
    unfolding duel_manifest_key_def [symmetric] by (simp add: duel_bucket_def numeral_2_eq_2)
  with at have "m = duel_manifest CHR ''1''" by (simp add: manifest_at_def duel_object_env_def)
  with load show ?thesis by (simp add: duel_canonical MAX_MANIFEST_BYTES_def)
qed

theorem conflict_has_a_winner_witness:
  "fst (phase_step duel_object_env duel_input (duel_push ''q'' (duel_stored CHR ''2'')) (duel_bucket 5)) = Raced
   \<and> versions (duel_bucket 5) duel_pointer \<noteq> []"
proof -
  have "bk_objects (duel_bucket 5) duel_pointer \<noteq> None" by (simp add: duel_bucket_def)
  then have lost: "fst (phase_step duel_object_env duel_input (duel_push ''q'' (duel_stored CHR ''2'')) (duel_bucket 5)) = Raced"
    by (simp add: duel_stored_def step_refused)
  from conflict_has_a_winner [OF duel_reached, unfolded duel_world_simps, OF duel_conforms, of "duel_push ''q'' (duel_stored CHR ''2'')",
      OF _ _ lost] lost show ?thesis
    by (simp add: duel_stored_def duel_pointer_key Let_def)
qed

end
