(* ===== verification/Spec2Isabelle.thy ===== *)
theory Spec2Isabelle
  imports Delivery Count Event_Queue_Laws Membership_Race Git_Policy_Laws Audit_Log_Laws
    Workflow_Template_Laws Network Thread_Pages Thread_Counters
    Workflow_Tables_Laws Ingest_Envelope_Laws Users_Laws Reactions_Laws
    Replaceable_Laws Community_Limits Moderation_Audit Git_Race_Sample
begin

text \<open>
  A verification library of the relay.

  The program. The workspace under \<open>crates/\<close> is a Nostr relay that hosts many communities, each with
  channels, members, threads, reactions, git repositories and workflows, together with the harness
  that feeds events to agents. Clients speak to the relay by EVENT, REQ and COUNT frames and by HTTP
  endpoints. \<open>buzz-core\<close> holds the vocabulary (events, kinds, filters, roles, push rules),
  \<open>buzz-db\<close> the tables and their transactions on PostgreSQL, \<open>buzz-relay\<close> the handlers, \<open>buzz-auth\<close>
  the scopes of a connection, \<open>buzz-audit\<close> the audit chain, \<open>buzz-workflow\<close> the workflow engine,
  \<open>buzz-acp\<close> the event queue of the agent harness. The handlers read and write the tables, the
  subscription registry decides which connections see a stored event, and a command handler or a
  workflow writes events and rows of its own.

  How the code is read. A struct is a record, an enum a datatype, \<open>Result\<close> the type
  \<open>result\<close> of \<open>Prelude\<close> and \<open>Option\<close> is \<open>option\<close>. A function that changes shared state takes the state
  and returns the new one. A table is the list of its rows: a \<open>SELECT\<close> is a filter or a lookup, an
  \<open>UPDATE\<close> maps the rows that its \<open>WHERE\<close> selects, an \<open>INSERT\<close> appends after the checks of keys,
  foreign keys and column constraints, and \<open>ON CONFLICT\<close> is written out. A transaction is one
  step where the source holds a lock over it or where its statements touch one row; a failing
  transaction leaves the state unchanged, and a handler that runs several statements without one
  returns what it leaves behind beside its reply. Concurrency that matters is explicit:
  \<open>Membership_Race\<close> interleaves the statements of the membership writers, \<open>Fanout\<close> the two halves of
  an index removal, \<open>Workflow_Schedule_Laws\<close> the ticks of several pods, \<open>Workflow_Approval_Laws\<close> the
  requests and decisions of a gate. Strings are byte strings. Integers are unbounded where the
  source only compares or counts small numbers and wrap, saturate or fail at their width where it
  says so (\<open>Prelude\<close>, \<open>Event_Queue\<close>, \<open>Workflow_Exec\<close>); addresses are words (\<open>Network\<close>). Hash maps are
  association lists whose order stands for the unspecified iteration order (\<open>Hash_Map\<close>).
\<close>

text \<open>
  The theories, by part.

  Core vocabulary: \<open>Prelude\<close>, \<open>Strings\<close>, \<open>Hash_Map\<close>, \<open>Json\<close>; \<open>Events\<close>, \<open>Kinds\<close> and \<open>Filter_Match\<close> for
  \<open>event.rs\<close>, \<open>kind.rs\<close> and \<open>filter.rs\<close> of \<open>buzz-core\<close>; \<open>Roles\<close> for its \<open>channel.rs\<close>, \<open>Network\<close> for its
  \<open>network.rs\<close>; \<open>Scopes\<close> for \<open>buzz-auth\<close> and the authentication state of a connection.

  Reading: \<open>Subscription\<close> is \<open>subscription.rs\<close>, the record \<open>registry\<close> with its table and five inverted
  indexes and one definition per method; \<open>Registry_Laws\<close> and \<open>Fanout\<close> show that the indexes never drift
  from the table, that the table refines a plain map, and that fan-out equals a scan of it.
  \<open>Read_Gates\<close>, \<open>Historical\<close> and \<open>Count\<close> are \<open>req.rs\<close> and \<open>count.rs\<close>, on the queries of \<open>Event_Store\<close>
  (\<open>event.rs\<close> of \<open>buzz-db\<close>); \<open>Historical_Laws\<close> and \<open>Pushdown\<close> show that REQ delivers only what the
  reader may see and, below the row limit, all of it, and \<open>Count\<close> that a count reveals no more than the
  rows a reader may see. \<open>Delivery\<close> is the fan-out of \<open>event.rs\<close> of the relay; it proves the local
  path exact and shows the gate that the path between pods lacks.

  Channels: \<open>Channels\<close> and \<open>Membership\<close> are \<open>channel.rs\<close> of \<open>buzz-db\<close> and the membership handlers of
  \<open>side_effects.rs\<close>; \<open>Membership_Laws\<close>, \<open>Membership_Security\<close> and \<open>Membership_Race\<close> hold the policy as
  a reference definition, the last-owner invariant, security over runs, and why the lock is needed.
  \<open>Threads\<close>, \<open>Thread_Pages\<close>, \<open>Thread_Counters\<close> are \<open>thread.rs\<close> with its counters and keyset pages;
  \<open>Reactions\<close>, \<open>Users\<close> and \<open>Replaceable\<close> with their laws are \<open>reaction.rs\<close>, \<open>user.rs\<close> and the
  replacement transactions of \<open>lib.rs\<close>.

  Communities: \<open>Communities\<close> is \<open>relay_members.rs\<close> and \<open>relay_invite.rs\<close>, \<open>Community_Laws\<close> its
  invariants, \<open>Community_Limits\<close> its limits. \<open>Moderation\<close> is \<open>moderation.rs\<close> and
  \<open>moderation_authz.rs\<close>, \<open>Moderation_Commands\<close> the command handlers of \<open>moderation_commands.rs\<close> and
  \<open>relay_admin.rs\<close>; \<open>Moderation_Laws\<close> and \<open>Moderation_Audit\<close> show that every restriction and every
  change of the roster has an authorised author and a record, and that a closed report stays closed.

  Ingest: \<open>Ingest_Kinds\<close> and \<open>Ingest_Envelopes\<close> are the kind tables and the shape checks of \<open>ingest.rs\<close>;
  \<open>Ingest_Envelope_Laws\<close> relates them to reference formats.

  Git: \<open>Git_Perms\<close> is \<open>git_perms.rs\<close>, \<open>Git_Policy\<close> the endpoint \<open>api/git/policy.rs\<close>; their laws give
  the meaning of the rules and show that an accepted push is authorised. \<open>Git_Store\<close> is
  \<open>api/git/manifest.rs\<close> and \<open>store.rs\<close>, \<open>Git_Publish\<close> and \<open>Git_Push\<close> are \<open>hydrate.rs\<close>,
  \<open>cas_publish.rs\<close> and the push handler of \<open>transport.rs\<close>: a push is a program whose steps interleave
  with those of others over one bucket. \<open>Git_Push_Laws\<close>, \<open>Git_Push_Safety\<close> and \<open>Git_Published\<close> carry
  the invariant of the bucket and of every phase through all runs, and show that the history of a
  repository is a line; \<open>Git_Race_Sample\<close> is a race of two pushes. Audit: \<open>Audit_Log\<close> and its
  laws, crate \<open>buzz-audit\<close>.

  Workflows: \<open>Workflow_Schema\<close>, \<open>Workflow_Template\<close>, \<open>Workflow_Exec\<close> and \<open>Workflow_Engine\<close> are the
  crate \<open>buzz-workflow\<close>, \<open>Workflow_Store\<close> the tables of \<open>workflow.rs\<close>, \<open>Workflow_Sink\<close>,
  \<open>Workflow_Commands\<close> and \<open>Workflow_Approvals\<close> the relay's side of it. The theories named
  \<open>Workflow_..._Laws\<close> hold typed tables, termination of runs, suspension and restoration, authority at
  every door, approval gates as a state machine, the schedule, and interval triggers against a clock.

  Agents: \<open>Event_Queue\<close> and its laws, \<open>queue.rs\<close> of \<open>buzz-acp\<close>.
\<close>

text \<open>
  Interfaces. \<open>invariant_system\<close> and \<open>monotone_system\<close> (\<open>Prelude\<close>) lift one-step facts to runs and are
  interpreted on the registry, the queue and the channel tables; \<open>posting_index\<close> (\<open>Hash_Map\<close>) is what
  the registry needs of an inverted index; \<open>keyset_pages\<close> (\<open>Thread_Pages\<close>) is the one law about cursors
  that both thread queries meet; \<open>dispatch_law\<close> and \<open>lawful_sink\<close> (\<open>Workflow_Run_Laws\<close>) are what the
  step loop needs of an action and of a sink.

  Third-party code is a parameter. SHA-256 and HMAC, the answers of \<open>git\<close> subprocesses, the UUID parser, the nostr crate's key parsing and
  signing, the YAML and JSON codecs, the cron crate, the expression evaluator, name resolution and HTTP
  servers, the collation of PostgreSQL, the full-text search statement and the RFC 3339 printer are
  fields of environment records or arguments. \<open>from_ts\<close> is \<open>DateTime::from_timestamp\<close>; clocks, fresh
  identifiers and random codes are arguments. What a theorem needs of one is a named hypothesis, with a
  witness that instantiates it.

  Bounds and fuel. The recursion of the model is structural or has a measure. The page loop of a search
  takes the code's own bound \<open>MAX_SEARCH_PAGES\<close> as its fuel, so it is exact. The reader of
  \<open>Thread_Pages\<close> takes any number of pages as fuel; the theorems state that more pages than rows
  are enough.

  Not modelled. Pure input and output: sockets, frames, HTTP routing, metrics, logs and traces. Programs
  around the relay: the agent process with its LLM clients, the command line tools, the administration
  tool, the development server, the test and WebSocket clients, the git credential and signing helpers,
  the user interfaces. Code that is third-party libraries at work: media processing, full-text search,
  the builders of signed events, the verification of signatures. Of the relay, direct messages and the
  discovery events that announce a channel are left out. \<open>buzz-persona\<close>, \<open>buzz-push-gateway\<close> and
  \<open>buzz-conformance\<close> have logic of their own and are not modelled yet.
\<close>

end
